(* ===== verification/Prelude.thy ===== *)
theory Prelude
  imports Main "HOL-Library.Word" "HOL-Library.AList" "HOL-Library.Sublist"
begin

text \<open>
  The vocabulary the component theories share: Rust's machine integers as words of their
  width, \<open>std::collections::HashMap\<close> as an association list with distinct keys (the list
  order is the unspecified iteration order of the map), little-endian byte strings,
  event-driven components as a step function folded over a list of events, and the two
  interfaces (locales) that several components offer: a keyed store and a machine with an
  invariant.
\<close>

unbundle bit_operations_syntax

section \<open>Machine integers\<close>

type_synonym u8 = "8 word"
type_synonym u16 = "16 word"
type_synonym u32 = "32 word"
type_synonym u64 = "64 word"
type_synonym u128 = "128 word"
type_synonym i32 = "32 word"
type_synonym i64 = "64 word"

text \<open>The largest \<open>usize\<close> of the 64-bit targets.\<close>

definition usize_max :: nat where
  "usize_max = 2 ^ 64 - 1"

named_theorems word_facts \<open>conversions between words and natural numbers\<close>
named_theorems inv_intros \<open>invariant preservation, one rule per operation\<close>

lemma or_push_bit_nat:
  assumes "a < 2 ^ k"
  shows "a OR push_bit k b = a + 2 ^ k * (b :: nat)"
proof -
  have t: "take_bit k a = a" using assms by (simp add: take_bit_nat_eq_self_iff)
  have "a AND push_bit k b = 0"
  proof (rule bit_eqI)
    fix n
    have "bit a n \<Longrightarrow> n < k" by (metis t bit_take_bit_iff)
    then show "bit (a AND push_bit k b) n = bit (0 :: nat) n"
      by (auto simp: bit_and_iff bit_push_bit_iff)
  qed
  then show ?thesis
    by (simp add: disjunctive_add_eq_or [symmetric] push_bit_eq_mult)
qed

lemma unat_push_bit_exact [word_facts]:
  fixes b :: "'a::len word"
  assumes "unat b * 2 ^ k < 2 ^ LENGTH('a)"
  shows "unat (push_bit k b) = unat b * 2 ^ k"
  using assms by (simp add: unsigned_push_bit_eq push_bit_nat_def take_bit_nat_eq_self_iff)

lemma unat_or_push_bit [word_facts]:
  fixes a b :: "'a::len word"
  assumes "unat a < 2 ^ k" and "unat b * 2 ^ k < 2 ^ LENGTH('a)"
  shows "unat (a OR push_bit k b) = unat a + 2 ^ k * unat b"
proof -
  have "unat (a OR push_bit k b) = unat a OR push_bit k (unat b)"
    using unat_push_bit_exact [OF assms(2)]
    by (simp add: unsigned_or_eq push_bit_nat_def)
  then show ?thesis using or_push_bit_nat [OF assms(1), of "unat b"] by simp
qed

lemma unat_of_nat_exact [word_facts]:
  "n < 2 ^ LENGTH('a) \<Longrightarrow> unat (of_nat n :: 'a::len word) = n"
  by (simp add: unsigned_of_nat take_bit_nat_eq_self_iff)

lemma unat_less_exp: "unat (w :: 'a::len word) < 2 ^ LENGTH('a)"
  by (rule unsigned_less)

lemma unat_drop_bit [word_facts]: "unat (drop_bit k w :: 'a::len word) = unat w div 2 ^ k"
proof -
  have "take_bit LENGTH('a) (unat w) = unat w"
    using unat_less_exp [of w] by (simp only: take_bit_nat_eq_self_iff)
  then show ?thesis
    using unsigned_drop_bit_eq [of k w, where ?'a = nat] by (metis drop_bit_eq_div)
qed

lemma unat_and_mask [word_facts]:
  "unat (w AND of_nat (2 ^ k - 1) :: 'a::len word) = unat w mod 2 ^ k"
proof -
  have "(of_nat (2 ^ k - 1) :: 'a word) = mask k"
    by (simp add: mask_eq_exp_minus_1)
  then have "w AND of_nat (2 ^ k - 1) = take_bit k w" by (simp add: take_bit_eq_mask)
  then show ?thesis
    using unsigned_take_bit_eq [of k w, where ?'a = nat] by (simp add: take_bit_eq_mod [of k "unat w"])
qed

lemma unat_u8_less: "unat (b :: u8) < 256"
  using unsigned_less [of b] by simp

section \<open>Little-endian byte strings\<close>

text \<open>\<open>to_le_bytes\<close> and \<open>from_le_bytes\<close> of the unsigned integer types, on the numeric value.\<close>

fun to_le_bytes :: "nat \<Rightarrow> nat \<Rightarrow> u8 list" where
  "to_le_bytes 0 v = []"
| "to_le_bytes (Suc n) v = of_nat v # to_le_bytes n (v div 256)"

fun from_le_bytes :: "u8 list \<Rightarrow> nat" where
  "from_le_bytes [] = 0"
| "from_le_bytes (b # bs) = unat b + 256 * from_le_bytes bs"

lemma length_to_le_bytes [simp]: "length (to_le_bytes n v) = n"
  by (induction n arbitrary: v) auto

lemma from_to_le_bytes [simp]: "from_le_bytes (to_le_bytes n v) = v mod 256 ^ n"
proof (induction n arbitrary: v)
  case (Suc n)
  have "v mod (256 * 256 ^ n) = v mod 256 + 256 * (v div 256 mod 256 ^ n)"
    by (simp add: mod_mult2_eq add.commute)
  then show ?case
    by (simp add: Suc.IH unsigned_of_nat take_bit_eq_mod)
qed simp

lemma from_le_bytes_less: "from_le_bytes bs < 256 ^ length bs"
proof (induction bs)
  case (Cons b bs)
  have "unat b + 256 * from_le_bytes bs < 256 + 256 * from_le_bytes bs"
    using unat_u8_less [of b] by simp
  also have "\<dots> \<le> 256 * 256 ^ length bs"
    using Cons.IH by simp
  finally show ?case by simp
qed simp

lemma from_le_bytes_append:
  "from_le_bytes (bs @ cs) = from_le_bytes bs + 256 ^ length bs * from_le_bytes cs"
  by (induction bs) (auto simp: algebra_simps)

lemma from_le_bytes_zeros [simp]: "from_le_bytes (replicate n 0) = 0"
  by (induction n) auto

lemma to_from_le_bytes [simp]: "to_le_bytes (length bs) (from_le_bytes bs) = bs"
proof (induction bs)
  case (Cons b bs)
  have "(unat b + 256 * from_le_bytes bs) div 256 = from_le_bytes bs"
    using unat_u8_less [of b] by simp
  moreover have "(of_nat (unat b + 256 * from_le_bytes bs) :: u8) = b"
  proof -
    have "(256 :: u8) = 0" by simp
    then have "(of_nat (256 * from_le_bytes bs) :: u8) = 0"
      by (metis mult_zero_left of_nat_mult of_nat_numeral)
    then show ?thesis by simp
  qed
  ultimately show ?case using Cons.IH by simp
qed simp

section \<open>Hash maps\<close>

type_synonym ('k, 'v) hmap = "('k \<times> 'v) list"

definition hm_ok :: "('k, 'v) hmap \<Rightarrow> bool" where
  "hm_ok m \<longleftrightarrow> distinct (map fst m)"

abbreviation hm_get :: "('k, 'v) hmap \<Rightarrow> 'k \<Rightarrow> 'v option" where
  "hm_get m k \<equiv> map_of m k"

abbreviation hm_insert :: "'k \<Rightarrow> 'v \<Rightarrow> ('k, 'v) hmap \<Rightarrow> ('k, 'v) hmap" where
  "hm_insert k v m \<equiv> AList.update k v m"

abbreviation hm_remove :: "'k \<Rightarrow> ('k, 'v) hmap \<Rightarrow> ('k, 'v) hmap" where
  "hm_remove k m \<equiv> AList.delete k m"

definition hm_retain :: "('k \<Rightarrow> 'v \<Rightarrow> bool) \<Rightarrow> ('k, 'v) hmap \<Rightarrow> ('k, 'v) hmap" where
  "hm_retain P m = filter (\<lambda>(k, v). P k v) m"

lemma hm_ok_Nil [simp, inv_intros]: "hm_ok []"
  by (simp add: hm_ok_def)

lemma hm_ok_insert [simp, inv_intros]: "hm_ok m \<Longrightarrow> hm_ok (hm_insert k v m)"
  by (simp add: hm_ok_def distinct_update)

lemma hm_ok_remove [simp, inv_intros]: "hm_ok m \<Longrightarrow> hm_ok (hm_remove k m)"
  by (simp add: hm_ok_def distinct_delete)

lemma hm_ok_retain [simp, inv_intros]: "hm_ok m \<Longrightarrow> hm_ok (hm_retain P m)"
  by (simp add: hm_ok_def hm_retain_def distinct_map_filter)

lemma hm_get_insert [simp]: "hm_get (hm_insert k v m) k' = (if k' = k then Some v else hm_get m k')"
  by (simp add: update_conv')

lemma hm_get_remove [simp]: "hm_get (hm_remove k m) k' = (if k' = k then None else hm_get m k')"
  by (simp add: delete_conv')

lemma hm_get_retain:
  "hm_ok m \<Longrightarrow> hm_get (hm_retain P m) k
     = (case hm_get m k of None \<Rightarrow> None | Some v \<Rightarrow> if P k v then Some v else None)"
  by (induction m) (auto simp: hm_ok_def hm_retain_def split: option.splits if_splits
      dest: map_of_SomeD intro: rev_image_eqI)

lemma hm_get_in: "hm_ok m \<Longrightarrow> (k, v) \<in> set m \<longleftrightarrow> hm_get m k = Some v"
  by (auto simp: hm_ok_def dest: map_of_SomeD)

lemma hm_in_insertD: "(k', v') \<in> set (hm_insert k v m) \<Longrightarrow> (k' = k \<and> v' = v) \<or> (k', v') \<in> set m"
  by (induction m) (auto split: if_splits)

lemma hm_in_removeD: "(k', v') \<in> set (hm_remove k m) \<Longrightarrow> (k', v') \<in> set m"
  by (auto simp: AList.delete_eq)

lemma hm_insert_not_Nil [simp]: "hm_insert k v m \<noteq> []"
  by (cases m) auto

text \<open>
  The update idiom of the sources, \<open>if let Some(v) = m.get_mut(&k) { f(v) } else { m.insert(k, d) }\<close>.
\<close>

definition hm_upsert :: "'k \<Rightarrow> ('v \<Rightarrow> 'v) \<Rightarrow> 'v \<Rightarrow> ('k, 'v) hmap \<Rightarrow> ('k, 'v) hmap" where
  "hm_upsert k f d m =
     (case hm_get m k of Some v \<Rightarrow> hm_insert k (f v) m | None \<Rightarrow> hm_insert k d m)"

lemma hm_ok_upsert [simp, inv_intros]: "hm_ok m \<Longrightarrow> hm_ok (hm_upsert k f d m)"
  by (simp add: hm_upsert_def split: option.split)

lemma hm_get_upsert [simp]:
  "hm_get (hm_upsert k f d m) k' =
     (if k' = k then Some (case hm_get m k of Some v \<Rightarrow> f v | None \<Rightarrow> d) else hm_get m k')"
  by (simp add: hm_upsert_def split: option.split)

section \<open>Interfaces\<close>

text \<open>
  A keyed store: what a client may rely on after a write or a removal. The hash map above
  provides it, and so do the components that keep their state behind keyed accessors.
\<close>

locale keyed_store =
  fixes get :: "'s \<Rightarrow> 'k \<Rightarrow> 'v option"
    and put :: "'k \<Rightarrow> 'v \<Rightarrow> 's \<Rightarrow> 's"
    and del :: "'k \<Rightarrow> 's \<Rightarrow> 's"
    and ok :: "'s \<Rightarrow> bool"
  assumes get_put: "ok s \<Longrightarrow> get (put k v s) k' = (if k' = k then Some v else get s k')"
    and get_del: "ok s \<Longrightarrow> get (del k s) k' = (if k' = k then None else get s k')"
    and ok_put: "ok s \<Longrightarrow> ok (put k v s)"
    and ok_del: "ok s \<Longrightarrow> ok (del k s)"
begin

lemma get_put_twice: "ok s \<Longrightarrow> get (put k v (put k w s)) k' = get (put k v s) k'"
  by (simp add: get_put ok_put)

lemma get_del_put: "ok s \<Longrightarrow> get (del k (put k v s)) k' = get (del k s) k'"
  by (simp add: get_put get_del ok_put)

lemma get_puts:
  "ok s \<Longrightarrow> get (fold (\<lambda>(k, v). put k v) kvs s) k'
     = (case map_of (rev kvs) k' of Some v \<Rightarrow> Some v | None \<Rightarrow> get s k')"
proof (induction kvs arbitrary: s)
  case (Cons kv kvs)
  then show ?case
    by (cases kv) (auto simp: get_put ok_put map_add_def split: option.splits)
qed simp

end

interpretation hm: keyed_store map_of AList.update AList.delete hm_ok
  by unfold_locales simp_all

text \<open>
  A machine: a step function over events and an invariant that every step keeps. A run folds
  the step over the events; invariants, frames and monotone measures lift to runs once, here.
\<close>

definition run :: "('s \<Rightarrow> 'e \<Rightarrow> 's) \<Rightarrow> 's \<Rightarrow> 'e list \<Rightarrow> 's" where
  "run step s es = foldl step s es"

lemma run_simps [simp]:
  "run step s [] = s"
  "run step s (e # es) = run step (step s e) es"
  "run step s (es @ fs) = run step (run step s es) fs"
  by (simp_all add: run_def)

locale machine =
  fixes step :: "'s \<Rightarrow> 'e \<Rightarrow> 's"
    and inv :: "'s \<Rightarrow> bool"
  assumes step_inv: "inv s \<Longrightarrow> inv (step s e)"
begin

lemma run_inv: "inv s \<Longrightarrow> inv (run step s es)"
  by (induction es arbitrary: s) (auto intro: step_inv)

lemma run_frame:
  assumes "\<And>s e. inv s \<Longrightarrow> e \<in> set es \<Longrightarrow> f (step s e) = f s" and "inv s"
  shows "f (run step s es) = f s"
  using assms
proof (induction es arbitrary: s)
  case (Cons e es)
  have "f (run step (step s e) es) = f (step s e)"
    using Cons.prems by (intro Cons.IH) (auto intro: step_inv)
  also have "\<dots> = f s" using Cons.prems by simp
  finally show ?case by simp
qed simp

lemma run_preserves:
  assumes "\<And>s e. inv s \<Longrightarrow> P s \<Longrightarrow> e \<in> set es \<Longrightarrow> P (step s e)" and "inv s" and "P s"
  shows "P (run step s es)"
  using assms by (induction es arbitrary: s) (auto intro: step_inv)

end

end
