(* ===== verification/Bytes_Codec.thy ===== *)
theory Bytes_Codec
  imports Prelude
begin

text \<open>
  The length-prefixed framing of every TCP connection
  (\<open>libs/hbb_common/src/bytes_codec.rs\<close>): \<open>decode_head\<close>, \<open>decode_data\<close>, the \<open>Decoder\<close> and
  the \<open>Encoder\<close>. A buffer (\<open>BytesMut\<close>) is a byte list; \<open>reserve\<close> only changes its capacity
  and has no counterpart. The receiving side of a connection, bytes arriving in chunks of any
  size and \<open>decode\<close> called at any time, is a step relation.
\<close>

section \<open>State\<close>

datatype decode_state = Head | Data nat

record bytes_codec =
  cstate :: decode_state
  raw :: bool
  max_packet_length :: nat

datatype io_error = InvalidData string | InvalidInput string | OtherError string

definition codec_new :: bytes_codec where
  "codec_new = \<lparr>cstate = Head, raw = False, max_packet_length = usize_max\<rparr>"

definition set_raw :: "bytes_codec \<Rightarrow> bytes_codec" where
  "set_raw c = c\<lparr>raw := True\<rparr>"

definition set_max_packet_length :: "nat \<Rightarrow> bytes_codec \<Rightarrow> bytes_codec" where
  "set_max_packet_length n c = c\<lparr>max_packet_length := n\<rparr>"

section \<open>Decoding\<close>

text \<open>The length of the header, from the two low bits of its first byte.\<close>

definition head_len :: "u8 \<Rightarrow> nat" where
  "head_len b = unat ((b AND 3) + 1)"

text \<open>The \<open>usize\<close> that the header's bytes spell, before its two tag bits are shifted out.\<close>

definition head_word :: "nat \<Rightarrow> u8 list \<Rightarrow> u64" where
  "head_word hl src =
     (let n = ucast (src ! 0);
          n = (if hl > 1 then n OR push_bit 8 (ucast (src ! 1)) else n);
          n = (if hl > 2 then n OR push_bit 16 (ucast (src ! 2)) else n);
          n = (if hl > 3 then n OR push_bit 24 (ucast (src ! 3)) else n)
      in n)"

definition decode_head :: "bytes_codec \<Rightarrow> u8 list \<Rightarrow> io_error + nat option \<times> u8 list" where
  "decode_head c src =
     (if src = [] then Inr (None, src)
      else let hl = head_len (src ! 0) in
        if length src < hl then Inr (None, src)
        else let n = unat (drop_bit 2 (head_word hl src)) in
          if n > max_packet_length c then Inl (InvalidData ''Too big packet'')
          else Inr (Some n, drop hl src))"

definition decode_data :: "nat \<Rightarrow> u8 list \<Rightarrow> u8 list option \<times> u8 list" where
  "decode_data n src =
     (if length src < n then (None, src) else (Some (take n src), drop n src))"

text \<open>\<open>Decoder::decode\<close>. An error leaves the codec and the buffer as they were.\<close>

definition decode :: "bytes_codec \<Rightarrow> u8 list \<Rightarrow> io_error + u8 list option \<times> bytes_codec \<times> u8 list" where
  "decode c src =
     (if raw c then
        (if src \<noteq> [] then Inr (Some src, c, []) else Inr (None, c, src))
      else
        case (case cstate c of
                Head \<Rightarrow>
                  (case decode_head c src of
                     Inl e \<Rightarrow> Inl e
                   | Inr (Some n, src') \<Rightarrow> Inr (Some n, c\<lparr>cstate := Data n\<rparr>, src')
                   | Inr (None, src') \<Rightarrow> Inr (None, c, src'))
              | Data n \<Rightarrow> Inr (Some n, c, src)) of
          Inl e \<Rightarrow> Inl e
        | Inr (None, c', src') \<Rightarrow> Inr (None, c', src')
        | Inr (Some n, c', src') \<Rightarrow>
            (case decode_data n src' of
               (Some data, src'') \<Rightarrow> Inr (Some data, c'\<lparr>cstate := Head\<rparr>, src'')
             | (None, src'') \<Rightarrow> Inr (None, c', src'')))"

section \<open>Encoding\<close>

text \<open>\<open>put_u8\<close>, \<open>put_u16_le\<close> and \<open>put_u32_le\<close>.\<close>

definition put_u8 :: "u8 \<Rightarrow> u8 list \<Rightarrow> u8 list" where
  "put_u8 b buf = buf @ [b]"

definition put_u16_le :: "u16 \<Rightarrow> u8 list \<Rightarrow> u8 list" where
  "put_u16_le w buf = buf @ to_le_bytes 2 (unat w)"

definition put_u32_le :: "u32 \<Rightarrow> u8 list \<Rightarrow> u8 list" where
  "put_u32_le w buf = buf @ to_le_bytes 4 (unat w)"

definition encode :: "bytes_codec \<Rightarrow> u8 list \<Rightarrow> u8 list \<Rightarrow> io_error + u8 list" where
  "encode c data buf =
     (let len = (of_nat (length data) :: u64); shifted = push_bit 2 len in
      if raw c then Inr (buf @ data)
      else if length data \<le> 0x3F then Inr (put_u8 (ucast shifted) buf @ data)
      else if length data \<le> 0x3FFF then Inr (put_u16_le (ucast shifted OR 1) buf @ data)
      else if length data \<le> 0x3FFFFF then
        (let h = (ucast shifted :: u32) OR 2 in
         Inr (put_u8 (ucast (drop_bit 16 h)) (put_u16_le (ucast (h AND 0xFFFF)) buf) @ data))
      else if length data \<le> 0x3FFFFFFF then Inr (put_u32_le (ucast shifted OR 3) buf @ data)
      else Inl (InvalidInput ''Overflow''))"

section \<open>The header of a frame\<close>

text \<open>The number of header bytes and the number they spell, by the length of the payload.\<close>

definition frame_head_len :: "nat \<Rightarrow> nat" where
  "frame_head_len n = (if n \<le> 0x3F then 1 else if n \<le> 0x3FFF then 2 else if n \<le> 0x3FFFFF then 3 else 4)"

definition frame_head :: "nat \<Rightarrow> u8 list" where
  "frame_head n = to_le_bytes (frame_head_len n) (4 * n + (frame_head_len n - 1))"

lemma head_word_bytes:
  assumes "hl \<le> length src" and "0 < hl" and "hl \<le> 4"
  shows "unat (head_word hl src) = from_le_bytes (take hl src)"
proof -
  have b: "unat (ucast (b :: u8) :: u64) = unat b" "unat b < 256" for b :: u8
    using unat_u8_less [of b] by (simp_all add: unsigned_ucast_eq take_bit_nat_eq_self_iff)
  have or8: "unat ((x :: u64) OR push_bit k (ucast b)) = unat x + 2 ^ k * unat (b :: u8)"
    if "unat x < 2 ^ k" and "k \<le> 24" for x k b
  proof -
    have "(2 :: nat) ^ k \<le> 2 ^ 24" using that(2) by (rule power_increasing) simp
    then have "unat b * 2 ^ k \<le> 255 * 2 ^ 24"
      using b(2) [of b] by (intro mult_mono) auto
    then show ?thesis using unat_or_push_bit [of x k "ucast b"] that(1) b(1) [of b] by simp
  qed
  obtain b0 b1 b2 b3 rest where
    "hl = 1 \<and> src = b0 # rest \<or> hl = 2 \<and> src = b0 # b1 # rest \<or>
     hl = 3 \<and> src = b0 # b1 # b2 # rest \<or> hl = 4 \<and> src = b0 # b1 # b2 # b3 # rest"
  proof -
    have "hl \<in> {1, 2, 3, 4}" using assms(2,3) by auto
    then show ?thesis using assms(1) that
      by (auto simp: numeral_eq_Suc Suc_le_length_iff)
  qed
  then show ?thesis
    using b(2) [of b0] b(2) [of b1] b(2) [of b2] b(2) [of b3]
    by (elim disjE) (simp_all add: head_word_def or8 b(1))
qed

lemma frame_head_len_bounds [simp]: "0 < frame_head_len n" "frame_head_len n \<le> 4"
  by (simp_all add: frame_head_len_def)

lemma length_frame_head [simp]: "length (frame_head n) = frame_head_len n"
  by (simp add: frame_head_def)

lemma frame_head_not_Nil [simp]: "frame_head n \<noteq> []"
  using length_frame_head [of n] frame_head_len_bounds(1) [of n] by (metis list.size(3) less_irrefl)

text \<open>The payload's length, shifted, tagged and cast to the header's integer type.\<close>

lemma shifted_or_tag:
  assumes "n < 2 ^ (LENGTH('a) - 2)" and "2 \<le> LENGTH('a)" and "LENGTH('a) \<le> 64" and "tag < 4"
  shows "unat (ucast (push_bit 2 (of_nat n :: u64)) OR of_nat tag :: 'a::len word) = 4 * n + tag"
proof -
  have pow: "(4 :: nat) * 2 ^ (LENGTH('a) - 2) = 2 ^ LENGTH('a)"
    using assms(2) by (metis le_add_diff_inverse power_add power2_eq_square mult_2 numeral_Bit0_eq_double)
  have n4: "4 * n < 2 ^ LENGTH('a)" using assms(1) pow by linarith
  have len64: "(2 :: nat) ^ LENGTH('a) \<le> 2 ^ 64" using assms(3) by (intro power_increasing) auto
  have n64: "unat (of_nat n :: u64) = n"
    by (rule unat_of_nat_exact) (use n4 len64 in simp)
  have "unat (push_bit 2 (of_nat n :: u64)) = n * 4"
    using unat_push_bit_exact [of "of_nat n :: u64" 2] n64 n4 len64 by simp
  then have "unat (ucast (push_bit 2 (of_nat n :: u64)) :: 'a word) = n * 4"
    using n4 by (simp add: unsigned_ucast_eq take_bit_nat_eq_self_iff mult.commute)
  moreover have na: "unat (of_nat n :: 'a word) = n"
    by (rule unat_of_nat_exact) (use n4 in simp)
  moreover have "unat (push_bit 2 (of_nat n :: 'a word)) = n * 4"
    using unat_push_bit_exact [of "of_nat n :: 'a word" 2] na n4 by (simp add: mult.commute)
  ultimately have eq: "(ucast (push_bit 2 (of_nat n :: u64)) :: 'a word) = push_bit 2 (of_nat n)"
    by (simp add: word_unat_eq_iff)
  have "unat (of_nat tag :: 'a word) = tag"
    by (rule unat_of_nat_exact)
      (use assms(2,4) power_increasing [of 2 "LENGTH('a)" "2 :: nat"] in simp)
  then show ?thesis
    using unat_or_push_bit [of "of_nat tag :: 'a word" 2 "of_nat n"] na n4 assms(4)
    by (simp add: eq or.commute mult.commute)
qed

lemma of_nat_u8_mod: "(of_nat (v mod 65536) :: u8) = of_nat v"
  by (simp add: word_unat_eq_iff unsigned_of_nat take_bit_eq_mod mod_mod_cancel)

lemma of_nat_u8_mod_div: "(of_nat (v mod 65536 div 256) :: u8) = of_nat (v div 256)"
  using mod_mult2_eq [of v 256 256]
  by (simp add: word_unat_eq_iff unsigned_of_nat take_bit_eq_mod)

lemma to_le_bytes_3:
  "to_le_bytes 3 v = to_le_bytes 2 (v mod 65536) @ [of_nat (v div 65536)]"
proof -
  have "to_le_bytes 3 v = [of_nat v, of_nat (v div 256), of_nat (v div 256 div 256)]"
    by (simp add: numeral_3_eq_3)
  moreover have "to_le_bytes 2 w = [of_nat w, of_nat (w div 256)]" for w
    by (simp add: numeral_2_eq_2)
  moreover have "v div 256 div 256 = v div 65536"
    using div_mult2_eq [of v 256 256] by simp
  ultimately show ?thesis by (simp add: of_nat_u8_mod of_nat_u8_mod_div)
qed

theorem encode_frame:
  assumes "\<not> raw c" and "length data \<le> 0x3FFFFFFF"
  shows "encode c data buf = Inr (buf @ frame_head (length data) @ data)"
proof -
  let ?n = "length data"
  let ?s = "push_bit 2 (of_nat ?n :: u64)"
  consider "?n \<le> 0x3F" | "0x3F < ?n" "?n \<le> 0x3FFF" | "0x3FFF < ?n" "?n \<le> 0x3FFFFF"
    | "0x3FFFFF < ?n" by linarith
  then show ?thesis
  proof cases
    case 1
    have "unat (ucast ?s OR of_nat 0 :: u8) = 4 * ?n + 0"
      by (rule shifted_or_tag) (use 1 in simp_all)
    moreover have "unat (of_nat (4 * ?n) :: u8) = 4 * ?n"
      by (rule unat_of_nat_exact) (use 1 in simp)
    ultimately have "ucast ?s = (of_nat (4 * ?n) :: u8)"
      by (simp add: word_unat_eq_iff del: of_nat_mult)
    with 1 assms show ?thesis
      by (simp add: encode_def put_u8_def frame_head_def frame_head_len_def)
  next
    case 2
    have "unat (ucast ?s OR of_nat 1 :: u16) = 4 * ?n + 1"
      by (rule shifted_or_tag) (use 2 in simp_all)
    with 2 assms show ?thesis
      by (simp add: encode_def put_u16_le_def frame_head_def frame_head_len_def Let_def)
  next
    case 3
    let ?v = "4 * ?n + 2"
    have h: "unat (ucast ?s OR of_nat 2 :: u32) = ?v"
      by (rule shifted_or_tag) (use 3 in simp_all)
    have lo: "unat (ucast ((ucast ?s OR 2 :: u32) AND 0xFFFF) :: u16) = ?v mod 65536"
    proof -
      have "(ucast ?s OR 2 :: u32) AND 0xFFFF = take_bit 16 (ucast ?s OR 2)"
        by (simp add: take_bit_eq_mask mask_numeral)
      then show ?thesis using h by (simp add: unsigned_ucast_eq unsigned_take_bit_eq take_bit_eq_mod unat_mod)
    qed
    have hi: "(ucast (drop_bit 16 (ucast ?s OR 2 :: u32)) :: u8) = of_nat (?v div 65536)"
    proof -
      have "unat (drop_bit 16 (ucast ?s OR 2 :: u32)) = ?v div 65536"
        using h by (simp add: unsigned_drop_bit_eq drop_bit_eq_div unat_div)
      then show ?thesis by (simp add: word_unat_eq_iff unsigned_ucast_eq unsigned_of_nat)
    qed
    have "to_le_bytes 3 ?v = to_le_bytes 2 (?v mod 65536) @ [of_nat (?v div 65536)]"
      by (rule to_le_bytes_3)
    with 3 assms lo hi show ?thesis
      by (simp add: encode_def put_u16_le_def put_u8_def frame_head_def frame_head_len_def Let_def)
  next
    case 4
    have "unat (ucast ?s OR of_nat 3 :: u32) = 4 * ?n + 3"
      by (rule shifted_or_tag) (use 4 assms in simp_all)
    with 4 assms show ?thesis
      by (simp add: encode_def put_u32_le_def frame_head_def frame_head_len_def Let_def)
  qed
qed

section \<open>Decoding a frame\<close>

lemma unat_and_3: "unat (w AND 3 :: u8) = unat w mod 4"
proof -
  have "unat (w AND 3) = unat w AND 3" by (simp add: unsigned_and_eq)
  also have "\<dots> = take_bit 2 (unat w)" by (simp add: take_bit_eq_mask mask_eq_exp_minus_1)
  finally show ?thesis by (simp add: take_bit_eq_mod)
qed

lemma head_len_tag: "head_len (of_nat (4 * k + tag)) = tag + 1" if "tag < 4"
proof -
  have "unat ((of_nat (4 * k + tag) :: u8) AND 3) = tag"
    using that by (simp add: unat_and_3 unsigned_of_nat take_bit_eq_mod mod_mod_cancel
        del: of_nat_add of_nat_mult)
  then have "unat ((of_nat (4 * k + tag) :: u8) AND 3) = unat (of_nat tag :: u8)"
    using that by (simp add: unat_of_nat_exact)
  then have "(of_nat (4 * k + tag) :: u8) AND 3 = of_nat tag" by (simp only: word_unat_eq_iff)
  then have "head_len (of_nat (4 * k + tag)) = unat (of_nat (tag + 1) :: u8)"
    by (simp add: head_len_def add.commute)
  then show ?thesis using that unat_of_nat_exact [of "tag + 1", where 'a = 8] by simp
qed

lemma head_len_frame [simp]: "head_len (frame_head n ! 0) = frame_head_len n"
proof -
  have "frame_head n ! 0 = of_nat (4 * n + (frame_head_len n - 1))"
    using frame_head_len_bounds(1) [of n]
    by (cases "frame_head_len n") (simp_all add: frame_head_def)
  then show ?thesis
    using head_len_tag [of "frame_head_len n - 1" n] frame_head_len_bounds [of n]
    by (simp add: less_Suc_eq_le [symmetric])
qed

lemma from_le_frame_head:
  assumes "n \<le> 0x3FFFFFFF"
  shows "from_le_bytes (frame_head n) = 4 * n + (frame_head_len n - 1)"
  using assms by (auto simp: frame_head_def frame_head_len_def)

lemma decode_head_frame:
  assumes "n \<le> 0x3FFFFFFF"
  shows "decode_head c (frame_head n @ rest) =
    (if n > max_packet_length c then Inl (InvalidData ''Too big packet'') else Inr (Some n, rest))"
proof -
  have "unat (head_word (frame_head_len n) (frame_head n @ rest)) = 4 * n + (frame_head_len n - 1)"
    using head_word_bytes [of "frame_head_len n" "frame_head n @ rest"] from_le_frame_head [OF assms]
    by simp
  moreover have "frame_head_len n - 1 < 4" using frame_head_len_bounds(2) [of n] by linarith
  ultimately have "unat (drop_bit 2 (head_word (frame_head_len n) (frame_head n @ rest))) = n"
    by (simp add: unsigned_drop_bit_eq drop_bit_eq_div unat_div)
  then show ?thesis
    by (simp add: decode_head_def Let_def nth_append)
qed

lemma decode_head_short:
  assumes "src @ todo = frame_head n @ rest" and "length src < frame_head_len n"
  shows "decode_head c src = Inr (None, src)"
proof (cases "src = []")
  case False
  then have "src ! 0 = frame_head n ! 0"
    using assms(1) by (metis frame_head_not_Nil length_greater_0_conv nth_append)
  with assms(2) False show ?thesis by (simp add: decode_head_def)
qed (simp add: decode_head_def)

text \<open>What \<open>decode\<close> hands out is never longer than the limit its state was entered with.\<close>

lemma decode_head_bound: "decode_head c src = Inr (Some n, src') \<Longrightarrow> n \<le> max_packet_length c"
  by (auto simp: decode_head_def Let_def split: if_splits)

lemma decode_head_suffix: "decode_head c src = Inr (r, src') \<Longrightarrow> suffix src' src"
  by (auto simp: decode_head_def Let_def suffix_drop split: if_splits)

section \<open>One decoding step on a well-formed stream\<close>

text \<open>A codec that reads frames: not raw, with the limit that was set.\<close>

definition framing :: "nat \<Rightarrow> bytes_codec \<Rightarrow> bool" where
  "framing limit c \<longleftrightarrow> \<not> raw c \<and> max_packet_length c = limit"

definition frame :: "u8 list \<Rightarrow> u8 list" where
  "frame m = frame_head (length m) @ m"

definition sendable :: "nat \<Rightarrow> u8 list \<Rightarrow> bool" where
  "sendable limit m \<longleftrightarrow> length m \<le> 0x3FFFFFFF \<and> length m \<le> limit"

lemma decode_body:
  assumes "framing limit c" and "cstate c = Data n"
  shows "decode c src = (if length src < n then Inr (None, c, src)
     else Inr (Some (take n src), c\<lparr>cstate := Head\<rparr>, drop n src))"
  using assms by (simp add: decode_def framing_def decode_data_def)

lemma decode_at_head:
  assumes "framing limit c" and "cstate c = Head" and "sendable limit m"
    and "src @ todo = frame m @ rest"
  shows "decode c src =
    (if length src < frame_head_len (length m) then Inr (None, c, src)
     else if length src < length (frame m)
       then Inr (None, c\<lparr>cstate := Data (length m)\<rparr>, drop (frame_head_len (length m)) src)
     else Inr (Some m, c, drop (length (frame m)) src))"
proof (cases "length src < frame_head_len (length m)")
  case True
  moreover have "decode_head c src = Inr (None, src)"
    by (rule decode_head_short [of src todo "length m" "m @ rest"])
      (use assms(4) True in \<open>simp_all add: frame_def\<close>)
  ultimately show ?thesis using assms(1,2) by (simp add: decode_def framing_def)
next
  case False
  let ?h = "frame_head_len (length m)"
  have split: "src = frame_head (length m) @ drop ?h src"
    using arg_cong [OF assms(4), of "take ?h"] False
    by (simp add: frame_def) (metis append_take_drop_id)
  have hd: "decode_head c src = Inr (Some (length m), drop ?h src)"
    using decode_head_frame [of "length m" c "drop ?h src"] split assms(1,3)
    by (simp add: framing_def sendable_def)
  have body: "drop ?h src @ todo = m @ rest"
  proof -
    have "frame_head (length m) @ drop ?h src @ todo = frame_head (length m) @ m @ rest"
      using assms(4) split by (metis append.assoc frame_def)
    then show ?thesis by simp
  qed
  have upd: "c\<lparr>cstate := Data k, cstate := Head\<rparr> = c" for k
    using assms(2) by simp
  have "decode c src = (case decode_data (length m) (drop ?h src) of
      (Some data, b) \<Rightarrow> Inr (Some data, c, b)
    | (None, b) \<Rightarrow> Inr (None, c\<lparr>cstate := Data (length m)\<rparr>, b))"
    using assms(1,2) hd upd by (simp add: decode_def framing_def split: option.splits prod.splits)
  moreover have "take (length m) (drop ?h src) = m" if "\<not> length src < length (frame m)"
    using body that by (simp add: frame_def append_eq_append_conv_if split: if_splits)
  ultimately show ?thesis using False
    by (auto simp: decode_data_def frame_def add.commute)
qed

theorem decode_encode:
  assumes "framing limit c" and "cstate c = Head" and "sendable limit data"
    and "encode c data [] = Inr wire"
  shows "decode c (wire @ rest) = Inr (Some data, c, rest)"
proof -
  have "wire = frame data"
    using encode_frame [of c data "[]"] assms by (simp add: framing_def sendable_def frame_def)
  then show ?thesis
    using decode_at_head [OF assms(1-3), of "wire @ rest" "[]" rest]
    by (simp add: frame_def)
qed

section \<open>The receiving side of a connection\<close>

text \<open>
  Bytes on the way (\<open>rwire\<close>) arrive in chunks of any size, and \<open>decode\<close> may be called at any
  time: it hands out a message, asks for more, or fails.
\<close>

record receiver =
  rcodec :: bytes_codec
  rbuf :: "u8 list"
  rwire :: "u8 list"
  rgot :: "u8 list list"
  rfailed :: bool

definition receiver_init :: "bytes_codec \<Rightarrow> u8 list \<Rightarrow> receiver" where
  "receiver_init c wire = \<lparr>rcodec = c, rbuf = [], rwire = wire, rgot = [], rfailed = False\<rparr>"

inductive rx_step :: "receiver \<Rightarrow> receiver \<Rightarrow> bool" where
  arrive: "rwire r = chunk @ wire \<Longrightarrow> rx_step r (r\<lparr>rbuf := rbuf r @ chunk, rwire := wire\<rparr>)"
| deliver: "decode (rcodec r) (rbuf r) = Inr (Some d, c, b) \<Longrightarrow>
    rx_step r (r\<lparr>rcodec := c, rbuf := b, rgot := rgot r @ [d]\<rparr>)"
| wait: "decode (rcodec r) (rbuf r) = Inr (None, c, b) \<Longrightarrow> rx_step r (r\<lparr>rcodec := c, rbuf := b\<rparr>)"
| fail: "decode (rcodec r) (rbuf r) = Inl e \<Longrightarrow> rx_step r (r\<lparr>rfailed := True\<rparr>)"

text \<open>What the buffer and the wire still spell, by the state of the codec.\<close>

definition rx_inv :: "nat \<Rightarrow> u8 list list \<Rightarrow> receiver \<Rightarrow> bool" where
  "rx_inv limit ms r \<longleftrightarrow> framing limit (rcodec r) \<and> \<not> rfailed r \<and>
     (\<exists>rest. ms = rgot r @ rest \<and>
       (case cstate (rcodec r) of
          Head \<Rightarrow> rbuf r @ rwire r = concat (map frame rest)
        | Data n \<Rightarrow> \<exists>m rest'. rest = m # rest' \<and> length m = n \<and>
            rbuf r @ rwire r = m @ concat (map frame rest')))"

lemma framing_cstate [simp]: "framing limit (c\<lparr>cstate := s\<rparr>) = framing limit c"
  by (simp add: framing_def)

lemma rx_inv_decode:
  assumes "rx_inv limit ms r" and ok: "\<forall>m \<in> set ms. sendable limit m"
  shows "case decode (rcodec r) (rbuf r) of
      Inl e \<Rightarrow> False
    | Inr (Some d, c, b) \<Rightarrow> rx_inv limit ms (r\<lparr>rcodec := c, rbuf := b, rgot := rgot r @ [d]\<rparr>)
    | Inr (None, c, b) \<Rightarrow> rx_inv limit ms (r\<lparr>rcodec := c, rbuf := b\<rparr>) \<and>
        (rwire r = [] \<longrightarrow> rgot r = ms)"
proof -
  let ?c = "rcodec r" and ?b = "rbuf r" and ?w = "rwire r"
  from assms(1) obtain rest where f: "framing limit ?c" "\<not> rfailed r" and ms: "ms = rgot r @ rest"
    and st: "case cstate ?c of Head \<Rightarrow> ?b @ ?w = concat (map frame rest)
        | Data n \<Rightarrow> \<exists>m rest'. rest = m # rest' \<and> length m = n \<and>
            ?b @ ?w = m @ concat (map frame rest')"
    by (auto simp: rx_inv_def)
  show ?thesis
  proof (cases "cstate ?c")
    case (Data n)
    with st obtain m rest' where r: "rest = m # rest'" "length m = n"
      and eq: "?b @ ?w = m @ concat (map frame rest')" by auto
    show ?thesis
    proof (cases "length ?b < n")
      case True
      then have "?w \<noteq> []" using arg_cong [OF eq, of length] r(2) by auto
      then show ?thesis using assms(1) True decode_body [OF f(1) Data] by simp
    next
      case False
      then have "take n ?b = m" "drop n ?b @ ?w = concat (map frame rest')"
        using arg_cong [OF eq, of "take n"] arg_cong [OF eq, of "drop n"] r(2) by simp_all
      then show ?thesis
        using False decode_body [OF f(1) Data] f ms r by (simp add: rx_inv_def)
    qed
  next
    case Head
    with st have eq: "?b @ ?w = concat (map frame rest)" by simp
    show ?thesis
    proof (cases rest)
      case Nil
      with eq have "decode ?c ?b = Inr (None, ?c, ?b)"
        using f(1) Head by (simp add: decode_def framing_def decode_head_def)
      then show ?thesis using assms(1) ms Nil by simp
    next
      case (Cons m rest')
      let ?h = "frame_head_len (length m)"
      have m: "sendable limit m" using ok ms Cons by simp
      have eq': "?b @ ?w = frame m @ concat (map frame rest')" using eq Cons by simp
      have short: "length ?b < length (frame m) \<Longrightarrow> ?w \<noteq> []"
        using arg_cong [OF eq', of length] by auto
      note step = decode_at_head [OF f(1) Head m eq']
      have "drop ?h ?b @ ?w = m @ concat (map frame rest')" if "\<not> length ?b < ?h"
        using arg_cong [OF eq', of "drop ?h"] that by (simp add: frame_def)
      moreover have "drop (length (frame m)) ?b @ ?w = concat (map frame rest')"
        if "\<not> length ?b < length (frame m)"
        using arg_cong [OF eq', of "drop (length (frame m))"] that by simp
      ultimately show ?thesis
        using step assms(1) f ms Cons Head short by (simp add: rx_inv_def frame_def)
    qed
  qed
qed

lemma rx_step_inv:
  assumes "rx_step r r'" and "rx_inv limit ms r" and "\<forall>m \<in> set ms. sendable limit m"
  shows "rx_inv limit ms r'"
  using assms(1)
proof cases
  case (arrive chunk wire)
  with assms(2) show ?thesis by (simp add: rx_inv_def cong: decode_state.case_cong)
qed (use rx_inv_decode [OF assms(2,3)] in auto)

lemma rx_steps_inv:
  assumes "rx_step\<^sup>*\<^sup>* r r'" and "rx_inv limit ms r" and "\<forall>m \<in> set ms. sendable limit m"
  shows "rx_inv limit ms r'"
  using assms(1,2) by (induction rule: rtranclp_induct) (blast intro: rx_step_inv [OF _ _ assms(3)])+

text \<open>The bytes a sender puts on the wire: the messages encoded one after the other.\<close>

fun encode_all :: "bytes_codec \<Rightarrow> u8 list list \<Rightarrow> u8 list \<Rightarrow> io_error + u8 list" where
  "encode_all c [] buf = Inr buf"
| "encode_all c (m # ms) buf =
     (case encode c m buf of Inl e \<Rightarrow> Inl e | Inr buf' \<Rightarrow> encode_all c ms buf')"

lemma encode_all_frames:
  assumes "\<not> raw c" and "\<forall>m \<in> set ms. sendable limit m"
  shows "encode_all c ms buf = Inr (buf @ concat (map frame ms))"
  using assms by (induction ms arbitrary: buf) (auto simp: encode_frame frame_def sendable_def)

section \<open>Draining a buffer\<close>

text \<open>Calling \<open>decode\<close> until it has no message to hand out, as a framed reader does.\<close>

lemma head_len_pos: "0 < head_len b"
proof -
  have "unat (b AND 3) < 4" by (simp add: unat_and_3)
  then have "unat ((b AND 3) + 1) = unat (b AND 3) + 1"
    by (subst unat_word_ariths) simp
  then show ?thesis by (simp add: head_len_def)
qed

definition pending :: "bytes_codec \<times> u8 list \<Rightarrow> nat" where
  "pending cb = 2 * length (snd cb) + (case cstate (fst cb) of Head \<Rightarrow> 0 | Data _ \<Rightarrow> 1)"

lemma decode_progress: "decode c b = Inr (Some d, c', b') \<Longrightarrow> pending (c', b') < pending (c, b)"
proof -
  have "decode_head c b = Inr (Some n, s) \<Longrightarrow> length s < length b" for n s
    using head_len_pos by (auto simp: decode_head_def Let_def split: if_splits)
  then show "decode c b = Inr (Some d, c', b') \<Longrightarrow> ?thesis"
    by (fastforce simp: decode_def decode_data_def pending_def
        split: if_splits sum.splits option.splits decode_state.splits prod.splits)
qed

function drain :: "bytes_codec \<Rightarrow> u8 list \<Rightarrow> u8 list list" where
  "drain c b = (case decode c b of Inr (Some d, c', b') \<Rightarrow> d # drain c' b' | _ \<Rightarrow> [])"
  by pat_completeness auto
termination
  by (relation "measure pending") (auto intro: decode_progress dest: sym)

declare drain.simps [simp del]

text \<open>
  The interface a byte stream offers to the layer above: a message that may be sent has an
  encoding, and a reader that finds the encoding at the front of its bytes hands the message
  out and goes on with the rest.
\<close>

locale message_framing =
  fixes enc :: "'m \<Rightarrow> 'b list option"
    and receive_all :: "'b list \<Rightarrow> 'm list"
    and ok :: "'m \<Rightarrow> bool"
  assumes receive_Nil: "receive_all [] = []"
    and receive_enc: "ok m \<Longrightarrow> \<exists>w. enc m = Some w \<and> (\<forall>rest. receive_all (w @ rest) = m # receive_all rest)"
begin

lemma receive_concat:
  "\<forall>m \<in> set ms. ok m \<Longrightarrow> receive_all (concat (map (the \<circ> enc) ms)) = ms"
proof (induction ms)
  case (Cons m ms)
  then obtain w where "enc m = Some w" "\<And>rest. receive_all (w @ rest) = m # receive_all rest"
    using receive_enc [of m] by auto
  then show ?case using Cons by simp
qed (simp add: receive_Nil)

lemma enc_inj: "ok m \<Longrightarrow> ok m' \<Longrightarrow> enc m = enc m' \<Longrightarrow> m = m'"
  using receive_enc [of m] receive_enc [of m'] by (metis list.inject option.inject)

end

definition encode_opt :: "bytes_codec \<Rightarrow> u8 list \<Rightarrow> u8 list option" where
  "encode_opt c m = (case encode c m [] of Inl _ \<Rightarrow> None | Inr w \<Rightarrow> Some w)"

lemma drain_encode:
  assumes "framing limit c" and "cstate c = Head" and "sendable limit m"
  shows "encode_opt c m = Some (frame m)" and "drain c (frame m @ rest) = m # drain c rest"
proof -
  have e: "encode c m [] = Inr (frame m)"
    using encode_frame [of c m "[]"] assms by (simp add: framing_def sendable_def frame_def)
  then show "encode_opt c m = Some (frame m)" by (simp add: encode_opt_def)
  show "drain c (frame m @ rest) = m # drain c rest"
    using decode_encode [OF assms e, of rest] by (subst drain.simps) simp
qed

interpretation codec_framing: message_framing "encode_opt codec_new" "drain codec_new" "sendable usize_max"
proof
  show "drain codec_new [] = []"
    by (subst drain.simps) (simp add: decode_def codec_new_def decode_head_def)
next
  fix m assume "sendable usize_max m"
  then show "\<exists>w. encode_opt codec_new m = Some w \<and>
      (\<forall>rest. drain codec_new (w @ rest) = m # drain codec_new rest)"
    using drain_encode [of usize_max codec_new m] by (simp add: codec_new_def framing_def)
qed

text \<open>A frame whose length is over the limit is an error, reported before any payload arrives.\<close>

lemma decode_oversize:
  assumes "\<not> raw c" and "cstate c = Head" and "n \<le> 0x3FFFFFFF" and "max_packet_length c < n"
  shows "decode c (frame_head n @ rest) = Inl (InvalidData ''Too big packet'')"
  using decode_head_frame [OF assms(3), of c rest] assms by (simp add: decode_def)

lemma decode_raw: "raw c \<Longrightarrow> decode c src = Inr (if src = [] then None else Some src, c, [])"
  by (simp add: decode_def)

lemma encode_raw: "raw c \<Longrightarrow> encode c data buf = Inr (buf @ data)"
  by (simp add: encode_def Let_def)

lemma encode_overflow:
  "\<not> raw c \<Longrightarrow> 0x3FFFFFFF < length data \<Longrightarrow> encode c data buf = Inl (InvalidInput ''Overflow'')"
  by (simp add: encode_def Let_def)

section \<open>Properties\<close>

text \<open>
  C9: Framing is transparent under any chunking. Whatever chunks the bytes of an encoded
  sequence of messages arrive in, and whenever \<open>decode\<close> is called, the receiver never fails,
  what it has handed out is a prefix of what was sent, and once every byte has arrived and
  \<open>decode\<close> asks for more it has handed out exactly what was sent, in order.
\<close>

theorem stream_transparent:
  assumes "framing limit c" and "cstate c = Head" and "\<forall>m \<in> set ms. sendable limit m"
    and "encode_all c ms [] = Inr wire" and "rx_step\<^sup>*\<^sup>* (receiver_init c wire) r"
  shows "\<not> rfailed r \<and> prefix (rgot r) ms \<and>
    (rwire r = [] \<and> decode (rcodec r) (rbuf r) = Inr (None, c', b) \<longrightarrow> rgot r = ms)"
proof -
  have "wire = concat (map frame ms)"
    using encode_all_frames [of c ms limit "[]"] assms(1,3,4) by (simp add: framing_def)
  then have "rx_inv limit ms (receiver_init c wire)"
    using assms(1,2) by (simp add: rx_inv_def receiver_init_def)
  then have inv: "rx_inv limit ms r" by (rule rx_steps_inv [OF assms(5) _ assms(3)])
  then show ?thesis
    using rx_inv_decode [OF inv assms(3)] by (auto simp: rx_inv_def prefix_def)
qed

lemma codec_new_framing [simp]: "framing usize_max codec_new" "cstate codec_new = Head" "\<not> raw codec_new"
  by (simp_all add: codec_new_def framing_def)

theorem stream_transparent_witness:
  "\<exists>r. rx_step\<^sup>*\<^sup>* (receiver_init codec_new (frame [7])) r \<and> rwire r = [] \<and> rgot r = [[7]] \<and>
     \<not> rfailed r"
proof -
  let ?r0 = "receiver_init codec_new (frame [7])"
  let ?r1 = "?r0\<lparr>rbuf := frame [7], rwire := []\<rparr>"
  let ?r2 = "?r1\<lparr>rcodec := codec_new, rbuf := [], rgot := [[7]]\<rparr>"
  have m: "sendable usize_max [7]" by (simp add: sendable_def usize_max_def)
  have e: "encode codec_new [7] [] = Inr (frame [7])"
    by (simp add: encode_frame frame_def)
  have "rx_step ?r0 ?r1"
    using rx_step.arrive [of ?r0 "frame [7]" "[]"] by (simp add: receiver_init_def)
  moreover have "rx_step ?r1 ?r2"
    using rx_step.deliver [of ?r1 "[7]" codec_new "[]"]
      decode_encode [OF codec_new_framing(1,2) m e, of "[]"]
    by (simp add: receiver_init_def)
  ultimately have run: "rx_step\<^sup>*\<^sup>* ?r0 ?r2" by (simp add: converse_rtranclp_into_rtranclp)
  have "\<not> rfailed ?r2 \<and> (rwire ?r2 = [] \<and>
      decode (rcodec ?r2) (rbuf ?r2) = Inr (None, codec_new, []) \<longrightarrow> rgot ?r2 = [[7]])"
    using stream_transparent [OF codec_new_framing(1,2) _ _ run, of "[[7]]" codec_new "[]"] e m by simp
  with run show ?thesis by (intro exI [of _ ?r2]) simp
qed

text \<open>
  Encoding any messages one after the other and decoding the bytes until nothing is left
  gives the messages back, for every mix of lengths the four header sizes can carry.
\<close>

theorem frames_roundtrip:
  assumes "\<forall>m \<in> set ms. sendable usize_max m"
  shows "\<exists>wire. encode_all codec_new ms [] = Inr wire \<and> drain codec_new wire = ms"
proof -
  have eq: "map (the \<circ> encode_opt codec_new) ms = map frame ms"
    using assms drain_encode(1) [OF codec_new_framing(1,2)] by simp
  have "drain codec_new (concat (map frame ms)) = ms"
    using codec_framing.receive_concat [OF assms] by (simp only: eq)
  then show ?thesis
    using encode_all_frames [OF codec_new_framing(3) assms, of "[]"] by simp
qed

theorem frames_roundtrip_witness:
  "\<exists>wire. encode_all codec_new [[], [1, 2], replicate 64 3] [] = Inr wire \<and>
     drain codec_new wire = [[], [1, 2], replicate 64 3]"
  by (rule frames_roundtrip) (simp add: sendable_def usize_max_def)

end
