(* ===== verification/Addr_Mangle.thy ===== *)
theory Addr_Mangle
  imports Prelude
begin

text \<open>
  Socket addresses on the wire (\<open>libs/hbb_common/src/lib.rs\<close>): \<open>try_into_v4\<close>,
  \<open>AddrMangle::encode\<close> and \<open>AddrMangle::decode\<close>, and \<open>Config::get_any_listen_addr\<close>
  (\<open>config.rs\<close>), which \<open>decode\<close> falls back to. The clock \<open>encode\<close> reads is its argument \<open>tm\<close>.
  Arithmetic on \<open>u128\<close> wraps, as in the release profile, which has no overflow checks.
\<close>

section \<open>Addresses\<close>

text \<open>
  The octets of an address, its port, and the flow label and scope of an IPv6 address.
\<close>

datatype socket_addr =
    SocketV4 "u8 list" u16
  | SocketV6 "u8 list" u16 u32 u32

fun addr_ok :: "socket_addr \<Rightarrow> bool" where
  "addr_ok (SocketV4 ip _) = (length ip = 4)"
| "addr_ok (SocketV6 ip _ _ _) = (length ip = 16)"

text \<open>\<open>Ipv6Addr::is_loopback\<close> and \<open>Ipv6Addr::to_ipv4\<close> of the standard library.\<close>

definition v6_is_loopback :: "u8 list \<Rightarrow> bool" where
  "v6_is_loopback ip = (ip = replicate 15 0 @ [1])"

definition v6_to_ipv4 :: "u8 list \<Rightarrow> u8 list option" where
  "v6_to_ipv4 ip =
     (if take 12 ip = replicate 12 0 \<or> take 12 ip = replicate 10 0 @ [0xFF, 0xFF]
      then Some (drop 12 ip) else None)"

fun try_into_v4 :: "socket_addr \<Rightarrow> socket_addr" where
  "try_into_v4 (SocketV4 ip port) = SocketV4 ip port"
| "try_into_v4 (SocketV6 ip port flow scope) =
     (if \<not> v6_is_loopback ip then
        (case v6_to_ipv4 ip of
           Some v4 \<Rightarrow> SocketV4 v4 port
         | None \<Rightarrow> SocketV6 ip port flow scope)
      else SocketV6 ip port flow scope)"

definition get_any_listen_addr :: "bool \<Rightarrow> socket_addr" where
  "get_any_listen_addr is_ipv4 =
     (if is_ipv4 then SocketV4 (replicate 4 0) 0 else SocketV6 (replicate 16 0) 0 0 0)"

section \<open>Mangling\<close>

text \<open>The trailing zero bytes that \<open>encode\<close> leaves out.\<close>

fun n_padding :: "u8 list \<Rightarrow> nat" where
  "n_padding [] = 0"
| "n_padding (b # bs) = (if b = 0 then 1 + n_padding bs else 0)"

definition mangled_number :: "u32 \<Rightarrow> u8 list \<Rightarrow> u16 \<Rightarrow> u128" where
  "mangled_number tm32 octets port16 =
     (let tm = ucast tm32;
          ip = ucast (of_nat (from_le_bytes octets) :: u32);
          port = ucast port16
      in push_bit 49 (ip + tm) OR push_bit 17 tm OR (port + (tm AND 0xFFFF)))"

definition mangle_encode :: "u32 \<Rightarrow> socket_addr \<Rightarrow> u8 list" where
  "mangle_encode tm addr =
     (case try_into_v4 addr of
        SocketV4 ip port \<Rightarrow>
          (let bytes = to_le_bytes 16 (unat (mangled_number tm ip port))
           in take (16 - n_padding (rev bytes)) bytes)
      | SocketV6 ip port _ _ \<Rightarrow> ip @ to_le_bytes 2 (unat port))"

definition mangle_decode :: "u8 list \<Rightarrow> socket_addr" where
  "mangle_decode bytes =
     (if length bytes > 16 then
        (if length bytes \<noteq> 18 then get_any_listen_addr False
         else SocketV6 (take 16 bytes) (of_nat (from_le_bytes (drop 16 bytes))) 0 0)
      else
        (let padded = bytes @ replicate (16 - length bytes) 0;
             number = (of_nat (from_le_bytes padded) :: u128);
             tm = drop_bit 17 number AND 0xFFFFFFFF;
             ip = to_le_bytes 4 (unat (ucast (drop_bit 49 number - tm) :: u32));
             port = (number AND 0xFFFFFF) - (tm AND 0xFFFF)
         in SocketV4 ip (ucast port)))"

section \<open>Facts\<close>

lemma unat_u128_ucast: "LENGTH('a) \<le> 128 \<Longrightarrow> unat (ucast (w :: 'a::len word) :: u128) = unat w"
proof -
  assume "LENGTH('a) \<le> 128"
  then have "(2 :: nat) ^ LENGTH('a) \<le> 2 ^ 128" by (intro power_increasing) auto
  then have "unat w < 2 ^ LENGTH(128)" using order.strict_trans2 [OF unat_less_exp [of w]] by simp
  then show ?thesis by (simp only: unsigned_ucast_eq take_bit_nat_eq_self_iff)
qed

lemma unat_mangled_number:
  "unat (mangled_number tm octets port) =
     (unat port + unat tm mod 65536)
     + 2 ^ 17 * (unat tm + 2 ^ 32 * (from_le_bytes octets mod 2 ^ 32 + unat tm))"
proof -
  let ?ip = "of_nat (from_le_bytes octets) :: u32"
  let ?t = "ucast tm :: u128"
  let ?i = "ucast ?ip :: u128"
  let ?p = "ucast port :: u128"
  have t: "unat ?t = unat tm" "unat tm < 2 ^ 32"
    using unsigned_less [of tm] by (simp_all add: unat_u128_ucast)
  have i: "unat ?i = from_le_bytes octets mod 2 ^ 32" "unat ?i < 2 ^ 32"
    by (simp_all add: unat_u128_ucast unsigned_of_nat take_bit_eq_mod)
  have p: "unat ?p = unat port" "unat port < 2 ^ 16"
    using unsigned_less [of port] by (simp_all add: unat_u128_ucast)
  have low: "unat (?t AND 0xFFFF) = unat tm mod 65536"
    using unat_and_mask [of ?t 16] t(1) by simp
  have sum: "unat (?p + (?t AND 0xFFFF)) = unat port + unat tm mod 65536"
    by (subst unat_word_ariths) (use p low in simp)
  have hi: "unat (?i + ?t) = from_le_bytes octets mod 2 ^ 32 + unat tm"
    by (subst unat_word_ariths) (use i t in simp)
  have "unat (push_bit 17 ?t) = unat tm * 2 ^ 17"
    using unat_push_bit_exact [of ?t 17] t by simp
  have mid: "unat ((?p + (?t AND 0xFFFF)) OR push_bit 17 ?t)
      = unat port + unat tm mod 65536 + 2 ^ 17 * unat tm"
    using unat_or_push_bit [of "?p + (?t AND 0xFFFF)" 17 ?t] sum t p by simp
  have "unat (((?p + (?t AND 0xFFFF)) OR push_bit 17 ?t) OR push_bit 49 (?i + ?t))
      = unat port + unat tm mod 65536 + 2 ^ 17 * unat tm
        + 2 ^ 49 * (from_le_bytes octets mod 2 ^ 32 + unat tm)"
    using unat_or_push_bit [of "(?p + (?t AND 0xFFFF)) OR push_bit 17 ?t" 49 "?i + ?t"]
      mid hi t p i by simp
  moreover have "mangled_number tm octets port
      = ((?p + (?t AND 0xFFFF)) OR push_bit 17 ?t) OR push_bit 49 (?i + ?t)"
    by (simp add: mangled_number_def Let_def or.assoc or.commute or.left_commute)
  ultimately show ?thesis by (simp add: algebra_simps)
qed

text \<open>Leaving out the trailing zeros of a little-endian number and padding it again.\<close>

lemma n_padding_bound: "n_padding bs \<le> length bs"
  by (induction bs) auto

lemma take_n_padding: "take (n_padding bs) bs = replicate (n_padding bs) 0"
  by (induction bs) auto

lemma pad_stripped:
  "take (length bs - n_padding (rev bs)) bs @ replicate (n_padding (rev bs)) 0 = bs"
proof -
  let ?n = "n_padding (rev bs)"
  have "?n \<le> length bs" using n_padding_bound [of "rev bs"] by simp
  have "rev (take ?n (rev bs)) = replicate ?n 0" by (simp add: take_n_padding)
  then have "drop (length bs - ?n) bs = replicate ?n 0" by (simp add: take_rev)
  then show ?thesis using append_take_drop_id [of "length bs - ?n" bs] by simp
qed

lemma to_le_bytes_mod: "to_le_bytes n (v mod 256 ^ n) = to_le_bytes n v"
  by (metis from_to_le_bytes length_to_le_bytes to_from_le_bytes)

text \<open>The number the decoder reads determines the address and the port.\<close>

lemma unmangle:
  assumes "unat (number :: u128) = (port + t mod 65536) + 2 ^ 17 * (t + 2 ^ 32 * (ip + t))"
    and "port < 2 ^ 16" and "t < 2 ^ 32" and "ip < 2 ^ 32"
  shows "unat (drop_bit 17 number AND 0xFFFFFFFF) = t" (is ?tm)
    and "unat (ucast (drop_bit 49 number - (drop_bit 17 number AND 0xFFFFFFFF)) :: u32) = ip"
    and "unat (ucast ((number AND 0xFFFFFF) - ((drop_bit 17 number AND 0xFFFFFFFF) AND 0xFFFF)) :: u16)
      = port"
proof -
  let ?low = "port + t mod 65536"
  have low: "?low < 2 ^ 17" using assms(2) by (simp add: trans_less_add1)
  have d17: "unat (drop_bit 17 number) = t + 2 ^ 32 * (ip + t)"
    using assms(1) low by (simp add: unat_drop_bit del: power_numeral)
  have "(t + 2 ^ 32 * (ip + t)) mod 2 ^ 32 = t" using assms(3) by (simp only: mod_mult_self2 mod_less)
  then show tm: ?tm using unat_and_mask [of "drop_bit 17 number" 32] d17 by simp
  have "unat (drop_bit 49 number) = unat number div 2 ^ 17 div 2 ^ 32"
    by (simp add: unat_drop_bit div_mult2_eq [symmetric] del: drop_bit_eq_div power_numeral)
  also have "\<dots> = ip + t" using assms(1,3) low by simp
  finally have d49: "unat (drop_bit 49 number) = ip + t" .
  have "unat (drop_bit 49 number - (drop_bit 17 number AND 0xFFFFFFFF)) = ip"
    using d49 tm by (subst unat_sub) (simp_all add: word_le_nat_alt)
  then show "unat (ucast (drop_bit 49 number - (drop_bit 17 number AND 0xFFFFFFFF)) :: u32) = ip"
    using assms(4) by (simp add: unsigned_ucast_eq take_bit_nat_eq_self_iff)
  have n24: "unat (number AND 0xFFFFFF) = unat number mod 2 ^ 24"
    using unat_and_mask [of number 24] by simp
  define q r where "q = t div 2 ^ 7" and "r = t mod 2 ^ 7"
  have "t = r + 2 ^ 7 * q" by (simp add: q_def r_def)
  then have eq: "unat number = (?low + 2 ^ 17 * r) + 2 ^ 24 * (q + 2 ^ 25 * (ip + t))"
    using assms(1) by (simp add: algebra_simps)
  have "r < 2 ^ 7" by (simp add: r_def)
  then have "?low + 2 ^ 17 * r < 2 ^ 24" using low by simp
  then have "unat number mod 2 ^ 24 = ?low + 2 ^ 17 * (t mod 2 ^ 7)"
    using eq by (simp only: mod_mult_self2 mod_less r_def)
  then have n24': "unat (number AND 0xFFFFFF) = ?low + 2 ^ 17 * (t mod 2 ^ 7)" using n24 by simp
  have t16: "unat ((drop_bit 17 number AND 0xFFFFFFFF) AND 0xFFFF) = t mod 65536"
    using unat_and_mask [of "drop_bit 17 number AND 0xFFFFFFFF" 16] tm by simp
  have "unat ((number AND 0xFFFFFF) - ((drop_bit 17 number AND 0xFFFFFFFF) AND 0xFFFF))
      = port + 2 ^ 17 * (t mod 2 ^ 7)"
    using n24' t16 by (subst unat_sub) (simp_all add: word_le_nat_alt)
  then show "unat (ucast ((number AND 0xFFFFFF)
      - ((drop_bit 17 number AND 0xFFFFFFFF) AND 0xFFFF)) :: u16) = port"
  proof -
    have "(port + 2 ^ 16 * (2 * (t mod 2 ^ 7))) mod 2 ^ 16 = port"
      using assms(2) by (simp only: mod_mult_self2 mod_less)
    then show "unat (ucast ((number AND 0xFFFFFF)
        - ((drop_bit 17 number AND 0xFFFFFFFF) AND 0xFFFF)) :: u16) = port"
      if "unat ((number AND 0xFFFFFF) - ((drop_bit 17 number AND 0xFFFFFFFF) AND 0xFFFF))
        = port + 2 ^ 17 * (t mod 2 ^ 7)"
      using that by (simp add: unsigned_ucast_eq take_bit_eq_mod)
  qed
qed

text \<open>
  The address \<open>decode\<close> gives back: mapped IPv4 addresses come back as IPv4, and an IPv6
  address loses its flow label and scope.
\<close>

fun strip_flow_scope :: "socket_addr \<Rightarrow> socket_addr" where
  "strip_flow_scope (SocketV4 ip port) = SocketV4 ip port"
| "strip_flow_scope (SocketV6 ip port _ _) = SocketV6 ip port 0 0"

lemma try_into_v4_ok: "addr_ok a \<Longrightarrow> addr_ok (try_into_v4 a)"
  by (cases a) (auto simp: v6_to_ipv4_def split: option.splits if_splits)

lemma decode_stripped:
  assumes "length bs = 16"
  shows "mangle_decode (take (16 - n_padding (rev bs)) bs) =
    (let number = (of_nat (from_le_bytes bs) :: u128);
         tm = drop_bit 17 number AND 0xFFFFFFFF
     in SocketV4 (to_le_bytes 4 (unat (ucast (drop_bit 49 number - tm) :: u32)))
          (ucast ((number AND 0xFFFFFF) - (tm AND 0xFFFF))))"
proof -
  have "n_padding (rev bs) \<le> 16" using n_padding_bound [of "rev bs"] assms by simp
  then have "take (16 - n_padding (rev bs)) bs
      @ replicate (16 - length (take (16 - n_padding (rev bs)) bs)) 0 = bs"
    using pad_stripped [of bs] assms by simp
  moreover have "\<not> length (take (16 - n_padding (rev bs)) bs) > 16" using assms by simp
  ultimately show ?thesis by (simp only: mangle_decode_def Let_def if_False)
qed

lemma mangle_roundtrip_v4:
  assumes "length ip = 4"
  shows "mangle_decode (mangle_encode tm (SocketV4 ip port)) = SocketV4 ip port"
proof -
  let ?m = "mangled_number tm ip port"
  let ?bs = "to_le_bytes 16 (unat ?m)"
  have ip: "from_le_bytes ip < 2 ^ 32"
    using from_le_bytes_less [of ip] assms by simp
  have "from_le_bytes ?bs = unat ?m"
    using unat_less_exp [of ?m] by simp
  then have num: "(of_nat (from_le_bytes ?bs) :: u128) = ?m" by simp
  have u: "unat ?m = (unat port + unat tm mod 65536)
      + 2 ^ 17 * (unat tm + 2 ^ 32 * (from_le_bytes ip + unat tm))"
    using unat_mangled_number [of tm ip port] ip by simp
  have b: "unat port < 2 ^ 16" "unat tm < 2 ^ 32"
    using unsigned_less [of port] unsigned_less [of tm] by simp_all
  note un = unmangle [OF u b ip]
  have "to_le_bytes 4 (from_le_bytes ip) = ip" using to_from_le_bytes [of ip] assms by simp
  moreover have "ucast ((?m AND 0xFFFFFF) - ((drop_bit 17 ?m AND 0xFFFFFFFF) AND 0xFFFF)) = port"
    using un(3) by (simp add: word_unat_eq_iff)
  ultimately show ?thesis
    using decode_stripped [of ?bs] un(2) num by (simp add: mangle_encode_def Let_def)
qed

lemma mangle_roundtrip_v6:
  assumes "length ip = 16" and "try_into_v4 (SocketV6 ip port flow scope) = SocketV6 ip port flow scope"
  shows "mangle_decode (mangle_encode tm (SocketV6 ip port flow scope)) = SocketV6 ip port 0 0"
proof -
  have "from_le_bytes (to_le_bytes 2 (unat port)) = unat port"
    using unat_less_exp [of port] by simp
  then show ?thesis using assms
    by (simp add: mangle_encode_def mangle_decode_def del: try_into_v4.simps)
qed

section \<open>Properties\<close>

text \<open>
  Whatever the clock reads, decoding a mangled address gives back the address that was
  encoded, with its port: an IPv4 address as it was, an IPv4-mapped or IPv4-compatible IPv6
  address as the IPv4 address it maps, any other IPv6 address without its flow and scope.
\<close>

theorem mangle_roundtrip:
  assumes "addr_ok a"
  shows "mangle_decode (mangle_encode tm a) = strip_flow_scope (try_into_v4 a)"
proof -
  have idem: "mangle_encode tm a = mangle_encode tm (try_into_v4 a)"
    by (cases a) (auto simp: mangle_encode_def split: option.splits)
  show ?thesis
  proof (cases "try_into_v4 a")
    case (SocketV4 ip port)
    then show ?thesis
      using try_into_v4_ok [OF assms] mangle_roundtrip_v4 [of ip tm port] idem by simp
  next
    case (SocketV6 ip port flow scope)
    have "try_into_v4 (try_into_v4 a) = try_into_v4 a"
      by (cases a) (auto split: option.splits)
    with SocketV6 show ?thesis
      using try_into_v4_ok [OF assms] mangle_roundtrip_v6 [of ip port flow scope tm] idem
      by (simp del: try_into_v4.simps)
  qed
qed

theorem mangle_roundtrip_witness:
  "mangle_decode (mangle_encode 0x8899AABB (SocketV6 (replicate 10 0 @ [255, 255, 10, 0, 0, 7]) 21116 5 6))
     = SocketV4 [10, 0, 0, 7] 21116"
proof -
  let ?a = "SocketV6 (replicate 10 0 @ [255, 255, 10, 0, 0, 7]) 21116 5 6"
  have "try_into_v4 ?a = SocketV4 [10, 0, 0, 7] 21116" by code_simp
  then show ?thesis using mangle_roundtrip [of ?a "0x8899AABB"] by (simp del: try_into_v4.simps)
qed

text \<open>
  A peer chooses the bytes: nothing keeps \<open>tm\<close> below \<open>number >> 49\<close>, so the subtraction of
  \<open>decode\<close> can wrap (and panics in a build with overflow checks).
\<close>

lemma crafted_bytes_underflow:
  "drop_bit 49 (of_nat (from_le_bytes ([0, 0, 2] @ replicate 13 0)) :: u128)
     < drop_bit 17 (of_nat (from_le_bytes ([0, 0, 2] @ replicate 13 0)) :: u128) AND 0xFFFFFFFF"
  by (simp add: from_le_bytes_append word_less_nat_alt)

end
