(* ===== verification/Sodium.thy ===== *)
theory Sodium
  imports Prelude
begin

text \<open>
  The cryptographic library the sources call (the crate \<open>sodiumoxide\<close>, not part of the
  repository) is a record of functions that the definitions take as an argument. What the
  sources rely on is stated as predicates on it: documented behaviour of \<open>secretbox\<close>,
  \<open>box_\<close>, \<open>sign\<close> and \<open>base64\<close>, and nothing about secrecy. \<open>demo_sodium\<close> shows they can hold.
\<close>

type_synonym bytes = "u8 list"

record sodium =
  secretbox_seal :: "bytes \<Rightarrow> bytes \<Rightarrow> bytes \<Rightarrow> bytes"  \<comment> \<open>data, nonce, key\<close>
  secretbox_open :: "bytes \<Rightarrow> bytes \<Rightarrow> bytes \<Rightarrow> bytes option"
  box_open :: "bytes \<Rightarrow> bytes \<Rightarrow> bytes \<Rightarrow> bytes \<Rightarrow> bytes option"  \<comment> \<open>data, nonce, public and secret key\<close>
  box_seal :: "bytes \<Rightarrow> bytes \<Rightarrow> bytes \<Rightarrow> bytes \<Rightarrow> bytes"
  box_pk :: "bytes \<Rightarrow> bytes"                             \<comment> \<open>the public key of a secret key\<close>
  sign_sign :: "bytes \<Rightarrow> bytes \<Rightarrow> bytes"                 \<comment> \<open>data, secret key\<close>
  sign_verify :: "bytes \<Rightarrow> bytes \<Rightarrow> bytes option"        \<comment> \<open>signed data, public key\<close>
  sign_pk :: "bytes \<Rightarrow> bytes"
  base64_encode :: "bytes \<Rightarrow> bytes"
  base64_decode :: "bytes \<Rightarrow> bytes option"

definition KEYBYTES :: nat where "KEYBYTES = 32"
definition NONCEBYTES :: nat where "NONCEBYTES = 24"
definition MACBYTES :: nat where "MACBYTES = 16"
definition PUBLICKEYBYTES :: nat where "PUBLICKEYBYTES = 32"
definition SECRETKEYBYTES :: nat where "SECRETKEYBYTES = 64"  \<comment> \<open>of a key that signs\<close>

text \<open>Opening what was sealed with the same key and nonce gives the data back, and a sealed
  message is longer than its data by the authentication tag.\<close>

definition secretbox_ok :: "sodium \<Rightarrow> bool" where
  "secretbox_ok so \<longleftrightarrow>
     (\<forall>m n k. secretbox_open so (secretbox_seal so m n k) n k = Some m) \<and>
     (\<forall>m n k. length (secretbox_seal so m n k) = length m + MACBYTES)"

text \<open>What is sealed for a public key opens with its secret key and the public key of the sender; what
  is signed with a secret key verifies with its public key. Public keys have their length.\<close>

definition box_ok :: "sodium \<Rightarrow> bool" where
  "box_ok so \<longleftrightarrow>
     (\<forall>m n a b. box_open so (box_seal so m n (box_pk so b) a) n (box_pk so a) b = Some m) \<and>
     (\<forall>a. length (box_pk so a) = PUBLICKEYBYTES)"

definition sign_ok :: "sodium \<Rightarrow> bool" where
  "sign_ok so \<longleftrightarrow>
     (\<forall>m k. sign_verify so (sign_sign so m k) (sign_pk so k) = Some m) \<and>
     (\<forall>k. length (sign_pk so k) = PUBLICKEYBYTES)"

text \<open>\<open>base64::decode\<close> is the inverse of \<open>base64::encode\<close>, and only the empty string encodes
  nothing.\<close>

definition base64_ok :: "sodium \<Rightarrow> bool" where
  "base64_ok so \<longleftrightarrow>
     (\<forall>v. base64_decode so (base64_encode so v) = Some v) \<and> (\<forall>v. base64_encode so v = [] \<longleftrightarrow> v = [])"

text \<open>A concrete library with this behaviour: the tag is the nonce's and the key's first eight
  bytes.\<close>

definition demo_tag :: "bytes \<Rightarrow> bytes \<Rightarrow> bytes" where
  "demo_tag n k = take 8 (n @ replicate 8 0) @ take 8 (k @ replicate 8 0)"

definition demo_pk :: "bytes \<Rightarrow> bytes" where
  "demo_pk k = take 32 (k @ replicate 32 0)"

definition demo_sodium :: sodium where
  "demo_sodium =
     \<lparr>secretbox_seal = (\<lambda>m n k. demo_tag n k @ m),
      secretbox_open = (\<lambda>c n k. if take 16 c = demo_tag n k then Some (drop 16 c) else None),
      box_open = (\<lambda>c n p s. if take 1 c = [1] then Some (tl c) else None),
      box_seal = (\<lambda>m n p s. 1 # m), box_pk = demo_pk,
      sign_sign = (\<lambda>m k. demo_pk k @ m),
      sign_verify = (\<lambda>s p. if take 32 s = p then Some (drop 32 s) else None), sign_pk = demo_pk,
      base64_encode = (\<lambda>v. v), base64_decode = Some\<rparr>"

lemma length_demo_tag [simp]: "length (demo_tag n k) = 16"
  by (simp add: demo_tag_def)

lemma demo_secretbox_ok [simp]: "secretbox_ok demo_sodium"
  by (simp add: secretbox_ok_def demo_sodium_def MACBYTES_def)

lemma length_demo_pk [simp]: "length (demo_pk k) = 32"
  by (simp add: demo_pk_def)

lemma demo_box_ok [simp]: "box_ok demo_sodium"
  by (simp add: box_ok_def demo_sodium_def PUBLICKEYBYTES_def)

lemma demo_sign_ok [simp]: "sign_ok demo_sodium"
  by (simp add: sign_ok_def demo_sodium_def PUBLICKEYBYTES_def)

lemma demo_base64_ok [simp]: "base64_ok demo_sodium"
  by (simp add: base64_ok_def demo_sodium_def)

lemma secretbox_open_seal [simp]:
  "secretbox_ok so \<Longrightarrow> secretbox_open so (secretbox_seal so m n k) n k = Some m"
  by (simp add: secretbox_ok_def)

lemma length_secretbox_seal [simp]:
  "secretbox_ok so \<Longrightarrow> length (secretbox_seal so m n k) = length m + 16"
  by (simp add: secretbox_ok_def MACBYTES_def)

section \<open>Strings as bytes\<close>

text \<open>The bytes of a string; a character stands for a byte of its UTF-8 form.\<close>

definition bytes_of :: "string \<Rightarrow> bytes" where
  "bytes_of = map of_char"

definition string_of :: "bytes \<Rightarrow> string" where
  "string_of = map (\<lambda>b. char_of (unat b))"

lemma unat_of_char: "unat (of_char c :: u8) = of_char c"
proof -
  have "(of_char c :: u8) = of_nat (of_char c)" by (simp only: of_nat_of_char)
  moreover have "(of_char c :: nat) mod 256 = of_char c" by (rule of_char_mod_256)
  ultimately show ?thesis by (simp only: unat_of_nat) (simp add: take_bit_eq_mod)
qed

lemma of_char_char_of_unat: "(of_char (char_of (unat b)) :: u8) = b"
proof -
  have "unat (of_char (char_of (unat b)) :: u8) = unat b mod 256"
    by (simp only: unat_of_char of_char_of)
  also have "\<dots> = unat b" using unsigned_less [of b, where 'a = nat] by simp
  finally show ?thesis by (simp only: word_unat_eq_iff)
qed

lemma string_of_bytes [simp]: "string_of (bytes_of s) = s"
  by (induction s) (simp_all add: bytes_of_def string_of_def unat_of_char)

lemma bytes_of_string [simp]: "bytes_of (string_of b) = b"
  by (induction b) (simp_all add: bytes_of_def string_of_def of_char_char_of_unat)

lemma length_bytes_of [simp]: "length (bytes_of s) = length s" "length (string_of b) = length b"
  by (simp_all add: bytes_of_def string_of_def)

lemma bytes_of_Nil [simp]: "bytes_of s = [] \<longleftrightarrow> s = []" "string_of b = [] \<longleftrightarrow> b = []"
  by (simp_all add: bytes_of_def string_of_def)

end
