(* ===== verification/Tcp_Stream.thy ===== *)
theory Tcp_Stream
  imports Bytes_Codec Addr_Mangle Sodium
begin

text \<open>
  The encrypted TCP stream (\<open>libs/hbb_common/src/tcp.rs\<close>): \<open>Encrypt\<close>, whose two counters
  number the messages of each direction, and \<open>FramedStream\<close> over the framing of
  \<open>Bytes_Codec\<close>. The socket is two byte lists: what has arrived and is not yet decoded, and
  what has been written.
\<close>

section \<open>Encryption\<close>

record encrypt =
  ekey :: bytes
  esent :: u64
  ereceived :: u64

definition encrypt_new :: "bytes \<Rightarrow> encrypt" where
  "encrypt_new key = \<lparr>ekey = key, esent = 0, ereceived = 0\<rparr>"

definition get_nonce :: "u64 \<Rightarrow> bytes" where
  "get_nonce seqnum = to_le_bytes 8 (unat seqnum) @ replicate (NONCEBYTES - 8) 0"

definition encrypt_dec :: "sodium \<Rightarrow> encrypt \<Rightarrow> bytes \<Rightarrow> (io_error + bytes) \<times> encrypt" where
  "encrypt_dec so e bs =
     (if length bs \<le> 1 then (Inr bs, e)
      else let e = e\<lparr>ereceived := ereceived e + 1\<rparr>;
               nonce = get_nonce (ereceived e)
           in case secretbox_open so bs nonce (ekey e) of
                Some res \<Rightarrow> (Inr res, e)
              | None \<Rightarrow> (Inl (OtherError ''decryption error''), e))"

definition encrypt_enc :: "sodium \<Rightarrow> encrypt \<Rightarrow> bytes \<Rightarrow> bytes \<times> encrypt" where
  "encrypt_enc so e data =
     (let e = e\<lparr>esent := esent e + 1\<rparr>;
          nonce = get_nonce (esent e)
      in (secretbox_seal so data nonce (ekey e), e))"

text \<open>\<open>Encrypt::decode\<close>: the symmetric key of the handshake.\<close>

definition encrypt_decode :: "sodium \<Rightarrow> bytes \<Rightarrow> bytes \<Rightarrow> bytes \<Rightarrow> string + bytes" where
  "encrypt_decode so symmetric_data their_pk_b our_sk_b =
     (if length their_pk_b \<noteq> PUBLICKEYBYTES then Inl ''Handshake failed: pk length''
      else let nonce = replicate NONCEBYTES 0 in
        case box_open so symmetric_data nonce their_pk_b our_sk_b of
          None \<Rightarrow> Inl ''Handshake failed: box decryption failure''
        | Some symmetric_key \<Rightarrow>
            if length symmetric_key \<noteq> KEYBYTES
            then Inl ''Handshake failed: invalid secret key length from peer''
            else Inr symmetric_key)"

section \<open>The framed stream\<close>

record framed_stream =
  fs_codec :: bytes_codec
  fs_in :: bytes
  fs_out :: bytes
  fs_local_addr :: socket_addr
  fs_crypt :: "encrypt option"
  fs_send_timeout :: u64

definition stream_from :: "socket_addr \<Rightarrow> framed_stream" where
  "stream_from addr =
     \<lparr>fs_codec = codec_new, fs_in = [], fs_out = [], fs_local_addr = addr, fs_crypt = None,
      fs_send_timeout = 0\<rparr>"

definition stream_set_send_timeout :: "u64 \<Rightarrow> framed_stream \<Rightarrow> framed_stream" where
  "stream_set_send_timeout ms s = s\<lparr>fs_send_timeout := ms\<rparr>"

definition stream_set_raw :: "framed_stream \<Rightarrow> framed_stream" where
  "stream_set_raw s = s\<lparr>fs_codec := set_raw (fs_codec s), fs_crypt := None\<rparr>"

definition stream_is_secured :: "framed_stream \<Rightarrow> bool" where
  "stream_is_secured s = (fs_crypt s \<noteq> None)"

definition stream_set_key :: "bytes \<Rightarrow> framed_stream \<Rightarrow> framed_stream" where
  "stream_set_key key s = s\<lparr>fs_crypt := Some (encrypt_new key)\<rparr>"

definition stream_send_bytes :: "bytes \<Rightarrow> framed_stream \<Rightarrow> (io_error + unit) \<times> framed_stream" where
  "stream_send_bytes bs s =
     (case Bytes_Codec.encode (fs_codec s) bs (fs_out s) of
        Inl e \<Rightarrow> (Inl e, s)
      | Inr out \<Rightarrow> (Inr (), s\<lparr>fs_out := out\<rparr>))"

definition stream_send_raw :: "sodium \<Rightarrow> bytes \<Rightarrow> framed_stream \<Rightarrow> (io_error + unit) \<times> framed_stream" where
  "stream_send_raw so msg s =
     (case fs_crypt s of
        Some key \<Rightarrow>
          (let (msg, key) = encrypt_enc so key msg
           in stream_send_bytes msg (s\<lparr>fs_crypt := Some key\<rparr>))
      | None \<Rightarrow> stream_send_bytes msg s)"

text \<open>\<open>None\<close>: no whole message has arrived yet.\<close>

definition stream_next :: "sodium \<Rightarrow> framed_stream \<Rightarrow> (io_error + bytes) option \<times> framed_stream" where
  "stream_next so s =
     (case decode (fs_codec s) (fs_in s) of
        Inl e \<Rightarrow> (Some (Inl e), s)
      | Inr (None, c, b) \<Rightarrow> (None, s\<lparr>fs_codec := c, fs_in := b\<rparr>)
      | Inr (Some bs, c, b) \<Rightarrow>
          (let s = s\<lparr>fs_codec := c, fs_in := b\<rparr> in
           case fs_crypt s of
             Some key \<Rightarrow>
               (let (res, key) = encrypt_dec so key bs in (Some res, s\<lparr>fs_crypt := Some key\<rparr>))
           | None \<Rightarrow> (Some (Inr bs), s)))"

text \<open>Sending several messages, and reading until no whole message is left.\<close>

fun send_all :: "sodium \<Rightarrow> bytes list \<Rightarrow> framed_stream \<Rightarrow> framed_stream" where
  "send_all so [] s = s"
| "send_all so (m # ms) s = send_all so ms (snd (stream_send_raw so m s))"

fun next_n :: "sodium \<Rightarrow> nat \<Rightarrow> framed_stream \<Rightarrow> (io_error + bytes) option list" where
  "next_n so 0 s = []"
| "next_n so (Suc n) s = (let (r, s') = stream_next so s in r # next_n so n s')"

section \<open>Facts\<close>

lemma get_nonce_inj: "get_nonce a = get_nonce b \<longleftrightarrow> a = b"
proof
  assume "get_nonce a = get_nonce b"
  then have "to_le_bytes 8 (unat a) = to_le_bytes 8 (unat b)" by (simp add: get_nonce_def)
  then have "unat a mod 256 ^ 8 = unat b mod 256 ^ 8" by (metis from_to_le_bytes)
  then have "unat a = unat b" using unat_less_exp [of a] unat_less_exp [of b] by simp
  then show "a = b" by (simp only: word_unat_eq_iff)
qed simp

lemma length_get_nonce [simp]: "length (get_nonce n) = NONCEBYTES"
  by (simp add: get_nonce_def NONCEBYTES_def)

text \<open>What the sender writes: every message sealed under its number, in a frame.\<close>

definition seal_nth :: "sodium \<Rightarrow> bytes \<Rightarrow> u64 \<Rightarrow> bytes \<Rightarrow> bytes" where
  "seal_nth so k n m = secretbox_seal so m (get_nonce n) k"

fun sealed_frames :: "sodium \<Rightarrow> bytes \<Rightarrow> u64 \<Rightarrow> bytes list \<Rightarrow> bytes" where
  "sealed_frames so k n [] = []"
| "sealed_frames so k n (m # ms) = frame (seal_nth so k (n + 1) m) @ sealed_frames so k (n + 1) ms"

definition short_enough :: "bytes \<Rightarrow> bool" where
  "short_enough m \<longleftrightarrow> length m + MACBYTES \<le> 0x3FFFFFFF"

lemma sendable_sealed:
  "secretbox_ok so \<Longrightarrow> short_enough m \<Longrightarrow> sendable usize_max (seal_nth so k n m)"
  by (simp add: sendable_def short_enough_def seal_nth_def usize_max_def MACBYTES_def)

lemma send_all_out:
  assumes "secretbox_ok so" and "\<forall>m \<in> set ms. short_enough m" and "\<not> raw (fs_codec s)"
    and "fs_crypt s = Some e"
  shows "fs_out (send_all so ms s) = fs_out s @ sealed_frames so (ekey e) (esent e) ms"
  using assms(2-4)
proof (induction ms arbitrary: s e)
  case (Cons m ms)
  let ?c = "seal_nth so (ekey e) (esent e + 1) m"
  have "length ?c \<le> 0x3FFFFFFF"
    using sendable_sealed [OF assms(1), of m] Cons.prems(1) by (simp add: sendable_def)
  then have "encode (fs_codec s) ?c (fs_out s) = Inr (fs_out s @ frame ?c)"
    using encode_frame Cons.prems(2) by (simp add: frame_def)
  then have "snd (stream_send_raw so m s)
      = s\<lparr>fs_crypt := Some (e\<lparr>esent := esent e + 1\<rparr>), fs_out := fs_out s @ frame ?c\<rparr>"
    using Cons.prems(3)
    by (simp add: stream_send_raw_def encrypt_enc_def stream_send_bytes_def seal_nth_def)
  then show ?case
    using Cons.IH [of "snd (stream_send_raw so m s)" "e\<lparr>esent := esent e + 1\<rparr>"] Cons.prems by simp
qed simp

lemma stream_next_sealed:
  assumes "secretbox_ok so" and "short_enough m" and "fs_codec s = codec_new"
    and "fs_crypt s = Some e" and "fs_in s = frame (seal_nth so (ekey e) (ereceived e + 1) m) @ rest"
  shows "stream_next so s
    = (Some (Inr m), s\<lparr>fs_in := rest, fs_crypt := Some (e\<lparr>ereceived := ereceived e + 1\<rparr>)\<rparr>)"
proof -
  let ?c = "seal_nth so (ekey e) (ereceived e + 1) m"
  have ok: "sendable usize_max ?c" using assms(1,2) by (rule sendable_sealed)
  have enc: "encode codec_new ?c [] = Inr (frame ?c)"
    using encode_frame [of codec_new ?c "[]"] ok by (simp add: sendable_def frame_def)
  have "decode codec_new (frame ?c @ rest) = Inr (Some ?c, codec_new, rest)"
    using decode_encode [OF codec_new_framing(1,2) ok enc] by simp
  moreover have "encrypt_dec so e ?c = (Inr m, e\<lparr>ereceived := ereceived e + 1\<rparr>)"
    using assms(1) by (simp add: encrypt_dec_def seal_nth_def)
  ultimately show ?thesis
    using assms(3-5) by (simp add: stream_next_def)
qed

lemma next_n_sealed:
  assumes "secretbox_ok so" and "\<forall>m \<in> set ms. short_enough m" and "fs_codec s = codec_new"
    and "fs_crypt s = Some e" and "fs_in s = sealed_frames so (ekey e) (ereceived e) ms"
  shows "next_n so (Suc (length ms)) s = map (Some \<circ> Inr) ms @ [None]"
  using assms(2-5)
proof (induction ms arbitrary: s e)
  case (Cons m ms)
  let ?e = "e\<lparr>ereceived := ereceived e + 1\<rparr>"
  let ?s = "s\<lparr>fs_in := sealed_frames so (ekey e) (ereceived e + 1) ms, fs_crypt := Some ?e\<rparr>"
  have "stream_next so s = (Some (Inr m), ?s)"
    using stream_next_sealed [OF assms(1) _ Cons.prems(2,3)] Cons.prems(1,4) by simp
  moreover have "next_n so (Suc (length ms)) ?s = map (Some \<circ> Inr) ms @ [None]"
    using Cons.prems by (intro Cons.IH [of _ ?e]) simp_all
  ultimately show ?case by simp
qed (simp add: stream_next_def decode_def codec_new_def decode_head_def)

section \<open>An active attacker\<close>

text \<open>
  The messages that decryption accepts, each with the bytes it arrived as, until the first
  error, after which the callers drop the connection.
\<close>

fun dec_until_error :: "sodium \<Rightarrow> encrypt \<Rightarrow> bytes list \<Rightarrow> (bytes \<times> bytes) list" where
  "dec_until_error so e [] = []"
| "dec_until_error so e (c # cs) =
     (case encrypt_dec so e c of
        (Inl _, _) \<Rightarrow> []
      | (Inr m, e') \<Rightarrow> (c, m) # dec_until_error so e' cs)"

text \<open>A message sealed under one number opens under no other: the integrity \<open>secretbox\<close> promises.\<close>

definition nonce_bound :: "sodium \<Rightarrow> bool" where
  "nonce_bound so \<longleftrightarrow> (\<forall>m a b k. a \<noteq> b \<longrightarrow>
     secretbox_open so (secretbox_seal so m (get_nonce a) k) (get_nonce b) k = None)"

text \<open>
  What an attacker without the key can put on the wire: frames the sender sealed, in any order
  and any number of times, and frames of at most one byte, which are not encrypted at all.
\<close>

definition replayable :: "sodium \<Rightarrow> bytes \<Rightarrow> bytes list \<Rightarrow> bytes \<Rightarrow> bool" where
  "replayable so k ms c \<longleftrightarrow>
     length c \<le> 1 \<or> (\<exists>i < length ms. c = seal_nth so k (of_nat (Suc i)) (ms ! i))"

lemma dec_replayed:
  assumes "secretbox_ok so" and "nonce_bound so" and "ekey e = k" and "ereceived e = of_nat r"
    and "Suc (length ms) < 2 ^ 64" and "r \<le> length ms" and "\<forall>c \<in> set cs. replayable so k ms c"
  shows "prefix (map snd (filter (\<lambda>(c, m). 1 < length c) (dec_until_error so e cs))) (drop r ms)"
  using assms(3-7)
proof (induction cs arbitrary: e r)
  case (Cons c cs)
  show ?case
  proof (cases "length c \<le> 1")
    case True
    then have "encrypt_dec so e c = (Inr c, e)" by (simp add: encrypt_dec_def)
    then show ?thesis using True Cons.IH [OF Cons.prems(1-4)] Cons.prems(5) by simp
  next
    case False
    then obtain i where i: "i < length ms" "c = seal_nth so k (of_nat (Suc i)) (ms ! i)"
      using Cons.prems(5) by (auto simp: replayable_def)
    let ?e = "e\<lparr>ereceived := of_nat (Suc r)\<rparr>"
    have dec: "encrypt_dec so e c = (case secretbox_open so c (get_nonce (of_nat (Suc r))) k of
        Some res \<Rightarrow> (Inr res, ?e) | None \<Rightarrow> (Inl (OtherError ''decryption error''), ?e))"
      using False Cons.prems(1,2) by (simp add: encrypt_dec_def Let_def add.commute cong: option.case_cong)
    show ?thesis
    proof (cases "i = r")
      case True
      then have "encrypt_dec so e c = (Inr (ms ! r), ?e)"
        using dec i(2) assms(1) by (simp add: seal_nth_def)
      moreover have "prefix (map snd (filter (\<lambda>(c, m). 1 < length c) (dec_until_error so ?e cs)))
          (drop (Suc r) ms)"
        using Cons.prems i(1) True by (intro Cons.IH) simp_all
      moreover have "drop r ms = ms ! r # drop (Suc r) ms"
        using i(1) True by (simp add: Cons_nth_drop_Suc)
      ultimately show ?thesis using False by simp
    next
      case False
      have "unat (of_nat (Suc i) :: u64) = Suc i" "unat (of_nat (Suc r) :: u64) = Suc r"
        using i(1) Cons.prems(3,4) by (simp_all add: unat_of_nat_exact del: of_nat_Suc)
      then have "(of_nat (Suc r) :: u64) \<noteq> of_nat (Suc i)"
        using False by (metis nat.inject)
      then have "secretbox_open so c (get_nonce (of_nat (Suc r))) k = None"
        using assms(2) i(2) by (simp add: nonce_bound_def seal_nth_def)
      then show ?thesis using dec by simp
    qed
  qed
qed simp

section \<open>Properties\<close>

text \<open>
  Two streams given the same key carry messages: whatever the sender sends, the receiver,
  once the bytes have arrived, reads the same messages in the same order and then nothing.
\<close>

theorem secure_channel:
  assumes "secretbox_ok so" and "\<forall>m \<in> set ms. short_enough m"
    and "wire = fs_out (send_all so ms (stream_set_key k (stream_from a)))"
  shows "next_n so (Suc (length ms)) ((stream_set_key k (stream_from b))\<lparr>fs_in := wire\<rparr>)
    = map (Some \<circ> Inr) ms @ [None]"
proof -
  let ?r = "\<lambda>w. (stream_set_key k (stream_from b))\<lparr>fs_in := w\<rparr>"
  have w: "wire = sealed_frames so k 0 ms"
    using send_all_out [OF assms(1,2), of "stream_set_key k (stream_from a)" "encrypt_new k"] assms(3)
    by (simp add: stream_set_key_def stream_from_def encrypt_new_def)
  show ?thesis
    by (rule next_n_sealed [OF assms(1,2), where e = "encrypt_new k"])
      (simp_all add: w stream_set_key_def stream_from_def encrypt_new_def)
qed

theorem secure_channel_witness:
  "next_n demo_sodium 3 ((stream_set_key [9] (stream_from (SocketV4 [10, 0, 0, 1] 7)))
      \<lparr>fs_in := fs_out (send_all demo_sodium [[1, 2], []]
         (stream_set_key [9] (stream_from (SocketV4 [10, 0, 0, 2] 8))))\<rparr>)
    = [Some (Inr [1, 2]), Some (Inr []), None]"
  using secure_channel [OF demo_secretbox_ok, of "[[1, 2], []]" _ "[9]" "SocketV4 [10, 0, 0, 2] 8"
      "SocketV4 [10, 0, 0, 1] 7"]
  by (simp add: short_enough_def MACBYTES_def numeral_3_eq_3)

text \<open>
  C12: An attacker who replays, reorders, drops or duplicates encrypted messages, or injects
  frames of one byte or less (which the code does not authenticate), can only cut the
  conversation short: the longer messages the receiver accepts before its first error are a
  prefix of what was sent.
\<close>

theorem secure_channel_replay:
  assumes "secretbox_ok so" and "nonce_bound so" and "Suc (length ms) < 2 ^ 64"
    and "\<forall>c \<in> set cs. replayable so k ms c"
  shows "prefix (map snd (filter (\<lambda>(c, m). 1 < length c) (dec_until_error so (encrypt_new k) cs))) ms"
  using dec_replayed [OF assms(1,2) _ _ assms(3) _ assms(4), of "encrypt_new k" 0]
  by (simp add: encrypt_new_def)

lemma demo_nonce_bound [simp]: "nonce_bound demo_sodium"
proof -
  have "demo_tag (get_nonce a) k = demo_tag (get_nonce b) k \<longleftrightarrow> a = b" for a b k
  proof -
    have "demo_tag (get_nonce n) k = to_le_bytes 8 (unat n) @ take 8 (k @ replicate 8 0)" for n
      by (simp add: demo_tag_def get_nonce_def)
    then have "demo_tag (get_nonce a) k = demo_tag (get_nonce b) k \<longleftrightarrow> get_nonce a = get_nonce b"
      by (simp add: get_nonce_def)
    then show ?thesis by (simp only: get_nonce_inj)
  qed
  then show ?thesis by (simp add: nonce_bound_def demo_sodium_def)
qed

theorem secure_channel_replay_witness:
  "prefix (map snd (filter (\<lambda>(c, m). 1 < length c)
      (dec_until_error demo_sodium (encrypt_new [9])
        [seal_nth demo_sodium [9] 1 [5], [0], seal_nth demo_sodium [9] 1 [5]]))) [[5], [6]]"
proof -
  have "\<exists>i < length [[5], [6 :: u8]]. seal_nth demo_sodium [9] 1 [5]
      = seal_nth demo_sodium [9] (of_nat (Suc i)) ([[5], [6]] ! i)"
    by (rule exI [of _ 0]) simp
  then have "\<forall>c \<in> set [seal_nth demo_sodium [9] 1 [5], [0], seal_nth demo_sodium [9] 1 [5]].
      replayable demo_sodium [9] [[5], [6]] c"
    by (simp add: replayable_def)
  then show ?thesis by (intro secure_channel_replay) simp_all
qed

end
