(* ===== verification/Version.thy ===== *)
theory Version
  imports Rust_Text
begin

text \<open>
  Version numbers (\<open>libs/hbb_common/src/lib.rs\<close>): \<open>get_version_number\<close>, by which two peers
  compare their versions, on an \<open>i64\<close> that wraps, and \<open>get_version_from_url\<close>, which reads the
  version of a release from its download address.
\<close>

section \<open>The code\<close>

definition parse_or_zero :: "string \<Rightarrow> i64" where
  "parse_or_zero x = (case parse_i64 x of Some v \<Rightarrow> word_of_int v | None \<Rightarrow> 0)"

text \<open>The loop over the dotted parts keeps \<open>n\<close> and \<open>last\<close>.\<close>

definition version_part :: "i64 \<times> i64 \<Rightarrow> string \<Rightarrow> i64 \<times> i64" where
  "version_part nl x = (let last = parse_or_zero x in (fst nl * 1000 + last, last))"

definition get_version_number :: "string \<Rightarrow> i64" where
  "get_version_number v =
     (let versions = split_on CHR ''-'' v;
          n = (case versions of
                 [] \<Rightarrow> 0
               | p # _ \<Rightarrow>
                   (let (n, last) = foldl version_part (0, 0) (split_on CHR ''.'' p)
                    in n - last + last * 10))
      in case versions of _ # q # _ \<Rightarrow> n + parse_or_zero q | _ \<Rightarrow> n)"

definition get_version_from_url :: "string \<Rightarrow> string" where
  "get_version_from_url url =
     (let n = length url in
      case position CHR ''-'' (rev url) of
        None \<Rightarrow> []
      | Some a \<Rightarrow>
          (case position CHR ''.'' (rev url) of
             None \<Rightarrow> []
           | Some b \<Rightarrow>
               if a > b then
                 (if parse_i32 (drop (n - b) url) \<noteq> None then drop (n - a) url
                  else take (a - b - 1) (drop (n - a) url))
               else drop (n - a) url))"

section \<open>Facts\<close>

text \<open>A version in the form the project writes it: \<open>a.b.c\<close> or \<open>a.b.c-d\<close>.\<close>

definition version_string :: "nat \<Rightarrow> nat \<Rightarrow> nat \<Rightarrow> nat option \<Rightarrow> string" where
  "version_string a b c d =
     show_nat a @ ''.'' @ show_nat b @ ''.'' @ show_nat c
     @ (case d of None \<Rightarrow> [] | Some d \<Rightarrow> ''-'' @ show_nat d)"

definition version_value :: "nat \<Rightarrow> nat \<Rightarrow> nat \<Rightarrow> nat option \<Rightarrow> nat" where
  "version_value a b c d = a * 1000000 + b * 1000 + c * 10 + (case d of None \<Rightarrow> 0 | Some d \<Rightarrow> d)"

lemma parse_or_zero_show [simp]: "n < 2 ^ 63 \<Longrightarrow> parse_or_zero (show_nat n) = of_nat n"
  by (simp add: parse_or_zero_def parse_i64_def)

lemma split_dashes:
  assumes "CHR ''-'' \<notin> set p"
  shows "split_on CHR ''-'' (p @ (case d of None \<Rightarrow> [] | Some d \<Rightarrow> ''-'' @ show_nat d))
    = (case d of None \<Rightarrow> [p] | Some d \<Rightarrow> [p, show_nat d])"
  using assms by (cases d) (simp_all add: split_on_sep no_digit_in_show)

lemma split_dots:
  "split_on CHR ''.'' (show_nat a @ ''.'' @ show_nat b @ ''.'' @ show_nat c)
     = [show_nat a, show_nat b, show_nat c]"
  by (simp add: split_on_sep no_digit_in_show)

lemma get_version_number_string:
  assumes "a < 2 ^ 63" and "b < 2 ^ 63" and "c < 2 ^ 63" and "case d of None \<Rightarrow> True | Some d \<Rightarrow> d < 2 ^ 63"
  shows "get_version_number (version_string a b c d) = of_nat (version_value a b c d)"
proof -
  let ?p = "show_nat a @ ''.'' @ show_nat b @ ''.'' @ show_nat c"
  have "CHR ''-'' \<notin> set ?p" by (simp add: no_digit_in_show)
  then have "split_on CHR ''-'' (version_string a b c d)
      = (case d of None \<Rightarrow> [?p] | Some d \<Rightarrow> [?p, show_nat d])"
    using split_dashes [of ?p d] by (simp add: version_string_def)
  then show ?thesis
    using assms split_dots [of a b c]
    by (cases d) (simp_all add: get_version_number_def version_part_def version_value_def Let_def algebra_simps)
qed

lemma sint_of_nat_small: "n < 2 ^ 63 \<Longrightarrow> sint (of_nat n :: i64) = int n"
  by (simp add: signed_of_nat signed_take_bit_int_eq_self)

text \<open>The order of versions: by the numbers, from the left, no patch counting as zero.\<close>

fun lex_less :: "nat list \<Rightarrow> nat list \<Rightarrow> bool" where
  "lex_less (x # xs) (y # ys) = (x < y \<or> x = y \<and> lex_less xs ys)"
| "lex_less xs ys = (xs = [] \<and> ys \<noteq> [])"

definition patch_no :: "nat option \<Rightarrow> nat" where
  "patch_no d = (case d of None \<Rightarrow> 0 | Some d \<Rightarrow> d)"

lemma version_value_patch: "version_value a b c d = ((a * 1000 + b) * 100 + c) * 10 + patch_no d"
  by (simp add: version_value_def patch_no_def algebra_simps)

lemma mixed_radix_less:
  assumes "(y :: nat) < m" and "y' < m"
  shows "x * m + y < x' * m + y' \<longleftrightarrow> x < x' \<or> x = x' \<and> y < y'"
proof -
  have "x < x' \<Longrightarrow> x * m + y < x' * m + y'"
  proof -
    assume "x < x'"
    then have "Suc x * m \<le> x' * m" by (intro mult_le_mono1) simp
    with assms show ?thesis by simp
  qed
  moreover have "x' < x \<Longrightarrow> x' * m + y' < x * m + y"
  proof -
    assume "x' < x"
    then have "Suc x' * m \<le> x * m" by (intro mult_le_mono1) simp
    with assms show ?thesis by simp
  qed
  ultimately show ?thesis by (cases x x' rule: linorder_cases) auto
qed

lemma position_rev_last:
  assumes "c \<notin> set t"
  shows "position c (rev (s @ c # t)) = Some (length t)"
  using assms by simp

lemma version_from_release_url:
  assumes "CHR ''-'' \<notin> set v" and "CHR ''-'' \<notin> set ext" and "CHR ''.'' \<notin> set ext"
  shows "get_version_from_url (p @ ''-'' @ v @ ''.'' @ ext)
    = (if parse_i32 ext = None then v else v @ ''.'' @ ext)"
proof -
  let ?url = "p @ ''-'' @ v @ ''.'' @ ext"
  have a: "position CHR ''-'' (rev ?url) = Some (Suc (length v + length ext))"
    using position_rev_last [of "CHR ''-''" "v @ ''.'' @ ext" p] assms by simp
  have b: "position CHR ''.'' (rev ?url) = Some (length ext)"
    using position_rev_last [of "CHR ''.''" ext "p @ ''-'' @ v"] assms by simp
  have "drop (length ?url - length ext) ?url = ext" by simp
  moreover have "drop (length ?url - Suc (length v + length ext)) ?url = v @ ''.'' @ ext" by simp
  ultimately show ?thesis
    unfolding get_version_from_url_def Let_def a b by simp
qed

section \<open>Properties\<close>

text \<open>
  On the versions the project uses (minor below 1000, patch below 100, the number after
  the dash below 10) the number \<open>get_version_number\<close> computes is ordered, as a signed integer,
  exactly as the versions are, so comparing the numbers compares the versions.
\<close>

theorem version_order:
  assumes "a < 1000000" "b < 1000" "c < 100" "patch_no d < 10"
    and "a' < 1000000" "b' < 1000" "c' < 100" "patch_no d' < 10"
  shows "sint (get_version_number (version_string a b c d))
           < sint (get_version_number (version_string a' b' c' d'))
         \<longleftrightarrow> lex_less [a, b, c, patch_no d] [a', b', c', patch_no d']"
proof -
  have v: "sint (get_version_number (version_string a b c d)) = int (version_value a b c d)"
    if "a < 1000000" "b < 1000" "c < 100" "patch_no d < 10" for a b c d
  proof -
    have "case d of None \<Rightarrow> True | Some d \<Rightarrow> d < 2 ^ 63"
      using that(4) by (simp add: patch_no_def split: option.splits)
    then have "get_version_number (version_string a b c d) = of_nat (version_value a b c d)"
      using that by (intro get_version_number_string) simp_all
    moreover have "version_value a b c d < 2 ^ 63" using that by (simp add: version_value_patch)
    ultimately show ?thesis by (simp add: sint_of_nat_small)
  qed
  let ?n = "\<lambda>a b c d. ((a * 1000 + b) * 100 + c) * 10 + d :: nat"
  have "?n a b c (patch_no d) < ?n a' b' c' (patch_no d')
      \<longleftrightarrow> lex_less [a, b, c, patch_no d] [a', b', c', patch_no d']"
    using mixed_radix_less [of "patch_no d" 10 "patch_no d'"] mixed_radix_less [of c 100 c']
      mixed_radix_less [of b 1000 b'] mult_right_cancel [of 10] assms by auto
  then show ?thesis
    using v [OF assms(1-4)] v [OF assms(5-8)] by (simp only: version_value_patch of_nat_less_iff)
qed

theorem version_order_witness:
  "sint (get_version_number (version_string 1 1 9 (Some 3)))
     < sint (get_version_number (version_string 1 2 0 None))"
  using version_order [of 1 1 9 "Some 3" 1 2 0 None] by (simp add: patch_no_def)

text \<open>
  From the address of a release file, \<open>get_version_from_url\<close> reads what stands between the
  last dash and the file's extension; a last part that is a number belongs to the version.
\<close>

theorem version_of_url:
  assumes "CHR ''-'' \<notin> set (v @ ext)" and "CHR ''.'' \<notin> set ext"
  shows "get_version_from_url (p @ ''-'' @ v @ ''.'' @ ext)
    = (if parse_i32 ext = None then v else v @ ''.'' @ ext)"
  using assms by (intro version_from_release_url) simp_all

theorem version_of_url_witness:
  "get_version_from_url (''releases/rustdesk-'' @ ''1.2.3'' @ ''.exe'') = ''1.2.3''"
  using version_of_url [of "''1.2.3''" "''exe''" "''releases/rustdesk''"]
  by (simp add: parse_i32_def parse_int_def is_digit_def)

text \<open>The number the comment above the code gives for 1.2.3 is not the number it computes.\<close>

lemma version_1_2_3: "get_version_number ''1.2.3'' = 1002030"
  by code_simp

text \<open>A patch number of 100 or more runs into the minor number.\<close>

lemma version_collision:
  "get_version_number (version_string 1 1 100 None) = get_version_number (version_string 1 2 0 None)"
  by (simp add: get_version_number_string version_value_def)

end
