(* ===== verification/Password_Security.thy ===== *)
theory Password_Security
  imports Sodium
begin

text \<open>
  \<open>libs/hbb_common/src/password_security.rs\<close>: which passwords the controlled side accepts and
  how it asks for approval, as read from its options, and the encryption of stored strings and
  byte vectors with its version prefix. \<open>Config::get_option\<close> is the argument \<open>get_option\<close>; the
  machine's uuid, the key of the stored secrets, is the argument \<open>uuid\<close>.
\<close>

section \<open>Options\<close>

datatype verification_method =
  OnlyUseTemporaryPassword | OnlyUsePermanentPassword | UseBothPasswords

datatype approve_mode = ApproveBoth | ApprovePassword | ApproveClick

type_synonym options = "string \<Rightarrow> string"

definition get_verification_method :: "options \<Rightarrow> verification_method" where
  "get_verification_method get_option =
     (let v = get_option ''verification-method'' in
      if v = ''use-temporary-password'' then OnlyUseTemporaryPassword
      else if v = ''use-permanent-password'' then OnlyUsePermanentPassword
      else UseBothPasswords)"

definition temporary_password_length :: "options \<Rightarrow> nat" where
  "temporary_password_length get_option =
     (let l = get_option ''temporary-password-length'' in
      if l = ''8'' then 8 else if l = ''10'' then 10 else 6)"

definition temporary_enabled :: "options \<Rightarrow> bool" where
  "temporary_enabled opt = (get_verification_method opt \<noteq> OnlyUsePermanentPassword)"

definition permanent_enabled :: "options \<Rightarrow> bool" where
  "permanent_enabled opt = (get_verification_method opt \<noteq> OnlyUseTemporaryPassword)"

definition has_valid_password :: "options \<Rightarrow> bytes \<Rightarrow> bytes \<Rightarrow> bool" where
  "has_valid_password opt temporary permanent =
     (temporary_enabled opt \<and> temporary \<noteq> [] \<or> permanent_enabled opt \<and> permanent \<noteq> [])"

definition get_approve_mode :: "options \<Rightarrow> approve_mode" where
  "get_approve_mode get_option =
     (let mode = get_option ''approve-mode'' in
      if mode = ''password'' then ApprovePassword
      else if mode = ''click'' then ApproveClick else ApproveBoth)"

definition hide_cm :: "options \<Rightarrow> bool" where
  "hide_cm opt =
     (get_approve_mode opt = ApprovePassword \<and>
      get_verification_method opt = OnlyUsePermanentPassword \<and> opt ''allow-hide-cm'' \<noteq> [])"

text \<open>\<open>Config::get_auto_password\<close>: \<open>length\<close> characters picked by the random numbers \<open>rnd\<close>.\<close>

definition password_chars :: string where
  "password_chars = ''23456789abcdefghijkmnpqrstuvwxyz''"

definition get_auto_password :: "(nat \<Rightarrow> nat) \<Rightarrow> nat \<Rightarrow> string" where
  "get_auto_password rnd n = map (\<lambda>i. password_chars ! (rnd i mod length password_chars)) [0..<n]"

lemma some_password_kind_enabled: "temporary_enabled opt \<or> permanent_enabled opt"
  by (simp add: temporary_enabled_def permanent_enabled_def)

section \<open>Encryption\<close>

definition VERSION_LEN :: nat where "VERSION_LEN = 2"

definition version_00 :: bytes where "version_00 = [48, 48]"

definition symmetric_crypt :: "sodium \<Rightarrow> bytes \<Rightarrow> bytes \<Rightarrow> bool \<Rightarrow> bytes option" where
  "symmetric_crypt so uuid data encrypt =
     (let key = take KEYBYTES (uuid @ replicate KEYBYTES 0);
          nonce = replicate NONCEBYTES 0
      in if encrypt then Some (secretbox_seal so data nonce key)
         else secretbox_open so data nonce key)"

definition encrypt :: "sodium \<Rightarrow> bytes \<Rightarrow> bytes \<Rightarrow> nat \<Rightarrow> bytes option" where
  "encrypt so uuid v max_len =
     (if v \<noteq> [] \<and> length v \<le> max_len
      then map_option (base64_encode so) (symmetric_crypt so uuid v True) else None)"

definition decrypt :: "sodium \<Rightarrow> bytes \<Rightarrow> bytes \<Rightarrow> bytes option" where
  "decrypt so uuid v =
     (if v \<noteq> [] then
        (case base64_decode so v of None \<Rightarrow> None | Some w \<Rightarrow> symmetric_crypt so uuid w False)
      else None)"

text \<open>The vector variants. The result of \<open>decrypt\<close>: the value, whether it was decrypted, and
  whether it should be stored again.\<close>

definition decrypt_vec_or_original :: "sodium \<Rightarrow> bytes \<Rightarrow> bytes \<Rightarrow> bytes \<Rightarrow> bytes \<times> bool \<times> bool" where
  "decrypt_vec_or_original so uuid v current_version =
     (case (if length v > VERSION_LEN then
              (let version = take VERSION_LEN v in
               if version = version_00 then
                 map_option (\<lambda>w. (w, True, version \<noteq> current_version))
                   (decrypt so uuid (drop VERSION_LEN v))
               else None)
            else None) of
        Some r \<Rightarrow> r
      | None \<Rightarrow> (v, False, v \<noteq> []))"

definition encrypt_vec_or_original :: "sodium \<Rightarrow> bytes \<Rightarrow> bytes \<Rightarrow> bytes \<Rightarrow> nat \<Rightarrow> bytes" where
  "encrypt_vec_or_original so uuid v version max_len =
     (if fst (snd (decrypt_vec_or_original so uuid v version)) then v
      else if length v > max_len then []
      else if version = version_00 then
        (case encrypt so uuid v max_len of Some s \<Rightarrow> version @ s | None \<Rightarrow> v)
      else v)"

text \<open>
  The string variants, on the UTF-8 bytes of the string. \<open>utf8_lossy\<close> is
  \<open>String::from_utf8_lossy\<close>.
\<close>

definition decrypt_str_or_original ::
    "sodium \<Rightarrow> (bytes \<Rightarrow> bytes) \<Rightarrow> bytes \<Rightarrow> bytes \<Rightarrow> bytes \<Rightarrow> bytes \<times> bool \<times> bool" where
  "decrypt_str_or_original so utf8_lossy uuid s current_version =
     (case (if length s > VERSION_LEN \<and> take VERSION_LEN s = version_00 then
              map_option (\<lambda>v. (utf8_lossy v, True, version_00 \<noteq> current_version))
                (decrypt so uuid (drop VERSION_LEN s))
            else None) of
        Some r \<Rightarrow> r
      | None \<Rightarrow> (s, False, s \<noteq> []))"

definition encrypt_str_or_original ::
    "sodium \<Rightarrow> (bytes \<Rightarrow> bytes) \<Rightarrow> bytes \<Rightarrow> bytes \<Rightarrow> bytes \<Rightarrow> nat \<Rightarrow> bytes" where
  "encrypt_str_or_original so utf8_lossy uuid s version max_len =
     (if fst (snd (decrypt_str_or_original so utf8_lossy uuid s version)) then s
      else if length s > max_len then []
      else if version = version_00 then
        (case encrypt so uuid s max_len of Some e \<Rightarrow> version @ e | None \<Rightarrow> s)
      else s)"

section \<open>Facts\<close>

lemma symmetric_crypt_inverse:
  assumes "secretbox_ok so" and "symmetric_crypt so uuid v True = Some w"
  shows "symmetric_crypt so uuid w False = Some v" and "length w = length v + 16"
  using assms by (auto simp: symmetric_crypt_def Let_def)

lemma decrypt_encrypt:
  assumes "secretbox_ok so" and "base64_ok so" and "encrypt so uuid v n = Some e"
  shows "decrypt so uuid e = Some v" and "e \<noteq> []"
proof -
  obtain w where w: "symmetric_crypt so uuid v True = Some w" "e = base64_encode so w"
    using assms(3) by (auto simp: encrypt_def split: if_splits)
  note inv = symmetric_crypt_inverse [OF assms(1) w(1)]
  have "w \<noteq> []" using inv(2) by auto
  then show ne: "e \<noteq> []" using assms(2) w(2) by (simp add: base64_ok_def)
  show "decrypt so uuid e = Some v"
    using ne inv(1) assms(2) w(2) by (simp add: decrypt_def base64_ok_def)
qed

lemma encrypt_Some: "v \<noteq> [] \<Longrightarrow> length v \<le> n \<Longrightarrow> \<exists>e. encrypt so uuid v n = Some e"
  by (simp add: encrypt_def symmetric_crypt_def Let_def)

lemma encrypt_Nil [simp]: "encrypt so uuid [] n = None"
  by (simp add: encrypt_def)

lemma decrypt_prefixed:
  assumes "decrypt so uuid e = Some v" and "e \<noteq> []"
  shows "decrypt_str_or_original so lossy uuid (version_00 @ e) cur = (lossy v, True, version_00 \<noteq> cur)"
    and "decrypt_vec_or_original so uuid (version_00 @ e) cur = (v, True, version_00 \<noteq> cur)"
  using assms
  by (simp_all add: decrypt_str_or_original_def decrypt_vec_or_original_def VERSION_LEN_def version_00_def)

lemma decrypt_Nil [simp]:
  "decrypt_str_or_original so lossy uuid [] cur = ([], False, False)"
  "decrypt_vec_or_original so uuid [] cur = ([], False, False)"
  by (simp_all add: decrypt_str_or_original_def decrypt_vec_or_original_def)

text \<open>An original is returned as it is, with the request to store it unless it is empty.\<close>

lemma decrypt_original:
  "\<not> fst (snd (decrypt_str_or_original so lossy uuid s cur))
   \<Longrightarrow> decrypt_str_or_original so lossy uuid s cur = (s, False, s \<noteq> [])"
  "\<not> fst (snd (decrypt_vec_or_original so uuid s cur))
   \<Longrightarrow> decrypt_vec_or_original so uuid s cur = (s, False, s \<noteq> [])"
  by (auto simp: decrypt_str_or_original_def decrypt_vec_or_original_def Let_def
      split: option.splits if_splits)

text \<open>The four ways \<open>encrypt_str_or_original\<close> ends.\<close>

lemma encrypt_str_cases:
  obtains (duplicate) "fst (snd (decrypt_str_or_original so lossy uuid s ver))"
      "encrypt_str_or_original so lossy uuid s ver n = s"
    | (too_long) "\<not> fst (snd (decrypt_str_or_original so lossy uuid s ver))" "n < length s"
      "encrypt_str_or_original so lossy uuid s ver n = []"
    | (original) "\<not> fst (snd (decrypt_str_or_original so lossy uuid s ver))" "length s \<le> n"
      "s = [] \<or> ver \<noteq> version_00" "encrypt_str_or_original so lossy uuid s ver n = s"
    | (encrypted) e where "\<not> fst (snd (decrypt_str_or_original so lossy uuid s ver))" "length s \<le> n"
      "s \<noteq> []" "ver = version_00" "encrypt so uuid s n = Some e"
      "encrypt_str_or_original so lossy uuid s ver n = version_00 @ e"
  by (cases "fst (snd (decrypt_str_or_original so lossy uuid s ver))"; cases "length s \<le> n";
      cases "s = []"; cases "ver = version_00")
    (use encrypt_Some [of s n so uuid] in \<open>force simp: encrypt_str_or_original_def\<close>)+

lemma decrypt_encrypt_str:
  assumes "secretbox_ok so" and "base64_ok so" and "lossy s = s" and "length s \<le> max_len"
    and "\<not> fst (snd (decrypt_str_or_original so lossy uuid s version_00))"
  shows "decrypt_str_or_original so lossy uuid
      (encrypt_str_or_original so lossy uuid s version_00 max_len) cur
    = (s, s \<noteq> [], s \<noteq> [] \<and> cur \<noteq> version_00)"
proof (cases rule: encrypt_str_cases [of so lossy uuid s version_00 max_len])
  case (encrypted e)
  then show ?thesis
    using decrypt_encrypt [OF assms(1,2) encrypted(5)] assms(3) decrypt_prefixed(1) by auto
qed (use assms in auto)

section \<open>Properties\<close>

text \<open>
  A string that is not itself an encrypted one, is in UTF-8 and fits comes back from its
  encryption; unless it is empty it is found to be encrypted, and it is to be stored again
  exactly when the version has changed.
\<close>

theorem encrypt_str_roundtrip:
  assumes "secretbox_ok so" and "base64_ok so" and "lossy s = s" and "length s \<le> max_len"
    and "\<not> fst (snd (decrypt_str_or_original so lossy uuid s version_00))"
  shows "decrypt_str_or_original so lossy uuid
      (encrypt_str_or_original so lossy uuid s version_00 max_len) cur
    = (s, s \<noteq> [], s \<noteq> [] \<and> cur \<noteq> version_00)"
  by (rule decrypt_encrypt_str [OF assms])

theorem encrypt_str_roundtrip_witness:
  "decrypt_str_or_original demo_sodium id [1, 2]
      (encrypt_str_or_original demo_sodium id [1, 2] [49, 50] version_00 128) version_00
    = ([49, 50], True, False)"
proof -
  have "\<not> fst (snd (decrypt_str_or_original demo_sodium id [1, 2] [49, 50] version_00))"
    by (simp add: decrypt_str_or_original_def VERSION_LEN_def)
  then show ?thesis using encrypt_str_roundtrip [of demo_sodium id "[49, 50]" 128] by simp
qed

text \<open>
  Nothing is encrypted twice: encrypting again what \<open>encrypt_str_or_original\<close> returned, for
  any string, any version and any limit, changes nothing.
\<close>

theorem encrypt_str_idempotent:
  assumes "secretbox_ok so" and "base64_ok so"
  shows "encrypt_str_or_original so lossy uuid (encrypt_str_or_original so lossy uuid s ver n) ver n
    = encrypt_str_or_original so lossy uuid s ver n"
proof (cases rule: encrypt_str_cases [of so lossy uuid s ver n])
  case too_long
  have "encrypt_str_or_original so lossy uuid [] ver n = []"
    by (simp add: encrypt_str_or_original_def)
  then show ?thesis by (simp add: too_long)
next
  case (encrypted e)
  have "fst (snd (decrypt_str_or_original so lossy uuid (version_00 @ e) ver))"
    using decrypt_encrypt [OF assms encrypted(5)] decrypt_prefixed(1) by simp
  then have "encrypt_str_or_original so lossy uuid (version_00 @ e) ver n = version_00 @ e"
    by (simp add: encrypt_str_or_original_def)
  then show ?thesis by (simp add: encrypted(6))
qed simp_all

theorem encrypt_str_idempotent_witness:
  "encrypt_str_or_original demo_sodium id [1] (encrypt_str_or_original demo_sodium id [1] [49] version_00 9) version_00 9
    = encrypt_str_or_original demo_sodium id [1] [49] version_00 9"
  by (rule encrypt_str_idempotent) simp_all

text \<open>The vector variant has the same round trip.\<close>

lemma encrypt_vec_roundtrip:
  assumes "secretbox_ok so" and "base64_ok so" and "v \<noteq> []" and "length v \<le> max_len"
    and "\<not> fst (snd (decrypt_vec_or_original so uuid v version_00))"
  shows "decrypt_vec_or_original so uuid
      (encrypt_vec_or_original so uuid v version_00 max_len) cur = (v, True, version_00 \<noteq> cur)"
proof -
  obtain e where e: "encrypt so uuid v max_len = Some e" using encrypt_Some assms(3,4) by blast
  then have "encrypt_vec_or_original so uuid v version_00 max_len = version_00 @ e"
    using assms(4,5) by (simp add: encrypt_vec_or_original_def)
  then show ?thesis using decrypt_encrypt [OF assms(1,2) e] decrypt_prefixed(2) by simp
qed

lemma get_auto_password_chars: "set (get_auto_password rnd n) \<subseteq> set password_chars"
proof -
  have "password_chars ! (r mod length password_chars) \<in> set password_chars" for r
    by (rule nth_mem) (simp add: password_chars_def)
  then show ?thesis by (auto simp: get_auto_password_def)
qed

end
