(* ===== verification/Messages.thy ===== *)
theory Messages
  imports Sodium
begin

text \<open>
  The messages of the peer protocol (\<open>libs/hbb_common/protos/message.proto\<close>), as far as the
  modelled code looks inside them: the \<open>oneof\<close> unions as datatypes, the messages with several
  fields as records. Payloads that the modelled code only passes on are byte strings. An enum
  field holds a value of the enum or a number it does not know (\<open>enum_value\<close> is then an error).
\<close>

datatype bool_option = BoNotSet | BoNo | BoYes | BoUnknown

datatype image_quality = IqNotSet | IqLow | IqBalanced | IqBest | IqUnknown

datatype prefer_codec =
  PreferAuto | PreferVP9 | PreferH264 | PreferH265 | PreferVP8 | PreferAV1 | PreferUnknown int

datatype chroma = I420 | I444

record codec_ability =
  ca_vp8 :: bool
  ca_vp9 :: bool
  ca_av1 :: bool
  ca_h264 :: bool
  ca_h265 :: bool

record supported_encoding =
  se_h264 :: bool
  se_h265 :: bool
  se_vp8 :: bool
  se_av1 :: bool
  se_i444 :: "codec_ability option"

record supported_decoding =
  ability_vp9 :: int
  ability_h264 :: int
  ability_h265 :: int
  ability_vp8 :: int
  ability_av1 :: int
  sd_prefer :: prefer_codec
  sd_i444 :: "codec_ability option"
  prefer_chroma :: chroma

record option_message =
  om_image_quality :: image_quality
  om_lock_after_session_end :: bool_option
  om_show_remote_cursor :: bool_option
  om_privacy_mode :: bool_option
  om_block_input :: bool_option
  om_custom_image_quality :: int
  om_disable_audio :: bool_option
  om_disable_clipboard :: bool_option
  om_enable_file_transfer :: bool_option
  om_supported_decoding :: "supported_decoding option"
  om_custom_fps :: int
  om_disable_keyboard :: bool_option
  om_follow_remote_cursor :: bool_option
  om_follow_remote_window :: bool_option

definition option_default :: option_message where
  "option_default =
     \<lparr>om_image_quality = IqNotSet, om_lock_after_session_end = BoNotSet,
      om_show_remote_cursor = BoNotSet, om_privacy_mode = BoNotSet, om_block_input = BoNotSet,
      om_custom_image_quality = 0, om_disable_audio = BoNotSet, om_disable_clipboard = BoNotSet,
      om_enable_file_transfer = BoNotSet, om_supported_decoding = None, om_custom_fps = 0,
      om_disable_keyboard = BoNotSet, om_follow_remote_cursor = BoNotSet,
      om_follow_remote_window = BoNotSet\<rparr>"

datatype login_union =
    LrFileTransfer string bool  \<comment> \<open>directory, show hidden files\<close>
  | LrPortForward string int    \<comment> \<open>host, port\<close>

record login_request =
  lr_username :: string
  lr_password :: bytes
  lr_my_id :: string
  lr_my_name :: string
  lr_option :: "option_message option"
  lr_union :: "login_union option"
  lr_video_ack_required :: bool
  lr_session_id :: u64
  lr_version :: string
  lr_os_login :: "(string \<times> string) option"

definition login_request_default :: login_request where
  "login_request_default =
     \<lparr>lr_username = [], lr_password = [], lr_my_id = [], lr_my_name = [], lr_option = None,
      lr_union = None, lr_video_ack_required = False, lr_session_id = 0, lr_version = [],
      lr_os_login = None\<rparr>"

datatype permission =
  PermKeyboard | PermClipboard | PermAudio | PermFile | PermRestart | PermRecording | PermBlockInput

datatype block_input_state = BlkOnFailed | BlkOffFailed | BlkOnSucceeded | BlkOffSucceeded

datatype privacy_mode_state =
    PrvOnByOther | PrvNotSupported | PrvOnSucceeded | PrvOnFailedDenied | PrvOnFailedPlugin
  | PrvOnFailed | PrvOffSucceeded | PrvOffByPeer | PrvOffFailed | PrvOffUnknown

datatype back_notification =
    BackPrivacyMode privacy_mode_state string string  \<comment> \<open>details, implementation key\<close>
  | BackBlockInput block_input_state string

record file_entry =
  fe_name :: string
  fe_size :: u64
  fe_modified_time :: u64

datatype file_action =
    FaReadDir string bool
  | FaSend i32 string bool i32                        \<comment> \<open>id, path, include hidden, file number\<close>
  | FaReceive i32 string "file_entry list" i32 u64    \<comment> \<open>id, path, files, file number, total size\<close>
  | FaCreate i32 string
  | FaRemoveDir i32 string bool
  | FaRemoveFile i32 string i32
  | FaAllFiles i32 string bool
  | FaCancel i32
  | FaSendConfirm i32 i32 "(bool + u32) option"       \<comment> \<open>id, file number, skip or offset\<close>

datatype file_response =
    FrDir i32 string "file_entry list"
  | FrBlock i32 i32 bytes bool u32                    \<comment> \<open>id, file number, data, compressed, block\<close>
  | FrError i32 string i32
  | FrDone i32 i32
  | FrDigest i32 i32 u64 u64 bool bool                \<comment> \<open>id, file number, modified, size, upload, identical\<close>

record switch_display =
  sw_display :: i32
  sw_x :: i32
  sw_y :: i32
  sw_width :: i32
  sw_height :: i32
  sw_cursor_embedded :: bool
  sw_original_resolution :: "i32 \<times> i32"

datatype misc =
    MiscChatMessage string
  | MiscSwitchDisplay switch_display
  | MiscPermissionInfo permission bool
  | MiscOption option_message
  | MiscAudioFormat bytes
  | MiscCloseReason string
  | MiscRefreshVideo bool
  | MiscVideoReceived bool
  | MiscBackNotification back_notification
  | MiscRestartRemoteDevice bool
  | MiscStopService bool
  | MiscSwitchSidesRequest bytes
  | MiscChangeResolution i32 i32
  | MiscAutoAdjustFps u32
  | MiscClientRecordStatus bool
  | MiscCaptureDisplays "i32 list" "i32 list" "i32 list"   \<comment> \<open>add, sub, set\<close>
  | MiscRefreshVideoDisplay i32
  | MiscTogglePrivacyMode string bool
  | MiscChangeDisplayResolution i32 i32 i32
  | MiscMessageQuery i32
  | MiscSwitchBack
  | MiscFollowCurrentDisplay i32
  | MiscSupportedEncoding supported_encoding
  | MiscUac bool
  | MiscForegroundWindowElevated bool
  | MiscElevationRequest "(string \<times> string) option"  \<comment> \<open>direct, or a logon\<close>
  | MiscElevationResponse string
  | MiscPortableServiceRunning bool
  | MiscToggleVirtualDisplay i32 bool
  | MiscSelectedSid u32
  | MiscOther bytes  \<comment> \<open>members nobody looks into\<close>

record display_info =
  di_x :: i32
  di_y :: i32
  di_width :: i32
  di_height :: i32
  di_name :: string
  di_cursor_embedded :: bool

record peer_info =
  pi_username :: string
  pi_hostname :: string
  pi_platform :: string
  pi_displays :: "display_info list"
  pi_current_display :: i32
  pi_sas_enabled :: bool
  pi_version :: string
  pi_privacy_mode :: "bool option"  \<comment> \<open>\<open>features.privacy_mode\<close>\<close>
  pi_encoding :: "supported_encoding option"
  pi_resolutions :: "(i32 \<times> i32) list option"
  pi_platform_additions :: string
  pi_windows_sessions :: "(u32 \<times> string) list \<times> u32"  \<comment> \<open>the sessions and the current one\<close>

datatype login_response = LoginError string | LoginPeerInfo peer_info

record test_delay =
  td_time :: i64
  td_from_client :: bool
  td_last_delay :: u32
  td_target_bitrate :: u32

datatype control_key =
    CkAlt | CkShift | CkControl | CkMeta | CkRAlt | CkRShift | CkRControl | CkRWin
  | CkReturn | CkNumpadEnter | CkOther nat

datatype keyboard_mode = KmLegacy | KmMap | KmTranslate | KmAuto | KmUnknown

datatype key_union =
    KeyControl control_key
  | KeyChr u32
  | KeyUnicode u32
  | KeySeq string
  | KeyWin2win u32

record key_event =
  ke_down :: bool
  ke_press :: bool
  ke_union :: "key_union option"
  ke_modifiers :: "control_key list"
  ke_mode :: keyboard_mode

record mouse_event =
  me_mask :: i32
  me_x :: i32
  me_y :: i32
  me_modifiers :: "control_key list"

text \<open>A frame of the video: of its encoded parts, whether each is a key frame, and its data.\<close>

datatype video_codec = CodecVP8 | CodecVP9 | CodecAV1 | CodecH264 | CodecH265

datatype video_union =
    EncodedFrames video_codec "(bool \<times> bytes) list"
  | RawRgb
  | RawYuv

record video_frame =
  vf_union :: "video_union option"
  vf_display :: i32

text \<open>The \<open>oneof\<close> of the protobuf message \<open>Cliprdr\<close>.\<close>

record cliprdr_format =
  cf_format_id :: i32
  cf_format :: string

datatype cliprdr_union =
    CuReady
  | CuFormatList "cliprdr_format list"
  | CuFormatListResponse i32
  | CuFormatDataRequest i32
  | CuFormatDataResponse i32 bytes
  | CuFileContentsRequest i32 i32 i32 i32 i32 i32 bool i32
  | CuFileContentsResponse i32 i32 bytes

datatype message =
    MsgTestDelay test_delay
  | MsgVideoFrame video_frame
  | MsgLoginRequest login_request
  | MsgLoginResponse login_response
  | MsgHash string string  \<comment> \<open>salt, challenge\<close>
  | MsgMouseEvent mouse_event
  | MsgPointerDeviceEvent bytes
  | MsgAudioFrame bytes
  | MsgKeyEvent key_event
  | MsgClipboard bytes
  | MsgCliprdr "cliprdr_union option"
  | MsgMessageBox string string string string  \<comment> \<open>type, title, text, link\<close>
  | MsgFileAction "file_action option"
  | MsgFileResponse "file_response option"
  | MsgMisc "misc option"
  | MsgSwitchSidesResponse bytes "login_request option"
  | MsgVoiceCallRequest bool i64
  | MsgVoiceCallResponse bool i64
  | MsgAuth2fa string
  | MsgCursorData bytes
  | MsgCursorId u64
  | MsgCursorPosition i32 i32
  | MsgPeerInfo peer_info
  | MsgOther bytes

end
