(* ===== verification/Service.thy ===== *)
theory Service
  imports Messages
begin

text \<open>
  The services of the controlled side (\<open>src/server/service.rs\<close>): \<open>ServiceInner\<close> with its two
  maps of subscribers, the \<open>Service\<close> operations of \<open>ServiceTmpl\<close>, the snapshot that moves new
  subscribers over, and the thread loops \<open>repeat\<close> and \<open>run\<close>. A subscriber is a value of a type
  \<open>'t\<close> with the operations of the trait \<open>Subscriber\<close>, \<open>sid\<close> and \<open>ssend\<close>; \<open>conn_inner\<close>
  (\<open>ConnInner\<close> of \<open>src/server/connection.rs\<close>) provides them. A channel is the list of the
  messages sent over it.
\<close>

section \<open>State\<close>

record 't service =
  svc_name :: string
  subscribes :: "(i32, 't) hmap"
  new_subscribes :: "(i32, 't) hmap"
  active :: bool
  need_snapshot :: bool
  svc_options :: "(string, string) hmap"

definition HIBERNATE_TIMEOUT :: nat where "HIBERNATE_TIMEOUT = 30"
definition MAX_ERROR_TIMEOUT :: nat where "MAX_ERROR_TIMEOUT = 1000"

definition service_new :: "string \<Rightarrow> bool \<Rightarrow> 't service" where
  "service_new name snap =
     \<lparr>svc_name = name, subscribes = [], new_subscribes = [], active = True, need_snapshot = snap,
      svc_options = []\<rparr>"

section \<open>Operations\<close>

text \<open>Sending to every value of a map.\<close>

definition send_values :: "('t \<Rightarrow> 't) \<Rightarrow> (i32, 't) hmap \<Rightarrow> (i32, 't) hmap" where
  "send_values f m = map (\<lambda>(k, t). (k, f t)) m"

definition send_new_subscribes :: "('m \<Rightarrow> 't \<Rightarrow> 't) \<Rightarrow> 'm \<Rightarrow> 't service \<Rightarrow> 't service" where
  "send_new_subscribes ssend msg s = s\<lparr>new_subscribes := send_values (ssend msg) (new_subscribes s)\<rparr>"

definition swap_new_subscribes :: "('t \<Rightarrow> i32) \<Rightarrow> 't service \<Rightarrow> 't service" where
  "swap_new_subscribes sid s =
     s\<lparr>subscribes := fold (\<lambda>(_, t). hm_insert (sid t) t) (new_subscribes s) (subscribes s),
       new_subscribes := []\<rparr>"

definition has_subscribes :: "'t service \<Rightarrow> bool" where
  "has_subscribes s = (length (subscribes s) > 0 \<or> length (new_subscribes s) > 0)"

definition is_subed :: "'t service \<Rightarrow> i32 \<Rightarrow> bool" where
  "is_subed s i = (hm_get (subscribes s) i \<noteq> None \<or> hm_get (new_subscribes s) i \<noteq> None)"

definition on_subscribe :: "('t \<Rightarrow> i32) \<Rightarrow> 't \<Rightarrow> 't service \<Rightarrow> 't service" where
  "on_subscribe sid sub s =
     (if hm_get (subscribes s) (sid sub) \<noteq> None then s
      else if need_snapshot s then s\<lparr>new_subscribes := hm_insert (sid sub) sub (new_subscribes s)\<rparr>
      else s\<lparr>subscribes := hm_insert (sid sub) sub (subscribes s)\<rparr>)"

definition on_unsubscribe :: "i32 \<Rightarrow> 't service \<Rightarrow> 't service" where
  "on_unsubscribe i s =
     (if hm_get (subscribes s) i \<noteq> None then s\<lparr>subscribes := hm_remove i (subscribes s)\<rparr>
      else s\<lparr>new_subscribes := hm_remove i (new_subscribes s)\<rparr>)"

text \<open>\<open>join\<close> also waits for the service's thread, which ends once \<open>active\<close> is false.\<close>

definition service_join :: "'t service \<Rightarrow> 't service" where
  "service_join s = s\<lparr>active := False\<rparr>"

definition get_option :: "'t service \<Rightarrow> string \<Rightarrow> string option" where
  "get_option s opt = hm_get (svc_options s) opt"

definition set_option :: "string \<Rightarrow> string \<Rightarrow> 't service \<Rightarrow> 't service" where
  "set_option opt val s = s\<lparr>svc_options := hm_insert opt val (svc_options s)\<rparr>"

definition service_ok :: "'t service \<Rightarrow> bool" where
  "service_ok s = (active s \<and> has_subscribes s)"

definition is_option_true :: "'t service \<Rightarrow> string \<Rightarrow> bool" where
  "is_option_true s opt = (case get_option s opt of None \<Rightarrow> False | Some v \<Rightarrow> v = ''1'')"

definition set_option_bool :: "string \<Rightarrow> bool \<Rightarrow> 't service \<Rightarrow> 't service" where
  "set_option_bool opt val s = (if val then set_option opt ''1'' s else set_option opt ''0'' s)"

text \<open>
  \<open>snapshot\<close>: the callback sends to the new subscribers through the \<open>ServiceSwap\<close> it is given,
  whose drop moves them over whether the callback succeeded or not.
\<close>

definition snapshot ::
    "('t \<Rightarrow> i32) \<Rightarrow> ('t service \<Rightarrow> 't service \<times> bool) \<Rightarrow> 't service \<Rightarrow> 't service \<times> bool" where
  "snapshot sid callback s =
     (if length (new_subscribes s) > 0 then
        (let (s, res) = callback s in (swap_new_subscribes sid s, res))
      else (s, True))"

definition send_to :: "('m \<Rightarrow> 't \<Rightarrow> 't) \<Rightarrow> 'm \<Rightarrow> i32 \<Rightarrow> 't service \<Rightarrow> 't service" where
  "send_to ssend msg i s =
     (case hm_get (subscribes s) i of
        Some t \<Rightarrow> s\<lparr>subscribes := hm_insert i (ssend msg t) (subscribes s)\<rparr>
      | None \<Rightarrow> s)"

definition send_to_others :: "('m \<Rightarrow> 't \<Rightarrow> 't) \<Rightarrow> 'm \<Rightarrow> i32 \<Rightarrow> 't service \<Rightarrow> 't service" where
  "send_to_others ssend msg i s =
     s\<lparr>subscribes := map (\<lambda>(k, t). (k, if k \<noteq> i then ssend msg t else t)) (subscribes s)\<rparr>"

definition send_shared :: "('m \<Rightarrow> 't \<Rightarrow> 't) \<Rightarrow> 'm \<Rightarrow> 't service \<Rightarrow> 't service" where
  "send_shared ssend msg s = s\<lparr>subscribes := send_values (ssend msg) (subscribes s)\<rparr>"

definition send_video_frame_shared ::
    "('t \<Rightarrow> i32) \<Rightarrow> ('m \<Rightarrow> 't \<Rightarrow> 't) \<Rightarrow> 'm \<Rightarrow> 't service \<Rightarrow> i32 set \<times> 't service" where
  "send_video_frame_shared sid ssend msg s =
     (set (map (\<lambda>(k, t). sid (ssend msg t)) (subscribes s)), send_shared ssend msg s)"

definition send_without ::
    "('t \<Rightarrow> i32) \<Rightarrow> ('m \<Rightarrow> 't \<Rightarrow> 't) \<Rightarrow> 'm \<Rightarrow> i32 \<Rightarrow> 't service \<Rightarrow> 't service" where
  "send_without sid ssend msg sub s =
     s\<lparr>subscribes := send_values (\<lambda>t. if sub \<noteq> sid t then ssend msg t else t) (subscribes s)\<rparr>"

section \<open>The threads\<close>

text \<open>
  One round of the loop of \<open>repeat\<close>, without the pauses: the callback runs while there are
  subscribers; when the last one has gone the state is reset, once.
\<close>

definition repeat_round ::
    "('t service \<times> 'st \<Rightarrow> 't service \<times> 'st) \<Rightarrow> ('st \<Rightarrow> 'st)
     \<Rightarrow> 't service \<times> 'st \<times> bool \<Rightarrow> 't service \<times> 'st \<times> bool" where
  "repeat_round callback reset_state x =
     (let (s, st, may_reset) = x in
      if \<not> active s then x
      else if has_subscribes s then (let (s, st) = callback (s, st) in (s, st, True))
      else if may_reset then (s, reset_state st, False)
      else x)"

text \<open>The pause after an error in \<open>run\<close>, from the last pause and how long the callback ran.\<close>

definition next_error_timeout :: "nat \<Rightarrow> nat \<Rightarrow> nat" where
  "next_error_timeout elapsed error_timeout =
     (let t = (if elapsed > MAX_ERROR_TIMEOUT then HIBERNATE_TIMEOUT else error_timeout * 2)
      in if t > MAX_ERROR_TIMEOUT then MAX_ERROR_TIMEOUT else t)"

section \<open>Subscribers\<close>

text \<open>The trait \<open>Subscriber\<close>: sending does not change who the subscriber is.\<close>

locale subscriber =
  fixes sid :: "'t \<Rightarrow> i32" and ssend :: "'m \<Rightarrow> 't \<Rightarrow> 't"
  assumes sid_send: "sid (ssend msg t) = sid t"

record conn_inner =
  ci_id :: i32
  ci_tx :: "message list option"
  ci_tx_video :: "message list option"

fun tx_by_video :: "message \<Rightarrow> bool" where
  "tx_by_video (MsgVideoFrame _) = True"
| "tx_by_video (MsgMisc (Some (MiscSwitchDisplay _))) = True"
| "tx_by_video _ = False"

definition conn_send :: "message \<Rightarrow> conn_inner \<Rightarrow> conn_inner" where
  "conn_send msg c =
     (if tx_by_video msg then c\<lparr>ci_tx_video := map_option (\<lambda>q. q @ [msg]) (ci_tx_video c)\<rparr>
      else c\<lparr>ci_tx := map_option (\<lambda>q. q @ [msg]) (ci_tx c)\<rparr>)"

lemma conn_send_id [simp]: "ci_id (conn_send msg c) = ci_id c"
  by (simp add: conn_send_def)

section \<open>The invariant\<close>

definition keys_match :: "('t \<Rightarrow> i32) \<Rightarrow> (i32, 't) hmap \<Rightarrow> bool" where
  "keys_match sid m \<longleftrightarrow> (\<forall>(k, t) \<in> set m. k = sid t)"

text \<open>Every subscriber is in one of the two maps at most, under its own id.\<close>

definition service_inv :: "('t \<Rightarrow> i32) \<Rightarrow> 't service \<Rightarrow> bool" where
  "service_inv sid s \<longleftrightarrow>
     hm_ok (subscribes s) \<and> hm_ok (new_subscribes s) \<and>
     keys_match sid (subscribes s) \<and> keys_match sid (new_subscribes s) \<and>
     (\<forall>k. hm_get (subscribes s) k = None \<or> hm_get (new_subscribes s) k = None) \<and>
     hm_ok (svc_options s) \<and> (\<not> need_snapshot s \<longrightarrow> new_subscribes s = [])"

lemma keys_match_Nil [simp]: "keys_match sid []"
  by (simp add: keys_match_def)

lemma keys_match_insert: "keys_match sid m \<Longrightarrow> keys_match sid (hm_insert (sid t) t m)"
  by (auto simp: keys_match_def dest: hm_in_insertD)

lemma keys_match_remove: "keys_match sid m \<Longrightarrow> keys_match sid (hm_remove k m)"
  by (auto simp: keys_match_def dest: hm_in_removeD)

lemma keys_match_get: "keys_match sid m \<Longrightarrow> hm_get m k = Some t \<Longrightarrow> sid t = k"
  by (auto simp: keys_match_def dest: map_of_SomeD)

lemma map_fst_send_values [simp]: "map fst (send_values f m) = map fst m"
  by (induction m) (auto simp: send_values_def)

lemma hm_ok_send_values [simp]: "hm_ok (send_values f m) = hm_ok m"
  by (simp add: hm_ok_def)

lemma hm_get_send_values [simp]: "hm_get (send_values f m) k = map_option f (hm_get m k)"
  by (induction m) (auto simp: send_values_def)

lemma keys_match_send_values:
  "keys_match sid m \<Longrightarrow> (\<And>t. sid (f t) = sid t) \<Longrightarrow> keys_match sid (send_values f m)"
  by (auto simp: keys_match_def send_values_def)

lemma fold_insert:
  assumes "keys_match sid n" and "hm_ok n"
  shows "hm_ok m \<Longrightarrow> hm_ok (fold (\<lambda>(_, t). hm_insert (sid t) t) n m)"
    and "keys_match sid m \<Longrightarrow> keys_match sid (fold (\<lambda>(_, t). hm_insert (sid t) t) n m)"
    and "hm_get (fold (\<lambda>(_, t). hm_insert (sid t) t) n m) k
      = (case hm_get n k of Some t \<Rightarrow> Some t | None \<Rightarrow> hm_get m k)"
proof -
  show "hm_ok m \<Longrightarrow> hm_ok (fold (\<lambda>(_, t). hm_insert (sid t) t) n m)"
    by (induction n arbitrary: m) auto
  show "keys_match sid m \<Longrightarrow> keys_match sid (fold (\<lambda>(_, t). hm_insert (sid t) t) n m)"
    by (induction n arbitrary: m) (auto intro: keys_match_insert)
  show "hm_get (fold (\<lambda>(_, t). hm_insert (sid t) t) n m) k
      = (case hm_get n k of Some t \<Rightarrow> Some t | None \<Rightarrow> hm_get m k)"
    using assms
  proof (induction n arbitrary: m)
    case (Cons p n)
    obtain k' t where p: "p = (k', t)" by (cases p)
    have k': "k' = sid t" using Cons.prems(1) p by (simp add: keys_match_def)
    have "hm_get n k' = None"
      using Cons.prems(2) p by (simp add: hm_ok_def map_of_eq_None_iff)
    moreover have "keys_match sid n" "hm_ok n"
      using Cons.prems by (simp_all add: keys_match_def hm_ok_def)
    ultimately show ?case using Cons.IH p k' by (auto split: option.splits)
  qed simp
qed

section \<open>A service at work\<close>

text \<open>
  What happens to a service: connections subscribe and unsubscribe, the service's thread
  broadcasts, answers or takes a snapshot (sending the messages \<open>ms\<close>), options are set.
\<close>

datatype ('t, 'm) service_event =
    Subscribe 't
  | Unsubscribe i32
  | SendShared 'm
  | SendTo 'm i32
  | SendToOthers 'm i32
  | SendWithout 'm i32
  | TakeSnapshot "'m list" bool
  | SetOption string string
  | Join

fun service_step ::
    "('t \<Rightarrow> i32) \<Rightarrow> ('m \<Rightarrow> 't \<Rightarrow> 't) \<Rightarrow> 't service \<Rightarrow> ('t, 'm) service_event \<Rightarrow> 't service" where
  "service_step sid ssend s (Subscribe t) = on_subscribe sid t s"
| "service_step sid ssend s (Unsubscribe i) = on_unsubscribe i s"
| "service_step sid ssend s (SendShared m) = send_shared ssend m s"
| "service_step sid ssend s (SendTo m i) = send_to ssend m i s"
| "service_step sid ssend s (SendToOthers m i) = send_to_others ssend m i s"
| "service_step sid ssend s (SendWithout m i) = send_without sid ssend m i s"
| "service_step sid ssend s (TakeSnapshot ms ok) =
     fst (snapshot sid (\<lambda>s. (fold (send_new_subscribes ssend) ms s, ok)) s)"
| "service_step sid ssend s (SetOption opt val) = set_option opt val s"
| "service_step sid ssend s Join = service_join s"

lemma hm_get_map_key:
  "hm_get (map (\<lambda>(k, t). (k, f k t)) m) k = map_option (f k) (hm_get m k)"
  by (induction m) auto

lemma map_fst_map_key [simp]: "map fst (map (\<lambda>(k, t). (k, f k t)) m) = map fst m"
  by (induction m) auto

lemma service_inv_disjoint:
  "service_inv sid s \<Longrightarrow> hm_get (subscribes s) i = Some t \<Longrightarrow> hm_get (new_subscribes s) i = None"
  by (metis service_inv_def option.distinct(1))

lemma hm_ok_map_key: "hm_ok (map (\<lambda>(k, t). (k, f k t)) m) = hm_ok m"
  by (simp add: hm_ok_def del: map_map)

lemma swap_inv: "service_inv sid s \<Longrightarrow> service_inv sid (swap_new_subscribes sid s)"
  by (simp add: service_inv_def swap_new_subscribes_def fold_insert)

lemma on_subscribe_inv [inv_intros]: "service_inv sid s \<Longrightarrow> service_inv sid (on_subscribe sid t s)"
  by (auto simp: service_inv_def on_subscribe_def keys_match_insert)

lemma on_unsubscribe_inv [inv_intros]: "service_inv sid s \<Longrightarrow> service_inv sid (on_unsubscribe i s)"
  by (auto simp: service_inv_def on_unsubscribe_def keys_match_remove)

lemma options_inv [inv_intros]:
  "service_inv sid s \<Longrightarrow> service_inv sid (set_option opt val s)"
  "service_inv sid s \<Longrightarrow> service_inv sid (service_join s)"
  by (simp_all add: service_inv_def set_option_def service_join_def)

context subscriber
begin

lemma send_new_inv: "service_inv sid s \<Longrightarrow> service_inv sid (send_new_subscribes ssend m s)"
  by (simp add: service_inv_def send_new_subscribes_def keys_match_send_values sid_send)
    (auto simp: send_values_def)

lemma send_news_inv: "service_inv sid s \<Longrightarrow> service_inv sid (fold (send_new_subscribes ssend) ms s)"
  by (induction ms arbitrary: s) (auto intro: send_new_inv)

lemma send_shared_inv: "service_inv sid s \<Longrightarrow> service_inv sid (send_shared ssend m s)"
  by (simp add: service_inv_def send_shared_def keys_match_send_values sid_send)

lemma send_to_inv: "service_inv sid s \<Longrightarrow> service_inv sid (send_to ssend m i s)"
proof -
  assume inv: "service_inv sid s"
  have "keys_match sid (hm_insert i (ssend m t) (subscribes s))" if "hm_get (subscribes s) i = Some t" for t
    using keys_match_insert [of sid "subscribes s" "ssend m t"] keys_match_get [OF _ that, of sid] inv
    by (simp add: service_inv_def sid_send)
  moreover note service_inv_disjoint [OF inv, of i]
  ultimately show ?thesis using inv
    by (auto simp: service_inv_def send_to_def split: option.splits)
qed

lemma send_to_others_inv: "service_inv sid s \<Longrightarrow> service_inv sid (send_to_others ssend m i s)"
  by (auto simp: service_inv_def send_to_others_def keys_match_def sid_send
      hm_ok_map_key [where f = "\<lambda>k t. if k \<noteq> i then ssend m t else t"]
      hm_get_map_key [where f = "\<lambda>k t. if k \<noteq> i then ssend m t else t"] split: if_splits)

lemma send_without_inv: "service_inv sid s \<Longrightarrow> service_inv sid (send_without sid ssend m i s)"
  by (simp add: service_inv_def send_without_def keys_match_send_values sid_send)

lemma snapshot_inv:
  "service_inv sid s \<Longrightarrow>
   service_inv sid (fst (snapshot sid (\<lambda>s. (fold (send_new_subscribes ssend) ms s, ok)) s))"
  by (simp add: snapshot_def swap_inv send_news_inv)

lemma service_step_inv: "service_inv sid s \<Longrightarrow> service_inv sid (service_step sid ssend s e)"
  by (cases e) (simp_all only: service_step.simps on_subscribe_inv on_unsubscribe_inv options_inv
      send_shared_inv send_to_inv send_to_others_inv send_without_inv snapshot_inv)

end

sublocale subscriber \<subseteq> svc: machine "service_step sid ssend" "service_inv sid"
  by unfold_locales (rule service_step_inv)

interpretation conn: subscriber ci_id conn_send
  by unfold_locales simp

lemma service_new_inv [simp]: "service_inv sid (service_new name snap)"
  by (simp add: service_inv_def service_new_def)

lemma is_subed_on_subscribe:
  "is_subed (on_subscribe sid t s) i \<longleftrightarrow> i = sid t \<or> is_subed s i"
  by (auto simp: is_subed_def on_subscribe_def)

lemma is_subed_on_unsubscribe:
  "service_inv sid s \<Longrightarrow> is_subed (on_unsubscribe i s) k \<longleftrightarrow> k \<noteq> i \<and> is_subed s k"
  using service_inv_disjoint [of sid s i] by (auto simp: is_subed_def on_unsubscribe_def)

lemma is_subed_swap:
  "service_inv sid s \<Longrightarrow> is_subed (swap_new_subscribes sid s) k \<longleftrightarrow> is_subed s k"
  by (auto simp: is_subed_def swap_new_subscribes_def service_inv_def fold_insert split: option.splits)

text \<open>A snapshot's messages reach every new subscriber, in order, and nobody else.\<close>

lemma fold_send_new:
  "new_subscribes (fold (send_new_subscribes ssend) ms s)
     = send_values (\<lambda>t. fold ssend ms t) (new_subscribes s)"
  "subscribes (fold (send_new_subscribes ssend) ms s) = subscribes s"
  "need_snapshot (fold (send_new_subscribes ssend) ms s) = need_snapshot s"
  by (induction ms arbitrary: s) (auto simp: send_new_subscribes_def send_values_def)

section \<open>Properties\<close>

text \<open>
  C39: Through any sequence of subscriptions, broadcasts, snapshots and cancellations, every
  connection is in at most one of a service's two maps and stands under its own id.
\<close>

theorem service_invariant:
  "service_inv ci_id (run (service_step ci_id conn_send) (service_new name snap) es)"
  by (rule conn.svc.run_inv) simp

text \<open>
  Snapshot before updates. In a service that takes snapshots, a connection that
  subscribes gets the snapshot before anything else: whatever the order of subscriptions,
  broadcasts and snapshots, the first message on the channel of a connection that receives
  broadcasts is one that a snapshot sent.
\<close>

definition snapshot_events :: "(message \<Rightarrow> bool) \<Rightarrow> (conn_inner, message) service_event \<Rightarrow> bool" where
  "snapshot_events P e = (case e of
       Subscribe c \<Rightarrow> ci_tx c = Some []
     | TakeSnapshot ms ok \<Rightarrow> ms \<noteq> [] \<and> list_all (\<lambda>m. P m \<and> \<not> tx_by_video m) ms
     | _ \<Rightarrow> True)"

definition starts_with :: "(message \<Rightarrow> bool) \<Rightarrow> conn_inner \<Rightarrow> bool" where
  "starts_with P c = (case ci_tx c of Some (m # _) \<Rightarrow> P m | _ \<Rightarrow> False)"

definition snapshot_state :: "(message \<Rightarrow> bool) \<Rightarrow> conn_inner service \<Rightarrow> bool" where
  "snapshot_state P s \<longleftrightarrow> need_snapshot s \<and>
     (\<forall>k c. hm_get (subscribes s) k = Some c \<longrightarrow> starts_with P c) \<and>
     (\<forall>k c. hm_get (new_subscribes s) k = Some c \<longrightarrow> ci_tx c = Some [])"

lemma starts_with_send [simp]: "starts_with P c \<Longrightarrow> starts_with P (conn_send m c)"
  by (auto simp: starts_with_def conn_send_def split: option.splits list.splits)

lemma fold_conn_send:
  "list_all (\<lambda>m. P m \<and> \<not> tx_by_video m) ms \<Longrightarrow> ci_tx c = Some q \<Longrightarrow>
   ci_tx (fold conn_send ms c) = Some (q @ ms)"
  by (induction ms arbitrary: c q) (auto simp: conn_send_def)

lemma starts_with_snapshot:
  "ms \<noteq> [] \<Longrightarrow> list_all (\<lambda>m. P m \<and> \<not> tx_by_video m) ms \<Longrightarrow> ci_tx c = Some [] \<Longrightarrow>
   starts_with P (fold conn_send ms c)"
  using fold_conn_send [of P ms c "[]"] by (cases ms) (auto simp: starts_with_def)

lemma snapshot_state_step:
  assumes "service_inv ci_id s" and "snapshot_state P s" and "snapshot_events P e"
  shows "snapshot_state P (service_step ci_id conn_send s e)"
proof (cases e)
  case (TakeSnapshot ms ok)
  let ?s = "fold (send_new_subscribes conn_send) ms s"
  have inv: "service_inv ci_id ?s" by (rule conn.send_news_inv) (rule assms)
  have "snapshot_state P (swap_new_subscribes ci_id ?s)"
    using inv assms(2,3) TakeSnapshot fold_insert(3) [of ci_id "new_subscribes ?s"]
    by (auto simp: snapshot_state_def swap_new_subscribes_def service_inv_def snapshot_events_def
        fold_send_new starts_with_snapshot split: option.splits)
  then show ?thesis using TakeSnapshot assms(2) by (simp add: snapshot_def)
next
  case (SendToOthers m i)
  then show ?thesis using assms(2)
    by (auto simp: snapshot_state_def send_to_others_def
        hm_get_map_key [where f = "\<lambda>k t. if k \<noteq> i then conn_send m t else t"])
qed (use assms in \<open>auto simp: snapshot_state_def snapshot_events_def on_subscribe_def
    on_unsubscribe_def send_shared_def send_to_def send_without_def set_option_def
    service_join_def split: option.splits\<close>)

theorem snapshot_first:
  assumes "\<forall>e \<in> set es. snapshot_events P e"
    and "hm_get (subscribes (run (service_step ci_id conn_send) (service_new name True) es)) k = Some c"
  shows "starts_with P c"
proof -
  have "snapshot_state P (run (service_step ci_id conn_send) (service_new name True) es)"
  proof (rule conn.svc.run_preserves)
    show "snapshot_state P (service_new name True)"
      by (simp add: snapshot_state_def service_new_def)
  qed (use assms(1) snapshot_state_step in auto)
  then show ?thesis using assms(2) by (simp add: snapshot_state_def)
qed

theorem snapshot_first_witness:
  "starts_with (\<lambda>m. m = MsgOther [1])
     \<lparr>ci_id = 7, ci_tx = Some [MsgOther [1], MsgOther [2]], ci_tx_video = None\<rparr>"
  by (rule snapshot_first [where name = "''clipboard''" and k = 7 and
        es = "[Subscribe \<lparr>ci_id = 7, ci_tx = Some [], ci_tx_video = None\<rparr>, SendShared (MsgOther [0]),
               TakeSnapshot [MsgOther [1]] True, SendShared (MsgOther [2])]"])
    (simp_all add: snapshot_events_def service_new_def on_subscribe_def send_shared_def send_values_def
      snapshot_def send_new_subscribes_def swap_new_subscribes_def conn_send_def)

text \<open>The pause of \<open>run\<close> after an error stays between the two constants.\<close>

lemma next_error_timeout_bounds:
  "HIBERNATE_TIMEOUT \<le> t \<Longrightarrow> HIBERNATE_TIMEOUT \<le> next_error_timeout e t \<and>
   next_error_timeout e t \<le> MAX_ERROR_TIMEOUT"
  by (simp add: next_error_timeout_def HIBERNATE_TIMEOUT_def MAX_ERROR_TIMEOUT_def Let_def)

text \<open>In \<open>repeat\<close> the state is reset only after the callback has run since the last reset.\<close>

lemma repeat_round_idle:
  "\<not> has_subscribes s \<Longrightarrow> repeat_round cb rst (repeat_round cb rst (s, st, r))
     = repeat_round cb rst (s, st, r)"
  by (simp add: repeat_round_def)

end
