(* ===== verification/Server.thy ===== *)
theory Server
  imports Service Rust_Text
begin

text \<open>
  The registry of the controlled side (\<open>src/server.rs\<close>, \<open>impl Server\<close>): the connections, the
  services by name, and which connection subscribes to which service. The services here are
  those whose subscribers are connections; the index of the primary display, read once at the
  start of the program, is the argument \<open>primary\<close>.
\<close>

section \<open>State and operations\<close>

record server =
  connections :: "(i32, conn_inner) hmap"
  services :: "(string, conn_inner service) hmap"
  id_count :: i32
  conn_count :: nat  \<comment> \<open>\<open>CONN_COUNT\<close>\<close>

definition VIDEO_NAME :: string where "VIDEO_NAME = ''video''"

definition get_service_name :: "nat \<Rightarrow> string" where
  "get_service_name idx = VIDEO_NAME @ show_nat idx"

text \<open>\<open>video_service::new\<close>: the service; its thread runs outside the model.\<close>

definition video_service_new :: "nat \<Rightarrow> conn_inner service" where
  "video_service_new idx = service_new (get_service_name idx) True"

definition is_video_service_name :: "string \<Rightarrow> bool" where
  "is_video_service_name name = prefix VIDEO_NAME name"

definition server_contains :: "string \<Rightarrow> server \<Rightarrow> bool" where
  "server_contains name s = (hm_get (services s) name \<noteq> None)"

definition add_service :: "conn_inner service \<Rightarrow> server \<Rightarrow> server" where
  "add_service svc s = s\<lparr>services := hm_insert (svc_name svc) svc (services s)\<rparr>"

definition try_add_primay_video_service :: "nat \<Rightarrow> server \<Rightarrow> server" where
  "try_add_primay_video_service primary s =
     (if \<not> server_contains (get_service_name primary) s then add_service (video_service_new primary) s
      else s)"

text \<open>A loop over the services that may change each of them in place.\<close>

definition map_services :: "(string \<Rightarrow> conn_inner service \<Rightarrow> conn_inner service) \<Rightarrow> server \<Rightarrow> server" where
  "map_services f s = s\<lparr>services := map (\<lambda>(k, svc). (k, f k svc)) (services s)\<rparr>"

definition add_connection :: "nat \<Rightarrow> conn_inner \<Rightarrow> string list \<Rightarrow> server \<Rightarrow> server" where
  "add_connection primary conn noperms s =
     (let s = map_services (\<lambda>_ svc.
                let name = svc_name svc in
                if is_video_service_name name \<and> name \<noteq> get_service_name primary then svc
                else if name \<notin> set noperms then on_subscribe ci_id conn svc else svc) s;
          conns = hm_insert (ci_id conn) conn (connections s)
      in s\<lparr>connections := conns, conn_count := length conns\<rparr>)"

definition remove_connection :: "conn_inner \<Rightarrow> server \<Rightarrow> server" where
  "remove_connection conn s =
     (let s = map_services (\<lambda>_ svc. on_unsubscribe (ci_id conn) svc) s;
          conns = hm_remove (ci_id conn) (connections s)
      in s\<lparr>connections := conns, conn_count := length conns\<rparr>)"

definition close_connections :: "server \<Rightarrow> server" where
  "close_connections s =
     s\<lparr>connections := send_values (conn_send (MsgMisc (Some (MiscStopService True)))) (connections s)\<rparr>"

definition server_subscribe :: "string \<Rightarrow> conn_inner \<Rightarrow> bool \<Rightarrow> server \<Rightarrow> server" where
  "server_subscribe name conn sub s =
     (case hm_get (services s) name of
        Some svc \<Rightarrow>
          if is_subed svc (ci_id conn) = sub then s
          else s\<lparr>services := hm_insert name
                  (if sub then on_subscribe ci_id conn svc else on_unsubscribe (ci_id conn) svc)
                  (services s)\<rparr>
      | None \<Rightarrow> s)"

definition get_new_id :: "server \<Rightarrow> i32 \<times> server" where
  "get_new_id s = (let s = s\<lparr>id_count := id_count s + 1\<rparr> in (id_count s, s))"

definition set_video_service_opt :: "nat option \<Rightarrow> string \<Rightarrow> string \<Rightarrow> server \<Rightarrow> server" where
  "set_video_service_opt display opt value =
     map_services (\<lambda>k v.
       case display of
         Some d \<Rightarrow>
           (if k \<noteq> get_service_name d then v
            else if is_video_service_name k then set_option opt value v else v)
       | None \<Rightarrow> if is_video_service_name k then set_option opt value v else v)"

definition get_subbed_displays_count :: "i32 \<Rightarrow> server \<Rightarrow> nat" where
  "get_subbed_displays_count conn_id s =
     length (filter (\<lambda>k. is_video_service_name k \<and>
       (case hm_get (services s) k of Some svc \<Rightarrow> is_subed svc conn_id | None \<Rightarrow> False))
       (map fst (services s)))"

definition server_capture_displays :: "conn_inner \<Rightarrow> nat list \<Rightarrow> bool \<Rightarrow> bool \<Rightarrow> server \<Rightarrow> server" where
  "server_capture_displays conn displays include exclude s =
     (let displays = map get_service_name displays;
          keys = map fst (services s)
      in fold (\<lambda>name s.
           if is_video_service_name name then
             (if name \<in> set displays then
                (if include then server_subscribe name conn True s else s)
              else if exclude then server_subscribe name conn False s else s)
           else s) keys s)"

definition server_drop :: "server \<Rightarrow> server" where
  "server_drop = map_services (\<lambda>_ svc. service_join svc)"

section \<open>The invariant\<close>

definition server_inv :: "server \<Rightarrow> bool" where
  "server_inv s \<longleftrightarrow>
     hm_ok (connections s) \<and> hm_ok (services s) \<and> keys_match ci_id (connections s) \<and>
     (\<forall>(k, svc) \<in> set (services s). svc_name svc = k \<and> service_inv ci_id svc)"

text \<open>Whether a connection is subscribed to the service of a name.\<close>

definition subed :: "server \<Rightarrow> string \<Rightarrow> i32 \<Rightarrow> bool" where
  "subed s name i = (case hm_get (services s) name of Some svc \<Rightarrow> is_subed svc i | None \<Rightarrow> False)"

lemma server_inv_get:
  "server_inv s \<Longrightarrow> hm_get (services s) k = Some svc \<Longrightarrow> svc_name svc = k \<and> service_inv ci_id svc"
  by (auto simp: server_inv_def dest: map_of_SomeD)

lemma svc_name_ops [simp]:
  "svc_name (on_subscribe sid t svc) = svc_name svc"
  "svc_name (on_unsubscribe i svc) = svc_name svc"
  "svc_name (set_option opt val svc) = svc_name svc"
  "svc_name (service_join svc) = svc_name svc"
  by (simp_all add: on_subscribe_def on_unsubscribe_def set_option_def service_join_def)

lemma map_services_inv:
  assumes "server_inv s"
    and "\<And>k svc. svc_name svc = k \<Longrightarrow> service_inv ci_id svc \<Longrightarrow>
      svc_name (f k svc) = k \<and> service_inv ci_id (f k svc)"
  shows "server_inv (map_services f s)"
  using assms by (fastforce simp: server_inv_def map_services_def hm_ok_map_key)

lemma hm_get_map_services:
  "hm_get (services (map_services f s)) k = map_option (f k) (hm_get (services s) k)"
  by (simp add: map_services_def hm_get_map_key)

lemma insert_service_inv:
  "server_inv s \<Longrightarrow> svc_name svc = k \<Longrightarrow> service_inv ci_id svc \<Longrightarrow>
   server_inv (s\<lparr>services := hm_insert k svc (services s)\<rparr>)"
  by (fastforce simp: server_inv_def dest: hm_in_insertD)

lemma server_subscribe_inv [inv_intros]:
  assumes "server_inv s"
  shows "server_inv (server_subscribe name conn sub s)"
  using assms server_inv_get [OF assms]
  by (auto simp: server_subscribe_def intro!: insert_service_inv on_subscribe_inv on_unsubscribe_inv
      split: option.splits)

lemma fold_inv: "(\<And>x s. P s \<Longrightarrow> P (f x s)) \<Longrightarrow> P s \<Longrightarrow> P (fold f xs s)"
  by (induction xs arbitrary: s) auto

lemma server_capture_displays_inv [inv_intros]:
  assumes "server_inv s"
  shows "server_inv (server_capture_displays conn ds i e s)"
  unfolding server_capture_displays_def Let_def
  by (rule fold_inv [where P = server_inv]) (use assms in \<open>auto intro: server_subscribe_inv\<close>)

lemma add_service_inv [inv_intros]:
  "server_inv s \<Longrightarrow> service_inv ci_id svc \<Longrightarrow> server_inv (add_service svc s)"
  by (simp add: add_service_def insert_service_inv)

lemma try_add_primay_inv [inv_intros]:
  "server_inv s \<Longrightarrow> server_inv (try_add_primay_video_service primary s)"
  by (simp add: try_add_primay_video_service_def add_service_inv video_service_new_def)

lemma connections_update_inv:
  "server_inv s \<Longrightarrow> hm_ok m \<Longrightarrow> keys_match ci_id m \<Longrightarrow>
   server_inv (s\<lparr>connections := m, conn_count := n\<rparr>)"
  by (simp add: server_inv_def)

lemma map_services_connections [simp]: "connections (map_services f s) = connections s"
  by (simp add: map_services_def)

lemma add_connection_inv [inv_intros]:
  assumes "server_inv s"
  shows "server_inv (add_connection primary conn noperms s)"
  unfolding add_connection_def Let_def
  by (intro connections_update_inv map_services_inv [OF assms])
    (use assms in \<open>auto simp: server_inv_def keys_match_insert intro: on_subscribe_inv\<close>)

lemma remove_connection_inv [inv_intros]:
  assumes "server_inv s"
  shows "server_inv (remove_connection conn s)"
  unfolding remove_connection_def Let_def
  by (intro connections_update_inv map_services_inv [OF assms])
    (use assms in \<open>auto simp: server_inv_def keys_match_remove intro: on_unsubscribe_inv\<close>)

lemma other_ops_inv [inv_intros]:
  "server_inv s \<Longrightarrow> server_inv (close_connections s)"
  "server_inv s \<Longrightarrow> server_inv (snd (get_new_id s))"
  "server_inv s \<Longrightarrow> server_inv (set_video_service_opt d opt val s)"
  "server_inv s \<Longrightarrow> server_inv (server_drop s)"
proof -
  assume inv: "server_inv s"
  show "server_inv (close_connections s)"
    using inv by (simp add: server_inv_def close_connections_def keys_match_send_values)
  show "server_inv (snd (get_new_id s))"
    using inv by (simp add: server_inv_def get_new_id_def Let_def)
  show "server_inv (set_video_service_opt d opt val s)"
    unfolding set_video_service_opt_def
    by (rule map_services_inv [OF inv]) (auto intro: options_inv split: option.splits)
  show "server_inv (server_drop s)"
    unfolding server_drop_def by (rule map_services_inv [OF inv]) (auto intro: options_inv)
qed

text \<open>The state of a new server: no connections, no services yet.\<close>

definition server_init :: "i32 \<Rightarrow> server" where
  "server_init n = \<lparr>connections = [], services = [], id_count = n, conn_count = 0\<rparr>"

datatype server_event =
    AddService "conn_inner service"
  | AddPrimary nat
  | AddConnection nat conn_inner "string list"
  | RemoveConnection conn_inner
  | CloseConnections
  | SubscribeTo string conn_inner bool
  | CaptureDisplays conn_inner "nat list" bool bool
  | SetVideoOpt "nat option" string string
  | NewId

fun server_step :: "server \<Rightarrow> server_event \<Rightarrow> server" where
  "server_step s (AddService svc) =
     (if service_inv ci_id svc then add_service svc s else s)"
| "server_step s (AddPrimary p) = try_add_primay_video_service p s"
| "server_step s (AddConnection p c noperms) = add_connection p c noperms s"
| "server_step s (RemoveConnection c) = remove_connection c s"
| "server_step s CloseConnections = close_connections s"
| "server_step s (SubscribeTo name c b) = server_subscribe name c b s"
| "server_step s (CaptureDisplays c ds i e) = server_capture_displays c ds i e s"
| "server_step s (SetVideoOpt d opt val) = set_video_service_opt d opt val s"
| "server_step s NewId = snd (get_new_id s)"

lemma server_step_inv: "server_inv s \<Longrightarrow> server_inv (server_step s e)"
  by (cases e) (simp_all add: inv_intros)

interpretation srv: machine server_step server_inv
  by unfold_locales (rule server_step_inv)

section \<open>What the operations do to subscriptions\<close>

lemma subed_server_subscribe:
  assumes "server_inv s"
  shows "subed (server_subscribe name conn b s) k i \<longleftrightarrow>
    (if k = name \<and> i = ci_id conn \<and> server_contains name s then b else subed s k i)"
proof (cases "hm_get (services s) name")
  case (Some svc)
  then show ?thesis
    using server_inv_get [OF assms Some]
    by (cases b) (auto simp: subed_def server_subscribe_def server_contains_def
        is_subed_on_subscribe is_subed_on_unsubscribe)
qed (auto simp: subed_def server_subscribe_def server_contains_def)

lemma contains_server_subscribe [simp]:
  "server_contains k (server_subscribe name conn b s) = server_contains k s"
  by (auto simp: server_contains_def server_subscribe_def split: option.splits)

text \<open>The loop of \<open>capture_displays\<close> decides every service by itself.\<close>

lemma subed_fold_subscribe:
  assumes "server_inv s" and "\<forall>n \<in> set ns. server_contains n s"
  shows "subed (fold (\<lambda>n s. case want n of Some b \<Rightarrow> server_subscribe n conn b s | None \<Rightarrow> s) ns s) k i
    \<longleftrightarrow> (if i = ci_id conn \<and> k \<in> set ns then (case want k of Some b \<Rightarrow> b | None \<Rightarrow> subed s k i)
        else subed s k i)"
  using assms
proof (induction ns arbitrary: s)
  case (Cons n ns)
  let ?s = "case want n of Some b \<Rightarrow> server_subscribe n conn b s | None \<Rightarrow> s"
  have "server_inv ?s" "\<forall>n \<in> set ns. server_contains n ?s"
    using Cons.prems by (auto intro: server_subscribe_inv split: option.splits)
  note IH = Cons.IH [OF this]
  have step: "subed ?s k i \<longleftrightarrow> (if k = n \<and> i = ci_id conn then (case want n of Some b \<Rightarrow> b | None \<Rightarrow> subed s k i)
      else subed s k i)"
    using Cons.prems by (auto simp: subed_server_subscribe split: option.splits)
  show ?case using IH step by (auto split: option.splits)
qed simp

lemma subed_capture_displays:
  assumes "server_inv s"
  shows "subed (server_capture_displays conn ds include exclude s) k i \<longleftrightarrow>
    (if i = ci_id conn \<and> is_video_service_name k \<and> server_contains k s then
       (if k \<in> get_service_name ` set ds then include \<or> subed s k i
        else \<not> exclude \<and> subed s k i)
     else subed s k i)"
proof -
  let ?want = "\<lambda>n. if is_video_service_name n then
      (if n \<in> get_service_name ` set ds then (if include then Some True else None)
       else if exclude then Some False else None) else None"
  have "server_capture_displays conn ds include exclude s
      = fold (\<lambda>n s. case ?want n of Some b \<Rightarrow> server_subscribe n conn b s | None \<Rightarrow> s)
          (map fst (services s)) s"
    unfolding server_capture_displays_def Let_def by (rule fold_cong) auto
  moreover have "\<forall>n \<in> set (map fst (services s)). server_contains n s"
    by (auto simp: server_contains_def map_of_eq_None_iff intro: rev_image_eqI)
  moreover have "k \<in> set (map fst (services s)) \<longleftrightarrow> server_contains k s"
    by (simp add: server_contains_def map_of_eq_None_iff)
  ultimately show ?thesis
    using subed_fold_subscribe [OF assms, of "map fst (services s)" conn ?want k i] by auto
qed

lemma subed_remove_connection:
  assumes "server_inv s"
  shows "subed (remove_connection conn s) k i \<longleftrightarrow> i \<noteq> ci_id conn \<and> subed s k i"
  using server_inv_get [OF assms]
  by (auto simp: subed_def remove_connection_def Let_def hm_get_map_services
      is_subed_on_unsubscribe [where sid = ci_id] split: option.splits)

lemma subed_add_connection:
  assumes "server_inv s"
  shows "subed (add_connection primary conn noperms s) k i \<longleftrightarrow>
    subed s k i \<or> i = ci_id conn \<and> server_contains k s \<and> k \<notin> set noperms \<and>
      (is_video_service_name k \<longrightarrow> k = get_service_name primary)"
  using server_inv_get [OF assms]
  by (auto simp: subed_def add_connection_def Let_def hm_get_map_services is_subed_on_subscribe
      server_contains_def split: option.splits)

lemma server_run_inv: "server_inv (run server_step (server_init n) es)"
  by (rule srv.run_inv) (simp add: server_inv_def server_init_def)

section \<open>Properties\<close>

text \<open>
  After any sequence of operations the registry is consistent: every service stands under
  its own name, every connection under its own id, and every service has its subscribers in at
  most one of its maps.
\<close>

theorem server_invariant: "server_inv (run server_step (server_init n) es)"
  by (rule server_run_inv)

text \<open>
  \<open>capture_displays\<close> with \<open>include\<close> and \<open>exclude\<close> makes the connection's set of captured
  displays exactly the requested ones that have a service, whatever it was before; the other
  services and the other connections keep their subscriptions.
\<close>

theorem capture_displays_exact:
  assumes "server_inv s"
  shows "subed (server_capture_displays conn ds True True s) k i \<longleftrightarrow>
    (if i = ci_id conn \<and> is_video_service_name k
     then server_contains k s \<and> k \<in> get_service_name ` set ds else subed s k i)"
  using subed_capture_displays [OF assms, of conn ds True True k i]
  by (auto simp: subed_def server_contains_def split: option.splits)

theorem capture_displays_exact_witness:
  "\<not> subed (server_capture_displays \<lparr>ci_id = 3, ci_tx = None, ci_tx_video = None\<rparr> [1] True True
      (add_connection 0 \<lparr>ci_id = 3, ci_tx = None, ci_tx_video = None\<rparr> []
        (try_add_primay_video_service 0 (server_init 1000)))) (get_service_name 0) 3"
proof -
  let ?c = "\<lparr>ci_id = 3, ci_tx = None, ci_tx_video = None\<rparr>"
  have "server_inv (add_connection 0 ?c [] (try_add_primay_video_service 0 (server_init 1000)))"
    using server_run_inv [of 1000 "[AddPrimary 0, AddConnection 0 ?c []]"] by simp
  moreover have "get_service_name 0 \<noteq> get_service_name 1"
    by (simp add: get_service_name_def show_nat.simps digit_char_def)
  ultimately show ?thesis
    by (subst capture_displays_exact) (auto simp: is_video_service_name_def get_service_name_def)
qed

text \<open>
  A connection that is removed has no subscription left anywhere, and no other connection
  loses one.
\<close>

theorem remove_connection_complete:
  assumes "server_inv s"
  shows "(\<forall>k. \<not> subed (remove_connection conn s) k (ci_id conn)) \<and>
    (\<forall>k i. i \<noteq> ci_id conn \<longrightarrow> subed (remove_connection conn s) k i = subed s k i) \<and>
    hm_get (connections (remove_connection conn s)) (ci_id conn) = None"
  using subed_remove_connection [OF assms]
  by (simp add: remove_connection_def Let_def)

theorem remove_connection_complete_witness:
  "\<not> subed (remove_connection \<lparr>ci_id = 3, ci_tx = None, ci_tx_video = None\<rparr>
      (add_connection 0 \<lparr>ci_id = 3, ci_tx = None, ci_tx_video = None\<rparr> []
        (try_add_primay_video_service 0 (server_init 1000)))) ''video0'' 3"
proof -
  let ?c = "\<lparr>ci_id = 3, ci_tx = None, ci_tx_video = None\<rparr>"
  have "server_inv (add_connection 0 ?c [] (try_add_primay_video_service 0 (server_init 1000)))"
    using server_run_inv [of 1000 "[AddPrimary 0, AddConnection 0 ?c []]"] by simp
  from remove_connection_complete [OF this, of ?c] show ?thesis by simp
qed

end
