(* ===== verification/Video_QoS.thy ===== *)
theory Video_QoS
  imports Password_Security
begin

text \<open>
  The quality control of the video stream (\<open>src/server/video_qos.rs\<close>): the frame rate and the
  image quality that \<open>VideoQoS\<close> derives from what every connected user asks for and from the
  network delays measured for them. Numbers are \<open>u32\<close> words and wrap, as in the release
  profile; \<open>get_option\<close> and the clock are arguments. \<open>spf\<close>, a floating-point quotient of
  \<open>fps\<close>, is not modelled.
\<close>

section \<open>State\<close>

datatype quality = QBest | QBalanced | QLow | QCustom u32

datatype delay_state = DsNormal | DsLowDelay | DsHighDelay | DsBroken

fun delay_code :: "delay_state \<Rightarrow> int" where
  "delay_code DsNormal = 0"
| "delay_code DsLowDelay = 200"
| "delay_code DsHighDelay = 500"
| "delay_code DsBroken = 1000"

record delay =
  d_state :: delay_state
  d_staging_state :: delay_state
  d_delay :: u32
  d_counter :: u32
  d_slower :: "bool option"

record user_data =
  u_auto_adjust_fps :: "u32 option"
  u_custom_fps :: "u32 option"
  u_quality :: "(int \<times> quality) option"
  u_delay :: "delay option"
  u_response_delayed :: bool
  u_record :: bool

definition user_data_default :: user_data where
  "user_data_default =
     \<lparr>u_auto_adjust_fps = None, u_custom_fps = None, u_quality = None, u_delay = None,
      u_response_delayed = False, u_record = False\<rparr>"

record video_qos =
  q_fps :: u32
  q_quality :: quality
  q_users :: "(i32, user_data) hmap"
  q_bitrate_store :: u32
  q_support_abr :: "(nat, bool) hmap"

definition FPS :: u32 where "FPS = 30"
definition MIN_FPS :: u32 where "MIN_FPS = 1"
definition MAX_FPS :: u32 where "MAX_FPS = 120"

definition video_qos_default :: video_qos where
  "video_qos_default =
     \<lparr>q_fps = FPS, q_quality = QBalanced, q_users = [], q_bitrate_store = 0, q_support_abr = []\<rparr>"

definition from_delay :: "u32 \<Rightarrow> delay_state" where
  "from_delay delay =
     (if delay > 1000 then DsBroken else if delay > 500 then DsHighDelay
      else if delay > 200 then DsLowDelay else DsNormal)"

definition qos_fps :: "video_qos \<Rightarrow> u32" where
  "qos_fps s = (if q_fps s \<ge> MIN_FPS \<and> q_fps s \<le> MAX_FPS then q_fps s else FPS)"

definition qos_record :: "video_qos \<Rightarrow> bool" where
  "qos_record s = list_ex (\<lambda>(_, u). u_record u) (q_users s)"

definition store_bitrate :: "u32 \<Rightarrow> video_qos \<Rightarrow> video_qos" where
  "store_bitrate b s = s\<lparr>q_bitrate_store := b\<rparr>"

definition set_support_abr :: "nat \<Rightarrow> bool \<Rightarrow> video_qos \<Rightarrow> video_qos" where
  "set_support_abr display_idx support s = s\<lparr>q_support_abr := hm_insert display_idx support (q_support_abr s)\<rparr>"

section \<open>Refresh\<close>

text \<open>\<open>Iterator::max_by\<close>: the last of the greatest elements.\<close>

fun max_by_acc :: "('a \<Rightarrow> int) \<Rightarrow> 'a \<Rightarrow> 'a list \<Rightarrow> 'a" where
  "max_by_acc key a [] = a"
| "max_by_acc key a (x # xs) = max_by_acc key (if key a \<le> key x then x else a) xs"

definition max_by :: "('a \<Rightarrow> int) \<Rightarrow> 'a list \<Rightarrow> 'a option" where
  "max_by key xs = (case xs of [] \<Rightarrow> None | x # xs \<Rightarrow> Some (max_by_acc key x xs))"

text \<open>The closure \<open>user_fps\<close>.\<close>

definition user_fps :: "user_data \<Rightarrow> u32" where
  "user_fps u =
     (let fps = (case u_custom_fps u of Some f \<Rightarrow> f | None \<Rightarrow> FPS);
          fps = (case u_auto_adjust_fps u of
                   Some a \<Rightarrow> if fps = 0 \<or> a < fps then a else fps
                 | None \<Rightarrow> fps);
          fps = (case u_delay u of
                   Some d \<Rightarrow>
                     (case d_state d of
                        DsNormal \<Rightarrow> fps
                      | DsLowDelay \<Rightarrow> fps * 3 div 4
                      | DsHighDelay \<Rightarrow> fps div 2
                      | DsBroken \<Rightarrow> fps div 4)
                 | None \<Rightarrow> fps)
      in if u_response_delayed u then (if fps > MIN_FPS + 2 then MIN_FPS + 2 else fps) else fps)"

definition refresh_fps :: "video_qos \<Rightarrow> u32" where
  "refresh_fps s =
     (let fpss = filter (\<lambda>f. f \<ge> MIN_FPS) (map (\<lambda>(_, u). user_fps u) (q_users s));
          fps = (if fpss = [] then FPS else min_list fpss)
      in if fps > MAX_FPS then MAX_FPS else fps)"

definition latest_quality :: "video_qos \<Rightarrow> quality" where
  "latest_quality s =
     (case max_by (\<lambda>q. case q of Some (t, _) \<Rightarrow> t | None \<Rightarrow> 0)
            (filter (\<lambda>q. q \<noteq> None) (map (\<lambda>(_, u). u_quality u) (q_users s))) of
        Some (Some (_, q)) \<Rightarrow> q
      | _ \<Rightarrow> QBalanced)"

text \<open>The state of the user with the greatest delay.\<close>

definition max_delay :: "video_qos \<Rightarrow> delay_state" where
  "max_delay s =
     (case max_by (\<lambda>d. case d of Some d \<Rightarrow> delay_code (d_state d) | None \<Rightarrow> 0)
            (filter (\<lambda>d. d \<noteq> None) (map (\<lambda>(_, u). u_delay u) (q_users s))) of
        Some (Some d) \<Rightarrow> d_state d
      | _ \<Rightarrow> DsNormal)"

definition abr_enabled :: "options \<Rightarrow> video_qos \<Rightarrow> bool" where
  "abr_enabled opt s = (opt ''enable-abr'' \<noteq> ''N'' \<and> list_all (\<lambda>(_, b). b) (q_support_abr s))"

text \<open>The quality for the next period, from the current one, the delay and the user's choice.\<close>

fun lower_quality :: "delay_state \<Rightarrow> quality \<Rightarrow> quality \<Rightarrow> quality" where
  "lower_quality delay latest QBest = (if delay = DsBroken then QLow else QBalanced)"
| "lower_quality delay latest QBalanced = QLow"
| "lower_quality delay latest QLow = QLow"
| "lower_quality DsLowDelay latest (QCustom b) = QCustom (if b \<ge> 150 then 100 else min 50 b)"
| "lower_quality DsHighDelay latest (QCustom b) = QCustom (if b \<ge> 100 then 50 else min 25 b)"
| "lower_quality DsBroken latest (QCustom b) = QCustom (if b \<ge> 50 then 25 else min 10 b)"
| "lower_quality DsNormal latest (QCustom b) = latest"

fun raise_quality :: "quality \<Rightarrow> quality \<Rightarrow> quality" where
  "raise_quality latest QLow = (if latest = QBest then QBalanced else latest)"
| "raise_quality latest (QCustom current_b) =
     (case latest of
        QCustom latest_b \<Rightarrow> if current_b < latest_b div 2 then QCustom (latest_b div 2) else latest
      | _ \<Rightarrow> latest)"
| "raise_quality latest _ = latest"

definition qos_refresh :: "options \<Rightarrow> bool \<Rightarrow> video_qos \<Rightarrow> video_qos" where
  "qos_refresh opt set_image_quality s =
     (let s = s\<lparr>q_fps := refresh_fps s\<rparr>;
          latest = latest_quality s;
          quality =
            (if abr_enabled opt s \<and> \<not> set_image_quality then
               (let delay = max_delay s in
                if delay \<noteq> DsNormal then lower_quality delay latest (q_quality s)
                else raise_quality latest (q_quality s))
             else latest)
      in s\<lparr>q_quality := quality\<rparr>)"

section \<open>What users and connections do\<close>

definition user_custom_fps :: "options \<Rightarrow> i32 \<Rightarrow> u32 \<Rightarrow> video_qos \<Rightarrow> video_qos" where
  "user_custom_fps opt i fps s =
     (if fps < MIN_FPS then s
      else qos_refresh opt False (s\<lparr>q_users :=
        hm_upsert i (\<lambda>u. u\<lparr>u_custom_fps := Some fps\<rparr>) (user_data_default\<lparr>u_custom_fps := Some fps\<rparr>)
          (q_users s)\<rparr>))"

definition user_auto_adjust_fps :: "options \<Rightarrow> i32 \<Rightarrow> u32 \<Rightarrow> video_qos \<Rightarrow> video_qos" where
  "user_auto_adjust_fps opt i fps s =
     qos_refresh opt False (s\<lparr>q_users :=
       hm_upsert i (\<lambda>u. u\<lparr>u_auto_adjust_fps := Some fps\<rparr>)
         (user_data_default\<lparr>u_auto_adjust_fps := Some fps\<rparr>) (q_users s)\<rparr>)"

definition convert_quality :: "i32 \<Rightarrow> quality" where
  "convert_quality q =
     (if q = 3 then QBalanced else if q = 2 then QLow else if q = 4 then QBest
      else let b = (signed_drop_bit 8 q AND 0xFFF) * 2;
               b = max b 20;
               b = min b 8000
           in QCustom b)"

definition user_image_quality :: "options \<Rightarrow> int \<Rightarrow> i32 \<Rightarrow> i32 \<Rightarrow> video_qos \<Rightarrow> video_qos" where
  "user_image_quality opt now i image_quality s =
     (let quality = Some (now, convert_quality image_quality)
      in qos_refresh opt True (s\<lparr>q_users :=
           hm_upsert i (\<lambda>u. u\<lparr>u_quality := quality\<rparr>) (user_data_default\<lparr>u_quality := quality\<rparr>)
             (q_users s)\<rparr>))"

text \<open>One measured delay. The flag tells whether \<open>refresh\<close> is to follow.\<close>

definition debounce :: u32 where "debounce = 3"

definition delay_update :: "u32 \<Rightarrow> delay \<Rightarrow> delay \<times> bool" where
  "delay_update measured d =
     (let d = d\<lparr>d_delay := (measured + d_delay d) div 2\<rparr>;
          new_state = from_delay (d_delay d);
          diff = delay_code new_state - delay_code (d_staging_state d);
          slower = (if diff > 0 then Some True else if diff < 0 then Some False else None)
      in if d_slower d = slower then
           (let old_counter = d_counter d;
                d = d\<lparr>d_counter := d_counter d + (measured div 1000 + 1)\<rparr>;
                d = (if old_counter < debounce \<and> d_counter d \<ge> debounce
                     then d\<lparr>d_counter := 0, d_state := d_staging_state d, d_staging_state := new_state\<rparr>
                     else d)
            in (d, d_counter d mod debounce = 0))
         else (d\<lparr>d_counter := 0, d_staging_state := new_state, d_slower := slower\<rparr>, False))"

definition delay_first :: "u32 \<Rightarrow> delay" where
  "delay_first measured =
     \<lparr>d_state = DsNormal, d_staging_state = from_delay measured, d_delay = measured, d_counter = 0,
      d_slower = None\<rparr>"

definition user_network_delay :: "options \<Rightarrow> i32 \<Rightarrow> u32 \<Rightarrow> video_qos \<Rightarrow> video_qos" where
  "user_network_delay opt i measured s =
     (case hm_get (q_users s) i of
        Some u \<Rightarrow>
          (case u_delay u of
             Some d \<Rightarrow>
               (let (d, refresh) = delay_update measured d;
                    s = s\<lparr>q_users := hm_insert i (u\<lparr>u_delay := Some d\<rparr>) (q_users s)\<rparr>
                in if refresh then qos_refresh opt False s else s)
           | None \<Rightarrow>
               s\<lparr>q_users := hm_insert i (u\<lparr>u_delay := Some (delay_first measured)\<rparr>) (q_users s)\<rparr>)
      | None \<Rightarrow>
          s\<lparr>q_users := hm_insert i (user_data_default\<lparr>u_delay := Some (delay_first measured)\<rparr>)
             (q_users s)\<rparr>)"

definition user_delay_response_elapsed :: "options \<Rightarrow> i32 \<Rightarrow> nat \<Rightarrow> video_qos \<Rightarrow> video_qos" where
  "user_delay_response_elapsed opt i elapsed s =
     (case hm_get (q_users s) i of
        Some u \<Rightarrow>
          (let old = u_response_delayed u;
               u = u\<lparr>u_response_delayed := elapsed > 3000\<rparr>;
               s = s\<lparr>q_users := hm_insert i u (q_users s)\<rparr>
           in if old \<noteq> u_response_delayed u then qos_refresh opt False s else s)
      | None \<Rightarrow> s)"

definition user_record :: "i32 \<Rightarrow> bool \<Rightarrow> video_qos \<Rightarrow> video_qos" where
  "user_record i v s =
     (case hm_get (q_users s) i of
        Some u \<Rightarrow> s\<lparr>q_users := hm_insert i (u\<lparr>u_record := v\<rparr>) (q_users s)\<rparr>
      | None \<Rightarrow> s)"

definition qos_on_connection_close :: "options \<Rightarrow> i32 \<Rightarrow> video_qos \<Rightarrow> video_qos" where
  "qos_on_connection_close opt i s = qos_refresh opt False (s\<lparr>q_users := hm_remove i (q_users s)\<rparr>)"

section \<open>The invariant\<close>

text \<open>Custom qualities that users ask for, and that the adaptation makes of them.\<close>

fun quality_within :: "u32 \<Rightarrow> quality \<Rightarrow> bool" where
  "quality_within lo (QCustom b) = (lo \<le> b \<and> b \<le> 8000)"
| "quality_within lo _ = True"

definition user_ok :: "user_data \<Rightarrow> bool" where
  "user_ok u \<longleftrightarrow>
     (case u_quality u of Some (_, q) \<Rightarrow> quality_within 20 q | None \<Rightarrow> True) \<and>
     (case u_custom_fps u of Some f \<Rightarrow> f \<ge> MIN_FPS | None \<Rightarrow> True)"

definition qos_inv :: "video_qos \<Rightarrow> bool" where
  "qos_inv s \<longleftrightarrow>
     hm_ok (q_users s) \<and> MIN_FPS \<le> q_fps s \<and> q_fps s \<le> MAX_FPS \<and>
     quality_within 10 (q_quality s) \<and> (\<forall>(_, u) \<in> set (q_users s). user_ok u)"

lemma max_by_acc_mem: "max_by_acc key a xs \<in> set (a # xs)"
proof (induction xs arbitrary: a)
  case (Cons x xs)
  show ?case using Cons.IH [of "if key a \<le> key x then x else a"] by (auto split: if_splits)
qed simp

lemma max_by_mem: "max_by key xs = Some x \<Longrightarrow> x \<in> set xs"
  using max_by_acc_mem by (fastforce simp: max_by_def split: list.splits)

lemma max_by_acc_max: "y \<in> set (a # xs) \<Longrightarrow> key y \<le> key (max_by_acc key a xs)"
proof (induction xs arbitrary: a y)
  case (Cons x xs)
  let ?b = "if key a \<le> key x then x else a"
  have b: "key ?b \<le> key (max_by_acc key ?b xs)" by (rule Cons.IH) simp
  show ?case using Cons.prems Cons.IH [of y ?b] b by (auto split: if_splits)
qed simp

lemma max_by_max: "max_by key xs = Some x \<Longrightarrow> y \<in> set xs \<Longrightarrow> key y \<le> key x"
  using max_by_acc_max by (fastforce simp: max_by_def split: list.splits)

lemma max_by_Some: "xs \<noteq> [] \<Longrightarrow> \<exists>x. max_by key xs = Some x"
  by (simp add: max_by_def split: list.split)

lemma min_list_in: "xs \<noteq> [] \<Longrightarrow> min_list xs \<in> set (xs :: 'a::linorder list)"
  by (simp add: min_list_Min)

lemma min_list_le: "x \<in> set (xs :: 'a::linorder list) \<Longrightarrow> min_list xs \<le> x"
  by (cases "xs = []") (auto simp: min_list_Min simp del: min_list.simps)

lemma refresh_fps_bounds: "MIN_FPS \<le> refresh_fps s \<and> refresh_fps s \<le> MAX_FPS"
proof -
  let ?f = "filter (\<lambda>f. f \<ge> MIN_FPS) (map (\<lambda>(_, u). user_fps u) (q_users s))"
  have "?f \<noteq> [] \<Longrightarrow> MIN_FPS \<le> min_list ?f" using min_list_in [of ?f] by simp
  then show ?thesis
    by (auto simp: refresh_fps_def Let_def MIN_FPS_def MAX_FPS_def FPS_def)
qed

lemma latest_quality_ok:
  assumes "\<forall>(_, u) \<in> set (q_users s). user_ok u"
  shows "quality_within 20 (latest_quality s)"
proof -
  let ?qs = "filter (\<lambda>q. q \<noteq> None) (map (\<lambda>(_, u). u_quality u) (q_users s))"
  have "quality_within 20 q" if "Some (t, q) \<in> set ?qs" for t q
  proof -
    note mem = that
    obtain k u where "(k, u) \<in> set (q_users s)" "u_quality u = Some (t, q)" using mem by auto
    then show ?thesis using assms by (auto simp: user_ok_def)
  qed
  then show ?thesis
    by (auto simp: latest_quality_def dest!: max_by_mem split: option.splits)
qed

lemma quality_within_weaken: "quality_within 20 q \<Longrightarrow> quality_within 10 q"
  by (cases q) (auto simp: word_le_nat_alt)

lemma lower_quality_within:
  "quality_within 10 q \<Longrightarrow> quality_within 20 latest \<Longrightarrow> quality_within 10 (lower_quality d latest q)"
  by (cases "(d, latest, q)" rule: lower_quality.cases)
    (auto simp: min_def quality_within_weaken split: if_splits)

lemma raise_quality_within:
  assumes "quality_within 20 latest"
  shows "quality_within 10 (raise_quality latest q)"
proof -
  have "10 \<le> b div 2 \<and> b div 2 \<le> 8000" if "20 \<le> b" "b \<le> 8000" for b :: u32
    using that by (simp add: word_le_nat_alt unat_div) presburger
  then show ?thesis
    using assms quality_within_weaken [OF assms]
    by (cases "(latest, q)" rule: raise_quality.cases) (auto split: quality.splits)
qed

lemma qos_refresh_inv:
  assumes "hm_ok (q_users s)" and "quality_within 10 (q_quality s)" and "\<forall>(_, u) \<in> set (q_users s). user_ok u"
  shows "qos_inv (qos_refresh opt b s)"
proof -
  let ?s = "s\<lparr>q_fps := refresh_fps s\<rparr>"
  have latest: "quality_within 20 (latest_quality ?s)" using assms(3) by (intro latest_quality_ok) simp
  have "quality_within 10 (q_quality (qos_refresh opt b s))"
    using assms(2) latest quality_within_weaken [OF latest] raise_quality_within [OF latest]
      lower_quality_within [OF _ latest] by (simp add: qos_refresh_def Let_def)
  then show ?thesis
    using assms refresh_fps_bounds by (simp add: qos_inv_def qos_refresh_def Let_def)
qed

text \<open>Changing the data of one user.\<close>

lemma qos_set_user:
  assumes "qos_inv s" and "user_ok u"
  shows "qos_inv (s\<lparr>q_users := hm_insert i u (q_users s)\<rparr>)"
  using assms by (fastforce simp: qos_inv_def dest: hm_in_insertD)

lemma qos_refresh_inv' [inv_intros]: "qos_inv s \<Longrightarrow> qos_inv (qos_refresh opt b s)"
  by (intro qos_refresh_inv) (simp_all add: qos_inv_def)

lemma qos_user_ok: "qos_inv s \<Longrightarrow> hm_get (q_users s) i = Some u \<Longrightarrow> user_ok u"
  by (auto simp: qos_inv_def dest: map_of_SomeD)

lemma qos_upsert:
  assumes "qos_inv s" and "\<And>u. user_ok u \<Longrightarrow> user_ok (f u)" and "user_ok d"
  shows "qos_inv (s\<lparr>q_users := hm_upsert i f d (q_users s)\<rparr>)"
  using qos_set_user [OF assms(1)] qos_user_ok [OF assms(1)] assms(2,3)
  by (simp add: hm_upsert_def split: option.split)

lemma user_data_default_ok [simp]: "user_ok user_data_default"
  by (simp add: user_ok_def user_data_default_def)

lemma user_ok_updates [simp]:
  "user_ok (u\<lparr>u_auto_adjust_fps := a\<rparr>) = user_ok u"
  "user_ok (u\<lparr>u_delay := d\<rparr>) = user_ok u"
  "user_ok (u\<lparr>u_response_delayed := b\<rparr>) = user_ok u"
  "user_ok (u\<lparr>u_record := b\<rparr>) = user_ok u"
  "MIN_FPS \<le> f \<Longrightarrow> user_ok u \<Longrightarrow> user_ok (u\<lparr>u_custom_fps := Some f\<rparr>)"
  "quality_within 20 q \<Longrightarrow> user_ok u \<Longrightarrow> user_ok (u\<lparr>u_quality := Some (t, q)\<rparr>)"
  by (simp_all add: user_ok_def)

lemma convert_quality_within: "quality_within 20 (convert_quality q)"
  by (auto simp: convert_quality_def Let_def min_def max_def word_le_nat_alt)

section \<open>A session of the quality control\<close>

datatype qos_event =
    CustomFps i32 u32
  | AutoAdjustFps i32 u32
  | ImageQuality int i32 i32
  | NetworkDelay i32 u32
  | DelayResponseElapsed i32 nat
  | Record i32 bool
  | ConnectionClose i32
  | StoreBitrate u32
  | SupportAbr nat bool
  | Refresh bool

fun qos_step :: "options \<Rightarrow> video_qos \<Rightarrow> qos_event \<Rightarrow> video_qos" where
  "qos_step opt s (CustomFps i f) = user_custom_fps opt i f s"
| "qos_step opt s (AutoAdjustFps i f) = user_auto_adjust_fps opt i f s"
| "qos_step opt s (ImageQuality now i q) = user_image_quality opt now i q s"
| "qos_step opt s (NetworkDelay i d) = user_network_delay opt i d s"
| "qos_step opt s (DelayResponseElapsed i e) = user_delay_response_elapsed opt i e s"
| "qos_step opt s (Record i b) = user_record i b s"
| "qos_step opt s (ConnectionClose i) = qos_on_connection_close opt i s"
| "qos_step opt s (StoreBitrate b) = store_bitrate b s"
| "qos_step opt s (SupportAbr d b) = set_support_abr d b s"
| "qos_step opt s (Refresh b) = qos_refresh opt b s"

lemma network_delay_inv: "qos_inv s \<Longrightarrow> qos_inv (user_network_delay opt i m s)"
  by (auto simp: user_network_delay_def Let_def intro!: qos_refresh_inv' qos_set_user
      dest: qos_user_ok split: option.splits prod.splits)

lemma delay_response_inv: "qos_inv s \<Longrightarrow> qos_inv (user_delay_response_elapsed opt i e s)"
  by (auto simp: user_delay_response_elapsed_def Let_def intro!: qos_refresh_inv' qos_set_user
      dest: qos_user_ok split: option.splits)

lemma record_inv: "qos_inv s \<Longrightarrow> qos_inv (user_record i b s)"
  by (auto simp: user_record_def intro!: qos_set_user dest: qos_user_ok split: option.splits)

lemma connection_close_inv: "qos_inv s \<Longrightarrow> qos_inv (qos_on_connection_close opt i s)"
  unfolding qos_on_connection_close_def
  by (rule qos_refresh_inv) (auto simp: qos_inv_def dest: hm_in_removeD)

lemma user_requests_inv:
  assumes "qos_inv s"
  shows "qos_inv (user_custom_fps opt i f s)" and "qos_inv (user_auto_adjust_fps opt i f s)"
    and "qos_inv (user_image_quality opt now i q s)"
  using assms convert_quality_within [of q]
  by (auto simp: user_custom_fps_def user_auto_adjust_fps_def user_image_quality_def Let_def
      intro!: qos_refresh_inv' qos_upsert)

lemma qos_step_inv: "qos_inv s \<Longrightarrow> qos_inv (qos_step opt s e)"
proof (cases e)
  case (StoreBitrate b)
  then show "qos_inv s \<Longrightarrow> ?thesis" by (simp add: qos_inv_def store_bitrate_def)
next
  case (SupportAbr d b)
  then show "qos_inv s \<Longrightarrow> ?thesis" by (simp add: qos_inv_def set_support_abr_def)
qed (simp_all add: network_delay_inv delay_response_inv record_inv connection_close_inv
    user_requests_inv qos_refresh_inv')

interpretation qos: machine "qos_step opt" qos_inv for opt
  by unfold_locales (rule qos_step_inv)

lemma video_qos_default_inv [simp]: "qos_inv video_qos_default"
  by (simp add: qos_inv_def video_qos_default_def FPS_def MIN_FPS_def MAX_FPS_def)

section \<open>Properties\<close>

text \<open>
  Whatever users ask for and whatever delays are measured, in any order, the frame rate
  stays between 1 and 120, a custom quality between 10 and 8000, and each user has one record.
\<close>

theorem qos_bounds:
  "qos_inv (run (qos_step opt) video_qos_default es) \<and>
   qos_fps (run (qos_step opt) video_qos_default es) = q_fps (run (qos_step opt) video_qos_default es)"
proof -
  have inv: "qos_inv (run (qos_step opt) video_qos_default es)" by (rule qos.run_inv) simp
  then have "qos_fps (run (qos_step opt) video_qos_default es)
      = q_fps (run (qos_step opt) video_qos_default es)"
    by (simp add: qos_fps_def qos_inv_def)
  with inv show ?thesis by simp
qed

text \<open>
  After a refresh the frame rate is one that every user can take: it is at most what any
  user's settings and delay allow, unless that is nothing at all.
\<close>

theorem qos_fps_serves_all:
  assumes "(i, u) \<in> set (q_users s)" and "MIN_FPS \<le> user_fps u"
  shows "q_fps (qos_refresh opt b s) \<le> user_fps u"
proof -
  let ?f = "filter (\<lambda>f. f \<ge> MIN_FPS) (map (\<lambda>(_, u). user_fps u) (q_users s))"
  have mem: "user_fps u \<in> set ?f" using assms by force
  then have "min_list ?f \<le> user_fps u" by (rule min_list_le)
  moreover have "?f \<noteq> []" using mem by (metis empty_iff list.set(1))
  ultimately show ?thesis
    by (auto simp: qos_refresh_def refresh_fps_def Let_def)
qed

theorem qos_fps_serves_all_witness:
  "q_fps (qos_refresh (\<lambda>_. []) False (video_qos_default\<lparr>q_users :=
     [(1, user_data_default), (2, user_data_default\<lparr>u_custom_fps := Some 15\<rparr>)]\<rparr>)) \<le> 15"
  using qos_fps_serves_all [of 2 "user_data_default\<lparr>u_custom_fps := Some 15\<rparr>"
      "video_qos_default\<lparr>q_users := [(1, user_data_default), (2, user_data_default\<lparr>u_custom_fps := Some 15\<rparr>)]\<rparr>"]
  by (simp add: user_fps_def user_data_default_def MIN_FPS_def)

text \<open>
  Recovery. When adaptation is on and no user is delayed, two refreshes bring the quality
  back to what the latest request asked for, however far it had been lowered.
\<close>

theorem qos_quality_recovers:
  assumes "max_delay s = DsNormal"
  shows "q_quality (qos_refresh opt False (qos_refresh opt False s)) = latest_quality s"
proof -
  have same: "latest_quality (s\<lparr>q_fps := f\<rparr>) = latest_quality s"
    "latest_quality (s\<lparr>q_quality := q\<rparr>) = latest_quality s"
    "max_delay (s\<lparr>q_fps := f\<rparr>) = max_delay s" "max_delay (s\<lparr>q_quality := q\<rparr>) = max_delay s"
    "abr_enabled opt (s\<lparr>q_fps := f\<rparr>) = abr_enabled opt s"
    "abr_enabled opt (s\<lparr>q_quality := q\<rparr>) = abr_enabled opt s" for f q s
    by (simp_all add: latest_quality_def max_delay_def abr_enabled_def)
  have half: "\<not> b < b div 2" for b :: u32 by (simp add: word_less_nat_alt unat_div)
  then have "raise_quality l (raise_quality l q) = l" for l q
    by (cases "(l, q)" rule: raise_quality.cases; cases l) auto
  then show ?thesis
    using assms by (simp add: qos_refresh_def same Let_def)
qed

theorem qos_quality_recovers_witness:
  "q_quality (qos_refresh (\<lambda>_. []) False (qos_refresh (\<lambda>_. []) False
     (video_qos_default\<lparr>q_quality := QLow,
        q_users := [(1, user_data_default\<lparr>u_quality := Some (5, QBest)\<rparr>)]\<rparr>))) = QBest"
  using qos_quality_recovers [of "video_qos_default\<lparr>q_quality := QLow,
        q_users := [(1, user_data_default\<lparr>u_quality := Some (5, QBest)\<rparr>)]\<rparr>" "\<lambda>_. []"]
  by (simp add: max_delay_def latest_quality_def max_by_def user_data_default_def)

text \<open>
  Degradation. While some user is delayed and adaptation is on, a refresh never raises the
  quality.
\<close>

fun quality_le :: "quality \<Rightarrow> quality \<Rightarrow> bool" where
  "quality_le (QCustom a) (QCustom b) = (a \<le> b)"
| "quality_le QLow q = (q \<in> {QLow, QBalanced, QBest})"
| "quality_le QBalanced q = (q \<in> {QBalanced, QBest})"
| "quality_le QBest q = (q = QBest)"
| "quality_le _ _ = False"

theorem qos_quality_degrades:
  assumes "abr_enabled opt s" and "max_delay s \<noteq> DsNormal"
  shows "quality_le (q_quality (qos_refresh opt False s)) (q_quality s)"
proof -
  have "quality_le (lower_quality d l q) q" if "d \<noteq> DsNormal" for d l q
    using that by (cases "(d, l, q)" rule: lower_quality.cases)
      (auto simp: min_def word_le_nat_alt split: if_splits)
  moreover have "max_delay (s\<lparr>q_fps := f\<rparr>) = max_delay s" "abr_enabled opt (s\<lparr>q_fps := f\<rparr>)" for f
    using assms(1) by (simp_all add: max_delay_def abr_enabled_def)
  ultimately show ?thesis using assms(2) by (simp add: qos_refresh_def Let_def)
qed

theorem qos_quality_degrades_witness:
  "quality_le (q_quality (qos_refresh (\<lambda>_. []) False
     (video_qos_default\<lparr>q_users := [(1, user_data_default\<lparr>u_delay :=
        Some ((delay_first 900)\<lparr>d_state := DsHighDelay\<rparr>)\<rparr>)]\<rparr>))) QBalanced"
  using qos_quality_degrades [of "\<lambda>_. []" "video_qos_default\<lparr>q_users := [(1, user_data_default\<lparr>u_delay :=
        Some ((delay_first 900)\<lparr>d_state := DsHighDelay\<rparr>)\<rparr>)]\<rparr>"]
  by (simp add: abr_enabled_def max_delay_def max_by_def video_qos_default_def user_data_default_def)

text \<open>
  Debouncing: a measurement changes the state the user is treated with only to the state that
  was staged by an earlier measurement, and the first measurements never do.
\<close>

lemma delay_update_state:
  "d_state (fst (delay_update m d)) \<in> {d_state d, d_staging_state d}"
  by (auto simp: delay_update_def Let_def)

lemma delay_update_quick:
  assumes "m < 1000" and "d_counter d < 2"
  shows "d_state (fst (delay_update m d)) = d_state d"
proof -
  have "m div 1000 = 0" using assms(1) by (simp add: word_less_nat_alt word_unat_eq_iff unat_div)
  moreover have "d_counter d + 1 < 3"
  proof -
    have "unat (d_counter d + 1) = unat (d_counter d) + 1"
      by (subst unat_word_ariths) (use assms(2) in \<open>simp add: word_less_nat_alt\<close>)
    then show ?thesis using assms(2) by (simp add: word_less_nat_alt)
  qed
  ultimately show ?thesis by (auto simp: delay_update_def debounce_def Let_def)
qed

end
