(* ===== verification/Codec_Negotiation.thy ===== *)
theory Codec_Negotiation
  imports Messages
begin

text \<open>
  The choice of the video codec (\<open>libs/scrap/src/common/codec.rs\<close>): what \<open>Encoder::update\<close>
  makes of the abilities and preferences of the connected peers, \<open>Encoder::use_i444\<close>,
  \<open>Encoder::set_fallback\<close>, and what the peer's side, \<open>Decoder::supported_decodings\<close>, reports.
  The encoders and decoders of the machine, found by libraries outside the repository, are
  the fields of \<open>codec_env\<close>; the map of the peers is in the order of its iteration.
\<close>

section \<open>State\<close>

datatype codec_format = VP8 | VP9 | AV1 | H264 | H265 | UnknownFormat

datatype encoding_update =
    Update i32 supported_decoding
  | Remove i32
  | NewOnlyVP9 i32
  | Check

datatype encoder_cfg = VpxVP8 | VpxVP9 | Aom | HwRam string | VramH264 | VramH265 | VramOther

record codec_env =
  env_disable_av1 :: bool
  env_vram_option :: bool
  env_vram_h264 :: nat            \<comment> \<open>\<open>VRamEncoder::available\<close>, its length\<close>
  env_vram_h265 :: nat
  env_hwcodec_option :: bool
  env_hw_h264 :: "string option"  \<comment> \<open>\<open>HwRamEncoder::try_get\<close>, the name\<close>
  env_hw_h265 :: "string option"
  env_total_memory :: nat

record encoder_state =
  peer_decodings :: "(i32, supported_decoding) hmap"
  encode_codec_format :: codec_format
  usable_encoding :: "supported_encoding option"

definition supported_decoding_default :: supported_decoding where
  "supported_decoding_default =
     \<lparr>ability_vp9 = 0, ability_h264 = 0, ability_h265 = 0, ability_vp8 = 0, ability_av1 = 0,
      sd_prefer = PreferAuto, sd_i444 = None, prefer_chroma = I420\<rparr>"

section \<open>The most frequent preference\<close>

definition count_prefs :: "prefer_codec list \<Rightarrow> (prefer_codec \<times> nat) list" where
  "count_prefs prefs = foldl (\<lambda>counts p. hm_upsert p Suc 1 counts) [] prefs"

definition most_frequent :: "prefer_codec list \<Rightarrow> prefer_codec" where
  "most_frequent prefs =
     (let counts = count_prefs prefs;
          max_count = foldl max 0 (map snd counts)
      in case find (\<lambda>(_, count). count = max_count) counts of
           Some (p, _) \<Rightarrow> p
         | None \<Rightarrow> PreferAuto)"

definition enum_value_or_auto :: "prefer_codec \<Rightarrow> prefer_codec" where
  "enum_value_or_auto p = (case p of PreferUnknown _ \<Rightarrow> PreferAuto | _ \<Rightarrow> p)"

section \<open>Negotiation\<close>

definition all_decode :: "(supported_decoding \<Rightarrow> int) \<Rightarrow> (i32, supported_decoding) hmap \<Rightarrow> bool" where
  "all_decode ability ds \<longleftrightarrow> length ds > 0 \<and> list_all (\<lambda>(_, s). ability s > 0) ds"

definition update_decodings ::
    "encoding_update \<Rightarrow> (i32, supported_decoding) hmap \<Rightarrow> (i32, supported_decoding) hmap" where
  "update_decodings u ds =
     (case u of
        Update i decoding \<Rightarrow> hm_insert i decoding ds
      | Remove i \<Rightarrow> hm_remove i ds
      | NewOnlyVP9 i \<Rightarrow> hm_insert i (supported_decoding_default\<lparr>ability_vp9 := 1\<rparr>) ds
      | Check \<Rightarrow> ds)"

text \<open>Whether the machine has an encoder for H264 or H265: \<open>h264vram_encoding || h264hw_encoding.is_some()\<close>.\<close>

definition h264_encoding :: "codec_env \<Rightarrow> bool \<Rightarrow> bool" where
  "h264_encoding env all_support =
     (let vram = (env_vram_option env \<and> all_support \<and> env_vram_h264 env > 0);
          hw = (if env_hwcodec_option env \<and> all_support then env_hw_h264 env else None)
      in vram \<or> hw \<noteq> None)"

definition h265_encoding :: "codec_env \<Rightarrow> bool \<Rightarrow> bool" where
  "h265_encoding env all_support =
     (let vram = (env_vram_option env \<and> all_support \<and> env_vram_h265 env > 0);
          hw = (if env_hwcodec_option env \<and> all_support then env_hw_h265 env else None)
      in vram \<or> hw \<noteq> None)"

definition usable_encodings :: "codec_env \<Rightarrow> (i32, supported_decoding) hmap \<Rightarrow> supported_encoding" where
  "usable_encodings env ds =
     (let all_h264 = all_decode ability_h264 ds; all_h265 = all_decode ability_h265 ds
      in \<lparr>se_h264 = (all_h264 \<and> h264_encoding env all_h264),
          se_h265 = (all_h265 \<and> h265_encoding env all_h265),
          se_vp8 = all_decode ability_vp8 ds,
          se_av1 = (all_decode ability_av1 ds \<and> \<not> env_disable_av1 env),
          se_i444 = None\<rparr>)"

fun pref_usable :: "supported_encoding \<Rightarrow> prefer_codec \<Rightarrow> bool" where
  "pref_usable e PreferVP9 = True"
| "pref_usable e PreferVP8 = se_vp8 e"
| "pref_usable e PreferAV1 = se_av1 e"
| "pref_usable e PreferH264 = se_h264 e"
| "pref_usable e PreferH265 = se_h265 e"
| "pref_usable e _ = False"

definition usable_preferences :: "supported_encoding \<Rightarrow> (i32, supported_decoding) hmap \<Rightarrow> prefer_codec list" where
  "usable_preferences e ds =
     map (\<lambda>(_, s). sd_prefer s) (filter (\<lambda>(_, s). pref_usable e (sd_prefer s)) ds)"

definition encoder_update :: "codec_env \<Rightarrow> encoding_update \<Rightarrow> encoder_state \<Rightarrow> encoder_state" where
  "encoder_update env u st =
     (let ds = update_decodings u (peer_decodings st);
          usable = usable_encodings env ds;
          preference = enum_value_or_auto (most_frequent (usable_preferences usable ds));
          auto_codec = (if se_vp8 usable \<and> env_total_memory env \<le> 4 * 1024 * 1024 * 1024 then VP8 else VP9)
      in st\<lparr>peer_decodings := ds,
            usable_encoding := Some usable,
            encode_codec_format :=
              (case preference of
                 PreferVP8 \<Rightarrow> VP8
               | PreferVP9 \<Rightarrow> VP9
               | PreferAV1 \<Rightarrow> AV1
               | PreferH264 \<Rightarrow> if h264_encoding env (all_decode ability_h264 ds) then H264 else auto_codec
               | PreferH265 \<Rightarrow> if h265_encoding env (all_decode ability_h265 ds) then H265 else auto_codec
               | _ \<Rightarrow> auto_codec)\<rparr>)"

definition supported_encoding :: "codec_env \<Rightarrow> supported_encoding" where
  "supported_encoding env =
     \<lparr>se_h264 = (env_hwcodec_option env \<and> env_hw_h264 env \<noteq> None \<or>
                 env_vram_option env \<and> env_vram_h264 env > 0),
      se_h265 = (env_hwcodec_option env \<and> env_hw_h265 env \<noteq> None \<or>
                 env_vram_option env \<and> env_vram_h265 env > 0),
      se_vp8 = True, se_av1 = (\<not> env_disable_av1 env),
      se_i444 = Some \<lparr>ca_vp8 = False, ca_vp9 = True, ca_av1 = True, ca_h264 = False, ca_h265 = False\<rparr>\<rparr>"

text \<open>Whether the name of a hardware encoder says H264: \<open>to_lowercase().contains("h264")\<close>.\<close>

definition lower_char :: "char \<Rightarrow> char" where
  "lower_char c = (let n = (of_char c :: nat) in if 65 \<le> n \<and> n \<le> 90 then char_of (n + 32) else c)"

definition is_h264_name :: "string \<Rightarrow> bool" where
  "is_h264_name name = list_ex (prefix ''h264'') (suffixes (map lower_char name))"

definition set_fallback :: "encoder_cfg \<Rightarrow> encoder_state \<Rightarrow> encoder_state" where
  "set_fallback config st =
     (case (case config of
              VpxVP8 \<Rightarrow> Some VP8
            | VpxVP9 \<Rightarrow> Some VP9
            | Aom \<Rightarrow> Some AV1
            | HwRam name \<Rightarrow> Some (if is_h264_name name then H264 else H265)
            | VramH264 \<Rightarrow> Some H264
            | VramH265 \<Rightarrow> Some H265
            | VramOther \<Rightarrow> None) of
        None \<Rightarrow> st
      | Some format \<Rightarrow>
          if encode_codec_format st \<noteq> format then st\<lparr>encode_codec_format := format\<rparr> else st)"

text \<open>An absent \<open>CodecAbility\<close> reads as one with no ability.\<close>

definition i444_ability :: "(codec_ability \<Rightarrow> bool) \<Rightarrow> supported_decoding \<Rightarrow> bool" where
  "i444_ability f s = (case sd_i444 s of Some c \<Rightarrow> f c | None \<Rightarrow> False)"

definition use_i444 :: "encoder_cfg \<Rightarrow> encoder_state \<Rightarrow> bool" where
  "use_i444 config st =
     (let ds = peer_decodings st;
          prefer_i444 = list_all (\<lambda>(_, d). prefer_chroma d = I444) ds;
          i444_useable =
            (case config of
               VpxVP8 \<Rightarrow> False
             | VpxVP9 \<Rightarrow> list_all (\<lambda>(_, d). i444_ability ca_vp9 d) ds
             | Aom \<Rightarrow> list_all (\<lambda>(_, d). i444_ability ca_av1 d) ds
             | _ \<Rightarrow> False)
      in prefer_i444 \<and> i444_useable \<and> ds \<noteq> [])"

text \<open>
  \<open>Decoder::supported_decodings\<close>: the arguments after the environment are the preference stored
  for the peer, the two hardware decoders that exist, whether the vram option counts (the
  option is on and the caller is the flutter client) with its decoders, and the formats
  marked unsupported after a decoder failed.
\<close>

definition supported_decodings ::
    "codec_env \<Rightarrow> prefer_codec \<Rightarrow> chroma \<Rightarrow> bool \<times> bool \<Rightarrow> bool \<Rightarrow> bool \<times> bool \<Rightarrow> codec_format list
     \<Rightarrow> supported_decoding" where
  "supported_decodings env prefer chroma hw vram_on vram unsupported =
     (let bit = (\<lambda>b. if b then 1 else 0);
          d = \<lparr>ability_vp9 = 1,
               ability_h264 = bit (fst hw \<or> vram_on \<and> fst vram),
               ability_h265 = bit (snd hw \<or> vram_on \<and> snd vram),
               ability_vp8 = 1, ability_av1 = bit (\<not> env_disable_av1 env),
               sd_prefer = prefer,
               sd_i444 = Some \<lparr>ca_vp8 = False, ca_vp9 = True, ca_av1 = True, ca_h264 = False, ca_h265 = False\<rparr>,
               prefer_chroma = chroma\<rparr>
      in foldl (\<lambda>d u. case u of
             VP8 \<Rightarrow> d\<lparr>ability_vp8 := 0\<rparr>
           | VP9 \<Rightarrow> d\<lparr>ability_vp9 := 0\<rparr>
           | AV1 \<Rightarrow> d\<lparr>ability_av1 := 0\<rparr>
           | H264 \<Rightarrow> d\<lparr>ability_h264 := 0\<rparr>
           | H265 \<Rightarrow> d\<lparr>ability_h265 := 0\<rparr>
           | UnknownFormat \<Rightarrow> d) d unsupported)"

section \<open>Facts\<close>

lemma count_prefs_snoc: "count_prefs (ps @ [p]) = hm_upsert p Suc 1 (count_prefs ps)"
  by (simp add: count_prefs_def)

lemma count_prefs_get:
  "hm_get (count_prefs ps) p = (if p \<in> set ps then Some (count_list ps p) else None)"
proof (induction ps rule: rev_induct)
  case (snoc q ps)
  then show ?case by (auto simp: count_prefs_snoc count_notin)
qed (simp add: count_prefs_def)

lemma count_prefs_ok [simp]: "hm_ok (count_prefs ps)"
  by (induction ps rule: rev_induct) (simp_all add: count_prefs_snoc, simp add: count_prefs_def)

lemma count_prefs_mem: "(p, n) \<in> set (count_prefs ps) \<longleftrightarrow> p \<in> set ps \<and> n = count_list ps p"
  by (auto simp: hm_get_in count_prefs_get split: if_splits)

lemma foldl_max:
  "foldl max a xs \<in> set (a # (xs :: nat list)) \<and> (\<forall>x \<in> set (a # xs). x \<le> foldl max a xs)"
proof (induction xs arbitrary: a)
  case (Cons x xs)
  show ?case using Cons.IH [of "max a x"] by (auto simp: max_def split: if_splits)
qed simp

text \<open>The preference found is one of the given ones, and none of them is more frequent.\<close>

lemma most_frequent_Nil [simp]: "most_frequent [] = PreferAuto"
  by (simp add: most_frequent_def count_prefs_def)

lemma most_frequent_spec:
  assumes "prefs \<noteq> []"
  shows "most_frequent prefs \<in> set prefs \<and> (\<forall>p. count_list prefs p \<le> count_list prefs (most_frequent prefs))"
proof -
  let ?c = "count_prefs prefs"
  let ?m = "foldl max 0 (map snd ?c)"
  obtain q where "q \<in> set prefs" using assms by (metis list.set_intros(1) neq_Nil_conv)
  then have q: "(q, count_list prefs q) \<in> set ?c" by (simp add: count_prefs_mem)
  have pos: "0 < count_list prefs q" using \<open>q \<in> set prefs\<close> by (metis count_list_0_iff gr0I)
  have le: "n \<le> ?m" if "(p, n) \<in> set ?c" for p n
    using foldl_max [of 0 "map snd ?c"] that by force
  have "0 < ?m" using le [OF q] pos by linarith
  then have "?m \<in> snd ` set ?c" using foldl_max [of 0 "map snd ?c"] by auto
  then obtain r where r: "(r, ?m) \<in> set ?c" by force
  then obtain x where x: "find (\<lambda>(_, count). count = ?m) ?c = Some x"
    by (metis (mono_tags, lifting) case_prod_conv find_None_iff option.exhaust)
  have xm: "x \<in> set ?c" using x by (metis find_Some_iff nth_mem)
  have xm': "snd x = ?m" using x by (auto simp: find_Some_iff)
  then have mf: "most_frequent prefs = fst x"
    using x by (simp add: most_frequent_def Let_def split: prod.split)
  have fx: "fst x \<in> set prefs" "?m = count_list prefs (fst x)"
    using xm xm' count_prefs_mem [of "fst x" "snd x" prefs] by (metis prod.collapse)+
  have "count_list prefs p \<le> count_list prefs (fst x)" for p
  proof (cases "p \<in> set prefs")
    case True
    then show ?thesis using le [of p "count_list prefs p"] fx(2) by (simp add: count_prefs_mem)
  qed (simp add: count_notin)
  then show ?thesis using fx(1) by (simp add: mf)
qed

text \<open>The format a set of decodings can be served with.\<close>

fun can_decode :: "codec_format \<Rightarrow> supported_decoding \<Rightarrow> bool" where
  "can_decode VP8 s = (ability_vp8 s > 0)"
| "can_decode VP9 s = (ability_vp9 s > 0)"
| "can_decode AV1 s = (ability_av1 s > 0)"
| "can_decode H264 s = (ability_h264 s > 0)"
| "can_decode H265 s = (ability_h265 s > 0)"
| "can_decode UnknownFormat s = False"

lemma most_frequent_mem: "most_frequent prefs \<in> set prefs \<or> most_frequent prefs = PreferAuto"
  using most_frequent_spec [of prefs] by (cases "prefs = []") auto

lemma usable_preferences_mem:
  "p \<in> set (usable_preferences e ds) \<Longrightarrow> pref_usable e p"
  by (auto simp: usable_preferences_def)

lemma all_decode_can:
  "all_decode ability_vp8 ds \<Longrightarrow> list_all (\<lambda>(_, s). can_decode VP8 s) ds"
  "all_decode ability_av1 ds \<Longrightarrow> list_all (\<lambda>(_, s). can_decode AV1 s) ds"
  "all_decode ability_h264 ds \<Longrightarrow> list_all (\<lambda>(_, s). can_decode H264 s) ds"
  "all_decode ability_h265 ds \<Longrightarrow> list_all (\<lambda>(_, s). can_decode H265 s) ds"
  by (simp_all add: all_decode_def)

text \<open>The format of a preference that is usable, and of no preference at all.\<close>

fun format_of :: "prefer_codec \<Rightarrow> codec_format" where
  "format_of PreferVP8 = VP8"
| "format_of PreferAV1 = AV1"
| "format_of PreferH264 = H264"
| "format_of PreferH265 = H265"
| "format_of _ = VP9"

lemma encoder_update_follows:
  fixes env u st
  defines "ds \<equiv> update_decodings u (peer_decodings st)"
  defines "prefs \<equiv> usable_preferences (usable_encodings env ds) ds"
  assumes "prefs \<noteq> []"
  shows "encode_codec_format (encoder_update env u st) = format_of (most_frequent prefs)"
proof -
  have "pref_usable (usable_encodings env ds) (most_frequent prefs)"
    using most_frequent_spec [OF assms(3)] usable_preferences_mem prefs_def by blast
  then show ?thesis
    unfolding encoder_update_def Let_def ds_def [symmetric] prefs_def [symmetric]
    by (cases "most_frequent prefs")
      (auto simp: enum_value_or_auto_def usable_encodings_def Let_def)
qed

lemma encoder_update_auto:
  fixes env u st
  defines "ds \<equiv> update_decodings u (peer_decodings st)"
  assumes "usable_preferences (usable_encodings env ds) ds = []"
  shows "encode_codec_format (encoder_update env u st)
    = (if all_decode ability_vp8 ds \<and> env_total_memory env \<le> 4 * 1024 * 1024 * 1024 then VP8 else VP9)"
  unfolding encoder_update_def Let_def ds_def [symmetric] assms(2)
  by (simp add: enum_value_or_auto_def usable_encodings_def Let_def)

lemma format_of_usable:
  assumes "pref_usable (usable_encodings env ds) p" and "list_all (\<lambda>(_, s). ability_vp9 s > 0) ds"
  shows "list_all (\<lambda>(_, s). can_decode (format_of p) s) ds"
  using assms all_decode_can [of ds]
  by (cases p) (simp_all add: usable_encodings_def Let_def case_prod_beta')

lemma peer_decodings_update [simp]:
  "peer_decodings (encoder_update env u st) = update_decodings u (peer_decodings st)"
  by (simp add: encoder_update_def Let_def)

section \<open>Properties\<close>


definition demo_env :: codec_env where
  "demo_env =
     \<lparr>env_disable_av1 = False, env_vram_option = False, env_vram_h264 = 0, env_vram_h265 = 0,
      env_hwcodec_option = True, env_hw_h264 = Some ''h264_vaapi'', env_hw_h265 = None,
      env_total_memory = 17179869184\<rparr>"

definition demo_encoder :: encoder_state where
  "demo_encoder =
     \<lparr>peer_decodings = [(1, supported_decoding_default\<lparr>ability_vp9 := 1\<rparr>)],
      encode_codec_format = VP9, usable_encoding = None\<rparr>"


text \<open>
  The most wanted codec wins: when some peer's preference is usable, the codec negotiated
  is that of a usable preference no other usable preference outnumbers.
\<close>

theorem negotiated_preference:
  assumes "ds = update_decodings u (peer_decodings st)"
    and "prefs = usable_preferences (usable_encodings env ds) ds" and "prefs \<noteq> []"
  shows "\<exists>p \<in> set prefs. encode_codec_format (encoder_update env u st) = format_of p \<and>
    (\<forall>q. count_list prefs q \<le> count_list prefs p)"
  using encoder_update_follows [of env u st] most_frequent_spec [OF assms(3)] assms by blast

theorem negotiated_preference_witness:
  "encode_codec_format (encoder_update demo_env
     (Update 1 (supported_decodings demo_env PreferAV1 I420 (False, False) False (False, False) []))
     demo_encoder) = AV1"
proof -
  let ?d = "supported_decodings demo_env PreferAV1 I420 (False, False) False (False, False) []"
  have ds: "update_decodings (Update 1 ?d) (peer_decodings demo_encoder) = [(1, ?d)]"
    by (simp add: update_decodings_def demo_encoder_def)
  have d: "sd_prefer ?d = PreferAV1" "ability_av1 ?d > 0" "\<not> env_disable_av1 demo_env"
    by (simp_all add: supported_decodings_def demo_env_def)
  have "usable_preferences (usable_encodings demo_env [(1, ?d)]) [(1, ?d)] = [PreferAV1]"
    using d by (simp add: usable_preferences_def usable_encodings_def all_decode_def Let_def)
  then show ?thesis
    using negotiated_preference [OF ds [symmetric] refl, of demo_env] by simp
qed

text \<open>
  A peer whose VP9 decoder failed says so (\<open>mark_unsupported\<close>), but nothing reads it: with
  another codec available to everyone the choice is still VP9.
\<close>

lemma vp9_unsupported_ignored:
  "encode_codec_format (encoder_update demo_env
     (Update 1 (supported_decodings demo_env PreferAuto I420 (False, False) False (False, False) [VP9]))
     (demo_encoder\<lparr>peer_decodings := []\<rparr>)) = VP9"
proof -
  let ?d = "supported_decodings demo_env PreferAuto I420 (False, False) False (False, False) [VP9]"
  let ?st = "demo_encoder\<lparr>peer_decodings := []\<rparr>"
  have ds: "update_decodings (Update 1 ?d) (peer_decodings ?st) = [(1, ?d)]"
    by (simp add: update_decodings_def)
  have "usable_preferences (usable_encodings demo_env [(1, ?d)]) [(1, ?d)] = []"
    by (simp add: usable_preferences_def supported_decodings_def)
  then show ?thesis
    using encoder_update_auto [of demo_env "Update 1 ?d" ?st] unfolding ds
    by (simp add: demo_env_def)
qed

lemma use_i444_sound:
  "use_i444 config st \<Longrightarrow> (k, d) \<in> set (peer_decodings st) \<Longrightarrow>
   prefer_chroma d = I444 \<and> (i444_ability ca_vp9 d \<or> i444_ability ca_av1 d)"
  by (cases config) (auto simp: use_i444_def Let_def list_all_iff)

lemma set_fallback_peers [simp]: "peer_decodings (set_fallback c st) = peer_decodings st"
  by (simp add: set_fallback_def split: option.split)

end
