(* ===== verification/Transfer_Job.thy ===== *)
theory Transfer_Job
  imports Messages Version
begin

text \<open>
  File transfer (\<open>libs/hbb_common/src/fs.rs\<close>, \<open>compress.rs\<close>): reading a directory tree, the
  \<open>TransferJob\<close> of the sending side (\<open>read\<close>, the digest and its confirmation) and of the
  receiving side (\<open>write\<close>, \<open>modify_time\<close>), the list of jobs and \<open>handle_read_jobs\<close>. The file
  system is a map from paths to files; paths are Unix paths. The zstd library is a parameter.
\<close>

section \<open>Paths and files\<close>

text \<open>\<open>Path::join\<close>: an absolute name replaces the path.\<close>

definition path_join :: "string \<Rightarrow> string \<Rightarrow> string" where
  "path_join p name =
     (if name \<noteq> [] \<and> hd name = CHR ''/'' then name
      else if p = [] then name
      else if last p = CHR ''/'' then p @ name
      else p @ ''/'' @ name)"

record fs_file =
  ff_content :: bytes
  ff_mtime :: u64

record file_system =
  fs_files :: "string \<Rightarrow> fs_file option"
  fs_denied :: "string \<Rightarrow> bool"  \<comment> \<open>paths that cannot be opened or created\<close>

definition fs_rename :: "string \<Rightarrow> string \<Rightarrow> file_system \<Rightarrow> file_system" where
  "fs_rename a b fs =
     (case fs_files fs a of
        None \<Rightarrow> fs
      | Some f \<Rightarrow> fs\<lparr>fs_files := (fs_files fs)(a := None, b := Some f)\<rparr>)"

definition fs_set_mtime :: "string \<Rightarrow> u64 \<Rightarrow> file_system \<Rightarrow> file_system" where
  "fs_set_mtime p t fs =
     (case fs_files fs p of
        None \<Rightarrow> fs
      | Some f \<Rightarrow> fs\<lparr>fs_files := (fs_files fs)(p := Some (f\<lparr>ff_mtime := t\<rparr>))\<rparr>)"

definition fs_create :: "string \<Rightarrow> file_system \<Rightarrow> file_system option" where
  "fs_create p fs =
     (if fs_denied fs p then None
      else Some (fs\<lparr>fs_files := (fs_files fs)(p := Some \<lparr>ff_content = [], ff_mtime = 0\<rparr>)\<rparr>))"

definition fs_append :: "string \<Rightarrow> bytes \<Rightarrow> file_system \<Rightarrow> file_system" where
  "fs_append p bs fs =
     (case fs_files fs p of
        None \<Rightarrow> fs
      | Some f \<Rightarrow> fs\<lparr>fs_files := (fs_files fs)(p := Some (f\<lparr>ff_content := ff_content f @ bs\<rparr>))\<rparr>)"

definition fs_remove :: "string \<Rightarrow> file_system \<Rightarrow> file_system" where
  "fs_remove p fs = fs\<lparr>fs_files := (fs_files fs)(p := None)\<rparr>"

section \<open>Directory trees\<close>

text \<open>What \<open>read_dir\<close> finds: files with size and modification time, directories, links.\<close>

datatype fs_node =
    FileNode u64 u64
  | DirNode "(string \<times> fs_node) list"
  | FileLink
  | DirLink

definition is_hidden_name :: "string \<Rightarrow> bool" where
  "is_hidden_name name = (position CHR ''.'' name = Some 0)"

fun read_dir_recursive :: "string \<Rightarrow> bool \<Rightarrow> fs_node \<Rightarrow> file_entry list option" where
  "read_dir_recursive pre include_hidden (DirNode es) =
     Some (concat (map (\<lambda>(name, node).
       if name = [] \<or> is_hidden_name name \<and> \<not> include_hidden then []
       else case node of
           FileNode sz mtime \<Rightarrow> [\<lparr>fe_name = path_join pre name, fe_size = sz, fe_modified_time = mtime\<rparr>]
         | DirNode _ \<Rightarrow>
             (case read_dir_recursive (path_join pre name) include_hidden node of
                Some files \<Rightarrow> files | None \<Rightarrow> [])
         | _ \<Rightarrow> []) es))"
| "read_dir_recursive pre include_hidden (FileNode sz mtime) =
     Some [\<lparr>fe_name = [], fe_size = sz, fe_modified_time = mtime\<rparr>]"
| "read_dir_recursive pre include_hidden FileLink = None"
| "read_dir_recursive pre include_hidden DirLink = None"

definition get_recursive_files :: "(string \<Rightarrow> fs_node option) \<Rightarrow> string \<Rightarrow> bool \<Rightarrow> string + file_entry list" where
  "get_recursive_files nodes path include_hidden =
     (case nodes path of
        None \<Rightarrow> Inl ''Not exists''
      | Some node \<Rightarrow>
          (case read_dir_recursive [] include_hidden node of
             Some files \<Rightarrow> Inr files | None \<Rightarrow> Inl ''Not exists''))"

definition can_enable_overwrite_detection :: "i64 \<Rightarrow> bool" where
  "can_enable_overwrite_detection version \<longleftrightarrow> sint (get_version_number ''1.1.10'') \<le> sint version"

section \<open>Compression\<close>

record zstd =
  zstd_compress :: "bytes \<Rightarrow> bytes option"
  zstd_decompress :: "bytes \<Rightarrow> nat \<Rightarrow> bytes option"

definition compress :: "zstd \<Rightarrow> bytes \<Rightarrow> bytes" where
  "compress z data = (case zstd_compress z data of Some res \<Rightarrow> res | None \<Rightarrow> [])"

definition decompress :: "zstd \<Rightarrow> bytes \<Rightarrow> bytes" where
  "decompress z data =
     (let max_n = 1024 * 1024 * 64; min_n = 1024 * 1024;
          n = min max_n (max min_n (30 * length data))
      in case zstd_decompress z data n of Some res \<Rightarrow> res | None \<Rightarrow> [])"

definition get_ext :: "string \<Rightarrow> string" where
  "get_ext name =
     (case position CHR ''.'' (rev name) of Some i \<Rightarrow> drop (length name - i) name | None \<Rightarrow> [])"

definition is_compressed_file :: "string \<Rightarrow> bool" where
  "is_compressed_file name =
     (get_ext name \<in> {''xz'', ''gz'', ''zip'', ''7z'', ''rar'', ''bz2'', ''tgz'', ''png'', ''jpg''})"

section \<open>Transfer jobs\<close>

record transfer_job =
  tj_id :: i32
  tj_remote :: string
  tj_path :: string
  tj_show_hidden :: bool
  tj_is_remote :: bool
  tj_is_last_job :: bool
  tj_file_num :: i32
  tj_files :: "file_entry list"
  tj_conn_id :: i32
  tj_file :: "(string \<times> nat) option"  \<comment> \<open>the open file: its path and the read position\<close>
  tj_total_size :: u64
  tj_finished_size :: u64
  tj_transferred :: u64
  tj_enable_overwrite_detection :: bool
  tj_file_confirmed :: bool
  tj_file_skipped :: bool
  tj_file_is_waiting :: bool
  tj_default_overwrite_strategy :: "bool option"

definition new_job :: "i32 \<Rightarrow> string \<Rightarrow> string \<Rightarrow> i32 \<Rightarrow> bool \<Rightarrow> bool \<Rightarrow> file_entry list \<Rightarrow> bool \<Rightarrow> transfer_job" where
  "new_job i remote path file_num show_hidden is_remote files od =
     \<lparr>tj_id = i, tj_remote = remote, tj_path = path, tj_show_hidden = show_hidden,
      tj_is_remote = is_remote, tj_is_last_job = False, tj_file_num = file_num, tj_files = files,
      tj_conn_id = 0, tj_file = None, tj_total_size = sum_list (map fe_size files),
      tj_finished_size = 0, tj_transferred = 0, tj_enable_overwrite_detection = od,
      tj_file_confirmed = False, tj_file_skipped = False, tj_file_is_waiting = False,
      tj_default_overwrite_strategy = None\<rparr>"

definition new_write :: "i32 \<Rightarrow> string \<Rightarrow> string \<Rightarrow> i32 \<Rightarrow> bool \<Rightarrow> bool \<Rightarrow> file_entry list \<Rightarrow> bool \<Rightarrow> transfer_job" where
  "new_write i remote path file_num show_hidden is_remote files od =
     new_job i remote path file_num show_hidden is_remote files od"

definition new_read ::
    "(string \<Rightarrow> fs_node option) \<Rightarrow> i32 \<Rightarrow> string \<Rightarrow> string \<Rightarrow> i32 \<Rightarrow> bool \<Rightarrow> bool \<Rightarrow> bool \<Rightarrow> string + transfer_job" where
  "new_read nodes i remote path file_num show_hidden is_remote od =
     (case get_recursive_files nodes path show_hidden of
        Inl e \<Rightarrow> Inl e
      | Inr files \<Rightarrow> Inr (new_job i remote path file_num show_hidden is_remote files od))"

text \<open>\<open>as usize\<close> of an \<open>i32\<close>: the sign is extended, so a negative number is out of every range.\<close>

definition as_usize :: "i32 \<Rightarrow> nat" where
  "as_usize n = unat (scast n :: u64)"

definition job_join :: "transfer_job \<Rightarrow> string \<Rightarrow> string" where
  "job_join j name = (if name = [] then tj_path j else path_join (tj_path j) name)"

definition download_path :: "string \<Rightarrow> string" where
  "download_path path = path @ ''.download''"

definition modify_time :: "transfer_job \<Rightarrow> file_system \<Rightarrow> file_system" where
  "modify_time j fs =
     (let file_num = as_usize (tj_file_num j) in
      if file_num < length (tj_files j) then
        let entry = tj_files j ! file_num; path = job_join j (fe_name entry)
        in fs_set_mtime path (fe_modified_time entry) (fs_rename (download_path path) path fs)
      else fs)"

definition remove_download_file :: "transfer_job \<Rightarrow> file_system \<Rightarrow> file_system" where
  "remove_download_file j fs =
     (let file_num = as_usize (tj_file_num j) in
      if file_num < length (tj_files j) then
        fs_remove (download_path (job_join j (fe_name (tj_files j ! file_num)))) fs
      else fs)"

record file_block =
  fb_id :: i32
  fb_file_num :: i32
  fb_data :: bytes
  fb_compressed :: bool

text \<open>\<open>write\<close>. An error keeps what was done before it.\<close>

definition job_write ::
    "zstd \<Rightarrow> file_block \<Rightarrow> transfer_job \<times> file_system \<Rightarrow> (string + unit) \<times> transfer_job \<times> file_system" where
  "job_write z block jf =
     (let (j, fs) = jf; file_num = as_usize (fb_file_num block) in
      if fb_id block \<noteq> tj_id j then (Inl ''Wrong id'', j, fs)
      else if file_num \<ge> length (tj_files j) then (Inl ''Wrong file number'', j, fs)
      else
        case (if file_num \<noteq> as_usize (tj_file_num j) \<or> tj_file j = None then
                (let fs = modify_time j fs;
                     j = j\<lparr>tj_file_num := fb_file_num block\<rparr>;
                     path = download_path (job_join j (fe_name (tj_files j ! file_num)))
                 in case fs_create path fs of
                      None \<Rightarrow> (False, j, fs)
                    | Some fs \<Rightarrow> (True, j\<lparr>tj_file := Some (path, 0)\<rparr>, fs))
              else (True, j, fs)) of
          (False, j, fs) \<Rightarrow> (Inl ''create'', j, fs)
        | (True, j, fs) \<Rightarrow>
            (case tj_file j of
               None \<Rightarrow> (Inl ''file is None'', j, fs)
             | Some (path, _) \<Rightarrow>
                 let data = (if fb_compressed block then decompress z (fb_data block) else fb_data block)
                 in (Inr (),
                     j\<lparr>tj_finished_size := tj_finished_size j + of_nat (length data),
                       tj_transferred := tj_transferred j + of_nat (length (fb_data block))\<rparr>,
                     fs_append path data fs)))"

definition set_file_confirmed :: "bool \<Rightarrow> transfer_job \<Rightarrow> transfer_job" where
  "set_file_confirmed b j = j\<lparr>tj_file_confirmed := b, tj_file_skipped := False\<rparr>"

definition set_file_is_waiting :: "bool \<Rightarrow> transfer_job \<Rightarrow> transfer_job" where
  "set_file_is_waiting b j = j\<lparr>tj_file_is_waiting := b\<rparr>"

definition set_overwrite_strategy :: "bool option \<Rightarrow> transfer_job \<Rightarrow> transfer_job" where
  "set_overwrite_strategy s j = j\<lparr>tj_default_overwrite_strategy := s\<rparr>"

definition job_skipped :: "transfer_job \<Rightarrow> bool" where
  "job_skipped j = (tj_file_skipped j \<and> length (tj_files j) = 1)"

definition job_completed :: "transfer_job \<Rightarrow> bool" where
  "job_completed j =
     (\<not> tj_enable_overwrite_detection j \<or> (\<not> tj_file_confirmed j \<and> \<not> tj_file_is_waiting j))"

definition job_error :: "transfer_job \<Rightarrow> string option" where
  "job_error j = (if job_skipped j then Some ''skipped'' else None)"

definition set_file_skipped :: "transfer_job \<Rightarrow> transfer_job" where
  "set_file_skipped j =
     (let j = set_file_is_waiting False (set_file_confirmed False (j\<lparr>tj_file := None\<rparr>))
      in j\<lparr>tj_file_num := tj_file_num j + 1, tj_file_skipped := True\<rparr>)"

text \<open>\<open>confirm\<close>: the answer to a digest, for the file number \<open>n\<close>, skip or an offset.\<close>

definition job_confirm :: "i32 \<Rightarrow> (bool + u32) option \<Rightarrow> transfer_job \<Rightarrow> transfer_job" where
  "job_confirm n u j =
     (if tj_file_num j \<noteq> n then j
      else case u of
          Some (Inl True) \<Rightarrow> set_file_skipped j
        | Some (Inl False) \<Rightarrow> set_file_confirmed True j
        | Some (Inr _) \<Rightarrow> set_file_confirmed True j
        | None \<Rightarrow> j)"

text \<open>
  \<open>send_current_digest\<close>: the digest of the open file goes out as a message. (A file that was
  removed in the meantime still has its metadata in the real system; here its absence is the
  error.)
\<close>

definition current_digest :: "transfer_job \<Rightarrow> file_system \<Rightarrow> string + message" where
  "current_digest j fs =
     (case tj_file j of
        None \<Rightarrow> Inl ''file is None''
      | Some (path, _) \<Rightarrow>
          (case fs_files fs path of
             None \<Rightarrow> Inl ''metadata''
           | Some f \<Rightarrow> Inr (MsgFileResponse (Some (FrDigest (tj_id j) (tj_file_num j) (ff_mtime f)
               (of_nat (length (ff_content f))) False False)))))"

definition BUF_SIZE :: nat where "BUF_SIZE = 128 * 1024"

text \<open>
  \<open>read\<close>: the result, the job and the messages sent on the way. The inner loop reads until the
  buffer is full or the file ends, so its result does not depend on how much each call returns;
  \<open>failing\<close> says that one of the calls reports an error. A file that is removed while it is
  open counts as failing.
\<close>

definition next_file :: "transfer_job \<Rightarrow> transfer_job" where
  "next_file j =
     j\<lparr>tj_file_num := tj_file_num j + 1, tj_file := None, tj_file_confirmed := False,
       tj_file_is_waiting := False\<rparr>"

definition open_file :: "transfer_job \<Rightarrow> file_system \<Rightarrow> string \<Rightarrow> (string + transfer_job)" where
  "open_file j fs name =
     (case tj_file j of
        Some _ \<Rightarrow> Inr j
      | None \<Rightarrow>
          let path = job_join j name in
          if fs_files fs path \<noteq> None \<and> \<not> fs_denied fs path
          then Inr (j\<lparr>tj_file := Some (path, 0), tj_file_confirmed := False, tj_file_is_waiting := False\<rparr>)
          else Inl ''open'')"

definition read_block :: "zstd \<Rightarrow> bool \<Rightarrow> transfer_job \<Rightarrow> file_system \<Rightarrow> string \<Rightarrow> (string + file_block option) \<times> transfer_job" where
  "read_block z failing j fs name =
     (case tj_file j of
        None \<Rightarrow> (Inl ''file is None'', j)
      | Some (path, pos) \<Rightarrow>
          if failing \<or> fs_files fs path = None then (Inl ''read'', next_file j)
          else
            let buf = take BUF_SIZE (drop pos (ff_content (the (fs_files fs path)))); offset = length buf in
            if offset = 0 then
              (Inr (Some \<lparr>fb_id = tj_id j, fb_file_num = tj_file_num j, fb_data = buf, fb_compressed = False\<rparr>),
               next_file j)
            else
              let tmp = compress z buf;
                  compressed = (\<not> is_compressed_file name \<and> length tmp < length buf);
                  data = (if compressed then tmp else buf)
              in (Inr (Some \<lparr>fb_id = tj_id j, fb_file_num = tj_file_num j, fb_data = data,
                    fb_compressed = compressed\<rparr>),
                  j\<lparr>tj_file := Some (path, pos + offset),
                    tj_finished_size := tj_finished_size j + of_nat offset,
                    tj_transferred := tj_transferred j + of_nat (length data)\<rparr>))"

definition job_read ::
    "zstd \<Rightarrow> bool \<Rightarrow> file_system \<Rightarrow> transfer_job \<Rightarrow> (string + file_block option) \<times> transfer_job \<times> message list" where
  "job_read z failing fs j =
     (let file_num = as_usize (tj_file_num j) in
      if file_num \<ge> length (tj_files j) then (Inr None, j\<lparr>tj_file := None\<rparr>, [])
      else let name = fe_name (tj_files j ! file_num) in
        case open_file j fs name of
          Inl e \<Rightarrow> (Inl e, j\<lparr>tj_file_num := tj_file_num j + 1, tj_file_confirmed := False,
                       tj_file_is_waiting := False\<rparr>, [])
        | Inr j \<Rightarrow>
            if tj_enable_overwrite_detection j \<and> \<not> tj_file_confirmed j then
              (if \<not> tj_file_is_waiting j then
                 (case current_digest j fs of
                    Inl e \<Rightarrow> (Inl e, j, [])
                  | Inr msg \<Rightarrow> (Inr None, set_file_is_waiting True j, [msg]))
               else (Inr None, j, []))
            else let (r, j) = read_block z failing j fs name in (r, j, []))"

section \<open>The list of jobs\<close>

definition new_error :: "i32 \<Rightarrow> string \<Rightarrow> i32 \<Rightarrow> message" where
  "new_error i err file_num = MsgFileResponse (Some (FrError i err file_num))"

definition new_dir :: "i32 \<Rightarrow> string \<Rightarrow> file_entry list \<Rightarrow> message" where
  "new_dir i path files = MsgFileResponse (Some (FrDir i path files))"

definition new_block :: "file_block \<Rightarrow> message" where
  "new_block b = MsgFileResponse (Some (FrBlock (fb_id b) (fb_file_num b) (fb_data b) (fb_compressed b) 0))"

definition new_send_confirm :: "i32 \<Rightarrow> i32 \<Rightarrow> (bool + u32) option \<Rightarrow> message" where
  "new_send_confirm i file_num u = MsgFileAction (Some (FaSendConfirm i file_num u))"

definition new_receive :: "i32 \<Rightarrow> string \<Rightarrow> i32 \<Rightarrow> file_entry list \<Rightarrow> u64 \<Rightarrow> message" where
  "new_receive i path file_num files total_size =
     MsgFileAction (Some (FaReceive i path files file_num total_size))"

definition new_send :: "i32 \<Rightarrow> string \<Rightarrow> i32 \<Rightarrow> bool \<Rightarrow> message" where
  "new_send i path file_num include_hidden =
     MsgFileAction (Some (FaSend i path include_hidden file_num))"

definition new_done :: "i32 \<Rightarrow> i32 \<Rightarrow> message" where
  "new_done i file_num = MsgFileResponse (Some (FrDone i file_num))"

definition remove_job :: "i32 \<Rightarrow> transfer_job list \<Rightarrow> transfer_job list" where
  "remove_job i jobs = filter (\<lambda>x. tj_id x \<noteq> i) jobs"

definition get_job :: "i32 \<Rightarrow> transfer_job list \<Rightarrow> transfer_job option" where
  "get_job i jobs = find (\<lambda>x. tj_id x = i) jobs"

text \<open>An update of the first job with an id, through the reference \<open>get_job\<close> returns.\<close>

fun update_job :: "i32 \<Rightarrow> (transfer_job \<Rightarrow> transfer_job) \<Rightarrow> transfer_job list \<Rightarrow> transfer_job list" where
  "update_job i f [] = []"
| "update_job i f (x # xs) = (if tj_id x = i then f x # xs else x # update_job i f xs)"

text \<open>One job of the loop of \<open>handle_read_jobs\<close>: the job, its messages, whether it is finished.\<close>

definition handle_read_job :: "zstd \<Rightarrow> bool \<Rightarrow> file_system \<Rightarrow> transfer_job \<Rightarrow> transfer_job \<times> message list \<times> bool" where
  "handle_read_job z failing fs job =
     (if tj_is_last_job job then (job, [], False)
      else case job_read z failing fs job of
          (Inl err, job, out) \<Rightarrow> (job, out @ [new_error (tj_id job) err (tj_file_num job)], False)
        | (Inr (Some block), job, out) \<Rightarrow> (job, out @ [new_block block], False)
        | (Inr None, job, out) \<Rightarrow>
            (if job_completed job then
               (job, out @ [case job_error job of
                              Some err \<Rightarrow> new_error (tj_id job) err (tj_file_num job)
                            | None \<Rightarrow> new_done (tj_id job) (tj_file_num job)], True)
             else (job, out, False)))"

definition handle_read_jobs ::
    "zstd \<Rightarrow> (i32 \<Rightarrow> bool) \<Rightarrow> file_system \<Rightarrow> transfer_job list \<Rightarrow> transfer_job list \<times> message list" where
  "handle_read_jobs z failing fs jobs =
     (let rs = map (\<lambda>j. handle_read_job z (failing (tj_id j)) fs j) jobs;
          finished = map (\<lambda>(j, _, _). tj_id j) (filter (\<lambda>(_, _, b). b) rs)
      in (fold remove_job finished (map fst rs), concat (map (\<lambda>(_, out, _). out) rs)))"

section \<open>Digests at the receiving side\<close>

datatype digest_check_result = NeedConfirm i32 i32 u64 u64 bool | NoSuchFile

definition is_write_need_confirmation ::
    "file_system \<Rightarrow> string \<Rightarrow> i32 \<Rightarrow> i32 \<Rightarrow> u64 \<Rightarrow> u64 \<Rightarrow> digest_check_result" where
  "is_write_need_confirmation fs path i file_num last_modified file_size =
     (case fs_files fs path of
        Some f \<Rightarrow>
          let is_identical = (last_modified = ff_mtime f \<and> file_size = of_nat (length (ff_content f)))
          in NeedConfirm i file_num (ff_mtime f) (of_nat (length (ff_content f))) is_identical
      | None \<Rightarrow> NoSuchFile)"

definition transform_windows_path :: "file_entry list \<Rightarrow> file_entry list" where
  "transform_windows_path es =
     map (\<lambda>e. e\<lparr>fe_name := map (\<lambda>c. if c = CHR 0x5C then CHR ''/'' else c) (fe_name e)\<rparr>) es"

section \<open>Facts on numbers and compression\<close>

lemma as_usize_of_nat [simp]: "n < 2 ^ 31 \<Longrightarrow> as_usize (of_nat n) = n"
proof -
  assume n: "n < 2 ^ 31"
  have "sint (of_nat n :: i32) = int n"
    using n by (simp add: signed_of_nat signed_take_bit_int_eq_self)
  then have "(scast (of_nat n :: i32) :: u64) = of_nat n"
    by (metis of_int_of_nat_eq scast_eq)
  then show ?thesis using n by (simp add: as_usize_def unat_of_nat_exact)
qed

lemma of_nat_i32_inj: "m < 2 ^ 31 \<Longrightarrow> n < 2 ^ 31 \<Longrightarrow> (of_nat m :: i32) = of_nat n \<longleftrightarrow> m = n"
  by (metis as_usize_of_nat)

text \<open>What the code relies on: a block that zstd compresses is decompressed again.\<close>

definition zstd_ok :: "zstd \<Rightarrow> bool" where
  "zstd_ok z \<longleftrightarrow> (\<forall>d. length d \<le> BUF_SIZE \<longrightarrow>
     (\<exists>c. zstd_compress z d = Some c \<and> (\<forall>n \<ge> length d. zstd_decompress z c n = Some d)))"

lemma decompress_compress:
  assumes "zstd_ok z" and "length d \<le> BUF_SIZE"
  shows "decompress z (compress z d) = d"
proof -
  obtain c where c: "zstd_compress z d = Some c" "\<And>n. length d \<le> n \<Longrightarrow> zstd_decompress z c n = Some d"
    using assms by (auto simp: zstd_ok_def)
  have "length d \<le> min (1024 * 1024 * 64) (max (1024 * 1024) (30 * length c))"
    using assms(2) by (simp add: BUF_SIZE_def)
  then show ?thesis using c by (simp add: compress_def decompress_def Let_def)
qed

section \<open>A whole transfer\<close>

text \<open>The chunks a file is read in, and its blocks; the empty block ends the file.\<close>

function chunks :: "bytes \<Rightarrow> bytes list" where
  "chunks c = (if c = [] then [] else take BUF_SIZE c # chunks (drop BUF_SIZE c))"
  by pat_completeness auto
termination by (relation "measure length") (auto simp: BUF_SIZE_def)

declare chunks.simps [simp del]

lemma concat_chunks [simp]: "concat (chunks c) = c"
  by (induction c rule: chunks.induct) (subst chunks.simps, simp)

lemma length_chunks_le: "d \<in> set (chunks c) \<Longrightarrow> length d \<le> BUF_SIZE"
  by (induction c rule: chunks.induct) (subst (asm) chunks.simps, auto split: if_splits)

definition chunk_block :: "zstd \<Rightarrow> i32 \<Rightarrow> i32 \<Rightarrow> string \<Rightarrow> bytes \<Rightarrow> file_block" where
  "chunk_block z i n name d =
     (let compressed = (\<not> is_compressed_file name \<and> length (compress z d) < length d)
      in \<lparr>fb_id = i, fb_file_num = n, fb_data = (if compressed then compress z d else d),
          fb_compressed = compressed\<rparr>)"

definition end_block :: "i32 \<Rightarrow> i32 \<Rightarrow> file_block" where
  "end_block i n = \<lparr>fb_id = i, fb_file_num = n, fb_data = [], fb_compressed = False\<rparr>"

definition file_blocks :: "zstd \<Rightarrow> i32 \<Rightarrow> nat \<Rightarrow> string \<Rightarrow> bytes \<Rightarrow> file_block list" where
  "file_blocks z i n name c = map (chunk_block z i (of_nat n) name) (chunks c) @ [end_block i (of_nat n)]"

text \<open>Reading \<open>n\<close> times; a job that answers anything but a block stops it.\<close>

fun read_n :: "zstd \<Rightarrow> file_system \<Rightarrow> nat \<Rightarrow> transfer_job \<Rightarrow> (file_block list \<times> transfer_job) option" where
  "read_n z fs 0 j = Some ([], j)"
| "read_n z fs (Suc n) j =
     (case job_read z False fs j of
        (Inr (Some b), j', _) \<Rightarrow>
          (case read_n z fs n j' of Some (bs, j'') \<Rightarrow> Some (b # bs, j'') | None \<Rightarrow> None)
      | _ \<Rightarrow> None)"

lemma read_n_add:
  "read_n z fs m j = Some (bs, j') \<Longrightarrow> read_n z fs n j' = Some (cs, j'') \<Longrightarrow>
   read_n z fs (m + n) j = Some (bs @ cs, j'')"
  by (induction m arbitrary: j bs) (auto split: prod.splits sum.splits option.splits)

text \<open>The sending job at file \<open>n\<close>: what a read depends on.\<close>

definition sender_at :: "transfer_job \<Rightarrow> nat \<Rightarrow> (string \<times> nat) option \<Rightarrow> transfer_job \<Rightarrow> bool" where
  "sender_at j0 n fo j \<longleftrightarrow>
     tj_id j = tj_id j0 \<and> tj_files j = tj_files j0 \<and> tj_path j = tj_path j0 \<and>
     \<not> tj_enable_overwrite_detection j \<and> tj_file_num j = of_nat n \<and> tj_file j = fo"

lemma read_open_file:
  assumes "sender_at j0 n (Some (path, pos)) j" and "n < length (tj_files j0)" and "length (tj_files j0) < 2 ^ 31"
    and "fs_files fs path = Some f" and "c = drop pos (ff_content f)" and "name = fe_name (tj_files j0 ! n)"
  shows "\<exists>j'. read_n z fs (Suc (length (chunks c))) j = Some (file_blocks z (tj_id j0) n name c, j') \<and>
    sender_at j0 (Suc n) None j'"
  using assms(1,5)
proof (induction c arbitrary: j pos rule: chunks.induct)
  case (1 c)
  have n: "as_usize (tj_file_num j) = n" "as_usize (tj_file_num j) < length (tj_files j)"
    using "1.prems"(1) assms(2,3) by (simp_all add: sender_at_def)
  have open': "open_file j fs name = Inr j" using "1.prems"(1) by (simp add: open_file_def sender_at_def)
  have read: "job_read z False fs j = (let (r, j) = read_block z False j fs name in (r, j, []))"
    using n open' "1.prems"(1) assms(6) by (simp add: job_read_def Let_def sender_at_def)
  show ?case
  proof (cases "c = []")
    case True
    then have "read_block z False j fs name = (Inr (Some (end_block (tj_id j0) (of_nat n))), next_file j)"
      using "1.prems" assms(4) by (simp add: read_block_def sender_at_def end_block_def)
    then show ?thesis
      using True read "1.prems"(1)
      by (simp add: file_blocks_def chunks.simps sender_at_def next_file_def add.commute)
  next
    case False
    let ?d = "take BUF_SIZE c"
    have len: "0 < length ?d" using False by (simp add: BUF_SIZE_def)
    define j' where "j' = snd (read_block z False j fs name)"
    have rb: "read_block z False j fs name
        = (Inr (Some (chunk_block z (tj_id j0) (of_nat n) name ?d)), j')"
      and at: "sender_at j0 n (Some (path, pos + length ?d)) j'"
      using "1.prems" assms(4) len
      by (simp_all add: j'_def read_block_def sender_at_def chunk_block_def Let_def)
    have "drop BUF_SIZE c = drop (pos + length ?d) (ff_content f)"
      using "1.prems"(2) by (simp add: add.commute min_def) 
    from "1.IH" [OF False at this] obtain j'' where
      j'': "read_n z fs (Suc (length (chunks (drop BUF_SIZE c)))) j'
        = Some (file_blocks z (tj_id j0) n name (drop BUF_SIZE c), j'')" "sender_at j0 (Suc n) None j''"
      by blast
    have "chunks c = ?d # chunks (drop BUF_SIZE c)" using False by (subst chunks.simps) simp
    then show ?thesis
      using j'' read rb by (simp add: file_blocks_def del: read_n.simps(2)) (simp add: read_n.simps)
  qed
qed

lemma read_file:
  assumes "sender_at j0 n None j" and "n < length (tj_files j0)" and "length (tj_files j0) < 2 ^ 31"
    and "name = fe_name (tj_files j0 ! n)" and "fs_files fs (job_join j0 name) = Some f"
    and "\<not> fs_denied fs (job_join j0 name)"
  shows "\<exists>j'. read_n z fs (Suc (length (chunks (ff_content f)))) j
      = Some (file_blocks z (tj_id j0) n name (ff_content f), j') \<and> sender_at j0 (Suc n) None j'"
proof -
  let ?p = "job_join j0 name"
  let ?j = "j\<lparr>tj_file := Some (?p, 0), tj_file_confirmed := False, tj_file_is_waiting := False\<rparr>"
  have at: "sender_at j0 n (Some (?p, 0)) ?j" using assms(1) by (simp add: sender_at_def)
  have "as_usize (tj_file_num j) = n" using assms(1-3) by (simp add: sender_at_def)
  moreover have "job_join j name = ?p" using assms(1) by (simp add: job_join_def sender_at_def)
  ultimately have "job_read z False fs j = job_read z False fs ?j"
    using assms by (simp add: job_read_def open_file_def sender_at_def Let_def)
  then have "read_n z fs (Suc m) j = read_n z fs (Suc m) ?j" for m by simp
  then show ?thesis
    using read_open_file [OF at assms(2,3,5), of "ff_content f" name z] assms(4) by simp
qed

text \<open>The receiving side takes the blocks one by one.\<close>

fun write_all :: "zstd \<Rightarrow> file_block list \<Rightarrow> transfer_job \<times> file_system \<Rightarrow> (transfer_job \<times> file_system) option" where
  "write_all z [] jf = Some jf"
| "write_all z (b # bs) jf =
     (case job_write z b jf of (Inr _, jf') \<Rightarrow> write_all z bs jf' | (Inl _, _) \<Rightarrow> None)"

lemma write_all_append:
  "write_all z (bs @ cs) jf = (case write_all z bs jf of Some jf' \<Rightarrow> write_all z cs jf' | None \<Rightarrow> None)"
  by (induction bs arbitrary: jf) (auto split: prod.splits sum.splits)

text \<open>
  The target paths of a transfer are different from each other and from the names the files
  have while they are being written, and all of them can be created.
\<close>

definition target :: "transfer_job \<Rightarrow> nat \<Rightarrow> string" where
  "target j n = job_join j (fe_name (tj_files j ! n))"

definition targets_ok :: "transfer_job \<Rightarrow> file_system \<Rightarrow> bool" where
  "targets_ok j fs \<longleftrightarrow>
     (\<forall>m < length (tj_files j). \<forall>n < length (tj_files j).
        (target j m = target j n \<longrightarrow> m = n) \<and> target j m \<noteq> download_path (target j n)) \<and>
     (\<forall>n < length (tj_files j). \<not> fs_denied fs (download_path (target j n)))"

lemma download_path_inj [simp]: "download_path p = download_path q \<longleftrightarrow> p = q"
  by (simp add: download_path_def)

text \<open>
  The receiving job while it writes file \<open>n\<close>, of which \<open>c\<close> has arrived; the files before are
  complete, the last of them still under its temporary name until the next block.
\<close>

definition has_content :: "file_system \<Rightarrow> string \<Rightarrow> bytes \<Rightarrow> bool" where
  "has_content fs p c \<longleftrightarrow> (\<exists>f. fs_files fs p = Some f \<and> ff_content f = c)"

definition receiver_at :: "transfer_job \<Rightarrow> file_system \<Rightarrow> bytes list \<Rightarrow> nat \<Rightarrow> bytes \<Rightarrow> transfer_job \<times> file_system \<Rightarrow> bool" where
  "receiver_at j0 fs0 cs n c jf \<longleftrightarrow>
     tj_id (fst jf) = tj_id j0 \<and> tj_files (fst jf) = tj_files j0 \<and> tj_path (fst jf) = tj_path j0 \<and>
     tj_file_num (fst jf) = of_nat n \<and> fs_denied (snd jf) = fs_denied fs0 \<and>
     (\<exists>pos. tj_file (fst jf) = Some (download_path (target j0 n), pos)) \<and>
     has_content (snd jf) (download_path (target j0 n)) c \<and>
     (\<forall>k < n. has_content (snd jf) (target j0 k) (cs ! k))"

lemma target_cong:
  "tj_files j = tj_files j0 \<Longrightarrow> tj_path j = tj_path j0 \<Longrightarrow> job_join j (fe_name (tj_files j0 ! n)) = target j0 n"
  by (simp add: target_def job_join_def)

lemma has_content_append:
  "has_content (fs_append p d fs) q c \<longleftrightarrow>
     (if q = p \<and> fs_files fs p \<noteq> None then \<exists>c'. has_content fs p c' \<and> c = c' @ d else has_content fs q c)"
  by (auto simp: has_content_def fs_append_def split: option.splits)

lemma fs_append_denied [simp]: "fs_denied (fs_append p d fs) = fs_denied fs"
  by (simp add: fs_append_def split: option.split)

definition block_data :: "zstd \<Rightarrow> file_block \<Rightarrow> bytes" where
  "block_data z b = (if fb_compressed b then decompress z (fb_data b) else fb_data b)"

lemma targets_okD:
  assumes "targets_ok j fs" and "m < length (tj_files j)" and "n < length (tj_files j)"
  shows "m \<noteq> n \<Longrightarrow> target j m \<noteq> target j n" and "target j m \<noteq> download_path (target j n)"
  using assms by (auto simp: targets_ok_def)

lemma write_same_file:
  assumes "receiver_at j0 fs0 cs n c jf" and "targets_ok j0 fs0" and "n < length (tj_files j0)"
    and "length (tj_files j0) < 2 ^ 31" and "fb_id b = tj_id j0" and "fb_file_num b = of_nat n"
    and "d = block_data z b"
  shows "\<exists>jf'. job_write z b jf = (Inr (), jf') \<and> receiver_at j0 fs0 cs n (c @ d) jf'"
proof -
  obtain j fs where jf: "jf = (j, fs)" by (cases jf)
  obtain pos where f: "tj_file j = Some (download_path (target j0 n), pos)"
    using assms(1) by (auto simp: receiver_at_def jf)
  let ?fs = "fs_append (download_path (target j0 n)) d fs"
  have "\<exists>j'. job_write z b jf = (Inr (), j', ?fs) \<and> tj_id j' = tj_id j \<and> tj_files j' = tj_files j \<and>
      tj_path j' = tj_path j \<and> tj_file_num j' = tj_file_num j \<and> tj_file j' = tj_file j"
    using assms f by (simp add: job_write_def jf receiver_at_def block_data_def Let_def)
  moreover have "has_content fs (download_path (target j0 n)) c"
    using assms(1) by (simp add: receiver_at_def jf)
  moreover have "target j0 k \<noteq> download_path (target j0 n)" if "k < n" for k
    using assms(2,3) that by (simp add: targets_ok_def)
  ultimately show ?thesis
    using assms(1) f by (auto simp: receiver_at_def jf has_content_append) (auto simp: has_content_def)
qed

text \<open>Opening the next file completes the last one.\<close>

lemma modify_time_content:
  assumes "as_usize (tj_file_num j) = n" and "n < length (tj_files j)"
    and "has_content fs (download_path (target j n)) c" and "target j n \<noteq> download_path (target j n)"
  shows "has_content (modify_time j fs) (target j n) c"
    and "q \<noteq> target j n \<Longrightarrow> q \<noteq> download_path (target j n) \<Longrightarrow>
      has_content (modify_time j fs) q = has_content fs q"
  using assms
  by (auto simp: modify_time_def has_content_def target_def Let_def fs_rename_def fs_set_mtime_def
      fun_eq_iff split: option.splits)

lemma modify_time_denied [simp]: "fs_denied (modify_time j fs) = fs_denied fs"
  by (auto simp: modify_time_def Let_def fs_rename_def fs_set_mtime_def split: option.splits)

lemma has_content_create:
  "fs_create p fs = Some fs' \<Longrightarrow> has_content fs' q c \<longleftrightarrow> (if q = p then c = [] else has_content fs q c)"
  by (auto simp: fs_create_def has_content_def split: if_splits)

lemma write_opens:
  assumes "tj_id j = tj_id j0" "tj_files j = tj_files j0" "tj_path j = tj_path j0"
    and "tj_file j = None \<or> tj_file_num j \<noteq> of_nat n" and "tj_file_num j = of_nat m" "m < 2 ^ 31"
    and "targets_ok j0 fs0" and "fs_denied fs = fs_denied fs0" and "n < length (tj_files j0)"
    and "length (tj_files j0) < 2 ^ 31" and "fb_id b = tj_id j0" and "fb_file_num b = of_nat n"
    and "d = block_data z b"
    and "\<forall>k < n. has_content (modify_time j fs) (target j0 k) (cs ! k)"
  shows "\<exists>jf'. job_write z b (j, fs) = (Inr (), jf') \<and> receiver_at j0 fs0 cs n d jf'"
proof -
  let ?p = "download_path (target j0 n)"
  have tgt: "job_join (j\<lparr>tj_file_num := of_nat n\<rparr>) (fe_name (tj_files j0 ! n)) = target j0 n"
    using assms(2,3) by (simp add: target_def job_join_def)
  have "\<not> fs_denied (modify_time j fs) ?p" using assms(7-9) by (simp add: targets_ok_def)
  then obtain fs' where fs': "fs_create ?p (modify_time j fs) = Some fs'" by (simp add: fs_create_def)
  have "as_usize (tj_file_num j) = m" using assms(5,6) by simp
  moreover have "tj_file j = None \<or> n \<noteq> m" using assms(4-6,9,10) by auto
  ultimately have "\<exists>j'. job_write z b (j, fs) = (Inr (), j', fs_append ?p d fs') \<and> tj_id j' = tj_id j0 \<and>
      tj_files j' = tj_files j0 \<and> tj_path j' = tj_path j0 \<and> tj_file_num j' = of_nat n \<and>
      tj_file j' = Some (?p, 0)"
    using assms tgt fs' by (auto simp: job_write_def block_data_def Let_def)
  moreover have "fs_denied fs' = fs_denied fs0" using fs' assms(8) by (auto simp: fs_create_def split: if_splits)
  moreover have "fs_files fs' ?p \<noteq> None" using fs' by (auto simp: fs_create_def split: if_splits)
  moreover have "target j0 k \<noteq> ?p" if "k < n" for k
    using assms(7,9) that by (simp add: targets_ok_def)
  ultimately show ?thesis
    using assms(14) fs' by (auto simp: receiver_at_def has_content_append has_content_create)
qed

lemma write_next_file:
  assumes "receiver_at j0 fs0 cs n (cs ! n) jf" and "targets_ok j0 fs0" and "Suc n < length (tj_files j0)"
    and "length (tj_files j0) < 2 ^ 31" and "fb_id b = tj_id j0" and "fb_file_num b = of_nat (Suc n)"
    and "d = block_data z b"
  shows "\<exists>jf'. job_write z b jf = (Inr (), jf') \<and> receiver_at j0 fs0 cs (Suc n) d jf'"
proof -
  obtain j fs where jf: "jf = (j, fs)" by (cases jf)
  note r = assms(1) [unfolded receiver_at_def jf fst_conv snd_conv]
  have tgt: "target j k = target j0 k" for k using r by (simp add: target_def job_join_def)
  have num: "as_usize (tj_file_num j) = n" "n < length (tj_files j)" using r assms(3,4) by simp_all
  have ne: "target j n \<noteq> download_path (target j n)" using assms(2,3) tgt by (simp add: targets_ok_def)
  have dl: "has_content fs (download_path (target j n)) (cs ! n)" using r tgt by simp
  note mt = modify_time_content [OF num dl ne]
  have "has_content (modify_time j fs) (target j0 k) (cs ! k)" if "k < Suc n" for k
  proof (cases "k = n")
    case False
    then have "k < n" using that by simp
    then have "target j0 k \<noteq> target j n" "target j0 k \<noteq> download_path (target j n)"
      using targets_okD [OF assms(2)] assms(3) tgt \<open>k < n\<close> by simp_all
    then show ?thesis using mt(2) r \<open>k < n\<close> by simp
  qed (use mt(1) tgt in simp)
  moreover have "tj_file_num j \<noteq> of_nat (Suc n)"
    using r assms(3,4) of_nat_i32_inj [of n "Suc n"] by simp
  ultimately show ?thesis
    using write_opens [of j j0 "Suc n" n fs0 fs b d z cs] r assms jf by simp
qed

lemma write_chunks:
  assumes "receiver_at j0 fs0 cs n c jf" and "targets_ok j0 fs0" and "n < length (tj_files j0)"
    and "length (tj_files j0) < 2 ^ 31"
    and "\<forall>b \<in> set bs. fb_id b = tj_id j0 \<and> fb_file_num b = of_nat n"
  shows "\<exists>jf'. write_all z bs jf = Some jf' \<and> receiver_at j0 fs0 cs n
    (c @ concat (map (block_data z) bs)) jf'"
  using assms(1,5)
proof (induction bs arbitrary: c jf)
  case Nil
  then show ?case by (intro exI [of _ jf]) simp
next
  case (Cons b bs)
  have b: "fb_id b = tj_id j0" "fb_file_num b = of_nat n" using Cons.prems(2) by (metis list.set_intros(1))+
  have bs: "\<forall>b \<in> set bs. fb_id b = tj_id j0 \<and> fb_file_num b = of_nat n"
    using Cons.prems(2) by (metis list.set_intros(2))
  obtain jf' where
    jf': "job_write z b jf = (Inr (), jf')" "receiver_at j0 fs0 cs n (c @ block_data z b) jf'"
    using write_same_file [OF Cons.prems(1) assms(2-4) b refl, where z = z] by (elim exE conjE)
  obtain jf'' where "write_all z bs jf' = Some jf''"
    "receiver_at j0 fs0 cs n ((c @ block_data z b) @ concat (map (block_data z) bs)) jf''"
    using Cons.IH [OF jf'(2) bs] by (elim exE conjE)
  then show ?case using jf'(1) by (intro exI [of _ jf'']) (simp del: of_nat_Suc)
qed

lemma file_blocks_data:
  assumes "zstd_ok z"
  shows "concat (map (block_data z) (file_blocks z i n name c)) = c"
proof -
  have "block_data z (chunk_block z i (of_nat n) name d) = d" if "d \<in> set (chunks c)" for d
    using decompress_compress [OF assms length_chunks_le [OF that]]
    by (simp add: chunk_block_def block_data_def Let_def)
  then have "map (block_data z) (map (chunk_block z i (of_nat n) name) (chunks c)) = chunks c"
    by (simp add: map_idI)
  then show ?thesis by (simp add: file_blocks_def end_block_def block_data_def)
qed

lemma file_blocks_ids:
  "\<forall>b \<in> set (file_blocks z i n name c). fb_id b = i \<and> fb_file_num b = of_nat n"
  by (auto simp: file_blocks_def chunk_block_def end_block_def Let_def)

lemma write_file:
  assumes "zstd_ok z" and "targets_ok j0 fs0" and "n < length (tj_files j0)"
    and "length (tj_files j0) < 2 ^ 31" and "i = tj_id j0"
    and "\<And>b. fb_id b = tj_id j0 \<Longrightarrow> fb_file_num b = of_nat n \<Longrightarrow>
      \<exists>jf'. job_write z b jf = (Inr (), jf') \<and> receiver_at j0 fs0 cs n (block_data z b) jf'"
  shows "\<exists>jf'. write_all z (file_blocks z i n name c) jf = Some jf' \<and> receiver_at j0 fs0 cs n c jf'"
proof -
  obtain b bs where bs: "file_blocks z i n name c = b # bs"
    by (cases "file_blocks z i n name c") (auto simp: file_blocks_def)
  have ids: "\<forall>b \<in> set (b # bs). fb_id b = tj_id j0 \<and> fb_file_num b = of_nat n"
    using file_blocks_ids [of z i n name c] assms(5) bs by metis
  then have b: "fb_id b = tj_id j0" "fb_file_num b = of_nat n"
    by (metis list.set_intros(1))+
  have rest: "\<forall>b \<in> set bs. fb_id b = tj_id j0 \<and> fb_file_num b = of_nat n"
    using ids by (metis list.set_intros(2))
  obtain jf1 where jf1: "job_write z b jf = (Inr (), jf1)" "receiver_at j0 fs0 cs n (block_data z b) jf1"
    using assms(6) [OF b] by (elim exE conjE)
  obtain jf2 where jf2: "write_all z bs jf1 = Some jf2"
      "receiver_at j0 fs0 cs n (block_data z b @ concat (map (block_data z) bs)) jf2"
    using write_chunks [OF jf1(2) assms(2-4) rest, where z = z] by (elim exE conjE)
  have "block_data z b @ concat (map (block_data z) bs) = c"
    using file_blocks_data [OF assms(1), of i n name c] bs by simp
  then show ?thesis using jf1 jf2 bs by (intro exI [of _ jf2]) simp
qed

text \<open>The blocks of the first \<open>n\<close> files.\<close>

definition blocks_upto :: "zstd \<Rightarrow> transfer_job \<Rightarrow> bytes list \<Rightarrow> nat \<Rightarrow> file_block list" where
  "blocks_upto z j cs n =
     concat (map (\<lambda>k. file_blocks z (tj_id j) k (fe_name (tj_files j ! k)) (cs ! k)) [0..<n])"

lemma blocks_upto_Suc:
  "blocks_upto z j cs (Suc n)
     = blocks_upto z j cs n @ file_blocks z (tj_id j) n (fe_name (tj_files j ! n)) (cs ! n)"
  by (simp add: blocks_upto_def)

lemma read_files:
  assumes "sender_at j0 0 None j0" and "length (tj_files j0) < 2 ^ 31" and "n \<le> length (tj_files j0)"
    and "\<forall>k < length (tj_files j0). has_content fs (target j0 k) (cs ! k) \<and> \<not> fs_denied fs (target j0 k)"
  shows "\<exists>m j'. read_n z fs m j0 = Some (blocks_upto z j0 cs n, j') \<and> sender_at j0 n None j'"
  using assms(3)
proof (induction n)
  case 0
  show ?case using assms(1) by (intro exI [of _ 0] exI [of _ j0]) (simp add: blocks_upto_def)
next
  case (Suc n)
  then obtain m j1 where j1: "read_n z fs m j0 = Some (blocks_upto z j0 cs n, j1)" "sender_at j0 n None j1"
    by auto
  let ?name = "fe_name (tj_files j0 ! n)"
  have n: "n < length (tj_files j0)" using Suc.prems by simp
  obtain f where f: "fs_files fs (target j0 n) = Some f" "ff_content f = cs ! n"
    "\<not> fs_denied fs (target j0 n)"
    using assms(4) [rule_format, OF n] by (auto simp: has_content_def)
  obtain j2 where j2: "read_n z fs (Suc (length (chunks (ff_content f)))) j1
      = Some (file_blocks z (tj_id j0) n ?name (ff_content f), j2)" "sender_at j0 (Suc n) None j2"
    using read_file [OF j1(2) n assms(2) refl, of fs f z] f by (auto simp: target_def)
  show ?case
    using read_n_add [OF j1(1) j2(1)] j2(2) f(2)
    by (intro exI [of _ "m + Suc (length (chunks (ff_content f)))"] exI [of _ j2])
      (simp add: blocks_upto_def del: read_n.simps add_Suc_right)
qed

lemma write_files:
  assumes "zstd_ok z" and "targets_ok j0 fs0" and "length (tj_files j0) < 2 ^ 31"
    and "tj_file j0 = None" and "tj_file_num j0 = 0" and "Suc n \<le> length (tj_files j0)"
    and "tj_id s = tj_id j0" and "tj_files s = tj_files j0"
  shows "\<exists>jf'. write_all z (blocks_upto z s cs (Suc n)) (j0, fs0) = Some jf' \<and>
    receiver_at j0 fs0 cs n (cs ! n) jf'"
  using assms(6)
proof (induction n)
  case 0
  have "\<exists>jf'. job_write z b (j0, fs0) = (Inr (), jf') \<and> receiver_at j0 fs0 cs 0 (block_data z b) jf'"
    if "fb_id b = tj_id j0" "fb_file_num b = of_nat 0" for b
    using that 0 assms(2-5) by (intro write_opens [where m = 0 and ?fs0.0 = fs0]) auto
  moreover have "0 < length (tj_files j0)" using 0 by linarith
  ultimately have "\<exists>jf'. write_all z (file_blocks z (tj_id s) 0 name (cs ! 0)) (j0, fs0) = Some jf' \<and>
      receiver_at j0 fs0 cs 0 (cs ! 0) jf'" for name
    using write_file [OF assms(1,2) _ assms(3,7)] by blast
  then show ?case by (simp add: blocks_upto_def)
next
  case (Suc n)
  then obtain jf1 where jf1: "write_all z (blocks_upto z s cs (Suc n)) (j0, fs0) = Some jf1"
      "receiver_at j0 fs0 cs n (cs ! n) jf1" by auto
  have n: "Suc n < length (tj_files j0)" using Suc.prems by simp
  obtain jf2 where "write_all z (file_blocks z (tj_id s) (Suc n) (fe_name (tj_files s ! Suc n)) (cs ! Suc n)) jf1
      = Some jf2" "receiver_at j0 fs0 cs (Suc n) (cs ! Suc n) jf2"
    using write_file [OF assms(1,2) n assms(3,7), of jf1 cs]
      write_next_file [OF jf1(2) assms(2) n assms(3) _ _ refl] by blast
  then show ?case
    using jf1(1) by (auto simp: blocks_upto_Suc [of z s cs "Suc n"] write_all_append)
qed

section \<open>Who may send what, when\<close>

text \<open>
  The events of a sending job: it is read (with the file system as it is then, and a read that
  fails or not), or the peer answers a digest.
\<close>

datatype read_event = ReadOnce file_system bool | Confirm i32 "(bool + u32) option"

fun read_step :: "zstd \<Rightarrow> transfer_job \<Rightarrow> read_event \<Rightarrow> transfer_job" where
  "read_step z j (ReadOnce fs failing) = fst (snd (job_read z failing fs j))"
| "read_step z j (Confirm n u) = job_confirm n u j"

definition accepts :: "i32 \<Rightarrow> read_event \<Rightarrow> bool" where
  "accepts n e = (case e of Confirm m (Some (Inl skip)) \<Rightarrow> m = n \<and> \<not> skip
                         | Confirm m (Some (Inr _)) \<Rightarrow> m = n | _ \<Rightarrow> False)"

lemma open_file_confirmed:
  "open_file j fs name = Inr j' \<Longrightarrow> tj_file_confirmed j' \<Longrightarrow> tj_file_confirmed j"
  "open_file j fs name = Inr j' \<Longrightarrow> tj_file_num j' = tj_file_num j"
  "open_file j fs name = Inr j' \<Longrightarrow>
     tj_enable_overwrite_detection j' = tj_enable_overwrite_detection j"
  by (auto simp: open_file_def Let_def split: option.splits if_splits)

lemma read_block_confirmed:
  "tj_file_confirmed (snd (read_block z failing j fs name)) \<Longrightarrow>
     tj_file_confirmed j \<and> tj_file_num (snd (read_block z failing j fs name)) = tj_file_num j"
  by (auto simp: read_block_def next_file_def Let_def split: option.splits if_splits)

lemma read_block_fields [simp]:
  "tj_enable_overwrite_detection (snd (read_block z failing j fs name)) = tj_enable_overwrite_detection j"
  by (auto simp: read_block_def next_file_def Let_def split: option.splits)

lemma read_block_num:
  "fst (read_block z failing j fs name) = Inr (Some b) \<Longrightarrow> fb_file_num b = tj_file_num j"
  by (auto simp: read_block_def Let_def split: option.splits if_splits)

text \<open>The ways a read ends once the file is open: it waits for the peer, or it reads a block.\<close>

lemma job_read_cases:
  assumes "job_read z failing fs j = (r, j', out)"
  obtains (none) "\<not> (\<exists>b. r = Inr (Some b))" "tj_file_confirmed j' \<Longrightarrow> tj_file_confirmed j \<and> tj_file_num j' = tj_file_num j"
    | (block) j1 name where "open_file j fs name = Inr j1"
      "\<not> (tj_enable_overwrite_detection j1 \<and> \<not> tj_file_confirmed j1)"
      "r = fst (read_block z failing j1 fs name)" "j' = snd (read_block z failing j1 fs name)"
proof (cases "length (tj_files j) \<le> as_usize (tj_file_num j)")
  case True
  then show thesis using assms none by (auto simp: job_read_def)
next
  case False
  let ?name = "fe_name (tj_files j ! as_usize (tj_file_num j))"
  show thesis
  proof (cases "open_file j fs ?name")
    case (Inl e)
    then show thesis using assms none False by (auto simp: job_read_def Let_def)
  next
    case (Inr j1)
    show thesis
    proof (cases "tj_enable_overwrite_detection j1 \<and> \<not> tj_file_confirmed j1")
      case True
      then show thesis using assms none False Inr
        by (auto simp: job_read_def Let_def set_file_is_waiting_def split: sum.splits if_splits)
    next
      case F: False
      then show thesis using assms block [OF Inr F] False Inr
        by (auto simp: job_read_def Let_def case_prod_beta')
    qed
  qed
qed

lemma job_read_confirmed:
  assumes "job_read z failing fs j = (r, j', out)" and "tj_file_confirmed j'"
  shows "tj_file_confirmed j \<and> tj_file_num j' = tj_file_num j"
  using assms(1)
proof (cases rule: job_read_cases)
  case (block j1 name)
  then show ?thesis
    using read_block_confirmed open_file_confirmed(1,2) [OF block(1)] assms(2) by metis
qed (use assms(2) in blast)

lemma job_read_block:
  assumes "job_read z failing fs j = (Inr (Some b), j', out)" and "tj_enable_overwrite_detection j"
  shows "tj_file_confirmed j \<and> fb_file_num b = tj_file_num j"
  using assms(1)
proof (cases rule: job_read_cases)
  case (block j1 name)
  then show ?thesis
    using read_block_num [of z failing j1 fs name b] open_file_confirmed [OF block(1)] assms(2) by metis
qed blast

lemma job_read_od:
  "tj_enable_overwrite_detection (fst (snd (job_read z failing fs j))) = tj_enable_overwrite_detection j"
  using open_file_confirmed(3)
  by (auto simp: job_read_def Let_def set_file_is_waiting_def split: sum.splits prod.splits)
    (metis read_block_fields snd_conv)+

lemma confirm_confirmed:
  "tj_file_confirmed (job_confirm n u j) \<Longrightarrow>
     tj_file_num (job_confirm n u j) = tj_file_num j \<and>
     (tj_file_confirmed j \<or> accepts (tj_file_num j) (Confirm n u))"
  by (auto simp: job_confirm_def set_file_skipped_def set_file_confirmed_def set_file_is_waiting_def
      accepts_def Let_def split: if_splits option.splits sum.splits bool.splits)

lemma confirm_od [simp]:
  "tj_enable_overwrite_detection (job_confirm n u j) = tj_enable_overwrite_detection j"
  by (auto simp: job_confirm_def set_file_skipped_def set_file_confirmed_def set_file_is_waiting_def
      Let_def split: option.splits sum.splits bool.splits)

lemma read_step_od [simp]:
  "tj_enable_overwrite_detection (read_step z j e) = tj_enable_overwrite_detection j"
  by (cases e) (simp_all add: job_read_od)

lemma confirmed_accepted:
  assumes "\<not> tj_file_confirmed j0" and "tj_file_confirmed (run (read_step z) j0 es)"
  shows "\<exists>e \<in> set es. accepts (tj_file_num (run (read_step z) j0 es)) e"
  using assms(2)
proof (induction es rule: rev_induct)
  case (snoc e es)
  let ?j = "run (read_step z) j0 es"
  show ?case
  proof (cases e)
    case (ReadOnce fs failing)
    obtain r j' out where jr: "job_read z failing fs ?j = (r, j', out)" by (cases "job_read z failing fs ?j")
    then have "tj_file_confirmed ?j" "tj_file_num j' = tj_file_num ?j"
      using job_read_confirmed [OF jr] snoc.prems ReadOnce by simp_all
    then show ?thesis using snoc.IH ReadOnce jr by auto
  next
    case (Confirm n u)
    then show ?thesis using confirm_confirmed [of n u ?j] snoc by auto
  qed
qed (use assms(1) in simp)

section \<open>Properties\<close>


definition demo_zstd :: zstd where
  "demo_zstd = \<lparr>zstd_compress = Some, zstd_decompress = (\<lambda>d n. if length d \<le> n then Some d else None)\<rparr>"

definition demo_fs :: file_system where
  "demo_fs = \<lparr>fs_files = [''/a/x'' \<mapsto> \<lparr>ff_content = [1, 2, 3], ff_mtime = 7\<rparr>], fs_denied = (\<lambda>_. False)\<rparr>"


text \<open>
  C33: No byte leaves before the peer agrees. A job with overwrite detection sends a block of a
  file only after the peer has confirmed that very file, by not skipping it or by an offset,
  whatever reads, errors and answers to other files came before.
\<close>

theorem no_block_unconfirmed:
  assumes "j0 = new_job i remote path file_num show_hidden is_remote files True"
    and "job_read z failing fs (run (read_step z) j0 es) = (Inr (Some b), j', out)"
  shows "\<exists>e \<in> set es. accepts (fb_file_num b) e"
proof -
  have "tj_enable_overwrite_detection (run (read_step z) j0 es)"
    by (induction es rule: rev_induct) (simp_all add: assms(1) new_job_def)
  then have "tj_file_confirmed (run (read_step z) j0 es)"
    "fb_file_num b = tj_file_num (run (read_step z) j0 es)"
    using job_read_block [OF assms(2)] by simp_all
  moreover have "\<not> tj_file_confirmed j0" by (simp add: assms(1) new_job_def)
  ultimately show ?thesis using confirmed_accepted by metis
qed

theorem no_block_unconfirmed_witness:
  "\<exists>e \<in> set [ReadOnce demo_fs False, Confirm 0 (Some (Inl False)), ReadOnce demo_fs False]. accepts 0 e"
proof -
  let ?j0 = "new_job 5 [] ''/a'' 0 False False [\<lparr>fe_name = ''x'', fe_size = 3, fe_modified_time = 7\<rparr>] True"
  let ?es = "[ReadOnce demo_fs False, Confirm 0 (Some (Inl False)), ReadOnce demo_fs False]"
  have u: "as_usize 0 = 0" using as_usize_of_nat [of 0] by simp
  have p: "job_join (j\<lparr>tj_file_confirmed := b\<rparr>) n = job_join j n" for j b n by (simp add: job_join_def)
  have "\<exists>j' out. job_read demo_zstd False demo_fs (run (read_step demo_zstd) ?j0 ?es)
      = (Inr (Some \<lparr>fb_id = 5, fb_file_num = 0, fb_data = [], fb_compressed = False\<rparr>), j', out)"
    by (simp add: job_read_def open_file_def current_digest_def read_block_def job_confirm_def
        set_file_confirmed_def set_file_is_waiting_def new_job_def u demo_fs_def job_join_def
        path_join_def BUF_SIZE_def is_compressed_file_def compress_def demo_zstd_def Let_def get_ext_def)
  then obtain j' out where "job_read demo_zstd False demo_fs (run (read_step demo_zstd) ?j0 ?es)
      = (Inr (Some \<lparr>fb_id = 5, fb_file_num = 0, fb_data = [], fb_compressed = False\<rparr>), j', out)"
    by blast
  from no_block_unconfirmed [OF refl this] show ?thesis by simp
qed

section \<open>Observations\<close>

text \<open>
  The name of a file comes from the peer and is joined to the directory as it is: an absolute
  name leaves the directory the user chose.
\<close>

lemma join_leaves_directory: "job_join j ''/etc/passwd'' = ''/etc/passwd''"
  by (simp add: job_join_def path_join_def)

text \<open>
  When zstd fails, \<open>compress\<close> returns nothing, nothing is shorter than the data, and the block
  goes out empty: the file arrives without its content and no error is reported.
\<close>

lemma compress_failure_loses_data:
  assumes "zstd_compress z d = None" and "d \<noteq> []" and "\<not> is_compressed_file name"
  shows "fb_data (chunk_block z i n name d) = [] \<and> fb_compressed (chunk_block z i n name d)"
  using assms by (simp add: chunk_block_def compress_def)

text \<open>
  The first block of a new receiving job runs \<open>modify_time\<close> for file 0 before that file is
  created: a \<open>.download\<close> file left by an earlier, broken transfer takes the place of the file.
\<close>

lemma stale_download_promoted:
  assumes "fs_files fs ''/b/x'' = Some good" and "fs_files fs ''/b/x.download'' = Some stale"
    and "\<not> fs_denied fs ''/b/x.download''"
    and "j = new_write 5 [] ''/b'' 0 False False [\<lparr>fe_name = ''x'', fe_size = 3, fe_modified_time = 7\<rparr>] False"
  shows "\<exists>j' fs'. job_write z (end_block 5 0) (j, fs) = (Inr (), j', fs') \<and>
    has_content fs' ''/b/x'' (ff_content stale)"
proof -
  have u: "as_usize 0 = 0" using as_usize_of_nat [of 0] by simp
  show ?thesis using assms
    by (simp add: job_write_def new_write_def new_job_def end_block_def u modify_time_def job_join_def
        path_join_def download_path_def fs_rename_def fs_set_mtime_def fs_create_def fs_append_def
        has_content_def Let_def)
qed

lemma remove_job_spec: "get_job i (remove_job i jobs) = None"
  by (simp add: get_job_def remove_job_def find_None_iff)

lemma skip_resets_waiting: "job_completed (set_file_skipped j)"
  by (simp add: job_completed_def set_file_skipped_def set_file_is_waiting_def set_file_confirmed_def Let_def)

end
