(* ===== verification/Clipboard_File.thy ===== *)
theory Clipboard_File
  imports Messages
begin

text \<open>
  The clipboard for files (\<open>libs/clipboard/src/lib.rs\<close>, \<open>src/clipboard_file.rs\<close>,
  \<open>libs/clipboard/src/context_send.rs\<close>): its messages and their protobuf form, which of them may be
  dropped, and the registry of channels through which a message finds its connection. The
  context of the operating system is a parameter; a channel is a queue.
\<close>

section \<open>Messages\<close>

datatype clipboard_file =
    NotifyCallback string string string    \<comment> \<open>type, title, text\<close>
  | MonitorReady
  | FormatList "(i32 \<times> string) list"
  | FormatListResponse i32
  | FormatDataRequest i32
  | FormatDataResponse i32 bytes
  | FileContentsRequest i32 i32 i32 i32 i32 i32 bool i32
      \<comment> \<open>stream, list index, flags, position low and high, bytes requested, clip data id or none\<close>
  | FileContentsResponse i32 i32 bytes

definition is_stopping_allowed :: "clipboard_file \<Rightarrow> bool" where
  "is_stopping_allowed c =
     (case c of MonitorReady \<Rightarrow> True | FormatList _ \<Rightarrow> True | FormatDataRequest _ \<Rightarrow> True | _ \<Rightarrow> False)"

definition is_stopping_allowed_from_peer :: "clipboard_file \<Rightarrow> bool" where
  "is_stopping_allowed_from_peer c = (case c of MonitorReady \<Rightarrow> True | FormatList _ \<Rightarrow> True | _ \<Rightarrow> False)"

definition clip_2_msg :: "clipboard_file \<Rightarrow> message" where
  "clip_2_msg clip =
     (case clip of
        NotifyCallback ty title text \<Rightarrow> MsgMessageBox ty title text []
      | MonitorReady \<Rightarrow> MsgCliprdr (Some CuReady)
      | FormatList format_list \<Rightarrow>
          MsgCliprdr (Some (CuFormatList (map (\<lambda>v. \<lparr>cf_format_id = fst v, cf_format = snd v\<rparr>) format_list)))
      | FormatListResponse msg_flags \<Rightarrow> MsgCliprdr (Some (CuFormatListResponse msg_flags))
      | FormatDataRequest i \<Rightarrow> MsgCliprdr (Some (CuFormatDataRequest i))
      | FormatDataResponse msg_flags format_data \<Rightarrow>
          MsgCliprdr (Some (CuFormatDataResponse msg_flags format_data))
      | FileContentsRequest stream list_index flags low high requested have_id clip_id \<Rightarrow>
          MsgCliprdr (Some (CuFileContentsRequest stream list_index flags low high requested have_id clip_id))
      | FileContentsResponse msg_flags stream requested_data \<Rightarrow>
          MsgCliprdr (Some (CuFileContentsResponse msg_flags stream requested_data)))"

definition msg_2_clip :: "cliprdr_union option \<Rightarrow> clipboard_file option" where
  "msg_2_clip msg =
     (case msg of
        Some CuReady \<Rightarrow> Some MonitorReady
      | Some (CuFormatList formats) \<Rightarrow> Some (FormatList (map (\<lambda>v. (cf_format_id v, cf_format v)) formats))
      | Some (CuFormatListResponse msg_flags) \<Rightarrow> Some (FormatListResponse msg_flags)
      | Some (CuFormatDataRequest i) \<Rightarrow> Some (FormatDataRequest i)
      | Some (CuFormatDataResponse msg_flags format_data) \<Rightarrow> Some (FormatDataResponse msg_flags format_data)
      | Some (CuFileContentsRequest stream list_index flags low high requested have_id clip_id) \<Rightarrow>
          Some (FileContentsRequest stream list_index flags low high requested have_id clip_id)
      | Some (CuFileContentsResponse msg_flags stream requested_data) \<Rightarrow>
          Some (FileContentsResponse msg_flags stream requested_data)
      | None \<Rightarrow> None)"

section \<open>Channels\<close>

record msg_channel =
  ch_peer_id :: string
  ch_conn_id :: i32
  ch_queue :: "clipboard_file list"

record clip_registry =
  cr_channels :: "msg_channel list"
  cr_counter :: i32

definition get_client_conn_id :: "string \<Rightarrow> clip_registry \<Rightarrow> i32 option" where
  "get_client_conn_id peer_id r =
     map_option ch_conn_id (find (\<lambda>x. ch_peer_id x = peer_id) (cr_channels r))"

definition get_conn_id :: "clip_registry \<Rightarrow> i32 \<times> clip_registry" where
  "get_conn_id r = (cr_counter r + 1, r\<lparr>cr_counter := cr_counter r + 1\<rparr>)"

definition push_channel :: "string \<Rightarrow> i32 \<Rightarrow> clip_registry \<Rightarrow> clip_registry" where
  "push_channel peer_id conn_id r =
     r\<lparr>cr_channels := cr_channels r @ [\<lparr>ch_peer_id = peer_id, ch_conn_id = conn_id, ch_queue = []\<rparr>]\<rparr>"

text \<open>The receivers are shared, so the result names the channel by its position.\<close>

definition channel_index :: "(msg_channel \<Rightarrow> bool) \<Rightarrow> clip_registry \<Rightarrow> nat" where
  "channel_index P r = length (takeWhile (\<lambda>x. \<not> P x) (cr_channels r))"

definition get_rx_cliprdr_client :: "string \<Rightarrow> clip_registry \<Rightarrow> (i32 \<times> nat) \<times> clip_registry" where
  "get_rx_cliprdr_client peer_id r =
     (case find (\<lambda>x. ch_peer_id x = peer_id) (cr_channels r) of
        Some ch \<Rightarrow> ((ch_conn_id ch, channel_index (\<lambda>x. ch_peer_id x = peer_id) r), r)
      | None \<Rightarrow>
          (let (conn_id, r) = get_conn_id r
           in ((conn_id, length (cr_channels r)), push_channel peer_id conn_id r)))"

definition get_rx_cliprdr_server :: "i32 \<Rightarrow> clip_registry \<Rightarrow> nat \<times> clip_registry" where
  "get_rx_cliprdr_server conn_id r =
     (case find (\<lambda>x. ch_conn_id x = conn_id) (cr_channels r) of
        Some ch \<Rightarrow> (channel_index (\<lambda>x. ch_conn_id x = conn_id) r, r)
      | None \<Rightarrow> (length (cr_channels r), push_channel [] conn_id r))"

definition enqueue :: "clipboard_file \<Rightarrow> msg_channel \<Rightarrow> msg_channel" where
  "enqueue data ch = ch\<lparr>ch_queue := ch_queue ch @ [data]\<rparr>"

text \<open>The first channel with the id gets the message.\<close>

fun send_first :: "i32 \<Rightarrow> clipboard_file \<Rightarrow> msg_channel list \<Rightarrow> msg_channel list" where
  "send_first conn_id data [] = []"
| "send_first conn_id data (ch # chs) =
     (if ch_conn_id ch = conn_id then enqueue data ch # chs else ch # send_first conn_id data chs)"

definition send_data_to_channel :: "i32 \<Rightarrow> clipboard_file \<Rightarrow> clip_registry \<Rightarrow> clip_registry" where
  "send_data_to_channel conn_id data r = r\<lparr>cr_channels := send_first conn_id data (cr_channels r)\<rparr>"

definition send_data_to_all :: "clipboard_file \<Rightarrow> clip_registry \<Rightarrow> clip_registry" where
  "send_data_to_all data r = r\<lparr>cr_channels := map (enqueue data) (cr_channels r)\<rparr>"

definition send_data :: "i32 \<Rightarrow> clipboard_file \<Rightarrow> clip_registry \<Rightarrow> clip_registry" where
  "send_data conn_id data r =
     (if conn_id = 0 then send_data_to_all data r else send_data_to_channel conn_id data r)"

section \<open>The context\<close>

text \<open>\<open>ContextSend\<close>: the context of the system, if there is one; what is asked of it is recorded.\<close>

datatype context_call =
    SetIsStopped
  | EmptyClipboard i32
  | ServerClipFile i32 clipboard_file

record context_send =
  cx_enabled :: bool
  cx_calls :: "context_call list"

definition context_enable :: "bool \<Rightarrow> bool \<Rightarrow> context_send \<Rightarrow> context_send" where
  "context_enable created enabled cx =
     (if enabled then (if cx_enabled cx then cx else if created then cx\<lparr>cx_enabled := True\<rparr> else cx)
      else cx\<lparr>cx_enabled := False\<rparr>)"

definition make_sure_enabled :: "bool \<Rightarrow> context_send \<Rightarrow> bool \<times> context_send" where
  "make_sure_enabled created cx =
     (if cx_enabled cx then (True, cx)
      else if created then (True, cx\<lparr>cx_enabled := True\<rparr>) else (False, cx))"

definition context_proc :: "context_call \<Rightarrow> context_send \<Rightarrow> context_send" where
  "context_proc call cx = (if cx_enabled cx then cx\<lparr>cx_calls := cx_calls cx @ [call]\<rparr> else cx)"

section \<open>Facts\<close>

text \<open>A message of the clipboard survives its protobuf form; only the notification of the user has
  none of its own.\<close>

lemma msg_2_clip_2_msg:
  "clip_2_msg c = MsgCliprdr u \<Longrightarrow> msg_2_clip u = Some c"
  by (cases c) (auto simp: clip_2_msg_def msg_2_clip_def comp_def)

lemma formats_back: "map (\<lambda>v. \<lparr>cf_format_id = cf_format_id v, cf_format = cf_format v\<rparr>) fs = fs"
  by (induction fs) simp_all

lemma clip_2_msg_2_clip: "msg_2_clip u = Some c \<Longrightarrow> clip_2_msg c = MsgCliprdr u"
  by (auto simp: clip_2_msg_def msg_2_clip_def comp_def formats_back split: option.splits cliprdr_union.splits)

text \<open>The registry of a process that only opens channels as a client: ids count up from 1, one for
  every peer.\<close>

definition client_registry :: "clip_registry \<Rightarrow> bool" where
  "client_registry r \<longleftrightarrow>
     map ch_conn_id (cr_channels r) = map of_nat [1..<Suc (length (cr_channels r))] \<and>
     cr_counter r = of_nat (length (cr_channels r)) \<and> distinct (map ch_peer_id (cr_channels r))"

lemma client_registry_open:
  assumes "client_registry r"
  shows "client_registry (snd (get_rx_cliprdr_client peer_id r))"
  using assms
  by (auto simp: client_registry_def get_rx_cliprdr_client_def get_conn_id_def push_channel_def find_None_iff
      split: option.split)

lemma find_snoc: "find P (xs @ [x]) = (case find P xs of Some y \<Rightarrow> Some y | None \<Rightarrow> if P x then Some x else None)"
  by (induction xs) simp_all

lemma client_opened:
  "get_client_conn_id peer_id (snd (get_rx_cliprdr_client peer_id r)) =
     Some (fst (fst (get_rx_cliprdr_client peer_id r)))"
  by (simp add: get_client_conn_id_def get_rx_cliprdr_client_def get_conn_id_def push_channel_def find_snoc
      split: option.split)

lemma map_send_first:
  "map ch_conn_id (send_first i d chs) = map ch_conn_id chs"
  "map ch_peer_id (send_first i d chs) = map ch_peer_id chs"
  by (induction chs) (simp_all add: enqueue_def)

lemma client_registry_send: "client_registry r \<Longrightarrow> client_registry (send_data i d r)"
proof -
  have "ch_conn_id \<circ> enqueue d = ch_conn_id" "ch_peer_id \<circ> enqueue d = ch_peer_id"
    by (auto simp: enqueue_def)
  moreover have "length (send_first i d chs) = length chs" for chs
    using map_send_first(1) map_eq_imp_length_eq by blast
  ultimately show "client_registry r \<Longrightarrow> client_registry (send_data i d r)"
    by (simp add: client_registry_def send_data_def send_data_to_all_def send_data_to_channel_def map_send_first del: upt_Suc)
qed

end
