(* ===== verification/Privacy_Mode.thy ===== *)
theory Privacy_Mode
  imports Messages
begin

text \<open>
  Privacy mode (\<open>src/privacy_mode.rs\<close>): the process-wide implementation in use, who turned it on,
  and the operations on it. An implementation of the trait \<open>PrivacyMode\<close> is a record of its
  methods, over its current connection id; which ones there are, the option and the default
  come from the platform (\<open>privacy_env\<close>; outside Windows there is none). The methods of the
  topmost window implementation (\<open>src/privacy_mode/win_topmost_window.rs\<close>) are here too, over
  the outcome of its calls to the system.
\<close>

section \<open>State\<close>

definition INVALID_PRIVACY_MODE_CONN_ID :: i32 where "INVALID_PRIVACY_MODE_CONN_ID = 0"

definition OCCUPIED :: string where "OCCUPIED = ''Privacy occupied by another one.''"

definition TURN_OFF_OTHER_ID :: string where
  "TURN_OFF_OTHER_ID = ''Failed to turn off privacy mode that belongs to someone else.''"

datatype off_state = OffSucceeded | OffByPeer | OffUnknown

record privacy_impl =
  im_async :: bool
  im_turn_on :: "i32 \<Rightarrow> i32 \<Rightarrow> (string + bool) \<times> i32"   \<comment> \<open>requesting connection, current one\<close>
  im_turn_off :: "i32 \<Rightarrow> off_state option \<Rightarrow> i32 \<Rightarrow> (string + unit) \<times> i32"
  im_clear :: "i32 \<Rightarrow> i32"

record privacy_mode =
  pm_key :: string
  pm_conn :: i32      \<comment> \<open>\<open>pre_conn_id\<close>\<close>

record privacy_env =
  pe_impls :: "string \<Rightarrow> privacy_impl option"  \<comment> \<open>\<open>PRIVACY_MODE_CREATOR\<close>\<close>
  pe_supported :: "string list"                 \<comment> \<open>\<open>get_supported_privacy_mode_impl\<close>\<close>
  pe_default :: string
  pe_option :: string                           \<comment> \<open>option \<open>privacy-mode-impl-key\<close>\<close>

definition privacy_new :: "string \<Rightarrow> privacy_mode" where
  "privacy_new key = \<lparr>pm_key = key, pm_conn = INVALID_PRIVACY_MODE_CONN_ID\<rparr>"

section \<open>The default methods of the trait\<close>

definition check_on_conn_id :: "i32 \<Rightarrow> i32 \<Rightarrow> string + bool" where
  "check_on_conn_id conn_id pre_conn_id =
     (if pre_conn_id = conn_id then Inr True
      else if pre_conn_id \<noteq> INVALID_PRIVACY_MODE_CONN_ID then Inl OCCUPIED
      else Inr False)"

definition check_off_conn_id :: "i32 \<Rightarrow> i32 \<Rightarrow> string + unit" where
  "check_off_conn_id conn_id pre_conn_id =
     (if pre_conn_id \<noteq> INVALID_PRIVACY_MODE_CONN_ID \<and> conn_id \<noteq> INVALID_PRIVACY_MODE_CONN_ID \<and>
         pre_conn_id \<noteq> conn_id
      then Inl TURN_OFF_OTHER_ID else Inr ())"

section \<open>Operations\<close>

definition cur_option_key :: "privacy_env \<Rightarrow> string" where
  "cur_option_key e = (if pe_option e \<in> set (pe_supported e) then pe_option e else pe_default e)"

definition privacy_init :: "privacy_env \<Rightarrow> privacy_mode option" where
  "privacy_init e =
     (case pe_impls e (cur_option_key e) of
        Some _ \<Rightarrow> Some (privacy_new (cur_option_key e)) | None \<Rightarrow> None)"

definition privacy_switch :: "privacy_env \<Rightarrow> string \<Rightarrow> privacy_mode option \<Rightarrow> privacy_mode option" where
  "privacy_switch e key p =
     (if map_option pm_key p = Some key then p
      else case pe_impls e key of Some _ \<Rightarrow> Some (privacy_new key) | None \<Rightarrow> p)"

definition get_supported_impl :: "privacy_env \<Rightarrow> string \<Rightarrow> string" where
  "get_supported_impl e key = (if key \<in> set (pe_supported e) then key else cur_option_key e)"

definition pm_clear :: "privacy_env \<Rightarrow> privacy_mode \<Rightarrow> privacy_mode" where
  "pm_clear e pm =
     (case pe_impls e (pm_key pm) of
        Some i \<Rightarrow> pm\<lparr>pm_conn := im_clear i (pm_conn pm)\<rparr> | None \<Rightarrow> pm)"

text \<open>The method \<open>turn_on_privacy\<close> of the implementation in use.\<close>

definition pm_turn_on :: "privacy_env \<Rightarrow> i32 \<Rightarrow> privacy_mode \<Rightarrow> (string + bool) option \<times> privacy_mode option" where
  "pm_turn_on e conn_id pm =
     (case pe_impls e (pm_key pm) of
        None \<Rightarrow> (None, Some pm)
      | Some i \<Rightarrow> (let (res, conn) = im_turn_on i conn_id (pm_conn pm)
                  in (Some res, Some (pm\<lparr>pm_conn := conn\<rparr>))))"

definition turn_on_privacy_sync ::
    "privacy_env \<Rightarrow> string \<Rightarrow> i32 \<Rightarrow> privacy_mode option \<Rightarrow> (string + bool) option \<times> privacy_mode option" where
  "turn_on_privacy_sync e key conn_id p =
     (let key = get_supported_impl e key;
          cur_key = (case p of Some pm \<Rightarrow> pm_key pm | None \<Rightarrow> []);
          check = (case p of Some pm \<Rightarrow> check_on_conn_id conn_id (pm_conn pm) | None \<Rightarrow> Inr False);
          go = (\<lambda>p. case p of None \<Rightarrow> (None, None) | Some pm \<Rightarrow> pm_turn_on e conn_id pm)
      in case check of
           Inl err \<Rightarrow> (Some (Inl err), p)
         | Inr same \<Rightarrow>
             if same \<and> cur_key = key then (Some (Inr True), p)
             else if cur_key \<noteq> key then
               (case pe_impls e key of
                  Some _ \<Rightarrow> go (Some (privacy_new key))
                | None \<Rightarrow> (Some (Inl (''Unsupported privacy mode: '' @ key)), p))
             else go p)"

text \<open>An asynchronous implementation runs in a thread of its own, with a timeout that the
  argument \<open>timed_out\<close> decides: the work goes on, the caller sees an error.\<close>

definition turn_on_privacy ::
    "privacy_env \<Rightarrow> bool \<Rightarrow> string \<Rightarrow> i32 \<Rightarrow> privacy_mode option
     \<Rightarrow> (string + bool) option \<times> privacy_mode option" where
  "turn_on_privacy e timed_out key conn_id p =
     (let is_async = (case p of None \<Rightarrow> False
                      | Some pm \<Rightarrow> (case pe_impls e (pm_key pm) of Some i \<Rightarrow> im_async i | None \<Rightarrow> False));
          (res, p) = turn_on_privacy_sync e key conn_id p
      in (if is_async \<and> timed_out then Some (Inl ''deadline has elapsed'') else res, p))"

definition turn_off_privacy ::
    "privacy_env \<Rightarrow> i32 \<Rightarrow> off_state option \<Rightarrow> privacy_mode option
     \<Rightarrow> (string + unit) option \<times> privacy_mode option" where
  "turn_off_privacy e conn_id state p =
     (case p of
        None \<Rightarrow> (None, None)
      | Some pm \<Rightarrow>
          (case pe_impls e (pm_key pm) of
             None \<Rightarrow> (None, p)
           | Some i \<Rightarrow> (let (res, conn) = im_turn_off i conn_id state (pm_conn pm)
                       in (Some res, Some (pm\<lparr>pm_conn := conn\<rparr>)))))"

definition get_cur_impl_key :: "privacy_mode option \<Rightarrow> string option" where
  "get_cur_impl_key p = map_option pm_key p"

definition is_current_privacy_mode_impl :: "string \<Rightarrow> privacy_mode option \<Rightarrow> bool" where
  "is_current_privacy_mode_impl key p = (map_option pm_key p = Some key)"

definition is_privacy_mode_supported :: "privacy_env \<Rightarrow> bool" where
  "is_privacy_mode_supported e = (pe_default e \<noteq> [])"

definition get_privacy_mode_conn_id :: "privacy_mode option \<Rightarrow> i32 option" where
  "get_privacy_mode_conn_id p = map_option pm_conn p"

definition is_in_privacy_mode :: "privacy_mode option \<Rightarrow> bool" where
  "is_in_privacy_mode p =
     (case p of Some pm \<Rightarrow> pm_conn pm \<noteq> INVALID_PRIVACY_MODE_CONN_ID | None \<Rightarrow> False)"

section \<open>The topmost window implementation\<close>

text \<open>
  \<open>turn_on_privacy\<close> and \<open>turn_off_privacy\<close> of \<open>win_topmost_window.rs\<close>. \<open>outcome\<close> is what the
  calls to the system came to: an error, a missing library (\<open>Inr False\<close>), or success.
\<close>

definition topmost_turn_on :: "string + bool \<Rightarrow> i32 \<Rightarrow> i32 \<Rightarrow> (string + bool) \<times> i32" where
  "topmost_turn_on outcome conn_id cur =
     (case check_on_conn_id conn_id cur of
        Inl err \<Rightarrow> (Inl err, cur)
      | Inr True \<Rightarrow> (Inr True, cur)
      | Inr False \<Rightarrow>
          (case outcome of
             Inl err \<Rightarrow> (Inl err, cur)
           | Inr False \<Rightarrow> (Inr False, cur)
           | Inr True \<Rightarrow> (Inr True, conn_id)))"

definition topmost_turn_off :: "string + unit \<Rightarrow> i32 \<Rightarrow> off_state option \<Rightarrow> i32 \<Rightarrow> (string + unit) \<times> i32" where
  "topmost_turn_off outcome conn_id state cur =
     (case check_off_conn_id conn_id cur of
        Inl err \<Rightarrow> (Inl err, cur)
      | Inr _ \<Rightarrow>
          (case outcome of
             Inl err \<Rightarrow> (Inl err, cur)
           | Inr _ \<Rightarrow> (Inr (), INVALID_PRIVACY_MODE_CONN_ID)))"

definition topmost_impl :: "string + bool \<Rightarrow> string + unit \<Rightarrow> privacy_impl" where
  "topmost_impl on off =
     \<lparr>im_async = False, im_turn_on = topmost_turn_on on, im_turn_off = topmost_turn_off off,
      im_clear = (\<lambda>cur. snd (topmost_turn_off off cur None cur))\<rparr>"

section \<open>The contract of an implementation\<close>

text \<open>
  What the module relies on: turning on makes the caller the owner or changes nothing,
  turning off frees the mode or changes nothing, and neither touches the mode of another
  connection.
\<close>

locale privacy_provider =
  fixes turn_on :: "i32 \<Rightarrow> i32 \<Rightarrow> (string + bool) \<times> i32"
    and turn_off :: "i32 \<Rightarrow> off_state option \<Rightarrow> i32 \<Rightarrow> (string + unit) \<times> i32"
  assumes on_result: "snd (turn_on c cur) = c \<or> snd (turn_on c cur) = cur"
    and on_ok: "fst (turn_on c cur) = Inr True \<Longrightarrow> snd (turn_on c cur) = c"
    and on_other: "cur \<noteq> 0 \<Longrightarrow> cur \<noteq> c \<Longrightarrow> snd (turn_on c cur) = cur \<and> (\<exists>e. fst (turn_on c cur) = Inl e)"
    and off_result: "snd (turn_off c st cur) = 0 \<or> snd (turn_off c st cur) = cur"
    and off_ok: "fst (turn_off c st cur) = Inr () \<Longrightarrow> snd (turn_off c st cur) = 0"
    and off_other: "cur \<noteq> 0 \<Longrightarrow> c \<noteq> 0 \<Longrightarrow> cur \<noteq> c \<Longrightarrow>
      snd (turn_off c st cur) = cur \<and> (\<exists>e. fst (turn_off c st cur) = Inl e)"
begin

lemma on_off: "c \<noteq> 0 \<Longrightarrow> fst (turn_on c 0) = Inr True \<Longrightarrow> fst (turn_off c st c) = Inr ()
    \<Longrightarrow> snd (turn_off c st (snd (turn_on c 0))) = 0"
  using on_ok [of c 0] off_ok [of c st c] by simp

lemma owner_stays:
  "cur \<noteq> 0 \<Longrightarrow> c \<noteq> 0 \<Longrightarrow> c \<noteq> cur \<Longrightarrow> snd (turn_on c cur) = cur \<and> snd (turn_off c st cur) = cur"
  using on_other [of cur c] off_other [of cur c st] by simp

end

lemma topmost_turn_on_cases:
  "topmost_turn_on on c cur =
     (if cur = c then (Inr True, cur) else if cur \<noteq> 0 then (Inl OCCUPIED, cur)
      else if on = Inr True then (Inr True, c) else (on, cur))"
  by (cases on; simp add: topmost_turn_on_def check_on_conn_id_def INVALID_PRIVACY_MODE_CONN_ID_def
      split: bool.split)

lemma topmost_turn_off_cases:
  "topmost_turn_off off c st cur =
     (if cur \<noteq> 0 \<and> c \<noteq> 0 \<and> cur \<noteq> c then (Inl TURN_OFF_OTHER_ID, cur)
      else if off = Inr () then (Inr (), 0) else (off, cur))"
  by (cases off; simp add: topmost_turn_off_def check_off_conn_id_def INVALID_PRIVACY_MODE_CONN_ID_def)

interpretation topmost: privacy_provider "topmost_turn_on on" "topmost_turn_off off"
proof unfold_locales
  show "fst (topmost_turn_on on c cur) = Inr True \<Longrightarrow> snd (topmost_turn_on on c cur) = c" for c cur
    by (cases "on = Inr True") (simp_all add: topmost_turn_on_cases split: if_splits)
  show "fst (topmost_turn_off off c st cur) = Inr () \<Longrightarrow> snd (topmost_turn_off off c st cur) = 0" for c cur st
    by (cases "off = Inr ()") (simp_all add: topmost_turn_off_cases split: if_splits)
qed (simp_all add: topmost_turn_on_cases topmost_turn_off_cases)

definition provider_ok :: "privacy_env \<Rightarrow> bool" where
  "provider_ok e \<longleftrightarrow>
     (\<forall>k i. pe_impls e k = Some i \<longrightarrow> privacy_provider (im_turn_on i) (im_turn_off i))"

section \<open>The owner of privacy mode\<close>

lemma turn_on_sync_other:
  assumes "p = Some pm" and "pm_conn pm \<noteq> 0" and "pm_conn pm \<noteq> c"
  shows "turn_on_privacy_sync e key c p = (Some (Inl OCCUPIED), p)"
  using assms by (simp add: turn_on_privacy_sync_def check_on_conn_id_def
      INVALID_PRIVACY_MODE_CONN_ID_def Let_def)

lemma turn_off_other:
  assumes "provider_ok e" and "p = Some pm" and "pm_conn pm \<noteq> 0" and "c \<noteq> 0" and "pm_conn pm \<noteq> c"
  shows "snd (turn_off_privacy e c st p) = p \<and> (\<forall>u. fst (turn_off_privacy e c st p) \<noteq> Some (Inr u))"
proof (cases "pe_impls e (pm_key pm)")
  case (Some i)
  then have "privacy_provider (im_turn_on i) (im_turn_off i)"
    using assms(1) by (auto simp: provider_ok_def)
  from privacy_provider.off_other [OF this assms(3,4,5), of st] show ?thesis
    using assms(2) Some
    by (auto simp: turn_off_privacy_def split: prod.splits)
qed (use assms in \<open>simp add: turn_off_privacy_def\<close>)

text \<open>What other connections do while one owns the mode.\<close>

datatype privacy_event = TurnOn bool string i32 | TurnOff i32 "off_state option"

fun privacy_step :: "privacy_env \<Rightarrow> privacy_mode option \<Rightarrow> privacy_event \<Rightarrow> privacy_mode option" where
  "privacy_step e p (TurnOn timed_out key c) = snd (turn_on_privacy e timed_out key c p)"
| "privacy_step e p (TurnOff c st) = snd (turn_off_privacy e c st p)"

fun event_conn :: "privacy_event \<Rightarrow> i32" where
  "event_conn (TurnOn _ _ c) = c"
| "event_conn (TurnOff c _) = c"

lemma turn_on_privacy_state [simp]:
  "snd (turn_on_privacy e timed_out key c p) = snd (turn_on_privacy_sync e key c p)"
  by (simp add: turn_on_privacy_def Let_def split_def)

interpretation privacy: machine "privacy_step e" "\<lambda>_. True"
  by unfold_locales simp

text \<open>While a connection owns privacy mode, nothing other connections do, turning it on with
  any implementation or turning it off, takes it from the owner or changes the implementation.\<close>

theorem privacy_owner_keeps:
  assumes "provider_ok e" and "p = Some pm" and "pm_conn pm \<noteq> INVALID_PRIVACY_MODE_CONN_ID"
    and "\<forall>ev \<in> set evs. event_conn ev \<noteq> INVALID_PRIVACY_MODE_CONN_ID \<and> event_conn ev \<noteq> pm_conn pm"
  shows "run (privacy_step e) p evs = Some pm"
proof (rule privacy.run_preserves [where P = "\<lambda>q. q = Some pm"])
  fix s ev assume s: "s = Some pm" and ev: "ev \<in> set evs"
  show "privacy_step e s ev = Some pm"
    using assms(3,4) ev s turn_off_other [OF assms(1) refl, of pm]
    by (cases ev) (auto simp: turn_on_sync_other INVALID_PRIVACY_MODE_CONN_ID_def)
qed (simp_all add: assms(2))

definition demo_privacy_env :: privacy_env where
  "demo_privacy_env =
     \<lparr>pe_impls = (\<lambda>k. if k = ''mag'' then Some (topmost_impl (Inr True) (Inr ())) else None),
      pe_supported = [''mag''], pe_default = ''mag'', pe_option = []\<rparr>"

lemma demo_provider_ok: "provider_ok demo_privacy_env"
  by (auto simp: provider_ok_def demo_privacy_env_def topmost_impl_def topmost.privacy_provider_axioms
      split: if_splits)

theorem privacy_owner_keeps_witness:
  "run (privacy_step demo_privacy_env) (Some \<lparr>pm_key = ''mag'', pm_conn = 5\<rparr>)
     [TurnOn False ''mag'' 6, TurnOff 7 None] = Some \<lparr>pm_key = ''mag'', pm_conn = 5\<rparr>"
  by (rule privacy_owner_keeps [OF demo_provider_ok refl])
    (simp_all add: INVALID_PRIVACY_MODE_CONN_ID_def)

lemma pm_turn_on_ok:
  assumes "provider_ok e" and "pm_turn_on e c pm = (Some (Inr True), p')"
  shows "map_option pm_conn p' = Some c"
proof -
  obtain i where i: "pe_impls e (pm_key pm) = Some i"
    using assms(2) by (cases "pe_impls e (pm_key pm)") (auto simp: pm_turn_on_def)
  then have "privacy_provider (im_turn_on i) (im_turn_off i)"
    using assms(1) by (auto simp: provider_ok_def)
  from privacy_provider.on_ok [OF this, of c "pm_conn pm"] show ?thesis
    using assms(2) i by (auto simp: pm_turn_on_def split: prod.splits)
qed

text \<open>When \<open>turn_on_privacy\<close> answers yes, the asking connection owns privacy mode, and a
  later successful \<open>turn_off_privacy\<close> of the same connection frees it.\<close>

theorem privacy_turn_on_sound:
  assumes "provider_ok e" and "turn_on_privacy e timed_out key c p = (Some (Inr True), p')"
  shows "get_privacy_mode_conn_id p' = Some c \<and>
    (\<forall>st p''. turn_off_privacy e c st p' = (Some (Inr ()), p'') \<longrightarrow> \<not> is_in_privacy_mode p'')"
proof
  have sync: "turn_on_privacy_sync e key c p = (Some (Inr True), p')"
    using assms(2) by (auto simp: turn_on_privacy_def Let_def split: prod.splits if_splits)
  show own: "get_privacy_mode_conn_id p' = Some c"
  proof (cases p)
    case None
    then show ?thesis
      using sync pm_turn_on_ok [OF assms(1)]
      by (auto simp: turn_on_privacy_sync_def Let_def get_privacy_mode_conn_id_def
          split: if_splits option.splits)
  next
    case (Some pm)
    then show ?thesis
      using sync pm_turn_on_ok [OF assms(1)]
      by (auto simp: turn_on_privacy_sync_def Let_def get_privacy_mode_conn_id_def check_on_conn_id_def
          split: if_splits option.splits sum.splits)
  qed
  show "\<forall>st p''. turn_off_privacy e c st p' = (Some (Inr ()), p'') \<longrightarrow> \<not> is_in_privacy_mode p''"
  proof (intro allI impI)
    fix st p'' assume off: "turn_off_privacy e c st p' = (Some (Inr ()), p'')"
    obtain pm i where pm: "p' = Some pm" "pe_impls e (pm_key pm) = Some i"
      using off by (auto simp: turn_off_privacy_def split: option.splits)
    then have "privacy_provider (im_turn_on i) (im_turn_off i)"
      using assms(1) by (auto simp: provider_ok_def)
    from privacy_provider.off_ok [OF this, of c st "pm_conn pm"] show "\<not> is_in_privacy_mode p''"
      using off pm
      by (auto simp: turn_off_privacy_def is_in_privacy_mode_def INVALID_PRIVACY_MODE_CONN_ID_def
          split: prod.splits)
  qed
qed

theorem privacy_turn_on_sound_witness:
  "get_privacy_mode_conn_id (Some \<lparr>pm_key = ''mag'', pm_conn = 6\<rparr>) = Some 6 \<and>
   \<not> is_in_privacy_mode (Some \<lparr>pm_key = ''mag'', pm_conn = 0\<rparr>)"
proof -
  have on: "turn_on_privacy demo_privacy_env False ''mag'' 6 None
      = (Some (Inr True), Some \<lparr>pm_key = ''mag'', pm_conn = 6\<rparr>)"
    by (simp add: turn_on_privacy_def turn_on_privacy_sync_def get_supported_impl_def
        demo_privacy_env_def pm_turn_on_def topmost_impl_def topmost_turn_on_cases privacy_new_def
        INVALID_PRIVACY_MODE_CONN_ID_def Let_def)
  have off: "turn_off_privacy demo_privacy_env 6 None (Some \<lparr>pm_key = ''mag'', pm_conn = 6\<rparr>)
      = (Some (Inr ()), Some \<lparr>pm_key = ''mag'', pm_conn = 0\<rparr>)"
    by (simp add: turn_off_privacy_def demo_privacy_env_def topmost_impl_def topmost_turn_off_cases)
  show ?thesis using privacy_turn_on_sound [OF demo_provider_ok on] off by blast
qed

end
