(* ===== verification/Conn_State.thy ===== *)
theory Conn_State
  imports Clipboard_File Server Password_Security Video_QoS Codec_Negotiation Transfer_Job Privacy_Mode
begin

text \<open>
  A connection of the controlled side (\<open>src/server/connection.rs\<close>): the statics all connections
  share, the fields of \<open>Connection\<close>, what the code does to the world outside (\<open>effect\<close>), and the
  small operations every handler is made of. The state of a handler is one record: the statics
  (\<open>world\<close>) extended by the fields of the connection. The build modelled is the Linux desktop
  one with the feature \<open>flutter\<close>. What the handlers read from the machine and from code that is
  not modelled is the record \<open>env\<close>; a new \<open>env\<close> comes with every event.
\<close>

section \<open>Messages to the connection manager\<close>

datatype fs_cmd =
    FsReadDir string bool
  | FsRemoveDir i32 string bool
  | FsRemoveFile i32 string i32
  | FsCreateDir i32 string
  | FsNewWrite i32 string i32 "(string \<times> u64) list" bool u64 i32
      \<comment> \<open>id, path, file number, files, overwrite detection, total size, connection\<close>
  | FsCancelWrite i32
  | FsWriteBlock i32 i32 bytes bool
  | FsWriteDone i32 i32
  | FsWriteError i32 i32 string
  | FsCheckDigest i32 i32 u64 u64 bool

text \<open>The entries of the file transfer log, before their serialisation: \<open>FileActionLog\<close> with its
  id, connection, path and whether it is a directory, and the states of transfer jobs.\<close>

datatype file_log =
    ActionLog i32 i32 string bool
  | JobLog transfer_job bool bool string  \<comment> \<open>done, cancelled, error\<close>
  | JobsLog "transfer_job list"

record cm_login =
  cl_id :: i32
  cl_is_file_transfer :: bool
  cl_port_forward :: string
  cl_peer_id :: string
  cl_name :: string
  cl_authorized :: bool
  cl_keyboard :: bool
  cl_clipboard :: bool
  cl_audio :: bool
  cl_file :: bool
  cl_file_transfer_enabled :: bool
  cl_restart :: bool
  cl_recording :: bool
  cl_block_input :: bool
  cl_from_switch :: bool

datatype cm_data =
    CmLogin cm_login
  | CmChatMessage string
  | CmFS fs_cmd
  | CmFileTransferLog string file_log
  | CmClipboardFile clipboard_file
  | CmClipboardFileEnabled bool
  | CmVoiceCallIncoming
  | CmStartVoiceCall
  | CmCloseVoiceCall string
  | CmClose
  | CmDisconnected
  | CmTest

section \<open>Effects\<close>

text \<open>Keys as \<open>rdev\<close> names them; the eight modifiers and all others.\<close>

datatype rdev_key =
    ShiftLeft | ShiftRight | ControlLeft | ControlRight | MetaLeft | MetaRight | Alt | AltGr
  | OtherKey nat

datatype alarm = IpWhitelist | ExceedThirtyAttempts | SixAttemptsWithinOneMinute

datatype file_audit = RemoteSend | RemoteReceive

datatype conn_audit = AuditNew string | AuditLogin string string nat | AuditClose

datatype effect =
    ToPeer message
  | ToPeerRaw bytes
  | ToCm cm_data
  | StartCm
  | WaitDesktopReady
  | TcpConnect string
  | AlarmAudit alarm string
  | ConnAudit conn_audit
  | FileAudit file_audit string "(string \<times> u64) list" nat bool
      \<comment> \<open>path, the ten largest files, how many there were, whether it is a single file\<close>
  | InputMouse mouse_event i32
  | InputPointer bytes i32
  | InputKey key_event bool
  | InputBlock bool
  | SetClipboard bytes
  | Reboot bool  \<comment> \<open>forced\<close>
  | RunMe "string list"
  | LockScreen
  | AudioThread
  | AudioFormatTo bytes
  | AudioFrameTo bytes
  | SetSoundInput string
  | ChangeResolution string i32 i32
  | RecordResolution string "i32 \<times> i32" "i32 \<times> i32"
  | VideoFetched i32 bool
  | SetupRdpInput
  | WakeLock nat nat
  | KeyRelease rdev_key
  | ResetResolutions

fun to_peer :: "effect \<Rightarrow> message option" where
  "to_peer (ToPeer m) = Some m"
| "to_peer _ = None"

section \<open>The statics\<close>

datatype auth_conn_type = AuthRemote | AuthFileTransfer | AuthPortForward

text \<open>\<open>Session\<close>; \<open>ses_recv\<close> is the cell \<open>last_recv_time\<close>, which the session shares with a
  connection: an index into \<open>w_recv_times\<close>.\<close>

record session =
  ses_name :: string
  ses_id :: u64
  ses_recv :: nat
  ses_password :: bytes
  ses_tfa :: bool

record world =
  w_failures :: "nat \<Rightarrow> (string, i32 \<times> nat \<times> nat) hmap"
  w_sessions :: "(string, session) hmap"
  w_recv_times :: "nat \<Rightarrow> nat"
  w_alive :: "i32 list"
  w_authed :: "(i32 \<times> auth_conn_type) list"
  w_switch_uuids :: "(string, nat \<times> bytes) hmap"
  w_wallpaper :: bool
  w_temporary_password :: bytes
  w_server :: "server option"
  w_qos :: video_qos
  w_encoder :: encoder_state
  w_privacy :: "privacy_mode option"
  w_click_time :: nat
  w_mouse_move_time :: nat
  w_out :: "effect list"

section \<open>The connection\<close>

record remove_dir =
  rd_id :: i32
  rd_path :: string
  rd_recursive :: bool

record remove_file =
  rf_id :: i32
  rf_path :: string
  rf_file_num :: i32

record file_remove_log =
  frl_conn_id :: i32
  frl_instant :: nat
  frl_files :: "remove_file list"
  frl_dirs :: "remove_dir list"

record connection = world +
  c_inner :: conn_inner
  c_display_idx :: nat
  c_salt :: bytes
  c_challenge :: bytes
  c_read_jobs :: "transfer_job list"
  c_file_timer_fast :: bool
  c_file_transfer :: "(string \<times> bool) option"
  c_port_forward :: bool            \<comment> \<open>\<open>port_forward_socket\<close> is some\<close>
  c_port_forward_address :: string
  c_authorized :: bool
  c_require_2fa :: "bytes option"   \<comment> \<open>the secret of the \<open>TOTP\<close>\<close>
  c_keyboard :: bool
  c_clipboard :: bool
  c_audio :: bool
  c_file :: bool
  c_restart :: bool
  c_recording :: bool
  c_block_input :: bool
  c_last_test_delay :: "nat option"
  c_network_delay :: u32
  c_lock_after_session_end :: bool
  c_show_remote_cursor :: bool
  c_ip :: string
  c_disable_keyboard :: bool
  c_disable_clipboard :: bool
  c_disable_audio :: bool
  c_enable_file_transfer :: bool
  c_audio_sender :: bool
  c_video_ack_required :: bool
  c_server_audit_conn :: string
  c_server_audit_file :: string
  c_lr :: login_request
  c_recv_cell :: nat                \<comment> \<open>\<open>last_recv_time\<close>, its cell\<close>
  c_chat_unanswered :: bool
  c_file_transferred :: bool
  c_from_switch :: bool
  c_voice_call_request_timestamp :: "i64 option"
  c_audio_input_before_voice_call :: "string option"
  c_options_in_login :: "option_message option"
  c_pressed_modifiers :: "rdev_key list"
  c_closed :: bool
  c_delay_response_instant :: nat
  c_start_cm_ipc_para :: bool
  c_auto_disconnect_timer :: "(nat \<times> u64) option"
  c_authed_conn_id :: "(i32 \<times> auth_conn_type) option"
  c_file_remove_log :: file_remove_log
  c_last_supported_encoding :: "supported_encoding option"
  c_services_subed :: bool
  c_delayed_read_dir :: "(string \<times> bool) option"
  c_follow_remote_cursor :: bool
  c_follow_remote_window :: bool
  c_multi_ui_session :: bool

end
