(* ===== verification/Conn_Ops.thy ===== *)
theory Conn_Ops
  imports Conn_State
begin

text \<open>
  What the handlers of a connection read from outside (\<open>env\<close>), and the small operations of
  \<open>src/server/connection.rs\<close>: sending, permissions, passwords and sessions, the counting of
  failed logins, the registries of connections, and the log of removed files.
\<close>

section \<open>The environment of a handler\<close>

record env =
  e_now :: nat                  \<comment> \<open>\<open>Instant::now()\<close>, in milliseconds\<close>
  e_time :: nat                 \<comment> \<open>\<open>get_time()\<close>, in milliseconds\<close>
  e_options :: options          \<comment> \<open>\<open>Config::get_option\<close>\<close>
  e_id :: string                \<comment> \<open>\<open>Config::get_id\<close>\<close>
  e_permanent_password :: bytes
  e_new_password :: bytes       \<comment> \<open>the next \<open>Config::get_auto_password\<close>\<close>
  e_sha256 :: "bytes \<Rightarrow> bytes"
  e_check_totp :: "bytes \<Rightarrow> string \<Rightarrow> bool option"  \<comment> \<open>\<open>TOTP::check_current\<close>\<close>
  e_uuid_from_slice :: "bytes \<Rightarrow> bytes option"
  e_uuid_string :: "bytes \<Rightarrow> string"
  e_is_ip_str :: "string \<Rightarrow> bool"
  e_is_domain_port_str :: "string \<Rightarrow> bool"
  e_cidr :: "string \<Rightarrow> (string \<Rightarrow> bool) option"     \<comment> \<open>\<open>IpCidr::from_str\<close>, \<open>contains\<close>\<close>
  e_api_server :: "string \<Rightarrow> string \<Rightarrow> string"
  e_tcp_connect :: "string \<Rightarrow> bool"
  e_privacy :: privacy_env
  e_privacy_timeout :: bool
  e_headless_allowed :: bool    \<comment> \<open>the fields of \<open>LinuxHeadlessHandle\<close>\<close>
  e_is_headless :: bool
  e_start_desktop :: "string \<Rightarrow> string \<Rightarrow> string"
  e_is_server :: bool
  e_main_window_open :: bool
  e_prelogin :: bool
  e_cm_gone :: bool            \<comment> \<open>the connection manager does not listen any more\<close>
  e_version :: string           \<comment> \<open>\<open>VERSION\<close>, generated by the build\<close>
  e_username :: string
  e_hostname :: string
  e_platform :: string
  e_platform_additions :: string
  e_display_server :: string
  e_login_screen_wayland :: bool
  e_is_x11 :: bool
  e_inited_msg :: "message option"
  e_displays :: "string + display_info list"       \<comment> \<open>\<open>update_get_sync_displays\<close>\<close>
  e_try_displays :: "display_info list option"     \<comment> \<open>\<open>try_get_displays\<close>\<close>
  e_resolutions :: "string \<Rightarrow> (i32 \<times> i32) list"
  e_display_changed :: "nat \<Rightarrow> message option"     \<comment> \<open>\<open>make_display_changed_msg\<close>\<close>
  e_cursor_display :: "i32 \<Rightarrow> i32 \<Rightarrow> nat option"   \<comment> \<open>the display under a position\<close>
  e_primary :: nat              \<comment> \<open>\<open>PRIMARY_DISPLAY_IDX\<close>\<close>
  e_codec :: codec_env
  e_wallpaper :: bool           \<comment> \<open>\<open>WallPaperRemover::new\<close> succeeds\<close>
  e_is_dir :: "string \<Rightarrow> bool"
  e_nodes :: "string \<Rightarrow> fs_node option"
  e_fs :: file_system
  e_zstd :: zstd
  e_failing :: "i32 \<Rightarrow> bool"
  e_key :: "u32 \<Rightarrow> rdev_key"    \<comment> \<open>\<open>keycode_to_rdev_key\<close>\<close>
  e_default_sound_input :: "string option"

section \<open>Sending\<close>

definition emit :: "effect \<Rightarrow> connection \<Rightarrow> connection" where
  "emit x s = s\<lparr>w_out := w_out s @ [x]\<rparr>"

abbreviation send :: "message \<Rightarrow> connection \<Rightarrow> connection" where
  "send msg \<equiv> emit (ToPeer msg)"

definition inner_send :: "message \<Rightarrow> connection \<Rightarrow> connection" where
  "inner_send msg s = s\<lparr>c_inner := conn_send msg (c_inner s)\<rparr>"

abbreviation c_id :: "connection \<Rightarrow> i32" where
  "c_id s \<equiv> ci_id (c_inner s)"

abbreviation send_to_cm :: "cm_data \<Rightarrow> connection \<Rightarrow> connection" where
  "send_to_cm d \<equiv> emit (ToCm d)"

abbreviation send_fs :: "fs_cmd \<Rightarrow> connection \<Rightarrow> connection" where
  "send_fs d \<equiv> send_to_cm (CmFS d)"

definition send_login_error :: "string \<Rightarrow> connection \<Rightarrow> connection" where
  "send_login_error err = send (MsgLoginResponse (LoginError err))"

definition send_permission :: "permission \<Rightarrow> bool \<Rightarrow> connection \<Rightarrow> connection" where
  "send_permission p enabled = send (MsgMisc (Some (MiscPermissionInfo p enabled)))"

definition send_block_input_error :: "block_input_state \<Rightarrow> string \<Rightarrow> connection \<Rightarrow> connection" where
  "send_block_input_error st details =
     inner_send (MsgMisc (Some (MiscBackNotification (BackBlockInput st details))))"

definition read_dir :: "string \<Rightarrow> bool \<Rightarrow> connection \<Rightarrow> connection" where
  "read_dir dir include_hidden = send_fs (FsReadDir dir include_hidden)"

definition input_mouse :: "mouse_event \<Rightarrow> i32 \<Rightarrow> connection \<Rightarrow> connection" where
  "input_mouse msg conn_id = emit (InputMouse msg conn_id)"

definition input_pointer :: "bytes \<Rightarrow> i32 \<Rightarrow> connection \<Rightarrow> connection" where
  "input_pointer msg conn_id = emit (InputPointer msg conn_id)"

definition input_key :: "key_event \<Rightarrow> bool \<Rightarrow> connection \<Rightarrow> connection" where
  "input_key msg press = emit (InputKey msg press)"

section \<open>Permissions\<close>

text \<open>\<open>Connection::permission\<close>: the access mode first, then the option itself, on unless set.\<close>

definition conn_permission :: "options \<Rightarrow> string \<Rightarrow> bool" where
  "conn_permission opt enable_prefix_option =
     (let access_mode = opt ''access-mode'' in
      if access_mode = ''full'' then True
      else if access_mode = ''view'' then False
      else opt enable_prefix_option = [])"

definition peer_keyboard_enabled :: "connection \<Rightarrow> bool" where
  "peer_keyboard_enabled s = (c_keyboard s \<and> \<not> c_disable_keyboard s)"

definition clipboard_enabled :: "connection \<Rightarrow> bool" where
  "clipboard_enabled s = (c_clipboard s \<and> \<not> c_disable_clipboard s)"

definition audio_enabled :: "connection \<Rightarrow> bool" where
  "audio_enabled s = (c_audio s \<and> \<not> c_disable_audio s)"

definition file_transfer_enabled :: "connection \<Rightarrow> bool" where
  "file_transfer_enabled s = (c_file s \<and> c_enable_file_transfer s)"

section \<open>Audits\<close>

definition get_audit_server :: "env \<Rightarrow> string \<Rightarrow> string" where
  "get_audit_server e typ =
     (let url = e_api_server e (e_options e ''api-server'') (e_options e ''custom-rendezvous-server'')
      in if url = [] \<or> sublist ''rustdesk.com'' url then [] else url @ ''/api/audit/'' @ typ)"

definition get_api_server :: "env \<Rightarrow> connection \<Rightarrow> connection" where
  "get_api_server e s =
     s\<lparr>c_server_audit_conn := get_audit_server e ''conn'',
       c_server_audit_file := get_audit_server e ''file''\<rparr>"

definition post_conn_audit :: "conn_audit \<Rightarrow> connection \<Rightarrow> connection" where
  "post_conn_audit v s = (if c_server_audit_conn s = [] then s else emit (ConnAudit v) s)"

text \<open>The ten largest files, the largest first; equal sizes keep their order.\<close>

definition post_file_audit :: "file_audit \<Rightarrow> string \<Rightarrow> (string \<times> u64) list \<Rightarrow> connection \<Rightarrow> connection" where
  "post_file_audit typ path files s =
     (if c_server_audit_file s = [] then s
      else
        (let file_num = length files;
             files = take 10 (sort_key (\<lambda>f. - sint (snd f)) files);
             is_file = (length files = 1 \<and> fst (files ! 0) = [])
         in emit (FileAudit typ path files file_num is_file) s))"

definition post_alarm_audit :: "env \<Rightarrow> alarm \<Rightarrow> string \<Rightarrow> connection \<Rightarrow> connection" where
  "post_alarm_audit e typ ip s =
     (if get_audit_server e ''alarm'' = [] then s else emit (AlarmAudit typ ip) s)"

section \<open>Passwords and sessions\<close>

definition SESSION_TIMEOUT :: nat where "SESSION_TIMEOUT = 30000"

definition validate_one_password :: "env \<Rightarrow> bytes \<Rightarrow> connection \<Rightarrow> bool" where
  "validate_one_password e password s =
     (if length password = 0 then False
      else e_sha256 e (e_sha256 e (password @ c_salt s) @ c_challenge s) = lr_password (c_lr s))"

definition insert_session :: "session \<Rightarrow> connection \<Rightarrow> connection" where
  "insert_session ses s = s\<lparr>w_sessions := hm_insert (lr_my_id (c_lr s)) ses (w_sessions s)\<rparr>"

definition validate_password :: "env \<Rightarrow> connection \<Rightarrow> bool \<times> connection" where
  "validate_password e s =
     (if temporary_enabled (e_options e) \<and> validate_one_password e (w_temporary_password s) s then
        (True, insert_session
           \<lparr>ses_name = lr_my_name (c_lr s), ses_id = lr_session_id (c_lr s),
            ses_recv = c_recv_cell s, ses_password = w_temporary_password s, ses_tfa = False\<rparr> s)
      else if permanent_enabled (e_options e) \<and> validate_one_password e (e_permanent_password e) s then
        (True, s)
      else (False, s))"

definition retain_sessions :: "env \<Rightarrow> connection \<Rightarrow> connection" where
  "retain_sessions e s =
     s\<lparr>w_sessions :=
         hm_retain (\<lambda>_ ses. e_now e - w_recv_times s (ses_recv ses) < SESSION_TIMEOUT) (w_sessions s)\<rparr>"

definition is_recent_session :: "env \<Rightarrow> bool \<Rightarrow> connection \<Rightarrow> bool \<times> connection" where
  "is_recent_session e tfa s =
     (let s = retain_sessions e s in
      case hm_get (w_sessions s) (lr_my_id (c_lr s)) of
        None \<Rightarrow> (False, s)
      | Some ses \<Rightarrow>
          (if ses_name ses = lr_my_name (c_lr s) \<and> ses_id ses = lr_session_id (c_lr s) \<and>
              lr_password (c_lr s) \<noteq> [] \<and>
              (tfa \<and> ses_tfa ses \<or> \<not> tfa \<and> validate_one_password e (ses_password ses) s)
           then (True, insert_session (ses\<lparr>ses_recv := c_recv_cell s\<rparr>) s)
           else (False, s)))"

section \<open>Failed logins\<close>

text \<open>An entry counts by address: the minute of the last failure, the failures within that minute,
  and all failures. List 0 is for passwords, list 1 for codes of the second factor. The counts
  are \<open>i32\<close> in the code; they never pass 31 (\<open>failures_bounded\<close> below).\<close>

type_synonym failure = "i32 \<times> nat \<times> nat"

definition put_failure :: "nat \<Rightarrow> failure \<Rightarrow> connection \<Rightarrow> connection" where
  "put_failure i f s =
     s\<lparr>w_failures := (w_failures s)(i := hm_insert (c_ip s) f (w_failures s i))\<rparr>"

definition update_failure :: "failure \<times> i32 \<Rightarrow> bool \<Rightarrow> nat \<Rightarrow> connection \<Rightarrow> connection" where
  "update_failure ft remove i s =
     (let ((f0, f1, f2), time) = ft in
      if remove then
        (if f0 \<noteq> 0 then s\<lparr>w_failures := (w_failures s)(i := hm_remove (c_ip s) (w_failures s i))\<rparr>
         else s)
      else if f0 = time then put_failure i (f0, f1 + 1, f2 + 1) s
      else put_failure i (time, 1, f2 + 1) s)"

definition current_minute :: "env \<Rightarrow> i32" where
  "current_minute e = of_nat (e_time e div 60000)"

definition get_failure :: "nat \<Rightarrow> connection \<Rightarrow> failure" where
  "get_failure i s = (case hm_get (w_failures s i) (c_ip s) of Some f \<Rightarrow> f | None \<Rightarrow> (0, 0, 0))"

definition check_failure :: "env \<Rightarrow> nat \<Rightarrow> connection \<Rightarrow> ((failure \<times> i32) \<times> bool) \<times> connection" where
  "check_failure e i s =
     (let failure = get_failure i s; (f0, f1, f2) = failure; time = current_minute e in
      if f2 > 30 then
        (((failure, time), False),
         post_alarm_audit e ExceedThirtyAttempts (c_ip s)
           (send_login_error ''Too many wrong attempts'' s))
      else if time = f0 \<and> f1 > 6 then
        (((failure, time), False),
         post_alarm_audit e SixAttemptsWithinOneMinute (c_ip s)
           (send_login_error ''Please try 1 minute later'' s))
      else (((failure, time), True), s))"

section \<open>The registries of connections\<close>

definition connection_id_new :: "i32 \<Rightarrow> connection \<Rightarrow> connection" where
  "connection_id_new i s = s\<lparr>w_alive := w_alive s @ [i]\<rparr>"

definition connection_id_drop :: "env \<Rightarrow> i32 \<Rightarrow> connection \<Rightarrow> connection" where
  "connection_id_drop e i s =
     s\<lparr>w_alive := filter (\<lambda>c. c \<noteq> i) (w_alive s),
       w_qos := qos_on_connection_close (e_options e) i (w_qos s)\<rparr>"

definition remote_count :: "connection \<Rightarrow> nat" where
  "remote_count s = length (filter (\<lambda>c. snd c = AuthRemote) (w_authed s))"

definition remote_and_file_conn_count :: "connection \<Rightarrow> nat" where
  "remote_and_file_conn_count s =
     length (filter (\<lambda>c. snd c = AuthRemote \<or> snd c = AuthFileTransfer) (w_authed s))"

definition check_wake_lock :: "connection \<Rightarrow> connection" where
  "check_wake_lock s = emit (WakeLock (length (w_authed s)) (remote_count s)) s"

definition authed_conn_id_new :: "i32 \<Rightarrow> auth_conn_type \<Rightarrow> connection \<Rightarrow> connection" where
  "authed_conn_id_new i t s = check_wake_lock (s\<lparr>w_authed := w_authed s @ [(i, t)]\<rparr>)"

definition authed_conn_id_drop :: "env \<Rightarrow> i32 \<times> auth_conn_type \<Rightarrow> connection \<Rightarrow> connection" where
  "authed_conn_id_drop e a s =
     (let s = (if snd a = AuthRemote
               then s\<lparr>w_encoder := encoder_update (e_codec e) (Remove (fst a)) (w_encoder s)\<rparr> else s);
          s = s\<lparr>w_authed := filter (\<lambda>c. fst c \<noteq> fst a) (w_authed s)\<rparr>;
          s = (if remote_count s = 0 then emit ResetResolutions (s\<lparr>w_wallpaper := False\<rparr>) else s)
      in check_wake_lock s)"

section \<open>The automatic disconnection\<close>

definition get_auto_disconnect_timer :: "env \<Rightarrow> (nat \<times> u64) option" where
  "get_auto_disconnect_timer e =
     (if e_options e ''allow-auto-disconnect'' = ''Y'' then
        (let minute = (case parse_int 0 (2 ^ 64 - 1) (e_options e ''auto-disconnect-timeout'') of
                         Some v \<Rightarrow> word_of_int v | None \<Rightarrow> 10);
             minute = (if minute = 0 then 10 else minute)
         in Some (e_now e, minute))
      else None)"

definition update_auto_disconnect_timer :: "env \<Rightarrow> connection \<Rightarrow> connection" where
  "update_auto_disconnect_timer e s =
     s\<lparr>c_auto_disconnect_timer := map_option (\<lambda>(_, m). (e_now e, m)) (c_auto_disconnect_timer s)\<rparr>"

section \<open>The log of removed files\<close>

text \<open>\<open>std::path\<close>: the components of a path, whether it starts at the root and its names (empty
  ones and dots inside are dropped), and the parent. Two paths are equal if their components are.\<close>

type_synonym path = "bool \<times> string list"

definition path_components :: "string \<Rightarrow> path" where
  "path_components p =
     (let root = (p \<noteq> [] \<and> hd p = CHR ''/'');
          names = filter (\<lambda>n. n \<noteq> []) (split_on CHR ''/'' p)
      in (root, if \<not> root \<and> names \<noteq> [] \<and> hd names = ''.''
                then hd names # filter (\<lambda>n. n \<noteq> ''.'') (tl names)
                else filter (\<lambda>n. n \<noteq> ''.'') names))"

definition path_parent :: "path \<Rightarrow> path option" where
  "path_parent p = (if snd p = [] then None else Some (fst p, butlast (snd p)))"

definition direct_child :: "string \<Rightarrow> string \<Rightarrow> bool" where
  "direct_child parent child = (path_parent (path_components child) = Some (path_components parent))"

definition frl_new :: "env \<Rightarrow> i32 \<Rightarrow> file_remove_log" where
  "frl_new e i = \<lparr>frl_conn_id = i, frl_instant = e_now e, frl_files = [], frl_dirs = []\<rparr>"

definition file_log_entry :: "i32 \<Rightarrow> remove_file \<Rightarrow> cm_data" where
  "file_log_entry conn f = CmFileTransferLog ''remove'' (ActionLog (rf_id f) conn (rf_path f) False)"

definition dir_log_entry :: "i32 \<Rightarrow> remove_dir \<Rightarrow> cm_data" where
  "dir_log_entry conn d = CmFileTransferLog ''remove'' (ActionLog (rd_id d) conn (rd_path d) True)"

definition on_remove_file :: "env \<Rightarrow> remove_file \<Rightarrow> file_remove_log \<Rightarrow> cm_data option \<times> file_remove_log" where
  "on_remove_file e f l =
     (Some (file_log_entry (frl_conn_id l) f),
      l\<lparr>frl_instant := e_now e, frl_files := frl_files l @ [f]\<rparr>)"

definition on_remove_dir :: "env \<Rightarrow> remove_dir \<Rightarrow> file_remove_log \<Rightarrow> cm_data option \<times> file_remove_log" where
  "on_remove_dir e d l =
     (let files = filter (\<lambda>f. \<not> direct_child (rf_path f) (rd_path d)) (frl_files l);
          dirs = filter (\<lambda>x. \<not> direct_child (rd_path d) (rd_path x)) (frl_dirs l);
          dirs = (if list_ex (\<lambda>x. direct_child (rd_path x) (rd_path d)) dirs then dirs else dirs @ [d])
      in (Some (dir_log_entry (frl_conn_id l) d),
          l\<lparr>frl_instant := e_now e, frl_files := files, frl_dirs := dirs\<rparr>))"

definition frl_on_timer :: "env \<Rightarrow> file_remove_log \<Rightarrow> cm_data list \<times> file_remove_log" where
  "frl_on_timer e l =
     (if (e_now e - frl_instant l) div 1000 < 1 then ([], l)
      else (map (file_log_entry (frl_conn_id l)) (frl_files l) @
              map (dir_log_entry (frl_conn_id l)) (frl_dirs l),
            l\<lparr>frl_files := [], frl_dirs := []\<rparr>))"

end
