(* ===== verification/Conn_Options.thy ===== *)
theory Conn_Options
  imports Conn_Ops
begin

text \<open>
  Services, privacy mode and the options of a connection (\<open>src/server/connection.rs\<close>): which
  services it subscribes to, \<open>turn_on_privacy\<close> and \<open>turn_off_privacy\<close>, \<open>update_options\<close>, which
  applies the options the peer sends at login and later, and the display it looks at.
\<close>

section \<open>Services\<close>

definition NAME_CURSOR :: string where "NAME_CURSOR = ''mouse_cursor''"
definition NAME_POS :: string where "NAME_POS = ''mouse_pos''"
definition NAME_WINDOW_FOCUS :: string where "NAME_WINDOW_FOCUS = ''window_focus''"
definition CLIPBOARD_NAME :: string where "CLIPBOARD_NAME = ''clipboard''"
definition AUDIO_NAME :: string where "AUDIO_NAME = ''audio''"

text \<open>\<open>self.server.upgrade()\<close>: nothing happens once the server is gone.\<close>

definition with_server :: "(server \<Rightarrow> server) \<Rightarrow> connection \<Rightarrow> connection" where
  "with_server f s = s\<lparr>w_server := map_option f (w_server s)\<rparr>"

definition subscribe :: "string \<Rightarrow> bool \<Rightarrow> connection \<Rightarrow> connection" where
  "subscribe name b s = with_server (server_subscribe name (c_inner s) b) s"

definition noperms :: "connection \<Rightarrow> string list" where
  "noperms s =
     (if \<not> peer_keyboard_enabled s \<and> \<not> c_show_remote_cursor s then [NAME_CURSOR] else []) @
     (if \<not> c_show_remote_cursor s then [NAME_POS] else []) @
     (if \<not> c_follow_remote_window s then [NAME_WINDOW_FOCUS] else []) @
     (if \<not> clipboard_enabled s \<or> \<not> peer_keyboard_enabled s then [CLIPBOARD_NAME] else []) @
     (if \<not> audio_enabled s then [AUDIO_NAME] else [])"

definition try_sub_services :: "env \<Rightarrow> connection \<Rightarrow> connection" where
  "try_sub_services e s =
     (let is_remote = (c_file_transfer s = None \<and> \<not> c_port_forward s) in
      if is_remote \<and> \<not> c_services_subed s then
        (let s = s\<lparr>c_services_subed := True\<rparr> in
         case w_server s of
           None \<Rightarrow> s
         | Some srv \<Rightarrow>
             (let perms = noperms s;
                  s = s\<lparr>c_auto_disconnect_timer := get_auto_disconnect_timer e\<rparr>
              in with_server (\<lambda>srv. add_connection (e_primary e) (c_inner s) perms
                   (try_add_primay_video_service (e_primary e) srv)) s))
      else s)"

section \<open>Privacy mode\<close>

definition privacy_mode_msg :: "privacy_mode_state \<Rightarrow> string \<Rightarrow> string \<Rightarrow> message" where
  "privacy_mode_msg st details impl_key =
     MsgMisc (Some (MiscBackNotification (BackPrivacyMode st details impl_key)))"

definition UNSUPPORTED :: string where
  "UNSUPPORTED = ''Unsupported. 1 Multi-screen is not supported. 2 Please confirm the license is activated.''"

text \<open>\<open>check_privacy_mode_err\<close> outside Windows.\<close>

definition check_privacy_mode_err :: "i32 \<Rightarrow> nat \<Rightarrow> nat \<Rightarrow> string" where
  "check_privacy_mode_err privacy_mode_id display_idx timeout_millis = []"

definition turn_off_privacy_to_msg :: "env \<Rightarrow> i32 \<Rightarrow> connection \<Rightarrow> message \<times> connection" where
  "turn_off_privacy_to_msg e conn_id s =
     (let (res, p) = turn_off_privacy (e_privacy e) conn_id None (w_privacy s) in
      (case res of
         Some (Inr _) \<Rightarrow> privacy_mode_msg PrvOffSucceeded [] []
       | Some (Inl err) \<Rightarrow> privacy_mode_msg PrvOffFailed err []
       | None \<Rightarrow> privacy_mode_msg PrvOffFailed ''Not supported'' [],
       s\<lparr>w_privacy := p\<rparr>))"

definition conn_turn_on_privacy :: "env \<Rightarrow> string \<Rightarrow> connection \<Rightarrow> connection" where
  "conn_turn_on_privacy e impl_key s =
     (if \<not> is_privacy_mode_supported (e_privacy e) then
        send (privacy_mode_msg PrvNotSupported UNSUPPORTED impl_key) s
      else
        (let s = (case get_cur_impl_key (w_privacy s) of
                    Some pre \<Rightarrow>
                      if is_in_privacy_mode (w_privacy s) \<and>
                         \<not> is_current_privacy_mode_impl pre (w_privacy s)
                      then send (privacy_mode_msg PrvOffSucceeded [] pre) s else s
                  | None \<Rightarrow> s);
             (res, p) = turn_on_privacy (e_privacy e) (e_privacy_timeout e) impl_key (c_id s) (w_privacy s);
             s = s\<lparr>w_privacy := p\<rparr>
         in case res of
              Some (Inr True) \<Rightarrow>
                (let err = check_privacy_mode_err (c_id s) (c_display_idx s) 5000 in
                 if err = [] then send (privacy_mode_msg PrvOnSucceeded [] impl_key) s
                 else send (privacy_mode_msg PrvOnFailed err impl_key)
                        (snd (turn_off_privacy_to_msg e (c_id s) s)))
            | Some (Inr False) \<Rightarrow> send (privacy_mode_msg PrvOnFailedPlugin [] impl_key) s
            | Some (Inl err) \<Rightarrow>
                (let s = (if is_in_privacy_mode (w_privacy s)
                          then snd (turn_off_privacy_to_msg e INVALID_PRIVACY_MODE_CONN_ID s) else s)
                 in send (privacy_mode_msg PrvOnFailed err impl_key) s)
            | None \<Rightarrow> send (privacy_mode_msg PrvOffFailed ''Not supported'' impl_key) s))"

definition conn_turn_off_privacy :: "env \<Rightarrow> string \<Rightarrow> connection \<Rightarrow> connection" where
  "conn_turn_off_privacy e impl_key s =
     (if \<not> is_privacy_mode_supported (e_privacy e) then
        send (privacy_mode_msg PrvNotSupported UNSUPPORTED impl_key) s
      else (let (msg, s) = turn_off_privacy_to_msg e (c_id s) s in send msg s))"

definition toggle_privacy_mode :: "env \<Rightarrow> string \<Rightarrow> bool \<Rightarrow> connection \<Rightarrow> connection" where
  "toggle_privacy_mode e impl_key on s =
     (if on then conn_turn_on_privacy e impl_key s else conn_turn_off_privacy e impl_key s)"

section \<open>Options\<close>

text \<open>An option that is set: \<open>enum_value\<close> succeeds and is not \<open>NotSet\<close>.\<close>

definition when_set :: "bool_option \<Rightarrow> (bool \<Rightarrow> connection \<Rightarrow> connection) \<Rightarrow> connection \<Rightarrow> connection" where
  "when_set q f s =
     (case q of BoYes \<Rightarrow> f True s | BoNo \<Rightarrow> f False s | BoNotSet \<Rightarrow> s | BoUnknown \<Rightarrow> s)"

fun image_quality_value :: "image_quality \<Rightarrow> int" where
  "image_quality_value IqLow = 2"
| "image_quality_value IqBalanced = 3"
| "image_quality_value IqBest = 4"
| "image_quality_value _ = 0"

definition with_qos :: "(video_qos \<Rightarrow> video_qos) \<Rightarrow> connection \<Rightarrow> connection" where
  "with_qos f s = s\<lparr>w_qos := f (w_qos s)\<rparr>"

definition with_encoder :: "env \<Rightarrow> encoding_update \<Rightarrow> connection \<Rightarrow> connection" where
  "with_encoder e u s = s\<lparr>w_encoder := encoder_update (e_codec e) u (w_encoder s)\<rparr>"

definition update_image_quality :: "env \<Rightarrow> option_message \<Rightarrow> connection \<Rightarrow> connection" where
  "update_image_quality e opts s =
     (if om_image_quality opts = IqUnknown then s
      else
        (let q = (if om_image_quality opts = IqNotSet then
                    (if om_custom_image_quality opts > 0 then om_custom_image_quality opts else - 1)
                  else image_quality_value (om_image_quality opts))
         in if q > 0 then
              with_qos (user_image_quality (e_options e) (int (e_time e)) (c_id s) (word_of_int q)) s
            else s))"

definition update_clipboard_service :: "connection \<Rightarrow> connection" where
  "update_clipboard_service s =
     subscribe CLIPBOARD_NAME (clipboard_enabled s \<and> peer_keyboard_enabled s) s"

definition update_cursor_service :: "connection \<Rightarrow> connection" where
  "update_cursor_service s = subscribe NAME_CURSOR (peer_keyboard_enabled s \<or> c_show_remote_cursor s) s"

definition update_privacy_option :: "env \<Rightarrow> bool_option \<Rightarrow> connection \<Rightarrow> connection" where
  "update_privacy_option e q s =
     (if sint (get_version_number (lr_version (c_lr s))) < sint (get_version_number ''1.2.4'') \<and>
         c_keyboard s
      then (case q of
              BoYes \<Rightarrow> conn_turn_on_privacy e [] s
            | BoNo \<Rightarrow> conn_turn_off_privacy e [] s
            | _ \<Rightarrow> s)
      else s)"

definition update_block_input :: "bool_option \<Rightarrow> connection \<Rightarrow> connection" where
  "update_block_input q s =
     (if q = BoUnknown then s
      else if c_keyboard s \<and> c_block_input s then
        (case q of BoYes \<Rightarrow> emit (InputBlock True) s | BoNo \<Rightarrow> emit (InputBlock False) s | _ \<Rightarrow> s)
      else if q \<noteq> BoNotSet then
        send_block_input_error (if q = BoYes then BlkOnFailed else BlkOffFailed) ''No permission'' s
      else s)"

definition update_options :: "env \<Rightarrow> option_message \<Rightarrow> connection \<Rightarrow> connection" where
  "update_options e opts s =
     (let s = update_image_quality e opts s;
          s = (if om_custom_fps opts > 0
               then with_qos (user_custom_fps (e_options e) (c_id s) (word_of_int (om_custom_fps opts))) s
               else s);
          s = (case om_supported_decoding opts of
                 Some q \<Rightarrow> with_encoder e (Update (c_id s) q) s | None \<Rightarrow> s);
          s = when_set (om_lock_after_session_end opts) (\<lambda>b s. s\<lparr>c_lock_after_session_end := b\<rparr>) s;
          s = when_set (om_show_remote_cursor opts)
                (\<lambda>b s. subscribe NAME_POS b (update_cursor_service (s\<lparr>c_show_remote_cursor := b\<rparr>))) s;
          s = when_set (om_follow_remote_cursor opts) (\<lambda>b s. s\<lparr>c_follow_remote_cursor := b\<rparr>) s;
          s = when_set (om_follow_remote_window opts)
                (\<lambda>b s. subscribe NAME_WINDOW_FOCUS b (s\<lparr>c_follow_remote_window := b\<rparr>)) s;
          s = when_set (om_disable_audio opts)
                (\<lambda>b s. let s = s\<lparr>c_disable_audio := b\<rparr> in subscribe AUDIO_NAME (audio_enabled s) s) s;
          s = when_set (om_enable_file_transfer opts)
                (\<lambda>b s. let s = s\<lparr>c_enable_file_transfer := b\<rparr>
                       in send_to_cm (CmClipboardFileEnabled (file_transfer_enabled s)) s) s;
          s = when_set (om_disable_clipboard opts)
                (\<lambda>b s. update_clipboard_service (s\<lparr>c_disable_clipboard := b\<rparr>)) s;
          s = when_set (om_disable_keyboard opts)
                (\<lambda>b s. update_cursor_service (update_clipboard_service (s\<lparr>c_disable_keyboard := b\<rparr>))) s;
          s = update_privacy_option e (om_privacy_mode opts) s
      in update_block_input (om_block_input opts) s)"

end
