(* ===== verification/Conn_Login.thy ===== *)
theory Conn_Login
  imports Conn_Options
begin

text \<open>
  How a peer gets in (\<open>src/server/connection.rs\<close>): the whitelist, \<open>on_open\<close>, the branches of
  \<open>on_message\<close> that an unauthorized peer reaches (\<open>LoginRequest\<close>, \<open>Auth2fa\<close>, \<open>TestDelay\<close>,
  \<open>SwitchSidesResponse\<close>), \<open>send_logon_response\<close>, and the end of a connection. A handler that
  returns false ends the connection; the flag comes with the new state.
\<close>

section \<open>The messages of the login\<close>

definition LOGIN_MSG_DESKTOP_SESSION_NOT_READY :: string where
  "LOGIN_MSG_DESKTOP_SESSION_NOT_READY = ''Desktop session not ready''"
definition LOGIN_MSG_DESKTOP_SESSION_NOT_READY_PASSWORD_EMPTY :: string where
  "LOGIN_MSG_DESKTOP_SESSION_NOT_READY_PASSWORD_EMPTY = ''Desktop session not ready, password empty''"
definition LOGIN_MSG_DESKTOP_SESSION_NOT_READY_PASSWORD_WRONG :: string where
  "LOGIN_MSG_DESKTOP_SESSION_NOT_READY_PASSWORD_WRONG = ''Desktop session not ready, password wrong''"
definition LOGIN_MSG_PASSWORD_WRONG :: string where "LOGIN_MSG_PASSWORD_WRONG = ''Wrong Password''"
definition LOGIN_MSG_2FA_WRONG :: string where "LOGIN_MSG_2FA_WRONG = ''Wrong 2FA Code''"
definition REQUIRE_2FA :: string where "REQUIRE_2FA = ''2FA Required''"
definition LOGIN_MSG_NO_PASSWORD_ACCESS :: string where
  "LOGIN_MSG_NO_PASSWORD_ACCESS = ''No Password Access''"
definition LOGIN_MSG_OFFLINE :: string where "LOGIN_MSG_OFFLINE = ''Offline''"
definition LOGIN_SCREEN_WAYLAND :: string where
  "LOGIN_SCREEN_WAYLAND = ''Wayland login screen is not supported''"

section \<open>Opening a connection\<close>

definition check_whitelist :: "env \<Rightarrow> string \<Rightarrow> connection \<Rightarrow> bool \<times> connection" where
  "check_whitelist e ip s =
     (let whitelist = filter (\<lambda>x. x \<noteq> []) (split_on CHR '','' (e_options e ''whitelist'')) in
      if whitelist \<noteq> [] \<and> filter (\<lambda>x. x = ''0.0.0.0'') whitelist = [] \<and>
         filter (\<lambda>x. case e_cidr e x of Some contains \<Rightarrow> contains ip | None \<Rightarrow> False) whitelist = []
      then (False, post_alarm_audit e IpWhitelist ip
                     (send_login_error ''Your ip is blocked by the peer'' s))
      else (True, s))"

definition on_open :: "env \<Rightarrow> string \<Rightarrow> string \<Rightarrow> string \<Rightarrow> connection \<Rightarrow> bool \<times> connection" where
  "on_open e ip salt challenge s =
     (let (ok, s) = check_whitelist e ip s in
      if \<not> ok then (False, s)
      else if e_is_server e \<and> e_options e ''allow-only-conn-window-open'' = ''Y'' \<and>
              \<not> e_main_window_open e
      then (False, send_login_error ''The main window is not open'' s)
      else
        (let s = s\<lparr>c_ip := ip\<rparr>;
             s = send (MsgHash salt challenge) s;
             s = get_api_server e s
         in (True, post_conn_audit (AuditNew ip) s)))"

section \<open>Being authorized\<close>

definition update_codec_on_login :: "env \<Rightarrow> connection \<Rightarrow> connection" where
  "update_codec_on_login e s =
     (case lr_option (c_lr s) of
        Some opts \<Rightarrow>
          (case om_supported_decoding opts of
             Some q \<Rightarrow> with_encoder e (Update (c_id s) q) s
           | None \<Rightarrow> with_encoder e (NewOnlyVP9 (c_id s)) s)
      | None \<Rightarrow> with_encoder e (NewOnlyVP9 (c_id s)) s)"

definition on_remote_authorized :: "env \<Rightarrow> connection \<Rightarrow> connection" where
  "on_remote_authorized e s =
     (let s = update_codec_on_login e s in
      if e_options e ''allow-remove-wallpaper'' \<noteq> [] \<and> \<not> w_wallpaper s \<and> e_wallpaper e
      then s\<lparr>w_wallpaper := True\<rparr> else s)"

definition try_start_cm :: "string \<Rightarrow> string \<Rightarrow> bool \<Rightarrow> connection \<Rightarrow> connection" where
  "try_start_cm peer_id name authorized s =
     send_to_cm (CmLogin
       \<lparr>cl_id = c_id s, cl_is_file_transfer = (c_file_transfer s \<noteq> None),
        cl_port_forward = c_port_forward_address s, cl_peer_id = peer_id, cl_name = name,
        cl_authorized = authorized, cl_keyboard = c_keyboard s, cl_clipboard = c_clipboard s,
        cl_audio = c_audio s, cl_file = c_file s, cl_file_transfer_enabled = c_file s,
        cl_restart = c_restart s, cl_recording = c_recording s, cl_block_input = c_block_input s,
        cl_from_switch = c_from_switch s\<rparr>) s"

definition try_start_cm_ipc :: "connection \<Rightarrow> connection" where
  "try_start_cm_ipc s =
     (if c_start_cm_ipc_para s then emit StartCm (s\<lparr>c_start_cm_ipc_para := False\<rparr>) else s)"

definition wait_desktop_cm_ready :: "env \<Rightarrow> connection \<Rightarrow> connection" where
  "wait_desktop_cm_ready e s = (if e_is_headless e then emit WaitDesktopReady s else s)"

definition try_start_desktop :: "env \<Rightarrow> (string \<times> string) option \<Rightarrow> string" where
  "try_start_desktop e os_login =
     (if e_headless_allowed e then
        (case os_login of
           Some (username, password) \<Rightarrow> e_start_desktop e username password
         | None \<Rightarrow> e_start_desktop e [] [])
      else [])"

definition base_peer_info :: "env \<Rightarrow> peer_info" where
  "base_peer_info e =
     \<lparr>pi_username = e_username e, pi_hostname = e_hostname e, pi_platform = e_platform e,
      pi_displays = [], pi_current_display = 0, pi_sas_enabled = False, pi_version = e_version e,
      pi_privacy_mode = None, pi_encoding = None, pi_resolutions = None,
      pi_platform_additions = e_platform_additions e, pi_windows_sessions = ([], 0)\<rparr>"

definition send_login_response :: "login_response \<Rightarrow> connection \<Rightarrow> connection" where
  "send_login_response res = send (MsgLoginResponse res)"

text \<open>The end of \<open>send_logon_response\<close>: the options of the login, then the directory or the services.\<close>

definition after_logon :: "env \<Rightarrow> bool \<Rightarrow> connection \<Rightarrow> connection" where
  "after_logon e sub_service s =
     (let s = (case c_options_in_login s of
                 Some opts \<Rightarrow> update_options e opts (s\<lparr>c_options_in_login := None\<rparr>) | None \<Rightarrow> s)
      in case c_file_transfer s of
           Some (dir, show_hidden) \<Rightarrow>
             read_dir (if dir \<noteq> [] \<and> e_is_dir e dir then dir else []) show_hidden s
         | None \<Rightarrow> if sub_service then try_sub_services e s else s)"

text \<open>A remote session: the encodings, the resolutions and the displays of the answer.\<close>

definition logon_remote :: "env \<Rightarrow> peer_info \<Rightarrow> connection \<Rightarrow> connection" where
  "logon_remote e pinfo s =
     (let encoding = supported_encoding (e_codec e);
          s = s\<lparr>c_last_supported_encoding := Some encoding\<rparr>;
          s = (case e_inited_msg e of Some msg \<Rightarrow> send msg s | None \<Rightarrow> s);
          resolutions =
            (case e_try_displays e of
               Some ds \<Rightarrow> if c_display_idx s < length ds then e_resolutions e (di_name (ds ! c_display_idx s)) else []
             | None \<Rightarrow> []);
          pinfo = pinfo\<lparr>pi_encoding := Some encoding, pi_resolutions := Some resolutions\<rparr>
      in case e_displays e of
           Inl err \<Rightarrow>
             after_logon e False (send_login_response (LoginError err) (on_remote_authorized e s))
         | Inr displays \<Rightarrow>
             (let pinfo = pinfo\<lparr>pi_displays := displays, pi_current_display := of_nat (c_display_idx s)\<rparr>;
                  s = (if \<not> e_is_x11 e \<and> \<not> e_is_server e then emit SetupRdpInput s else s)
              in after_logon e True (send_login_response (LoginPeerInfo pinfo) (on_remote_authorized e s))))"

definition logon_type :: "connection \<Rightarrow> nat \<times> auth_conn_type" where
  "logon_type s =
     (if c_file_transfer s \<noteq> None then (1, AuthFileTransfer)
      else if c_port_forward s then (2, AuthPortForward) else (0, AuthRemote))"

definition logon_begin :: "connection \<Rightarrow> connection" where
  "logon_begin s =
     (let s = s\<lparr>c_authorized := True\<rparr>;
          (conn_type, auth_type) = logon_type s;
          s = (authed_conn_id_new (c_id s) auth_type s)\<lparr>c_authed_conn_id := Some (c_id s, auth_type)\<rparr>
      in post_conn_audit (AuditLogin (lr_my_id (c_lr s)) (lr_my_name (c_lr s)) conn_type) s)"

definition logon_answer :: "env \<Rightarrow> connection \<Rightarrow> connection" where
  "logon_answer e s =
     (let pinfo = base_peer_info e in
      if c_port_forward s then send_login_response (LoginPeerInfo pinfo) s
      else if c_file_transfer s = None \<and> e_display_server e \<noteq> ''x11'' \<and> e_display_server e \<noteq> ''wayland'' then
        send_login_response (LoginError
          (if e_login_screen_wayland e then LOGIN_SCREEN_WAYLAND
           else ''Unsupported display server type \"'' @ e_display_server e @
                ''\", x11 or wayland expected'')) s
      else if c_file_transfer s \<noteq> None then
        (let s = (if e_prelogin e then s else send_to_cm CmTest s);
             username = (if e_prelogin e \<or> e_cm_gone e then [] else e_username e)
         in after_logon e False (send_login_response (LoginPeerInfo
              (pinfo\<lparr>pi_username := username,
                     pi_privacy_mode := Some (is_privacy_mode_supported (e_privacy e))\<rparr>)) s))
      else
        logon_remote e (pinfo\<lparr>pi_privacy_mode := Some (is_privacy_mode_supported (e_privacy e))\<rparr>) s)"

definition logon :: "env \<Rightarrow> connection \<Rightarrow> connection" where
  "logon e s = logon_answer e (logon_begin s)"

definition second_factor_missing :: "env \<Rightarrow> connection \<Rightarrow> bool \<times> connection" where
  "second_factor_missing e s =
     (if c_require_2fa s \<noteq> None then
        (let (recent, s) = is_recent_session e True s in (\<not> recent \<and> \<not> c_from_switch s, s))
      else (False, s))"

definition send_logon_response :: "env \<Rightarrow> connection \<Rightarrow> connection" where
  "send_logon_response e s =
     (if c_authorized s then s
      else (let (missing, s) = second_factor_missing e s in
            if missing then send_login_error REQUIRE_2FA s else logon e s))"

section \<open>The branches of on_message before authorization\<close>

definition handle_login_request_without_validation :: "login_request \<Rightarrow> connection \<Rightarrow> connection" where
  "handle_login_request_without_validation lr s =
     (let s = s\<lparr>c_lr := lr\<rparr>;
          s = (case lr_option lr of Some opts \<Rightarrow> s\<lparr>c_options_in_login := Some opts\<rparr> | None \<Rightarrow> s)
      in s\<lparr>c_video_ack_required := lr_video_ack_required lr\<rparr>)"

text \<open>What the request asks for: a file transfer, a tunnel, or a remote session. A result of
  \<open>Some b\<close> returns \<open>b\<close> from \<open>on_message\<close>.\<close>

definition login_port_forward :: "env \<Rightarrow> string \<Rightarrow> int \<Rightarrow> connection \<Rightarrow> bool option \<times> connection" where
  "login_port_forward e host port s =
     (if \<not> conn_permission (e_options e) ''enable-tunnel'' then
        (Some False, send_login_error ''No permission of IP tunneling'' s)
      else
        (let is_rdp = (host = ''RDP'' \<and> port = 0);
             (host, port) = (if is_rdp then (''localhost'', 3389) else (host, port));
             host = (if host = [] then ''localhost'' else host);
             addr = host @ '':'' @ show_int port;
             s = s\<lparr>c_port_forward_address := addr\<rparr>;
             s = emit (TcpConnect addr) s
         in if e_tcp_connect e addr then (None, s\<lparr>c_port_forward := True\<rparr>)
            else (Some False, send_login_error
                    (''Failed to access remote '' @ (if is_rdp then ''RDP'' else addr) @
                     '', please make sure if it is open'') s)))"

definition login_kind :: "env \<Rightarrow> login_union option \<Rightarrow> connection \<Rightarrow> bool option \<times> connection" where
  "login_kind e u s =
     (case u of
        Some (LrFileTransfer dir show_hidden) \<Rightarrow>
          if \<not> conn_permission (e_options e) ''enable-file-transfer'' then
            (Some False, send_login_error ''No permission of file transfer'' s)
          else (None, s\<lparr>c_file_transfer := Some (dir, show_hidden)\<rparr>)
      | Some (LrPortForward host port) \<Rightarrow> login_port_forward e host port s
      | None \<Rightarrow>
          if is_in_privacy_mode (w_privacy s) then
            (Some False, send_login_error ''Someone turns on privacy mode, exit'' s)
          else (None, s))"

text \<open>The peer has shown who it is: a desktop that is not ready is told, else it is let in.\<close>

definition login_accepted :: "env \<Rightarrow> string \<Rightarrow> login_request \<Rightarrow> connection \<Rightarrow> connection" where
  "login_accepted e err_msg lr s =
     (if err_msg = [] then
        (let s = send_logon_response e (wait_desktop_cm_ready e s)
         in try_start_cm (lr_my_id lr) (lr_my_name lr) (c_authorized s) s)
      else send_login_error err_msg s)"

definition login_password :: "env \<Rightarrow> string \<Rightarrow> login_request \<Rightarrow> connection \<Rightarrow> connection" where
  "login_password e err_msg lr s =
     (let ((failure, res), s) = check_failure e 0 s in
      if \<not> res then s
      else
        (let (ok, s) = validate_password e s in
         if \<not> ok then
           (let s = update_failure failure False 0 s in
            if err_msg = [] then
              try_start_cm (lr_my_id lr) (lr_my_name lr) False (send_login_error LOGIN_MSG_PASSWORD_WRONG s)
            else send_login_error LOGIN_MSG_DESKTOP_SESSION_NOT_READY_PASSWORD_WRONG s)
         else login_accepted e err_msg lr (update_failure failure True 0 s)))"

definition login_validate :: "env \<Rightarrow> string \<Rightarrow> login_request \<Rightarrow> connection \<Rightarrow> bool \<times> connection" where
  "login_validate e err_msg lr s =
     (let opt = e_options e;
          valid = has_valid_password opt (w_temporary_password s) (e_permanent_password e)
      in if \<not> e_is_ip_str e (lr_username lr) \<and> \<not> e_is_domain_port_str e (lr_username lr) \<and>
            lr_username lr \<noteq> e_id e
         then (False, send_login_error LOGIN_MSG_OFFLINE s)
         else if get_approve_mode opt = ApproveClick \<or> get_approve_mode opt = ApproveBoth \<and> \<not> valid then
           (let s = try_start_cm (lr_my_id lr) (lr_my_name lr) False s in
            (True, if sint (get_version_number (lr_version lr)) \<ge> sint (get_version_number ''1.2.0'')
                   then send_login_error LOGIN_MSG_NO_PASSWORD_ACCESS s else s))
         else if get_approve_mode opt = ApprovePassword \<and> \<not> valid then
           (False, send_login_error ''Connection not allowed'' s)
         else
           (let (recent, s) = is_recent_session e False s in
            if recent then (True, login_accepted e err_msg lr s)
            else if lr_password lr = [] then
              (True, if err_msg = [] then try_start_cm (lr_my_id lr) (lr_my_name lr) False s
                     else send_login_error LOGIN_MSG_DESKTOP_SESSION_NOT_READY_PASSWORD_EMPTY s)
            else (True, login_password e err_msg lr s)))"

definition on_login_request :: "env \<Rightarrow> login_request \<Rightarrow> connection \<Rightarrow> bool \<times> connection" where
  "on_login_request e lr s =
     (let s = handle_login_request_without_validation lr s in
      if c_authorized s then (True, s)
      else
        (case login_kind e (lr_union lr) s of
           (Some b, s) \<Rightarrow> (b, s)
         | (None, s) \<Rightarrow>
             (let s = try_start_cm_ipc s;
                  err_msg = try_start_desktop e (lr_os_login lr)
              in if err_msg \<noteq> [] \<and> err_msg \<noteq> LOGIN_MSG_DESKTOP_SESSION_NOT_READY
                 then (True, send_login_error err_msg s)
                 else login_validate e err_msg lr s)))"

definition mark_session_tfa :: "connection \<Rightarrow> connection" where
  "mark_session_tfa s =
     (case hm_get (w_sessions s) (lr_my_id (c_lr s)) of
        Some ses \<Rightarrow> insert_session (ses\<lparr>ses_tfa := True\<rparr>) s
      | None \<Rightarrow> insert_session
          \<lparr>ses_name = lr_my_name (c_lr s), ses_id = lr_session_id (c_lr s), ses_recv = c_recv_cell s,
           ses_password = [], ses_tfa = True\<rparr> s)"

definition on_auth_2fa :: "env \<Rightarrow> string \<Rightarrow> connection \<Rightarrow> bool \<times> connection" where
  "on_auth_2fa e code s =
     (let ((failure, res), s) = check_failure e 1 s in
      if \<not> res then (True, s)
      else
        (case c_require_2fa s of
           None \<Rightarrow> (True, s)
         | Some totp \<Rightarrow>
             (case e_check_totp e totp code of
                None \<Rightarrow> (True, s)
              | Some True \<Rightarrow>
                  (let s = update_failure failure True 1 s;
                       s = s\<lparr>c_require_2fa := None\<rparr>;
                       s = send_logon_response e s;
                       s = try_start_cm (lr_my_id (c_lr s)) (lr_my_name (c_lr s)) (c_authorized s) s
                   in (True, mark_session_tfa s))
              | Some False \<Rightarrow>
                  (True, send_login_error LOGIN_MSG_2FA_WRONG (update_failure failure False 1 s)))))"

definition on_test_delay :: "env \<Rightarrow> test_delay \<Rightarrow> connection \<Rightarrow> bool \<times> connection" where
  "on_test_delay e t s =
     (if td_from_client t then (True, inner_send (MsgTestDelay t) s)
      else
        (let s = (case c_last_test_delay s of
                    None \<Rightarrow> s
                  | Some tm \<Rightarrow>
                      (let new_delay = of_nat (e_now e - tm)
                       in with_qos (user_network_delay (e_options e) (c_id s) new_delay)
                            (s\<lparr>c_last_test_delay := None, c_network_delay := new_delay\<rparr>)))
         in (True, s\<lparr>c_delay_response_instant := e_now e\<rparr>)))"

definition retain_switch_uuids :: "env \<Rightarrow> connection \<Rightarrow> connection" where
  "retain_switch_uuids e s =
     s\<lparr>w_switch_uuids := hm_retain (\<lambda>_ v. e_now e - fst v < 10000) (w_switch_uuids s)\<rparr>"

definition on_switch_sides_response :: "env \<Rightarrow> bytes \<Rightarrow> login_request option \<Rightarrow> connection \<Rightarrow> bool \<times> connection" where
  "on_switch_sides_response e uuid lr s =
     (case lr of
        None \<Rightarrow> (True, s)
      | Some lr \<Rightarrow>
          (let s = handle_login_request_without_validation lr s;
               s = retain_switch_uuids e s;
               uuid_old = hm_get (w_switch_uuids s) (lr_my_id lr);
               s = s\<lparr>w_switch_uuids := hm_remove (lr_my_id lr) (w_switch_uuids s)\<rparr>
           in case (e_uuid_from_slice e uuid, uuid_old) of
                (Some u, Some (_, u_old)) \<Rightarrow>
                  if u = u_old then
                    (let s = s\<lparr>c_from_switch := True\<rparr>;
                         s = send_logon_response e s;
                         s = try_start_cm (lr_my_id lr) (lr_my_name lr) (c_authorized s) s
                     in (True, try_start_cm_ipc s))
                  else (True, s)
              | _ \<Rightarrow> (True, s)))"

text \<open>\<open>insert_switch_sides_uuid\<close>, called when the local user asks to switch sides.\<close>

definition insert_switch_sides_uuid :: "env \<Rightarrow> string \<Rightarrow> bytes \<Rightarrow> connection \<Rightarrow> connection" where
  "insert_switch_sides_uuid e i uuid s =
     s\<lparr>w_switch_uuids := hm_insert i (e_now e, uuid) (w_switch_uuids s)\<rparr>"

section \<open>Closing\<close>

definition on_close :: "bool \<Rightarrow> connection \<Rightarrow> connection" where
  "on_close lock s =
     (if c_closed s then s
      else
        (let s = s\<lparr>c_closed := True\<rparr>;
             s = (if lock \<and> c_lock_after_session_end s \<and> c_keyboard s then emit LockScreen s else s);
             data = (if c_chat_unanswered s \<or> c_file_transferred s then CmDisconnected else CmClose)
         in (send_to_cm data s)\<lparr>c_port_forward := False\<rparr>))"

definition send_close_reason_no_retry :: "string \<Rightarrow> connection \<Rightarrow> connection" where
  "send_close_reason_no_retry reason s =
     (let s = send (MsgMisc (Some (MiscCloseReason
                (if reason = [] then ''Closed manually by the peer'' else reason)))) s
      in s\<lparr>w_sessions := hm_remove (lr_my_id (c_lr s)) (w_sessions s)\<rparr>)"

end
