(* ===== verification/Conn_Message.thy ===== *)
theory Conn_Message
  imports Conn_Login
begin

text \<open>
  What an authorized peer can do (\<open>src/server/connection.rs\<close>): the last branch of \<open>on_message\<close>
  with the handlers it calls, and \<open>on_message\<close> itself.
\<close>

section \<open>Input\<close>

text \<open>\<open>is_left_up\<close> of \<open>input_service.rs\<close>: the event type is in the low three bits of the mask.\<close>

definition is_left_up :: "mouse_event \<Rightarrow> bool" where
  "is_left_up evt = (signed_drop_bit 3 (me_mask evt) = 1 \<and> me_mask evt AND 7 = 2)"

definition is_enter :: "key_event \<Rightarrow> bool" where
  "is_enter evt = (ke_union evt \<in> {Some (KeyControl CkReturn), Some (KeyControl CkNumpadEnter)})"

fun is_modifier_key :: "control_key \<Rightarrow> bool" where
  "is_modifier_key CkReturn = False"
| "is_modifier_key CkNumpadEnter = False"
| "is_modifier_key (CkOther _) = False"
| "is_modifier_key _ = True"

definition is_modifier :: "key_event \<Rightarrow> bool" where
  "is_modifier evt = (case ke_union evt of Some (KeyControl ck) \<Rightarrow> is_modifier_key ck | _ \<Rightarrow> False)"

fun rdev_is_modifier :: "rdev_key \<Rightarrow> bool" where
  "rdev_is_modifier (OtherKey _) = False"
| "rdev_is_modifier _ = True"

definition key_chr :: "key_event \<Rightarrow> u32" where
  "key_chr evt = (case ke_union evt of Some (KeyChr c) \<Rightarrow> c | _ \<Rightarrow> 0)"

definition on_mouse_event :: "env \<Rightarrow> mouse_event \<Rightarrow> connection \<Rightarrow> connection" where
  "on_mouse_event e me s =
     update_auto_disconnect_timer e
       (if peer_keyboard_enabled s then
          input_mouse me (c_id s)
            (if is_left_up me then s\<lparr>w_click_time := e_time e\<rparr> else s\<lparr>w_mouse_move_time := e_time e\<rparr>)
        else s)"

definition on_pointer_event :: "env \<Rightarrow> bytes \<Rightarrow> connection \<Rightarrow> connection" where
  "on_pointer_event e pde s =
     update_auto_disconnect_timer e
       (if peer_keyboard_enabled s then
          input_pointer pde (c_id s) (s\<lparr>w_mouse_move_time := e_time e\<rparr>)
        else s)"

text \<open>The key of a modifier in the map and translate modes.\<close>

definition modifier_of :: "env \<Rightarrow> key_event \<Rightarrow> rdev_key option" where
  "modifier_of e me =
     (case (case ke_mode me of
              KmMap \<Rightarrow> Some (e_key e (key_chr me))
            | KmTranslate \<Rightarrow> (case ke_union me of
                              Some (KeyChr code) \<Rightarrow> Some (e_key e (code AND 0xFFFF)) | _ \<Rightarrow> None)
            | _ \<Rightarrow> None) of
        Some k \<Rightarrow> if rdev_is_modifier k then Some k else None
      | None \<Rightarrow> None)"

definition on_key_event :: "env \<Rightarrow> key_event \<Rightarrow> connection \<Rightarrow> connection" where
  "on_key_event e me s =
     update_auto_disconnect_timer e
       (if peer_keyboard_enabled s then
          (let s = (if is_enter me then s\<lparr>w_click_time := e_time e\<rparr> else s);
               is_press = ((ke_press me \<or> ke_down me) \<and> \<not> is_modifier me);
               s = (case modifier_of e me of
                      Some k \<Rightarrow>
                        s\<lparr>c_pressed_modifiers :=
                            (if is_press then List.insert k (c_pressed_modifiers s)
                             else removeAll k (c_pressed_modifiers s))\<rparr>
                    | None \<Rightarrow> s)
           in if is_press then
                (case ke_union me of
                   Some (KeyUnicode _) \<Rightarrow> input_key me False s
                 | Some (KeySeq _) \<Rightarrow> input_key me False s
                 | _ \<Rightarrow> input_key me True s)
              else input_key me False s)
        else s)"

section \<open>Displays\<close>

definition refresh_video_display :: "nat option \<Rightarrow> connection \<Rightarrow> connection" where
  "refresh_video_display display = with_server (set_video_service_opt display ''refresh'' ''1'')"

definition change_resolution :: "env \<Rightarrow> nat option \<Rightarrow> i32 \<Rightarrow> i32 \<Rightarrow> connection \<Rightarrow> connection" where
  "change_resolution e d w h s =
     (if c_keyboard s then
        (case e_try_displays e of
           None \<Rightarrow> s
         | Some displays \<Rightarrow>
             (let idx = (case d of Some i \<Rightarrow> i | None \<Rightarrow> c_display_idx s) in
              if idx < length displays then
                (let dsp = displays ! idx in
                 emit (ChangeResolution (di_name dsp) w h)
                   (emit (RecordResolution (di_name dsp) (di_width dsp, di_height dsp) (w, h)) s))
              else s))
      else s)"

text \<open>\<open>is_support_multi_ui_session\<close> of \<open>common.rs\<close>.\<close>

definition is_support_multi_ui_session :: "string \<Rightarrow> bool" where
  "is_support_multi_ui_session ver = (sint (get_version_number ver) \<ge> sint (get_version_number ''1.2.4''))"

text \<open>A video service for a display is made when the first connection asks for it.\<close>

definition add_video_service :: "nat \<Rightarrow> server \<Rightarrow> server" where
  "add_video_service display srv =
     (if server_contains (get_service_name display) srv then srv
      else add_service (video_service_new display) srv)"

definition switch_display_to :: "env \<Rightarrow> nat \<Rightarrow> connection \<Rightarrow> connection" where
  "switch_display_to e display_idx s =
     (let new_name = get_service_name display_idx;
          old_name = get_service_name (c_display_idx s);
          s = (if display_idx \<noteq> e_primary e then with_server (add_video_service display_idx) s else s);
          s = (if \<not> is_support_multi_ui_session (lr_version (c_lr s)) then subscribe old_name False s else s);
          s = subscribe new_name True s
      in s\<lparr>c_display_idx := display_idx\<rparr>)"

definition handle_switch_display :: "env \<Rightarrow> switch_display \<Rightarrow> connection \<Rightarrow> connection" where
  "handle_switch_display e sd s =
     (let display_idx = as_usize (sw_display sd) in
      if c_display_idx s \<noteq> display_idx then
        (let s = (if w_server s \<noteq> None then
                    (let s = switch_display_to e display_idx s in
                     if sw_width sd \<noteq> 0 \<and> sw_height sd \<noteq> 0
                     then change_resolution e None (sw_width sd) (sw_height sd) s else s)
                  else s)
         in case e_display_changed e (c_display_idx s) of Some msg \<Rightarrow> send msg s | None \<Rightarrow> s)
      else s)"

definition capture_displays :: "nat list \<Rightarrow> nat list \<Rightarrow> nat list \<Rightarrow> connection \<Rightarrow> connection" where
  "capture_displays add sub sets s =
     (case w_server s of
        None \<Rightarrow> s
      | Some srv \<Rightarrow>
          (let srv = fold add_video_service sets (fold add_video_service add srv);
               srv = (if add \<noteq> [] then server_capture_displays (c_inner s) add True False srv
                      else if sub \<noteq> [] then server_capture_displays (c_inner s) sub False True srv
                      else server_capture_displays (c_inner s) sets True True srv);
               multi = (get_subbed_displays_count (c_id s) srv > 1);
               srv = (if c_follow_remote_window s
                      then server_subscribe NAME_WINDOW_FOCUS (c_inner s) (\<not> multi) srv else srv)
           in s\<lparr>w_server := Some srv, c_multi_ui_session := multi\<rparr>))"

section \<open>Voice calls\<close>

definition close_voice_call :: "connection \<Rightarrow> connection" where
  "close_voice_call s =
     (let s = (case c_audio_input_before_voice_call s of
                 Some d \<Rightarrow> emit (SetSoundInput d) (s\<lparr>c_audio_input_before_voice_call := None\<rparr>)
               | None \<Rightarrow> s)
      in send_to_cm (CmCloseVoiceCall []) s)"

definition on_voice_call_request :: "env \<Rightarrow> bool \<Rightarrow> i64 \<Rightarrow> connection \<Rightarrow> connection" where
  "on_voice_call_request e is_connect ts s =
     (if is_connect then
        send_to_cm CmVoiceCallIncoming
          (s\<lparr>c_voice_call_request_timestamp := Some (if ts \<noteq> 0 then ts else of_nat (e_time e))\<rparr>)
      else close_voice_call s)"

section \<open>Files\<close>

definition on_file_send :: "env \<Rightarrow> i32 \<Rightarrow> string \<Rightarrow> bool \<Rightarrow> i32 \<Rightarrow> connection \<Rightarrow> connection" where
  "on_file_send e i path include_hidden file_num s =
     (let od = can_enable_overwrite_detection (get_version_number (lr_version (c_lr s)));
          s = (case new_read (e_nodes e) i [] path file_num include_hidden False od of
                 Inl err \<Rightarrow> send (new_error i err 0) s
               | Inr job \<Rightarrow>
                   (let s = send (new_dir i path (tj_files job)) s;
                        files = map (\<lambda>f. (fe_name f, fe_size f)) (tj_files job);
                        job = job\<lparr>tj_is_remote := True, tj_conn_id := c_id s\<rparr>;
                        s = s\<lparr>c_read_jobs := c_read_jobs s @ [job], c_file_timer_fast := True\<rparr>
                    in post_file_audit RemoteSend path files s))
      in s\<lparr>c_file_transferred := True\<rparr>)"

definition on_file_receive ::
    "i32 \<Rightarrow> string \<Rightarrow> file_entry list \<Rightarrow> i32 \<Rightarrow> u64 \<Rightarrow> connection \<Rightarrow> connection" where
  "on_file_receive i path files file_num total_size s =
     (let od = can_enable_overwrite_detection (get_version_number (lr_version (c_lr s)));
          s = send_fs (FsNewWrite i path file_num (map (\<lambda>f. (fe_name f, fe_modified_time f)) files) od
                total_size (c_id s)) s;
          s = post_file_audit RemoteReceive path (map (\<lambda>f. (fe_name f, fe_size f)) files) s
      in s\<lparr>c_file_transferred := True\<rparr>)"

definition on_file_action :: "env \<Rightarrow> file_action option \<Rightarrow> connection \<Rightarrow> connection" where
  "on_file_action e fa s =
     (if c_file_transfer s = None then s
      else if c_delayed_read_dir s \<noteq> None then
        (case fa of
           Some (FaReadDir path hidden) \<Rightarrow> s\<lparr>c_delayed_read_dir := Some (path, hidden)\<rparr>
         | _ \<Rightarrow> s)
      else
        (case fa of
           None \<Rightarrow> s
         | Some (FaReadDir path hidden) \<Rightarrow> read_dir path hidden s
         | Some (FaAllFiles i path hidden) \<Rightarrow>
             (case get_recursive_files (e_nodes e) path hidden of
                Inl err \<Rightarrow> send (new_error i err (- 1)) s
              | Inr files \<Rightarrow> send (new_dir i path files) s)
         | Some (FaSend i path hidden file_num) \<Rightarrow> on_file_send e i path hidden file_num s
         | Some (FaReceive i path files file_num total_size) \<Rightarrow>
             on_file_receive i path files file_num total_size s
         | Some (FaRemoveDir i path recursive) \<Rightarrow>
             (let s = send_fs (FsRemoveDir i path recursive) s in
              s\<lparr>c_file_remove_log := snd (on_remove_dir e
                  \<lparr>rd_id = i, rd_path = path, rd_recursive = recursive\<rparr> (c_file_remove_log s))\<rparr>)
         | Some (FaRemoveFile i path file_num) \<Rightarrow>
             (let s = send_fs (FsRemoveFile i path file_num) s in
              s\<lparr>c_file_remove_log := snd (on_remove_file e
                  \<lparr>rf_id = i, rf_path = path, rf_file_num = file_num\<rparr> (c_file_remove_log s))\<rparr>)
         | Some (FaCreate i path) \<Rightarrow>
             send_to_cm (CmFileTransferLog ''create_dir'' (ActionLog i (c_id s) path True))
               (send_fs (FsCreateDir i path) s)
         | Some (FaCancel i) \<Rightarrow>
             (let s = send_fs (FsCancelWrite i) s;
                  s = (case get_job i (c_read_jobs s) of
                         Some job \<Rightarrow> send_to_cm (CmFileTransferLog ''transfer'' (JobLog job False True [])) s
                       | None \<Rightarrow> s)
              in s\<lparr>c_read_jobs := remove_job i (c_read_jobs s)\<rparr>)
         | Some (FaSendConfirm i file_num u) \<Rightarrow>
             s\<lparr>c_read_jobs := update_job i (job_confirm file_num u) (c_read_jobs s)\<rparr>))"

definition on_file_response :: "file_response option \<Rightarrow> connection \<Rightarrow> connection" where
  "on_file_response fr s =
     (case fr of
        Some (FrBlock i file_num data compressed _) \<Rightarrow> send_fs (FsWriteBlock i file_num data compressed) s
      | Some (FrDone i file_num) \<Rightarrow> send_fs (FsWriteDone i file_num) s
      | Some (FrDigest i file_num last_modified file_size _ _) \<Rightarrow>
          send_fs (FsCheckDigest i file_num file_size last_modified True) s
      | Some (FrError i err file_num) \<Rightarrow> send_fs (FsWriteError i file_num err) s
      | _ \<Rightarrow> s)"

section \<open>Miscellaneous messages\<close>

definition on_switch_sides_request :: "env \<Rightarrow> bytes \<Rightarrow> connection \<Rightarrow> bool \<times> connection" where
  "on_switch_sides_request e uuid s =
     (case e_uuid_from_slice e uuid of
        Some u \<Rightarrow>
          (False, on_close False (emit (RunMe [''--connect'', lr_my_id (c_lr s), ''--switch_uuid'',
                                              e_uuid_string e u]) s))
      | None \<Rightarrow> (True, s))"

definition on_misc :: "env \<Rightarrow> misc option \<Rightarrow> connection \<Rightarrow> bool \<times> connection" where
  "on_misc e m s =
     (case m of
        Some (MiscSwitchDisplay sd) \<Rightarrow> (True, handle_switch_display e sd s)
      | Some (MiscCaptureDisplays add sub sets) \<Rightarrow>
          (True, capture_displays (map as_usize add) (map as_usize sub) (map as_usize sets) s)
      | Some (MiscTogglePrivacyMode impl_key on) \<Rightarrow> (True, toggle_privacy_mode e impl_key on s)
      | Some (MiscChatMessage txt) \<Rightarrow>
          (True, update_auto_disconnect_timer e
                   ((send_to_cm (CmChatMessage txt) s)\<lparr>c_chat_unanswered := True\<rparr>))
      | Some (MiscOption opts) \<Rightarrow> (True, update_options e opts s)
      | Some (MiscRefreshVideo r) \<Rightarrow>
          (True, update_auto_disconnect_timer e (if r then refresh_video_display None s else s))
      | Some (MiscRefreshVideoDisplay display) \<Rightarrow>
          (True, update_auto_disconnect_timer e (refresh_video_display (Some (as_usize display)) s))
      | Some (MiscVideoReceived _) \<Rightarrow> (True, emit (VideoFetched (c_id s) True) s)
      | Some (MiscCloseReason _) \<Rightarrow>
          (let s = on_close True s in
           (False, s\<lparr>w_sessions := hm_remove (lr_my_id (c_lr s)) (w_sessions s)\<rparr>))
      | Some (MiscRestartRemoteDevice _) \<Rightarrow>
          (True, if c_restart s then emit (Reboot False) (emit (Reboot True) s) else s)
      | Some (MiscAudioFormat fmt) \<Rightarrow>
          (True, if \<not> c_disable_audio s
                 then emit (AudioFormatTo fmt) (emit AudioThread (s\<lparr>c_audio_sender := True\<rparr>)) else s)
      | Some (MiscSwitchSidesRequest uuid) \<Rightarrow> on_switch_sides_request e uuid s
      | Some (MiscChangeResolution w h) \<Rightarrow> (True, change_resolution e None w h s)
      | Some (MiscChangeDisplayResolution display w h) \<Rightarrow>
          (True, change_resolution e (Some (as_usize display)) w h s)
      | Some (MiscAutoAdjustFps fps) \<Rightarrow>
          (True, with_qos (user_auto_adjust_fps (e_options e) (c_id s) fps) s)
      | Some (MiscClientRecordStatus status) \<Rightarrow> (True, with_qos (user_record (c_id s) status) s)
      | Some (MiscMessageQuery display) \<Rightarrow>
          (True, case e_display_changed e (as_usize display) of Some msg \<Rightarrow> send msg s | None \<Rightarrow> s)
      | _ \<Rightarrow> (True, s))"

section \<open>on_message\<close>

definition on_authorized_message :: "env \<Rightarrow> message \<Rightarrow> connection \<Rightarrow> bool \<times> connection" where
  "on_authorized_message e msg s =
     (case msg of
        MsgMouseEvent me \<Rightarrow> (True, on_mouse_event e me s)
      | MsgPointerDeviceEvent pde \<Rightarrow> (True, on_pointer_event e pde s)
      | MsgKeyEvent me \<Rightarrow> (True, on_key_event e me s)
      | MsgClipboard cb \<Rightarrow> (True, if c_clipboard s then emit (SetClipboard cb) s else s)
      | MsgCliprdr clip \<Rightarrow>
          (True, case msg_2_clip clip of Some c \<Rightarrow> send_to_cm (CmClipboardFile c) s | None \<Rightarrow> s)
      | MsgFileAction fa \<Rightarrow> (True, on_file_action e fa s)
      | MsgFileResponse fr \<Rightarrow> (True, on_file_response fr s)
      | MsgMisc m \<Rightarrow> on_misc e m s
      | MsgAudioFrame frame \<Rightarrow>
          (True, if \<not> c_disable_audio s \<and> c_audio_sender s then emit (AudioFrameTo frame) s else s)
      | MsgVoiceCallRequest is_connect ts \<Rightarrow> (True, on_voice_call_request e is_connect ts s)
      | _ \<Rightarrow> (True, s))"

definition on_message :: "env \<Rightarrow> message \<Rightarrow> connection \<Rightarrow> bool \<times> connection" where
  "on_message e msg s =
     (case msg of
        MsgLoginRequest lr \<Rightarrow> on_login_request e lr s
      | MsgAuth2fa code \<Rightarrow> on_auth_2fa e code s
      | MsgTestDelay t \<Rightarrow> on_test_delay e t s
      | MsgSwitchSidesResponse uuid lr \<Rightarrow> on_switch_sides_response e uuid lr s
      | _ \<Rightarrow> if c_authorized s then
               (if c_port_forward s then (True, s) else on_authorized_message e msg s)
             else (True, s))"

end
