(* ===== verification/Conn_Loop.thy ===== *)
theory Conn_Loop
  imports Conn_Message
begin

text \<open>
  The life of a connection (\<open>Connection::start\<close> in \<open>src/server/connection.rs\<close>): its creation, the
  permissions it announces, one step per arm of the \<open>select!\<close> loop, and what is done when the
  loop has ended. An event carries what the arm received and, where the arm writes to the
  stream, whether that succeeded. The handler's flag is false once the loop breaks. The local
  variable \<open>last_recv_time\<close> of \<open>start\<close> goes beside the connection.
\<close>

section \<open>Start\<close>

definition connection_new ::
    "env \<Rightarrow> i32 \<Rightarrow> bytes option \<Rightarrow> string \<Rightarrow> string \<Rightarrow> nat \<Rightarrow> world \<Rightarrow> connection" where
  "connection_new e i totp salt challenge cell w = world.extend (w\<lparr>w_recv_times := (w_recv_times w)(cell := e_now e)\<rparr>)
     (connection.fields \<lparr>ci_id = i, ci_tx = Some [], ci_tx_video = Some []\<rparr> (e_primary e)
        (bytes_of salt) (bytes_of challenge) [] False None False [] False totp
        (conn_permission (e_options e) ''enable-keyboard'')
        (conn_permission (e_options e) ''enable-clipboard'')
        (conn_permission (e_options e) ''enable-audio'')
        (conn_permission (e_options e) ''enable-file-transfer'')
        (conn_permission (e_options e) ''enable-remote-restart'')
        (conn_permission (e_options e) ''enable-record-session'')
        (conn_permission (e_options e) ''enable-block-input'')
        None 0 False False [] False False False False False False [] [] login_request_default cell
        False False False None None None [] False (e_now e) True None None (frl_new e i)
        None False None False False False)"

definition announce :: "permission \<Rightarrow> bool \<Rightarrow> connection \<Rightarrow> connection" where
  "announce p enabled s = (if enabled then s else send_permission p False s)"

definition announce_permissions :: "connection \<Rightarrow> connection" where
  "announce_permissions s =
     (let s = announce PermKeyboard (c_keyboard s) s;
          s = announce PermClipboard (c_clipboard s) s;
          s = announce PermAudio (c_audio s) s;
          s = announce PermFile (c_file s) s;
          s = announce PermRestart (c_restart s) s;
          s = announce PermRecording (c_recording s) s
      in announce PermBlockInput (c_block_input s) s)"

definition SEND_TIMEOUT_VIDEO :: nat where "SEND_TIMEOUT_VIDEO = 12000"
definition SEND_TIMEOUT_OTHER :: nat where "SEND_TIMEOUT_OTHER = SEND_TIMEOUT_VIDEO * 10"

definition send_timeout :: "connection \<Rightarrow> nat" where
  "send_timeout s =
     (if c_file_transfer s \<noteq> None \<or> c_port_forward s then SEND_TIMEOUT_OTHER else SEND_TIMEOUT_VIDEO)"

section \<open>The arms of the loop\<close>

datatype cm_event =
    CmAuthorize
  | CmCloseRequest
  | CmErr string
  | CmChat string
  | CmSwitchPermission string bool
  | CmRawMessage bytes
  | CmClipFile clipboard_file
  | CmPrivacyModeState off_state string
  | CmSwitchSidesBack
  | CmVoiceCallResponse bool
  | CmVoiceCallClosed
  | CmOther

datatype event =
    FromCm cm_event
  | FromPeer "message option"    \<comment> \<open>a frame; \<open>None\<close> if it is no message\<close>
  | PeerError
  | PeerReset
  | FileTick bool                \<comment> \<open>writing the blocks succeeded\<close>
  | WebConsole "i32 list"
  | VideoOut message bool
  | MessageOut message nat bool  \<comment> \<open>and how long it waited, in milliseconds\<close>
  | SecondTick
  | TestDelayTick

definition switch_permission :: "string \<Rightarrow> bool \<Rightarrow> connection \<Rightarrow> connection" where
  "switch_permission name enabled s =
     (if name = ''keyboard'' then
        (let s = send_permission PermKeyboard enabled (s\<lparr>c_keyboard := enabled\<rparr>)
         in subscribe NAME_CURSOR (enabled \<or> c_show_remote_cursor s) s)
      else if name = ''clipboard'' then
        (let s = send_permission PermClipboard enabled (s\<lparr>c_clipboard := enabled\<rparr>)
         in subscribe CLIPBOARD_NAME (clipboard_enabled s \<and> peer_keyboard_enabled s) s)
      else if name = ''audio'' then
        (let s = send_permission PermAudio enabled (s\<lparr>c_audio := enabled\<rparr>)
         in subscribe AUDIO_NAME (audio_enabled s) s)
      else if name = ''file'' then send_permission PermFile enabled (s\<lparr>c_file := enabled\<rparr>)
      else if name = ''restart'' then send_permission PermRestart enabled (s\<lparr>c_restart := enabled\<rparr>)
      else if name = ''recording'' then send_permission PermRecording enabled (s\<lparr>c_recording := enabled\<rparr>)
      else if name = ''block_input'' then
        send_permission PermBlockInput enabled (s\<lparr>c_block_input := enabled\<rparr>)
      else s)"

definition handle_voice_call :: "env \<Rightarrow> bool \<Rightarrow> connection \<Rightarrow> connection" where
  "handle_voice_call e accepted s =
     (case c_voice_call_request_timestamp s of
        None \<Rightarrow> s
      | Some ts \<Rightarrow>
          (let s = s\<lparr>c_voice_call_request_timestamp := None\<rparr>;
               s = (if accepted then
                      (let s = s\<lparr>c_audio_input_before_voice_call := Some (e_options e ''audio-input'')\<rparr>;
                           s = (case e_default_sound_input e of
                                  Some d \<Rightarrow> emit (SetSoundInput d) s | None \<Rightarrow> s)
                       in send_to_cm CmStartVoiceCall s)
                    else send_to_cm (CmCloseVoiceCall []) s)
           in send (MsgVoiceCallResponse accepted ts) s))"

fun off_state_msg :: "off_state \<Rightarrow> privacy_mode_state" where
  "off_state_msg OffSucceeded = PrvOffSucceeded"
| "off_state_msg OffByPeer = PrvOffByPeer"
| "off_state_msg OffUnknown = PrvOffUnknown"

definition on_cm_event :: "env \<Rightarrow> cm_event \<Rightarrow> connection \<Rightarrow> bool \<times> connection" where
  "on_cm_event e ev s =
     (case ev of
        CmAuthorize \<Rightarrow>
          (let s = send_logon_response e (s\<lparr>c_require_2fa := None\<rparr>) in (\<not> c_port_forward s, s))
      | CmCloseRequest \<Rightarrow>
          (False, on_close True (send_close_reason_no_retry []
                    (s\<lparr>c_chat_unanswered := False, c_file_transferred := False\<rparr>)))
      | CmErr err \<Rightarrow> if err \<noteq> ''expected'' then (False, on_close False s) else (True, s)
      | CmChat txt \<Rightarrow>
          (True, (send (MsgMisc (Some (MiscChatMessage txt))) s)\<lparr>c_chat_unanswered := False\<rparr>)
      | CmSwitchPermission name enabled \<Rightarrow> (True, switch_permission name enabled s)
      | CmRawMessage bs \<Rightarrow> (True, emit (ToPeerRaw bs) s)
      | CmClipFile clip \<Rightarrow> (True, send (clip_2_msg clip) s)
      | CmPrivacyModeState st impl_key \<Rightarrow>
          (True, send (privacy_mode_msg (off_state_msg st) [] impl_key) s)
      | CmSwitchSidesBack \<Rightarrow> (True, send (MsgMisc (Some MiscSwitchBack)) s)
      | CmVoiceCallResponse accepted \<Rightarrow> (True, handle_voice_call e accepted s)
      | CmVoiceCallClosed \<Rightarrow>
          (True, send (MsgVoiceCallRequest False (of_nat (e_time e))) (close_voice_call s))
      | CmOther \<Rightarrow> (True, s))"

text \<open>A frame from the peer. Once a tunnel is authorized, the loop ends as soon as no test of the
  delay is under way, so that its answer does not get into the tunnel.\<close>

definition on_peer_message :: "env \<Rightarrow> message option \<Rightarrow> connection \<Rightarrow> bool \<times> connection" where
  "on_peer_message e msg s =
     (let s = s\<lparr>w_recv_times := (w_recv_times s)(c_recv_cell s := e_now e)\<rparr> in
      case msg of
        None \<Rightarrow> (True, s)
      | Some msg \<Rightarrow>
          (let (ok, s) = on_message e msg s in
           if \<not> ok then (False, s)
           else (\<not> (c_port_forward s \<and> c_authorized s \<and> c_last_test_delay s = None), s)))"

definition on_file_tick :: "env \<Rightarrow> bool \<Rightarrow> connection \<Rightarrow> bool \<times> connection" where
  "on_file_tick e ok s =
     (if c_read_jobs s = [] then (True, s\<lparr>c_file_timer_fast := False\<rparr>)
      else
        (let s = send_to_cm (CmFileTransferLog ''transfer'' (JobsLog (c_read_jobs s))) s in
         if \<not> ok then (False, on_close False s)
         else
           (let (jobs, out) = handle_read_jobs (e_zstd e) (e_failing e) (e_fs e) (c_read_jobs s)
            in (True, fold send out (s\<lparr>c_read_jobs := jobs\<rparr>)))))"

definition on_web_console :: "i32 list \<Rightarrow> connection \<Rightarrow> bool \<times> connection" where
  "on_web_console conns s =
     (if c_id s \<in> set conns then
        (False, on_close True (send_close_reason_no_retry ''Closed manually by web console'' s))
      else (True, s))"

definition on_video_out :: "message \<Rightarrow> bool \<Rightarrow> connection \<Rightarrow> bool \<times> connection" where
  "on_video_out msg ok s =
     (let s = (if \<not> c_video_ack_required s then emit (VideoFetched (c_id s) True) s else s) in
      if ok then (True, send msg s) else (False, on_close False s))"

definition handle_cursor_switch_display :: "env \<Rightarrow> i32 \<Rightarrow> i32 \<Rightarrow> connection \<Rightarrow> connection" where
  "handle_cursor_switch_display e x y s =
     (if c_multi_ui_session s then s
      else case e_cursor_display e x y of
             Some i \<Rightarrow>
               if c_display_idx s \<noteq> i
               then send (MsgMisc (Some (MiscFollowCurrentDisplay (of_nat i)))) s else s
           | None \<Rightarrow> s)"

fun is_audio_frame :: "message \<Rightarrow> bool" where
  "is_audio_frame (MsgAudioFrame _) = True"
| "is_audio_frame _ = False"

fun is_stop_service :: "message \<Rightarrow> bool" where
  "is_stop_service (MsgMisc (Some (MiscStopService _))) = True"
| "is_stop_service _ = False"

definition on_message_out :: "env \<Rightarrow> message \<Rightarrow> nat \<Rightarrow> bool \<Rightarrow> connection \<Rightarrow> bool \<times> connection" where
  "on_message_out e msg latency ok s =
     (if latency > 1000 \<and> is_audio_frame msg then (True, s)
      else if is_stop_service msg then
        (False, on_close False (send_close_reason_no_retry [] s))
      else
        (let s = (case msg of
                    MsgPeerInfo _ \<Rightarrow> refresh_video_display None s
                  | MsgCursorPosition x y \<Rightarrow>
                      if c_follow_remote_cursor s then handle_cursor_switch_display e x y s else s
                  | _ \<Rightarrow> s)
         in if ok then (True, send msg s) else (False, on_close False s)))"

definition on_second_tick :: "env \<Rightarrow> connection \<Rightarrow> bool \<times> connection" where
  "on_second_tick e s =
     (case c_auto_disconnect_timer s of
        Some (instant, minute) \<Rightarrow>
          if (e_now e - instant) div 1000 > unat (minute * 60) then
            (False, on_close True (send_close_reason_no_retry ''Connection failed due to inactivity'' s))
          else
            (let (logs, l) = frl_on_timer e (c_file_remove_log s)
             in (True, fold send_to_cm logs (s\<lparr>c_file_remove_log := l\<rparr>)))
      | None \<Rightarrow>
          (let (logs, l) = frl_on_timer e (c_file_remove_log s)
           in (True, fold send_to_cm logs (s\<lparr>c_file_remove_log := l\<rparr>))))"

definition on_test_delay_tick :: "env \<Rightarrow> nat \<Rightarrow> connection \<Rightarrow> bool \<times> connection" where
  "on_test_delay_tick e last_recv_time s =
     (if e_now e - last_recv_time \<ge> 30000 then (False, on_close True s)
      else
        (let s = (if c_last_test_delay s = None \<and> \<not> (c_port_forward s \<and> c_authorized s) then
                    send (MsgTestDelay \<lparr>td_time = 0, td_from_client = False,
                      td_last_delay = c_network_delay s, td_target_bitrate = q_bitrate_store (w_qos s)\<rparr>)
                      (s\<lparr>c_last_test_delay := Some (e_now e)\<rparr>)
                  else s)
         in (True, with_qos (user_delay_response_elapsed (e_options e) (c_id s)
                     (e_now e - c_delay_response_instant s)) s)))"

section \<open>The loop and its end\<close>

text \<open>A turn of the loop: whether it goes on, \<open>last_recv_time\<close>, and the connection.\<close>

type_synonym loop_state = "bool \<times> nat \<times> connection"

definition loop_step :: "loop_state \<Rightarrow> env \<times> event \<Rightarrow> loop_state" where
  "loop_step st eev =
     (let (going, last, s) = st; (e, ev) = eev in
      if \<not> going then st
      else case ev of
          FromCm cev \<Rightarrow> (let (b, s) = on_cm_event e cev s in (b, last, s))
        | FromPeer msg \<Rightarrow> (let (b, s) = on_peer_message e msg s in (b, e_now e, s))
        | PeerError \<Rightarrow> (False, last, on_close True s)
        | PeerReset \<Rightarrow> (False, last, on_close True s)
        | FileTick ok \<Rightarrow> (let (b, s) = on_file_tick e ok s in (b, last, s))
        | WebConsole conns \<Rightarrow> (let (b, s) = on_web_console conns s in (b, last, s))
        | VideoOut msg ok \<Rightarrow> (let (b, s) = on_video_out msg ok s in (b, last, s))
        | MessageOut msg latency ok \<Rightarrow> (let (b, s) = on_message_out e msg latency ok s in (b, last, s))
        | SecondTick \<Rightarrow> (let (b, s) = on_second_tick e s in (b, last, s))
        | TestDelayTick \<Rightarrow> (let (b, s) = on_test_delay_tick e last s in (b, last, s)))"

text \<open>The drop of the connection releases the modifiers the peer still holds down.\<close>

definition release_pressed_modifiers :: "connection \<Rightarrow> connection" where
  "release_pressed_modifiers s =
     (fold (\<lambda>k. emit (KeyRelease k)) (c_pressed_modifiers s) s)\<lparr>c_pressed_modifiers := []\<rparr>"

definition drop_connection :: "env \<Rightarrow> connection \<Rightarrow> connection" where
  "drop_connection e s =
     (let s = release_pressed_modifiers s;
          s = (case c_authed_conn_id s of Some a \<Rightarrow> authed_conn_id_drop e a s | None \<Rightarrow> s)
      in connection_id_drop e (c_id s) s)"

text \<open>The connection when its loop begins; \<open>False\<close> when \<open>on_open\<close> refused it.\<close>

definition start ::
    "env \<Rightarrow> i32 \<Rightarrow> bytes option \<Rightarrow> string \<Rightarrow> string \<Rightarrow> nat \<Rightarrow> string \<Rightarrow> world \<Rightarrow> bool \<times> connection" where
  "start e i totp salt challenge cell ip w =
     (let s = connection_id_new i (connection_new e i totp salt challenge cell w);
          (ok, s) = on_open e ip salt challenge s
      in if \<not> ok then (False, drop_connection e (s\<lparr>c_closed := True\<rparr>))
         else (True, announce_permissions s))"

text \<open>
  After the loop. A tunnel runs (\<open>try_port_forward_loop\<close>) until it fails, which closes the
  connection. The connection is dropped last, and with it its two registrations.
\<close>

definition finish :: "env \<Rightarrow> connection \<Rightarrow> connection" where
  "finish e s =
     (let s = (if get_privacy_mode_conn_id (w_privacy s) = Some (c_id s)
               then snd (turn_off_privacy_to_msg e (c_id s) s) else s);
          s = emit (VideoFetched (c_id s) False) s;
          s = (if c_authorized s then s\<lparr>w_temporary_password := e_new_password e\<rparr> else s);
          s = (if c_port_forward s then on_close False (s\<lparr>c_port_forward := False\<rparr>) else s);
          s = post_conn_audit AuditClose s;
          s = with_server (remove_connection (c_inner s)) s;
          s = on_close True s
      in drop_connection e s)"

end
