(* ===== verification/Conn_Frame.thy ===== *)
theory Conn_Frame
  imports Conn_Loop
begin

text \<open>
  What the handlers of a connection may touch. \<open>changes s t\<close>: from \<open>s\<close> to \<open>t\<close> nothing of the
  \<open>frame\<close> changed (who the connection is, what it may do, the registries and counters of the
  process) and every effect on the way is allowed by the permissions of the host. The rules of
  \<open>changes\<close> follow the structure of the code; each operation has one lemma, and the handlers of
  an authorized peer are put together from them.
\<close>

section \<open>The frame and the effects the permissions allow\<close>

definition host_frame :: "connection \<Rightarrow> (i32 \<times> string \<times> bytes \<times> bytes \<times> nat) \<times> bool list" where
  "host_frame s =
     ((c_id s, c_ip s, c_salt s, c_challenge s, c_recv_cell s),
      [c_keyboard s, c_clipboard s, c_audio s, c_file s, c_restart s, c_recording s, c_block_input s])"

definition auth_frame :: "connection \<Rightarrow> (bool \<times> bytes option \<times> (i32 \<times> auth_conn_type) option \<times> bool \<times> bool) \<times>
    (nat \<Rightarrow> (string, failure) hmap) \<times> (i32 \<times> auth_conn_type) list \<times> i32 list \<times> bytes \<times>
    (nat \<Rightarrow> nat) \<times> (string, nat \<times> bytes) hmap" where
  "auth_frame s =
     ((c_authorized s, c_require_2fa s, c_authed_conn_id s, c_closed s, c_from_switch s),
      w_failures s, w_authed s, w_alive s, w_temporary_password s, w_recv_times s, w_switch_uuids s)"

fun close_notice :: "effect \<Rightarrow> bool" where
  "close_notice (ToCm CmClose) = True"
| "close_notice (ToCm CmDisconnected) = True"
| "close_notice _ = False"

lemma close_notice_ToCm [simp]: "close_notice (ToCm d) \<longleftrightarrow> d = CmClose \<or> d = CmDisconnected"
  by (cases d) simp_all

fun allowed :: "connection \<Rightarrow> effect \<Rightarrow> bool" where
  "allowed s (InputMouse _ _) = c_keyboard s"
| "allowed s (InputPointer _ _) = c_keyboard s"
| "allowed s (InputKey _ _) = c_keyboard s"
| "allowed s (InputBlock _) = (c_keyboard s \<and> c_block_input s)"
| "allowed s (SetClipboard _) = c_clipboard s"
| "allowed s (Reboot _) = c_restart s"
| "allowed s (ChangeResolution _ _ _) = c_keyboard s"
| "allowed s (RecordResolution _ _ _) = c_keyboard s"
| "allowed s LockScreen = c_keyboard s"
| "allowed s x = True"

lemma allowed_cong: "host_frame t = host_frame s \<Longrightarrow> allowed t = allowed s"
proof
  fix x assume "host_frame t = host_frame s"
  then show "allowed t x = allowed s x" by (cases x) (auto simp: host_frame_def)
qed

definition changes :: "(effect \<Rightarrow> bool) \<Rightarrow> connection \<Rightarrow> connection \<Rightarrow> bool" where
  "changes P s t \<longleftrightarrow> host_frame t = host_frame s \<and> auth_frame t = auth_frame s \<and>
     (\<exists>xs. w_out t = w_out s @ xs \<and> list_all P xs)"

named_theorems changes_intros \<open>what each operation changes\<close>

text \<open>The effects allowed in the middle of a session: no notice of its end.\<close>

abbreviation in_session :: "connection \<Rightarrow> effect \<Rightarrow> bool" where
  "in_session s \<equiv> (\<lambda>x. allowed s x \<and> \<not> close_notice x)"

lemma changes_refl: "changes P s s"
  by (simp add: changes_def)

lemma emit_frame [simp]:
  "host_frame (emit x s) = host_frame s" "auth_frame (emit x s) = auth_frame s"
  "w_out (emit x s) = w_out s @ [x]"
  by (simp_all add: emit_def host_frame_def auth_frame_def)

lemma changes_emit:
  assumes "changes P s t" and "P x"
  shows "changes P s (emit x t)"
proof -
  obtain xs where "w_out t = w_out s @ xs" "list_all P xs"
    using assms(1) by (auto simp: changes_def)
  then have "w_out (emit x t) = w_out s @ (xs @ [x])" "list_all P (xs @ [x])"
    using assms(2) by simp_all
  then show ?thesis using assms(1) unfolding changes_def emit_frame by blast
qed

lemma changes_update:
  "changes P s t \<Longrightarrow> host_frame u = host_frame t \<Longrightarrow> auth_frame u = auth_frame t \<Longrightarrow> w_out u = w_out t
    \<Longrightarrow> changes P s u"
  by (simp add: changes_def)

lemma changes_trans: "changes P s t \<Longrightarrow> changes P t u \<Longrightarrow> changes P s u"
  by (fastforce simp: changes_def)

lemma changes_weaken: "changes P s t \<Longrightarrow> (\<And>x. P x \<Longrightarrow> Q x) \<Longrightarrow> changes Q s t"
  by (auto simp: changes_def list_all_iff)

lemma changes_fields:
  assumes "changes P s t"
  shows "c_id t = c_id s" "c_ip t = c_ip s" "c_keyboard t = c_keyboard s" "c_clipboard t = c_clipboard s"
    "c_audio t = c_audio s" "c_file t = c_file s" "c_restart t = c_restart s"
    "c_recording t = c_recording s" "c_block_input t = c_block_input s"
    "c_authorized t = c_authorized s" "c_require_2fa t = c_require_2fa s" "c_closed t = c_closed s"
    "w_failures t = w_failures s" "w_authed t = w_authed s" "w_alive t = w_alive s"
    "c_authed_conn_id t = c_authed_conn_id s" "w_temporary_password t = w_temporary_password s"
    "w_recv_times t = w_recv_times s" "c_recv_cell t = c_recv_cell s"
    "c_salt t = c_salt s" "c_challenge t = c_challenge s" "w_switch_uuids t = w_switch_uuids s"
  using assms by (auto simp: changes_def host_frame_def auth_frame_def)

lemma changes_allowed: "changes P s t \<Longrightarrow> allowed t = allowed s"
  by (rule allowed_cong) (simp add: changes_def)

text \<open>Updates outside the frame.\<close>

lemmas frame_defs = host_frame_def auth_frame_def

lemma with_frame [simp]:
  "host_frame (with_server f s) = host_frame s" "auth_frame (with_server f s) = auth_frame s"
  "w_out (with_server f s) = w_out s"
  "host_frame (subscribe n b s) = host_frame s" "auth_frame (subscribe n b s) = auth_frame s"
  "w_out (subscribe n b s) = w_out s"
  "host_frame (with_qos g s) = host_frame s" "auth_frame (with_qos g s) = auth_frame s"
  "w_out (with_qos g s) = w_out s"
  "host_frame (with_encoder e u s) = host_frame s" "auth_frame (with_encoder e u s) = auth_frame s"
  "w_out (with_encoder e u s) = w_out s"
  "host_frame (inner_send m s) = host_frame s" "auth_frame (inner_send m s) = auth_frame s"
  "w_out (inner_send m s) = w_out s"
  "host_frame (update_auto_disconnect_timer e s) = host_frame s"
  "auth_frame (update_auto_disconnect_timer e s) = auth_frame s"
  "w_out (update_auto_disconnect_timer e s) = w_out s"
  by (simp_all add: frame_defs with_server_def subscribe_def with_qos_def with_encoder_def
      inner_send_def update_auto_disconnect_timer_def)

lemma changes_with [changes_intros]:
  assumes "changes P s t"
  shows "changes P s (with_server f t)" "changes P s (subscribe n b t)" "changes P s (with_qos g t)"
    "changes P s (with_encoder e u t)" "changes P s (inner_send m t)"
    "changes P s (update_auto_disconnect_timer e t)"
  using assms by (simp_all add: changes_def)

lemma changes_send [changes_intros]:
  "changes (in_session s0) s t \<Longrightarrow> changes (in_session s0) s (send m t)"
  "changes (in_session s0) s t \<Longrightarrow> changes (in_session s0) s (send_fs c t)"
  "changes (in_session s0) s t \<Longrightarrow> changes (in_session s0) s (send_login_error er t)"
  "changes (in_session s0) s t \<Longrightarrow> changes (in_session s0) s (read_dir d h t)"
  "changes (in_session s0) s t \<Longrightarrow> changes (in_session s0) s (send_login_response r t)"
  by (auto intro!: changes_emit simp: send_login_error_def read_dir_def send_login_response_def)

lemma changes_updates [changes_intros]:
  assumes "changes P s t"
  shows "changes P s (t\<lparr>c_display_idx := x0\<rparr>)" "changes P s (t\<lparr>c_read_jobs := x1\<rparr>)"
    "changes P s (t\<lparr>c_file_timer_fast := x2\<rparr>)" "changes P s (t\<lparr>c_file_transfer := x3\<rparr>)"
    "changes P s (t\<lparr>c_port_forward := x4\<rparr>)" "changes P s (t\<lparr>c_port_forward_address := x5\<rparr>)"
    "changes P s (t\<lparr>c_last_test_delay := x6\<rparr>)" "changes P s (t\<lparr>c_network_delay := x7\<rparr>)"
    "changes P s (t\<lparr>c_lock_after_session_end := x8\<rparr>)" "changes P s (t\<lparr>c_show_remote_cursor := x9\<rparr>)"
    "changes P s (t\<lparr>c_disable_keyboard := x10\<rparr>)" "changes P s (t\<lparr>c_disable_clipboard := x11\<rparr>)"
    "changes P s (t\<lparr>c_disable_audio := x12\<rparr>)" "changes P s (t\<lparr>c_enable_file_transfer := x13\<rparr>)"
    "changes P s (t\<lparr>c_audio_sender := x14\<rparr>)" "changes P s (t\<lparr>c_video_ack_required := x15\<rparr>)"
    "changes P s (t\<lparr>c_server_audit_conn := x16\<rparr>)" "changes P s (t\<lparr>c_server_audit_file := x17\<rparr>)"
    "changes P s (t\<lparr>c_lr := x18\<rparr>)" "changes P s (t\<lparr>c_chat_unanswered := x19\<rparr>)"
    "changes P s (t\<lparr>c_file_transferred := x20\<rparr>)" "changes P s (t\<lparr>c_voice_call_request_timestamp := x21\<rparr>)"
    "changes P s (t\<lparr>c_audio_input_before_voice_call := x22\<rparr>)" "changes P s (t\<lparr>c_options_in_login := x23\<rparr>)"
    "changes P s (t\<lparr>c_pressed_modifiers := x24\<rparr>)" "changes P s (t\<lparr>c_delay_response_instant := x25\<rparr>)"
    "changes P s (t\<lparr>c_start_cm_ipc_para := x26\<rparr>)" "changes P s (t\<lparr>c_auto_disconnect_timer := x27\<rparr>)"
    "changes P s (t\<lparr>c_file_remove_log := x28\<rparr>)" "changes P s (t\<lparr>c_last_supported_encoding := x29\<rparr>)"
    "changes P s (t\<lparr>c_services_subed := x30\<rparr>)" "changes P s (t\<lparr>c_delayed_read_dir := x31\<rparr>)"
    "changes P s (t\<lparr>c_follow_remote_cursor := x32\<rparr>)" "changes P s (t\<lparr>c_follow_remote_window := x33\<rparr>)"
    "changes P s (t\<lparr>c_multi_ui_session := x34\<rparr>)" "changes P s (t\<lparr>w_sessions := x35\<rparr>)"
    "changes P s (t\<lparr>w_wallpaper := x36\<rparr>)" "changes P s (t\<lparr>w_server := x37\<rparr>)"
    "changes P s (t\<lparr>w_privacy := x38\<rparr>)" "changes P s (t\<lparr>w_click_time := x39\<rparr>)"
    "changes P s (t\<lparr>w_mouse_move_time := x40\<rparr>)"
  by (rule changes_update [OF assms]; simp add: frame_defs)+

abbreviation within :: "connection \<Rightarrow> connection \<Rightarrow> bool" where
  "within s t \<equiv> changes (in_session s) s t"

section \<open>The operations of an authorized peer\<close>

lemma within_perms:
  "within s t \<Longrightarrow> c_keyboard s = c_keyboard t" "within s t \<Longrightarrow> c_clipboard s = c_clipboard t"
  "within s t \<Longrightarrow> c_restart s = c_restart t" "within s t \<Longrightarrow> c_block_input s = c_block_input t"
  by (simp_all add: changes_fields)

lemma within_emit [changes_intros]:
  "within s t \<Longrightarrow> c_keyboard s \<Longrightarrow> within s (emit (InputMouse me i) t)"
  "within s t \<Longrightarrow> c_keyboard s \<Longrightarrow> within s (emit (InputPointer p i) t)"
  "within s t \<Longrightarrow> c_keyboard s \<Longrightarrow> within s (emit (InputKey k b) t)"
  "within s t \<Longrightarrow> c_keyboard s \<Longrightarrow> c_block_input s \<Longrightarrow> within s (emit (InputBlock b) t)"
  "within s t \<Longrightarrow> c_clipboard s \<Longrightarrow> within s (emit (SetClipboard cb) t)"
  "within s t \<Longrightarrow> c_restart s \<Longrightarrow> within s (emit (Reboot b) t)"
  "within s t \<Longrightarrow> c_keyboard s \<Longrightarrow> within s (emit (ChangeResolution n w h) t)"
  "within s t \<Longrightarrow> c_keyboard s \<Longrightarrow> within s (emit (RecordResolution n p1 p2) t)"
  "within s t \<Longrightarrow> within s (emit (RunMe args) t)" "within s t \<Longrightarrow> within s (emit AudioThread t)"
  "within s t \<Longrightarrow> within s (emit (AudioFormatTo f) t)" "within s t \<Longrightarrow> within s (emit (AudioFrameTo f) t)"
  "within s t \<Longrightarrow> within s (emit (SetSoundInput d) t)" "within s t \<Longrightarrow> within s (emit (VideoFetched i b) t)"
  "within s t \<Longrightarrow> within s (emit (FileAudit ty pa fs cnt sf) t)"
  "within s t \<Longrightarrow> within s (send_to_cm (CmClipboardFileEnabled b) t)"
  "within s t \<Longrightarrow> within s (send_to_cm (CmChatMessage txt) t)"
  "within s t \<Longrightarrow> within s (send_to_cm (CmFileTransferLog ac lg) t)"
  "within s t \<Longrightarrow> within s (send_to_cm (CmClipboardFile clip) t)"
  "within s t \<Longrightarrow> within s (send_to_cm CmVoiceCallIncoming t)"
  "within s t \<Longrightarrow> within s (send_to_cm CmStartVoiceCall t)"
  "within s t \<Longrightarrow> within s (send_to_cm (CmCloseVoiceCall rs) t)"
  "within s t \<Longrightarrow> within s (send_to_cm CmTest t)"
  "within s t \<Longrightarrow> within s (send_to_cm (CmLogin cl) t)"
  by (rule changes_emit; simp)+

text \<open>The structure of the code: branches, and local bindings of the connection or of values.\<close>

lemma changes_if: "(b \<Longrightarrow> changes P s t) \<Longrightarrow> (\<not> b \<Longrightarrow> changes P s u) \<Longrightarrow> changes P s (if b then t else u)"
  by simp

lemma changes_option:
  "(x = None \<Longrightarrow> changes P s a) \<Longrightarrow> (\<And>y. x = Some y \<Longrightarrow> changes P s (f y))
    \<Longrightarrow> changes P s (case x of None \<Rightarrow> a | Some y \<Rightarrow> f y)"
  by (cases x) simp_all

lemma changes_sum:
  "(\<And>y. x = Inl y \<Longrightarrow> changes P s (f y)) \<Longrightarrow> (\<And>y. x = Inr y \<Longrightarrow> changes P s (g y))
    \<Longrightarrow> changes P s (case x of Inl y \<Rightarrow> f y | Inr y \<Rightarrow> g y)"
  by (cases x) simp_all

lemma changes_pair:
  "(\<And>a b. x = (a, b) \<Longrightarrow> changes P s (f a b)) \<Longrightarrow> changes P s (case x of (a, b) \<Rightarrow> f a b)"
  by (cases x) simp

lemma changes_bool:
  "(b \<Longrightarrow> changes P s t) \<Longrightarrow> (\<not> b \<Longrightarrow> changes P s u) \<Longrightarrow> changes P s (case b of True \<Rightarrow> t | False \<Rightarrow> u)"
  by (cases b) simp_all

lemma changes_let_conn:
  "changes P s t \<Longrightarrow> (\<And>u. changes P s u \<Longrightarrow> changes P s (f u)) \<Longrightarrow> changes P s (let u = (t :: connection) in f u)"
  by (simp add: Let_def)

lemma changes_let: "(\<And>y. y = x \<Longrightarrow> changes P s (f y)) \<Longrightarrow> changes P s (let y = x in f y)"
  by (simp add: Let_def)

lemmas changes_struct = changes_if changes_option changes_sum changes_pair changes_bool
  changes_let_conn changes_let

lemma within_input [changes_intros]:
  assumes "within s t"
  shows "within s (on_mouse_event e me t)" "within s (on_pointer_event e pde t)"
  unfolding on_mouse_event_def on_pointer_event_def input_mouse_def input_pointer_def
  by (rule changes_struct changes_intros assms
      | simp add: peer_keyboard_enabled_def changes_fields [OF assms])+

lemma within_key_event [changes_intros]:
  assumes "within s t"
  shows "within s (on_key_event e me t)"
proof -
  have input: "within s (case ke_union me of Some (KeyUnicode _) \<Rightarrow> input_key me False u
      | Some (KeySeq _) \<Rightarrow> input_key me False u | _ \<Rightarrow> input_key me True u)"
    "within s (input_key me False u)" if "within s u" "c_keyboard s" for u
    using that by (auto simp: input_key_def split: option.split key_union.split intro: changes_intros)
  show ?thesis
    unfolding on_key_event_def
    by (rule changes_with(6) input changes_if changes_let_conn changes_let changes_updates
        changes_option assms | assumption
      | simp add: peer_keyboard_enabled_def changes_fields [OF assms])+
qed

lemma within_displays [changes_intros]:
  assumes "within s t"
  shows "within s (refresh_video_display d t)" "within s (change_resolution e i w h t)"
    "within s (switch_display_to e n t)" "within s (capture_displays as bs cs t)"
proof -
  show "within s (change_resolution e i w h t)"
    unfolding change_resolution_def
    by (rule changes_struct changes_intros assms | simp add: changes_fields [OF assms])+
  show "within s (switch_display_to e n t)"
    unfolding switch_display_to_def
    by (rule changes_struct changes_intros assms | assumption)+
  show "within s (capture_displays as bs cs t)"
    unfolding capture_displays_def by (rule changes_struct changes_intros assms)+
  show "within s (refresh_video_display d t)"
    unfolding refresh_video_display_def by (rule changes_intros assms)+
qed

lemma within_switch_display [changes_intros]:
  assumes "within s t"
  shows "within s (handle_switch_display e sd t)"
  unfolding handle_switch_display_def by (rule changes_struct changes_intros assms | assumption)+

lemma within_voice [changes_intros]:
  assumes "within s t"
  shows "within s (close_voice_call t)" "within s (on_voice_call_request e b ts t)"
proof -
  show c: "within s (close_voice_call t)"
    unfolding close_voice_call_def by (rule changes_struct changes_intros assms | simp)+
  show "within s (on_voice_call_request e b ts t)"
    unfolding on_voice_call_request_def
    by (rule changes_struct changes_intros c assms | simp)+
qed

lemma within_post_file_audit [changes_intros]:
  assumes "within s t"
  shows "within s (post_file_audit ty path files t)"
  unfolding post_file_audit_def by (rule changes_struct changes_intros assms | simp)+

lemma within_files [changes_intros]:
  assumes "within s t"
  shows "within s (on_file_send e i path hid n t)" "within s (on_file_receive i path files n sz t)"
  unfolding on_file_send_def on_file_receive_def
  by (rule changes_struct changes_intros assms | assumption | simp)+

lemma within_file_action [changes_intros]:
  assumes "within s t"
  shows "within s (on_file_action e fa t)"
proof (cases "c_file_transfer t = None \<or> c_delayed_read_dir t \<noteq> None")
  case True
  then show ?thesis using assms
    by (auto simp: on_file_action_def split: option.splits file_action.splits intro: changes_intros)
next
  case False
  then have *: "c_file_transfer t \<noteq> None" "c_delayed_read_dir t = None"
    by (simp_all only: de_Morgan_disj not_not simp_thms)
  show ?thesis
  proof (cases fa)
    case (Some a)
    then show ?thesis
      using * assms
      by (cases a) (auto simp: on_file_action_def Let_def split: option.split sum.split intro!: changes_intros)
  qed (use * assms in \<open>simp add: on_file_action_def\<close>)
qed

lemma within_file_response [changes_intros]:
  assumes "within s t"
  shows "within s (on_file_response fr t)"
  unfolding on_file_response_def
  by (auto split: option.split file_response.split intro: changes_intros assms)

section \<open>Options and privacy mode\<close>

lemma within_privacy [changes_intros]:
  assumes "within s t"
  shows "within s (snd (turn_off_privacy_to_msg e c t))" "within s (conn_turn_on_privacy e key t)"
    "within s (conn_turn_off_privacy e key t)" "within s (toggle_privacy_mode e key b t)"
proof -
  have off: "within s (snd (turn_off_privacy_to_msg e c u))" if "within s u" for c u
    using that by (simp add: turn_off_privacy_to_msg_def Let_def split_def changes_updates)
  show "within s (snd (turn_off_privacy_to_msg e c t))" by (rule off [OF assms])
  show on: "within s (conn_turn_on_privacy e key t)"
    unfolding conn_turn_on_privacy_def check_privacy_mode_err_def
    by (rule changes_struct changes_intros off assms | assumption | simp)+
  show off2: "within s (conn_turn_off_privacy e key t)"
    unfolding conn_turn_off_privacy_def
    by (auto simp: Let_def split_def intro!: changes_intros off assms)
  show "within s (toggle_privacy_mode e key b t)"
    using on off2 by (simp add: toggle_privacy_mode_def)
qed

lemma within_when_set:
  assumes "within s t" and "\<And>b u. within s u \<Longrightarrow> within s (f b u)"
  shows "within s (when_set q f t)"
  using assms by (simp add: when_set_def split: bool_option.split)

lemma within_option_parts [changes_intros]:
  assumes "within s t"
  shows "within s (update_image_quality e opts t)" "within s (update_clipboard_service t)"
    "within s (update_cursor_service t)" "within s (update_privacy_option e q t)"
    "within s (update_block_input q t)"
proof -
  show "within s (update_image_quality e opts t)"
    unfolding update_image_quality_def Let_def by (auto intro: changes_intros assms)
  show "within s (update_clipboard_service t)" "within s (update_cursor_service t)"
    by (simp_all add: update_clipboard_service_def update_cursor_service_def changes_with assms)
  show "within s (update_privacy_option e q t)"
    unfolding update_privacy_option_def
    by (auto split: bool_option.split intro: changes_intros assms)
  show "within s (update_block_input q t)"
    unfolding update_block_input_def send_block_input_error_def
    using changes_fields [OF assms] by (auto split: bool_option.split intro!: changes_intros assms)
qed

lemma within_update_options [changes_intros]:
  assumes "within s t"
  shows "within s (update_options e opts t)"
  unfolding update_options_def
  by (rule changes_let_conn within_when_set changes_struct changes_intros assms | assumption)+

section \<open>All messages of an authorized peer\<close>

text \<open>The end of a connection: one notice to the connection manager.\<close>

definition close_data :: "connection \<Rightarrow> cm_data" where
  "close_data s = (if c_chat_unanswered s \<or> c_file_transferred s then CmDisconnected else CmClose)"

lemma on_close_out:
  "\<not> c_closed s \<Longrightarrow> w_out (on_close lock s) = w_out s @
     (if lock \<and> c_lock_after_session_end s \<and> c_keyboard s then [LockScreen] else []) @ [ToCm (close_data s)]"
  by (simp add: on_close_def Let_def emit_def close_data_def)

lemma on_close_frame:
  "host_frame (on_close lock s) = host_frame s" "c_closed (on_close lock s)"
  "c_closed s \<Longrightarrow> on_close lock s = s" "c_authorized (on_close lock s) = c_authorized s"
  "w_failures (on_close lock s) = w_failures s"
  by (simp_all add: on_close_def Let_def emit_def host_frame_def)

lemma on_close_changes:
  assumes "within s t" and "\<not> c_closed s"
  shows "\<exists>xs n. w_out (on_close lock t) = w_out s @ xs @ [n] \<and> list_all (in_session s) xs \<and> close_notice n"
proof -
  obtain xs where xs: "w_out t = w_out s @ xs" "list_all (in_session s) xs"
    using assms(1) by (auto simp: changes_def)
  have c: "\<not> c_closed t" "c_keyboard t = c_keyboard s"
    using assms(2) changes_fields [OF assms(1)] by simp_all
  let ?l = "if lock \<and> c_lock_after_session_end t \<and> c_keyboard t then [LockScreen] else []"
  have "list_all (in_session s) (xs @ ?l)" using xs(2) c(2) by simp
  moreover have "w_out (on_close lock t) = w_out s @ (xs @ ?l) @ [ToCm (close_data t)]"
    unfolding on_close_out [OF c(1)] xs(1) by (simp only: append_assoc)
  moreover have "close_notice (ToCm (close_data t))" by (simp add: close_data_def)
  ultimately show ?thesis by blast
qed

section \<open>Logging on\<close>

lemma within_logon_parts [changes_intros]:
  assumes "within s t"
  shows "within s (try_sub_services e t)" "within s (on_remote_authorized e t)"
    "within s (emit SetupRdpInput t)"
proof -
  show "within s (try_sub_services e t)"
    unfolding try_sub_services_def by (rule changes_struct changes_intros assms | assumption)+
  show "within s (on_remote_authorized e t)"
    unfolding on_remote_authorized_def update_codec_on_login_def
    by (rule changes_struct changes_intros assms | assumption)+
  show "within s (emit SetupRdpInput t)" by (rule changes_emit [OF assms]) simp
qed

lemma within_after_logon [changes_intros]:
  assumes "within s t"
  shows "within s (after_logon e b t)"
  unfolding after_logon_def by (rule changes_struct changes_intros assms | assumption)+

lemma within_logon_remote [changes_intros]:
  assumes "within s t"
  shows "within s (logon_remote e pin t)"
  unfolding logon_remote_def by (rule changes_struct changes_intros assms | assumption)+

lemma within_logon_answer:
  assumes "within s t"
  shows "within s (logon_answer e t)"
  unfolding logon_answer_def by (rule changes_struct changes_intros assms | assumption)+

lemma logon_begin_frame:
  "host_frame (logon_begin s) = host_frame s" "c_authorized (logon_begin s)"
  "c_closed (logon_begin s) = c_closed s" "w_failures (logon_begin s) = w_failures s"
  "c_require_2fa (logon_begin s) = c_require_2fa s" "w_alive (logon_begin s) = w_alive s"
  "c_authed_conn_id (logon_begin s) = Some (c_id s, snd (logon_type s))"
  "w_authed (logon_begin s) = w_authed s @ [(c_id s, snd (logon_type s))]"
  "w_sessions (logon_begin s) = w_sessions s" "c_port_forward (logon_begin s) = c_port_forward s"
  "c_file_transfer (logon_begin s) = c_file_transfer s" "w_server (logon_begin s) = w_server s"
  "\<exists>xs. w_out (logon_begin s) = w_out s @ xs \<and> list_all (in_session s) xs"
  by (simp_all add: logon_begin_def Let_def split_def logon_type_def authed_conn_id_new_def
      check_wake_lock_def post_conn_audit_def emit_def host_frame_def)

end
