(* ===== verification/Conn_Steps.thy ===== *)
theory Conn_Steps
  imports Conn_Frame
begin

text \<open>
  What holds of the parts of a handler holds of the handler. A \<open>step_relation\<close> is a preorder on
  the states of a connection that contains the small steps a login consists of; then it contains
  every login message. A \<open>life_relation\<close> also contains what an authorized peer can do and the
  closing; then it contains every message and every turn of the loop. The relations of the
  other theories (what permissions allow, what the end is told, whose counters move) are
  interpretations.
\<close>

lemma is_recent_session_state:
  "\<exists>m. snd (is_recent_session e tfa s) = s\<lparr>w_sessions := m\<rparr>"
  by (auto simp: is_recent_session_def retain_sessions_def insert_session_def Let_def
      split: option.split)

lemma login_validate_result:
  assumes "is_recent_session e False s = (recent, s1)"
  shows "snd (login_validate e err lr s) \<in>
    {send_login_error LOGIN_MSG_OFFLINE s, send_login_error ''Connection not allowed'' s,
     try_start_cm (lr_my_id lr) (lr_my_name lr) False s,
     send_login_error LOGIN_MSG_NO_PASSWORD_ACCESS (try_start_cm (lr_my_id lr) (lr_my_name lr) False s),
     (if recent then login_accepted e err lr s1
      else if lr_password lr = [] then
        (if err = [] then try_start_cm (lr_my_id lr) (lr_my_name lr) False s1
         else send_login_error LOGIN_MSG_DESKTOP_SESSION_NOT_READY_PASSWORD_EMPTY s1)
      else login_password e err lr s1)}"
  by (simp add: login_validate_def Let_def assms)

section \<open>Login messages\<close>

locale step_relation =
  fixes R :: "connection \<Rightarrow> connection \<Rightarrow> bool"
  assumes refl: "R s s"
    and trans: "R s t \<Longrightarrow> R t u \<Longrightarrow> R s u"
    and error: "R s (send_login_error err s)"
    and cm: "R s (try_start_cm i n a s)"
    and cm_ipc: "R s (try_start_cm_ipc s)"
    and desktop: "R s (wait_desktop_cm_ready e s)"
    and alarm: "R s (post_alarm_audit e ty ip s)"
    and tcp: "R s (emit (TcpConnect addr) s)"
    and failure: "R s (update_failure ft b k s)"
    and request: "R s (handle_login_request_without_validation lr s)"
    and logon: "R s (logon e s)"
    and fields: "R s (s\<lparr>w_sessions := m\<rparr>)" "R s (s\<lparr>c_require_2fa := r\<rparr>)" "R s (s\<lparr>c_file_transfer := f\<rparr>)"
      "R s (s\<lparr>c_port_forward := pf\<rparr>)" "R s (s\<lparr>c_port_forward_address := pa\<rparr>)"
      "R s (s\<lparr>w_switch_uuids := us\<rparr>)" "R s (s\<lparr>c_from_switch := fs\<rparr>)"
begin

lemma sessions:
  "R s (snd (is_recent_session e tfa s))" "R s (snd (validate_password e s))" "R s (mark_session_tfa s)"
proof -
  show "R s (snd (is_recent_session e tfa s))"
    using is_recent_session_state [of e tfa s] fields(1) by auto
  show "R s (snd (validate_password e s))"
    by (simp add: validate_password_def insert_session_def refl fields(1))
  show "R s (mark_session_tfa s)"
    by (simp add: mark_session_tfa_def insert_session_def refl fields(1) split: option.split)
qed

lemma check: "R s (snd (check_failure e k s))"
  by (auto simp: check_failure_def Let_def split_def intro: refl trans [OF error alarm])

lemma kind: "R s (snd (login_kind e u s))"
  unfolding login_kind_def login_port_forward_def Let_def split_def
  by (auto split: option.split login_union.split
      intro: fields refl error trans [OF fields(5) trans [OF tcp fields(4)]]
        trans [OF fields(5) trans [OF tcp error]])

lemma logon_response: "R s (send_logon_response e s)"
proof -
  have "R s (snd (second_factor_missing e s))"
    using sessions(1) [of s e True] by (simp add: second_factor_missing_def split_def Let_def refl)
  then show ?thesis
    using refl trans logon error unfolding send_logon_response_def split_def Let_def by auto
qed

lemma accepted: "R s (login_accepted e err lr s)"
  unfolding login_accepted_def Let_def
  using error trans [OF trans [OF desktop logon_response] cm] by simp

lemma password: "R s (login_password e err lr s)"
proof -
  obtain ft res s1 where c: "check_failure e 0 s = ((ft, res), s1)" by (cases "check_failure e 0 s") auto
  have s1: "R s s1" using check [of s e 0] c by simp
  obtain ok s2 where v: "validate_password e s1 = (ok, s2)" by fastforce
  have s2: "R s (update_failure ft b 0 s2)" for b
    using trans [OF trans [OF s1 sessions(2)] failure] v by (metis snd_conv)
  show ?thesis
    using s1 trans [OF s2 error] trans [OF s2 accepted] trans [OF trans [OF s2 error] cm]
    by (auto simp: login_password_def c v Let_def)
qed

lemma validate: "R s (snd (login_validate e err lr s))"
proof -
  obtain recent s1 where r: "is_recent_session e False s = (recent, s1)" by fastforce
  have q: "R s s1" using sessions(1) [of s e False] r by simp
  have "R s1 (if recent then login_accepted e err lr s1
       else if lr_password lr = [] then
         (if err = [] then try_start_cm (lr_my_id lr) (lr_my_name lr) False s1
          else send_login_error LOGIN_MSG_DESKTOP_SESSION_NOT_READY_PASSWORD_EMPTY s1)
       else login_password e err lr s1)"
    by (simp add: accepted password error cm)
  then show ?thesis
    using login_validate_result [OF r, of err lr] trans [OF q] cm error trans [OF cm error]
    unfolding insert_iff empty_iff by (elim disjE) simp_all
qed

lemma login_request: "R s (snd (on_login_request e lr s))"
proof -
  define s1 where "s1 = handle_login_request_without_validation lr s"
  have s1: "R s s1" by (simp add: s1_def request)
  obtain r s2 where k: "login_kind e (lr_union lr) s1 = (r, s2)" by fastforce
  have s2: "R s s2" using trans [OF s1 kind, of e "lr_union lr"] k by simp
  define s3 where "s3 = try_start_cm_ipc s2"
  have s3: "R s s3" using trans [OF s2 cm_ipc] by (simp add: s3_def)
  show ?thesis
    using s1 s2 trans [OF s3 error] trans [OF s3 validate]
    by (cases r) (auto simp: on_login_request_def s1_def [symmetric] k s3_def [symmetric] Let_def)
qed

lemma auth_2fa: "R s (snd (on_auth_2fa e code s))"
proof -
  obtain ft res s1 where c: "check_failure e 1 s = ((ft, res), s1)" by (cases "check_failure e 1 s") auto
  have s1: "R s s1" using check [of s e 1] c by simp
  note g = trans [OF s1 trans [OF failure error]]
    trans [OF trans [OF trans [OF trans [OF s1 trans [OF failure fields(2)]] logon_response] cm] sessions(3)]
  show ?thesis
    using s1 g by (auto simp: on_auth_2fa_def c [simplified] Let_def split: option.split bool.split)
qed

lemma switch_sides: "R s (snd (on_switch_sides_response e uuid lr s))"
proof (cases lr)
  case (Some r)
  define s1 where "s1 = retain_switch_uuids e (handle_login_request_without_validation r s)"
  let ?s2 = "s1\<lparr>w_switch_uuids := hm_remove (lr_my_id r) (w_switch_uuids s1)\<rparr>"
  have "R s s1" unfolding s1_def retain_switch_uuids_def by (rule trans [OF request fields(6)])
  then have s2: "R s ?s2" by (rule trans [OF _ fields(6)])
  have s3: "R s (?s2\<lparr>c_from_switch := True\<rparr>)" by (rule trans [OF s2 fields(7)])
  show ?thesis
    using s2 trans [OF s3 trans [OF logon_response trans [OF cm cm_ipc]]]
    by (auto simp: on_switch_sides_response_def Some s1_def [symmetric] Let_def split: option.split)
qed (simp add: on_switch_sides_response_def refl)

end

section \<open>All messages, and the turns of the loop\<close>

locale life_relation = step_relation +
  assumes session: "within s t \<Longrightarrow> R s t"
    and close: "R s (on_close lock s)"
    and test_delay: "R s (snd (on_test_delay e td s))"
    and permission: "R s (switch_permission name b s)"
    and send_raw: "R s (emit (ToPeerRaw bs) s)"
    and recv_times: "R s (s\<lparr>w_recv_times := rt\<rparr>)"
begin

lemma close_sessions: "R s ((on_close lock s)\<lparr>w_sessions := m\<rparr>)"
  by (rule trans [OF close fields(1)])

lemma close_reason: "R s (send_close_reason_no_retry reason s)"
  unfolding send_close_reason_no_retry_def Let_def
  by (rule trans [OF session [OF changes_send(1) [OF changes_refl]] fields(1)])

lemma misc: "R s (snd (on_misc e m s))"
proof (cases m)
  case (Some a)
  show ?thesis
  proof (cases a)
    case (MiscCloseReason r)
    then show ?thesis by (simp add: on_misc_def Some Let_def close_sessions)
  next
    case (MiscSwitchSidesRequest u)
    then show ?thesis
      using trans [OF session [OF within_emit(9) [OF changes_refl]] close] refl
      by (simp add: on_misc_def Some on_switch_sides_request_def split: option.split)
  qed (use changes_refl [of "in_session s" s] in
      \<open>auto simp: on_misc_def Some intro!: session changes_intros split: option.split\<close>)
qed (simp add: on_misc_def refl)

lemma message: "R s (snd (on_message e msg s))"
proof (cases "\<exists>m. msg = MsgMisc m")
  case True
  then show ?thesis by (auto simp: on_message_def on_authorized_message_def misc refl)
next
  case False
  then show ?thesis
    using login_request auth_2fa switch_sides test_delay changes_refl [of "in_session s" s]
    by (cases msg)
      (auto simp: on_message_def on_authorized_message_def refl
        intro!: session changes_intros split: option.split)
qed

lemma voice_call: "R s (handle_voice_call e accepted s)"
proof -
  have "within s (handle_voice_call e accepted s)"
    unfolding handle_voice_call_def
    by (rule changes_struct changes_intros changes_refl | assumption)+
  then show ?thesis by (rule session)
qed

lemma cm_event: "R s (snd (on_cm_event e ev s))"
proof (cases ev)
  case CmAuthorize
  then show ?thesis
    using trans [OF fields(2) logon_response] by (simp add: on_cm_event_def Let_def)
next
  case CmCloseRequest
  have "R s (s\<lparr>c_chat_unanswered := False, c_file_transferred := False\<rparr>)"
    by (rule session) (rule changes_intros changes_refl)+
  then show ?thesis
    using CmCloseRequest trans [OF _ trans [OF close_reason close]] by (simp add: on_cm_event_def)
next
  case (CmErr err)
  then show ?thesis by (simp add: on_cm_event_def close refl)
next
  case (CmSwitchPermission n b)
  then show ?thesis by (simp add: on_cm_event_def permission)
next
  case (CmRawMessage bs)
  then show ?thesis by (simp add: on_cm_event_def send_raw)
next
  case (CmVoiceCallResponse accepted)
  then show ?thesis by (simp add: on_cm_event_def voice_call)
qed (use changes_refl [of "in_session s" s] in
    \<open>auto simp: on_cm_event_def intro!: session changes_intros\<close>)

lemma sends: "R s (fold send ms s)"
proof -
  have "within s t \<Longrightarrow> within s (fold send ms t)" for t
    by (induction ms arbitrary: t) (simp_all add: changes_send)
  then show ?thesis using session changes_refl by blast
qed

lemma remove_logs: "R s (fold send_to_cm (fst (frl_on_timer e l)) (s\<lparr>c_file_remove_log := l'\<rparr>))"
proof -
  have "within s (fold send_to_cm xs t)"
    if "within s t" "list_all (\<lambda>x. \<exists>a lg. x = CmFileTransferLog a lg) xs" for xs t
    using that by (induction xs arbitrary: t) (auto simp: within_emit(18))
  moreover have "list_all (\<lambda>x. \<exists>a lg. x = CmFileTransferLog a lg) (fst (frl_on_timer e l))"
    by (auto simp: frl_on_timer_def list_all_iff file_log_entry_def dir_log_entry_def)
  ultimately have "within s (fold send_to_cm (fst (frl_on_timer e l)) (s\<lparr>c_file_remove_log := l'\<rparr>))"
    using changes_refl by (blast intro: changes_updates)
  then show ?thesis by (rule session)
qed

lemma ticks:
  "R s (snd (on_file_tick e ok s))" "R s (snd (on_second_tick e s))"
  "R s (snd (on_test_delay_tick e recvd s))" "R s (snd (on_web_console conns s))"
proof -
  have log: "R s (send_to_cm (CmFileTransferLog a lg) s)" for s a lg
    by (rule session) (rule changes_intros changes_refl)+
  have upd: "R s (s\<lparr>c_read_jobs := js\<rparr>)" "R s (s\<lparr>c_file_timer_fast := b\<rparr>)" for s :: connection and js b
    by (rule session, rule changes_intros changes_refl, rule changes_refl)+
  show "R s (snd (on_file_tick e ok s))"
    using upd trans [OF log close] trans [OF log trans [OF upd(1) sends]]
    by (auto simp: on_file_tick_def Let_def split_def)
  show "R s (snd (on_second_tick e s))"
    using trans [OF close_reason close] remove_logs
    by (auto simp: on_second_tick_def Let_def split_def split: option.split)
  show "R s (snd (on_test_delay_tick e recvd s))"
    using close session [OF changes_with(3) [OF changes_refl]]
      session [OF changes_with(3) [OF changes_send(1) [OF changes_updates(7) [OF changes_refl]]]]
    by (simp add: on_test_delay_tick_def Let_def)
  show "R s (snd (on_web_console conns s))"
    using trans [OF close_reason close] refl by (simp add: on_web_console_def)
qed

lemma outs: "R s (snd (on_video_out m ok s))" "R s (snd (on_message_out e m latency ok s))"
proof -
  have send: "R s (send m s)" for s by (rule session) (rule changes_intros changes_refl)+
  have fetched: "R s (emit (VideoFetched i b) s)" for s i b
    by (rule session) (rule changes_intros changes_refl)+
  show "R s (snd (on_video_out m ok s))"
    using send close trans [OF fetched send] trans [OF fetched close]
    by (simp add: on_video_out_def Let_def)
  have cursor: "within s (handle_cursor_switch_display e x y s)" for x y
    unfolding handle_cursor_switch_display_def by (rule changes_struct changes_intros changes_refl)+
  have pre: "R s (case m of MsgPeerInfo _ \<Rightarrow> refresh_video_display None s
      | MsgCursorPosition x y \<Rightarrow> if c_follow_remote_cursor s then handle_cursor_switch_display e x y s else s
      | _ \<Rightarrow> s)"
    using session [OF within_displays(1) [OF changes_refl]] session [OF cursor] refl
    by (simp split: message.split)
  show "R s (snd (on_message_out e m latency ok s))"
    using refl trans [OF close_reason close] trans [OF pre send] trans [OF pre close]
    by (simp add: on_message_out_def Let_def)
qed

lemma peer_message: "R s (snd (on_peer_message e msg s))"
  using recv_times trans [OF recv_times message]
  by (simp add: on_peer_message_def Let_def split_def split: option.split)

lemma loop: "R s (snd (snd (loop_step (going, recvd, s) (e, ev))))"
  using refl cm_event peer_message close ticks outs
  by (cases ev) (simp_all add: loop_step_def Let_def split_def)

end

section \<open>Several connections over the same statics\<close>

text \<open>The fields of the connection over the statics \<open>w\<close>.\<close>

definition attach :: "world \<Rightarrow> connection \<Rightarrow> connection" where
  "attach w c = world.extend w (world.more c)"

lemma attach_fields [simp]:
  "c_inner (attach w c) = c_inner c" "c_authorized (attach w c) = c_authorized c"
  "c_authed_conn_id (attach w c) = c_authed_conn_id c" "c_closed (attach w c) = c_closed c"
  "c_ip (attach w c) = c_ip c" "c_file_transfer (attach w c) = c_file_transfer c"
  "w_failures (attach w c) = w_failures w" "w_out (attach w c) = w_out w"
  "w_server (attach w c) = w_server w" "w_authed (attach w c) = w_authed w"
  "w_alive (attach w c) = w_alive w" "w_qos (attach w c) = w_qos w"
  by (cases c; simp add: attach_def world.extend_def)+

lemma truncate_fields [simp]:
  "w_failures (world.truncate t) = w_failures t" "w_out (world.truncate t) = w_out t"
  by (simp_all add: world.truncate_def)

end
