(* ===== verification/Conn_Demo.thy ===== *)
theory Conn_Demo
  imports Conn_Loop
begin

text \<open>
  A concrete host for the witnesses: options all at their defaults, one display, an empty file
  system, a permanent password, a toy hash that keeps the lengths of hashes, and fresh
  connections on it.
\<close>

definition demo_options :: options where
  "demo_options _ = []"

definition demo_codec :: codec_env where
  "demo_codec =
     \<lparr>env_disable_av1 = False, env_vram_option = False, env_vram_h264 = 0, env_vram_h265 = 0,
      env_hwcodec_option = False, env_hw_h264 = None, env_hw_h265 = None, env_total_memory = 8\<rparr>"

definition demo_env :: env where
  "demo_env =
     \<lparr>e_now = 100000, e_time = 6000000, e_options = demo_options, e_id = ''123456789'',
      e_permanent_password = [1, 2, 3], e_new_password = [7, 7, 7, 7, 7, 7],
      e_sha256 = (\<lambda>bs. take 32 (rev bs @ replicate 32 0)),
      e_check_totp = (\<lambda>_ code. Some (code = ''654321'')), e_uuid_from_slice = Some,
      e_uuid_string = (\<lambda>_. ''uuid''), e_is_ip_str = (\<lambda>_. False), e_is_domain_port_str = (\<lambda>_. False),
      e_cidr = (\<lambda>_. None), e_api_server = (\<lambda>_ _. []), e_tcp_connect = (\<lambda>_. True),
      e_privacy = \<lparr>pe_impls = (\<lambda>_. None), pe_supported = [], pe_default = [], pe_option = []\<rparr>,
      e_privacy_timeout = False, e_headless_allowed = False, e_is_headless = False,
      e_start_desktop = (\<lambda>_ _. []), e_is_server = True, e_main_window_open = True, e_prelogin = False,
      e_cm_gone = False, e_version = ''1.2.4'', e_username = ''user'', e_hostname = ''host'',
      e_platform = ''Linux'', e_platform_additions = [], e_display_server = ''x11'',
      e_login_screen_wayland = False, e_is_x11 = True, e_inited_msg = None,
      e_displays = Inr [\<lparr>di_x = 0, di_y = 0, di_width = 1920, di_height = 1080, di_name = ''0'', di_cursor_embedded = False\<rparr>],
      e_try_displays = Some [\<lparr>di_x = 0, di_y = 0, di_width = 1920, di_height = 1080, di_name = ''0'', di_cursor_embedded = False\<rparr>],
      e_resolutions = (\<lambda>_. []), e_display_changed = (\<lambda>_. None), e_cursor_display = (\<lambda>_ _. None),
      e_primary = 0, e_codec = demo_codec, e_wallpaper = True, e_is_dir = (\<lambda>_. False),
      e_nodes = (\<lambda>_. None), e_fs = \<lparr>fs_files = (\<lambda>_. None), fs_denied = (\<lambda>_. False)\<rparr>, e_zstd = demo_zstd,
      e_failing = (\<lambda>_. False), e_key = (\<lambda>n. OtherKey (unat n)),
      e_default_sound_input = None\<rparr>"

definition demo_world :: world where
  "demo_world =
     \<lparr>w_failures = (\<lambda>_. []), w_sessions = [], w_recv_times = (\<lambda>_. 0), w_alive = [], w_authed = [],
      w_switch_uuids = [], w_wallpaper = False, w_temporary_password = [9, 9, 9, 9, 9, 9],
      w_server = Some (add_service (service_new ''audio'' True) (server_init 1)),
      w_qos = video_qos_default,
      w_encoder = \<lparr>peer_decodings = [], encode_codec_format = VP9, usable_encoding = None\<rparr>,
      w_privacy = None, w_click_time = 0, w_mouse_move_time = 0, w_out = []\<rparr>"

text \<open>A fresh connection, without and with a second factor.\<close>

definition demo_conn :: connection where
  "demo_conn = connection_new demo_env 5 None ''salt'' ''chal'' 0 demo_world"

definition demo_conn_2fa :: connection where
  "demo_conn_2fa = connection_new demo_env 5 (Some [42]) ''salt'' ''chal'' 0 demo_world"

lemmas demo_defs = demo_env_def demo_world_def demo_conn_def demo_conn_2fa_def connection_new_def
  connection.fields_def world.extend_def demo_options_def conn_permission_def Let_def

lemma demo_conn_fields [simp]:
  "c_authorized demo_conn = False" "c_authorized demo_conn_2fa = False"
  "c_require_2fa demo_conn = None" "c_require_2fa demo_conn_2fa = Some [42]"
  "w_failures demo_conn = (\<lambda>_. [])" "w_failures demo_conn_2fa = (\<lambda>_. [])"
  "c_keyboard demo_conn = True" "c_closed demo_conn = False" "w_out demo_conn = []" "c_id demo_conn = 5"
  "c_file_transfer demo_conn = None" "c_port_forward demo_conn = False"
  "c_file_transfer demo_conn_2fa = None" "c_port_forward demo_conn_2fa = False"
  "w_privacy demo_conn = None" "c_authed_conn_id demo_conn = None"
  "w_alive demo_conn = []" "w_authed demo_conn = []" "c_ip demo_conn = []"
  by (simp_all add: demo_defs)

lemma demo_env_fields [simp]:
  "e_options demo_env = demo_options" "e_check_totp demo_env k code = Some (code = ''654321'')"
  "e_now demo_env = 100000" "e_time demo_env = 6000000"
  by (simp_all add: demo_env_def)

end
