(* ===== verification/Conn_Auth.thy ===== *)
theory Conn_Auth
  imports Conn_Steps Conn_Demo
begin

text \<open>
  Who gets in: what it takes for a connection to become authorized, what a peer can cause
  before, and what the permissions of the host allow after. The theorems are about \<open>on_message\<close>
  of \<open>src/server/connection.rs\<close> for any state of the connection and the process.
\<close>

section \<open>The steps of a login\<close>

definition good_session :: "env \<Rightarrow> connection \<Rightarrow> login_request \<Rightarrow> session \<Rightarrow> bool" where
  "good_session e s lr ses \<longleftrightarrow>
     (lr_my_id lr, ses) \<in> set (w_sessions s) \<and> ses_name ses = lr_my_name lr \<and>
     ses_id ses = lr_session_id lr \<and> e_now e - w_recv_times s (ses_recv ses) < SESSION_TIMEOUT"

lemma retain_in: "x \<in> set (hm_retain Q m) \<Longrightarrow> x \<in> set m \<and> Q (fst x) (snd x)"
  by (auto simp: hm_retain_def)

lemma is_recent_sessionD:
  assumes "is_recent_session e tfa s = (True, t)"
  shows "\<exists>ses. good_session e s (c_lr s) ses \<and> lr_password (c_lr s) \<noteq> [] \<and>
      (if tfa then ses_tfa ses else validate_one_password e (ses_password ses) s) \<and>
      t = s\<lparr>w_sessions := hm_insert (lr_my_id (c_lr s)) (ses\<lparr>ses_recv := c_recv_cell s\<rparr>)
              (w_sessions (retain_sessions e s))\<rparr>"
proof -
  let ?m = "w_sessions (retain_sessions e s)"
  obtain ses where ses: "hm_get ?m (lr_my_id (c_lr s)) = Some ses"
    using assms by (auto simp: is_recent_session_def retain_sessions_def Let_def split: option.splits)
  then have "(lr_my_id (c_lr s), ses) \<in> set ?m" by (rule map_of_SomeD)
  then have in_s: "(lr_my_id (c_lr s), ses) \<in> set (w_sessions s)"
    and recent: "e_now e - w_recv_times s (ses_recv ses) < SESSION_TIMEOUT"
    by (auto simp: retain_sessions_def dest: retain_in)
  have "validate_one_password e p (retain_sessions e s) = validate_one_password e p s" for p
    by (simp add: validate_one_password_def retain_sessions_def)
  then show ?thesis
    using assms ses in_s recent
    by (intro exI [of _ ses])
      (auto simp: good_session_def is_recent_session_def insert_session_def retain_sessions_def Let_def
        split: if_splits)
qed

lemma is_recent_session_False:
  "is_recent_session e tfa s = (False, t) \<Longrightarrow> t = retain_sessions e s"
  by (auto simp: is_recent_session_def Let_def split: option.splits if_splits)

text \<open>What the second factor asks for.\<close>

definition tfa_passed :: "env \<Rightarrow> connection \<Rightarrow> login_request \<Rightarrow> bool" where
  "tfa_passed e s lr \<longleftrightarrow>
     c_require_2fa s = None \<or> c_from_switch s \<or> (\<exists>ses. good_session e s lr ses \<and> ses_tfa ses)"

lemma logon_authorized [simp]: "c_authorized (logon e s)"
  using changes_fields(10) [OF within_logon_answer [OF changes_refl, of "logon_begin s" e]]
  by (simp add: logon_def logon_begin_frame)

lemma send_logon_response_auth:
  assumes "\<not> c_authorized s"
  shows "c_authorized (send_logon_response e s) \<longleftrightarrow> \<not> fst (second_factor_missing e s)"
proof -
  obtain m where "snd (is_recent_session e True s) = s\<lparr>w_sessions := m\<rparr>"
    using is_recent_session_state by blast
  then have "\<not> c_authorized (snd (second_factor_missing e s))"
    using assms by (simp add: second_factor_missing_def split_def Let_def)
  then show ?thesis
    using assms by (simp add: send_logon_response_def split_def Let_def send_login_error_def emit_def)
qed

lemma second_factor_passed:
  assumes "\<not> fst (second_factor_missing e s)"
  shows "tfa_passed e s (c_lr s)"
proof (cases "c_require_2fa s = None \<or> c_from_switch s")
  case False
  obtain m where "snd (is_recent_session e True s) = s\<lparr>w_sessions := m\<rparr>"
    using is_recent_session_state by blast
  then have "fst (is_recent_session e True s)"
    using assms False by (simp add: second_factor_missing_def split_def Let_def)
  then show ?thesis
    using is_recent_sessionD [of e True s "snd (is_recent_session e True s)"]
    by (cases "is_recent_session e True s") (auto simp: tfa_passed_def)
qed (auto simp: tfa_passed_def)

lemma tfa_passed_insert:
  assumes "tfa_passed e t lr" and "c_require_2fa t = c_require_2fa s" and "c_from_switch t = c_from_switch s"
    and "w_recv_times t = w_recv_times s" and "w_sessions t = hm_insert (lr_my_id lr) new m"
    and "set m \<subseteq> set (w_sessions s)" and "ses_tfa new \<Longrightarrow> \<exists>ses. good_session e s lr ses \<and> ses_tfa ses"
  shows "tfa_passed e s lr"
proof (cases "c_require_2fa s = None \<or> c_from_switch s")
  case False
  then obtain ses where ses: "good_session e t lr ses" "ses_tfa ses"
    using assms(1-3) by (auto simp: tfa_passed_def)
  then have "ses = new \<or> (lr_my_id lr, ses) \<in> set m"
    using assms(5) hm_in_insertD by (fastforce simp: good_session_def)
  then show ?thesis
    using ses assms(4,6,7) by (auto simp: tfa_passed_def good_session_def)
qed (auto simp: tfa_passed_def)

lemma tfa_passed_cong:
  "c_require_2fa t = c_require_2fa s \<Longrightarrow> c_from_switch t = c_from_switch s \<Longrightarrow>
   w_recv_times t = w_recv_times s \<Longrightarrow> w_sessions t = w_sessions s \<Longrightarrow> tfa_passed e t lr = tfa_passed e s lr"
  by (simp add: tfa_passed_def good_session_def)

text \<open>The peer has shown that it knows a password: the hash over the salt and the challenge of
  this connection.\<close>

definition proves :: "env \<Rightarrow> connection \<Rightarrow> login_request \<Rightarrow> bytes \<Rightarrow> bool" where
  "proves e s lr password \<longleftrightarrow>
     password \<noteq> [] \<and> e_sha256 e (e_sha256 e (password @ c_salt s) @ c_challenge s) = lr_password lr"

definition entitled :: "env \<Rightarrow> connection \<Rightarrow> login_request \<Rightarrow> bool" where
  "entitled e s lr \<longleftrightarrow>
     temporary_enabled (e_options e) \<and> proves e s lr (w_temporary_password s) \<or>
     permanent_enabled (e_options e) \<and> proves e s lr (e_permanent_password e) \<or>
     (\<exists>ses. good_session e s lr ses \<and> proves e s lr (ses_password ses))"

lemma validate_one_password_proves: "validate_one_password e p s = proves e s (c_lr s) p"
  by (simp add: validate_one_password_def proves_def)

lemma login_accepted_auth:
  assumes "c_authorized (login_accepted e err lr s)" and "\<not> c_authorized s"
  shows "tfa_passed e s (c_lr s)"
proof -
  have f: "c_authorized (wait_desktop_cm_ready e s) = c_authorized s" "c_lr (wait_desktop_cm_ready e s) = c_lr s"
    "tfa_passed e (wait_desktop_cm_ready e s) lr = tfa_passed e s lr" for lr
    by (simp_all add: wait_desktop_cm_ready_def emit_def tfa_passed_def good_session_def)
  have "c_authorized (send_logon_response e (wait_desktop_cm_ready e s))"
    using assms by (auto simp: login_accepted_def Let_def try_start_cm_def send_login_error_def emit_def
        split: if_splits)
  then have "\<not> fst (second_factor_missing e (wait_desktop_cm_ready e s))"
    using send_logon_response_auth [of "wait_desktop_cm_ready e s" e] assms(2) f by simp
  from second_factor_passed [OF this] show ?thesis using f by simp
qed

lemma update_failure_fields:
  "c_authorized (update_failure ft b i s) = c_authorized s" "c_lr (update_failure ft b i s) = c_lr s"
  "w_sessions (update_failure ft b i s) = w_sessions s" "w_recv_times (update_failure ft b i s) = w_recv_times s"
  "c_require_2fa (update_failure ft b i s) = c_require_2fa s"
  "c_from_switch (update_failure ft b i s) = c_from_switch s" "w_out (update_failure ft b i s) = w_out s"
  "host_frame (update_failure ft b i s) = host_frame s" "c_closed (update_failure ft b i s) = c_closed s"
  by (simp_all add: update_failure_def put_failure_def Let_def split_def host_frame_def)

lemma check_failure_ok: "check_failure e i s = ((ft, True), t) \<Longrightarrow> t = s"
  by (auto simp: check_failure_def Let_def split: prod.splits if_splits)

lemma check_failure_authorized: "c_authorized (snd (check_failure e i s)) = c_authorized s"
  by (simp add: check_failure_def Let_def split_def post_alarm_audit_def send_login_error_def emit_def)

lemma login_password_auth:
  assumes "c_authorized (login_password e err lr s)" and "\<not> c_authorized s" and lr: "c_lr s = lr"
  shows "entitled e s lr \<and> tfa_passed e s lr"
proof -
  obtain ft res s1 where c: "check_failure e 0 s = ((ft, res), s1)" by (cases "check_failure e 0 s") auto
  show ?thesis
  proof (cases res)
    case False
    then show ?thesis
      using assms check_failure_authorized [of e 0 s] by (simp add: login_password_def c Let_def)
  next
    case True
    then have s1: "s1 = s" using c check_failure_ok [of e 0 s ft s1] by simp
    obtain ok s2 where v: "validate_password e s = (ok, s2)" by fastforce
    have ok: ok and acc: "c_authorized (login_accepted e err lr (update_failure ft True 0 s2))"
      and s2: "\<not> c_authorized s2" "c_lr s2 = lr"
      using assms True v
      by (auto simp: login_password_def c s1 Let_def try_start_cm_def send_login_error_def emit_def
          update_failure_fields validate_password_def insert_session_def split: if_splits)
    have "tfa_passed e (update_failure ft True 0 s2) lr"
      using login_accepted_auth [OF acc] s2 by (simp add: update_failure_fields)
    then have tfa: "tfa_passed e s2 lr"
      by (subst (asm) tfa_passed_cong [where s = s2]) (simp_all add: update_failure_fields)
    consider "s2 = s" | new where "s2 = insert_session new s" "\<not> ses_tfa new"
      using v by (auto simp: validate_password_def split: if_splits)
    then have "tfa_passed e s lr"
    proof cases
      case 1
      then show ?thesis using tfa by simp
    next
      case 2
      have "w_sessions s2 = hm_insert (lr_my_id lr) new (w_sessions s)" "c_require_2fa s2 = c_require_2fa s"
        "c_from_switch s2 = c_from_switch s" "w_recv_times s2 = w_recv_times s"
        unfolding 2(1) insert_session_def lr by simp_all
      from tfa_passed_insert [OF tfa this(2,3,4,1) subset_refl] 2(2) show ?thesis by blast
    qed
    moreover have "entitled e s lr"
      using v ok lr by (auto simp: validate_password_def entitled_def validate_one_password_proves
          split: if_splits)
    ultimately show ?thesis by blast
  qed
qed

lemma login_validate_auth:
  assumes "c_authorized (snd (login_validate e err lr s))" and "\<not> c_authorized s" and lr: "c_lr s = lr"
  shows "entitled e s lr \<and> tfa_passed e s lr \<and> get_approve_mode (e_options e) \<noteq> ApproveClick"
proof -
  obtain recent s1 where r: "is_recent_session e False s = (recent, s1)" by fastforce
  obtain m where m: "s1 = s\<lparr>w_sessions := m\<rparr>" using is_recent_session_state [of e False s] r by auto
  have go: "c_authorized (if recent then login_accepted e err lr s1
      else if lr_password lr = [] then s1 else login_password e err lr s1)"
    and mode: "get_approve_mode (e_options e) \<noteq> ApproveClick"
    using assms m by (auto simp: login_validate_def Let_def r try_start_cm_def send_login_error_def emit_def
        split: if_splits)
  have "entitled e s lr \<and> tfa_passed e s lr"
  proof (cases recent)
    case True
    then obtain ses where ses: "good_session e s lr ses" "validate_one_password e (ses_password ses) s"
      "w_sessions s1 = hm_insert (lr_my_id lr) (ses\<lparr>ses_recv := c_recv_cell s\<rparr>) (w_sessions (retain_sessions e s))"
      using is_recent_sessionD [of e False s s1] r lr by auto
    have "tfa_passed e s1 lr"
      using login_accepted_auth [of e err lr s1] go True m assms(2) lr by simp
    then have "tfa_passed e s lr"
      by (rule tfa_passed_insert [where s = s, OF _ _ _ _ ses(3)])
        (use ses m in \<open>auto simp: retain_sessions_def dest: retain_in\<close>)
    then show ?thesis
      using ses lr by (auto simp: entitled_def validate_one_password_proves)
  next
    case False
    then have s1: "s1 = retain_sessions e s" using r is_recent_session_False [of e False s s1] by simp
    then have "entitled e s1 lr \<and> tfa_passed e s1 lr"
      using go False login_password_auth [of e err lr s1] assms(2) lr
      by (simp add: retain_sessions_def split: if_splits)
    moreover have "good_session e s1 lr ses \<Longrightarrow> good_session e s lr ses" for ses
      by (auto simp: s1 good_session_def retain_sessions_def dest: retain_in)
    moreover have "proves e s1 lr p = proves e s lr p" for p by (simp add: proves_def m)
    ultimately show ?thesis by (auto simp: entitled_def tfa_passed_def m)
  qed
  then show ?thesis using mode by blast
qed

lemma login_kind_fields:
  "c_lr (snd (login_kind e u s)) = c_lr s" "c_authorized (snd (login_kind e u s)) = c_authorized s"
  "w_sessions (snd (login_kind e u s)) = w_sessions s"
  "w_recv_times (snd (login_kind e u s)) = w_recv_times s"
  "c_require_2fa (snd (login_kind e u s)) = c_require_2fa s"
  "c_from_switch (snd (login_kind e u s)) = c_from_switch s"
  "w_temporary_password (snd (login_kind e u s)) = w_temporary_password s"
  "host_frame (snd (login_kind e u s)) = host_frame s" "c_closed (snd (login_kind e u s)) = c_closed s"
  "w_failures (snd (login_kind e u s)) = w_failures s"
  by (simp_all add: login_kind_def login_port_forward_def Let_def split_def send_login_error_def emit_def
      host_frame_def split: option.split login_union.split)

lemma login_request_fields:
  "c_lr (handle_login_request_without_validation lr s) = lr"
  "c_authorized (handle_login_request_without_validation lr s) = c_authorized s"
  "w_sessions (handle_login_request_without_validation lr s) = w_sessions s"
  "w_recv_times (handle_login_request_without_validation lr s) = w_recv_times s"
  "c_require_2fa (handle_login_request_without_validation lr s) = c_require_2fa s"
  "c_from_switch (handle_login_request_without_validation lr s) = c_from_switch s"
  "w_temporary_password (handle_login_request_without_validation lr s) = w_temporary_password s"
  "host_frame (handle_login_request_without_validation lr s) = host_frame s"
  "c_closed (handle_login_request_without_validation lr s) = c_closed s"
  "w_failures (handle_login_request_without_validation lr s) = w_failures s"
  "w_out (handle_login_request_without_validation lr s) = w_out s"
  "w_switch_uuids (handle_login_request_without_validation lr s) = w_switch_uuids s"
  by (simp_all add: handle_login_request_without_validation_def Let_def host_frame_def split: option.split)

lemma entitled_cong:
  assumes "host_frame t = host_frame s" and "w_temporary_password t = w_temporary_password s"
    and "w_sessions t = w_sessions s" and "w_recv_times t = w_recv_times s"
  shows "entitled e t lr = entitled e s lr"
  using assms by (auto simp: entitled_def proves_def good_session_def host_frame_def)

lemma login_request_auth:
  assumes "c_authorized (snd (on_login_request e lr s))" and "\<not> c_authorized s"
  shows "entitled e s lr \<and> tfa_passed e s lr \<and> get_approve_mode (e_options e) \<noteq> ApproveClick"
proof -
  define s1 where "s1 = handle_login_request_without_validation lr s"
  define s2 where "s2 = try_start_cm_ipc (snd (login_kind e (lr_union lr) s1))"
  have s2: "c_lr s2 = lr" "\<not> c_authorized s2" "w_sessions s2 = w_sessions s" "w_recv_times s2 = w_recv_times s"
    "c_require_2fa s2 = c_require_2fa s" "c_from_switch s2 = c_from_switch s"
    "w_temporary_password s2 = w_temporary_password s" "host_frame s2 = host_frame s"
    using assms(2) login_kind_fields [of e "lr_union lr" s1] login_request_fields [of lr s]
    by (simp_all add: s2_def s1_def try_start_cm_ipc_def emit_def host_frame_def)
  have "\<not> c_authorized s1" using assms(2) by (simp add: s1_def login_request_fields)
  then have "c_authorized (snd (login_validate e (try_start_desktop e (lr_os_login lr)) lr s2))"
    using assms(1) s2(2) login_kind_fields(2) [of e "lr_union lr" s1]
    by (auto simp: on_login_request_def s1_def [symmetric] Let_def s2_def send_login_error_def emit_def
        split: prod.splits option.splits if_splits)
  from login_validate_auth [OF this s2(2) s2(1)] show ?thesis
    using entitled_cong [OF s2(8,7,3,4)] tfa_passed_cong [OF s2(5,6,4,3)] by simp
qed

lemma on_auth_2fa_auth:
  assumes "c_authorized (snd (on_auth_2fa e code s))" and "\<not> c_authorized s"
  shows "\<exists>k. c_require_2fa s = Some k \<and> e_check_totp e k code = Some True"
  using assms check_failure_authorized [of e 1 s]
  by (auto dest!: check_failure_ok simp: on_auth_2fa_def Let_def send_login_error_def emit_def update_failure_fields
      split: prod.splits option.splits bool.splits if_splits)

definition switch_uuid_ok :: "env \<Rightarrow> connection \<Rightarrow> bytes \<Rightarrow> login_request \<Rightarrow> bool" where
  "switch_uuid_ok e s uuid lr \<longleftrightarrow>
     (\<exists>time u. (lr_my_id lr, (time, u)) \<in> set (w_switch_uuids s) \<and> e_now e - time < 10000 \<and>
        e_uuid_from_slice e uuid = Some u)"

lemma on_switch_sides_response_auth:
  assumes "c_authorized (snd (on_switch_sides_response e uuid lr s))" and "\<not> c_authorized s"
  shows "\<exists>r. lr = Some r \<and> switch_uuid_ok e s uuid r"
proof (cases lr)
  case None
  then show ?thesis using assms by (simp add: on_switch_sides_response_def)
next
  case (Some r)
  define s1 where "s1 = retain_switch_uuids e (handle_login_request_without_validation r s)"
  have "\<not> c_authorized s1" using assms(2) by (simp add: s1_def retain_switch_uuids_def login_request_fields)
  then obtain u tm where u: "e_uuid_from_slice e uuid = Some u"
    "hm_get (w_switch_uuids s1) (lr_my_id r) = Some (tm, u)"
    using assms(1)
    by (auto simp: on_switch_sides_response_def Some s1_def [symmetric] Let_def split: option.splits if_splits)
  then have "(lr_my_id r, (tm, u)) \<in> set (w_switch_uuids s1)" by (intro map_of_SomeD)
  then show ?thesis
    using u Some by (auto simp: switch_uuid_ok_def s1_def retain_switch_uuids_def login_request_fields
        dest!: retain_in)
qed

lemma on_authorized_frame:
  assumes "\<not> c_authorized s"
  shows "c_authorized (snd (on_test_delay e t s)) = False"
  using assms by (simp add: on_test_delay_def inner_send_def with_qos_def Let_def split: option.split)

text \<open>C1: A connection becomes authorized by a message only in one of three ways: a login request
  that proves a password (the one-time one, the permanent one, or that of a recent session with
  the same id, name and number), passes the second factor if there is one, on a host that does
  not ask for a click only; a correct code of the second factor; or the number the host handed
  out for switching sides, within ten seconds.\<close>

theorem authorization_sound:
  assumes "\<not> c_authorized s" and "on_message e msg s = (b, t)" and "c_authorized t"
  shows "(\<exists>lr. msg = MsgLoginRequest lr \<and> entitled e s lr \<and> tfa_passed e s lr \<and>
             get_approve_mode (e_options e) \<noteq> ApproveClick)
       \<or> (\<exists>code k. msg = MsgAuth2fa code \<and> c_require_2fa s = Some k \<and> e_check_totp e k code = Some True)
       \<or> (\<exists>uuid lr. msg = MsgSwitchSidesResponse uuid (Some lr) \<and> switch_uuid_ok e s uuid lr)"
proof -
  have t: "t = snd (on_message e msg s)" using assms(2) by simp
  show ?thesis
  proof (cases msg)
    case (MsgLoginRequest lr)
    then show ?thesis using login_request_auth [of e lr s] assms t by (simp add: on_message_def)
  next
    case (MsgAuth2fa code)
    then show ?thesis using on_auth_2fa_auth [of e code s] assms t by (simp add: on_message_def)
  next
    case (MsgSwitchSidesResponse uuid lr)
    then show ?thesis
      using on_switch_sides_response_auth [of e uuid lr s] assms t by (auto simp: on_message_def)
  next
    case (MsgTestDelay d)
    then show ?thesis using on_authorized_frame [OF assms(1)] assms(3) t by (simp add: on_message_def)
  qed (use assms(1,3) t in \<open>simp_all add: on_message_def\<close>)
qed

section \<open>What a peer can cause before it is authorized\<close>

text \<open>Answers of the login, requests to the local user, the attempt to reach the target of a
  tunnel, and reports. Nothing of the session itself.\<close>

fun login_effect :: "effect \<Rightarrow> bool" where
  "login_effect (ToPeer (MsgLoginResponse (LoginError _))) = True"
| "login_effect (ToCm (CmLogin l)) = (\<not> cl_authorized l)"
| "login_effect StartCm = True"
| "login_effect WaitDesktopReady = True"
| "login_effect (TcpConnect _) = True"
| "login_effect (AlarmAudit _ _) = True"
| "login_effect _ = False"

text \<open>Everything a session consists of stays: the services, privacy mode, jobs, codecs.\<close>

definition session_state :: "connection \<Rightarrow> server option \<times> privacy_mode option \<times> transfer_job list \<times>
    encoder_state \<times> (i32 \<times> auth_conn_type) list \<times> bool \<times> bool" where
  "session_state s = (w_server s, w_privacy s, c_read_jobs s, w_encoder s, w_authed s, c_closed s, c_services_subed s)"

definition quiet :: "connection \<Rightarrow> connection \<Rightarrow> bool" where
  "quiet s t \<longleftrightarrow> host_frame t = host_frame s \<and> session_state t = session_state s \<and>
     (\<exists>xs. w_out t = w_out s @ xs \<and> list_all login_effect xs)"

lemma quiet_refl: "quiet s s"
  by (simp add: quiet_def)

lemma quiet_trans: "quiet s t \<Longrightarrow> quiet t u \<Longrightarrow> quiet s u"
  by (fastforce simp: quiet_def)

lemma quiet_emit: "login_effect x \<Longrightarrow> quiet s (emit x s)"
  by (simp add: quiet_def session_state_def emit_def host_frame_def)

lemma quiet_same:
  "host_frame t = host_frame s \<Longrightarrow> session_state t = session_state s \<Longrightarrow> w_out t = w_out s \<Longrightarrow> quiet s t"
  by (simp add: quiet_def)

lemma quiet_error: "quiet s (send_login_error err s)"
  unfolding send_login_error_def by (rule quiet_emit) simp

lemma quiet_start_cm: "\<not> a \<Longrightarrow> quiet s (try_start_cm i n a s)"
  unfolding try_start_cm_def by (rule quiet_emit) simp

lemma quiet_alarm: "quiet s (post_alarm_audit e ty ip s)"
  unfolding post_alarm_audit_def by (auto intro: quiet_emit quiet_refl)

lemma quiet_small:
  "quiet s (try_start_cm_ipc s)" "quiet s (wait_desktop_cm_ready e s)"
  "quiet s (snd (is_recent_session e tfa s))" "quiet s (snd (validate_password e s))"
  "quiet s (update_failure ft b i s)" "quiet s (mark_session_tfa s)"
  "quiet s (handle_login_request_without_validation lr s)" "quiet s (s\<lparr>c_require_2fa := None\<rparr>)"
proof -
  show "quiet s (try_start_cm_ipc s)"
    by (simp add: try_start_cm_ipc_def quiet_def session_state_def emit_def host_frame_def)
  show "quiet s (wait_desktop_cm_ready e s)"
    unfolding wait_desktop_cm_ready_def by (simp add: quiet_emit quiet_refl)
  obtain m where "snd (is_recent_session e tfa s) = s\<lparr>w_sessions := m\<rparr>"
    using is_recent_session_state by blast
  then show "quiet s (snd (is_recent_session e tfa s))"
    by (simp add: quiet_def session_state_def host_frame_def)
  show "quiet s (snd (validate_password e s))"
    by (simp add: quiet_def session_state_def host_frame_def validate_password_def insert_session_def)
  show "quiet s (update_failure ft b i s)"
    by (simp add: quiet_def session_state_def host_frame_def update_failure_def put_failure_def split_def Let_def)
  show "quiet s (mark_session_tfa s)"
    by (simp add: quiet_def session_state_def host_frame_def mark_session_tfa_def insert_session_def split: option.split)
  show "quiet s (handle_login_request_without_validation lr s)"
    by (simp add: quiet_def session_state_def host_frame_def handle_login_request_without_validation_def
        Let_def split: option.split)
  show "quiet s (s\<lparr>c_require_2fa := None\<rparr>)" by (simp add: quiet_def session_state_def host_frame_def)
qed

lemma quiet_check_failure: "quiet s (snd (check_failure e i s))"
  by (auto simp: check_failure_def Let_def split_def
      intro: quiet_refl quiet_trans [OF quiet_error quiet_alarm])

lemma quiet_login_kind: "quiet s (snd (login_kind e u s))"
proof -
  have upd: "quiet s (s\<lparr>c_file_transfer := f\<rparr>)" "quiet s (s\<lparr>c_port_forward := b\<rparr>)"
    "quiet s (s\<lparr>c_port_forward_address := a\<rparr>)" for s :: connection and f b a
    by (simp_all add: quiet_def session_state_def host_frame_def)
  have tcp: "quiet s (emit (TcpConnect a) s)" for s a by (rule quiet_emit) simp
  show ?thesis
    unfolding login_kind_def login_port_forward_def Let_def split_def
    by (auto split: option.split login_union.split
        intro: upd tcp quiet_refl quiet_error quiet_trans [OF upd(3) quiet_trans [OF tcp upd(2)]]
          quiet_trans [OF upd(3) quiet_trans [OF tcp quiet_error]])
qed

lemma quiet_logon_response:
  assumes "\<not> c_authorized s" and "\<not> c_authorized (send_logon_response e s)"
  shows "quiet s (send_logon_response e s)"
proof -
  have missing: "fst (second_factor_missing e s)"
    using assms send_logon_response_auth by blast
  have "quiet s (snd (second_factor_missing e s))"
    using quiet_small(3) [of s e True]
    by (simp add: second_factor_missing_def split_def Let_def quiet_refl)
  then show ?thesis
    using missing assms(1) quiet_error quiet_trans
    by (fastforce simp: send_logon_response_def split_def Let_def)
qed

lemma quiet_login_accepted:
  assumes "\<not> c_authorized s" and "\<not> c_authorized (login_accepted e err lr s)"
  shows "quiet s (login_accepted e err lr s)"
proof (cases "err = []")
  case True
  let ?w = "wait_desktop_cm_ready e s"
  have "\<not> c_authorized ?w" using assms(1) by (simp add: wait_desktop_cm_ready_def emit_def)
  moreover have "\<not> c_authorized (send_logon_response e ?w)"
    using assms(2) True by (simp add: login_accepted_def Let_def try_start_cm_def emit_def)
  ultimately have "quiet ?w (send_logon_response e ?w)" "\<not> c_authorized (send_logon_response e ?w)"
    using quiet_logon_response by blast+
  then show ?thesis
    using True quiet_trans [OF quiet_small(2) quiet_trans [OF _ quiet_start_cm]]
    by (simp add: login_accepted_def Let_def)
qed (simp add: login_accepted_def quiet_error)

lemma quiet_login_password:
  assumes "\<not> c_authorized s" and "\<not> c_authorized (login_password e err lr s)"
  shows "quiet s (login_password e err lr s)"
proof -
  obtain ft res s1 where c: "check_failure e 0 s = ((ft, res), s1)" by (cases "check_failure e 0 s") auto
  have s1: "quiet s s1" using quiet_check_failure [of s e 0] c by simp
  obtain ok s2 where v: "validate_password e s1 = (ok, s2)" by fastforce
  have s2: "quiet s (update_failure ft b 0 s2)" for b
    using quiet_trans [OF quiet_trans [OF s1 quiet_small(4)] quiet_small(5)] v by (metis snd_conv)
  have "\<not> c_authorized s2"
    using v check_failure_authorized [of e 0 s] c assms(1)
    by (auto simp: validate_password_def insert_session_def split: if_splits)
  then have "\<not> c_authorized (update_failure ft True 0 s2)" by (simp add: update_failure_fields)
  note acc = quiet_login_accepted [OF this, of e err lr]
  show ?thesis
    using assms(2) s1 quiet_trans [OF s2 quiet_error] quiet_trans [OF s2 acc]
      quiet_trans [OF quiet_trans [OF s2 quiet_error] quiet_start_cm]
    by (auto simp: login_password_def c v Let_def split: if_splits)
qed

lemma quiet_login_validate:
  assumes "\<not> c_authorized s" and "\<not> c_authorized (snd (login_validate e err lr s))"
  shows "quiet s (snd (login_validate e err lr s))"
proof -
  obtain recent s1 where r: "is_recent_session e False s = (recent, s1)" by fastforce
  have q: "quiet s s1" using quiet_small(3) [of s e False] r by simp
  obtain m where "s1 = s\<lparr>w_sessions := m\<rparr>" using is_recent_session_state [of e False s] r by auto
  then have s1: "\<not> c_authorized s1" using assms(1) by simp
  note parts = quiet_login_accepted [OF s1, of e err lr] quiet_login_password [OF s1, of e err lr]
    quiet_error quiet_start_cm
  from login_validate_result [OF r, of err lr] show ?thesis
    unfolding insert_iff empty_iff
  proof (elim disjE)
    assume *: "snd (login_validate e err lr s) =
      (if recent then login_accepted e err lr s1
       else if lr_password lr = [] then
         (if err = [] then try_start_cm (lr_my_id lr) (lr_my_name lr) False s1
          else send_login_error LOGIN_MSG_DESKTOP_SESSION_NOT_READY_PASSWORD_EMPTY s1)
       else login_password e err lr s1)"
    have "quiet s1 (snd (login_validate e err lr s))"
    proof (cases "recent \<or> lr_password lr = []")
      case True
      then show ?thesis using assms(2) parts unfolding * by (cases recent) (auto split: if_split)
    next
      case False
      then show ?thesis using assms(2) parts unfolding * by simp
    qed
    then show ?thesis by (rule quiet_trans [OF q])
  qed (simp_all only: quiet_error quiet_start_cm simp_thms quiet_trans [OF quiet_start_cm quiet_error])
qed

lemma quiet_login_request:
  assumes "\<not> c_authorized s" and "\<not> c_authorized (snd (on_login_request e lr s))"
  shows "quiet s (snd (on_login_request e lr s))"
proof -
  define s1 where "s1 = handle_login_request_without_validation lr s"
  have s1: "quiet s s1" "\<not> c_authorized s1"
    using quiet_small(7) assms(1) by (simp_all add: s1_def login_request_fields)
  obtain r s2 where k: "login_kind e (lr_union lr) s1 = (r, s2)" by fastforce
  have s2: "quiet s s2" "\<not> c_authorized s2"
    using quiet_trans [OF s1(1) quiet_login_kind, of e "lr_union lr"] s1(2)
      login_kind_fields(2) [of e "lr_union lr" s1] k by simp_all
  define s3 where "s3 = try_start_cm_ipc s2"
  have s3: "quiet s s3" "\<not> c_authorized s3"
    using quiet_trans [OF s2(1) quiet_small(1)] s2(2) by (simp_all add: s3_def try_start_cm_ipc_def emit_def)
  show ?thesis
    using assms(2) s1 s2(1) quiet_trans [OF s3(1) quiet_error]
      quiet_trans [OF s3(1) quiet_login_validate [OF s3(2)]]
    by (cases r) (auto simp: on_login_request_def s1_def [symmetric] k s3_def [symmetric] Let_def split: if_splits)
qed

lemma quiet_auth_2fa:
  assumes "\<not> c_authorized s" and "\<not> c_authorized (snd (on_auth_2fa e code s))"
  shows "quiet s (snd (on_auth_2fa e code s))"
proof -
  obtain ft res s1 where c: "check_failure e 1 s = ((ft, res), s1)" by (cases "check_failure e 1 s") auto
  have s1: "quiet s s1" "\<not> c_authorized s1"
    using quiet_check_failure [of s e 1] check_failure_authorized [of e 1 s] assms(1) c by simp_all
  show ?thesis
  proof (cases "\<exists>k. res \<and> c_require_2fa s1 = Some k \<and> e_check_totp e k code = Some True")
    case False
    then show ?thesis
      using s1 quiet_trans [OF s1(1) quiet_trans [OF quiet_small(5) quiet_error]]
      by (auto simp: on_auth_2fa_def c [simplified] Let_def split: option.split bool.split)
  next
    case True
    define s2 where "s2 = (update_failure ft True 1 s1)\<lparr>c_require_2fa := None\<rparr>"
    have s2: "quiet s s2" "\<not> c_authorized s2" "c_require_2fa s2 = None"
      using quiet_trans [OF s1(1) quiet_trans [OF quiet_small(5) quiet_small(8)]] s1(2)
      by (simp_all add: s2_def update_failure_fields)
    then have "c_authorized (send_logon_response e s2)"
      using send_logon_response_auth [of s2 e] by (simp add: second_factor_missing_def)
    then have "c_authorized (snd (on_auth_2fa e code s))"
      using True by (auto simp: on_auth_2fa_def c [simplified] Let_def s2_def try_start_cm_def emit_def
          mark_session_tfa_def insert_session_def split: option.split)
    then show ?thesis using assms(2) by blast
  qed
qed

lemma cm_authorized:
  "c_authorized (try_start_cm i n a s) = c_authorized s" "c_authorized (try_start_cm_ipc s) = c_authorized s"
  "c_authorized (mark_session_tfa s) = c_authorized s"
  by (simp_all add: try_start_cm_def try_start_cm_ipc_def emit_def mark_session_tfa_def
      insert_session_def split: option.split)

lemma quiet_switch_sides:
  assumes "\<not> c_authorized s" and "\<not> c_authorized (snd (on_switch_sides_response e uuid lr s))"
  shows "quiet s (snd (on_switch_sides_response e uuid lr s))"
proof (cases lr)
  case (Some r)
  define s1 where "s1 = retain_switch_uuids e (handle_login_request_without_validation r s)"
  let ?s2 = "s1\<lparr>w_switch_uuids := hm_remove (lr_my_id r) (w_switch_uuids s1)\<rparr>"
  have "quiet (handle_login_request_without_validation r s) ?s2"
    by (simp add: s1_def quiet_def session_state_def host_frame_def retain_switch_uuids_def)
  then have s2: "quiet s ?s2" by (rule quiet_trans [OF quiet_small(7)])
  have s3: "quiet s (?s2\<lparr>c_from_switch := True\<rparr>)"
    by (rule quiet_trans [OF s2]) (simp add: quiet_def session_state_def host_frame_def)
  have "\<not> c_authorized (?s2\<lparr>c_from_switch := True\<rparr>)"
    using assms(1) by (simp add: s1_def retain_switch_uuids_def login_request_fields)
  note resp = quiet_logon_response [OF this]
  show ?thesis
    using assms(2) s2 quiet_trans [OF s3 quiet_trans [OF resp quiet_trans [OF quiet_start_cm quiet_small(1)]]]
    by (auto simp: on_switch_sides_response_def Some s1_def [symmetric] Let_def cm_authorized
        split: option.split if_splits)
qed (simp add: on_switch_sides_response_def quiet_refl)

lemma quiet_test_delay: "quiet s (snd (on_test_delay e d s))"
  by (simp add: on_test_delay_def quiet_def session_state_def host_frame_def inner_send_def
      with_qos_def Let_def split: option.split)

text \<open>A message that leaves the connection unauthorized changes nothing of the session, and
  what it causes are answers of the login, questions to the local user, reports, and the
  connection attempt of a tunnel: no input, no clipboard, no file command, no restart.\<close>

theorem unauthorized_is_quiet:
  assumes "\<not> c_authorized s" and "on_message e msg s = (b, t)" and "\<not> c_authorized t"
  shows "quiet s t"
proof -
  have t: "t = snd (on_message e msg s)" using assms(2) by simp
  show ?thesis
  proof (cases msg)
    case (MsgLoginRequest lr)
    then show ?thesis using quiet_login_request [of s e lr] assms t by (simp add: on_message_def)
  next
    case (MsgAuth2fa code)
    then show ?thesis using quiet_auth_2fa [of s e code] assms t by (simp add: on_message_def)
  next
    case (MsgSwitchSidesResponse uuid lr)
    then show ?thesis using quiet_switch_sides [of s e uuid lr] assms t by (simp add: on_message_def)
  next
    case (MsgTestDelay d)
    then show ?thesis using quiet_test_delay t by (simp add: on_message_def)
  qed (use assms(1) t in \<open>simp_all add: on_message_def quiet_refl\<close>)
qed

section \<open>All messages\<close>

definition hchanges :: "connection \<Rightarrow> connection \<Rightarrow> bool" where
  "hchanges s t \<longleftrightarrow> host_frame t = host_frame s \<and> c_closed t = c_closed s \<and>
     (\<exists>xs. w_out t = w_out s @ xs \<and> list_all (in_session s) xs)"

lemma hchanges_refl: "hchanges s s"
  by (simp add: hchanges_def)

lemma hchanges_trans:
  assumes "hchanges s t" and "hchanges t u"
  shows "hchanges s u"
proof -
  have "in_session t = in_session s" using allowed_cong [of t s] assms(1) by (simp add: hchanges_def)
  then show ?thesis using assms by (fastforce simp: hchanges_def)
qed

lemma hchanges_within: "within s t \<Longrightarrow> hchanges s t"
  by (auto simp: hchanges_def changes_def auth_frame_def)

lemma hchanges_quiet:
  assumes "quiet s t"
  shows "hchanges s t"
proof -
  obtain xs where xs: "w_out t = w_out s @ xs" "list_all login_effect xs"
    using assms by (auto simp: quiet_def)
  have "in_session s x" if "login_effect x" for x using that by (cases x) auto
  then have "list_all (in_session s) xs" using xs(2) by (simp add: list_all_iff)
  then show ?thesis using assms xs(1) by (auto simp: hchanges_def quiet_def session_state_def)
qed

lemma hchanges_logon: "hchanges s (logon e s)"
proof -
  have "hchanges s (logon_begin s)" using logon_begin_frame(1,3,13) [of s] by (simp add: hchanges_def)
  then show ?thesis
    using hchanges_trans hchanges_within [OF within_logon_answer [OF changes_refl]]
    unfolding logon_def by blast
qed

interpretation hc: step_relation hchanges
proof
  show "hchanges s s" for s by (rule hchanges_refl)
  show "hchanges s t \<Longrightarrow> hchanges t u \<Longrightarrow> hchanges s u" for s t u by (rule hchanges_trans)
  show "hchanges s (send_login_error err s)" for s err by (rule hchanges_quiet [OF quiet_error])
  show "hchanges s (try_start_cm i n a s)" for s i n a
    by (simp add: hchanges_def try_start_cm_def emit_def host_frame_def)
  show "hchanges s (try_start_cm_ipc s)" for s by (rule hchanges_quiet [OF quiet_small(1)])
  show "hchanges s (wait_desktop_cm_ready e s)" for s e by (rule hchanges_quiet [OF quiet_small(2)])
  show "hchanges s (post_alarm_audit e ty ip s)" for s e ty ip by (rule hchanges_quiet [OF quiet_alarm])
  show "hchanges s (emit (TcpConnect addr) s)" for s addr
    by (rule hchanges_quiet) (simp add: quiet_emit)
  show "hchanges s (update_failure ft b k s)" for s ft b k by (rule hchanges_quiet [OF quiet_small(5)])
  show "hchanges s (handle_login_request_without_validation lr s)" for s lr
    by (rule hchanges_quiet [OF quiet_small(7)])
  show "hchanges s (logon e s)" for s e by (rule hchanges_logon)
qed (simp_all add: hchanges_def host_frame_def)

text \<open>A message that may end the connection: up to its end all is in session.\<close>

definition ends :: "connection \<Rightarrow> connection \<Rightarrow> bool" where
  "ends s t \<longleftrightarrow> (\<exists>u lock m. hchanges s u \<and> t = (on_close lock u)\<lparr>w_sessions := m\<rparr>)"

lemma on_misc_changes: "hchanges s (snd (on_misc e m s)) \<or> \<not> fst (on_misc e m s) \<and> ends s (snd (on_misc e m s))"
proof (cases m)
  case (Some a)
  show ?thesis
  proof (cases a)
    case (MiscCloseReason r)
    have "ends s (snd (on_misc e m s))"
      unfolding ends_def
      by (intro exI [of _ s] exI [of _ True] exI) (simp add: hchanges_refl on_misc_def Some MiscCloseReason Let_def)
    then show ?thesis by (simp add: on_misc_def Some MiscCloseReason Let_def)
  next
    case (MiscSwitchSidesRequest u)
    show ?thesis
    proof (cases "e_uuid_from_slice e u")
      case None
      then show ?thesis
        by (simp add: on_misc_def Some MiscSwitchSidesRequest on_switch_sides_request_def hchanges_refl)
    next
      case (Some v)
      let ?u = "emit (RunMe [''--connect'', lr_my_id (c_lr s), ''--switch_uuid'', e_uuid_string e v]) s"
      have "hchanges s ?u" by (rule hchanges_within [OF within_emit(9) [OF changes_refl]])
      moreover have "on_close False ?u = (on_close False ?u)\<lparr>w_sessions := w_sessions (on_close False ?u)\<rparr>" by simp
      ultimately have "ends s (on_close False ?u)" unfolding ends_def by blast
      then show ?thesis
        by (simp add: on_misc_def \<open>m = Some a\<close> MiscSwitchSidesRequest on_switch_sides_request_def Some)
    qed
  qed (use changes_refl [of "in_session s" s] in
      \<open>auto simp: on_misc_def Some intro!: hchanges_within changes_intros split: option.split\<close>)
qed (simp add: on_misc_def hchanges_refl)

lemma on_message_changes:
  assumes "on_message e msg s = (b, t)"
  shows "hchanges s t \<or> \<not> b \<and> ends s t"
proof -
  have t: "t = snd (on_message e msg s)" "b = fst (on_message e msg s)" using assms by simp_all
  show ?thesis
  proof (cases "\<exists>m. msg = MsgMisc m \<and> c_authorized s \<and> \<not> c_port_forward s")
    case True
    then obtain m where m: "msg = MsgMisc m" "c_authorized s" "\<not> c_port_forward s" by blast
    then show ?thesis
      using on_misc_changes [of s e m] t by (auto simp: on_message_def on_authorized_message_def)
  next
    case False
    then show ?thesis
      unfolding t
      using hc.login_request hc.auth_2fa hc.switch_sides hchanges_quiet [OF quiet_test_delay]
        changes_refl [of "in_session s" s]
      by (cases msg)
        (auto simp: on_message_def on_authorized_message_def hchanges_refl
          intro!: hchanges_within changes_intros split: option.split)
  qed
qed

lemma ends_out:
  assumes "ends s t"
  shows "host_frame t = host_frame s \<and> (\<exists>xs. w_out t = w_out s @ xs \<and> list_all (allowed s) xs)"
proof -
  obtain u lock m where u: "hchanges s u" "t = (on_close lock u)\<lparr>w_sessions := m\<rparr>"
    using assms by (auto simp: ends_def)
  obtain xs where xs: "w_out u = w_out s @ xs" "list_all (in_session s) xs"
    using u(1) by (auto simp: hchanges_def)
  have hf: "host_frame u = host_frame s" using u(1) by (simp add: hchanges_def)
  then have kb: "c_keyboard u = c_keyboard s" by (simp add: host_frame_def)
  have xs': "list_all (allowed s) xs" using xs(2) by (simp add: list_all_iff)
  have "\<exists>ys. w_out (on_close lock u) = w_out u @ ys \<and> list_all (allowed s) ys"
  proof (cases "c_closed u")
    case False
    show ?thesis unfolding on_close_out [OF False] by (intro exI conjI, rule refl) (simp add: kb)
  qed (simp add: on_close_frame)
  then obtain ys where "w_out t = w_out s @ (xs @ ys)" "list_all (allowed s) (xs @ ys)"
    using u(2) xs(1) xs' by auto
  moreover have "host_frame t = host_frame (on_close lock u)" using u(2) by (simp add: host_frame_def)
  ultimately show ?thesis using hf on_close_frame(1) [of lock u] by (metis (no_types))
qed



section \<open>Concrete logins\<close>

lemma check_failure_passed:
  "snd (fst (check_failure e i s)) \<Longrightarrow> \<exists>ft. check_failure e i s = ((ft, True), s)"
  by (auto simp: check_failure_def Let_def split: prod.splits if_splits)

lemma check_failure_fresh:
  assumes "hm_get (w_failures s i) (c_ip s) = None"
  shows "check_failure e i s = ((((0, 0, 0), current_minute e), True), s)"
  using assms by (simp add: check_failure_def get_failure_def Let_def)

text \<open>The code of the second factor is enough by itself: no password has been asked for.\<close>

text \<open>On a connection that waits for the second factor, a correct code authorizes, whether or
  not a password was ever given, as long as the address has not failed too often.\<close>

theorem second_factor_suffices:
  assumes "c_require_2fa s = Some k" and "e_check_totp e k code = Some True"
    and "snd (fst (check_failure e 1 s))"
  shows "c_authorized (snd (on_message e (MsgAuth2fa code) s))"
proof -
  obtain ft where c: "check_failure e 1 s = ((ft, True), s)"
    using check_failure_passed [OF assms(3)] by blast
  define s2 where "s2 = (update_failure ft True (Suc 0) s)\<lparr>c_require_2fa := None\<rparr>"
  have "c_authorized (send_logon_response e s2)"
  proof (cases "c_authorized s2")
    case True
    then show ?thesis by (simp add: send_logon_response_def)
  next
    case False
    then show ?thesis
      using send_logon_response_auth [of s2 e] by (simp add: s2_def second_factor_missing_def)
  qed
  then show ?thesis
    using assms c
    by (simp add: on_message_def on_auth_2fa_def Let_def s2_def [symmetric] cm_authorized)
qed

theorem second_factor_suffices_witness:
  "lr_password (c_lr demo_conn_2fa) = [] \<and>
   c_authorized (snd (on_message demo_env (MsgAuth2fa ''654321'') demo_conn_2fa))"
proof
  show "lr_password (c_lr demo_conn_2fa) = []"
    by (simp add: demo_defs login_request_default_def)
  have "snd (fst (check_failure demo_env 1 demo_conn_2fa))"
    by (subst check_failure_fresh) simp_all
  then show "c_authorized (snd (on_message demo_env (MsgAuth2fa ''654321'') demo_conn_2fa))"
    by (intro second_factor_suffices [where k = "[42]"]) simp_all
qed

theorem authorization_sound_witness:
  "\<exists>code k. MsgAuth2fa ''654321'' = MsgAuth2fa code \<and> c_require_2fa demo_conn_2fa = Some k \<and>
     e_check_totp demo_env k code = Some True"
proof -
  let ?r = "on_message demo_env (MsgAuth2fa ''654321'') demo_conn_2fa"
  have "snd (fst (check_failure demo_env 1 demo_conn_2fa))"
    by (subst check_failure_fresh) simp_all
  then obtain ft where "check_failure demo_env (Suc 0) demo_conn_2fa = ((ft, True), demo_conn_2fa)"
    using check_failure_passed [of demo_env 1 demo_conn_2fa] by auto
  then have "c_authorized (snd ?r)"
    using send_logon_response_auth [of "(update_failure ft True 1 demo_conn_2fa)\<lparr>c_require_2fa := None\<rparr>" demo_env]
    by (simp add: on_message_def on_auth_2fa_def Let_def cm_authorized second_factor_missing_def
        update_failure_fields)
  then show ?thesis
    using authorization_sound [of demo_conn_2fa demo_env "MsgAuth2fa ''654321''" "fst ?r" "snd ?r"]
    by simp
qed

theorem unauthorized_is_quiet_witness:
  "quiet demo_conn (snd (on_message demo_env (MsgClipboard [1]) demo_conn))"
  by (rule unauthorized_is_quiet [where e = demo_env and msg = "MsgClipboard [1]" and b = True])
    (simp_all add: on_message_def)

text \<open>A request for a tunnel makes the host connect to the address the peer names before any
  password is checked; if nothing answers there, the peer is told.\<close>

theorem tunnel_before_password:
  assumes "\<not> c_authorized s" and "conn_permission (e_options e) ''enable-tunnel''"
    and "lr_union lr = Some (LrPortForward host port)" and "host \<noteq> []" and "host \<noteq> ''RDP''"
  shows "TcpConnect (host @ '':'' @ show_int port) \<in> set (w_out (snd (on_message e (MsgLoginRequest lr) s)))"
proof -
  define s1 where "s1 = handle_login_request_without_validation lr s"
  define s2 where "s2 = snd (login_kind e (lr_union lr) s1)"
  have s1: "\<not> c_authorized s1" using assms(1) by (simp add: s1_def login_request_fields)
  have s2: "TcpConnect (host @ '':'' @ show_int port) \<in> set (w_out s2)" "c_authorized s2 = c_authorized s1"
    using assms login_kind_fields(2) [of e "lr_union lr" s1]
    by (simp_all add: s2_def login_kind_def login_port_forward_def Let_def send_login_error_def)
  define s3 where "s3 = try_start_cm_ipc s2"
  have s3: "set (w_out s2) \<subseteq> set (w_out s3)"
    by (auto simp: s3_def try_start_cm_ipc_def emit_def)
  have grow: "set (w_out u) \<subseteq> set (w_out v)" if "hchanges u v" for u v
    using that by (auto simp: hchanges_def)
  have "set (w_out s2) \<subseteq> set (w_out (snd (on_login_request e lr s)))"
    using s1 subset_trans [OF s3 grow [OF hchanges_quiet [OF quiet_error]]]
      subset_trans [OF s3 grow [OF hc.validate]]
    by (cases "login_kind e (lr_union lr) s1"; cases "fst (login_kind e (lr_union lr) s1)")
      (auto simp: on_login_request_def s1_def [symmetric] s2_def s3_def Let_def)
  then show ?thesis using s2(1) by (auto simp: on_message_def)
qed

definition tunnel_request :: login_request where
  "tunnel_request = login_request_default\<lparr>lr_union := Some (LrPortForward ''10.0.0.1'' 22)\<rparr>"

lemma show_nat_22: "show_nat 22 = ''22''"
  by code_simp

theorem tunnel_before_password_witness:
  "lr_password tunnel_request = [] \<and>
   TcpConnect ''10.0.0.1:22'' \<in> set (w_out (snd (on_message demo_env (MsgLoginRequest tunnel_request) demo_conn)))"
  using tunnel_before_password [of demo_conn demo_env tunnel_request "''10.0.0.1''" 22]
  by (simp add: tunnel_request_def login_request_default_def conn_permission_def demo_options_def Let_def
      show_int_def show_nat_22)

end
