(* ===== verification/Conn_Lockout.thy ===== *)
theory Conn_Lockout
  imports Conn_Auth
begin

text \<open>
  How often a peer may guess a password: the counters of failed logins (\<open>LOGIN_FAILURES\<close>,
  \<open>check_failure\<close>, \<open>update_failure\<close>) over all connections of the process, whatever their
  messages and however they interleave. A message is handled as one step; what happens when two
  threads interleave inside a step is at the end.
\<close>

section \<open>What a login request does to the counters\<close>

text \<open>The answer that tells the peer its password was wrong.\<close>

fun wrong_answer :: "effect \<Rightarrow> bool" where
  "wrong_answer (ToPeer (MsgLoginResponse (LoginError m))) =
     (m = LOGIN_MSG_PASSWORD_WRONG \<or> m = LOGIN_MSG_DESKTOP_SESSION_NOT_READY_PASSWORD_WRONG)"
| "wrong_answer _ = False"

definition wrong_answers :: "world \<Rightarrow> world \<Rightarrow> nat" where
  "wrong_answers v w = length (filter wrong_answer (drop (length (w_out v)) (w_out w)))"

definition failure_of :: "string \<Rightarrow> 'a world_scheme \<Rightarrow> failure" where
  "failure_of ip w = (case hm_get (w_failures w 0) ip of Some f \<Rightarrow> f | None \<Rightarrow> (0, 0, 0))"

lemma get_failure_of: "get_failure 0 s = failure_of (c_ip s) s"
  by (simp add: get_failure_def failure_of_def)

definition next_failure :: "i32 \<Rightarrow> failure \<Rightarrow> failure" where
  "next_failure time f =
     (case f of (f0, f1, f2) \<Rightarrow> if f0 = time then (f0, f1 + 1, f2 + 1) else (time, 1, f2 + 1))"

definition may_try :: "i32 \<Rightarrow> failure \<Rightarrow> bool" where
  "may_try time f \<longleftrightarrow> (case f of (f0, f1, f2) \<Rightarrow> f2 \<le> 30 \<and> \<not> (time = f0 \<and> f1 > 6))"

text \<open>Quiet about the password: no counter moves, no answer says that it was wrong.\<close>

definition silent :: "connection \<Rightarrow> connection \<Rightarrow> bool" where
  "silent s t \<longleftrightarrow> w_failures t = w_failures s \<and> c_ip t = c_ip s \<and>
     (\<exists>xs. w_out t = w_out s @ xs \<and> list_all (\<lambda>x. \<not> wrong_answer x) xs)"

lemma silent_refl: "silent s s"
  by (simp add: silent_def)

lemma silent_trans: "silent s t \<Longrightarrow> silent t u \<Longrightarrow> silent s u"
  by (fastforce simp: silent_def)

lemma silent_emit: "\<not> wrong_answer x \<Longrightarrow> silent s (emit x s)"
  by (simp add: silent_def emit_def)

lemma silent_cm: "silent s (try_start_cm i n a s)"
  unfolding try_start_cm_def by (rule silent_emit) simp

lemma silent_error:
  "err \<noteq> LOGIN_MSG_PASSWORD_WRONG \<Longrightarrow> err \<noteq> LOGIN_MSG_DESKTOP_SESSION_NOT_READY_PASSWORD_WRONG
    \<Longrightarrow> silent s (send_login_error err s)"
  unfolding send_login_error_def by (rule silent_emit) simp

lemmas login_messages = LOGIN_MSG_PASSWORD_WRONG_def LOGIN_MSG_DESKTOP_SESSION_NOT_READY_PASSWORD_WRONG_def
  LOGIN_MSG_OFFLINE_def LOGIN_MSG_NO_PASSWORD_ACCESS_def LOGIN_MSG_DESKTOP_SESSION_NOT_READY_def
  LOGIN_MSG_DESKTOP_SESSION_NOT_READY_PASSWORD_EMPTY_def

lemma silent_errors:
  "silent s (send_login_error LOGIN_MSG_OFFLINE s)" "silent s (send_login_error ''Connection not allowed'' s)"
  "silent s (send_login_error LOGIN_MSG_NO_PASSWORD_ACCESS s)"
  "silent s (send_login_error LOGIN_MSG_DESKTOP_SESSION_NOT_READY_PASSWORD_EMPTY s)"
  "silent s (send_login_error ''Too many wrong attempts'' s)"
  "silent s (send_login_error ''Please try 1 minute later'' s)"
  "silent s (send_login_error ''No permission of IP tunneling'' s)"
  "silent s (send_login_error ''No permission of file transfer'' s)"
  "silent s (send_login_error ''Someone turns on privacy mode, exit'' s)"
  "silent s (send_login_error (''Failed to access remote '' @ msg) s)"
  by (rule silent_error; simp add: login_messages)+

lemma silent_alarm: "silent s (post_alarm_audit e ty ip s)"
  unfolding post_alarm_audit_def using silent_emit [of "AlarmAudit ty ip" s] silent_refl by simp

lemma silent_check_failure: "silent s (snd (check_failure e i s))"
  by (auto simp: check_failure_def Let_def split_def
      intro: silent_refl silent_trans [OF silent_errors(5) silent_alarm]
        silent_trans [OF silent_errors(6) silent_alarm])

lemma check_failure_may_try:
  assumes "check_failure e 0 s = ((ft, True), t)"
  shows "t = s \<and> ft = (failure_of (c_ip s) s, current_minute e) \<and>
    may_try (current_minute e) (failure_of (c_ip s) s)"
  using assms unfolding check_failure_def get_failure_of may_try_def
  by (cases "failure_of (c_ip s) s") (auto simp: Let_def split: if_splits)

lemma silent_login_kind: "silent s (snd (login_kind e u s))"
proof -
  have upd: "silent s (s\<lparr>c_file_transfer := f\<rparr>)" "silent s (s\<lparr>c_port_forward := b\<rparr>)"
    "silent s (s\<lparr>c_port_forward_address := a\<rparr>)" for s :: connection and f b a
    by (simp_all add: silent_def)
  have tcp: "silent s (emit (TcpConnect a) s)" for s a by (rule silent_emit) simp
  show ?thesis
    unfolding login_kind_def login_port_forward_def Let_def split_def
    by (auto split: option.split login_union.split simp del: append.simps
        intro: upd tcp silent_refl silent_errors silent_trans [OF upd(3) silent_trans [OF tcp upd(2)]]
          silent_trans [OF upd(3) silent_trans [OF tcp silent_errors(10)]])
qed

lemma silent_small:
  "silent s (try_start_cm_ipc s)" "silent s (handle_login_request_without_validation lr s)"
  "silent s (snd (is_recent_session e tfa s))" "silent s (snd (validate_password e s))"
proof -
  show "silent s (try_start_cm_ipc s)"
    by (simp add: try_start_cm_ipc_def silent_def emit_def)
  show "silent s (handle_login_request_without_validation lr s)"
    by (simp add: handle_login_request_without_validation_def silent_def Let_def split: option.split)
  obtain m where "snd (is_recent_session e tfa s) = s\<lparr>w_sessions := m\<rparr>"
    using is_recent_session_state by blast
  then show "silent s (snd (is_recent_session e tfa s))" by (simp add: silent_def)
  show "silent s (snd (validate_password e s))"
    by (simp add: validate_password_def insert_session_def silent_def)
qed

text \<open>One wrong guess: the counter allowed it, goes up by one, and one answer tells.\<close>

definition guessed :: "env \<Rightarrow> connection \<Rightarrow> connection \<Rightarrow> bool" where
  "guessed e s t \<longleftrightarrow>
     may_try (current_minute e) (failure_of (c_ip s) s) \<and> c_ip t = c_ip s \<and>
     w_failures t = (w_failures s)(0 := hm_insert (c_ip s)
        (next_failure (current_minute e) (failure_of (c_ip s) s)) (w_failures s 0)) \<and>
     (\<exists>xs. w_out t = w_out s @ xs \<and> length (filter wrong_answer xs) = 1)"

lemma silent_filter: "list_all (\<lambda>x. \<not> wrong_answer x) xs \<Longrightarrow> filter wrong_answer xs = []"
  by (simp add: filter_empty_conv list_all_iff)

lemma guessed_after: "silent s t \<Longrightarrow> guessed e t u \<Longrightarrow> guessed e s u"
  by (fastforce simp: silent_def guessed_def failure_of_def silent_filter)

lemma guessed_then: "guessed e s t \<Longrightarrow> silent t u \<Longrightarrow> guessed e s u"
  by (fastforce simp: silent_def guessed_def silent_filter)

lemma update_failure_next:
  "update_failure (f, time) False 0 s = put_failure 0 (next_failure time f) s"
  by (cases f) (simp add: update_failure_def next_failure_def Let_def)

lemma login_password_guess:
  assumes "\<not> fst (validate_password e s)"
  shows "silent s (login_password e err lr s) \<or> guessed e s (login_password e err lr s)"
proof -
  obtain ft res s1 where c: "check_failure e 0 s = ((ft, res), s1)" by (cases "check_failure e 0 s") auto
  show ?thesis
  proof (cases res)
    case False
    then show ?thesis using c silent_check_failure [of s e 0] by (simp add: login_password_def)
  next
    case True
    then have *: "s1 = s" "ft = (failure_of (c_ip s) s, current_minute e)"
      "may_try (current_minute e) (failure_of (c_ip s) s)"
      using check_failure_may_try [of e s ft s1] c by simp_all
    obtain s2 where v: "validate_password e s = (False, s2)" using assms by (cases "validate_password e s") auto
    then have "s2 = s" by (auto simp: validate_password_def split: if_splits)
    let ?u = "put_failure 0 (next_failure (current_minute e) (failure_of (c_ip s) s)) s"
    have g: "guessed e s (send_login_error m ?u)"
      if "m = LOGIN_MSG_PASSWORD_WRONG \<or> m = LOGIN_MSG_DESKTOP_SESSION_NOT_READY_PASSWORD_WRONG" for m
      using *(3) that by (auto simp: guessed_def send_login_error_def emit_def put_failure_def)
    have "login_password e err lr s =
        (if err = [] then try_start_cm (lr_my_id lr) (lr_my_name lr) False (send_login_error LOGIN_MSG_PASSWORD_WRONG ?u)
         else send_login_error LOGIN_MSG_DESKTOP_SESSION_NOT_READY_PASSWORD_WRONG ?u)"
      using True c v \<open>s2 = s\<close> *(1,2) by (simp add: login_password_def update_failure_next)
    then show ?thesis
      using g guessed_then [OF g silent_cm] by simp
  qed
qed

lemma recent_entitled:
  assumes "is_recent_session e False s = (True, t)" and "c_lr s = lr"
  shows "entitled e s lr"
  using is_recent_sessionD [OF assms(1)] assms(2)
  by (auto simp: entitled_def validate_one_password_proves)

lemma password_entitled:
  assumes "fst (validate_password e s)" and "c_lr s = lr"
  shows "entitled e s lr"
  using assms by (auto simp: validate_password_def entitled_def validate_one_password_proves split: if_splits)

lemma login_validate_guess:
  assumes "\<not> entitled e s lr" and lr: "c_lr s = lr"
  shows "silent s (snd (login_validate e err lr s)) \<or> guessed e s (snd (login_validate e err lr s))"
proof -
  obtain recent s1 where r: "is_recent_session e False s = (recent, s1)" by fastforce
  have nr: "\<not> recent" using recent_entitled [OF _ lr] assms(1) r by (cases recent) auto
  then have s1: "s1 = retain_sessions e s" using is_recent_session_False r by simp
  have q: "silent s s1" using silent_small(3) [of s e False] r by simp
  have "\<not> entitled e s1 lr"
    using assms(1) by (auto simp: s1 entitled_def proves_def good_session_def retain_sessions_def dest: retain_in)
  moreover have "c_lr s1 = lr" using lr by (simp add: s1 retain_sessions_def)
  ultimately have np: "\<not> fst (validate_password e s1)" using password_entitled by blast
  from login_validate_result [OF r, of err lr] show ?thesis
    unfolding insert_iff empty_iff
  proof (elim disjE)
    assume *: "snd (login_validate e err lr s) =
      (if recent then login_accepted e err lr s1
       else if lr_password lr = [] then
         (if err = [] then try_start_cm (lr_my_id lr) (lr_my_name lr) False s1
          else send_login_error LOGIN_MSG_DESKTOP_SESSION_NOT_READY_PASSWORD_EMPTY s1)
       else login_password e err lr s1)"
    then show ?thesis
      using nr silent_trans [OF q silent_cm] silent_trans [OF q silent_errors(4)]
        login_password_guess [OF np, of err lr] silent_trans [OF q] guessed_after [OF q]
      by auto
  qed (simp_all add: silent_cm silent_errors silent_trans [OF silent_cm silent_errors(3)])
qed

text \<open>\<open>linux_desktop_manager::try_start_desktop\<close> answers with texts of its own, never with the one
  for a wrong password.\<close>

definition desktop_honest :: "env \<Rightarrow> bool" where
  "desktop_honest e \<longleftrightarrow> (\<forall>u p. e_start_desktop e u p \<noteq> LOGIN_MSG_PASSWORD_WRONG \<and>
      e_start_desktop e u p \<noteq> LOGIN_MSG_DESKTOP_SESSION_NOT_READY_PASSWORD_WRONG)"

lemma try_start_desktop_honest:
  "desktop_honest e \<Longrightarrow> try_start_desktop e l \<noteq> LOGIN_MSG_PASSWORD_WRONG \<and>
     try_start_desktop e l \<noteq> LOGIN_MSG_DESKTOP_SESSION_NOT_READY_PASSWORD_WRONG"
  by (auto simp: try_start_desktop_def desktop_honest_def login_messages split: option.split)

lemma on_login_request_guess:
  assumes "\<not> entitled e s lr" and "desktop_honest e"
  shows "silent s (snd (on_login_request e lr s)) \<or> guessed e s (snd (on_login_request e lr s))"
proof -
  define s1 where "s1 = handle_login_request_without_validation lr s"
  obtain r s2 where k: "login_kind e (lr_union lr) s1 = (r, s2)" by fastforce
  define s3 where "s3 = try_start_cm_ipc s2"
  define err where "err = try_start_desktop e (lr_os_login lr)"
  have s1: "silent s s1" by (simp add: s1_def silent_small)
  have s2: "silent s s2" using silent_trans [OF s1 silent_login_kind, of e "lr_union lr"] k by simp
  have s3: "silent s s3" using silent_trans [OF s2 silent_small(1)] by (simp add: s3_def)
  have f: "c_lr s3 = lr" "w_sessions s3 = w_sessions s" "w_recv_times s3 = w_recv_times s"
    "w_temporary_password s3 = w_temporary_password s" "host_frame s3 = host_frame s"
    using login_kind_fields [of e "lr_union lr" s1] login_request_fields [of lr s] k
    by (simp_all add: s3_def s1_def try_start_cm_ipc_def emit_def host_frame_def)
  have ne: "\<not> entitled e s3 lr" using entitled_cong [OF f(5,4,2,3)] assms(1) by simp
  have he: "silent s (send_login_error err s3)"
    using silent_trans [OF s3 silent_error] try_start_desktop_honest [OF assms(2)] by (simp add: err_def)
  show ?thesis
    using s1 s2 he login_validate_guess [OF ne f(1), of err] silent_trans [OF s3] guessed_after [OF s3]
    by (cases r) (auto simp: on_login_request_def s1_def [symmetric] k s3_def [symmetric]
        err_def [symmetric] Let_def)
qed

section \<open>All other messages leave the counters of passwords alone\<close>

lemma keep_failures:
  "w_failures (snd (second_factor_missing e s)) = w_failures s" "w_failures (logon e s) = w_failures s"
  "w_failures (send_logon_response e s) = w_failures s" "w_failures (try_start_cm i n a s) = w_failures s"
  "w_failures (try_start_cm_ipc s) = w_failures s" "w_failures (mark_session_tfa s) = w_failures s"
proof -
  show m: "w_failures (snd (second_factor_missing e s)) = w_failures s" for s
    using is_recent_session_state [of e True s]
    by (auto simp: second_factor_missing_def split_def Let_def)
  show l: "w_failures (logon e s) = w_failures s" for s
    using changes_fields(13) [OF within_logon_answer [OF changes_refl, of "logon_begin s" e]]
    by (simp add: logon_def logon_begin_frame)
  show "w_failures (send_logon_response e s) = w_failures s"
    using m l by (simp add: send_logon_response_def split_def Let_def send_login_error_def emit_def)
qed (simp_all add: try_start_cm_def try_start_cm_ipc_def emit_def mark_session_tfa_def insert_session_def
      split: option.split)

lemma update_failure_other: "i \<noteq> 0 \<Longrightarrow> w_failures (update_failure ft b i s) 0 = w_failures s 0"
  by (simp add: update_failure_def put_failure_def Let_def split_def)

lemma check_failure_failures: "w_failures (snd (check_failure e i s)) = w_failures s"
  by (simp add: check_failure_def Let_def split_def post_alarm_audit_def send_login_error_def emit_def)

lemma on_auth_2fa_failures: "w_failures (snd (on_auth_2fa e code s)) 0 = w_failures s 0"
proof -
  obtain ft res s1 where c: "check_failure e 1 s = ((ft, res), s1)" by (cases "check_failure e 1 s") auto
  then have "w_failures s1 = w_failures s" using check_failure_failures [of e 1 s] by simp
  then show ?thesis
    by (simp add: on_auth_2fa_def c [simplified] Let_def keep_failures update_failure_other
        send_login_error_def emit_def split: option.split bool.split)
qed

lemma on_switch_sides_failures: "w_failures (snd (on_switch_sides_response e uuid lr s)) = w_failures s"
  by (simp add: on_switch_sides_response_def retain_switch_uuids_def Let_def keep_failures login_request_fields
      split: option.split)

lemma within_failures: "within s t \<Longrightarrow> w_failures t = w_failures s"
  by (rule changes_fields)

lemma on_misc_failures: "w_failures (snd (on_misc e m s)) = w_failures s"
proof (cases "\<exists>r u. m = Some (MiscCloseReason r) \<or> m = Some (MiscSwitchSidesRequest u)")
  case True
  then show ?thesis
    by (auto simp: on_misc_def on_switch_sides_request_def Let_def on_close_frame emit_def split: option.split)
next
  case False
  then show ?thesis
    using changes_refl [of "in_session s" s]
    by (cases m; cases "the m")
      (auto simp: on_misc_def intro!: within_failures changes_intros split: option.split)
qed

lemma on_message_failures:
  assumes "\<And>lr. msg \<noteq> MsgLoginRequest lr"
  shows "w_failures (snd (on_message e msg s)) 0 = w_failures s 0"
proof (cases "\<exists>m. msg = MsgMisc m")
  case True
  then show ?thesis by (auto simp: on_message_def on_authorized_message_def on_misc_failures)
next
  case False
  then show ?thesis
    using assms changes_refl [of "in_session s" s]
    by (cases msg)
      (auto simp: on_message_def on_authorized_message_def on_auth_2fa_failures on_switch_sides_failures
        on_test_delay_def inner_send_def with_qos_def Let_def
        intro!: fun_cong [OF within_failures] changes_intros split: option.split)
qed

section \<open>A login touches only the entry of its own address\<close>

definition own_entry :: "connection \<Rightarrow> connection \<Rightarrow> bool" where
  "own_entry s t \<longleftrightarrow> c_ip t = c_ip s \<and> (\<forall>ip. ip \<noteq> c_ip s \<longrightarrow> failure_of ip t = failure_of ip s)"

lemma own_entry_same: "w_failures t = w_failures s \<Longrightarrow> c_ip t = c_ip s \<Longrightarrow> own_entry s t"
  by (simp add: own_entry_def failure_of_def)

lemma own_entry_silent: "silent s t \<Longrightarrow> own_entry s t"
  by (simp add: own_entry_same silent_def)

lemma c_ip_host_frame: "host_frame t = host_frame s \<Longrightarrow> c_ip t = c_ip s"
  by (simp add: host_frame_def)

interpretation own: step_relation own_entry
proof
  show "own_entry s (logon e s)" for s e
    using hchanges_logon [of s e] by (intro own_entry_same) (simp_all add: keep_failures hchanges_def host_frame_def)
  show "own_entry s (update_failure ft b k s)" for s ft b k
    by (simp add: own_entry_def failure_of_def update_failure_def put_failure_def Let_def split_def)
  show "own_entry s (wait_desktop_cm_ready e s)" "own_entry s (send_login_error err s)"
    "own_entry s (emit (TcpConnect addr) s)" for s e err addr
    by (simp_all add: own_entry_same wait_desktop_cm_ready_def send_login_error_def emit_def)
  show "own_entry s (try_start_cm i n a s)" "own_entry s (try_start_cm_ipc s)"
    "own_entry s (post_alarm_audit e ty ip s)" "own_entry s (handle_login_request_without_validation lr s)"
    for s i n a e ty ip lr
    by (rule own_entry_silent silent_cm silent_small silent_alarm)+
qed (simp_all add: own_entry_def failure_of_def)

section \<open>Messages of all connections, interleaved\<close>

text \<open>A process: the statics, and the connections by number, of which only the fields of their own
  count. A step delivers one message to one of them.\<close>

type_synonym process = "world \<times> (nat \<Rightarrow> connection)"

definition process_step :: "nat \<times> env \<times> message \<Rightarrow> process \<Rightarrow> process" where
  "process_step x p =
     (case x of (k, e, msg) \<Rightarrow>
        let t = snd (on_message e msg (attach (fst p) (snd p k)))
        in (world.truncate t, (snd p)(k := t)))"

fun process_run :: "(nat \<times> env \<times> message) list \<Rightarrow> process \<Rightarrow> process" where
  "process_run [] p = p"
| "process_run (x # xs) p = process_run xs (process_step x p)"

fun is_login :: "message \<Rightarrow> bool" where
  "is_login (MsgLoginRequest _) = True"
| "is_login _ = False"

definition from_address :: "string \<Rightarrow> nat \<times> env \<times> message \<Rightarrow> process \<Rightarrow> bool" where
  "from_address ip x p \<longleftrightarrow> c_ip (snd p (fst x)) = ip \<and> is_login (snd (snd x))"

text \<open>How often the address was told that its password is wrong.\<close>

fun wrong_guesses :: "string \<Rightarrow> (nat \<times> env \<times> message) list \<Rightarrow> process \<Rightarrow> nat" where
  "wrong_guesses ip [] p = 0"
| "wrong_guesses ip (x # xs) p =
     (if from_address ip x p then wrong_answers (fst p) (fst (process_step x p)) else 0) +
     wrong_guesses ip xs (process_step x p)"

text \<open>The address never knows a password.\<close>

fun never_entitled :: "string \<Rightarrow> (nat \<times> env \<times> message) list \<Rightarrow> process \<Rightarrow> bool" where
  "never_entitled ip [] p = True"
| "never_entitled ip (x # xs) p =
     ((\<forall>lr. from_address ip x p \<and> snd (snd x) = MsgLoginRequest lr \<longrightarrow>
         \<not> entitled (fst (snd x)) (attach (fst p) (snd p (fst x))) lr) \<and>
      desktop_honest (fst (snd x)) \<and> never_entitled ip xs (process_step x p))"

lemma process_step_guess:
  assumes "never_entitled ip (x # xs) p"
  defines "time \<equiv> current_minute (fst (snd x))" and "f \<equiv> failure_of ip (fst p)"
    and "n \<equiv> (if from_address ip x p then wrong_answers (fst p) (fst (process_step x p)) else 0)"
  shows "failure_of ip (fst (process_step x p)) = f \<and> n = 0 \<or>
    may_try time f \<and> failure_of ip (fst (process_step x p)) = next_failure time f \<and> n = 1"
proof -
  define k e msg where "k = fst x" and "e = fst (snd x)" and "msg = snd (snd x)"
  note x = this
  define s where "s = attach (fst p) (snd p k)"
  define t where "t = snd (on_message e msg s)"
  have step: "fst (process_step x p) = world.truncate t"
    by (simp add: process_step_def s_def t_def x Let_def split_def)
  have s: "c_ip s = c_ip (snd p k)" "w_out s = w_out (fst p)" "failure_of ip s = f"
    by (simp_all add: s_def f_def failure_of_def)
  have t: "failure_of ip (fst (process_step x p)) = failure_of ip t"
    "wrong_answers (fst p) (fst (process_step x p)) = length (filter wrong_answer (drop (length (w_out s)) (w_out t)))"
    by (simp_all add: step failure_of_def wrong_answers_def s)
  show ?thesis
  proof (cases "from_address ip x p")
    case False
    have "failure_of ip t = failure_of ip s"
    proof (cases "\<exists>lr. msg = MsgLoginRequest lr")
      case True
      then have "c_ip s \<noteq> ip" using False by (auto simp: from_address_def s x)
      then show ?thesis using own.login_request [of s e] True by (auto simp: own_entry_def t_def on_message_def)
    next
      case False
      then show ?thesis using on_message_failures [of msg e s] by (simp add: failure_of_def t_def)
    qed
    then show ?thesis using False by (simp add: t s n_def)
  next
    case True
    then obtain lr where lr: "msg = MsgLoginRequest lr" by (cases msg) (auto simp: from_address_def x)
    have ip: "c_ip s = ip" using True by (simp add: from_address_def s x)
    have "\<not> entitled e s lr" "desktop_honest e"
      using assms(1) True lr by (cases x; simp add: s_def x)+
    from on_login_request_guess [OF this] have "silent s t \<or> guessed e s t"
      by (simp add: t_def lr on_message_def)
    then show ?thesis
    proof
      assume q: "silent s t"
      then have "failure_of ip t = f" by (simp add: silent_def failure_of_def s(3) [symmetric])
      then show ?thesis using True q by (auto simp: silent_def t n_def silent_filter)
    next
      assume g: "guessed e s t"
      then have "failure_of ip t = next_failure time f"
        unfolding guessed_def ip s(3) time_def x(2) [symmetric] by (simp add: failure_of_def)
      then show ?thesis
        using g True by (auto simp: guessed_def t n_def ip s(3) time_def x(2) [symmetric])
    qed
  qed
qed


text \<open>The failures an entry counts for a minute.\<close>

definition minute_count :: "i32 \<Rightarrow> failure \<Rightarrow> nat" where
  "minute_count m f = (if fst f = m then fst (snd f) else 0)"

text \<open>Within one minute the address is told at most seven times that its password is wrong.\<close>

theorem password_guesses_per_minute:
  assumes "never_entitled ip xs p" and "\<And>x. x \<in> set xs \<Longrightarrow> current_minute (fst (snd x)) = m"
  shows "wrong_guesses ip xs p + minute_count m (failure_of ip (fst p)) \<le>
    max 7 (minute_count m (failure_of ip (fst p)))"
  using assms
proof (induction xs arbitrary: p)
  case (Cons x xs)
  have "never_entitled ip xs (process_step x p)" using Cons.prems by simp
  note IH = Cons.IH [OF this]
  have m: "current_minute (fst (snd x)) = m" using Cons.prems(2) by simp
  from process_step_guess [OF Cons.prems(1)] show ?case
    unfolding m
  proof
    assume "may_try m (failure_of ip (fst p)) \<and>
      failure_of ip (fst (process_step x p)) = next_failure m (failure_of ip (fst p)) \<and>
      (if from_address ip x p then wrong_answers (fst p) (fst (process_step x p)) else 0) = 1"
    then show ?thesis using IH Cons.prems(2)
      by (cases "failure_of ip (fst p)") (auto simp: may_try_def next_failure_def minute_count_def split: if_splits)
  qed (use IH Cons.prems(2) in auto)
qed simp

section \<open>A locked address\<close>

lemma failure_of_kind:
  "failure_of ip (snd (login_kind e u s)) = failure_of ip s"
  "failure_of ip (handle_login_request_without_validation lr s) = failure_of ip s"
  by (simp_all add: failure_of_def login_kind_fields login_request_fields)

lemma login_password_locked:
  assumes "\<not> may_try (current_minute e) (failure_of (c_ip s) s)" and "\<not> c_authorized s"
  shows "\<not> c_authorized (login_password e err lr s)"
proof -
  obtain ft res s1 where c: "check_failure e 0 s = ((ft, res), s1)" by (cases "check_failure e 0 s") auto
  then have "\<not> res" using check_failure_may_try [of e s ft s1] assms(1) by (cases res) auto
  then show ?thesis using c check_failure_authorized [of e 0 s] assms(2) by (simp add: login_password_def)
qed

lemma login_validate_locked:
  assumes "c_authorized (snd (login_validate e err lr s))" and "\<not> c_authorized s" and lr: "c_lr s = lr"
    and "\<not> may_try (current_minute e) (failure_of (c_ip s) s)"
  shows "\<exists>ses. good_session e s lr ses \<and> proves e s lr (ses_password ses)"
proof -
  obtain recent s1 where r: "is_recent_session e False s = (recent, s1)" by fastforce
  obtain m where m: "s1 = s\<lparr>w_sessions := m\<rparr>" using is_recent_session_state [of e False s] r by auto
  have "\<not> c_authorized (login_password e err lr s1)"
    by (rule login_password_locked) (use assms(2,4) m in \<open>simp_all add: failure_of_def\<close>)
  then have recent
    using assms(1,2) m by (auto simp: login_validate_def Let_def r try_start_cm_def send_login_error_def emit_def
        split: if_splits)
  then show ?thesis
    using is_recent_sessionD [of e False s s1] r lr by (auto simp: validate_one_password_proves)
qed

text \<open>C20: Once the address of a connection has failed 31 times, or seven times within the minute,
  no password lets a login request in, not even the right one: only a session that was open within
  the last thirty seconds does.\<close>

theorem locked_address_refused:
  assumes "\<not> may_try (current_minute e) (failure_of (c_ip s) s)" and "\<not> c_authorized s"
    and "c_authorized (snd (on_message e (MsgLoginRequest lr) s))"
  shows "\<exists>ses. good_session e s lr ses \<and> proves e s lr (ses_password ses)"
proof -
  define s1 where "s1 = handle_login_request_without_validation lr s"
  define s2 where "s2 = try_start_cm_ipc (snd (login_kind e (lr_union lr) s1))"
  have s2: "c_lr s2 = lr" "\<not> c_authorized s2" "w_sessions s2 = w_sessions s" "w_recv_times s2 = w_recv_times s"
    "host_frame s2 = host_frame s" "w_failures s2 = w_failures s"
    using assms(2) login_kind_fields [of e "lr_union lr" s1] login_request_fields [of lr s]
    by (simp_all add: s2_def s1_def try_start_cm_ipc_def emit_def host_frame_def)
  have "\<not> c_authorized s1" using assms(2) by (simp add: s1_def login_request_fields)
  then have "c_authorized (snd (login_validate e (try_start_desktop e (lr_os_login lr)) lr s2))"
    using assms(3) s2(2) login_kind_fields(2) [of e "lr_union lr" s1]
    by (auto simp: on_message_def on_login_request_def s1_def [symmetric] Let_def s2_def send_login_error_def
        emit_def split: prod.splits option.splits if_splits)
  moreover have "failure_of (c_ip s2) s2 = failure_of (c_ip s) s"
    using c_ip_host_frame [OF s2(5)] s2(6) by (simp add: failure_of_def)
  ultimately show ?thesis
    using login_validate_locked [OF _ s2(2,1)] assms(1) s2(3-5)
    by (auto simp: good_session_def proves_def host_frame_def)
qed

section \<open>Two threads\<close>

text \<open>The check reads the counter and the update writes what the check read, each under the lock but
  not both together: two guesses checked before either is counted count once.\<close>

lemma parallel_guesses_count_once:
  assumes "check_failure e 0 s = ((ft, True), s)"
  shows "failure_of (c_ip s) (update_failure ft False 0 (update_failure ft False 0 s)) =
    failure_of (c_ip s) (update_failure ft False 0 s)"
  using check_failure_may_try [OF assms]
  by (cases ft) (simp add: update_failure_next put_failure_def failure_of_def)

section \<open>A wrong guess\<close>

definition wrong_login :: login_request where
  "wrong_login = login_request_default\<lparr>lr_username := ''123456789'', lr_password := [0]\<rparr>"

definition demo_process :: process where
  "demo_process = (demo_world, \<lambda>_. demo_conn)"

definition demo_guess :: "(nat \<times> env \<times> message) list" where
  "demo_guess = [(0, demo_env, MsgLoginRequest wrong_login)]"

lemma demo_sha_length: "length (e_sha256 demo_env x) = 32"
  by (simp add: demo_env_def)

lemma demo_not_proved: "\<not> proves demo_env s wrong_login p"
proof
  assume "proves demo_env s wrong_login p"
  then have "length (lr_password wrong_login) = 32" using demo_sha_length by (metis proves_def)
  then show False by (simp add: wrong_login_def)
qed

lemma demo_honest: "desktop_honest demo_env"
  by (simp add: desktop_honest_def login_messages demo_env_def)

lemma demo_guess_ok: "never_entitled [] demo_guess demo_process"
  by (simp add: demo_guess_def demo_honest entitled_def demo_not_proved)


theorem password_guesses_per_minute_witness:
  "wrong_guesses [] demo_guess demo_process \<le> 7"
  using password_guesses_per_minute [OF demo_guess_ok, of "current_minute demo_env"]
  by (simp add: demo_process_def failure_of_def demo_world_def minute_count_def demo_guess_def)

text \<open>An address that has failed 31 times, and a peer of it that was connected a moment ago.\<close>

definition returning_login :: login_request where
  "returning_login = login_request_default\<lparr>lr_username := ''123456789'', lr_my_id := ''9'', lr_session_id := 7,
     lr_password := e_sha256 demo_env (e_sha256 demo_env ([9, 9] @ bytes_of ''salt'') @ bytes_of ''chal'')\<rparr>"

definition locked_conn :: connection where
  "locked_conn = demo_conn\<lparr>w_failures := (\<lambda>_. [([], (0, 0, 31))]),
     w_recv_times := (\<lambda>_. 99000),
     w_sessions := [(''9'', \<lparr>ses_name = [], ses_id = 7, ses_recv = 0, ses_password = [9, 9], ses_tfa = False\<rparr>)]\<rparr>"

lemma locked_conn_fields:
  "c_salt locked_conn = bytes_of ''salt''" "c_challenge locked_conn = bytes_of ''chal''"
  "c_ip locked_conn = []" "c_authorized locked_conn = False"
  by (simp_all add: locked_conn_def demo_conn_def connection_new_def connection.fields_def world.extend_def)

lemma is_recent_session_fields:
  "c_authorized (snd (is_recent_session e tfa s)) = c_authorized s"
  "c_require_2fa (snd (is_recent_session e tfa s)) = c_require_2fa s"
  using is_recent_session_state [of e tfa s] by auto

lemma accepted_authorized:
  assumes "c_require_2fa s = None"
  shows "c_authorized (login_accepted e [] lr s)"
proof -
  have "c_authorized (send_logon_response e (wait_desktop_cm_ready e s))"
  proof (cases "c_authorized (wait_desktop_cm_ready e s)")
    case False
    then show ?thesis
      using send_logon_response_auth [OF False] assms
      by (simp add: second_factor_missing_def wait_desktop_cm_ready_def emit_def)
  qed (simp add: send_logon_response_def)
  then show ?thesis by (simp add: login_accepted_def Let_def cm_authorized)
qed

lemma returning_login_accepted:
  "c_authorized (snd (on_message demo_env (MsgLoginRequest returning_login) locked_conn))"
proof -
  let ?s = "try_start_cm_ipc (handle_login_request_without_validation returning_login locked_conn)"
  have s: "c_lr ?s = returning_login" "c_require_2fa ?s = None" "w_temporary_password ?s = [9, 9, 9, 9, 9, 9]"
    "c_salt ?s = bytes_of ''salt''" "c_challenge ?s = bytes_of ''chal''" "w_recv_times ?s = (\<lambda>_. 99000)"
    "w_sessions ?s = w_sessions locked_conn" "c_recv_cell ?s = 0"
    by (simp_all add: try_start_cm_ipc_def handle_login_request_without_validation_def Let_def emit_def
        returning_login_def login_request_default_def locked_conn_def demo_conn_def connection_new_def
        connection.fields_def world.extend_def demo_world_def)
  have "length (lr_password returning_login) = 32" by (simp add: returning_login_def demo_sha_length)
  then have pw: "lr_password returning_login \<noteq> []" by auto
  have r: "fst (is_recent_session demo_env False ?s)"
    using s pw
    by (simp add: is_recent_session_def retain_sessions_def hm_retain_def locked_conn_def Let_def
        SESSION_TIMEOUT_def validate_one_password_def returning_login_def login_request_default_def)
  have "c_authorized (login_accepted demo_env [] returning_login (snd (is_recent_session demo_env False ?s)))"
    by (rule accepted_authorized) (simp add: is_recent_session_fields s)
  then have "c_authorized (snd (login_validate demo_env [] returning_login ?s))"
    using r s(3)
    by (cases "is_recent_session demo_env False ?s")
      (simp add: login_validate_def Let_def returning_login_def login_request_default_def demo_options_def
        get_approve_mode_def has_valid_password_def temporary_enabled_def get_verification_method_def demo_env_def)
  moreover have "lr_union returning_login = None" "\<not> e_headless_allowed demo_env"
    by (simp_all add: returning_login_def login_request_default_def demo_env_def)
  moreover have "w_privacy (handle_login_request_without_validation returning_login locked_conn) = None"
    by (simp add: handle_login_request_without_validation_def Let_def locked_conn_def split: option.split)
  ultimately show ?thesis
    by (simp add: on_message_def on_login_request_def Let_def login_request_fields locked_conn_fields
        login_kind_def try_start_desktop_def is_in_privacy_mode_def)
qed

theorem locked_address_refused_witness:
  "\<exists>ses. good_session demo_env locked_conn returning_login ses \<and>
     proves demo_env locked_conn returning_login (ses_password ses)"
  by (rule locked_address_refused [OF _ _ returning_login_accepted])
    (simp_all add: locked_conn_fields may_try_def failure_of_def, simp add: locked_conn_def)

end
