(* ===== verification/Conn_Life.thy ===== *)
theory Conn_Life
  imports Conn_Auth
begin

text \<open>
  The whole life of a connection: \<open>start\<close>, any number of turns of its loop, \<open>finish\<close>. Before each
  turn the statics may have been replaced by any others (\<open>attach\<close>): what the other connections of
  the process do in between is arbitrary. The theorems say what the connection manager is told,
  when the connection counts as authorized, and what is left of it at the end.
\<close>

section \<open>Turns of the loop under interference\<close>

text \<open>What a turn from \<open>s\<close> to \<open>t\<close> put out.\<close>

definition put_out :: "connection \<Rightarrow> connection \<Rightarrow> effect list" where
  "put_out s t = drop (length (w_out s)) (w_out t)"

definition turn :: "world \<times> env \<times> event \<Rightarrow> loop_state \<times> effect list \<Rightarrow> loop_state \<times> effect list" where
  "turn x st =
     (let (w, eev) = x; ((going, last, s), outs) = st; s = attach w s;
          (going', last', t) = loop_step (going, last, s) eev
      in ((going', last', t), outs @ put_out s t))"

text \<open>A life: the loop runs if \<open>on_open\<close> let it, and everything ends with \<open>finish\<close>.\<close>

definition life ::
    "env \<Rightarrow> i32 \<Rightarrow> bytes option \<Rightarrow> string \<Rightarrow> string \<Rightarrow> nat \<Rightarrow> string \<Rightarrow> world \<Rightarrow>
     (world \<times> env \<times> event) list \<Rightarrow> env \<Rightarrow> world \<Rightarrow> connection \<times> effect list" where
  "life e i totp salt challenge cell ip w turns e' w' =
     (let (ok, s) = start e i totp salt challenge cell ip w;
          outs = drop (length (w_out w)) (w_out s)
      in if \<not> ok then (s, outs)
         else
           (let ((_, _, s), outs) = fold turn turns ((True, e_now e, s), outs);
                s = attach w' s;
                t = finish e' s
            in (t, outs @ put_out s t)))"

section \<open>What a step keeps\<close>

text \<open>An authorized connection holds its registration, under its own id.\<close>

definition auth_ok :: "connection \<Rightarrow> bool" where
  "auth_ok s \<longleftrightarrow> c_authorized s = (c_authed_conn_id s \<noteq> None) \<and>
     (\<forall>a. c_authed_conn_id s = Some a \<longrightarrow> fst a = c_id s)"

definition notices :: "effect list \<Rightarrow> nat" where
  "notices xs = length (filter close_notice xs)"

lemma notices_simps [simp]:
  "notices [] = 0" "notices (xs @ ys) = notices xs + notices ys"
  "notices (x # xs) = of_bool (close_notice x) + notices xs"
  by (simp_all add: notices_def)

text \<open>From \<open>s\<close> to \<open>t\<close>: the same connection; authorized and closed stay; and the end is told exactly
  when the connection closes.\<close>

definition lives :: "connection \<Rightarrow> connection \<Rightarrow> bool" where
  "lives s t \<longleftrightarrow> c_id t = c_id s \<and> (c_authorized s \<longrightarrow> c_authorized t) \<and> (auth_ok s \<longrightarrow> auth_ok t) \<and>
     (c_closed s \<longrightarrow> c_closed t) \<and>
     (\<exists>xs. w_out t = w_out s @ xs \<and> notices xs = of_bool (c_closed t \<and> \<not> c_closed s))"

lemma lives_refl: "lives s s"
  by (simp add: lives_def)

lemma lives_trans:
  assumes "lives s t" and "lives t u"
  shows "lives s u"
proof -
  obtain xs ys where "w_out t = w_out s @ xs" "notices xs = of_bool (c_closed t \<and> \<not> c_closed s)"
    "w_out u = w_out t @ ys" "notices ys = of_bool (c_closed u \<and> \<not> c_closed t)"
    using assms by (auto simp: lives_def)
  then have "w_out u = w_out s @ (xs @ ys)" "notices (xs @ ys) = of_bool (c_closed u \<and> \<not> c_closed s)"
    using assms by (auto simp: lives_def)
  then show ?thesis using assms by (auto simp: lives_def simp del: append_assoc)
qed

lemma lives_same:
  "c_id t = c_id s \<Longrightarrow> c_authorized t = c_authorized s \<Longrightarrow> c_authed_conn_id t = c_authed_conn_id s
    \<Longrightarrow> c_closed t = c_closed s \<Longrightarrow> w_out t = w_out s \<Longrightarrow> lives s t"
  by (simp add: lives_def auth_ok_def)

lemma lives_emit: "\<not> close_notice x \<Longrightarrow> lives s (emit x s)"
  by (simp add: lives_def auth_ok_def emit_def)

lemma lives_within: "within s t \<Longrightarrow> lives s t"
proof -
  assume w: "within s t"
  then obtain xs where xs: "w_out t = w_out s @ xs" "list_all (in_session s) xs"
    by (auto simp: changes_def)
  from xs(2) have "notices xs = 0" by (simp add: notices_def filter_empty_conv list_all_iff)
  then show ?thesis using changes_fields [OF w] xs(1) by (auto simp: lives_def auth_ok_def)
qed

lemma lives_close: "lives s (on_close lock s)"
proof (cases "c_closed s")
  case False
  then show ?thesis
    by (simp add: lives_def auth_ok_def on_close_def Let_def emit_def)
qed (simp add: on_close_frame lives_refl)

lemma lives_error: "lives s (send_login_error err s)"
  unfolding send_login_error_def by (rule lives_emit) simp

lemma lives_cm: "lives s (try_start_cm i n a s)"
  unfolding try_start_cm_def by (rule lives_emit) simp

lemma lives_send: "lives s (send m s)"
  by (rule lives_emit) simp

lemma lives_alarm: "lives s (post_alarm_audit e ty ip s)" "lives s (post_conn_audit v s)"
  unfolding post_alarm_audit_def post_conn_audit_def
  using lives_emit [of "AlarmAudit ty ip" s] lives_emit [of "ConnAudit v" s] lives_refl by simp_all

lemma lives_small:
  "lives s (try_start_cm_ipc s)" "lives s (wait_desktop_cm_ready e s)"
  "lives s (snd (is_recent_session e tfa s))" "lives s (snd (validate_password e s))"
  "lives s (update_failure ft b i s)" "lives s (mark_session_tfa s)"
  "lives s (handle_login_request_without_validation lr s)" "lives s (s\<lparr>c_require_2fa := r\<rparr>)"
proof -
  show "lives s (try_start_cm_ipc s)"
    by (simp add: try_start_cm_ipc_def lives_def auth_ok_def emit_def)
  show "lives s (wait_desktop_cm_ready e s)"
    unfolding wait_desktop_cm_ready_def by (simp add: lives_emit lives_refl)
  obtain m where "snd (is_recent_session e tfa s) = s\<lparr>w_sessions := m\<rparr>"
    using is_recent_session_state by blast
  then show "lives s (snd (is_recent_session e tfa s))" by (simp add: lives_same)
  show "lives s (snd (validate_password e s))"
    by (rule lives_same) (simp_all add: validate_password_def insert_session_def)
  show "lives s (update_failure ft b i s)"
    by (rule lives_same) (simp_all add: update_failure_def put_failure_def split_def Let_def)
  show "lives s (mark_session_tfa s)"
    by (rule lives_same) (simp_all add: mark_session_tfa_def insert_session_def split: option.split)
  show "lives s (handle_login_request_without_validation lr s)"
    by (rule lives_same)
      (simp_all add: handle_login_request_without_validation_def Let_def split: option.split)
  show "lives s (s\<lparr>c_require_2fa := r\<rparr>)" by (simp add: lives_same)
qed

lemma lives_logon: "lives s (logon e s)"
proof -
  obtain xs where xs: "w_out (logon_begin s) = w_out s @ xs" "list_all (in_session s) xs"
    using logon_begin_frame(13) by blast
  from xs(2) have "notices xs = 0" by (simp add: notices_def filter_empty_conv list_all_iff)
  then have "lives s (logon_begin s)"
    using logon_begin_frame(1-3,7) [of s] xs(1) by (simp add: lives_def auth_ok_def host_frame_def)
  then show ?thesis
    unfolding logon_def by (rule lives_trans [OF _ lives_within [OF within_logon_answer [OF changes_refl]]])
qed

interpretation life: life_relation lives
proof
  show "lives s (emit (TcpConnect addr) s)" "lives s (emit (ToPeerRaw bs) s)" for s addr bs
    by (rule lives_emit; simp)+
  show "lives s (snd (on_test_delay e td s))" for s e td
    by (rule lives_same)
      (simp_all add: on_test_delay_def inner_send_def with_qos_def Let_def split: option.split)
  have if_mono: "(Q \<Longrightarrow> lives s u) \<Longrightarrow> (\<not> Q \<Longrightarrow> lives s v) \<Longrightarrow> lives s (if Q then u else v)" for Q s u v
    by simp
  have perm: "lives s (send_permission p b s)" "lives s (subscribe n b s)"
    "lives s (s\<lparr>c_keyboard := b\<rparr>)" "lives s (s\<lparr>c_clipboard := b\<rparr>)" "lives s (s\<lparr>c_audio := b\<rparr>)"
    "lives s (s\<lparr>c_file := b\<rparr>)" "lives s (s\<lparr>c_restart := b\<rparr>)" "lives s (s\<lparr>c_recording := b\<rparr>)"
    "lives s (s\<lparr>c_block_input := b\<rparr>)" for s p b n
    by (simp_all add: lives_same subscribe_def with_server_def send_permission_def lives_send)
  show "lives s (switch_permission name b s)" for s name b
    unfolding switch_permission_def Let_def
    by (rule if_mono lives_refl
        lives_trans [OF perm(3) lives_trans [OF perm(1,2)]]
        lives_trans [OF perm(4) lives_trans [OF perm(1,2)]] lives_trans [OF perm(5) lives_trans [OF perm(1,2)]]
        lives_trans [OF perm(6,1)] lives_trans [OF perm(7,1)] lives_trans [OF perm(8,1)]
        lives_trans [OF perm(9,1)])+
  show "lives s t \<Longrightarrow> lives t u \<Longrightarrow> lives s u" for s t u by (rule lives_trans)
qed (simp_all add: lives_refl lives_error lives_cm lives_small lives_alarm lives_logon lives_within
      lives_close lives_same)

section \<open>The begin and the end\<close>

lemma connection_new_fields:
  "c_id (connection_new e i totp salt challenge cell w) = i"
  "\<not> c_authorized (connection_new e i totp salt challenge cell w)"
  "c_authed_conn_id (connection_new e i totp salt challenge cell w) = None"
  "\<not> c_closed (connection_new e i totp salt challenge cell w)"
  "w_out (connection_new e i totp salt challenge cell w) = w_out w"
  "c_file_transfer (connection_new e i totp salt challenge cell w) = None"
  "\<not> c_port_forward (connection_new e i totp salt challenge cell w)"
  by (simp_all add: connection_new_def connection.fields_def world.extend_def Let_def)

lemma lives_on_open: "lives s (snd (on_open e ip salt challenge s))"
proof -
  have wl: "lives s (snd (check_whitelist e ip s))"
    using lives_trans [OF lives_error lives_alarm(1)] lives_refl by (simp add: check_whitelist_def Let_def)
  have ip: "lives s (s\<lparr>c_ip := ip\<rparr>)" "lives s (get_api_server e s)" for s
    by (simp_all add: lives_same get_api_server_def)
  have opened: "lives s (post_conn_audit (AuditNew ip) (get_api_server e (send m (s\<lparr>c_ip := ip\<rparr>))))" for s m
    by (rule lives_trans [OF ip(1) lives_trans [OF lives_send lives_trans [OF ip(2) lives_alarm(2)]]])
  show ?thesis
    unfolding on_open_def Let_def split_def
    using wl lives_trans [OF wl lives_error] lives_trans [OF wl opened] by simp
qed

lemma lives_announce: "lives s (announce p b s)"
  unfolding announce_def send_permission_def using lives_send lives_refl by simp

lemma lives_announce_permissions: "lives s (announce_permissions s)"
  unfolding announce_permissions_def Let_def
  by (rule lives_announce lives_trans [OF _ lives_announce])+

lemma lives_fold: "(\<And>x s. lives s (f x s)) \<Longrightarrow> lives s (fold f xs s)"
  by (induction xs arbitrary: s) (auto intro: lives_refl lives_trans)

lemma lives_drop: "lives s (drop_connection e s)"
proof -
  have rel: "lives s (release_pressed_modifiers s)"
    unfolding release_pressed_modifiers_def
    by (rule lives_trans [OF lives_fold lives_same]) (simp_all add: lives_emit)
  have authed: "lives s (authed_conn_id_drop e a s)" for s a
    by (simp add: authed_conn_id_drop_def Let_def check_wake_lock_def emit_def lives_def auth_ok_def)
  have id: "lives s (connection_id_drop e i s)" for s i
    by (simp add: connection_id_drop_def lives_same)
  show ?thesis
    unfolding drop_connection_def Let_def
    by (cases "c_authed_conn_id (release_pressed_modifiers s)")
      (simp_all add: lives_trans [OF rel id] lives_trans [OF lives_trans [OF rel authed] id])
qed

text \<open>After \<open>start\<close>: an open connection under its number, or one that was refused.\<close>

lemma start_lives:
  assumes "start e i totp salt challenge cell ip w = (ok, s)"
  shows "c_id s = i" "auth_ok s" "c_closed s = (\<not> ok)" "\<exists>xs. w_out s = w_out w @ xs \<and> notices xs = 0"
proof -
  define s0 where "s0 = connection_id_new i (connection_new e i totp salt challenge cell w)"
  have s0: "c_id s0 = i" "auth_ok s0" "\<not> c_closed s0" "w_out s0 = w_out w"
    using connection_new_fields [of e i totp salt challenge cell w]
    by (simp_all add: s0_def connection_id_new_def auth_ok_def)
  obtain ok' s1 where o: "on_open e ip salt challenge s0 = (ok', s1)" by fastforce
  have l: "lives s0 s1" using lives_on_open [of s0 e ip salt challenge] o by simp
  have nc: "\<not> c_closed s1"
    using o s0(3)
    by (auto simp: on_open_def check_whitelist_def Let_def split_def send_login_error_def emit_def
        post_alarm_audit_def post_conn_audit_def get_api_server_def split: if_splits)
  have "c_id s = i \<and> auth_ok s \<and> c_closed s = (\<not> ok) \<and> (\<exists>xs. w_out s = w_out w @ xs \<and> notices xs = 0)"
  proof (cases ok')
    case True
    then have s: "s = announce_permissions s1" "ok"
      using assms o by (simp_all add: start_def s0_def [symmetric] Let_def)
    have "\<not> c_closed s"
      using nc by (simp add: s announce_permissions_def announce_def send_permission_def Let_def emit_def)
    then show ?thesis
      using lives_trans [OF l lives_announce_permissions] s s0 by (auto simp: lives_def)
  next
    case False
    let ?u = "s1\<lparr>c_closed := True\<rparr>"
    have s: "s = drop_connection e ?u" "\<not> ok"
      using False assms o by (simp_all add: start_def s0_def [symmetric] Let_def)
    obtain xs where xs: "w_out s1 = w_out w @ xs" "notices xs = 0" using l nc s0 by (auto simp: lives_def)
    have "c_id ?u = i" "auth_ok ?u" using l s0 by (auto simp: lives_def auth_ok_def)
    moreover obtain ys where "w_out s = w_out ?u @ ys" "notices ys = 0"
      using lives_drop [of ?u e] by (auto simp: lives_def s)
    ultimately show ?thesis
      using lives_drop [of ?u e] xs s by (auto simp: lives_def)
  qed
  then show "c_id s = i" "auth_ok s" "c_closed s = (\<not> ok)"
    "\<exists>xs. w_out s = w_out w @ xs \<and> notices xs = 0" by simp_all
qed

text \<open>The parts of \<open>finish\<close> before the connection is dropped.\<close>

definition wind_up :: "env \<Rightarrow> connection \<Rightarrow> connection" where
  "wind_up e s =
     (let s = (if get_privacy_mode_conn_id (w_privacy s) = Some (c_id s)
               then snd (turn_off_privacy_to_msg e (c_id s) s) else s);
          s = emit (VideoFetched (c_id s) False) s;
          s = (if c_authorized s then s\<lparr>w_temporary_password := e_new_password e\<rparr> else s);
          s = (if c_port_forward s then on_close False (s\<lparr>c_port_forward := False\<rparr>) else s)
      in post_conn_audit AuditClose s)"

lemma finish_wind_up:
  "finish e s = (let t = wind_up e s in
     drop_connection e (on_close True (with_server (remove_connection (c_inner t)) t)))"
  by (simp add: finish_def wind_up_def Let_def)

lemma lives_wind_up: "lives s (wind_up e s)"
proof -
  have privacy: "lives s (snd (turn_off_privacy_to_msg e (c_id s) s))" for s
    by (rule lives_within [OF within_privacy(1) [OF changes_refl]])
  have fetched: "lives s (emit (VideoFetched i b) s)" for s i b by (rule lives_emit) simp
  have pw: "lives s (s\<lparr>w_temporary_password := p\<rparr>)" "lives s (s\<lparr>c_port_forward := b\<rparr>)"
    for s :: connection and p b by (simp_all add: lives_same)
  have step: "lives s (if Q then f u else u)" if "lives s u" "\<And>u. lives u (f u)" for s u f and Q
    using that lives_trans by (cases Q) auto
  show ?thesis
    unfolding wind_up_def Let_def
    by (intro lives_trans [OF _ lives_alarm(2)] step lives_trans [OF _ fetched]
        lives_trans [OF pw(2) lives_close] pw privacy lives_refl)
qed

lemma lives_with_server: "lives s (with_server f s)"
  by (simp add: lives_same with_server_def)

lemma lives_finish: "lives s (finish e s)"
  unfolding finish_wind_up Let_def
  by (rule lives_trans [OF lives_wind_up lives_trans [OF lives_with_server lives_trans [OF lives_close lives_drop]]])

lemma c_closed_drop: "c_closed (drop_connection e s) = c_closed s"
proof -
  have "c_closed (fold (\<lambda>k. emit (KeyRelease k)) ks s) = c_closed s" for ks and s
    by (induction ks arbitrary: s) (simp_all add: emit_def)
  then show ?thesis
    by (simp add: drop_connection_def release_pressed_modifiers_def connection_id_drop_def
        authed_conn_id_drop_def check_wake_lock_def emit_def Let_def split: option.split)
qed

lemma finish_closed: "c_closed (finish e s)"
  by (simp add: finish_wind_up Let_def c_closed_drop on_close_frame)

lemma lives_put_out: "lives s t \<Longrightarrow> notices (put_out s t) = of_bool (c_closed t \<and> \<not> c_closed s)"
  by (auto simp: lives_def put_out_def)

lemma auth_ok_attach [simp]: "auth_ok (attach w s) = auth_ok s"
  by (simp add: auth_ok_def)

lemma turns_live:
  assumes "fold turn xs ((g, l, s), outs) = ((g', l', t), outs')"
  shows "c_id t = c_id s \<and> (auth_ok s \<longrightarrow> auth_ok t) \<and> (c_authorized s \<longrightarrow> c_authorized t) \<and>
    (c_closed s \<longrightarrow> c_closed t) \<and> notices outs' = notices outs + of_bool (c_closed t \<and> \<not> c_closed s)"
  using assms
proof (induction xs arbitrary: g l s outs)
  case (Cons x xs)
  obtain w e ev where x: "x = (w, e, ev)" by (cases x)
  obtain g1 l1 s1 where step: "loop_step (g, l, attach w s) (e, ev) = (g1, l1, s1)" by (rule prod_cases3)
  have l1: "lives (attach w s) s1" using life.loop [of "attach w s" g l e ev] step by simp
  have "turn x ((g, l, s), outs) = ((g1, l1, s1), outs @ put_out (attach w s) s1)"
    by (simp add: turn_def x step)
  then show ?case
    using Cons.IH [of g1 l1 s1 "outs @ put_out (attach w s) s1"] Cons.prems lives_put_out [OF l1] l1
    by (auto simp: lives_def)
qed simp

text \<open>C23: Whatever happens in its loop and whatever other connections do to the statics in between,
  the connection manager hears that a connection is over exactly once; never when \<open>on_open\<close>
  refused it.\<close>

theorem end_told_once:
  "notices (snd (life e i totp salt challenge cell ip w turns e' w')) =
     of_bool (fst (start e i totp salt challenge cell ip w))"
proof -
  obtain ok s where s: "start e i totp salt challenge cell ip w = (ok, s)" by fastforce
  obtain xs where xs: "w_out s = w_out w @ xs" "notices xs = 0" using start_lives(4) [OF s] by blast
  show ?thesis
  proof (cases ok)
    case False
    then show ?thesis using xs by (simp add: life_def s)
  next
    case True
    obtain g l t outs where r: "fold turn turns ((True, e_now e, s), xs) = ((g, l, t), outs)"
      by (metis prod.exhaust)
    have "notices outs = of_bool (c_closed t)"
      using turns_live [OF r] xs(2) start_lives(3) [OF s] True by simp
    moreover have "notices (put_out (attach w' t) (finish e' (attach w' t))) = of_bool (\<not> c_closed t)"
      using lives_put_out [OF lives_finish] finish_closed by simp
    ultimately show ?thesis using True xs by (simp add: life_def s r Let_def)
  qed
qed

text \<open>At every moment of its loop a connection that counts as authorized holds exactly one
  registration, under its own number, one that does not holds none, and being authorized is
  never lost.\<close>

theorem authorized_registered:
  assumes "start e i totp salt challenge cell ip w = (ok, s)"
    and "fold turn xs ((ok, e_now e, s), []) = ((g, l, t), outs)"
    and "fold turn ys ((g, l, t), outs) = ((g', l', u), outs')"
  shows "c_authorized t = (\<exists>ty. c_authed_conn_id t = Some (i, ty)) \<and>
    (\<not> c_authorized t \<longrightarrow> c_authed_conn_id t = None) \<and> (c_authorized t \<longrightarrow> c_authorized u)"
proof -
  have "auth_ok t \<and> c_id t = i \<and> (c_authorized t \<longrightarrow> c_authorized u)"
    using turns_live [OF assms(2)] turns_live [OF assms(3)] start_lives(1,2) [OF assms(1)] by simp
  then show ?thesis by (auto simp: auth_ok_def)
qed

text \<open>The send timeout of a connection is the short one for video, whatever the connection
  turns out to be: it is chosen before any login request can have been read.\<close>

theorem send_timeout_is_video: "send_timeout (snd (start e i totp salt challenge cell ip w)) = SEND_TIMEOUT_VIDEO"
proof -
  have rel: "c_file_transfer (fold (\<lambda>k. emit (KeyRelease k)) ks s) = c_file_transfer s"
    "c_port_forward (fold (\<lambda>k. emit (KeyRelease k)) ks s) = c_port_forward s" for ks and s
    by (induction ks arbitrary: s) (simp_all add: emit_def)
  have kept: "c_file_transfer (drop_connection e s) = c_file_transfer s"
    "c_port_forward (drop_connection e s) = c_port_forward s"
    "c_file_transfer (announce_permissions s) = c_file_transfer s"
    "c_port_forward (announce_permissions s) = c_port_forward s"
    "c_file_transfer (snd (on_open e ip salt challenge s)) = c_file_transfer s"
    "c_port_forward (snd (on_open e ip salt challenge s)) = c_port_forward s" for s
    by (simp_all add: drop_connection_def release_pressed_modifiers_def connection_id_drop_def rel
        authed_conn_id_drop_def check_wake_lock_def emit_def Let_def announce_permissions_def announce_def
        send_permission_def on_open_def check_whitelist_def send_login_error_def post_alarm_audit_def
        post_conn_audit_def get_api_server_def split_def split: option.split)
  show ?thesis
    using connection_new_fields(6,7) [of e i totp salt challenge cell w]
    by (simp add: start_def Let_def split_def send_timeout_def kept connection_id_new_def)
qed

section \<open>What is left\<close>

lemma emit_statics:
  "w_alive (emit x s) = w_alive s" "w_authed (emit x s) = w_authed s" "w_server (emit x s) = w_server s"
  "w_qos (emit x s) = w_qos s" "c_authed_conn_id (emit x s) = c_authed_conn_id s"
  "c_inner (emit x s) = c_inner s"
  by (simp_all add: emit_def)

lemma released_statics:
  "w_alive (release_pressed_modifiers s) = w_alive s" "w_authed (release_pressed_modifiers s) = w_authed s"
  "w_server (release_pressed_modifiers s) = w_server s"
  "c_authed_conn_id (release_pressed_modifiers s) = c_authed_conn_id s"
  "c_inner (release_pressed_modifiers s) = c_inner s" "c_authorized (release_pressed_modifiers s) = c_authorized s"
proof -
  have "w_alive (fold (\<lambda>k. emit (KeyRelease k)) ks s) = w_alive s \<and>
     w_authed (fold (\<lambda>k. emit (KeyRelease k)) ks s) = w_authed s \<and>
     w_server (fold (\<lambda>k. emit (KeyRelease k)) ks s) = w_server s \<and>
     c_authed_conn_id (fold (\<lambda>k. emit (KeyRelease k)) ks s) = c_authed_conn_id s \<and>
     c_inner (fold (\<lambda>k. emit (KeyRelease k)) ks s) = c_inner s \<and>
     c_authorized (fold (\<lambda>k. emit (KeyRelease k)) ks s) = c_authorized s" for ks and s
    by (induction ks arbitrary: s) (simp_all add: emit_statics, simp add: emit_def)
  then show "w_alive (release_pressed_modifiers s) = w_alive s" "w_authed (release_pressed_modifiers s) = w_authed s"
    "w_server (release_pressed_modifiers s) = w_server s"
    "c_authed_conn_id (release_pressed_modifiers s) = c_authed_conn_id s"
    "c_inner (release_pressed_modifiers s) = c_inner s" "c_authorized (release_pressed_modifiers s) = c_authorized s"
    by (simp_all add: release_pressed_modifiers_def)
qed

lemma qos_refresh_users: "q_users (qos_refresh opt b s) = q_users s"
  by (simp add: qos_refresh_def Let_def)

lemma drop_leaves:
  assumes "auth_ok s"
  shows "c_id s \<notin> set (w_alive (drop_connection e s))"
    "c_authorized s \<Longrightarrow> c_id s \<notin> fst ` set (w_authed (drop_connection e s))"
    "w_server (drop_connection e s) = w_server s"
    "hm_get (q_users (w_qos (drop_connection e s))) (c_id s) = None"
  using assms
  by (auto simp: drop_connection_def Let_def connection_id_drop_def authed_conn_id_drop_def check_wake_lock_def
      emit_statics released_statics auth_ok_def qos_on_connection_close_def qos_refresh_users split: option.split)

text \<open>C22: When a connection has ended it is closed, its number is in neither registry of the
  process, the video quality control has no user of it, and no service has it as a subscriber,
  whatever it was and did before.\<close>

theorem nothing_left:
  assumes "auth_ok s" and "\<And>srv. w_server s = Some srv \<Longrightarrow> server_inv srv"
    and t: "t = finish e s"
  shows "c_closed t \<and> c_id s \<notin> set (w_alive t) \<and> (c_authorized s \<longrightarrow> c_id s \<notin> fst ` set (w_authed t)) \<and>
    hm_get (q_users (w_qos t)) (c_id s) = None \<and>
    (\<forall>srv name. w_server t = Some srv \<longrightarrow> \<not> subed srv name (c_id s))"
proof -
  define u where "u = wind_up e s"
  define v where "v = on_close True (with_server (remove_connection (c_inner u)) u)"
  have lv: "lives s v"
    unfolding v_def u_def by (rule lives_trans [OF lives_wind_up lives_trans [OF lives_with_server lives_close]])
  have v: "auth_ok v" "c_id v = c_id s" "c_authorized s \<longrightarrow> c_authorized v" "c_id u = c_id s"
    using lv lives_wind_up [of s e] assms(1) by (simp_all add: lives_def u_def)
  have tv: "t = drop_connection e v" by (simp add: t finish_wind_up v_def u_def Let_def)
  have "w_server u = w_server s"
    by (simp add: u_def wind_up_def Let_def turn_off_privacy_to_msg_def split_def on_close_def
        emit_def post_conn_audit_def)
  then have "w_server v = map_option (remove_connection (c_inner u)) (w_server s)"
    by (simp add: v_def on_close_def Let_def emit_def with_server_def)
  then have "\<not> subed srv name (c_id s)" if "w_server t = Some srv" for srv name
    using that drop_leaves(3) [OF v(1), of e] subed_remove_connection [OF assms(2), of _ "c_inner u"] v(4)
    by (auto simp: tv)
  then show ?thesis
    using drop_leaves [OF v(1), of e] v finish_closed [of e s] by (simp add: tv t [symmetric])
qed

section \<open>On the demonstration host\<close>

theorem authorized_registered_witness:
  "\<exists>g l t outs. fold turn [(demo_world, demo_env, FromCm CmAuthorize)]
      ((True, e_now demo_env, snd (start demo_env 5 None ''salt'' ''chal'' 0 [] demo_world)), []) = ((g, l, t), outs) \<and>
     (\<not> c_authorized t \<longrightarrow> c_authed_conn_id t = None)"
proof -
  let ?s = "snd (start demo_env 5 None ''salt'' ''chal'' 0 [] demo_world)"
  have ok: "start demo_env 5 None ''salt'' ''chal'' 0 [] demo_world = (True, ?s)"
    by (simp add: start_def on_open_def check_whitelist_def Let_def split_def demo_options_def demo_env_def)
  obtain g l t outs where r: "fold turn [(demo_world, demo_env, FromCm CmAuthorize)]
      ((True, e_now demo_env, ?s), []) = ((g, l, t), outs)" by (metis prod.exhaust)
  have none: "fold turn [] ((g, l, t), outs) = ((g, l, t), outs)" by simp
  show ?thesis using r authorized_registered [OF ok r none] by blast
qed

theorem nothing_left_witness:
  "c_closed (finish demo_env demo_conn) \<and> 5 \<notin> set (w_alive (finish demo_env demo_conn))"
proof -
  have "auth_ok demo_conn" by (simp add: auth_ok_def)
  moreover have "w_server demo_conn = Some srv \<Longrightarrow> server_inv srv" for srv
    using server_run_inv [of 1 "[AddService (service_new ''audio'' True)]"] by (auto simp: demo_defs)
  ultimately show ?thesis
    using nothing_left [of demo_conn "finish demo_env demo_conn" demo_env] by simp
qed

end
