(* ===== verification/Config_Store.thy ===== *)
theory Config_Store
  imports Password_Security Rust_Text
begin

text \<open>
  The configuration of the program (\<open>libs/hbb_common/src/config.rs\<close>): the layered options
  (\<open>get_or\<close>, \<open>is_option_can_save\<close>), \<open>Config\<close> and \<open>Config2\<close> with their accessors, what is
  written to their files and read back, and the choice of the rendezvous server. A file holds
  the record that was serialised; reading the operating system's files, the MAC address and the
  random numbers are arguments.
\<close>

section \<open>Layers of options\<close>

type_synonym settings = "(string, string) hmap"

definition get_or :: "settings \<Rightarrow> settings \<Rightarrow> settings \<Rightarrow> string \<Rightarrow> string option" where
  "get_or a b c k =
     (case hm_get a k of Some v \<Rightarrow> Some v
      | None \<Rightarrow> (case hm_get b k of Some v \<Rightarrow> Some v | None \<Rightarrow> hm_get c k))"

definition is_option_can_save :: "settings \<Rightarrow> settings \<Rightarrow> string \<Rightarrow> string \<Rightarrow> bool" where
  "is_option_can_save overwrite defaults k v =
     (if hm_get overwrite k \<noteq> None then False
      else if hm_get defaults k = Some v then False
      else True)"

text \<open>An accessor with an overwrite layer above the stored options and a default layer below.\<close>

record layers =
  ly_overwrite :: settings
  ly_default :: settings

definition layered_get :: "layers \<Rightarrow> settings \<Rightarrow> string \<Rightarrow> string" where
  "layered_get l opts k =
     (case get_or (ly_overwrite l) opts (ly_default l) k of Some v \<Rightarrow> v | None \<Rightarrow> [])"

definition layered_set :: "layers \<Rightarrow> string \<Rightarrow> string \<Rightarrow> settings \<Rightarrow> settings" where
  "layered_set l k v opts =
     (if \<not> is_option_can_save (ly_overwrite l) (ly_default l) k v then opts
      else
        (let v2 = (if v = [] then None else Some v) in
         if v2 \<noteq> hm_get opts k then (if v2 = None then hm_remove k opts else hm_insert k v opts)
         else opts))"

section \<open>Config and Config2\<close>

record socks5_server =
  sk_proxy :: string
  sk_username :: string
  sk_password :: string

record config2 =
  c2_rendezvous_server :: string
  c2_nat_type :: i32
  c2_serial :: i32
  c2_socks :: "socks5_server option"
  c2_options :: settings

record config =
  cf_id :: string
  cf_enc_id :: string
  cf_password :: string
  cf_salt :: string
  cf_key_pair :: "bytes \<times> bytes"
  cf_key_confirmed :: bool
  cf_keys_confirmed :: "(string, bool) hmap"

definition config_default :: config where
  "config_default =
     \<lparr>cf_id = [], cf_enc_id = [], cf_password = [], cf_salt = [], cf_key_pair = ([], []),
      cf_key_confirmed = False, cf_keys_confirmed = []\<rparr>"

definition config2_default :: config2 where
  "config2_default =
     \<lparr>c2_rendezvous_server = [], c2_nat_type = 0, c2_serial = 0, c2_socks = None, c2_options = []\<rparr>"

text \<open>What the encryption of strings works with: the library, \<open>from_utf8_lossy\<close>, the machine.\<close>

record keyring =
  kr_sodium :: sodium
  kr_lossy :: "bytes \<Rightarrow> bytes"
  kr_uuid :: bytes

definition ENCRYPT_MAX_LEN :: nat where "ENCRYPT_MAX_LEN = 128"

definition enc_str :: "keyring \<Rightarrow> string \<Rightarrow> string" where
  "enc_str k s =
     string_of (encrypt_str_or_original (kr_sodium k) (kr_lossy k) (kr_uuid k) (bytes_of s)
       version_00 ENCRYPT_MAX_LEN)"

definition dec_str :: "keyring \<Rightarrow> string \<Rightarrow> string \<times> bool \<times> bool" where
  "dec_str k s =
     (let (v, decrypted, store) =
            decrypt_str_or_original (kr_sodium k) (kr_lossy k) (kr_uuid k) (bytes_of s) version_00
      in (string_of v, decrypted, store))"

text \<open>\<open>Config2::store\<close> and \<open>Config2::load\<close>: the record in the file, and what a load makes of it.\<close>

definition config2_store :: "keyring \<Rightarrow> config2 \<Rightarrow> config2" where
  "config2_store kr c =
     c\<lparr>c2_socks := map_option (\<lambda>s. s\<lparr>sk_password := enc_str kr (sk_password s)\<rparr>) (c2_socks c)\<rparr>"

definition config2_load :: "keyring \<Rightarrow> config2 option \<Rightarrow> config2 \<times> config2 option" where
  "config2_load kr file =
     (let c = (case file of Some c \<Rightarrow> c | None \<Rightarrow> config2_default) in
      case c2_socks c of
        None \<Rightarrow> (c, file)
      | Some socks \<Rightarrow>
          (let (password, _, store) = dec_str kr (sk_password socks);
               c = c\<lparr>c2_socks := Some (socks\<lparr>sk_password := password\<rparr>)\<rparr>
           in (c, if store then Some (config2_store kr c) else file)))"

definition config_store :: "keyring \<Rightarrow> config \<Rightarrow> config" where
  "config_store kr c =
     c\<lparr>cf_password := enc_str kr (cf_password c), cf_enc_id := enc_str kr (cf_id c), cf_id := []\<rparr>"

text \<open>\<open>get_auto_id\<close>: the last four bytes of the MAC address, as a number below \<open>2^29\<close>.\<close>

definition get_auto_id :: "bytes option \<Rightarrow> string option" where
  "get_auto_id mac =
     map_option (\<lambda>m. show_nat (unat
       (foldl (\<lambda>i x. push_bit 8 i OR ucast x) (0 :: u32) (drop 2 m) AND 0x1FFFFFFF))) mac"

definition config_load :: "keyring \<Rightarrow> bytes option \<Rightarrow> config option \<Rightarrow> config \<times> config option" where
  "config_load kr mac file =
     (let c = (case file of Some c \<Rightarrow> c | None \<Rightarrow> config_default);
          (password, _, store1) = dec_str kr (cf_password c);
          c = c\<lparr>cf_password := password\<rparr>;
          (i, encrypted, store2) = dec_str kr (cf_enc_id c);
          (c, id_valid, store) =
            (if encrypted then (c\<lparr>cf_id := i\<rparr>, True, store1 \<or> store2)
             else if cf_id c \<noteq> [] \<and> cf_enc_id c = [] \<and> \<not> fst (snd (dec_str kr (cf_id c)))
             then (c, True, True)
             else (c, False, store1));
          (c, store) =
            (if id_valid then (c, store)
             else (case get_auto_id mac of
                     Some i \<Rightarrow> (c\<lparr>cf_id := i\<rparr>, True) | None \<Rightarrow> (c, store)))
      in (c, if store then Some (config_store kr c) else file))"

section \<open>The state of the process\<close>

text \<open>The statics, and the two files: every setter writes through if it changes something.\<close>

record config_state =
  cs_config :: config
  cs_config_file :: "config option"
  cs_config2 :: config2
  cs_config2_file :: "config2 option"
  cs_online :: "(string, i64) hmap"
  cs_layers :: layers
  cs_hard :: settings
  cs_exe_server :: string
  cs_prod_server :: string
  cs_keyring :: keyring

definition put_config :: "config \<Rightarrow> config_state \<Rightarrow> config_state" where
  "put_config c s =
     s\<lparr>cs_config := c, cs_config_file := Some (config_store (cs_keyring s) c)\<rparr>"

definition put_config2 :: "config2 \<Rightarrow> config_state \<Rightarrow> config_state" where
  "put_config2 c s =
     s\<lparr>cs_config2 := c, cs_config2_file := Some (config2_store (cs_keyring s) c)\<rparr>"

definition config_get_option :: "config_state \<Rightarrow> string \<Rightarrow> string" where
  "config_get_option s k = layered_get (cs_layers s) (c2_options (cs_config2 s)) k"

definition config_set_option :: "string \<Rightarrow> string \<Rightarrow> config_state \<Rightarrow> config_state" where
  "config_set_option k v s =
     (let l = cs_layers s; c = cs_config2 s in
      if \<not> is_option_can_save (ly_overwrite l) (ly_default l) k v then s
      else
        (let v2 = (if v = [] then None else Some v) in
         if v2 \<noteq> hm_get (c2_options c) k then
           put_config2 (c\<lparr>c2_options := if v2 = None then hm_remove k (c2_options c)
                                        else hm_insert k v (c2_options c)\<rparr>) s
         else s))"

definition hm_extend :: "('k, 'v) hmap \<Rightarrow> ('k, 'v) hmap \<Rightarrow> ('k, 'v) hmap" where
  "hm_extend m new = fold (\<lambda>(k, v). hm_insert k v) new m"

definition config_get_options :: "config_state \<Rightarrow> settings" where
  "config_get_options s =
     hm_extend (hm_extend (ly_default (cs_layers s)) (c2_options (cs_config2 s)))
       (ly_overwrite (cs_layers s))"

definition purify_options :: "layers \<Rightarrow> settings \<Rightarrow> settings" where
  "purify_options l v = hm_retain (\<lambda>k v. is_option_can_save (ly_overwrite l) (ly_default l) k v) v"

text \<open>Two hash maps are equal if they hold the same; so is the comparison of \<open>set_options\<close>.\<close>

definition same_map :: "('k, 'v) hmap \<Rightarrow> ('k, 'v) hmap \<Rightarrow> bool" where
  "same_map a b \<longleftrightarrow> list_all (\<lambda>k. hm_get a k = hm_get b k) (map fst a @ map fst b)"

definition config_set_options :: "settings \<Rightarrow> config_state \<Rightarrow> config_state" where
  "config_set_options v s =
     (let v = purify_options (cs_layers s) v; c = cs_config2 s in
      if same_map (c2_options c) v then s else put_config2 (c\<lparr>c2_options := v\<rparr>) s)"

definition set_id :: "string \<Rightarrow> config_state \<Rightarrow> config_state" where
  "set_id i s = (if i = cf_id (cs_config s) then s else put_config ((cs_config s)\<lparr>cf_id := i\<rparr>) s)"

definition get_id :: "bytes option \<Rightarrow> config_state \<Rightarrow> string \<times> config_state" where
  "get_id mac s =
     (let i = cf_id (cs_config s) in
      if i = [] then (case get_auto_id mac of Some tmp \<Rightarrow> (tmp, set_id tmp s) | None \<Rightarrow> (i, s))
      else (i, s))"

definition get_id_or :: "string \<Rightarrow> config_state \<Rightarrow> string" where
  "get_id_or b s = (let a = cf_id (cs_config s) in if a = [] then b else a)"

definition update_id :: "nat \<Rightarrow> bytes option \<Rightarrow> config_state \<Rightarrow> config_state" where
  "update_id rnd mac s = set_id (show_nat (1000000000 + rnd mod 1000000000)) (snd (get_id mac s))"

definition set_nat_type :: "i32 \<Rightarrow> config_state \<Rightarrow> config_state" where
  "set_nat_type n s =
     (if n = c2_nat_type (cs_config2 s) then s else put_config2 ((cs_config2 s)\<lparr>c2_nat_type := n\<rparr>) s)"

definition SERIAL :: i32 where "SERIAL = 3"

definition set_serial :: "i32 \<Rightarrow> config_state \<Rightarrow> config_state" where
  "set_serial n s =
     (if n = c2_serial (cs_config2 s) then s else put_config2 ((cs_config2 s)\<lparr>c2_serial := n\<rparr>) s)"

definition get_serial :: "config_state \<Rightarrow> i32" where
  "get_serial s = (if sint (c2_serial (cs_config2 s)) \<le> sint SERIAL then SERIAL else c2_serial (cs_config2 s))"

definition set_key_confirmed :: "bool \<Rightarrow> config_state \<Rightarrow> config_state" where
  "set_key_confirmed v s =
     (let c = cs_config s in
      if cf_key_confirmed c = v then s
      else
        (let c = c\<lparr>cf_key_confirmed := v\<rparr>;
             c = (if \<not> v then c\<lparr>cf_keys_confirmed := []\<rparr> else c)
         in put_config c s))"

definition get_host_key_confirmed :: "string \<Rightarrow> config_state \<Rightarrow> bool" where
  "get_host_key_confirmed host s = (hm_get (cf_keys_confirmed (cs_config s)) host = Some True)"

definition set_host_key_confirmed :: "string \<Rightarrow> bool \<Rightarrow> config_state \<Rightarrow> config_state" where
  "set_host_key_confirmed host v s =
     (if get_host_key_confirmed host s = v then s
      else put_config ((cs_config s)\<lparr>cf_keys_confirmed := hm_insert host v (cf_keys_confirmed (cs_config s))\<rparr>) s)"

definition set_permanent_password :: "string \<Rightarrow> config_state \<Rightarrow> config_state" where
  "set_permanent_password password s =
     (if hm_get (cs_hard s) ''password'' = Some password then s
      else if password = cf_password (cs_config s) then s
      else put_config ((cs_config s)\<lparr>cf_password := password\<rparr>) s)"

definition get_permanent_password :: "config_state \<Rightarrow> string" where
  "get_permanent_password s =
     (let password = cf_password (cs_config s) in
      if password = [] then (case hm_get (cs_hard s) ''password'' of Some v \<Rightarrow> v | None \<Rightarrow> [])
      else password)"

definition set_salt :: "string \<Rightarrow> config_state \<Rightarrow> config_state" where
  "set_salt salt s =
     (if salt = cf_salt (cs_config s) then s else put_config ((cs_config s)\<lparr>cf_salt := salt\<rparr>) s)"

definition get_salt :: "(nat \<Rightarrow> nat) \<Rightarrow> config_state \<Rightarrow> string \<times> config_state" where
  "get_salt rnd s =
     (let salt = cf_salt (cs_config s) in
      if salt = [] then (let salt = get_auto_password rnd 6 in (salt, set_salt salt s)) else (salt, s))"

definition set_socks :: "socks5_server option \<Rightarrow> config_state \<Rightarrow> config_state" where
  "set_socks socks s =
     (if c2_socks (cs_config2 s) = socks then s else put_config2 ((cs_config2 s)\<lparr>c2_socks := socks\<rparr>) s)"

datatype network_type = Direct | ProxySocks

definition get_network_type :: "config_state \<Rightarrow> network_type" where
  "get_network_type s = (case c2_socks (cs_config2 s) of None \<Rightarrow> Direct | Some _ \<Rightarrow> ProxySocks)"

definition is_proxy :: "config_state \<Rightarrow> bool" where
  "is_proxy s = (get_network_type s \<noteq> Direct)"

text \<open>\<open>Config::set\<close>, \<open>Config2::set\<close>: a whole configuration, e.g. of another process.\<close>

definition config_set :: "config \<Rightarrow> config_state \<Rightarrow> bool \<times> config_state" where
  "config_set c s = (if cs_config s = c then (False, s) else (True, put_config c s))"

definition config2_set :: "config2 \<Rightarrow> config_state \<Rightarrow> bool \<times> config_state" where
  "config2_set c s = (if cs_config2 s = c then (False, s) else (True, put_config2 c s))"

section \<open>Rendezvous servers\<close>

definition RENDEZVOUS_PORT :: nat where "RENDEZVOUS_PORT = 21116"

definition RENDEZVOUS_SERVERS :: "string list" where
  "RENDEZVOUS_SERVERS = [''rs-ny.rustdesk.com'']"

definition get_rendezvous_servers :: "config_state \<Rightarrow> string list" where
  "get_rendezvous_servers s =
     (if cs_exe_server s \<noteq> [] then [cs_exe_server s]
      else if config_get_option s ''custom-rendezvous-server'' \<noteq> []
      then [config_get_option s ''custom-rendezvous-server'']
      else if cs_prod_server s \<noteq> [] then [cs_prod_server s]
      else
        (let serial_obsolute = sint SERIAL < sint (c2_serial (cs_config2 s));
             ss = filter (\<lambda>x. CHR ''.'' \<in> set x) (split_on CHR '','' (config_get_option s ''rendezvous-servers''))
         in if serial_obsolute \<and> ss \<noteq> [] then ss else RENDEZVOUS_SERVERS))"

definition get_rendezvous_server :: "config_state \<Rightarrow> string" where
  "get_rendezvous_server s =
     (let r = cs_exe_server s;
          r = (if r = [] then config_get_option s ''custom-rendezvous-server'' else r);
          r = (if r = [] then cs_prod_server s else r);
          r = (if r = [] then c2_rendezvous_server (cs_config2 s) else r);
          r = (if r = [] then (case get_rendezvous_servers s of x # _ \<Rightarrow> x | [] \<Rightarrow> []) else r)
      in if CHR '':'' \<notin> set r then r @ '':'' @ show_nat RENDEZVOUS_PORT else r)"

definition reset_online :: "config_state \<Rightarrow> config_state" where
  "reset_online s = s\<lparr>cs_online := []\<rparr>"

definition get_online_state :: "config_state \<Rightarrow> int" where
  "get_online_state s = (let vs = map (\<lambda>(_, v). sint v) (cs_online s) in if vs = [] then 0 else Max (set vs))"

text \<open>The host with the least positive latency becomes the server.\<close>

definition fastest :: "(string, i64) hmap \<Rightarrow> string \<times> int" where
  "fastest online =
     foldl (\<lambda>(host, delay) (h, d). if 0 < sint d \<and> sint d < delay then (h, sint d) else (host, delay))
       ([], 2 ^ 63 - 1) online"

definition update_latency :: "string \<Rightarrow> i64 \<Rightarrow> config_state \<Rightarrow> config_state" where
  "update_latency host latency s =
     (let s = s\<lparr>cs_online := hm_insert host latency (cs_online s)\<rparr>;
          (host, _) = fastest (cs_online s)
      in if host \<noteq> [] \<and> host \<noteq> c2_rendezvous_server (cs_config2 s)
         then put_config2 ((cs_config2 s)\<lparr>c2_rendezvous_server := host\<rparr>) s else s)"

section \<open>Options\<close>

lemma hm_get_extend: "hm_get (hm_extend m new) k = (case map_of (rev new) k of Some v \<Rightarrow> Some v | None \<Rightarrow> hm_get m k)"
  unfolding hm_extend_def
proof (induction new arbitrary: m)
  case (Cons x new)
  then show ?case by (cases x) (auto simp: map_add_def split: option.splits)
qed simp

lemma map_of_rev: "hm_ok m \<Longrightarrow> map_of (rev m) k = map_of m k"
  using map_of_inject_set [of "rev m" m] by (simp add: hm_ok_def rev_map [symmetric])

lemma option_after_set:
  "layered_get l (layered_set l k v opts) k' =
     (if k' = k \<and> is_option_can_save (ly_overwrite l) (ly_default l) k v
      then (if v = [] then layered_get l (hm_remove k opts) k else v)
      else layered_get l opts k')"
  by (auto simp: layered_get_def layered_set_def get_or_def is_option_can_save_def Let_def
      split: option.splits if_splits)

lemma config_set_option_layered:
  "c2_options (cs_config2 (config_set_option k v s)) = layered_set (cs_layers s) k v (c2_options (cs_config2 s))"
  "cs_layers (config_set_option k v s) = cs_layers s"
  by (simp_all add: config_set_option_def layered_set_def put_config2_def Let_def)

text \<open>Asking for all options at once and asking for one of them agree, for every key and
  whatever the three layers hold.\<close>

theorem get_options_agrees:
  assumes "hm_ok (c2_options (cs_config2 s))" and "hm_ok (ly_overwrite (cs_layers s))"
  shows "(case hm_get (config_get_options s) k of Some v \<Rightarrow> v | None \<Rightarrow> []) = config_get_option s k"
  using assms
  by (simp add: config_get_options_def config_get_option_def layered_get_def get_or_def hm_get_extend
      map_of_rev split: option.split)

text \<open>What an option is after \<open>set_option\<close>: the value that was set, or the default if it was
  the empty one, unless the layers forbid to save it, and no other option changes.\<close>

theorem set_option_effect:
  "config_get_option (config_set_option k v s) k' =
     (if k' = k \<and> is_option_can_save (ly_overwrite (cs_layers s)) (ly_default (cs_layers s)) k v
      then (if v = [] then (case hm_get (ly_default (cs_layers s)) k of Some d \<Rightarrow> d | None \<Rightarrow> []) else v)
      else config_get_option s k')"
  unfolding config_get_option_def config_set_option_layered option_after_set
  by (auto simp: layered_get_def get_or_def is_option_can_save_def split: option.split)

text \<open>An option that was changed cannot be set to its default again: the request is dropped and
  the old value stays.\<close>

lemma set_default_ignored:
  assumes "hm_get (ly_default (cs_layers s)) k = Some d"
  shows "config_set_option k d s = s"
  using assms by (simp add: config_set_option_def is_option_can_save_def Let_def)

section \<open>Restart\<close>

text \<open>A string that its encryption keeps: short enough, UTF-8, not itself encrypted.\<close>

definition enc_ok :: "keyring \<Rightarrow> string \<Rightarrow> bool" where
  "enc_ok kr s \<longleftrightarrow> length s \<le> ENCRYPT_MAX_LEN \<and> kr_lossy kr (bytes_of s) = bytes_of s \<and>
     \<not> fst (snd (dec_str kr s))"

definition keyring_ok :: "keyring \<Rightarrow> bool" where
  "keyring_ok kr \<longleftrightarrow> secretbox_ok (kr_sodium kr) \<and> base64_ok (kr_sodium kr)"

lemma dec_enc_str:
  assumes "keyring_ok kr" and "enc_ok kr s"
  shows "dec_str kr (enc_str kr s) = (s, s \<noteq> [], False)"
proof -
  have "\<not> fst (snd (decrypt_str_or_original (kr_sodium kr) (kr_lossy kr) (kr_uuid kr) (bytes_of s) version_00))"
    using assms(2) by (simp add: enc_ok_def dec_str_def split_def Let_def)
  then have "decrypt_str_or_original (kr_sodium kr) (kr_lossy kr) (kr_uuid kr)
      (encrypt_str_or_original (kr_sodium kr) (kr_lossy kr) (kr_uuid kr) (bytes_of s) version_00 ENCRYPT_MAX_LEN)
      version_00 = (bytes_of s, s \<noteq> [], False)"
    using decrypt_encrypt_str [of "kr_sodium kr" "kr_lossy kr" "bytes_of s" ENCRYPT_MAX_LEN "kr_uuid kr" version_00]
      assms by (simp add: enc_ok_def keyring_ok_def)
  then show ?thesis by (simp add: dec_str_def enc_str_def)
qed

lemma dec_str_Nil [simp]: "dec_str kr [] = ([], False, False)"
  by (simp add: dec_str_def bytes_of_def string_of_def)

text \<open>The stored form of the id is not part of the configuration.\<close>

definition same_config :: "config \<Rightarrow> config \<Rightarrow> bool" where
  "same_config c d \<longleftrightarrow> c\<lparr>cf_enc_id := []\<rparr> = d\<lparr>cf_enc_id := []\<rparr>"

definition storable :: "keyring \<Rightarrow> config \<Rightarrow> bool" where
  "storable kr c \<longleftrightarrow> cf_id c \<noteq> [] \<and> enc_ok kr (cf_id c) \<and> enc_ok kr (cf_password c)"

definition storable2 :: "keyring \<Rightarrow> config2 \<Rightarrow> bool" where
  "storable2 kr c \<longleftrightarrow> (\<forall>s. c2_socks c = Some s \<longrightarrow> enc_ok kr (sk_password s))"

lemma load_store_config:
  assumes "keyring_ok kr" and "storable kr c"
  shows "same_config (fst (config_load kr mac (Some (config_store kr c)))) c"
proof -
  have pw: "dec_str kr (enc_str kr (cf_password c)) = (cf_password c, cf_password c \<noteq> [], False)"
    and i: "dec_str kr (enc_str kr (cf_id c)) = (cf_id c, True, False)"
    using dec_enc_str [OF assms(1)] assms(2) by (auto simp: storable_def)
  show ?thesis by (simp add: config_load_def config_store_def Let_def pw i same_config_def)
qed

lemma load_store_config2:
  assumes "keyring_ok kr" and "storable2 kr c"
  shows "fst (config2_load kr (Some (config2_store kr c))) = c"
  using dec_enc_str [OF assms(1)] assms(2)
  by (cases "c2_socks c") (auto simp: config2_load_def config2_store_def storable2_def Let_def)

datatype config_event =
    EvSetOption string string
  | EvSetOptions settings
  | EvSetId string
  | EvUpdateId nat
  | EvSetNatType i32
  | EvSetSerial i32
  | EvSetKeyConfirmed bool
  | EvSetHostKey string bool
  | EvSetPassword string
  | EvSetSalt string
  | EvSetSocks "socks5_server option"
  | EvLatency string i64
  | EvSetConfig config
  | EvSetConfig2 config2

definition config_step :: "bytes option \<Rightarrow> config_state \<Rightarrow> config_event \<Rightarrow> config_state" where
  "config_step mac s ev =
     (case ev of
        EvSetOption k v \<Rightarrow> config_set_option k v s
      | EvSetOptions m \<Rightarrow> config_set_options m s
      | EvSetId i \<Rightarrow> set_id i s
      | EvUpdateId rnd \<Rightarrow> update_id rnd mac s
      | EvSetNatType n \<Rightarrow> set_nat_type n s
      | EvSetSerial n \<Rightarrow> set_serial n s
      | EvSetKeyConfirmed b \<Rightarrow> set_key_confirmed b s
      | EvSetHostKey h b \<Rightarrow> set_host_key_confirmed h b s
      | EvSetPassword p \<Rightarrow> set_permanent_password p s
      | EvSetSalt salt \<Rightarrow> set_salt salt s
      | EvSetSocks so \<Rightarrow> set_socks so s
      | EvLatency h l \<Rightarrow> update_latency h l s
      | EvSetConfig c \<Rightarrow> snd (config_set c s)
      | EvSetConfig2 c \<Rightarrow> snd (config2_set c s))"

fun event_ok :: "keyring \<Rightarrow> config_event \<Rightarrow> bool" where
  "event_ok kr (EvSetId i) = (i \<noteq> [] \<and> enc_ok kr i)"
| "event_ok kr (EvUpdateId rnd) = enc_ok kr (show_nat (1000000000 + rnd mod 1000000000))"
| "event_ok kr (EvSetPassword p) = enc_ok kr p"
| "event_ok kr (EvSetSocks (Some so)) = enc_ok kr (sk_password so)"
| "event_ok kr (EvSetConfig c) = storable kr c"
| "event_ok kr (EvSetConfig2 c) = storable2 kr c"
| "event_ok kr _ = True"

text \<open>The files hold what the process has: after a restart it would have the same.\<close>

definition persistent :: "bytes option \<Rightarrow> config_state \<Rightarrow> bool" where
  "persistent mac s \<longleftrightarrow>
     same_config (fst (config_load (cs_keyring s) mac (cs_config_file s))) (cs_config s) \<and>
     fst (config2_load (cs_keyring s) (cs_config2_file s)) = cs_config2 s \<and>
     storable (cs_keyring s) (cs_config s) \<and> storable2 (cs_keyring s) (cs_config2 s) \<and>
     keyring_ok (cs_keyring s)"

lemma persistent_put:
  assumes "persistent mac s"
  shows "storable (cs_keyring s) c \<Longrightarrow> persistent mac (put_config c s)"
    and "storable2 (cs_keyring s) c2 \<Longrightarrow> persistent mac (put_config2 c2 s)"
  using assms load_store_config load_store_config2
  by (simp_all add: persistent_def put_config_def put_config2_def)

lemma persistent_id:
  assumes "persistent mac s" and "i \<noteq> []" and "enc_ok (cs_keyring s) i"
  shows "persistent mac (set_id i s)"
  using assms persistent_put(1) [OF assms(1), of "(cs_config s)\<lparr>cf_id := i\<rparr>"]
  by (simp add: set_id_def storable_def persistent_def)

lemma persistent_step:
  assumes "persistent mac s" and "event_ok (cs_keyring s) ev"
  shows "persistent mac (config_step mac s ev)"
proof -
  have st: "storable (cs_keyring s) (cs_config s)" "storable2 (cs_keyring s) (cs_config2 s)"
    using assms(1) by (simp_all add: persistent_def)
  note put = persistent_put [OF assms(1)]
  have upd: "storable (cs_keyring s) c"
    if "cf_id c = cf_id (cs_config s)" "cf_password c = cf_password (cs_config s)" for c
    using st(1) that by (simp add: storable_def)
  have upd2: "storable2 (cs_keyring s) c" if "c2_socks c = c2_socks (cs_config2 s)" for c
    using st(2) that by (simp add: storable2_def)
  show ?thesis
  proof (cases ev)
    case (EvUpdateId rnd)
    have "snd (get_id mac s) = s" using st(1) by (simp add: get_id_def storable_def Let_def)
    then show ?thesis using EvUpdateId assms persistent_id by (simp add: config_step_def update_id_def)
  next
    case (EvSetSocks so)
    then show ?thesis
      using assms put(2) [of "(cs_config2 s)\<lparr>c2_socks := so\<rparr>"]
      by (cases so) (simp_all add: config_step_def set_socks_def storable2_def)
  next
    case (EvLatency h l)
    have "persistent mac (s\<lparr>cs_online := onl\<rparr>)" for onl using assms(1) by (simp add: persistent_def)
    then show ?thesis
      using EvLatency persistent_put(2) upd2
      by (simp add: config_step_def update_latency_def Let_def split_def)
  next
    case (EvSetPassword p)
    then show ?thesis
      using assms put(1) st(1) by (simp add: config_step_def set_permanent_password_def storable_def)
  qed (use assms in \<open>auto simp: config_step_def config_set_option_def config_set_options_def set_nat_type_def
      set_serial_def set_key_confirmed_def set_host_key_confirmed_def set_salt_def config_set_def
      config2_set_def Let_def intro!: persistent_id put upd upd2\<close>)
qed

lemma config_step_keyring: "cs_keyring (config_step mac s ev) = cs_keyring s"
  by (cases ev)
    (simp_all add: config_step_def config_set_option_def config_set_options_def set_nat_type_def set_id_def
      update_id_def get_id_def set_socks_def update_latency_def set_permanent_password_def
      set_serial_def set_key_confirmed_def set_host_key_confirmed_def set_salt_def config_set_def
      config2_set_def put_config_def put_config2_def Let_def split_def split: option.split)


text \<open>A longer password works until the next start and is gone then.\<close>

lemma long_password_lost:
  assumes "ENCRYPT_MAX_LEN < length (cf_password c)" and "\<not> fst (snd (dec_str kr (cf_password c)))"
  shows "cf_password (fst (config_load kr mac (Some (config_store kr c)))) = []"
proof -
  have "\<not> fst (snd (decrypt_str_or_original (kr_sodium kr) (kr_lossy kr) (kr_uuid kr) (bytes_of (cf_password c)) version_00))"
    using assms(2) by (simp add: dec_str_def split_def Let_def)
  then have "enc_str kr (cf_password c) = []"
    using assms(1) by (simp add: enc_str_def encrypt_str_or_original_def string_of_def)
  then show ?thesis
    by (simp add: config_load_def config_store_def Let_def split_def split: option.split)
qed

section \<open>A concrete configuration\<close>

definition demo_keyring :: keyring where
  "demo_keyring = \<lparr>kr_sodium = demo_sodium, kr_lossy = (\<lambda>b. b), kr_uuid = [1, 2, 3]\<rparr>"

definition demo_config_state :: config_state where
  "demo_config_state =
     (let c = config_default\<lparr>cf_id := ''123456789''\<rparr> in
      \<lparr>cs_config = c, cs_config_file = Some (config_store demo_keyring c), cs_config2 = config2_default,
       cs_config2_file = None, cs_online = [],
       cs_layers = \<lparr>ly_overwrite = [(''theme'', ''dark'')], ly_default = [(''enable-audio'', ''N'')]\<rparr>,
       cs_hard = [], cs_exe_server = [], cs_prod_server = [], cs_keyring = demo_keyring\<rparr>)"

lemma demo_enc_ok: "enc_ok demo_keyring ''123456789''" "enc_ok demo_keyring []" "enc_ok demo_keyring ''secret''"
  by (simp_all add: enc_ok_def dec_str_def demo_keyring_def bytes_of_def decrypt_str_or_original_def
      VERSION_LEN_def version_00_def ENCRYPT_MAX_LEN_def)

lemma demo_persistent: "persistent None demo_config_state"
proof -
  have ok: "keyring_ok demo_keyring" by (simp add: keyring_ok_def demo_keyring_def)
  have "storable demo_keyring (config_default\<lparr>cf_id := ''123456789''\<rparr>)"
    using demo_enc_ok by (simp add: storable_def config_default_def)
  then show ?thesis
    using load_store_config [OF ok] ok
    by (simp add: persistent_def demo_config_state_def Let_def storable2_def config2_default_def config2_load_def)
qed

theorem get_options_agrees_witness:
  "(case hm_get (config_get_options demo_config_state) ''theme'' of Some v \<Rightarrow> v | None \<Rightarrow> []) =
     config_get_option demo_config_state ''theme''"
  by (rule get_options_agrees) (simp_all add: demo_config_state_def config2_default_def Let_def hm_ok_def)


end
