(* ===== verification/Peer_Config.thy ===== *)
theory Peer_Config
  imports Complex_Main Config_Store
begin

text \<open>
  What the controlling side remembers of a peer (\<open>PeerConfig\<close>, \<open>UserDefaultConfig\<close> in
  \<open>libs/hbb_common/src/config.rs\<close>): the defaults, the file of a peer, what is encrypted in it, and
  what a load repairs. The files of the peers are a map from paths.
\<close>

section \<open>User defaults\<close>

text \<open>\<open>parse\<close> and \<open>to_string\<close> of \<open>f64\<close>: a finite value, or none (an error, not a number, infinite).\<close>

record f64_text =
  f64_parse :: "string \<Rightarrow> rat option"
  f64_show :: "rat \<Rightarrow> string"

record user_default =
  ud_options :: settings
  ud_layers :: layers
  ud_f64 :: f64_text

definition ud_get_after :: "user_default \<Rightarrow> string \<Rightarrow> string option" where
  "ud_get_after u k = get_or (ly_overwrite (ud_layers u)) (ud_options u) (ly_default (ud_layers u)) k"

definition ud_get_string :: "user_default \<Rightarrow> string \<Rightarrow> string \<Rightarrow> string list \<Rightarrow> string" where
  "ud_get_string u key def others =
     (case ud_get_after u key of
        Some option \<Rightarrow> if option \<in> set others then option else def
      | None \<Rightarrow> def)"

definition ud_get_double_string :: "user_default \<Rightarrow> string \<Rightarrow> rat \<Rightarrow> rat \<Rightarrow> rat \<Rightarrow> string" where
  "ud_get_double_string u key def lo hi =
     (case ud_get_after u key of
        Some option \<Rightarrow>
          (let v = (case f64_parse (ud_f64 u) option of Some v \<Rightarrow> v | None \<Rightarrow> def)
           in if lo \<le> v \<and> v \<le> hi then f64_show (ud_f64 u) v else f64_show (ud_f64 u) def)
      | None \<Rightarrow> f64_show (ud_f64 u) def)"

definition ud_get :: "user_default \<Rightarrow> string \<Rightarrow> string" where
  "ud_get u key =
     (if key = ''view_style'' then ud_get_string u key ''original'' [''adaptive'']
      else if key = ''scroll_style'' then ud_get_string u key ''scrollauto'' [''scrollbar'']
      else if key = ''image_quality'' then ud_get_string u key ''balanced'' [''best'', ''low'', ''custom'']
      else if key = ''codec-preference'' then
        ud_get_string u key ''auto'' [''vp8'', ''vp9'', ''av1'', ''h264'', ''h265'']
      else if key = ''custom_image_quality'' then ud_get_double_string u key 50 10 4095
      else if key = ''custom-fps'' then ud_get_double_string u key 30 5 120
      else if key = ''enable_file_transfer'' then ud_get_string u key ''Y'' [[]]
      else (case ud_get_after u key of Some v \<Rightarrow> v | None \<Rightarrow> []))"

definition ud_set :: "string \<Rightarrow> string \<Rightarrow> user_default \<Rightarrow> user_default" where
  "ud_set key v u =
     (if \<not> is_option_can_save (ly_overwrite (ud_layers u)) (ly_default (ud_layers u)) key v then u
      else u\<lparr>ud_options := if v = [] then hm_remove key (ud_options u) else hm_insert key v (ud_options u)\<rparr>)"

section \<open>The configuration of a peer\<close>

record peer_info_serde =
  pis_username :: string
  pis_hostname :: string
  pis_platform :: string

record transfer_serde =
  ts_write_jobs :: "string list"
  ts_read_jobs :: "string list"

type_synonym window_size = "i32 \<times> i32 \<times> i32 \<times> i32"

record peer_config =
  pc_password :: bytes
  pc_size :: window_size
  pc_size_ft :: window_size
  pc_size_pf :: window_size
  pc_view_style :: string
  pc_scroll_style :: string
  pc_image_quality :: string
  pc_custom_image_quality :: "i32 list"
  pc_show_remote_cursor :: bool
  pc_lock_after_session_end :: bool
  pc_privacy_mode :: bool
  pc_allow_swap_key :: bool
  pc_port_forwards :: "(i32 \<times> string \<times> i32) list"
  pc_direct_failures :: i32
  pc_disable_audio :: bool
  pc_disable_clipboard :: bool
  pc_enable_file_transfer :: bool
  pc_show_quality_monitor :: bool
  pc_follow_remote_cursor :: bool
  pc_follow_remote_window :: bool
  pc_keyboard_mode :: string
  pc_view_only :: bool
  pc_reverse_mouse_wheel :: string
  pc_displays_as_individual_windows :: string
  pc_use_all_my_displays :: string
  pc_custom_resolutions :: "(string, i32 \<times> i32) hmap"
  pc_options :: settings
  pc_ui_flutter :: settings
  pc_info :: peer_info_serde
  pc_transfer :: transfer_serde

definition default_bool :: "user_default \<Rightarrow> string \<Rightarrow> bool" where
  "default_bool u name = (ud_get u name = ''Y'')"

text \<open>\<open>f as i32\<close>: towards zero, and to the nearest end of the range outside of it.\<close>

definition f64_as_i32 :: "rat \<Rightarrow> i32" where
  "f64_as_i32 f =
     (let n = (if f < 0 then - \<lfloor>- f\<rfloor> else \<lfloor>f\<rfloor>)
      in word_of_int (max (- (2 ^ 31)) (min (2 ^ 31 - 1) n)))"

definition default_custom_image_quality :: "user_default \<Rightarrow> i32 list" where
  "default_custom_image_quality u =
     [f64_as_i32 (case f64_parse (ud_f64 u) (ud_get u ''custom_image_quality'') of Some f \<Rightarrow> f | None \<Rightarrow> 50)]"

definition default_option_keys :: "string list" where
  "default_option_keys =
     [''codec-preference'', ''custom-fps'', ''zoom-cursor'', ''touch-mode'', ''i444'', ''swap-left-right-mouse'']"

definition default_options :: "user_default \<Rightarrow> settings" where
  "default_options u = fold (\<lambda>key. hm_insert key (ud_get u key)) default_option_keys []"

definition peer_config_default :: "user_default \<Rightarrow> peer_config" where
  "peer_config_default u =
     \<lparr>pc_password = [], pc_size = (0, 0, 0, 0), pc_size_ft = (0, 0, 0, 0), pc_size_pf = (0, 0, 0, 0),
      pc_view_style = ud_get u ''view_style'', pc_scroll_style = ud_get u ''scroll_style'',
      pc_image_quality = ud_get u ''image_quality'',
      pc_custom_image_quality = default_custom_image_quality u,
      pc_show_remote_cursor = default_bool u ''show_remote_cursor'',
      pc_lock_after_session_end = default_bool u ''lock_after_session_end'',
      pc_privacy_mode = default_bool u ''privacy_mode'', pc_allow_swap_key = default_bool u ''allow_swap_key'',
      pc_port_forwards = [], pc_direct_failures = 0, pc_disable_audio = default_bool u ''disable_audio'',
      pc_disable_clipboard = default_bool u ''disable_clipboard'',
      pc_enable_file_transfer = default_bool u ''enable_file_transfer'',
      pc_show_quality_monitor = default_bool u ''show_quality_monitor'',
      pc_follow_remote_cursor = default_bool u ''follow_remote_cursor'',
      pc_follow_remote_window = default_bool u ''follow_remote_window'', pc_keyboard_mode = [],
      pc_view_only = default_bool u ''view_only'', pc_reverse_mouse_wheel = ud_get u ''reverse_mouse_wheel'',
      pc_displays_as_individual_windows = ud_get u ''displays_as_individual_windows'',
      pc_use_all_my_displays = ud_get u ''use_all_my_displays_for_the_remote_session'',
      pc_custom_resolutions = [], pc_options = default_options u, pc_ui_flutter = [],
      pc_info = \<lparr>pis_username = [], pis_hostname = [], pis_platform = []\<rparr>,
      pc_transfer = \<lparr>ts_write_jobs = [], ts_read_jobs = []\<rparr>\<rparr>"

section \<open>Files\<close>

text \<open>The path of a peer, below \<open>peers\<close> and without its extension.\<close>

definition forbidden_chars :: string where
  "forbidden_chars = ''<>:/|?*'' @ [CHR 0x5C]"  \<comment> \<open>the last one is the backslash\<close>

definition peer_path :: "keyring \<Rightarrow> string \<Rightarrow> string" where
  "peer_path kr i =
     (if list_ex (\<lambda>c. c \<in> set forbidden_chars) i
      then ''base64_'' @ string_of (base64_encode (kr_sodium kr) (bytes_of i)) else i)"

text \<open>The id a file name stands for.\<close>

definition peer_id_of_path :: "keyring \<Rightarrow> string \<Rightarrow> string" where
  "peer_id_of_path kr p =
     (if take 7 p = ''base64_'' \<and> length p \<noteq> 7
      then string_of (kr_lossy kr (case base64_decode (kr_sodium kr) (bytes_of (drop 7 p)) of
                                     Some b \<Rightarrow> b | None \<Rightarrow> []))
      else p)"

record peer_store =
  ps_files :: "string \<Rightarrow> peer_config option"
  ps_new_stored :: "string list"
  ps_keyring :: keyring
  ps_user_default :: user_default

definition secret_options :: "string list" where
  "secret_options = [''rdp_password'', ''os-username'', ''os-password'']"

definition map_option_value :: "(string \<Rightarrow> string) \<Rightarrow> string \<Rightarrow> settings \<Rightarrow> settings" where
  "map_option_value f k m = (case hm_get m k of Some v \<Rightarrow> hm_insert k (f v) m | None \<Rightarrow> m)"

definition enc_vec :: "keyring \<Rightarrow> bytes \<Rightarrow> bytes" where
  "enc_vec kr v = encrypt_vec_or_original (kr_sodium kr) (kr_uuid kr) v version_00 ENCRYPT_MAX_LEN"

definition dec_vec :: "keyring \<Rightarrow> bytes \<Rightarrow> bytes \<times> bool \<times> bool" where
  "dec_vec kr v = decrypt_vec_or_original (kr_sodium kr) (kr_uuid kr) v version_00"

definition encrypt_peer :: "keyring \<Rightarrow> peer_config \<Rightarrow> peer_config" where
  "encrypt_peer kr c =
     c\<lparr>pc_password := enc_vec kr (pc_password c),
       pc_options := fold (map_option_value (enc_str kr)) secret_options (pc_options c)\<rparr>"

definition peer_store_config :: "string \<Rightarrow> peer_config \<Rightarrow> peer_store \<Rightarrow> peer_store" where
  "peer_store_config i c st =
     st\<lparr>ps_files := (ps_files st)(peer_path (ps_keyring st) i := Some (encrypt_peer (ps_keyring st) c)),
        ps_new_stored := List.insert i (ps_new_stored st)\<rparr>"

text \<open>What deserialising repairs: strings that must not be empty, and the image quality.\<close>

definition or_default :: "user_default \<Rightarrow> string \<Rightarrow> string \<Rightarrow> string" where
  "or_default u key s = (if s = [] then ud_get u key else s)"

definition quality_ok :: "i32 list \<Rightarrow> bool" where
  "quality_ok v = (length v = 1 \<and> 10 \<le> sint (v ! 0) \<and> sint (v ! 0) \<le> 4095)"

definition deserialize_peer :: "user_default \<Rightarrow> peer_config \<Rightarrow> peer_config" where
  "deserialize_peer u c =
     c\<lparr>pc_view_style := or_default u ''view_style'' (pc_view_style c),
       pc_scroll_style := or_default u ''scroll_style'' (pc_scroll_style c),
       pc_image_quality := or_default u ''image_quality'' (pc_image_quality c),
       pc_custom_image_quality :=
         if quality_ok (pc_custom_image_quality c) then pc_custom_image_quality c
         else default_custom_image_quality u,
       pc_reverse_mouse_wheel := or_default u ''reverse_mouse_wheel'' (pc_reverse_mouse_wheel c),
       pc_displays_as_individual_windows :=
         or_default u ''displays_as_individual_windows'' (pc_displays_as_individual_windows c),
       pc_use_all_my_displays :=
         or_default u ''use_all_my_displays_for_the_remote_session'' (pc_use_all_my_displays c)\<rparr>"

definition decrypt_peer :: "keyring \<Rightarrow> peer_config \<Rightarrow> peer_config \<times> bool" where
  "decrypt_peer kr c =
     (let (password, _, store) = dec_vec kr (pc_password c);
          c = c\<lparr>pc_password := password\<rparr>;
          stores = map (\<lambda>k. case hm_get (pc_options c) k of
                              Some v \<Rightarrow> snd (snd (dec_str kr v)) | None \<Rightarrow> False) secret_options
      in (c\<lparr>pc_options := fold (map_option_value (\<lambda>v. fst (dec_str kr v))) secret_options (pc_options c)\<rparr>,
          store \<or> list_ex (\<lambda>b. b) stores))"

definition peer_load :: "string \<Rightarrow> peer_store \<Rightarrow> peer_config \<times> peer_store" where
  "peer_load i st =
     (case ps_files st (peer_path (ps_keyring st) i) of
        None \<Rightarrow> (peer_config_default (ps_user_default st), st)
      | Some file \<Rightarrow>
          (let (c, store) = decrypt_peer (ps_keyring st) (deserialize_peer (ps_user_default st) file)
           in (c, if store then peer_store_config i c st else st)))"

definition peer_remove :: "string \<Rightarrow> peer_store \<Rightarrow> peer_store" where
  "peer_remove i st = st\<lparr>ps_files := (ps_files st)(peer_path (ps_keyring st) i := None)\<rparr>"

definition peer_exists :: "string \<Rightarrow> peer_store \<Rightarrow> bool" where
  "peer_exists i st = (ps_files st (peer_path (ps_keyring st) i) \<noteq> None)"

text \<open>\<open>peers\<close>: the files in the order of the directory, with their times; a peer without a
  platform has never been connected, and its file is removed.\<close>

definition peer_entry :: "string \<times> nat \<Rightarrow> peer_store \<Rightarrow> (string \<times> nat \<times> peer_config) option \<times> peer_store" where
  "peer_entry f st =
     (let (p, t) = f; i = peer_id_of_path (ps_keyring st) p; (c, st) = peer_load i st
      in if pis_platform (pc_info c) = [] then (None, st\<lparr>ps_files := (ps_files st)(p := None)\<rparr>)
         else (Some (i, t, c), st))"

definition peers :: "(string \<times> nat) list \<Rightarrow> string list option \<Rightarrow> peer_store \<Rightarrow>
    (string \<times> nat \<times> peer_config) list \<times> peer_store" where
  "peers dir id_filters st =
     (let files = filter (\<lambda>(p, _). case id_filters of
                            None \<Rightarrow> True
                          | Some ids \<Rightarrow> peer_id_of_path (ps_keyring st) p \<in> set ids) dir;
          (es, st) = fold (\<lambda>f (es, st). let (e, st) = peer_entry f st in (es @ [e], st)) files ([], st)
      in (rev (sort_key (\<lambda>e. fst (snd e)) (concat (map (\<lambda>e. case e of Some x \<Rightarrow> [x] | None \<Rightarrow> []) es))), st))"

section \<open>The file of a peer keeps its configuration\<close>

definition vec_ok :: "keyring \<Rightarrow> bytes \<Rightarrow> bool" where
  "vec_ok kr v \<longleftrightarrow> length v \<le> ENCRYPT_MAX_LEN \<and> \<not> fst (snd (dec_vec kr v))"

definition peer_storable :: "keyring \<Rightarrow> user_default \<Rightarrow> peer_config \<Rightarrow> bool" where
  "peer_storable kr u c \<longleftrightarrow> vec_ok kr (pc_password c) \<and>
     (\<forall>k \<in> set secret_options. \<forall>v. hm_get (pc_options c) k = Some v \<longrightarrow> enc_ok kr v) \<and>
     deserialize_peer u c = c"

lemma dec_enc_vec:
  assumes "keyring_ok kr" and "vec_ok kr v"
  shows "dec_vec kr (enc_vec kr v) = (v, v \<noteq> [], False)"
proof (cases "v = []")
  case True
  then show ?thesis by (simp add: enc_vec_def dec_vec_def encrypt_vec_or_original_def version_00_def)
next
  case False
  then show ?thesis
    using encrypt_vec_roundtrip [of "kr_sodium kr" v ENCRYPT_MAX_LEN "kr_uuid kr" version_00] assms
    by (simp add: enc_vec_def dec_vec_def keyring_ok_def vec_ok_def)
qed

text \<open>On a map without double keys the value under a key changes in place.\<close>

definition at_key :: "(string \<Rightarrow> string) \<Rightarrow> string list \<Rightarrow> string \<times> string \<Rightarrow> string \<times> string" where
  "at_key f ks kv = (fst kv, if fst kv \<in> set ks then f (snd kv) else snd kv)"

lemma at_key_id:
  assumes "\<And>k. k \<in> set ks \<Longrightarrow> k \<notin> fst ` set m"
  shows "map (at_key f ks) m = m"
  using assms by (intro map_idI) (force simp: at_key_def)

lemma map_fst_at_key: "map fst (map (at_key f ks) m) = map fst m"
  by (induction m) (simp_all add: at_key_def)

lemma hm_insert_at_key:
  "hm_ok m \<Longrightarrow> hm_get m k = Some v \<Longrightarrow> hm_insert k (f v) m = map (at_key f [k]) m"
proof (induction m)
  case (Cons x m)
  show ?case
  proof (cases "fst x = k")
    case True
    then have "k \<notin> fst ` set m" using Cons.prems(1) by (auto simp: hm_ok_def)
    then show ?thesis
      using True Cons.prems at_key_id [of "[k]" m f] by (cases x) (simp add: at_key_def [of f "[k]" "(k, v)"])
  next
    case False
    then show ?thesis using Cons by (cases x) (auto simp: at_key_def hm_ok_def)
  qed
qed simp

lemma map_option_value_map: "hm_ok m \<Longrightarrow> map_option_value f k m = map (at_key f [k]) m"
proof (cases "hm_get m k")
  case None
  then have "k \<notin> fst ` set m" by (induction m) (auto split: if_splits)
  then show ?thesis using None at_key_id [of "[k]" m f] by (simp add: map_option_value_def)
next
  case (Some v)
  assume "hm_ok m"
  then show ?thesis using Some by (simp add: map_option_value_def hm_insert_at_key)
qed

lemma hm_ok_at_key: "hm_ok (map (at_key f ks) m) = hm_ok m"
  unfolding hm_ok_def map_fst_at_key ..

lemma fold_map_option_value:
  "hm_ok m \<Longrightarrow> distinct ks \<Longrightarrow> fold (map_option_value f) ks m = map (at_key f ks) m"
proof (induction ks arbitrary: m)
  case Nil
  show ?case using at_key_id [of "[]" m f] by simp
next
  case (Cons k ks)
  have "at_key f ks (at_key f [k] x) = at_key f (k # ks) x" for x
    using Cons.prems(2) by (auto simp: at_key_def)
  then show ?case
    using Cons by (simp add: map_option_value_map hm_ok_at_key comp_def)
qed

lemma secrets_back:
  assumes "hm_ok m" and "\<And>k v. k \<in> set secret_options \<Longrightarrow> hm_get m k = Some v \<Longrightarrow> g (f v) = v"
  shows "fold (map_option_value g) secret_options (fold (map_option_value f) secret_options m) = m"
proof -
  have d: "distinct secret_options" by (simp add: secret_options_def)
  have "at_key g secret_options (at_key f secret_options x) = x" if "x \<in> set m" for x
    using assms that hm_get_in [OF assms(1), of "fst x" "snd x"] by (cases x) (auto simp: at_key_def)
  then have "map (at_key g secret_options \<circ> at_key f secret_options) m = m" by (simp add: map_idI)
  then show ?thesis
    by (simp add: fold_map_option_value [OF assms(1) d] fold_map_option_value d hm_ok_at_key assms(1))
qed

lemma deserialize_encrypt:
  "deserialize_peer u (encrypt_peer kr c) = encrypt_peer kr (deserialize_peer u c)"
  by (simp add: deserialize_peer_def encrypt_peer_def)

lemma get_secrets:
  assumes "hm_ok m"
  shows "hm_get (fold (map_option_value f) secret_options m) k =
    (if k \<in> set secret_options then map_option f (hm_get m k) else hm_get m k)"
proof -
  have "hm_get (map (at_key f secret_options) m) k =
    (if k \<in> set secret_options then map_option f (hm_get m k) else hm_get m k)"
    by (induction m) (auto simp: at_key_def)
  moreover have "distinct secret_options" by (simp add: secret_options_def)
  ultimately show ?thesis by (simp only: fold_map_option_value [OF assms])
qed

lemma decrypt_encrypt_peer:
  assumes "keyring_ok kr" and "peer_storable kr u c" and "hm_ok (pc_options c)"
  shows "decrypt_peer kr (encrypt_peer kr c) = (c, False)"
proof -
  note pw = dec_enc_vec [OF assms(1), of "pc_password c"]
  have sec: "dec_str kr (enc_str kr v) = (v, v \<noteq> [], False)"
    if "k \<in> set secret_options" "hm_get (pc_options c) k = Some v" for k v
    using dec_enc_str [OF assms(1)] assms(2) that by (simp add: peer_storable_def)
  let ?m = "fold (map_option_value (enc_str kr)) secret_options (pc_options c)"
  have "fold (map_option_value (\<lambda>v. fst (dec_str kr v))) secret_options ?m = pc_options c"
    by (rule secrets_back [OF assms(3)]) (simp add: sec)
  moreover have "\<not> list_ex (\<lambda>b. b)
      (map (\<lambda>k. case hm_get ?m k of Some v \<Rightarrow> snd (snd (dec_str kr v)) | None \<Rightarrow> False) secret_options)"
    using sec by (auto simp: list_ex_iff get_secrets [OF assms(3)] split: option.splits)
  ultimately show ?thesis
    using pw assms(2) by (simp add: decrypt_peer_def encrypt_peer_def peer_storable_def)
qed

lemma peer_config_load_back:
  assumes "keyring_ok (ps_keyring st)" and "peer_storable (ps_keyring st) (ps_user_default st) c"
    and "hm_ok (pc_options c)"
  shows "peer_load i (peer_store_config i c st) = (c, peer_store_config i c st)"
proof -
  have "deserialize_peer (ps_user_default st) c = c" using assms(2) by (simp add: peer_storable_def)
  then show ?thesis
    using decrypt_encrypt_peer [OF assms] by (simp add: peer_load_def peer_store_config_def deserialize_encrypt)
qed


text \<open>A file name gives the id back that it was made for, unless the id itself looks like an
  encoded one.\<close>

lemma peer_id_of_peer_path:
  assumes "keyring_ok kr" and "kr_lossy kr (bytes_of i) = bytes_of i" and "take 7 i \<noteq> ''base64_''"
  shows "peer_id_of_path kr (peer_path kr i) = i"
proof (cases "list_ex (\<lambda>c. c \<in> set forbidden_chars) i")
  case True
  then have "i \<noteq> []" by auto
  then have "base64_encode (kr_sodium kr) (bytes_of i) \<noteq> []"
    using assms(1) by (simp add: keyring_ok_def base64_ok_def)
  then show ?thesis
    using True assms(1,2) by (simp add: peer_path_def peer_id_of_path_def keyring_ok_def base64_ok_def)
next
  case False
  then have "peer_path kr i = i" by (simp add: peer_path_def)
  then show ?thesis using assms(3) by (simp add: peer_id_of_path_def)
qed

section \<open>A concrete peer\<close>

definition demo_user_default :: user_default where
  "demo_user_default =
     \<lparr>ud_options = [], ud_layers = \<lparr>ly_overwrite = [], ly_default = []\<rparr>,
      ud_f64 = \<lparr>f64_parse = (\<lambda>s. if s = ''50'' then Some 50 else None), f64_show = (\<lambda>_. ''50'')\<rparr>\<rparr>"

definition demo_peer_store :: peer_store where
  "demo_peer_store =
     \<lparr>ps_files = (\<lambda>_. None), ps_new_stored = [], ps_keyring = demo_keyring, ps_user_default = demo_user_default\<rparr>"

definition demo_peer :: peer_config where
  "demo_peer = (peer_config_default demo_user_default)\<lparr>pc_password := [5, 6, 7],
     pc_options := [(''os-password'', ''secret'')], pc_reverse_mouse_wheel := ''N'',
     pc_displays_as_individual_windows := ''N'', pc_use_all_my_displays := ''N''\<rparr>"


end
