(* ===== verification/Login_Config.thy ===== *)
theory Login_Config
  imports Peer_Config Conn_Login
begin

text \<open>
  The controlling side of a session (\<open>LoginConfigHandler\<close> in \<open>src/client.rs\<close>): what it knows of
  the peer, its options and the files they are kept in, the option message a login carries, and
  what the peer's answer changes. Every accessor that saves reads the file of the peer again
  first. What is asked of the machine and of code outside the repository is the record
  \<open>client_env\<close>; messages, boxes of the user interface and events are appended to \<open>cl_out\<close>.
\<close>

section \<open>Where a password comes from\<close>

datatype password_source = PersonalAb bytes | SharedAb string | UndefinedSource

text \<open>\<open>Hash\<close>: what the host sends first. Both parts are strings.\<close>

record hash =
  hs_salt :: string
  hs_challenge :: string

definition is_personal_ab :: "password_source \<Rightarrow> bytes \<Rightarrow> bool" where
  "is_personal_ab src password =
     (if password = [] then False
      else (case src of PersonalAb p \<Rightarrow> p = password | _ \<Rightarrow> False))"

definition password_equal :: "(bytes \<Rightarrow> bytes) \<Rightarrow> string \<Rightarrow> bytes \<Rightarrow> hash \<Rightarrow> bool" where
  "password_equal sha256 password connected_password h =
     (connected_password = sha256 (bytes_of password @ bytes_of (hs_salt h)))"

definition is_shared_ab :: "(bytes \<Rightarrow> bytes) \<Rightarrow> password_source \<Rightarrow> bytes \<Rightarrow> hash \<Rightarrow> bool" where
  "is_shared_ab sha256 src password h =
     (if password = [] then False
      else (case src of SharedAb p \<Rightarrow> password_equal sha256 p password h | _ \<Rightarrow> False))"

section \<open>The state of a client\<close>

datatype conn_type = DEFAULT_CONN | FILE_TRANSFER | PORT_FORWARD | RDP

record ab_peer =
  abp_id :: string
  abp_hash :: string

record ab_entry =
  abe_name :: string
  abe_peers :: "ab_peer list"

record client_env =
  ce_sha256 :: "bytes \<Rightarrow> bytes"
  ce_version :: string                      \<comment> \<open>\<open>VERSION\<close>, generated by the build\<close>
  ce_my_id :: string                        \<comment> \<open>\<open>Config::get_id\<close>\<close>
  ce_username :: string
  ce_rendezvous_server :: string            \<comment> \<open>\<open>Config::get_rendezvous_server\<close>\<close>
  ce_build_server :: string                 \<comment> \<open>\<open>RENDEZVOUS_SERVER\<close> of the build\<close>
  ce_custom_server :: string                \<comment> \<open>the option \<open>custom-rendezvous-server\<close>\<close>
  ce_prod_server :: string
  ce_codec :: codec_env
  ce_hw :: "bool \<times> bool"                    \<comment> \<open>the hardware decoders there are\<close>
  ce_vram :: "i64 option \<Rightarrow> bool \<times> bool"
  ce_access_token :: string
  ce_ab :: "string \<times> ab_entry list"         \<comment> \<open>\<open>Ab::load\<close>: access token, entries\<close>
  ce_uuid_from_str :: "string \<Rightarrow> bytes option"
  ce_random :: u64
  ce_parse_map :: "string \<Rightarrow> settings option"  \<comment> \<open>\<open>serde_json\<close> on a map of strings\<close>
  ce_show_map :: "settings \<Rightarrow> string"

datatype client_effect =
    ClMsgBox string string string string    \<comment> \<open>type, title, text, link\<close>
  | ClSend message
  | ClSyncAb string bytes                   \<comment> \<open>\<open>sync_peer_hash_password_to_personal_ab\<close>\<close>

record client =
  lc_id :: string
  lc_conn_type :: conn_type
  lc_hash :: hash
  lc_password :: bytes
  lc_remember :: bool
  lc_config :: peer_config
  lc_port_forward :: "string \<times> i32"
  lc_version :: i64
  lc_features :: "bool option"              \<comment> \<open>\<open>Features\<close>, its only field\<close>
  lc_session_id :: u64
  lc_supported_encoding :: supported_encoding
  lc_restarting_remote_device :: bool
  lc_force_relay :: bool
  lc_direct :: "bool option"
  lc_received :: bool
  lc_switch_uuid :: "string option"
  lc_save_ab_password_to_recent :: bool
  lc_other_server :: "(string \<times> string \<times> string) option"
  lc_custom_fps :: "u64 option"
  lc_adapter_luid :: "i64 option"
  lc_mark_unsupported :: "codec_format list"
  lc_selected_windows_session_id :: "u32 option"
  lc_peer_info :: "peer_info option"
  lc_password_source :: password_source
  lc_shared_password :: "string option"
  cl_store :: peer_store
  cl_out :: "client_effect list"

definition client_emit :: "client_effect \<Rightarrow> client \<Rightarrow> client" where
  "client_emit x c = c\<lparr>cl_out := cl_out c @ [x]\<rparr>"

definition msgbox :: "string \<Rightarrow> string \<Rightarrow> string \<Rightarrow> string \<Rightarrow> client \<Rightarrow> client" where
  "msgbox ty title text link = client_emit (ClMsgBox ty title text link)"

definition supported_encoding_default :: supported_encoding where
  "supported_encoding_default =
     \<lparr>se_h264 = False, se_h265 = False, se_vp8 = False, se_av1 = False, se_i444 = None\<rparr>"

section \<open>Loading and saving\<close>

definition load_config :: "client \<Rightarrow> peer_config \<times> client" where
  "load_config c = (let (cfg, st) = peer_load (lc_id c) (cl_store c) in (cfg, c\<lparr>cl_store := st\<rparr>))"

definition save_config :: "peer_config \<Rightarrow> client \<Rightarrow> client" where
  "save_config cfg c = c\<lparr>cl_store := peer_store_config (lc_id c) cfg (cl_store c), lc_config := cfg\<rparr>"

text \<open>Read the file, change the configuration, save it: what every \<open>save_\<close> function does.\<close>

definition edit_config :: "(peer_config \<Rightarrow> peer_config) \<Rightarrow> client \<Rightarrow> client" where
  "edit_config f c = (let (cfg, c) = load_config c in save_config (f cfg) c)"

definition client_set_option :: "string \<Rightarrow> string \<Rightarrow> client \<Rightarrow> client" where
  "client_set_option k v = edit_config (\<lambda>cfg. cfg\<lparr>pc_options := hm_insert k v (pc_options cfg)\<rparr>)"

definition save_view_style :: "string \<Rightarrow> client \<Rightarrow> client" where
  "save_view_style value = edit_config (\<lambda>cfg. cfg\<lparr>pc_view_style := value\<rparr>)"

definition save_keyboard_mode :: "string \<Rightarrow> client \<Rightarrow> client" where
  "save_keyboard_mode value = edit_config (\<lambda>cfg. cfg\<lparr>pc_keyboard_mode := value\<rparr>)"

definition save_reverse_mouse_wheel :: "string \<Rightarrow> client \<Rightarrow> client" where
  "save_reverse_mouse_wheel value = edit_config (\<lambda>cfg. cfg\<lparr>pc_reverse_mouse_wheel := value\<rparr>)"

definition save_displays_as_individual_windows :: "string \<Rightarrow> client \<Rightarrow> client" where
  "save_displays_as_individual_windows value =
     edit_config (\<lambda>cfg. cfg\<lparr>pc_displays_as_individual_windows := value\<rparr>)"

definition save_use_all_my_displays :: "string \<Rightarrow> client \<Rightarrow> client" where
  "save_use_all_my_displays value = edit_config (\<lambda>cfg. cfg\<lparr>pc_use_all_my_displays := value\<rparr>)"

definition save_scroll_style :: "string \<Rightarrow> client \<Rightarrow> client" where
  "save_scroll_style value = edit_config (\<lambda>cfg. cfg\<lparr>pc_scroll_style := value\<rparr>)"

definition save_ui_flutter :: "string \<Rightarrow> string \<Rightarrow> client \<Rightarrow> client" where
  "save_ui_flutter k v = edit_config (\<lambda>cfg. cfg\<lparr>pc_ui_flutter :=
     if v = [] then hm_remove k (pc_ui_flutter cfg) else hm_insert k v (pc_ui_flutter cfg)\<rparr>)"

definition get_ui_flutter :: "string \<Rightarrow> client \<Rightarrow> string" where
  "get_ui_flutter k c = (case hm_get (pc_ui_flutter (lc_config c)) k of Some v \<Rightarrow> v | None \<Rightarrow> [])"

definition set_direct_failure :: "i32 \<Rightarrow> client \<Rightarrow> client" where
  "set_direct_failure value = edit_config (\<lambda>cfg. cfg\<lparr>pc_direct_failures := value\<rparr>)"

definition client_get_option :: "client \<Rightarrow> string \<Rightarrow> string" where
  "client_get_option c k = (case hm_get (pc_options (lc_config c)) k of Some v \<Rightarrow> v | None \<Rightarrow> [])"

definition should_auto_login :: "client \<Rightarrow> string" where
  "should_auto_login c =
     (let l = pc_lock_after_session_end (lc_config c);
          a = (client_get_option c ''auto-login'' \<noteq> []);
          p = client_get_option c ''os-password''
      in if p \<noteq> [] \<and> l \<and> a then p else [])"

definition get_custom_resolution :: "i32 \<Rightarrow> client \<Rightarrow> (i32 \<times> i32) option" where
  "get_custom_resolution display c = hm_get (pc_custom_resolutions (lc_config c)) (show_int (sint display))"

definition set_custom_resolution :: "i32 \<Rightarrow> (i32 \<times> i32) option \<Rightarrow> client \<Rightarrow> client" where
  "set_custom_resolution display wh = edit_config (\<lambda>cfg. cfg\<lparr>pc_custom_resolutions :=
     (case wh of
        Some r \<Rightarrow> hm_insert (show_int (sint display)) r (pc_custom_resolutions cfg)
      | None \<Rightarrow> hm_remove (show_int (sint display)) (pc_custom_resolutions cfg))\<rparr>)"

section \<open>The id the user entered\<close>

definition PUBLIC_SERVER :: string where "PUBLIC_SERVER = ''public''"
definition PUBLIC_RS_PUB_KEY :: string where
  "PUBLIC_RS_PUB_KEY = ''OeVuKk5nlHiXp+APNn0Y3pC1Iwpwn44JGqrQCsWqmBw=''"

text \<open>\<open>handle_relay_id\<close>: a relay is asked for by the suffix \<open>/r\<close>, or with a backslash.\<close>

definition handle_relay_id :: "string \<Rightarrow> string" where
  "handle_relay_id i =
     (if suffix [CHR 0x5C, CHR ''r''] i \<or> suffix ''/r'' i then take (length i - 2) i else i)"

definition args_map :: "string \<Rightarrow> settings" where
  "args_map args =
     fold (\<lambda>arg m. case position CHR ''='' arg of
                     Some kv \<Rightarrow> hm_insert (take kv arg) (drop (kv + 1) arg) m
                   | None \<Rightarrow> m) (split_on CHR ''&'' args) []"

definition nth_or_empty :: "nat \<Rightarrow> string list \<Rightarrow> string" where
  "nth_or_empty n xs = (if n < length xs then xs ! n else [])"

text \<open>\<open>parse_peer_id\<close> is the first part of \<open>initialize\<close>: the id, whether a relay is forced, and the other
  server with its key.\<close>

definition parse_peer_id ::
    "string \<Rightarrow> bool \<Rightarrow> (string \<times> string \<times> string) option \<Rightarrow> string \<times> bool \<times> (string \<times> string \<times> string) option" where
  "parse_peer_id i force_relay other =
     (if CHR ''@'' \<in> set i then
        (let v = split_on CHR ''@'' i; raw_id = nth_or_empty 0 v;
             server_key = split_on CHR ''?'' (nth_or_empty 1 v);
             server = nth_or_empty 0 server_key; args = nth_or_empty 1 server_key;
             key = (if server = PUBLIC_SERVER then PUBLIC_RS_PUB_KEY
                    else (case hm_get (args_map args) ''key'' of Some k \<Rightarrow> k | None \<Rightarrow> []));
             real_id = handle_relay_id raw_id
         in (real_id @ ''@'' @ server, real_id \<noteq> raw_id \<or> force_relay, Some (real_id, server, key)))
      else
        (let real_id = handle_relay_id i in (real_id, real_id \<noteq> i \<or> force_relay, other)))"

definition initialize ::
    "client_env \<Rightarrow> string \<Rightarrow> conn_type \<Rightarrow> string option \<Rightarrow> bool \<Rightarrow> i64 option \<Rightarrow> string option \<Rightarrow> client \<Rightarrow> client" where
  "initialize e i ty switch_uuid force_relay adapter_luid shared_password c =
     (let (i, force_relay, other) = parse_peer_id i force_relay (lc_other_server c);
          c = c\<lparr>lc_id := i, lc_other_server := other, lc_conn_type := ty\<rparr>;
          (cfg, c) = load_config c;
          c = c\<lparr>lc_remember := (pc_password cfg \<noteq> []), lc_config := cfg,
                lc_session_id := (if ce_random e = 0 then 1 else ce_random e),
                lc_supported_encoding := supported_encoding_default,
                lc_restarting_remote_device := False\<rparr>;
          c = c\<lparr>lc_force_relay := (client_get_option c ''force-always-relay'' \<noteq> [] \<or> force_relay)\<rparr>;
          k = client_get_option c ''other-server-key'';
          c = (case lc_other_server c of
                 Some (real_id, server, key) \<Rightarrow>
                   if k \<noteq> [] \<and> key = [] then c\<lparr>lc_other_server := Some (real_id, server, k)\<rparr> else c
               | None \<Rightarrow> c)
      in c\<lparr>lc_direct := None, lc_received := False, lc_switch_uuid := switch_uuid,
           lc_adapter_luid := adapter_luid, lc_selected_windows_session_id := None,
           lc_shared_password := shared_password\<rparr>)"

section \<open>Toggle options\<close>

definition get_toggle_option :: "client \<Rightarrow> string \<Rightarrow> bool" where
  "get_toggle_option c name =
     (let cfg = lc_config c in
      if name = ''show-remote-cursor'' then pc_show_remote_cursor cfg
      else if name = ''lock-after-session-end'' then pc_lock_after_session_end cfg
      else if name = ''privacy-mode'' then pc_privacy_mode cfg
      else if name = ''enable-file-transfer'' then pc_enable_file_transfer cfg
      else if name = ''disable-audio'' then pc_disable_audio cfg
      else if name = ''disable-clipboard'' then pc_disable_clipboard cfg
      else if name = ''show-quality-monitor'' then pc_show_quality_monitor cfg
      else if name = ''allow_swap_key'' then pc_allow_swap_key cfg
      else if name = ''view-only'' then pc_view_only cfg
      else if name = ''follow-remote-cursor'' then pc_follow_remote_cursor cfg
      else if name = ''follow-remote-window'' then pc_follow_remote_window cfg
      else client_get_option c name \<noteq> [])"

definition bool_opt :: "bool \<Rightarrow> bool_option" where
  "bool_opt b = (if b then BoYes else BoNo)"

text \<open>What turning the view-only mode on and off tells the host.\<close>

definition view_only_message :: "bool \<Rightarrow> client \<Rightarrow> option_message" where
  "view_only_message on c =
     (if on then
        option_default\<lparr>om_disable_keyboard := BoYes, om_disable_clipboard := BoYes,
          om_show_remote_cursor := BoYes, om_enable_file_transfer := BoNo,
          om_lock_after_session_end := BoNo\<rparr>
      else
        option_default\<lparr>om_disable_keyboard := BoNo,
          om_disable_clipboard := bool_opt (get_toggle_option c ''disable-clipboard''),
          om_show_remote_cursor := bool_opt (get_toggle_option c ''show-remote-cursor''),
          om_enable_file_transfer := bool_opt (pc_enable_file_transfer (lc_config c)),
          om_lock_after_session_end := bool_opt (pc_lock_after_session_end (lc_config c))\<rparr>)"

text \<open>The options that are fields: the configuration after the toggle, and what the host is told.
  \<open>block-input\<close> and \<open>unblock-input\<close> are told and not saved; all other names are plain options.\<close>

definition toggle_field :: "string \<Rightarrow> client \<Rightarrow> peer_config \<Rightarrow> (peer_config \<times> option_message) option" where
  "toggle_field name c cfg =
     (if name = ''show-remote-cursor'' then
        (let b = (\<not> pc_show_remote_cursor cfg)
         in Some (cfg\<lparr>pc_show_remote_cursor := b\<rparr>, option_default\<lparr>om_show_remote_cursor := bool_opt b\<rparr>))
      else if name = ''follow-remote-cursor'' then
        (let b = (\<not> pc_follow_remote_cursor cfg)
         in Some (cfg\<lparr>pc_follow_remote_cursor := b\<rparr>, option_default\<lparr>om_follow_remote_cursor := bool_opt b\<rparr>))
      else if name = ''follow-remote-window'' then
        (let b = (\<not> pc_follow_remote_window cfg)
         in Some (cfg\<lparr>pc_follow_remote_window := b\<rparr>, option_default\<lparr>om_follow_remote_window := bool_opt b\<rparr>))
      else if name = ''disable-audio'' then
        (let b = (\<not> pc_disable_audio cfg)
         in Some (cfg\<lparr>pc_disable_audio := b\<rparr>, option_default\<lparr>om_disable_audio := bool_opt b\<rparr>))
      else if name = ''disable-clipboard'' then
        (let b = (\<not> pc_disable_clipboard cfg)
         in Some (cfg\<lparr>pc_disable_clipboard := b\<rparr>, option_default\<lparr>om_disable_clipboard := bool_opt b\<rparr>))
      else if name = ''lock-after-session-end'' then
        (let b = (\<not> pc_lock_after_session_end cfg)
         in Some (cfg\<lparr>pc_lock_after_session_end := b\<rparr>, option_default\<lparr>om_lock_after_session_end := bool_opt b\<rparr>))
      else if name = ''privacy-mode'' then
        Some (cfg, option_default\<lparr>om_privacy_mode := bool_opt (\<not> pc_privacy_mode cfg)\<rparr>)
      else if name = ''enable-file-transfer'' then
        (let b = (\<not> pc_enable_file_transfer cfg)
         in Some (cfg\<lparr>pc_enable_file_transfer := b\<rparr>, option_default\<lparr>om_enable_file_transfer := bool_opt b\<rparr>))
      else if name = ''block-input'' then Some (cfg, option_default\<lparr>om_block_input := BoYes\<rparr>)
      else if name = ''unblock-input'' then Some (cfg, option_default\<lparr>om_block_input := BoNo\<rparr>)
      else if name = ''show-quality-monitor'' then
        Some (cfg\<lparr>pc_show_quality_monitor := \<not> pc_show_quality_monitor cfg\<rparr>, option_default)
      else if name = ''allow_swap_key'' then
        Some (cfg\<lparr>pc_allow_swap_key := \<not> pc_allow_swap_key cfg\<rparr>, option_default)
      else if name = ''view-only'' then
        (let b = (\<not> pc_view_only cfg) in Some (cfg\<lparr>pc_view_only := b\<rparr>, view_only_message b c))
      else None)"

definition toggle_option :: "string \<Rightarrow> client \<Rightarrow> message option \<times> client" where
  "toggle_option name c =
     (let (cfg, c) = load_config c in
      case toggle_field name c cfg of
        Some (cfg, opt) \<Rightarrow>
          (Some (MsgMisc (Some (MiscOption opt))),
           if sublist ''block-input'' name then c else save_config cfg c)
      | None \<Rightarrow>
          (let cfg = lc_config c;
               is_set = (case hm_get (pc_options cfg) name of Some v \<Rightarrow> v \<noteq> [] | None \<Rightarrow> False);
               cfg = cfg\<lparr>pc_options := if is_set then hm_remove name (pc_options cfg)
                                       else hm_insert name ''Y'' (pc_options cfg)\<rparr>
           in (None, save_config cfg c)))"

section \<open>The options of a login\<close>

text \<open>\<open>Decoder::preference\<close>: the codec preferred for a peer, from its file.\<close>

definition decoder_preference :: "client \<Rightarrow> (prefer_codec \<times> chroma) \<times> client" where
  "decoder_preference c =
     (if lc_id c = [] then ((PreferAuto, I420), c)
      else
        (let (cfg, c) = load_config c;
             codec = (case hm_get (pc_options cfg) ''codec-preference'' of Some v \<Rightarrow> v | None \<Rightarrow> []);
             pref = (if codec = ''vp8'' then PreferVP8 else if codec = ''vp9'' then PreferVP9
                     else if codec = ''av1'' then PreferAV1 else if codec = ''h264'' then PreferH264
                     else if codec = ''h265'' then PreferH265 else PreferAuto);
             chroma = (if hm_get (pc_options cfg) ''i444'' = Some ''Y'' then I444 else I420)
         in ((pref, chroma), c)))"

definition client_decodings :: "client_env \<Rightarrow> client \<Rightarrow> supported_decoding \<times> client" where
  "client_decodings e c =
     (let ((pref, chroma), c) = decoder_preference c
      in (supported_decodings (ce_codec e) pref chroma (ce_hw e) (env_vram_option (ce_codec e))
            (ce_vram e (lc_adapter_luid c)) (lc_mark_unsupported c), c))"

definition get_custom_rendezvous_server :: "client_env \<Rightarrow> string \<Rightarrow> string" where
  "get_custom_rendezvous_server e custom =
     (if custom \<noteq> [] then custom else if ce_prod_server e \<noteq> [] then ce_prod_server e else [])"

definition using_public_server :: "client_env \<Rightarrow> bool" where
  "using_public_server e =
     (ce_build_server e = [] \<and> get_custom_rendezvous_server e (ce_custom_server e) = [])"

definition get_image_quality_enum :: "string \<Rightarrow> bool \<Rightarrow> image_quality option" where
  "get_image_quality_enum q ignore_default =
     (if q = ''low'' then Some IqLow
      else if q = ''best'' then Some IqBest
      else if q = ''balanced'' then (if ignore_default then None else Some IqBalanced)
      else None)"

text \<open>The image quality in the message: one of the three, or the custom one, which is cut to 50 above
  100, and the frame rate to 30, for a relayed session by the public server.\<close>

definition quality_options :: "client_env \<Rightarrow> bool \<Rightarrow> client \<Rightarrow> option_message \<times> client" where
  "quality_options e ignore_default c =
     (let q = pc_image_quality (lc_config c) in
      case get_image_quality_enum q ignore_default of
        Some iq \<Rightarrow> (option_default\<lparr>om_image_quality := iq\<rparr>, c)
      | None \<Rightarrow>
          if q = ''custom'' then
            (let (cfg, c) = load_config c;
                 allow_more = (\<not> using_public_server e \<or> lc_direct c = Some True);
                 quality = (case pc_custom_image_quality cfg of
                              [] \<Rightarrow> 50
                            | v # _ \<Rightarrow> if \<not> allow_more \<and> 100 < sint v then 50 else v);
                 msg = option_default\<lparr>om_custom_image_quality := sint (push_bit 8 quality)\<rparr>
             in case hm_get (pc_options (lc_config c)) ''custom-fps'' of
                  None \<Rightarrow> (msg, c)
                | Some s \<Rightarrow>
                    (let fps = (case parse_i32 s of Some v \<Rightarrow> v | None \<Rightarrow> 30);
                         fps = (if \<not> allow_more \<and> fps > 30 then 30 else fps)
                     in (msg\<lparr>om_custom_fps := fps\<rparr>, c\<lparr>lc_custom_fps := Some (word_of_int fps)\<rparr>)))
          else (option_default, c))"

definition yes_if :: "bool \<Rightarrow> bool_option" where
  "yes_if b = (if b then BoYes else BoNotSet)"

definition toggle_options :: "client \<Rightarrow> option_message \<Rightarrow> option_message" where
  "toggle_options c msg =
     (let view_only = get_toggle_option c ''view-only''
      in msg\<lparr>om_disable_keyboard := yes_if view_only,
             om_show_remote_cursor := yes_if (view_only \<or> get_toggle_option c ''show-remote-cursor''),
             om_follow_remote_cursor := yes_if (get_toggle_option c ''follow-remote-cursor''),
             om_follow_remote_window := yes_if (get_toggle_option c ''follow-remote-window''),
             om_lock_after_session_end :=
               yes_if (\<not> view_only \<and> get_toggle_option c ''lock-after-session-end''),
             om_disable_audio := yes_if (get_toggle_option c ''disable-audio''),
             om_enable_file_transfer :=
               yes_if (\<not> view_only \<and> get_toggle_option c ''enable-file-transfer''),
             om_disable_clipboard := yes_if (view_only \<or> get_toggle_option c ''disable-clipboard'')\<rparr>)"

definition get_option_message :: "client_env \<Rightarrow> bool \<Rightarrow> client \<Rightarrow> option_message option \<times> client" where
  "get_option_message e ignore_default c =
     (if lc_conn_type c = PORT_FORWARD \<or> lc_conn_type c = RDP \<or> lc_conn_type c = FILE_TRANSFER
      then (None, c)
      else
        (let (msg, c) = quality_options e ignore_default c;
             msg = toggle_options c msg;
             (dec, c) = client_decodings e c
         in (Some (msg\<lparr>om_supported_decoding := Some dec\<rparr>), c)))"

definition get_option_message_after_login :: "client \<Rightarrow> option_message option" where
  "get_option_message_after_login c =
     (if lc_conn_type c = FILE_TRANSFER \<or> lc_conn_type c = PORT_FORWARD \<or> lc_conn_type c = RDP then None
      else if sint (lc_version c) < sint (get_version_number ''1.2.4'') \<and> get_toggle_option c ''privacy-mode''
      then Some (option_default\<lparr>om_privacy_mode := BoYes\<rparr>)
      else None)"

definition client_privacy_mode_supported :: "client \<Rightarrow> bool" where
  "client_privacy_mode_supported c = (case lc_features c of Some f \<Rightarrow> f | None \<Rightarrow> False)"

section \<open>Messages for options\<close>

definition option_msg :: "option_message \<Rightarrow> message" where
  "option_msg opt = MsgMisc (Some (MiscOption opt))"

definition refresh :: message where "refresh = MsgMisc (Some (MiscRefreshVideo True))"

definition refresh_display :: "nat \<Rightarrow> message" where
  "refresh_display display = MsgMisc (Some (MiscRefreshVideoDisplay (of_nat display)))"

definition restart_remote_device :: message where
  "restart_remote_device = MsgMisc (Some (MiscRestartRemoteDevice True))"

definition save_custom_image_quality :: "i32 \<Rightarrow> client \<Rightarrow> message \<times> client" where
  "save_custom_image_quality q c =
     (option_msg (option_default\<lparr>om_custom_image_quality := sint (push_bit 8 q)\<rparr>),
      edit_config (\<lambda>cfg. cfg\<lparr>pc_image_quality := ''custom'', pc_custom_image_quality := [q]\<rparr>) c)"

definition save_image_quality :: "string \<Rightarrow> client \<Rightarrow> message option \<times> client" where
  "save_image_quality value c =
     (map_option (\<lambda>q. option_msg (option_default\<lparr>om_image_quality := q\<rparr>)) (get_image_quality_enum value False),
      edit_config (\<lambda>cfg. cfg\<lparr>pc_image_quality := value\<rparr>) c)"

definition set_custom_fps :: "i32 \<Rightarrow> bool \<Rightarrow> client \<Rightarrow> message \<times> client" where
  "set_custom_fps fps save c =
     (option_msg (option_default\<lparr>om_custom_fps := sint fps\<rparr>),
      (if save
       then edit_config (\<lambda>cfg. cfg\<lparr>pc_options := hm_insert ''custom-fps'' (show_int (sint fps)) (pc_options cfg)\<rparr>) c
       else c)\<lparr>lc_custom_fps := Some (word_of_int (sint fps))\<rparr>)"

definition update_supported_decodings :: "client_env \<Rightarrow> client \<Rightarrow> message \<times> client" where
  "update_supported_decodings e c =
     (let (dec, c) = client_decodings e c
      in (option_msg (option_default\<lparr>om_supported_decoding := Some dec\<rparr>), c))"

section \<open>Keyboard modes\<close>

definition to_lowercase :: "string \<Rightarrow> string" where
  "to_lowercase = map lower_char"

definition PLATFORM_ANDROID :: string where "PLATFORM_ANDROID = ''Android''"

definition is_keyboard_mode_supported :: "keyboard_mode \<Rightarrow> i64 \<Rightarrow> string \<Rightarrow> bool" where
  "is_keyboard_mode_supported mode version platform =
     (let v120 = sint (get_version_number ''1.2.0'') \<le> sint version in
      case mode of
        KmLegacy \<Rightarrow> True
      | KmMap \<Rightarrow> if to_lowercase platform = to_lowercase PLATFORM_ANDROID then False else v120
      | _ \<Rightarrow> v120)"

definition KEYBOARD_MODES :: "keyboard_mode list" where
  "KEYBOARD_MODES = [KmLegacy, KmMap, KmTranslate, KmAuto]"

definition get_supported_keyboard_modes :: "i64 \<Rightarrow> string \<Rightarrow> keyboard_mode list" where
  "get_supported_keyboard_modes version platform =
     filter (\<lambda>mode. is_keyboard_mode_supported mode version platform) KEYBOARD_MODES"

fun show_keyboard_mode :: "keyboard_mode \<Rightarrow> string" where
  "show_keyboard_mode KmLegacy = ''legacy''"
| "show_keyboard_mode KmMap = ''map''"
| "show_keyboard_mode KmTranslate = ''translate''"
| "show_keyboard_mode KmAuto = ''auto''"
| "show_keyboard_mode KmUnknown = []"

definition parse_keyboard_mode :: "string \<Rightarrow> keyboard_mode option" where
  "parse_keyboard_mode s =
     (if s = ''legacy'' then Some KmLegacy else if s = ''map'' then Some KmMap
      else if s = ''translate'' then Some KmTranslate else if s = ''auto'' then Some KmAuto else None)"

definition fix_keyboard_mode :: "peer_info \<Rightarrow> peer_config \<Rightarrow> peer_config" where
  "fix_keyboard_mode pinfo cfg =
     (let version = get_version_number (pi_version pinfo); platform = pi_platform pinfo in
      if pc_keyboard_mode cfg = [] then
        cfg\<lparr>pc_keyboard_mode :=
              show_keyboard_mode (if is_keyboard_mode_supported KmMap version platform then KmMap else KmLegacy)\<rparr>
      else
        (let mode = (case parse_keyboard_mode (pc_keyboard_mode cfg) of Some m \<Rightarrow> m | None \<Rightarrow> KmLegacy)
         in if mode \<notin> set (get_supported_keyboard_modes version platform)
            then cfg\<lparr>pc_keyboard_mode := show_keyboard_mode KmLegacy\<rparr> else cfg))"

section \<open>The answer of the peer\<close>

definition get_username :: "peer_info \<Rightarrow> client \<Rightarrow> string" where
  "get_username pinfo c =
     (if pi_username pinfo = [] then pis_username (pc_info (lc_config c)) else pi_username pinfo)"

text \<open>Which password the file of the peer keeps: one the user wants remembered or one of the
  personal address book, and none otherwise; a shared one is never written there.\<close>

definition kept_password :: "client_env \<Rightarrow> client \<Rightarrow> peer_config \<Rightarrow> bytes" where
  "kept_password e c cfg =
     (let password = lc_password c; password0 = pc_password cfg in
      if lc_remember c then
        (if password \<noteq> [] \<and> password \<noteq> password0 \<and>
            \<not> is_shared_ab (ce_sha256 e) (lc_password_source c) password (lc_hash c)
         then password else password0)
      else if is_personal_ab (lc_password_source c) password then password
      else if password0 \<noteq> [] then [] else password0)"

text \<open>The other server's key and the relay are kept as options of the peer.\<close>

definition note_server :: "client \<Rightarrow> peer_config \<Rightarrow> peer_config" where
  "note_server c cfg =
     (let cfg = (case lc_other_server c of
                   Some (_, b, k) \<Rightarrow>
                     if b \<noteq> PUBLIC_SERVER
                     then cfg\<lparr>pc_options := hm_insert ''other-server-key'' k (pc_options cfg)\<rparr> else cfg
                 | None \<Rightarrow> cfg)
      in if lc_force_relay c
         then cfg\<lparr>pc_options := hm_insert ''force-always-relay'' ''Y'' (pc_options cfg)\<rparr> else cfg)"

definition sync_to_ab :: "client_env \<Rightarrow> peer_config \<Rightarrow> client \<Rightarrow> client" where
  "sync_to_ab e cfg c =
     (if pc_password cfg \<noteq> [] \<and>
         \<not> is_shared_ab (ce_sha256 e) (lc_password_source c) (lc_password c) (lc_hash c) \<and>
         \<not> is_personal_ab (lc_password_source c) (lc_password c)
      then client_emit (ClSyncAb (lc_id c)
             (base64_encode (kr_sodium (ps_keyring (cl_store c))) (pc_password cfg))) c
      else c)"

definition peer_info_fields :: "peer_info \<Rightarrow> client \<Rightarrow> client" where
  "peer_info_fields pinfo c =
     (if pi_version pinfo \<noteq> [] then c\<lparr>lc_version := get_version_number (pi_version pinfo)\<rparr> else c)
       \<lparr>lc_features := pi_privacy_mode pinfo\<rparr>"

definition handle_peer_info :: "client_env \<Rightarrow> peer_info \<Rightarrow> client \<Rightarrow> client" where
  "handle_peer_info e pinfo c =
     (let c = peer_info_fields pinfo c;
          (cfg, c) = load_config c;
          cfg = cfg\<lparr>pc_info := \<lparr>pis_username = pi_username pinfo, pis_hostname = pi_hostname pinfo,
                               pis_platform = pi_platform pinfo\<rparr>\<rparr>;
          cfg = cfg\<lparr>pc_password := kept_password e c cfg\<rparr>;
          cfg = note_server c cfg;
          c = save_config (fix_keyboard_mode pinfo cfg) (sync_to_ab e cfg c)
      in c\<lparr>lc_supported_encoding :=
             (case pi_encoding pinfo of Some s \<Rightarrow> s | None \<Rightarrow> supported_encoding_default)\<rparr>)"

definition remote_dirs :: "client_env \<Rightarrow> client \<Rightarrow> settings" where
  "remote_dirs e c =
     (case ce_parse_map e (client_get_option c ''remote_dir'') of Some m \<Rightarrow> m | None \<Rightarrow> [])"

definition get_remote_dir :: "client_env \<Rightarrow> client \<Rightarrow> string" where
  "get_remote_dir e c =
     (case hm_get (remote_dirs e c) (pis_username (pc_info (lc_config c))) of Some d \<Rightarrow> d | None \<Rightarrow> [])"

definition get_all_remote_dir :: "client_env \<Rightarrow> string \<Rightarrow> client \<Rightarrow> string" where
  "get_all_remote_dir e path c =
     (let user = pis_username (pc_info (lc_config c)); x = remote_dirs e c
      in ce_show_map e (if path = [] then hm_remove user x else hm_insert user path x))"

section \<open>The login request\<close>

definition login_union_of :: "client_env \<Rightarrow> client \<Rightarrow> login_union option" where
  "login_union_of e c =
     (case lc_conn_type c of
        FILE_TRANSFER \<Rightarrow>
          Some (LrFileTransfer (get_remote_dir e c) (client_get_option c ''remote_show_hidden'' \<noteq> []))
      | PORT_FORWARD \<Rightarrow> Some (LrPortForward (fst (lc_port_forward c)) (sint (snd (lc_port_forward c))))
      | RDP \<Rightarrow> Some (LrPortForward (fst (lc_port_forward c)) (sint (snd (lc_port_forward c))))
      | DEFAULT_CONN \<Rightarrow> None)"

definition create_login_msg :: "client_env \<Rightarrow> string \<Rightarrow> string \<Rightarrow> bytes \<Rightarrow> client \<Rightarrow> login_request \<times> client" where
  "create_login_msg e os_username os_password password c =
     (let (my_id, pure_id) =
            (case lc_other_server c of
               Some (i, _, _) \<Rightarrow> (ce_my_id e @ ''@'' @ ce_rendezvous_server e, i)
             | None \<Rightarrow> (ce_my_id e, lc_id c));
          (opt, c) = get_option_message e True c
      in (login_request_default\<lparr>lr_username := pure_id, lr_password := password, lr_my_id := my_id,
            lr_my_name := ce_username e, lr_option := opt, lr_session_id := lc_session_id c,
            lr_version := ce_version e, lr_os_login := Some (os_username, os_password),
            lr_union := login_union_of e c\<rparr>, c))"

end
