(* ===== verification/Client_Login.thy ===== *)
theory Client_Login
  imports Login_Config Conn_Auth
begin

text \<open>
  The login as the controlling side does it (\<open>src/client.rs\<close>): what it answers to the host's hash,
  what it makes of an error, the login the user enters, and the login that switches sides. The
  theorems put it together with the host of \<open>Conn_Login\<close>: a client that knows the password gets in,
  and one that was let in and remembers gets in again.
\<close>

section \<open>Errors of a login\<close>

definition LOGIN_MSG_PASSWORD_EMPTY :: string where "LOGIN_MSG_PASSWORD_EMPTY = ''Empty Password''"
definition LOGIN_MSG_DESKTOP_XSESSION_FAILED :: string where
  "LOGIN_MSG_DESKTOP_XSESSION_FAILED = ''Desktop xsession failed''"
definition LOGIN_MSG_DESKTOP_SESSION_ANOTHER_USER :: string where
  "LOGIN_MSG_DESKTOP_SESSION_ANOTHER_USER = ''Desktop session another user login''"
definition LOGIN_MSG_DESKTOP_XORG_NOT_FOUND :: string where
  "LOGIN_MSG_DESKTOP_XORG_NOT_FOUND = ''Desktop xorg not found''"
definition LOGIN_MSG_DESKTOP_NO_DESKTOP :: string where "LOGIN_MSG_DESKTOP_NO_DESKTOP = ''Desktop none''"
definition SCRAP_X11_REQUIRED :: string where "SCRAP_X11_REQUIRED = ''x11 expected''"
definition SCRAP_X11_REF_URL :: string where
  "SCRAP_X11_REF_URL = ''https://rustdesk.com/docs/en/manual/linux/#x11-required''"
definition LINK_HEADLESS_LINUX_SUPPORT :: string where
  "LINK_HEADLESS_LINUX_SUPPORT = ''https://github.com/rustdesk/rustdesk/wiki/Headless-Linux-Support''"

record login_error_box =
  eb_msgtype :: string
  eb_title :: string
  eb_text :: string
  eb_link :: string
  eb_try_again :: bool

definition error_box :: "string \<Rightarrow> string \<Rightarrow> string \<Rightarrow> string \<Rightarrow> bool \<Rightarrow> login_error_box" where
  "error_box ty title text link again =
     \<lparr>eb_msgtype = ty, eb_title = title, eb_text = text, eb_link = link, eb_try_again = again\<rparr>"

definition LOGIN_ERROR_MAP :: "(string, login_error_box) hmap" where
  "LOGIN_ERROR_MAP =
     [(LOGIN_SCREEN_WAYLAND, error_box ''error'' ''Login Error'' ''Login screen using Wayland is not supported''
         ''https://rustdesk.com/docs/en/manual/linux/#login-screen'' True),
      (LOGIN_MSG_DESKTOP_SESSION_NOT_READY, error_box ''session-login'' [] [] [] True),
      (LOGIN_MSG_DESKTOP_XSESSION_FAILED, error_box ''session-re-login'' [] [] [] True),
      (LOGIN_MSG_DESKTOP_SESSION_ANOTHER_USER, error_box ''info-nocancel''
         ''another_user_login_title_tip'' ''another_user_login_text_tip'' [] False),
      (LOGIN_MSG_DESKTOP_XORG_NOT_FOUND, error_box ''info-nocancel'' ''xorg_not_found_title_tip''
         ''xorg_not_found_text_tip'' LINK_HEADLESS_LINUX_SUPPORT True),
      (LOGIN_MSG_DESKTOP_NO_DESKTOP, error_box ''info-nocancel'' ''no_desktop_title_tip''
         ''no_desktop_text_tip'' LINK_HEADLESS_LINUX_SUPPORT True),
      (LOGIN_MSG_DESKTOP_SESSION_NOT_READY_PASSWORD_EMPTY, error_box ''session-login-password'' [] [] [] True),
      (LOGIN_MSG_DESKTOP_SESSION_NOT_READY_PASSWORD_WRONG, error_box ''session-login-re-password'' [] [] [] True),
      (LOGIN_MSG_NO_PASSWORD_ACCESS, error_box ''wait-remote-accept-nook'' ''Prompt''
         ''Please wait for the remote side to accept your session request...'' [] True)]"

definition handle_login_error :: "string \<Rightarrow> client \<Rightarrow> bool \<times> client" where
  "handle_login_error err c =
     (if err = LOGIN_MSG_PASSWORD_EMPTY then
        (True, msgbox ''input-password'' ''Password Required'' [] [] (c\<lparr>lc_password := []\<rparr>))
      else if err = LOGIN_MSG_PASSWORD_WRONG then
        (True, msgbox ''re-input-password'' err ''Do you want to enter again?'' [] (c\<lparr>lc_password := []\<rparr>))
      else if err = LOGIN_MSG_2FA_WRONG \<or> err = REQUIRE_2FA then
        (True, msgbox ''input-2fa'' err [] [] c)
      else
        (case hm_get LOGIN_ERROR_MAP err of
           Some b \<Rightarrow> (eb_try_again b, msgbox (eb_msgtype b) (eb_title b) (eb_text b) (eb_link b) c)
         | None \<Rightarrow>
             (False, msgbox ''error'' ''Login Error'' err
                       (if sublist SCRAP_X11_REQUIRED err then SCRAP_X11_REF_URL else []) c)))"

text \<open>\<open>check_if_retry\<close>: whether a box shows an error of the connection that a retry may cure.\<close>

definition check_if_retry :: "string \<Rightarrow> string \<Rightarrow> string \<Rightarrow> bool \<Rightarrow> bool" where
  "check_if_retry msgtype title text retry_for_relay \<longleftrightarrow>
     msgtype = ''error'' \<and> title = ''Connection Error'' \<and>
     ((sublist ''10054'' text \<or> sublist ''104'' text) \<and> retry_for_relay \<or>
      list_all (\<lambda>w. \<not> sublist w (to_lowercase text))
        [''offline'', ''exist'', ''handshake'', ''failed'', ''resolve'', ''mismatch'', ''manually'', ''not allowed''])"

section \<open>The answer to the hash\<close>

definition send_login :: "client_env \<Rightarrow> string \<Rightarrow> string \<Rightarrow> bytes \<Rightarrow> client \<Rightarrow> client" where
  "send_login e os_username os_password password c =
     (let (lr, c) = create_login_msg e os_username os_password password c
      in client_emit (ClSend (MsgLoginRequest lr)) c)"

definition send_switch_login_request :: "client_env \<Rightarrow> bytes \<Rightarrow> client \<Rightarrow> client" where
  "send_switch_login_request e uuid c =
     (let (lr, c) = create_login_msg e [] [] [] c
      in client_emit (ClSend (MsgSwitchSidesResponse uuid (Some lr))) c)"

definition personal_ab :: "ab_entry \<Rightarrow> bool" where
  "personal_ab a = (abe_name a = ''My address book'' \<or> abe_name a = ''Legacy address book'')"

definition try_get_password_from_personal_ab :: "client_env \<Rightarrow> client \<Rightarrow> bytes \<times> client" where
  "try_get_password_from_personal_ab e c =
     (if ce_access_token e \<noteq> [] \<and> ce_access_token e = fst (ce_ab e) then
        (case find personal_ab (snd (ce_ab e)) of
           None \<Rightarrow> ([], c)
         | Some ab \<Rightarrow>
             (case find (\<lambda>p. abp_id p = lc_id c) (abe_peers ab) of
                None \<Rightarrow> ([], c)
              | Some p \<Rightarrow>
                  (case base64_decode (kr_sodium (ps_keyring (cl_store c))) (bytes_of (abp_hash p)) of
                     None \<Rightarrow> ([], c)
                   | Some h \<Rightarrow> if h \<noteq> [] then (h, c\<lparr>lc_password_source := PersonalAb h\<rparr>) else ([], c))))
      else ([], c))"

text \<open>Which password is used, in this order: the one of the last attempt, the preset one, a shared one
  (which replaces those two), the one of the peer's file, and the personal address book.\<close>

definition preset_password :: "client_env \<Rightarrow> string \<Rightarrow> hash \<Rightarrow> bytes \<Rightarrow> client \<Rightarrow> bytes \<times> client" where
  "preset_password e preset h password c =
     (if password = [] \<and> preset \<noteq> [] then
        (ce_sha256 e (bytes_of preset @ bytes_of (hs_salt h)), c\<lparr>lc_password_source := UndefinedSource\<rparr>)
      else (password, c))"

definition shared_password :: "client_env \<Rightarrow> hash \<Rightarrow> bytes \<Rightarrow> client \<Rightarrow> bytes \<times> client" where
  "shared_password e h password c =
     (let shared = lc_shared_password c; c = c\<lparr>lc_shared_password := None\<rparr> in
      case shared of
        Some p \<Rightarrow>
          if p \<noteq> [] then (ce_sha256 e (bytes_of p @ bytes_of (hs_salt h)), c\<lparr>lc_password_source := SharedAb p\<rparr>)
          else (password, c)
      | None \<Rightarrow> (password, c))"

definition config_password :: "bytes \<Rightarrow> client \<Rightarrow> bytes \<times> client" where
  "config_password password c =
     (if password = [] then
        (let p = pc_password (lc_config c)
         in (p, if p \<noteq> [] then c\<lparr>lc_password_source := UndefinedSource\<rparr> else c))
      else (password, c))"

definition choose_password :: "client_env \<Rightarrow> string \<Rightarrow> hash \<Rightarrow> client \<Rightarrow> bytes \<times> client" where
  "choose_password e preset h c =
     (let (p, c) = preset_password e preset h (lc_password c) c;
          (p, c) = shared_password e h p c;
          (p, c) = config_password p c
      in if p = [] then try_get_password_from_personal_ab e c else (p, c))"

definition challenge_response :: "client_env \<Rightarrow> bytes \<Rightarrow> hash \<Rightarrow> bytes" where
  "challenge_response e password h = ce_sha256 e (password @ bytes_of (hs_challenge h))"

definition login_with_password :: "client_env \<Rightarrow> string \<Rightarrow> hash \<Rightarrow> client \<Rightarrow> client" where
  "login_with_password e preset h c =
     (let (password, c) = choose_password e preset h c;
          c = c\<lparr>lc_password := password\<rparr>;
          c = (if password = [] then msgbox ''input-password'' ''Password Required'' [] [] c else c);
          sent = (if password = [] then [] else challenge_response e password h)
      in (send_login e (client_get_option c ''os-username'') (client_get_option c ''os-password'') sent c)
           \<lparr>lc_hash := h\<rparr>)"

definition handle_hash :: "client_env \<Rightarrow> string \<Rightarrow> hash \<Rightarrow> client \<Rightarrow> client" where
  "handle_hash e preset h c =
     (let uuid = lc_switch_uuid c;
          c = c\<lparr>lc_hash := h, lc_switch_uuid := None\<rparr>
      in case (case uuid of Some u \<Rightarrow> ce_uuid_from_str e u | None \<Rightarrow> None) of
           Some u \<Rightarrow> (send_switch_login_request e u c)\<lparr>lc_password_source := UndefinedSource\<rparr>
         | None \<Rightarrow> login_with_password e preset h c)"

definition handle_login_from_ui :: "client_env \<Rightarrow> string \<Rightarrow> string \<Rightarrow> string \<Rightarrow> bool \<Rightarrow> client \<Rightarrow> client" where
  "handle_login_from_ui e os_username os_password password remember c =
     (let (p, c) =
            (if password = [] then config_password (lc_password c) c
             else (ce_sha256 e (bytes_of password @ bytes_of (hs_salt (lc_hash c))),
                   c\<lparr>lc_password_source := UndefinedSource, lc_remember := remember\<rparr>));
          c = c\<lparr>lc_password := p\<rparr>
      in send_login e os_username os_password (challenge_response e p (lc_hash c)) c)"

section \<open>The host lets in who knows the password\<close>

text \<open>The host accepts a login with its permanent password: the address has not failed too often, the
  user of the host need not click, nobody has turned the privacy mode on.\<close>

definition host_open :: "env \<Rightarrow> connection \<Rightarrow> bool" where
  "host_open e s \<longleftrightarrow>
     c_require_2fa s = None \<and> \<not> is_in_privacy_mode (w_privacy s) \<and>
     get_approve_mode (e_options e) \<noteq> ApproveClick \<and> permanent_enabled (e_options e) \<and>
     e_permanent_password e \<noteq> [] \<and> \<not> e_headless_allowed e \<and> snd (fst (check_failure e 0 s))"

lemma login_accepted_admits:
  assumes "c_require_2fa s = None"
  shows "c_authorized (login_accepted e [] lr s)"
proof -
  define s1 where "s1 = wait_desktop_cm_ready e s"
  have "c_require_2fa s1 = None" using assms by (simp add: s1_def wait_desktop_cm_ready_def emit_def)
  then have "c_authorized (send_logon_response e s1)"
    using send_logon_response_auth [of s1 e]
    by (cases "c_authorized s1") (simp_all add: send_logon_response_def second_factor_missing_def)
  then show ?thesis by (simp add: login_accepted_def s1_def [symmetric] Let_def cm_authorized)
qed

lemma check_failure_cong:
  "w_failures t = w_failures s \<Longrightarrow> c_ip t = c_ip s \<Longrightarrow>
   snd (fst (check_failure e i t)) = snd (fst (check_failure e i s))"
  by (simp add: check_failure_def get_failure_def Let_def split_def)

lemma login_password_admits:
  assumes "c_require_2fa s = None" and "snd (fst (check_failure e 0 s))" and "permanent_enabled (e_options e)"
    and "validate_one_password e (e_permanent_password e) s"
  shows "c_authorized (login_password e [] lr s)"
proof -
  obtain ft where c: "check_failure e 0 s = ((ft, True), s)" using check_failure_passed [OF assms(2)] by blast
  obtain s1 where v: "validate_password e s = (True, s1)" and s1: "c_require_2fa s1 = None"
  proof (cases "validate_password e s")
    case (Pair ok s1)
    have "ok" "c_require_2fa s1 = None"
      using Pair assms by (auto simp: validate_password_def insert_session_def split: if_splits)
    then show ?thesis using that Pair by simp
  qed
  show ?thesis
    by (simp add: login_password_def c v Let_def)
      (rule login_accepted_admits, simp add: update_failure_fields s1)
qed

lemma password_admits:
  assumes "host_open e s" and "lr_username lr = e_id e" and "lr_union lr = None" and "lr_password lr \<noteq> []"
    and pw: "e_sha256 e (e_sha256 e (e_permanent_password e @ c_salt s) @ c_challenge s) = lr_password lr"
  shows "c_authorized (snd (on_login_request e lr s))"
proof -
  define s1 where "s1 = try_start_cm_ipc (handle_login_request_without_validation lr s)"
  have f: "c_require_2fa s1 = None" "w_failures s1 = w_failures s" "c_ip s1 = c_ip s" "c_lr s1 = lr"
    "c_salt s1 = c_salt s" "c_challenge s1 = c_challenge s"
    using assms(1)
    by (simp_all add: s1_def try_start_cm_ipc_def handle_login_request_without_validation_def emit_def Let_def
        host_open_def split: option.split)
  have kind: "login_kind e (lr_union lr) (handle_login_request_without_validation lr s)
      = (None, handle_login_request_without_validation lr s)"
    using assms(1,3)
    by (simp add: login_kind_def handle_login_request_without_validation_def host_open_def Let_def
        split: option.split)
  obtain recent s2 where r: "is_recent_session e False s1 = (recent, s2)" by fastforce
  then obtain m where s2: "s2 = s1\<lparr>w_sessions := m\<rparr>" using is_recent_session_state [of e False s1] by auto
  have "c_authorized (login_password e [] lr s2)"
    using assms(1) f pw check_failure_cong [of s2 s e 0]
    by (intro login_password_admits) (simp_all add: s2 validate_one_password_def host_open_def)
  moreover have "c_authorized (login_accepted e [] lr s2)"
    using f by (intro login_accepted_admits) (simp add: s2)
  ultimately have "c_authorized (snd (login_validate e [] lr s1))"
    using assms(1,2,4)
    by (auto simp: login_validate_def Let_def r host_open_def has_valid_password_def)
  moreover have "try_start_desktop e (lr_os_login lr) = []"
    using assms(1) by (simp add: try_start_desktop_def host_open_def)
  ultimately show ?thesis
    by (simp add: on_login_request_def Let_def kind s1_def [symmetric])
qed

text \<open>The same for a connection that has just been opened, by what the host keeps between connections.\<close>

definition address_free :: "env \<Rightarrow> string \<Rightarrow> world \<Rightarrow> bool" where
  "address_free e ip w =
     (case hm_get (w_failures w 0) ip of
        Some (minute, k, n) \<Rightarrow> n \<le> 30 \<and> \<not> (current_minute e = minute \<and> 6 < k)
      | None \<Rightarrow> True)"

definition host_ready :: "env \<Rightarrow> string \<Rightarrow> world \<Rightarrow> bool" where
  "host_ready e ip w \<longleftrightarrow>
     \<not> is_in_privacy_mode (w_privacy w) \<and> get_approve_mode (e_options e) \<noteq> ApproveClick \<and>
     permanent_enabled (e_options e) \<and> e_permanent_password e \<noteq> [] \<and> \<not> e_headless_allowed e \<and>
     address_free e ip w"

lemma on_open_fields:
  assumes "on_open e ip salt challenge s = (True, t)"
  shows "c_salt t = c_salt s \<and> c_challenge t = c_challenge s \<and> c_ip t = ip \<and> w_failures t = w_failures s \<and>
    w_privacy t = w_privacy s \<and> c_require_2fa t = c_require_2fa s \<and>
    ToPeer (MsgHash salt challenge) \<in> set (w_out t)"
proof -
  define s1 where "s1 = get_api_server e (send (MsgHash salt challenge) (s\<lparr>c_ip := ip\<rparr>))"
  obtain ok s0 where w: "check_whitelist e ip s = (ok, s0)" by fastforce
  have ok: "ok" using assms w by (simp add: on_open_def split: if_splits)
  then have "s0 = s" using w by (simp add: check_whitelist_def Let_def split: if_splits)
  then have "t = post_conn_audit (AuditNew ip) s1"
    using assms w ok by (simp add: on_open_def s1_def Let_def split: if_splits)
  moreover have "c_salt s1 = c_salt s \<and> c_challenge s1 = c_challenge s \<and> c_ip s1 = ip \<and>
    w_failures s1 = w_failures s \<and> w_privacy s1 = w_privacy s \<and> c_require_2fa s1 = c_require_2fa s \<and>
    ToPeer (MsgHash salt challenge) \<in> set (w_out s1)"
    by (simp add: s1_def emit_def get_api_server_def)
  ultimately show ?thesis by (simp add: post_conn_audit_def emit_def)
qed

lemma announce_fields:
  "c_salt (announce_permissions s) = c_salt s" "c_challenge (announce_permissions s) = c_challenge s"
  "c_ip (announce_permissions s) = c_ip s" "w_failures (announce_permissions s) = w_failures s"
  "w_privacy (announce_permissions s) = w_privacy s" "c_require_2fa (announce_permissions s) = c_require_2fa s"
  "x \<in> set (w_out s) \<Longrightarrow> x \<in> set (w_out (announce_permissions s))"
  by (simp_all add: announce_permissions_def announce_def send_permission_def emit_def Let_def)

lemma start_fields:
  assumes "start e i totp salt challenge cell ip w = (True, s)"
  shows "c_salt s = bytes_of salt" "c_challenge s = bytes_of challenge"
    "c_require_2fa s = totp" "ToPeer (MsgHash salt challenge) \<in> set (w_out s)"
    "host_ready e ip w \<Longrightarrow> totp = None \<Longrightarrow> host_open e s"
proof -
  define s0 where "s0 = connection_id_new i (connection_new e i totp salt challenge cell w)"
  obtain t where t: "on_open e ip salt challenge s0 = (True, t)" "s = announce_permissions t"
    using assms by (cases "on_open e ip salt challenge s0")
      (auto simp: start_def s0_def [symmetric] Let_def split: if_splits)
  note f = on_open_fields [OF t(1)]
  have s0: "c_salt s0 = bytes_of salt" "c_challenge s0 = bytes_of challenge" "c_require_2fa s0 = totp"
    "w_failures s0 = w_failures w" "w_privacy s0 = w_privacy w"
    by (simp_all add: s0_def connection_id_new_def connection_new_def connection.defs world.defs)
  show "c_salt s = bytes_of salt" "c_challenge s = bytes_of challenge" "c_require_2fa s = totp"
    "ToPeer (MsgHash salt challenge) \<in> set (w_out s)"
    using f s0 by (simp_all add: t(2) announce_fields)
  assume h: "host_ready e ip w" and "totp = None"
  have "w_failures s = w_failures w" "c_ip s = ip" using f s0 by (simp_all add: t(2) announce_fields)
  then have "snd (fst (check_failure e 0 s))"
    using h by (auto simp: host_ready_def address_free_def check_failure_def get_failure_def Let_def
        split: option.splits prod.splits)
  then show "host_open e s"
    using h \<open>totp = None\<close> f s0 by (simp add: host_open_def host_ready_def t(2) announce_fields)
qed

section \<open>The client's request\<close>

definition last_sent :: "client \<Rightarrow> message option" where
  "last_sent c = (if cl_out c = [] then None else (case last (cl_out c) of ClSend m \<Rightarrow> Some m | _ \<Rightarrow> None))"

text \<open>The id the client asks for.\<close>

definition wanted_id :: "client \<Rightarrow> string" where
  "wanted_id c = (case lc_other_server c of Some (i, _, _) \<Rightarrow> i | None \<Rightarrow> lc_id c)"

lemma create_login_fields:
  "lr_username (fst (create_login_msg e u p pw c)) = wanted_id c"
  "lr_password (fst (create_login_msg e u p pw c)) = pw"
  by (simp_all add: create_login_msg_def wanted_id_def Let_def split_def split: option.split)

lemma load_config_fields:
  "lc_conn_type (snd (load_config c)) = lc_conn_type c" "lc_id (snd (load_config c)) = lc_id c"
  "lc_other_server (snd (load_config c)) = lc_other_server c" "cl_out (snd (load_config c)) = cl_out c"
  "lc_password (snd (load_config c)) = lc_password c" "lc_config (snd (load_config c)) = lc_config c"
  by (simp_all add: load_config_def split_def Let_def)

lemma quality_options_fields: "lc_conn_type (snd (quality_options e b c)) = lc_conn_type c"
  by (simp add: quality_options_def load_config_fields Let_def split_def split: option.split)

lemma client_decodings_fields: "lc_conn_type (snd (client_decodings e c)) = lc_conn_type c"
  by (simp add: client_decodings_def decoder_preference_def load_config_fields Let_def split_def)

lemma get_option_message_fields: "lc_conn_type (snd (get_option_message e b c)) = lc_conn_type c"
  by (simp add: get_option_message_def quality_options_fields client_decodings_fields Let_def split_def)

lemma create_login_union:
  "lc_conn_type c = DEFAULT_CONN \<Longrightarrow> lr_union (fst (create_login_msg e u p pw c)) = None"
  using get_option_message_fields [of e True c]
  by (simp add: create_login_msg_def login_union_of_def Let_def split_def)

lemma send_login_sent:
  "last_sent (send_login e u p pw c) = Some (MsgLoginRequest (fst (create_login_msg e u p pw c)))"
  by (simp add: send_login_def client_emit_def last_sent_def split_def Let_def)

text \<open>Making a request only reads: the file may be written again and the frame rate is noted.\<close>

definition reads :: "client \<Rightarrow> client \<Rightarrow> bool" where
  "reads c d \<longleftrightarrow>
     (\<exists>st fps. d = c\<lparr>cl_store := st, lc_custom_fps := fps\<rparr> \<and> ps_keyring st = ps_keyring (cl_store c) \<and>
        ps_user_default st = ps_user_default (cl_store c) \<and>
        (ps_files (cl_store c) (peer_path (ps_keyring (cl_store c)) (lc_id c)) = None \<longrightarrow> st = cl_store c))"

lemma reads_refl: "reads c c"
  unfolding reads_def by (rule exI [of _ "cl_store c"], rule exI [of _ "lc_custom_fps c"]) simp

lemma reads_trans: "reads c d \<Longrightarrow> reads d f \<Longrightarrow> reads c f"
  unfolding reads_def by (elim exE conjE) (intro exI conjI, simp, simp_all)

lemma peer_load_keyring:
  "ps_keyring (snd (peer_load i st)) = ps_keyring st"
  "ps_user_default (snd (peer_load i st)) = ps_user_default st"
  "ps_files st (peer_path (ps_keyring st) i) = None \<Longrightarrow> peer_load i st = (peer_config_default (ps_user_default st), st)"
  by (simp_all add: peer_load_def peer_store_config_def Let_def split_def split: option.split)

lemma reads_load: "reads c (snd (load_config c))"
  unfolding reads_def
  by (rule exI [of _ "snd (peer_load (lc_id c) (cl_store c))"], rule exI [of _ "lc_custom_fps c"])
    (simp add: load_config_def split_def Let_def peer_load_keyring)

lemma reads_fps: "reads c (c\<lparr>lc_custom_fps := f\<rparr>)"
  unfolding reads_def by (rule exI [of _ "cl_store c"], rule exI [of _ f]) simp

lemma reads_quality: "reads c (snd (quality_options e b c))"
  unfolding quality_options_def Let_def split_def
  by (auto split: option.split intro: reads_refl reads_load reads_trans [OF reads_load reads_fps])

lemma reads_decodings: "reads c (snd (client_decodings e c))"
  by (simp add: client_decodings_def decoder_preference_def Let_def split_def reads_refl reads_load)

lemma reads_create_login: "reads c (snd (create_login_msg e u p pw c))"
proof -
  have "reads c (snd (get_option_message e True c))"
    using reads_trans [OF reads_quality reads_decodings]
    by (simp add: get_option_message_def Let_def split_def reads_refl)
  then show ?thesis by (simp add: create_login_msg_def Let_def split_def)
qed

lemma send_login_fields:
  "lc_remember (send_login e u p pw c) = lc_remember c"
  "lc_password (send_login e u p pw c) = lc_password c"
  "lc_password_source (send_login e u p pw c) = lc_password_source c"
  "lc_id (send_login e u p pw c) = lc_id c"
  "ps_keyring (cl_store (send_login e u p pw c)) = ps_keyring (cl_store c)"
  "ps_user_default (cl_store (send_login e u p pw c)) = ps_user_default (cl_store c)"
  "ps_files (cl_store c) (peer_path (ps_keyring (cl_store c)) (lc_id c)) = None \<Longrightarrow>
     cl_store (send_login e u p pw c) = cl_store c"
  "lc_other_server (send_login e u p pw c) = lc_other_server c"
  "lc_force_relay (send_login e u p pw c) = lc_force_relay c"
  "lc_hash (send_login e u p pw c) = lc_hash c"
  using reads_create_login [of c e u p pw]
  by (auto simp: send_login_def client_emit_def Let_def split_def reads_def)

text \<open>A client that sends this password's answer to the hash.\<close>

definition answers :: "client_env \<Rightarrow> bytes \<Rightarrow> hash \<Rightarrow> string \<Rightarrow> client \<Rightarrow> bool" where
  "answers e password h i c \<longleftrightarrow>
     (\<exists>lr. last_sent c = Some (MsgLoginRequest lr) \<and> lr_username lr = i \<and> lr_union lr = None \<and>
        lr_password lr = challenge_response e password h)"

lemma send_login_answers:
  assumes "lc_conn_type c = DEFAULT_CONN"
  shows "answers e password h (wanted_id c) (send_login e u p (challenge_response e password h) c)"
  using send_login_sent create_login_fields create_login_union [OF assms] by (auto simp: answers_def)

lemma answers_hash: "answers e p h i (c\<lparr>lc_hash := h'\<rparr>) = answers e p h i c"
  by (simp add: answers_def last_sent_def)

lemma msgbox_fields:
  "lc_conn_type (msgbox a b d l c) = lc_conn_type c" "wanted_id (msgbox a b d l c) = wanted_id c"
  "lc_config (msgbox a b d l c) = lc_config c"
  by (simp_all add: msgbox_def client_emit_def wanted_id_def split: option.split)

lemma login_with_password_answers:
  assumes "choose_password e preset h c = (password, c1)" and "password \<noteq> []"
    and "lc_conn_type c1 = DEFAULT_CONN" and "wanted_id c1 = i"
  shows "answers e password h i (login_with_password e preset h c)"
proof -
  have "wanted_id (c1\<lparr>lc_password := password\<rparr>) = i" using assms(4) by (simp add: wanted_id_def split: option.splits prod.splits)
  then show ?thesis
    using assms send_login_answers [of "c1\<lparr>lc_password := password\<rparr>" e password h]
    by (simp add: login_with_password_def answers_hash Let_def)
qed

text \<open>The host lets such a client in.\<close>

lemma answers_admitted:
  assumes "answers ce (ce_sha256 ce (e_permanent_password e @ bytes_of (hs_salt h))) h (e_id e) c"
    and "host_open e s" and "c_salt s = bytes_of (hs_salt h)" and "c_challenge s = bytes_of (hs_challenge h)"
    and "ce_sha256 ce = e_sha256 e" and "\<And>b. e_sha256 e b \<noteq> []"
  shows "\<exists>lr. last_sent c = Some (MsgLoginRequest lr) \<and> c_authorized (snd (on_login_request e lr s))"
proof -
  obtain lr where lr: "last_sent c = Some (MsgLoginRequest lr)" "lr_username lr = e_id e" "lr_union lr = None"
    "lr_password lr = e_sha256 e (e_sha256 e (e_permanent_password e @ c_salt s) @ c_challenge s)"
    using assms(1,3-5) unfolding answers_def challenge_response_def by auto
  then have "c_authorized (snd (on_login_request e lr s))"
    using password_admits [OF assms(2) lr(2,3)] assms(6) by metis
  then show ?thesis using lr(1) by blast
qed

section \<open>Login, end to end\<close>

text \<open>C8: A client that knows the host's permanent password gets in: on a fresh connection the host
  sends its hash, the client answers it with the preset password or with the one the user
  enters, and the host's handler of that very answer authorizes the connection, as long as the
  host takes permanent passwords without a click and the address has not failed too often.\<close>

theorem password_lets_in:
  assumes "start e i None (hs_salt h) (hs_challenge h) cell ip w = (True, s)" and "host_ready e ip w"
    and "e_permanent_password e = bytes_of pw" and "wanted_id c = e_id e"
    and "lc_conn_type c = DEFAULT_CONN" and "lc_switch_uuid c = None"
    and "ce_sha256 ce = e_sha256 e" and "\<And>b. e_sha256 e b \<noteq> []"
  shows "ToPeer (MsgHash (hs_salt h) (hs_challenge h)) \<in> set (w_out s) \<and>
    (lc_password c = [] \<longrightarrow> lc_shared_password c = None \<longrightarrow>
      (\<exists>lr. last_sent (handle_hash ce pw h c) = Some (MsgLoginRequest lr) \<and>
         c_authorized (snd (on_message e (MsgLoginRequest lr) s)))) \<and>
    (lc_hash c = h \<longrightarrow>
      (\<exists>lr. last_sent (handle_login_from_ui ce os_user os_pw pw remember c) = Some (MsgLoginRequest lr) \<and>
         c_authorized (snd (on_message e (MsgLoginRequest lr) s))))"
proof (intro conjI impI)
  note sf = start_fields [OF assms(1)]
  have pw: "pw \<noteq> []" using assms(2,3) by (auto simp: host_ready_def bytes_of_def)
  let ?p = "ce_sha256 ce (bytes_of pw @ bytes_of (hs_salt h))"
  have p: "?p \<noteq> []" using assms(7,8) by simp
  have admitted: "\<exists>lr. last_sent c' = Some (MsgLoginRequest lr) \<and>
      c_authorized (snd (on_message e (MsgLoginRequest lr) s))" if "answers ce ?p h (wanted_id c) c'" for c'
    using answers_admitted [of ce e h c' s] that assms sf by (simp add: on_message_def)
  show "ToPeer (MsgHash (hs_salt h) (hs_challenge h)) \<in> set (w_out s)" by (rule sf(4))
  show "\<exists>lr. last_sent (handle_hash ce pw h c) = Some (MsgLoginRequest lr) \<and>
      c_authorized (snd (on_message e (MsgLoginRequest lr) s))"
    if "lc_password c = []" "lc_shared_password c = None"
  proof (rule admitted)
    define c1 where "c1 = c\<lparr>lc_hash := h, lc_switch_uuid := None\<rparr>"
    have "choose_password ce pw h c1 =
        (?p, c1\<lparr>lc_password_source := UndefinedSource, lc_shared_password := None\<rparr>)"
      using that pw p by (simp add: c1_def choose_password_def preset_password_def shared_password_def
          config_password_def Let_def)
    from login_with_password_answers [OF this p, of "wanted_id c"]
    have "answers ce ?p h (wanted_id c) (login_with_password ce pw h c1)"
      using assms(5) by (simp add: c1_def wanted_id_def split: option.split)
    then show "answers ce ?p h (wanted_id c) (handle_hash ce pw h c)"
      using assms(6) by (simp add: handle_hash_def c1_def Let_def)
  qed
  show "\<exists>lr. last_sent (handle_login_from_ui ce os_user os_pw pw remember c) = Some (MsgLoginRequest lr) \<and>
      c_authorized (snd (on_message e (MsgLoginRequest lr) s))" if "lc_hash c = h"
  proof (rule admitted)
    let ?c = "c\<lparr>lc_password_source := UndefinedSource, lc_remember := remember, lc_password := ?p\<rparr>"
    have "wanted_id ?c = wanted_id c" by (simp add: wanted_id_def split: option.split)
    then show "answers ce ?p h (wanted_id c) (handle_login_from_ui ce os_user os_pw pw remember c)"
      using send_login_answers [of ?c ce ?p h os_user os_pw] assms(5) that pw
      by (simp add: handle_login_from_ui_def Let_def)
  qed
qed

text \<open>What the answer of the host makes the client remember: the password it logged in with.\<close>

lemma sync_to_ab_fields:
  "lc_id (sync_to_ab e cfg c) = lc_id c" "cl_store (sync_to_ab e cfg c) = cl_store c"
  by (simp_all add: sync_to_ab_def client_emit_def)

lemma peer_info_fields_fields:
  "lc_id (peer_info_fields p c) = lc_id c" "cl_store (peer_info_fields p c) = cl_store c"
  "lc_remember (peer_info_fields p c) = lc_remember c" "lc_password (peer_info_fields p c) = lc_password c"
  "lc_password_source (peer_info_fields p c) = lc_password_source c"
  "lc_other_server (peer_info_fields p c) = lc_other_server c"
  "lc_force_relay (peer_info_fields p c) = lc_force_relay c"
  by (simp_all add: peer_info_fields_def)

lemma note_server_password: "pc_password (note_server c cfg) = pc_password cfg"
  by (simp add: note_server_def Let_def split: option.split)

lemma fix_keyboard_mode_fields:
  "pc_password (fix_keyboard_mode p c) = pc_password c" "pc_options (fix_keyboard_mode p c) = pc_options c"
  "deserialize_peer u (fix_keyboard_mode p c) = fix_keyboard_mode p (deserialize_peer u c)"
  by (simp_all add: fix_keyboard_mode_def deserialize_peer_def Let_def)

lemma kept_when_remembered:
  assumes "lc_remember c" and "lc_password c \<noteq> []" and "lc_password_source c = UndefinedSource"
  shows "kept_password e c cfg = lc_password c"
  using assms by (auto simp: kept_password_def is_shared_ab_def Let_def)

lemma handle_peer_info_result:
  fixes pinfo :: peer_info
  assumes "lc_remember c" and "lc_password c \<noteq> []" and "lc_password_source c = UndefinedSource"
    and "peer_load (lc_id c) (cl_store c) = (cfg, st)"
  defines "cfg' \<equiv> fix_keyboard_mode pinfo (note_server ((peer_info_fields pinfo c)\<lparr>cl_store := st\<rparr>)
    (cfg\<lparr>pc_info := \<lparr>pis_username = pi_username pinfo, pis_hostname = pi_hostname pinfo,
       pis_platform = pi_platform pinfo\<rparr>, pc_password := lc_password c\<rparr>))"
  shows "lc_id (handle_peer_info e pinfo c) = lc_id c"
    and "lc_config (handle_peer_info e pinfo c) = cfg'"
    and "cl_store (handle_peer_info e pinfo c) = peer_store_config (lc_id c) cfg' st"
proof -
  have l: "load_config (peer_info_fields pinfo c) = (cfg, (peer_info_fields pinfo c)\<lparr>cl_store := st\<rparr>)"
    using assms(4) by (simp add: load_config_def peer_info_fields_fields)
  have "kept_password e ((peer_info_fields pinfo c)\<lparr>cl_store := st\<rparr>) k = lc_password c" for k
    using kept_when_remembered [of "(peer_info_fields pinfo c)\<lparr>cl_store := st\<rparr>" e k] assms(1-3)
    by (simp add: peer_info_fields_fields)
  then show "lc_id (handle_peer_info e pinfo c) = lc_id c"
    "lc_config (handle_peer_info e pinfo c) = cfg'"
    "cl_store (handle_peer_info e pinfo c) = peer_store_config (lc_id c) cfg' st"
    by (simp_all add: handle_peer_info_def l Let_def save_config_def sync_to_ab_fields peer_info_fields_fields
        cfg'_def)
qed

lemma handle_peer_info_saves:
  assumes "lc_remember c" and "lc_password c \<noteq> []" and "lc_password_source c = UndefinedSource"
  shows "lc_id (handle_peer_info e pinfo c) = lc_id c"
    and "pc_password (lc_config (handle_peer_info e pinfo c)) = lc_password c"
    and "\<exists>st. ps_keyring st = ps_keyring (cl_store c) \<and> ps_user_default st = ps_user_default (cl_store c) \<and>
      cl_store (handle_peer_info e pinfo c)
        = peer_store_config (lc_id c) (lc_config (handle_peer_info e pinfo c)) st"
proof -
  obtain cfg st where l: "peer_load (lc_id c) (cl_store c) = (cfg, st)" by fastforce
  then have st: "ps_keyring st = ps_keyring (cl_store c)" "ps_user_default st = ps_user_default (cl_store c)"
    using peer_load_keyring(1,2) [of "lc_id c" "cl_store c"] by simp_all
  note r = handle_peer_info_result [OF assms l, of e pinfo]
  show "lc_id (handle_peer_info e pinfo c) = lc_id c" by (rule r(1))
  show "pc_password (lc_config (handle_peer_info e pinfo c)) = lc_password c"
    by (simp add: r(2) fix_keyboard_mode_fields note_server_password)
  show "\<exists>st. ps_keyring st = ps_keyring (cl_store c) \<and> ps_user_default st = ps_user_default (cl_store c) \<and>
      cl_store (handle_peer_info e pinfo c)
        = peer_store_config (lc_id c) (lc_config (handle_peer_info e pinfo c)) st"
    using st r(2,3) by metis
qed

text \<open>A later session starts from the file: its first answer uses the password remembered there.\<close>

lemma initialize_loads:
  fixes e :: client_env and luid :: "i64 option"
  assumes "peer_load i (cl_store c) = (cfg, st)" and "CHR ''@'' \<notin> set i" and "handle_relay_id i = i"
    and "lc_other_server c = None" and "lc_password c = []"
  defines "c' \<equiv> initialize e i DEFAULT_CONN None False luid None c"
  shows "lc_config c' = cfg" "lc_password c' = []" "lc_shared_password c' = None" "lc_switch_uuid c' = None"
    "wanted_id c' = i" "lc_conn_type c' = DEFAULT_CONN"
  using assms
  by (simp_all add: c'_def initialize_def parse_peer_id_def load_config_def wanted_id_def Let_def)

lemma config_password_answers:
  assumes "lc_config c = cfg" "lc_password c = []" "lc_shared_password c = None" "lc_switch_uuid c = None"
    "lc_conn_type c = DEFAULT_CONN" and "pc_password cfg \<noteq> []"
  shows "answers e (pc_password cfg) h (wanted_id c) (handle_hash e [] h c)"
proof -
  define c1 where "c1 = c\<lparr>lc_hash := h, lc_switch_uuid := None\<rparr>"
  have "choose_password e [] h c1 =
      (pc_password cfg, c1\<lparr>lc_password_source := UndefinedSource, lc_shared_password := None\<rparr>)"
    using assms by (simp add: c1_def choose_password_def preset_password_def shared_password_def
        config_password_def Let_def)
  from login_with_password_answers [OF this assms(6), of "wanted_id c"]
  have "answers e (pc_password cfg) h (wanted_id c) (login_with_password e [] h c1)"
    using assms(5) by (simp add: c1_def wanted_id_def split: option.split)
  then show ?thesis using assms(4) by (simp add: handle_hash_def c1_def Let_def)
qed

text \<open>C26: A password the user asked to remember opens the next session without being asked for: after
  a login from the user interface with it and the host's answer, a new handler for the same id
  reads the file and its answer to the host's next hash (a new challenge, the same salt)
  is accepted.\<close>

theorem remembered_password_lets_in:
  fixes c d :: client and pinfo :: peer_info and os_user os_pw :: string
  assumes "start e n None (hs_salt h') (hs_challenge h') cell ip w = (True, s)" and "host_ready e ip w"
    and "e_permanent_password e = bytes_of pw" and "hs_salt h' = hs_salt (lc_hash c)"
    and "lc_id c = e_id e" and "CHR ''@'' \<notin> set (e_id e)" and "handle_relay_id (e_id e) = e_id e"
    and "ce_sha256 ce = e_sha256 e" and "\<And>b. e_sha256 e b \<noteq> []"
    and "keyring_ok (ps_keyring (cl_store c))"
  defines "c1 \<equiv> handle_peer_info ce pinfo (handle_login_from_ui ce os_user os_pw pw True c)"
  assumes "peer_storable (ps_keyring (cl_store c)) (ps_user_default (cl_store c)) (lc_config c1)"
    and "hm_ok (pc_options (lc_config c1))"
    and "cl_store d = cl_store c1" and "lc_other_server d = None" and "lc_password d = []"
  shows "\<exists>lr. last_sent (handle_hash ce [] h' (initialize ce (e_id e) DEFAULT_CONN None False luid None d))
      = Some (MsgLoginRequest lr) \<and> c_authorized (snd (on_message e (MsgLoginRequest lr) s))"
proof -
  note sf = start_fields [OF assms(1)]
  have pw: "pw \<noteq> []" using assms(2,3) by (auto simp: host_ready_def bytes_of_def)
  let ?p = "ce_sha256 ce (bytes_of pw @ bytes_of (hs_salt h'))"
  define c0 where "c0 = handle_login_from_ui ce os_user os_pw pw True c"
  have c0: "lc_remember c0" "lc_password c0 = ?p" "lc_password_source c0 = UndefinedSource" "lc_id c0 = e_id e"
    "ps_keyring (cl_store c0) = ps_keyring (cl_store c)"
    "ps_user_default (cl_store c0) = ps_user_default (cl_store c)"
    using pw assms(4,5) by (simp_all add: c0_def handle_login_from_ui_def send_login_fields Let_def)
  have p: "?p \<noteq> []" using assms(8,9) by simp
  note saved = handle_peer_info_saves [of c0 ce pinfo, unfolded c0(2), OF c0(1) p c0(3)]
  define cfg where "cfg = lc_config c1"
  obtain st where st: "ps_keyring st = ps_keyring (cl_store c)" "ps_user_default st = ps_user_default (cl_store c)"
    "cl_store d = peer_store_config (e_id e) cfg st"
    using saved(3) c0(4-6) assms(14) by (auto simp: c1_def c0_def [symmetric] cfg_def)
  have "peer_load (e_id e) (cl_store d) = (cfg, cl_store d)"
    using peer_config_load_back [of st cfg "e_id e"] assms(10,12,13) st by (simp add: cfg_def)
  note d = initialize_loads [OF this assms(6,7,15,16), of ce luid]
  have cfg: "pc_password cfg = ?p" using saved(2) by (simp add: cfg_def c1_def c0_def)
  have "answers ce ?p h' (e_id e) (handle_hash ce [] h' (initialize ce (e_id e) DEFAULT_CONN None False luid None d))"
    using config_password_answers [OF d(1-4,6), of ce h'] cfg p d(5) by simp
  then show ?thesis
    using answers_admitted [of ce e h' _ s] assms(2,3,8,9) sf by (simp add: on_message_def)
qed

section \<open>A refusal ends the session\<close>

definition login_error :: "string \<Rightarrow> effect" where
  "login_error err = ToPeer (MsgLoginResponse (LoginError err))"

text \<open>The errors after which the host closes the connection.\<close>

definition final_error :: "string \<Rightarrow> bool" where
  "final_error err \<longleftrightarrow>
     err \<in> {''No permission of IP tunneling'', ''No permission of file transfer'',
             ''Someone turns on privacy mode, exit'', ''Offline'', ''Connection not allowed''} \<or>
     prefix ''Failed to access remote '' err"

lemma send_login_error_out: "w_out (send_login_error err s) = w_out s @ [login_error err]"
  by (simp add: send_login_error_def emit_def login_error_def)

lemma final_errors:
  "final_error ''No permission of IP tunneling''" "final_error ''No permission of file transfer''"
  "final_error ''Someone turns on privacy mode, exit''" "final_error LOGIN_MSG_OFFLINE"
  "final_error ''Connection not allowed''" "final_error (''Failed to access remote '' @ x)"
  by (simp_all only: final_error_def LOGIN_MSG_OFFLINE_def insert_iff simp_thms same_prefix_nil
      prefixI [OF refl])

definition refuses :: "connection \<Rightarrow> bool" where
  "refuses t \<longleftrightarrow> (\<exists>err out. final_error err \<and> w_out t = out @ [login_error err])"

lemma refusesI: "final_error err \<Longrightarrow> refuses (send_login_error err s)"
  by (auto simp: refuses_def send_login_error_out)

lemma login_kind_refuses:
  assumes "login_kind e u s = (Some b, t)"
  shows "\<not> b" "refuses t"
  using assms unfolding login_kind_def login_port_forward_def Let_def split_def
  by (auto split: option.splits login_union.splits if_splits intro!: refusesI final_errors [simplified])

lemma login_validate_refuses:
  assumes "login_validate e err_msg lr s = (False, t)"
  shows "refuses t"
proof -
  have "t = send_login_error LOGIN_MSG_OFFLINE s \<or> t = send_login_error ''Connection not allowed'' s"
    using assms unfolding login_validate_def Let_def split_def by (simp only: split: if_splits) simp_all
  then show ?thesis using refusesI final_errors(4,5) by blast
qed

text \<open>None of them is an error the client knows how to go on after.\<close>

definition known_errors :: "string list" where
  "known_errors =
     map fst LOGIN_ERROR_MAP @ [LOGIN_MSG_PASSWORD_EMPTY, LOGIN_MSG_PASSWORD_WRONG, LOGIN_MSG_2FA_WRONG, REQUIRE_2FA]"

lemma known_errors_not_final:
  "list_all (\<lambda>k. k \<notin> set [''No permission of IP tunneling'', ''No permission of file transfer'',
     ''Someone turns on privacy mode, exit'', ''Offline'', ''Connection not allowed''] \<and>
     hd k \<noteq> CHR ''F'') known_errors"
  by code_simp

lemma final_error_box:
  assumes "final_error err"
  shows "hm_get LOGIN_ERROR_MAP err = None"
    "err \<notin> {LOGIN_MSG_PASSWORD_EMPTY, LOGIN_MSG_PASSWORD_WRONG, LOGIN_MSG_2FA_WRONG, REQUIRE_2FA}"
proof -
  have "err \<notin> set known_errors"
  proof
    assume "err \<in> set known_errors"
    then have k: "err \<notin> set [''No permission of IP tunneling'', ''No permission of file transfer'',
        ''Someone turns on privacy mode, exit'', ''Offline'', ''Connection not allowed'']" "hd err \<noteq> CHR ''F''"
      using known_errors_not_final unfolding list_all_iff by blast+
    then obtain x where "err = ''Failed to access remote '' @ x"
      using assms unfolding final_error_def prefix_def by (simp only: list.set) blast
    then show False using k(2) by simp
  qed
  then show "hm_get LOGIN_ERROR_MAP err = None"
    "err \<notin> {LOGIN_MSG_PASSWORD_EMPTY, LOGIN_MSG_PASSWORD_WRONG, LOGIN_MSG_2FA_WRONG, REQUIRE_2FA}"
    by (simp_all only: known_errors_def set_append list.set map_of_eq_None_iff set_map Un_iff) blast+
qed

text \<open>When the host closes the connection on a login request, the last thing it sent is an error,
  and that error ends the session of the client: it shows one box with it, does not ask for
  another try, and keeps what it knows of the password.\<close>

theorem refusal_ends_session:
  assumes "on_message e (MsgLoginRequest lr) s = (False, t)"
  shows "\<exists>err out link. w_out t = out @ [ToPeer (MsgLoginResponse (LoginError err))] \<and>
    handle_login_error err c = (False, c\<lparr>cl_out := cl_out c @ [ClMsgBox ''error'' ''Login Error'' err link]\<rparr>)"
proof -
  define s1 where "s1 = handle_login_request_without_validation lr s"
  have "refuses t"
  proof (cases "login_kind e (lr_union lr) s1")
    case (Pair r s2)
    show ?thesis
    proof (cases r)
      case (Some b)
      then show ?thesis
        using assms Pair login_kind_refuses [of e "lr_union lr" s1 b s2]
        by (auto simp: on_message_def on_login_request_def s1_def [symmetric] Let_def split: if_splits)
    next
      case None
      then show ?thesis
        using assms Pair login_validate_refuses [of e _ lr "try_start_cm_ipc s2" t]
        by (auto simp: on_message_def on_login_request_def s1_def [symmetric] Let_def split: if_splits)
    qed
  qed
  then obtain err out where e: "final_error err" "w_out t = out @ [login_error err]" unfolding refuses_def by blast
  have "handle_login_error err c = (False, c\<lparr>cl_out := cl_out c @ [ClMsgBox ''error'' ''Login Error'' err
      (if sublist SCRAP_X11_REQUIRED err then SCRAP_X11_REF_URL else [])]\<rparr>)"
    using final_error_box [OF e(1)] by (simp add: handle_login_error_def msgbox_def client_emit_def)
  then show ?thesis using e(2) unfolding login_error_def by blast
qed

section \<open>A concrete client\<close>

definition demo_client_env :: client_env where
  "demo_client_env =
     \<lparr>ce_sha256 = e_sha256 demo_env, ce_version = ''1.2.4'', ce_my_id = ''55'', ce_username = ''me'',
      ce_rendezvous_server = [], ce_build_server = [], ce_custom_server = [], ce_prod_server = [],
      ce_codec = demo_codec, ce_hw = (False, False), ce_vram = (\<lambda>_. (False, False)), ce_access_token = [],
      ce_ab = ([], []), ce_uuid_from_str = (\<lambda>_. None), ce_random = 7, ce_parse_map = (\<lambda>_. None),
      ce_show_map = (\<lambda>_. [])\<rparr>"

definition demo_hash :: hash where "demo_hash = \<lparr>hs_salt = ''salt'', hs_challenge = ''chal''\<rparr>"

definition demo_client :: client where
  "demo_client =
     \<lparr>lc_id = ''123456789'', lc_conn_type = DEFAULT_CONN, lc_hash = demo_hash, lc_password = [],
      lc_remember = False, lc_config = demo_peer, lc_port_forward = ([], 0), lc_version = 0,
      lc_features = None, lc_session_id = 7, lc_supported_encoding = supported_encoding_default,
      lc_restarting_remote_device = False, lc_force_relay = False, lc_direct = None, lc_received = False,
      lc_switch_uuid = None, lc_save_ab_password_to_recent = False, lc_other_server = None,
      lc_custom_fps = None, lc_adapter_luid = None, lc_mark_unsupported = [],
      lc_selected_windows_session_id = None, lc_peer_info = None, lc_password_source = UndefinedSource,
      lc_shared_password = None, cl_store = demo_peer_store, cl_out = []\<rparr>"

text \<open>The host's permanent password, as the text the user types.\<close>

definition demo_pw :: string where "demo_pw = string_of (e_permanent_password demo_env)"

lemma demo_host:
  "host_ready demo_env ''10.0.0.1'' demo_world" "e_permanent_password demo_env = bytes_of demo_pw"
  "e_sha256 demo_env b \<noteq> []" "e_id demo_env = ''123456789''"
  "fst (start demo_env 5 None salt chal 0 ''10.0.0.1'' demo_world)"
  by (simp_all add: host_ready_def address_free_def demo_env_def demo_world_def demo_options_def
      permanent_enabled_def get_verification_method_def get_approve_mode_def demo_pw_def Let_def
      is_in_privacy_mode_def start_def on_open_def check_whitelist_def split_def)

theorem password_lets_in_witness:
  "\<exists>lr. last_sent (handle_hash demo_client_env demo_pw demo_hash demo_client) = Some (MsgLoginRequest lr) \<and>
     c_authorized (snd (on_message demo_env (MsgLoginRequest lr)
       (snd (start demo_env 5 None ''salt'' ''chal'' 0 ''10.0.0.1'' demo_world))))"
proof -
  have "start demo_env 5 None (hs_salt demo_hash) (hs_challenge demo_hash) 0 ''10.0.0.1'' demo_world =
      (True, snd (start demo_env 5 None ''salt'' ''chal'' 0 ''10.0.0.1'' demo_world))"
    using demo_host(5) by (simp add: prod_eq_iff demo_hash_def)
  from password_lets_in [OF this demo_host(1,2), of demo_client demo_client_env] show ?thesis
    using demo_host(3,4) by (simp add: demo_client_def wanted_id_def demo_client_env_def)
qed

text \<open>The first session of \<open>demo_client\<close>, which remembers the password, and a fresh handler after it.\<close>

definition demo_logged_in :: client where
  "demo_logged_in = handle_peer_info demo_client_env (base_peer_info demo_env)
     (handle_login_from_ui demo_client_env [] [] demo_pw True demo_client)"

definition demo_hash2 :: hash where "demo_hash2 = \<lparr>hs_salt = ''salt'', hs_challenge = ''next''\<rparr>"

lemma storable_fix: "peer_storable kr u c \<Longrightarrow> peer_storable kr u (fix_keyboard_mode p c)"
  by (simp add: peer_storable_def fix_keyboard_mode_fields)

lemma demo_default_storable:
  assumes "vec_ok demo_keyring p"
  shows "peer_storable demo_keyring demo_user_default ((peer_config_default demo_user_default)
    \<lparr>pc_info := i, pc_password := p\<rparr>)"
    "hm_ok (pc_options (peer_config_default demo_user_default))"
proof -
  have "deserialize_peer demo_user_default (peer_config_default demo_user_default)
      = peer_config_default demo_user_default"
    by (simp add: deserialize_peer_def peer_config_default_def or_default_def quality_ok_def
        default_custom_image_quality_def ud_get_def ud_get_string_def ud_get_after_def get_or_def
        demo_user_default_def ud_get_double_string_def f64_as_i32_def)
  moreover have "hm_get (pc_options (peer_config_default demo_user_default)) k = None"
    if "k \<in> set secret_options" for k
    using that by (auto simp: peer_config_default_def default_options_def default_option_keys_def secret_options_def)
  ultimately show "peer_storable demo_keyring demo_user_default ((peer_config_default demo_user_default)
    \<lparr>pc_info := i, pc_password := p\<rparr>)"
    using assms by (simp add: peer_storable_def deserialize_peer_def peer_config_default_def)
  show "hm_ok (pc_options (peer_config_default demo_user_default))"
    by (simp add: peer_config_default_def default_options_def default_option_keys_def hm_ok_def)
qed

lemma handle_peer_info_config:
  assumes "lc_remember c" and "lc_password c \<noteq> []" and "lc_password_source c = UndefinedSource"
    and "lc_other_server c = None" and "\<not> lc_force_relay c"
    and "ps_files (cl_store c) (peer_path (ps_keyring (cl_store c)) (lc_id c)) = None"
  shows "lc_config (handle_peer_info e pinfo c) = fix_keyboard_mode pinfo
    ((peer_config_default (ps_user_default (cl_store c)))\<lparr>pc_info := \<lparr>pis_username = pi_username pinfo,
       pis_hostname = pi_hostname pinfo, pis_platform = pi_platform pinfo\<rparr>, pc_password := lc_password c\<rparr>)"
  using handle_peer_info_result(2) [OF assms(1-3) peer_load_keyring(3) [OF assms(6)], of e pinfo] assms(4,5)
  by (simp add: note_server_def peer_info_fields_fields)

theorem remembered_password_lets_in_witness:
  "\<exists>lr. last_sent (handle_hash demo_client_env [] demo_hash2 (initialize demo_client_env ''123456789''
        DEFAULT_CONN None False None None (demo_client\<lparr>cl_store := cl_store demo_logged_in\<rparr>)))
      = Some (MsgLoginRequest lr) \<and>
     c_authorized (snd (on_message demo_env (MsgLoginRequest lr)
       (snd (start demo_env 5 None ''salt'' ''next'' 0 ''10.0.0.1'' demo_world))))"
proof -
  let ?p = "e_sha256 demo_env (bytes_of demo_pw @ bytes_of ''salt'')"
  have st: "start demo_env 5 None (hs_salt demo_hash2) (hs_challenge demo_hash2) 0 ''10.0.0.1'' demo_world =
      (True, snd (start demo_env 5 None ''salt'' ''next'' 0 ''10.0.0.1'' demo_world))"
    using demo_host(5) by (simp add: prod_eq_iff demo_hash2_def)
  have p: "vec_ok demo_keyring ?p"
    by (simp add: vec_ok_def dec_vec_def demo_keyring_def decrypt_vec_or_original_def VERSION_LEN_def
        version_00_def ENCRYPT_MAX_LEN_def demo_env_def demo_pw_def bytes_of_def)
  have cfg: "lc_config demo_logged_in = fix_keyboard_mode (base_peer_info demo_env)
    ((peer_config_default demo_user_default)\<lparr>pc_info := \<lparr>pis_username = ''user'', pis_hostname = ''host'',
       pis_platform = ''Linux''\<rparr>, pc_password := ?p\<rparr>)"
  proof -
    define c0 where "c0 = handle_login_from_ui demo_client_env [] [] demo_pw True demo_client"
    have "ps_files demo_peer_store k = None" for k by (simp add: demo_peer_store_def)
    then have "lc_remember c0" "lc_password c0 = ?p" "lc_password_source c0 = UndefinedSource"
      "lc_other_server c0 = None" "\<not> lc_force_relay c0" "cl_store c0 = demo_peer_store"
      using p by (simp_all add: c0_def handle_login_from_ui_def send_login_fields demo_client_def
          demo_client_env_def demo_pw_def demo_hash_def demo_env_def Let_def)
    then show ?thesis
      using handle_peer_info_config [of c0 demo_client_env "base_peer_info demo_env"] demo_host(3)
      by (simp add: demo_logged_in_def c0_def [symmetric] demo_peer_store_def)
        (simp add: base_peer_info_def demo_env_def)
  qed
  note r = remembered_password_lets_in [OF st demo_host(1,2), where c = demo_client and ce = demo_client_env
      and pinfo = "base_peer_info demo_env" and os_user = "[]" and os_pw = "[]" and luid = None
      and d = "demo_client\<lparr>cl_store := cl_store demo_logged_in\<rparr>", folded demo_logged_in_def]
  have store: "cl_store demo_client = demo_peer_store" "ps_keyring demo_peer_store = demo_keyring"
    "ps_user_default demo_peer_store = demo_user_default" "keyring_ok demo_keyring"
    by (simp_all add: demo_client_def demo_peer_store_def keyring_ok_def, simp_all add: demo_keyring_def)
  have "peer_storable demo_keyring demo_user_default (lc_config demo_logged_in)"
    "hm_ok (pc_options (lc_config demo_logged_in))"
    using demo_default_storable [OF p] storable_fix by (simp_all add: cfg fix_keyboard_mode_fields)
  with r show ?thesis
    unfolding demo_host(4) store
    by (simp add: demo_hash2_def demo_hash_def demo_host(3) demo_client_env_def handle_relay_id_def suffix_def
        store demo_client_def)
qed

theorem refusal_ends_session_witness:
  "\<exists>err link. handle_login_error err demo_client =
     (False, demo_client\<lparr>cl_out := [ClMsgBox ''error'' ''Login Error'' err link]\<rparr>)"
proof -
  let ?lr = "login_request_default\<lparr>lr_username := ''42''\<rparr>"
  have "\<not> fst (on_message demo_env (MsgLoginRequest ?lr) demo_conn)"
    by (simp add: on_message_def on_login_request_def handle_login_request_without_validation_def Let_def
        login_request_default_def login_kind_def is_in_privacy_mode_def try_start_desktop_def demo_defs
        login_validate_def)
  then have "on_message demo_env (MsgLoginRequest ?lr) demo_conn
      = (False, snd (on_message demo_env (MsgLoginRequest ?lr) demo_conn))"
    by (simp add: prod_eq_iff)
  from refusal_ends_session [OF this, of demo_client] show ?thesis by (auto simp: demo_client_def)
qed

end
