(* ===== verification/Cm_Interface.thy ===== *)
theory Cm_Interface
  imports Conn_Loop
begin

text \<open>
  The connection manager (\<open>src/ui_cm_interface.rs\<close>): the process that shows the connections to the
  user of the host, lets the user allow and close them, and carries out the file commands of the
  peers. It keeps one client per connection and runs one task per IPC stream. A task's state is
  the state of the process (\<open>cm_state\<close>) extended by the fields of \<open>IpcTaskRunner\<close> and the locals of
  its \<open>run\<close>. What the file system answers to a command comes from the environment; files being
  written are those of \<open>Transfer_Job\<close>. The build is the Linux desktop one with file clipboards.
\<close>

section \<open>Clients\<close>

record cm_client =
  cc_id :: i32
  cc_authorized :: bool
  cc_disconnected :: bool
  cc_is_file_transfer :: bool
  cc_port_forward :: string
  cc_name :: string
  cc_peer_id :: string
  cc_keyboard :: bool
  cc_clipboard :: bool
  cc_audio :: bool
  cc_file :: bool
  cc_restart :: bool
  cc_recording :: bool
  cc_block_input :: bool
  cc_from_switch :: bool
  cc_in_voice_call :: bool
  cc_incoming_voice_call :: bool
  cc_tx :: nat  \<comment> \<open>the channel to its task\<close>

datatype cm_ui =
    UiAddConnection cm_client
  | UiRemoveConnection i32 bool
  | UiNewMessage i32 string
  | UiChangeTheme string
  | UiChangeLanguage string
  | UiShowElevation bool
  | UiVoiceCallState cm_client
  | UiFileTransferLog string file_log

record cm_state =
  ms_clients :: "(i32, cm_client) hmap"
  ms_click_time :: i64
  ms_context :: context_send
  ms_registry :: clip_registry
  ms_queues :: "nat \<Rightarrow> cm_event list"
  ms_fs :: file_system
  ms_ui :: "cm_ui list"

definition cm_ui :: "cm_ui \<Rightarrow> 'a cm_state_scheme \<Rightarrow> 'a cm_state_scheme" where
  "cm_ui x s = s\<lparr>ms_ui := ms_ui s @ [x]\<rparr>"

definition cm_queue :: "nat \<Rightarrow> cm_event \<Rightarrow> 'a cm_state_scheme \<Rightarrow> 'a cm_state_scheme" where
  "cm_queue tx d s = s\<lparr>ms_queues := (ms_queues s)(tx := ms_queues s tx @ [d])\<rparr>"

definition cm_context :: "context_call \<Rightarrow> 'a cm_state_scheme \<Rightarrow> 'a cm_state_scheme" where
  "cm_context call s = s\<lparr>ms_context := context_proc call (ms_context s)\<rparr>"

text \<open>\<open>CLIENTS.write().get_mut(&id)\<close>, and the same with a notice to the user interface.\<close>

definition cm_client_edit :: "i32 \<Rightarrow> (cm_client \<Rightarrow> cm_client) \<Rightarrow> 'a cm_state_scheme \<Rightarrow> 'a cm_state_scheme" where
  "cm_client_edit i f s =
     (case hm_get (ms_clients s) i of
        Some c \<Rightarrow> s\<lparr>ms_clients := hm_insert i (f c) (ms_clients s)\<rparr> | None \<Rightarrow> s)"

definition cm_voice_edit :: "i32 \<Rightarrow> (cm_client \<Rightarrow> cm_client) \<Rightarrow> 'a cm_state_scheme \<Rightarrow> 'a cm_state_scheme" where
  "cm_voice_edit i f s =
     (case hm_get (ms_clients s) i of
        Some c \<Rightarrow> cm_ui (UiVoiceCallState (f c)) (s\<lparr>ms_clients := hm_insert i (f c) (ms_clients s)\<rparr>) | None \<Rightarrow> s)"

definition cm_add_connection :: "cm_login \<Rightarrow> nat \<Rightarrow> 'a cm_state_scheme \<Rightarrow> 'a cm_state_scheme" where
  "cm_add_connection l tx s =
     (let client = \<lparr>cc_id = cl_id l, cc_authorized = cl_authorized l, cc_disconnected = False,
            cc_is_file_transfer = cl_is_file_transfer l, cc_port_forward = cl_port_forward l,
            cc_name = cl_name l, cc_peer_id = cl_peer_id l, cc_keyboard = cl_keyboard l,
            cc_clipboard = cl_clipboard l, cc_audio = cl_audio l, cc_file = cl_file l,
            cc_restart = cl_restart l, cc_recording = cl_recording l, cc_block_input = cl_block_input l,
            cc_from_switch = cl_from_switch l, cc_in_voice_call = False, cc_incoming_voice_call = False,
            cc_tx = tx\<rparr>;
          m = hm_retain (\<lambda>_ c. \<not> (cc_disconnected c \<and> cc_peer_id c = cc_peer_id client)) (ms_clients s)
      in cm_ui (UiAddConnection client) (s\<lparr>ms_clients := hm_insert (cl_id l) client m\<rparr>))"

definition cm_is_authorized :: "i32 \<Rightarrow> 'a cm_state_scheme \<Rightarrow> bool" where
  "cm_is_authorized i s = (case hm_get (ms_clients s) i of Some c \<Rightarrow> cc_authorized c | None \<Rightarrow> False)"

definition cm_remove_connection :: "i32 \<Rightarrow> bool \<Rightarrow> 'a cm_state_scheme \<Rightarrow> 'a cm_state_scheme" where
  "cm_remove_connection i close s =
     (let s = (if close then s\<lparr>ms_clients := hm_remove i (ms_clients s)\<rparr>
               else cm_client_edit i (\<lambda>c. c\<lparr>cc_disconnected := True\<rparr>) s);
          s = cm_context (EmptyClipboard i) s
      in cm_ui (UiRemoveConnection i close) s)"

definition voice_call_started :: "i32 \<Rightarrow> 'a cm_state_scheme \<Rightarrow> 'a cm_state_scheme" where
  "voice_call_started i = cm_voice_edit i (\<lambda>c. c\<lparr>cc_incoming_voice_call := False, cc_in_voice_call := True\<rparr>)"

definition voice_call_incoming :: "i32 \<Rightarrow> 'a cm_state_scheme \<Rightarrow> 'a cm_state_scheme" where
  "voice_call_incoming i = cm_voice_edit i (\<lambda>c. c\<lparr>cc_incoming_voice_call := True, cc_in_voice_call := False\<rparr>)"

definition voice_call_closed :: "i32 \<Rightarrow> 'a cm_state_scheme \<Rightarrow> 'a cm_state_scheme" where
  "voice_call_closed i = cm_voice_edit i (\<lambda>c. c\<lparr>cc_incoming_voice_call := False, cc_in_voice_call := False\<rparr>)"

section \<open>What the user can do\<close>

definition to_client :: "i32 \<Rightarrow> cm_event \<Rightarrow> cm_state \<Rightarrow> cm_state" where
  "to_client i d s =
     (case hm_get (ms_clients s) i of Some c \<Rightarrow> cm_queue (cc_tx c) d s | None \<Rightarrow> s)"

definition check_click_time :: "i32 \<Rightarrow> cm_state \<Rightarrow> cm_state" where
  "check_click_time i = to_client i CmOther"  \<comment> \<open>\<open>Data::ClickTime(0)\<close>, which the connection itself ignores\<close>

definition cm_authorize :: "i32 \<Rightarrow> cm_state \<Rightarrow> cm_state" where
  "cm_authorize i s = to_client i CmAuthorize (cm_client_edit i (\<lambda>c. c\<lparr>cc_authorized := True\<rparr>) s)"

definition cm_close :: "i32 \<Rightarrow> cm_state \<Rightarrow> cm_state" where
  "cm_close i = to_client i CmCloseRequest"

definition cm_remove :: "i32 \<Rightarrow> cm_state \<Rightarrow> cm_state" where
  "cm_remove i s = s\<lparr>ms_clients := hm_remove i (ms_clients s)\<rparr>"

definition cm_send_chat :: "i32 \<Rightarrow> string \<Rightarrow> cm_state \<Rightarrow> cm_state" where
  "cm_send_chat i txt = to_client i (CmChat txt)"

definition cm_switch_permission :: "i32 \<Rightarrow> string \<Rightarrow> bool \<Rightarrow> cm_state \<Rightarrow> cm_state" where
  "cm_switch_permission i name enabled = to_client i (CmSwitchPermission name enabled)"

definition get_clients_length :: "cm_state \<Rightarrow> nat" where
  "get_clients_length s = length (ms_clients s)"

definition cm_switch_back :: "i32 \<Rightarrow> cm_state \<Rightarrow> cm_state" where
  "cm_switch_back i = to_client i CmSwitchSidesBack"

definition handle_incoming_voice_call :: "i32 \<Rightarrow> bool \<Rightarrow> cm_state \<Rightarrow> cm_state" where
  "handle_incoming_voice_call i accept = to_client i (CmVoiceCallResponse accept)"

definition cm_close_voice_call :: "i32 \<Rightarrow> cm_state \<Rightarrow> cm_state" where
  "cm_close_voice_call i = to_client i CmVoiceCallClosed"

section \<open>File commands\<close>

text \<open>The results of the file system's calls: the inner error is the call's, the outer one that of
  the thread it ran in. \<open>me_encode\<close> is \<open>write_to_bytes\<close> of the protobuf library.\<close>

type_synonym call_result = "string + (string + unit)"

record cm_env =
  me_home :: string
  me_read_dir :: "string \<Rightarrow> bool \<Rightarrow> string + (string + string \<times> file_entry list)"
  me_remove_file :: "string \<Rightarrow> call_result"
  me_create_dir :: "string \<Rightarrow> call_result"
  me_remove_dir :: "string \<Rightarrow> call_result"
  me_remove_all_empty_dir :: "string \<Rightarrow> call_result"
  me_zstd :: zstd
  me_encode :: "message \<Rightarrow> bytes option"

definition cm_read_dir :: "cm_env \<Rightarrow> string \<Rightarrow> bool \<Rightarrow> message list" where
  "cm_read_dir e dir include_hidden =
     (let path = (if dir = [] then me_home e else dir) in
      case me_read_dir e path include_hidden of
        Inr (Inr (p, entries)) \<Rightarrow> [new_dir 0 p entries]
      | _ \<Rightarrow> [])"

definition handle_result :: "call_result \<Rightarrow> i32 \<Rightarrow> i32 \<Rightarrow> message list" where
  "handle_result res i file_num =
     (case res of
        Inl err \<Rightarrow> [new_error i err file_num]
      | Inr (Inl err) \<Rightarrow> [new_error i err file_num]
      | Inr (Inr _) \<Rightarrow> [new_done i file_num])"

definition cm_remove_dir :: "cm_env \<Rightarrow> string \<Rightarrow> i32 \<Rightarrow> bool \<Rightarrow> message list" where
  "cm_remove_dir e path i recursive =
     handle_result (if recursive then me_remove_all_empty_dir e path else me_remove_dir e path) i 0"

text \<open>What \<open>handle_fs\<close> works on: the jobs of the task, the files, and what it has sent and logged.\<close>

record fs_work =
  fw_jobs :: "transfer_job list"
  fw_fs :: file_system
  fw_sent :: "message list"
  fw_log :: "file_log list"

definition fw_send :: "message list \<Rightarrow> fs_work \<Rightarrow> fs_work" where
  "fw_send ms w = w\<lparr>fw_sent := fw_sent w @ ms\<rparr>"

definition fw_note :: "file_log \<Rightarrow> fs_work \<Rightarrow> fs_work" where
  "fw_note l w = w\<lparr>fw_log := fw_log w @ [l]\<rparr>"

definition fw_drop :: "i32 \<Rightarrow> fs_work \<Rightarrow> fs_work" where
  "fw_drop i w = w\<lparr>fw_jobs := remove_job i (fw_jobs w)\<rparr>"

definition cm_new_write ::
    "i32 \<Rightarrow> string \<Rightarrow> i32 \<Rightarrow> (string \<times> u64) list \<Rightarrow> bool \<Rightarrow> u64 \<Rightarrow> i32 \<Rightarrow> transfer_job" where
  "cm_new_write i path file_num files od total_size conn_id =
     (new_write i [] path file_num False False
        (map (\<lambda>f. \<lparr>fe_name = fst f, fe_size = 0, fe_modified_time = snd f\<rparr>) files) od)
       \<lparr>tj_total_size := total_size, tj_conn_id := conn_id\<rparr>"

definition check_digest :: "i32 \<Rightarrow> i32 \<Rightarrow> u64 \<Rightarrow> u64 \<Rightarrow> bool \<Rightarrow> transfer_job \<Rightarrow> file_system \<Rightarrow> message list" where
  "check_digest i file_num file_size last_modified is_upload job fs =
     (if as_usize file_num < length (tj_files job) then
        (case is_write_need_confirmation fs (job_join job (fe_name (tj_files job ! as_usize file_num)))
                i file_num last_modified file_size of
           NeedConfirm i n mtime sz identical \<Rightarrow> [MsgFileResponse (Some (FrDigest i n mtime sz is_upload identical))]
         | NoSuchFile \<Rightarrow> [new_send_confirm i file_num (Some (Inr 0))])
      else [])"

definition handle_fs :: "cm_env \<Rightarrow> fs_cmd \<Rightarrow> fs_work \<Rightarrow> fs_work" where
  "handle_fs e cmd w =
     (case cmd of
        FsReadDir dir include_hidden \<Rightarrow> fw_send (cm_read_dir e dir include_hidden) w
      | FsRemoveDir i path recursive \<Rightarrow> fw_send (cm_remove_dir e path i recursive) w
      | FsRemoveFile i path file_num \<Rightarrow> fw_send (handle_result (me_remove_file e path) i file_num) w
      | FsCreateDir i path \<Rightarrow> fw_send (handle_result (me_create_dir e path) i 0) w
      | FsNewWrite i path file_num files od total_size conn_id \<Rightarrow>
          w\<lparr>fw_jobs := fw_jobs w @ [cm_new_write i path file_num files od total_size conn_id]\<rparr>
      | FsCancelWrite i \<Rightarrow>
          (case get_job i (fw_jobs w) of
             Some job \<Rightarrow>
               fw_drop i (fw_note (JobLog job False True []) (w\<lparr>fw_fs := remove_download_file job (fw_fs w)\<rparr>))
           | None \<Rightarrow> w)
      | FsWriteDone i file_num \<Rightarrow>
          (case get_job i (fw_jobs w) of
             Some job \<Rightarrow>
               fw_drop i (fw_note (JobLog job True False [])
                 (fw_send [new_done i file_num] (w\<lparr>fw_fs := modify_time job (fw_fs w)\<rparr>)))
           | None \<Rightarrow> w)
      | FsWriteError i file_num err \<Rightarrow>
          (case get_job i (fw_jobs w) of
             Some job \<Rightarrow>
               fw_drop (tj_id job) (fw_send [new_error (tj_id job) err file_num]
                 (fw_note (JobLog job False False err) w))
           | None \<Rightarrow> w)
      | FsWriteBlock i file_num data compressed \<Rightarrow>
          (case get_job i (fw_jobs w) of
             Some job \<Rightarrow>
               (let (res, job, fs) = job_write (me_zstd e)
                      \<lparr>fb_id = i, fb_file_num = file_num, fb_data = data, fb_compressed = compressed\<rparr> (job, fw_fs w);
                    w = w\<lparr>fw_jobs := update_job i (\<lambda>_. job) (fw_jobs w), fw_fs := fs\<rparr>
                in case res of Inl err \<Rightarrow> fw_send [new_error i err file_num] w | Inr _ \<Rightarrow> w)
           | None \<Rightarrow> w)
      | FsCheckDigest i file_num file_size last_modified is_upload \<Rightarrow>
          (case get_job i (fw_jobs w) of
             Some job \<Rightarrow> fw_send (check_digest i file_num file_size last_modified is_upload job (fw_fs w)) w
           | None \<Rightarrow> w))"

section \<open>A task\<close>

text \<open>The fields of \<open>IpcTaskRunner\<close>; then the locals of \<open>run\<close>: the write jobs, whether the client
  was authorized when it began, its clipboard channel, and the log channel; and what went out on
  the stream.\<close>

record cm_task = cm_state +
  rn_tx :: nat
  rn_close :: bool
  rn_running :: bool
  rn_conn_id :: i32
  rn_file_transfer_enabled :: bool
  rn_file_transfer_enabled_peer :: bool
  rn_write_jobs :: "transfer_job list"
  rn_is_authorized :: bool
  rn_clip :: "nat option"
  rn_log :: "file_log list"
  rn_stream :: "cm_event list"

text \<open>The task does not read what a connection sends as it is: \<open>Data\<close> has more members. They are the
  ones the connection sends (\<open>cm_data\<close>), the ones of other processes, and a block whose raw
  bytes did not arrive.\<close>

datatype cm_input =
    FromConnection cm_data
  | BlockLost
  | ClickTimeIs i64
  | Theme string
  | Language string
  | ShowElevation bool

datatype cm_task_event =
    StreamError
  | StreamNone
  | StreamData cm_input
  | RxReady bool         \<comment> \<open>sending what was received succeeded\<close>
  | ClipReady
  | LogReady

definition run_begin :: "cm_task \<Rightarrow> cm_task" where
  "run_begin t =
     (let authorized = cm_is_authorized (rn_conn_id t) t;
          t = t\<lparr>rn_write_jobs := [], rn_is_authorized := authorized, rn_log := []\<rparr>;
          t = (if 0 < sint (rn_conn_id t) \<and> authorized then
                 (let (i, r) = get_rx_cliprdr_server (rn_conn_id t) (ms_registry t)
                  in t\<lparr>rn_clip := Some i, ms_registry := r\<rparr>)
               else t\<lparr>rn_clip := None\<rparr>);
          t = (if cx_enabled (ms_context t) then t\<lparr>rn_stream := rn_stream t @ [CmClipFile MonitorReady]\<rparr> else t)
      in t\<lparr>rn_running := False\<rparr>)"

definition task_begin :: "nat \<Rightarrow> cm_state \<Rightarrow> cm_task" where
  "task_begin tx s =
     run_begin (cm_state.extend s (cm_task.fields tx True True 0 False False [] False None [] []))"

definition send_raw :: "cm_env \<Rightarrow> nat \<Rightarrow> message \<Rightarrow> cm_task \<Rightarrow> cm_task" where
  "send_raw e tx m t =
     (case me_encode e m of Some bytes \<Rightarrow> cm_queue tx (CmRawMessage bytes) t | None \<Rightarrow> t)"

text \<open>The part of a task \<open>handle_fs\<close> works on, and back.\<close>

definition task_handle_fs :: "cm_env \<Rightarrow> fs_cmd \<Rightarrow> cm_task \<Rightarrow> cm_task" where
  "task_handle_fs e cmd t =
     (let w = handle_fs e cmd \<lparr>fw_jobs = rn_write_jobs t, fw_fs = ms_fs t, fw_sent = [], fw_log = []\<rparr>;
          t = t\<lparr>rn_write_jobs := fw_jobs w, ms_fs := fw_fs w, rn_log := rn_log t @ fw_log w\<rparr>
      in fold (send_raw e (rn_tx t)) (fw_sent w) t)"

text \<open>A message of the file clipboard from the peer: dropped, or given to the system's clipboard.\<close>

definition clip_from_peer :: "clipboard_file \<Rightarrow> cm_task \<Rightarrow> cm_task" where
  "clip_from_peer clip t =
     (let stop = (\<not> is_stopping_allowed_from_peer clip \<and>
                  \<not> (cx_enabled (ms_context t) \<and> rn_file_transfer_enabled t))
      in if stop then cm_context SetIsStopped t
         else if \<not> rn_is_authorized t then t
         else cm_context (ServerClipFile (rn_conn_id t) clip) t)"

text \<open>One from the system's clipboard, for the peer.\<close>

definition clip_from_system :: "clipboard_file \<Rightarrow> cm_task \<Rightarrow> cm_task" where
  "clip_from_system clip t =
     (let stop = (is_stopping_allowed clip \<and>
                  \<not> (cx_enabled (ms_context t) \<and> rn_file_transfer_enabled t \<and> rn_file_transfer_enabled_peer t))
      in if stop then cm_context SetIsStopped t else cm_queue (rn_tx t) (CmClipFile clip) t)"

definition on_cm_data :: "cm_env \<Rightarrow> cm_data \<Rightarrow> cm_task \<Rightarrow> bool \<times> cm_task" where
  "on_cm_data e d t =
     (case d of
        CmLogin l \<Rightarrow>
          (False, (cm_add_connection l (rn_tx t) t)
             \<lparr>rn_conn_id := cl_id l, rn_file_transfer_enabled := cl_file_transfer_enabled l, rn_running := True\<rparr>)
      | CmClose \<Rightarrow> (False, t)
      | CmDisconnected \<Rightarrow> (False, t\<lparr>rn_close := False\<rparr>)
      | CmChatMessage txt \<Rightarrow> (True, cm_ui (UiNewMessage (rn_conn_id t) txt) t)
      | CmFS cmd \<Rightarrow>
          (let t = task_handle_fs e cmd t
           in (True, cm_ui (UiFileTransferLog ''transfer'' (JobsLog (rn_write_jobs t))) t))
      | CmFileTransferLog action log \<Rightarrow> (True, cm_ui (UiFileTransferLog action log) t)
      | CmClipboardFile clip \<Rightarrow> (True, clip_from_peer clip t)
      | CmClipboardFileEnabled enabled \<Rightarrow> (True, t\<lparr>rn_file_transfer_enabled_peer := enabled\<rparr>)
      | CmStartVoiceCall \<Rightarrow> (True, voice_call_started (rn_conn_id t) t)
      | CmVoiceCallIncoming \<Rightarrow> (True, voice_call_incoming (rn_conn_id t) t)
      | CmCloseVoiceCall reason \<Rightarrow> (True, voice_call_closed (rn_conn_id t) t)
      | CmTest \<Rightarrow> (True, t))"

definition on_cm_input :: "cm_env \<Rightarrow> cm_input \<Rightarrow> cm_task \<Rightarrow> bool \<times> cm_task" where
  "on_cm_input e d t =
     (case d of
        FromConnection d \<Rightarrow> on_cm_data e d t
      | BlockLost \<Rightarrow> (True, cm_ui (UiFileTransferLog ''transfer'' (JobsLog (rn_write_jobs t))) t)
      | ClickTimeIs n \<Rightarrow> (True, t\<lparr>ms_click_time := n\<rparr>)
      | Theme dark \<Rightarrow> (True, cm_ui (UiChangeTheme dark) t)
      | Language lang \<Rightarrow> (True, cm_ui (UiChangeLanguage lang) t)
      | ShowElevation b \<Rightarrow> (True, cm_ui (UiShowElevation b) t))"

text \<open>What the task's own channel holds goes to the connection.\<close>

definition on_rx :: "bool \<Rightarrow> cm_task \<Rightarrow> bool \<times> cm_task" where
  "on_rx sent t =
     (case ms_queues t (rn_tx t) of
        [] \<Rightarrow> (True, t)
      | d # ds \<Rightarrow>
          (let t = t\<lparr>ms_queues := (ms_queues t)(rn_tx t := ds)\<rparr> in
           if \<not> sent then (False, t)
           else
             (let t = t\<lparr>rn_stream := rn_stream t @ [d]\<rparr> in
              case d of
                CmSwitchPermission name enabled \<Rightarrow>
                  (True, if name = ''file'' then t\<lparr>rn_file_transfer_enabled := enabled\<rparr> else t)
              | CmAuthorize \<Rightarrow> (False, t\<lparr>rn_running := True\<rparr>)
              | _ \<Rightarrow> (True, t))))"

definition on_clip :: "cm_task \<Rightarrow> cm_task" where
  "on_clip t =
     (case rn_clip t of
        None \<Rightarrow> t
      | Some i \<Rightarrow>
          (let chs = cr_channels (ms_registry t) in
           if i < length chs then
             (case ch_queue (chs ! i) of
                [] \<Rightarrow> t
              | clip # rest \<Rightarrow>
                  clip_from_system clip
                    (t\<lparr>ms_registry := (ms_registry t)\<lparr>cr_channels := chs[i := (chs ! i)\<lparr>ch_queue := rest\<rparr>]\<rparr>\<rparr>))
           else t))"

definition on_log :: "cm_task \<Rightarrow> cm_task" where
  "on_log t =
     (case rn_log t of
        [] \<Rightarrow> t
      | l # ls \<Rightarrow> cm_ui (UiFileTransferLog ''transfer'' l) (t\<lparr>rn_log := ls\<rparr>))"

definition cm_arm :: "cm_env \<Rightarrow> cm_task_event \<Rightarrow> cm_task \<Rightarrow> bool \<times> cm_task" where
  "cm_arm e ev t =
     (case ev of
        StreamError \<Rightarrow> (False, t)
      | StreamNone \<Rightarrow> (True, t)
      | StreamData d \<Rightarrow> on_cm_input e d t
      | RxReady sent \<Rightarrow> on_rx sent t
      | ClipReady \<Rightarrow> (True, on_clip t)
      | LogReady \<Rightarrow> (True, on_log t))"

definition task_end :: "cm_task \<Rightarrow> cm_task" where
  "task_end t =
     (if 0 < sint (rn_conn_id t) then cm_remove_connection (rn_conn_id t) (rn_close t) t else t)"

text \<open>One turn of \<open>ipc_task\<close>: an arm of the loop, and when it breaks either the next \<open>run\<close> or the end.
  Between two turns other tasks and the user change the state of the process.\<close>

definition cm_turn :: "cm_env \<Rightarrow> cm_task_event \<Rightarrow> cm_task \<Rightarrow> bool \<times> cm_task" where
  "cm_turn e ev t =
     (let (go, t) = cm_arm e ev t
      in if go then (True, t) else if rn_running t then (True, run_begin t) else (False, task_end t))"

end
