(* ===== verification/Cm_Process.thy ===== *)
theory Cm_Process
  imports Cm_Interface Conn_Auth
begin

text \<open>
  The process of the connection manager: many tasks and the user on one state, interleaved in any
  order (\<open>start_ipc\<close>, \<open>ipc_task\<close> and the functions of the user interface in
  \<open>src/ui_cm_interface.rs\<close>). Its states are reached by a step relation; rule induction gives that no
  client is shown whose task is gone. The other theorems: what reaches the system's clipboard,
  and that a file request of a peer is answered.
\<close>

section \<open>Tasks and the user\<close>

text \<open>A task between two of its turns: its own part, without the state of the process.\<close>

record cm_process =
  cp_state :: cm_state
  cp_tasks :: "(nat, cm_task) hmap"

definition with_state :: "cm_state \<Rightarrow> cm_task \<Rightarrow> cm_task" where
  "with_state s t =
     t\<lparr>ms_clients := ms_clients s, ms_click_time := ms_click_time s, ms_context := ms_context s,
       ms_registry := ms_registry s, ms_queues := ms_queues s, ms_fs := ms_fs s, ms_ui := ms_ui s\<rparr>"

datatype user_action =
    UAuthorize i32
  | UClose i32
  | URemove i32
  | UChat i32 string
  | USwitchPermission i32 string bool
  | UClickTime i32
  | USwitchBack i32
  | UVoiceAnswer i32 bool
  | UVoiceClose i32

definition user_step :: "user_action \<Rightarrow> cm_state \<Rightarrow> cm_state" where
  "user_step a s =
     (case a of
        UAuthorize i \<Rightarrow> cm_authorize i s
      | UClose i \<Rightarrow> cm_close i s
      | URemove i \<Rightarrow> cm_remove i s
      | UChat i txt \<Rightarrow> cm_send_chat i txt s
      | USwitchPermission i name b \<Rightarrow> cm_switch_permission i name b s
      | UClickTime i \<Rightarrow> check_click_time i s
      | USwitchBack i \<Rightarrow> cm_switch_back i s
      | UVoiceAnswer i b \<Rightarrow> handle_incoming_voice_call i b s
      | UVoiceClose i \<Rightarrow> cm_close_voice_call i s)"

text \<open>What the host's connections do: a connection logs in under its own id, a positive number, again
  and again if need be.\<close>

definition login_allowed :: "nat \<Rightarrow> cm_task_event \<Rightarrow> (nat, cm_task) hmap \<Rightarrow> bool" where
  "login_allowed tx ev tasks \<longleftrightarrow>
     (\<forall>l. ev = StreamData (FromConnection (CmLogin l)) \<longrightarrow>
        0 < sint (cl_id l) \<and>
        (\<forall>t. hm_get tasks tx = Some t \<longrightarrow> rn_conn_id t = 0 \<or> rn_conn_id t = cl_id l))"

definition task_turn :: "cm_env \<Rightarrow> nat \<Rightarrow> cm_task_event \<Rightarrow> cm_task \<Rightarrow> cm_process \<Rightarrow> cm_process" where
  "task_turn e tx ev t p =
     (let (alive, t) = cm_turn e ev (with_state (cp_state p) t)
      in p\<lparr>cp_state := cm_state.truncate t,
           cp_tasks := if alive then hm_insert tx t (cp_tasks p) else hm_remove tx (cp_tasks p)\<rparr>)"

inductive cm_reachable :: "cm_env \<Rightarrow> cm_state \<Rightarrow> cm_process \<Rightarrow> bool" for e s0 where
  init: "cm_reachable e s0 \<lparr>cp_state = s0, cp_tasks = []\<rparr>"
| accept: "cm_reachable e s0 p \<Longrightarrow> hm_get (cp_tasks p) tx = None \<Longrightarrow>
    cm_reachable e s0 (p\<lparr>cp_state := cm_state.truncate (task_begin tx (cp_state p)),
      cp_tasks := hm_insert tx (task_begin tx (cp_state p)) (cp_tasks p)\<rparr>)"
| turn: "cm_reachable e s0 p \<Longrightarrow> hm_get (cp_tasks p) tx = Some t \<Longrightarrow> login_allowed tx ev (cp_tasks p) \<Longrightarrow>
    cm_reachable e s0 (task_turn e tx ev t p)"
| user: "cm_reachable e s0 p \<Longrightarrow> cm_reachable e s0 (p\<lparr>cp_state := user_step a (cp_state p)\<rparr>)"

section \<open>No client without its task\<close>

text \<open>What an arm of the loop may do to the clients: change the flags of one, or log one in.\<close>

definition same_clients :: "'a cm_state_scheme \<Rightarrow> 'b cm_state_scheme \<Rightarrow> bool" where
  "same_clients s t \<longleftrightarrow>
     (\<forall>i. map_option cc_disconnected (hm_get (ms_clients t) i) =
          map_option cc_disconnected (hm_get (ms_clients s) i))"

lemma same_clients_refl: "same_clients s s"
  by (simp add: same_clients_def)

lemma same_clients_cong: "ms_clients t = ms_clients s \<Longrightarrow> same_clients s t"
  by (simp add: same_clients_def)

lemma same_clients_trans: "same_clients s t \<Longrightarrow> same_clients t u \<Longrightarrow> same_clients s u"
  by (simp add: same_clients_def)

lemma same_clients_voice:
  "(\<And>c. cc_disconnected (f c) = cc_disconnected c) \<Longrightarrow> same_clients s (cm_voice_edit i f s)"
  by (simp add: same_clients_def cm_voice_edit_def cm_ui_def split: option.split)

lemma same_clients_edit:
  "(\<And>c. cc_disconnected (f c) = cc_disconnected c) \<Longrightarrow> same_clients s (cm_client_edit i f s)"
  by (simp add: same_clients_def cm_client_edit_def split: option.split)

lemma clients_small [simp]:
  "ms_clients (cm_ui x s) = ms_clients s" "ms_clients (cm_queue tx d s) = ms_clients s"
  "ms_clients (cm_context call s) = ms_clients s"
  by (simp_all add: cm_ui_def cm_queue_def cm_context_def)

lemma rn_small [simp]:
  "rn_conn_id (cm_ui x t) = rn_conn_id t" "rn_conn_id (cm_queue tx d t) = rn_conn_id t"
  "rn_conn_id (cm_context call t) = rn_conn_id t" "rn_conn_id (cm_voice_edit i f t) = rn_conn_id t"
  "rn_tx (cm_ui x t) = rn_tx t" "rn_tx (cm_queue tx d t) = rn_tx t"
  "rn_tx (cm_context call t) = rn_tx t" "rn_tx (cm_voice_edit i f t) = rn_tx t"
  "ms_queues (cm_ui x s) = ms_queues s" "ms_queues (cm_context call s) = ms_queues s"
  by (simp_all add: cm_ui_def cm_queue_def cm_context_def cm_voice_edit_def split: option.split)

lemma send_raw_fields [simp]:
  "ms_clients (fold (send_raw e tx) ms t) = ms_clients t"
  "rn_conn_id (fold (send_raw e tx) ms t) = rn_conn_id t" "rn_tx (fold (send_raw e tx) ms t) = rn_tx t"
  "ms_context (fold (send_raw e tx) ms t) = ms_context t"
  "rn_stream (fold (send_raw e tx) ms t) = rn_stream t"
  by (induction ms arbitrary: t) (simp_all add: send_raw_def cm_queue_def split: option.split)

lemma task_handle_fs_fields [simp]:
  "ms_clients (task_handle_fs e cmd t) = ms_clients t" "rn_conn_id (task_handle_fs e cmd t) = rn_conn_id t"
  "rn_tx (task_handle_fs e cmd t) = rn_tx t" "ms_context (task_handle_fs e cmd t) = ms_context t"
  "rn_stream (task_handle_fs e cmd t) = rn_stream t"
  by (simp_all add: task_handle_fs_def Let_def)

text \<open>The clients after an arm: the same up to flags, or one more that logged in.\<close>

definition logged_in :: "cm_login \<Rightarrow> cm_task \<Rightarrow> cm_task \<Rightarrow> bool" where
  "logged_in l t t' \<longleftrightarrow>
     rn_conn_id t' = cl_id l \<and> (hm_ok (ms_clients t) \<longrightarrow>
       (\<forall>i. i \<noteq> cl_id l \<longrightarrow> hm_get (ms_clients t') i \<in> {None, hm_get (ms_clients t) i}))"

lemma on_cm_data_clients:
  assumes "on_cm_data e d t = (go, t')"
  shows "same_clients t t' \<and> rn_conn_id t' = rn_conn_id t \<or>
    (\<exists>l. d = CmLogin l \<and> logged_in l t t' \<and> rn_running t' \<and> \<not> go)"
proof (cases d)
  case (CmLogin l)
  then have "t' = (cm_add_connection l (rn_tx t) t)
      \<lparr>rn_conn_id := cl_id l, rn_file_transfer_enabled := cl_file_transfer_enabled l, rn_running := True\<rparr>" "\<not> go"
    using assms by (simp_all add: on_cm_data_def)
  then show ?thesis
    using CmLogin by (auto simp: logged_in_def cm_add_connection_def Let_def hm_get_retain split: option.splits)
next
  case (CmClipboardFile c)
  then show ?thesis
    using assms by (auto simp: on_cm_data_def clip_from_peer_def Let_def intro!: same_clients_cong)
qed (use assms in \<open>auto simp: on_cm_data_def Let_def voice_call_started_def voice_call_incoming_def
    voice_call_closed_def intro!: same_clients_cong same_clients_voice\<close>)

lemma arm_clients:
  assumes "cm_arm e ev t = (go, t')"
  shows "same_clients t t' \<and> rn_conn_id t' = rn_conn_id t \<or>
    (\<exists>l. ev = StreamData (FromConnection (CmLogin l)) \<and> logged_in l t t' \<and> rn_running t' \<and> \<not> go)"
proof (cases ev)
  case (StreamData d)
  then show ?thesis
  proof (cases d)
    case (FromConnection d')
    then show ?thesis
      using assms StreamData on_cm_data_clients [of e d' t go t'] by (auto simp: cm_arm_def on_cm_input_def)
  qed (use assms StreamData in \<open>auto simp: cm_arm_def on_cm_input_def intro!: same_clients_cong\<close>)
next
  case (RxReady b)
  then show ?thesis
    using assms by (auto simp: cm_arm_def on_rx_def Let_def same_clients_refl intro!: same_clients_cong
        split: list.splits cm_event.splits if_splits)
next
  case ClipReady
  then show ?thesis
    using assms by (auto simp: cm_arm_def on_clip_def clip_from_system_def Let_def same_clients_refl
        intro!: same_clients_cong split: option.splits list.splits)
next
  case LogReady
  then show ?thesis
    using assms by (auto simp: cm_arm_def on_log_def same_clients_refl intro!: same_clients_cong split: list.splits)
qed (use assms in \<open>auto simp: cm_arm_def same_clients_refl\<close>)

lemma run_begin_fields [simp]:
  "ms_clients (run_begin t) = ms_clients t" "rn_conn_id (run_begin t) = rn_conn_id t"
  "rn_tx (run_begin t) = rn_tx t" "ms_queues (run_begin t) = ms_queues t"
  by (simp_all add: run_begin_def Let_def split_def)

text \<open>At the end of a task its own client is gone or marked as disconnected; the others stay.\<close>

lemma task_end_clients:
  "hm_get (ms_clients (task_end t)) i =
     (if i = rn_conn_id t \<and> 0 < sint i then
        (if rn_close t then None else map_option (\<lambda>c. c\<lparr>cc_disconnected := True\<rparr>) (hm_get (ms_clients t) i))
      else hm_get (ms_clients t) i)"
  by (auto simp: task_end_def cm_remove_connection_def cm_client_edit_def Let_def split: option.split)

lemma task_end_rn [simp]: "rn_conn_id (task_end t) = rn_conn_id t"
  by (simp add: task_end_def cm_remove_connection_def cm_client_edit_def cm_context_def cm_ui_def Let_def
      split: option.split)

definition connected :: "(i32, cm_client) hmap \<Rightarrow> i32 \<Rightarrow> bool" where
  "connected m i \<longleftrightarrow> map_option cc_disconnected (hm_get m i) = Some False"

lemma connected_same: "same_clients s t \<Longrightarrow> connected (ms_clients t) i = connected (ms_clients s) i"
  by (simp add: connected_def same_clients_def)

lemma connected_end:
  "connected (ms_clients (task_end t)) i \<longleftrightarrow> connected (ms_clients t) i \<and> \<not> (i = rn_conn_id t \<and> 0 < sint i)"
  by (auto simp: connected_def task_end_clients)

lemma connected_remove: "connected (hm_remove j m) i \<longleftrightarrow> connected m i \<and> i \<noteq> j"
  by (auto simp: connected_def)

lemma turn_clients:
  assumes "cm_turn e ev t = (alive, t')" and "hm_ok (ms_clients t)" and "connected (ms_clients t') i"
  shows "connected (ms_clients t) i \<or>
      alive \<and> rn_conn_id t' = i \<and> (\<exists>l. ev = StreamData (FromConnection (CmLogin l)) \<and> cl_id l = i)"
    and "rn_conn_id t = i \<Longrightarrow> 0 < sint i \<Longrightarrow>
      (\<And>l. ev = StreamData (FromConnection (CmLogin l)) \<Longrightarrow> cl_id l = i) \<Longrightarrow> alive \<and> rn_conn_id t' = i"
proof -
  obtain go t1 where arm: "cm_arm e ev t = (go, t1)" by fastforce
  consider (go) "go" "alive" "t' = t1" | (run) "\<not> go" "rn_running t1" "alive" "t' = run_begin t1"
    | (fin) "\<not> go" "\<not> rn_running t1" "\<not> alive" "t' = task_end t1"
    using assms(1) arm by (auto simp: cm_turn_def split: if_splits)
  note cases = this
  have same: "connected (ms_clients t) i" if "same_clients t t1"
    using cases assms(3) connected_same [OF that] by cases (simp_all add: connected_end)
  have "(connected (ms_clients t) i \<or>
      alive \<and> rn_conn_id t' = i \<and> (\<exists>l. ev = StreamData (FromConnection (CmLogin l)) \<and> cl_id l = i)) \<and>
    (rn_conn_id t = i \<longrightarrow> 0 < sint i \<longrightarrow>
      (\<forall>l. ev = StreamData (FromConnection (CmLogin l)) \<longrightarrow> cl_id l = i) \<longrightarrow> alive \<and> rn_conn_id t' = i)"
    using arm_clients [OF arm]
  proof
    assume s: "same_clients t t1 \<and> rn_conn_id t1 = rn_conn_id t"
    have "alive \<and> rn_conn_id t' = i" if "rn_conn_id t = i" "0 < sint i"
      using cases assms(3) s that by cases (simp_all add: connected_end)
    then show ?thesis using same s by blast
  next
    assume "\<exists>l. ev = StreamData (FromConnection (CmLogin l)) \<and> logged_in l t t1 \<and> rn_running t1 \<and> \<not> go"
    then obtain l where l: "ev = StreamData (FromConnection (CmLogin l))" "logged_in l t t1" "rn_running t1" "\<not> go"
      by blast
    then have t': "alive" "t' = run_begin t1" using cases by auto
    have "connected (ms_clients t) i" if "i \<noteq> cl_id l"
    proof -
      have "hm_get (ms_clients t1) i \<in> {None, hm_get (ms_clients t) i}"
        using l(2) assms(2) that unfolding logged_in_def by blast
      then show ?thesis using assms(3) t' by (auto simp: connected_def)
    qed
    then show ?thesis using l(1,2) t' by (auto simp: logged_in_def)
  qed
  then show "connected (ms_clients t) i \<or>
      alive \<and> rn_conn_id t' = i \<and> (\<exists>l. ev = StreamData (FromConnection (CmLogin l)) \<and> cl_id l = i)"
    and "rn_conn_id t = i \<Longrightarrow> 0 < sint i \<Longrightarrow>
      (\<And>l. ev = StreamData (FromConnection (CmLogin l)) \<Longrightarrow> cl_id l = i) \<Longrightarrow> alive \<and> rn_conn_id t' = i"
    by blast+
qed

lemma cm_voice_edit_ok: "hm_ok (ms_clients s) \<Longrightarrow> hm_ok (ms_clients (cm_voice_edit i f s))"
  by (simp add: cm_voice_edit_def split: option.split)

lemma cm_client_edit_ok: "hm_ok (ms_clients s) \<Longrightarrow> hm_ok (ms_clients (cm_client_edit i f s))"
  by (simp add: cm_client_edit_def split: option.split)

lemma on_cm_data_ok: "hm_ok (ms_clients t) \<Longrightarrow> hm_ok (ms_clients (snd (on_cm_data e d t)))"
  by (cases d)
    (simp_all add: on_cm_data_def cm_add_connection_def clip_from_peer_def voice_call_started_def
      voice_call_incoming_def voice_call_closed_def cm_voice_edit_ok Let_def)

lemma arm_ok: "hm_ok (ms_clients t) \<Longrightarrow> hm_ok (ms_clients (snd (cm_arm e ev t)))"
  by (cases ev)
    (auto simp: cm_arm_def on_cm_input_def on_cm_data_ok on_rx_def on_clip_def clip_from_system_def on_log_def
      Let_def split: cm_input.split list.split cm_event.split option.split)

lemma turn_hm_ok:
  assumes "hm_ok (ms_clients t)"
  shows "hm_ok (ms_clients (snd (cm_turn e ev t)))"
proof -
  have "hm_ok (ms_clients (task_end u))" if "hm_ok (ms_clients u)" for u :: cm_task
    using that by (simp add: task_end_def cm_remove_connection_def cm_client_edit_ok Let_def)
  then show ?thesis using arm_ok [OF assms, of e ev] by (simp add: cm_turn_def split_def Let_def)
qed

section \<open>The invariant of the process\<close>

definition process_inv :: "cm_process \<Rightarrow> bool" where
  "process_inv p \<longleftrightarrow>
     hm_ok (ms_clients (cp_state p)) \<and>
     (\<forall>i. connected (ms_clients (cp_state p)) i \<longrightarrow>
        0 < sint i \<and> (\<exists>tx t. hm_get (cp_tasks p) tx = Some t \<and> rn_conn_id t = i))"

lemma with_state_fields [simp]:
  "ms_clients (with_state s t) = ms_clients s" "rn_conn_id (with_state s t) = rn_conn_id t"
  by (simp_all add: with_state_def)

lemma truncate_clients [simp]: "ms_clients (cm_state.truncate t) = ms_clients t"
  by (simp add: cm_state.defs)

lemma task_begin_clients [simp]: "ms_clients (task_begin tx s) = ms_clients s"
  by (simp add: task_begin_def cm_state.defs)

lemma to_client_clients [simp]: "ms_clients (to_client i d s) = ms_clients s"
  by (simp add: to_client_def split: option.split)

lemma user_step_clients:
  "hm_ok (ms_clients s) \<Longrightarrow> hm_ok (ms_clients (user_step a s))"
  "connected (ms_clients (user_step a s)) i \<Longrightarrow> connected (ms_clients s) i"
proof -
  have "same_clients s (user_step a s) \<and> (hm_ok (ms_clients s) \<longrightarrow> hm_ok (ms_clients (user_step a s))) \<or>
    (\<exists>j. ms_clients (user_step a s) = hm_remove j (ms_clients s))"
  proof (cases a)
    case (UAuthorize j)
    have "same_clients s (cm_client_edit j (\<lambda>c. c\<lparr>cc_authorized := True\<rparr>) s)"
      by (rule same_clients_edit) simp
    then show ?thesis using UAuthorize
      by (simp add: user_step_def cm_authorize_def cm_client_edit_ok same_clients_def)
  qed (auto simp: user_step_def cm_close_def cm_remove_def cm_send_chat_def cm_switch_permission_def
      check_click_time_def cm_switch_back_def handle_incoming_voice_call_def cm_close_voice_call_def
      intro: same_clients_cong)
  then show "hm_ok (ms_clients s) \<Longrightarrow> hm_ok (ms_clients (user_step a s))"
    "connected (ms_clients (user_step a s)) i \<Longrightarrow> connected (ms_clients s) i"
    by (auto simp: connected_same connected_remove)
qed

lemma process_turn:
  assumes "process_inv p" and "hm_get (cp_tasks p) tx = Some t" and "login_allowed tx ev (cp_tasks p)"
  shows "process_inv (task_turn e tx ev t p)"
proof -
  let ?t = "with_state (cp_state p) t"
  obtain alive t' where r: "cm_turn e ev ?t = (alive, t')" by fastforce
  have ok: "hm_ok (ms_clients ?t)" using assms(1) by (simp add: process_inv_def)
  have tasks: "cp_tasks (task_turn e tx ev t p)
      = (if alive then hm_insert tx t' (cp_tasks p) else hm_remove tx (cp_tasks p))"
    and st: "ms_clients (cp_state (task_turn e tx ev t p)) = ms_clients t'"
    by (simp_all add: task_turn_def r)
  have "0 < sint i \<and> (\<exists>tx' u. hm_get (cp_tasks (task_turn e tx ev t p)) tx' = Some u \<and> rn_conn_id u = i)"
    if c: "connected (ms_clients t') i" for i
  proof (cases "alive \<and> rn_conn_id t' = i")
    case True
    have "0 < sint i"
      using turn_clients(1) [OF r ok c] assms(1,3) by (auto simp: process_inv_def login_allowed_def)
    then show ?thesis using True by (auto simp: tasks)
  next
    case False
    then have c': "connected (ms_clients ?t) i" using turn_clients(1) [OF r ok c] by blast
    then obtain tx' u where u: "hm_get (cp_tasks p) tx' = Some u" "rn_conn_id u = i" "0 < sint i"
      using assms(1) by (auto simp: process_inv_def)
    have "tx' \<noteq> tx"
    proof
      assume "tx' = tx"
      then have "rn_conn_id t = i" using u assms(2) by simp
      moreover have "cl_id l = i" if "ev = StreamData (FromConnection (CmLogin l))" for l
        using assms(2,3) that \<open>rn_conn_id t = i\<close> u(3) by (auto simp: login_allowed_def)
      ultimately show False using turn_clients(2) [OF r ok c] u(3) False by simp
    qed
    then show ?thesis using u by (auto simp: tasks)
  qed
  then show ?thesis
    using turn_hm_ok [OF ok, of e ev] by (simp add: process_inv_def st r)
qed

text \<open>C30: No client without its connection: in every state the process of the connection manager can
  reach, whatever its tasks receive and the user does and in whatever order, a client that is
  not marked as disconnected belongs to a task that is still running under its id.\<close>

theorem no_ghost_clients:
  assumes "cm_reachable e s0 p" and "ms_clients s0 = []"
    and "hm_get (ms_clients (cp_state p)) i = Some c" and "\<not> cc_disconnected c"
  shows "\<exists>tx t. hm_get (cp_tasks p) tx = Some t \<and> rn_conn_id t = i"
proof -
  have "process_inv p"
    using assms(1)
  proof induction
    case init
    then show ?case using assms(2) by (simp add: process_inv_def connected_def)
  next
    case (accept p tx)
    let ?v = "task_begin tx (cp_state p)"
    have "\<exists>tx' u. hm_get (hm_insert tx ?v (cp_tasks p)) tx' = Some u \<and> rn_conn_id u = i"
      if conn: "connected (ms_clients (cp_state p)) i" for i
    proof -
      obtain tx' u where "hm_get (cp_tasks p) tx' = Some u" "rn_conn_id u = i"
        using accept(3) conn by (auto simp: process_inv_def)
      then show ?thesis using accept(2) by (intro exI [of _ tx'] exI [of _ u]) auto
    qed
    then show ?case using accept(3) unfolding process_inv_def by simp
  next
    case (turn p tx t ev)
    then show ?case by (simp add: process_turn)
  next
    case (user p a)
    then show ?case using user_step_clients by (auto simp: process_inv_def)
  qed
  then show ?thesis using assms(3,4) by (auto simp: process_inv_def connected_def)
qed

section \<open>The file clipboard\<close>

abbreviation calls :: "'a cm_state_scheme \<Rightarrow> context_call list" where
  "calls t \<equiv> cx_calls (ms_context t)"

definition clip_allowed :: "cm_task \<Rightarrow> clipboard_file \<Rightarrow> bool" where
  "clip_allowed t c \<longleftrightarrow> rn_is_authorized t \<and>
     (is_stopping_allowed_from_peer c \<or> cx_enabled (ms_context t) \<and> rn_file_transfer_enabled t)"

lemma calls_small [simp]:
  "ms_context (cm_ui x s) = ms_context s" "ms_context (cm_queue tx d s) = ms_context s"
  "ms_context (cm_client_edit i f s) = ms_context s" "ms_context (cm_voice_edit i f s) = ms_context s"
  "ms_context (run_begin t) = ms_context t"
  "calls (cm_context call s) = calls s @ (if cx_enabled (ms_context s) then [call] else [])"
  by (simp_all add: cm_ui_def cm_queue_def cm_client_edit_def cm_voice_edit_def run_begin_def cm_context_def
      context_proc_def Let_def split_def split: option.split)

text \<open>The calls of an arm: none, the stop, or one message that is allowed.\<close>

lemma arm_calls:
  assumes "cm_arm e ev t = (go, t')"
  shows "calls t' = calls t \<or> calls t' = calls t @ [SetIsStopped] \<or>
    (\<exists>c. ev = StreamData (FromConnection (CmClipboardFile c)) \<and> clip_allowed t c \<and>
       calls t' = calls t @ [ServerClipFile (rn_conn_id t) c])"
proof (cases ev)
  case (StreamData d)
  show ?thesis
  proof (cases d)
    case (FromConnection d')
    then have r: "on_cm_data e d' t = (go, t')"
      using assms StreamData by (simp add: cm_arm_def on_cm_input_def)
    show ?thesis
    proof (cases d')
      case (CmClipboardFile c)
      then show ?thesis
        using r StreamData FromConnection
        by (auto simp: on_cm_data_def clip_from_peer_def clip_allowed_def Let_def split: if_splits)
    qed (use r in \<open>auto simp: on_cm_data_def cm_add_connection_def voice_call_started_def
        voice_call_incoming_def voice_call_closed_def Let_def\<close>)
  qed (use assms StreamData in \<open>auto simp: cm_arm_def on_cm_input_def\<close>)
next
  case (RxReady b)
  then show ?thesis
    using assms by (auto simp: cm_arm_def on_rx_def Let_def split: list.splits cm_event.splits if_splits)
next
  case ClipReady
  then show ?thesis
    using assms by (auto simp: cm_arm_def on_clip_def clip_from_system_def Let_def split: option.splits list.splits)
next
  case LogReady
  then show ?thesis using assms by (auto simp: cm_arm_def on_log_def split: list.splits)
qed (use assms in \<open>auto simp: cm_arm_def\<close>)

lemma task_end_calls: "calls (task_end t) = calls t \<or> calls (task_end t) = calls t @ [EmptyClipboard (rn_conn_id t)]"
  by (simp add: task_end_def cm_remove_connection_def Let_def)


section \<open>File requests of a peer\<close>

text \<open>The requests that are carried out at once, the command the connection makes of them, and the
  answer that is due.\<close>

fun request_cmd :: "file_action \<Rightarrow> fs_cmd option" where
  "request_cmd (FaCreate i path) = Some (FsCreateDir i path)"
| "request_cmd (FaRemoveDir i path recursive) = Some (FsRemoveDir i path recursive)"
| "request_cmd (FaRemoveFile i path n) = Some (FsRemoveFile i path n)"
| "request_cmd _ = None"

fun due_answer :: "cm_env \<Rightarrow> file_action \<Rightarrow> message" where
  "due_answer e (FaCreate i path) = hd (handle_result (me_create_dir e path) i 0)"
| "due_answer e (FaRemoveDir i path recursive) =
     hd (handle_result (if recursive then me_remove_all_empty_dir e path else me_remove_dir e path) i 0)"
| "due_answer e (FaRemoveFile i path n) = hd (handle_result (me_remove_file e path) i n)"
| "due_answer e _ = new_done 0 0"

lemma due_answer_one: "request_cmd a = Some cmd \<Longrightarrow> fw_sent (handle_fs e cmd w) = fw_sent w @ [due_answer e a]"
  by (cases a) (auto simp: handle_fs_def fw_send_def cm_remove_dir_def handle_result_def split: sum.split)

text \<open>The answer is due under the id of the request, done or with the error of the call.\<close>

lemma due_answer_id:
  assumes "request_cmd a = Some cmd"
  shows "\<exists>i n. due_answer e a = new_done i n \<or> (\<exists>err. due_answer e a = new_error i err n)"
  using assms by (cases a) (auto simp: handle_result_def split: sum.split)

lemma request_turn:
  assumes "request_cmd a = Some cmd" and "me_encode e (due_answer e a) = Some bytes"
  shows "\<exists>t'. cm_turn e (StreamData (FromConnection (CmFS cmd))) t = (True, t') \<and> rn_tx t' = rn_tx t \<and>
    ms_queues t' (rn_tx t) = ms_queues t (rn_tx t) @ [CmRawMessage bytes] \<and> rn_stream t' = rn_stream t"
proof -
  let ?w = "\<lparr>fw_jobs = rn_write_jobs t, fw_fs = ms_fs t, fw_sent = [], fw_log = []\<rparr>"
  have "fw_sent (handle_fs e cmd ?w) = [due_answer e a]" using due_answer_one [OF assms(1)] by simp
  then have "ms_queues (task_handle_fs e cmd t) (rn_tx t) = ms_queues t (rn_tx t) @ [CmRawMessage bytes]"
    using assms(2) by (simp add: task_handle_fs_def Let_def send_raw_def cm_queue_def)
  moreover have "rn_stream (cm_ui x u) = rn_stream u" for x and u :: cm_task by (simp add: cm_ui_def)
  ultimately show ?thesis
    by (simp add: cm_turn_def cm_arm_def on_cm_input_def on_cm_data_def Let_def)
qed

text \<open>What a task has queued goes out, one by one and in order.\<close>

lemma rx_turn:
  assumes "ms_queues t (rn_tx t) = d # ds"
  shows "\<exists>t' more. cm_turn e (RxReady True) t = (True, t') \<and> rn_tx t' = rn_tx t \<and>
    ms_queues t' (rn_tx t) = ds \<and> rn_stream t' = rn_stream t @ d # more"
proof -
  define t1 where "t1 = t\<lparr>ms_queues := (ms_queues t)(rn_tx t := ds), rn_stream := rn_stream t @ [d]\<rparr>"
  have stream: "\<exists>more. rn_stream (run_begin u) = rn_stream u @ more" for u
    by (simp add: run_begin_def Let_def split_def)
  have arm: "cm_arm e (RxReady True) t =
      (case d of
         CmSwitchPermission name enabled \<Rightarrow>
           (True, if name = ''file'' then t1\<lparr>rn_file_transfer_enabled := enabled\<rparr> else t1)
       | CmAuthorize \<Rightarrow> (False, t1\<lparr>rn_running := True\<rparr>)
       | _ \<Rightarrow> (True, t1))"
    using assms by (cases d) (simp_all add: cm_arm_def on_rx_def Let_def t1_def)
  have t1: "rn_tx t1 = rn_tx t" "ms_queues t1 (rn_tx t) = ds" "rn_stream t1 = rn_stream t @ [d]"
    by (simp_all add: t1_def)
  have "\<exists>t2. cm_turn e (RxReady True) t = (True, t2) \<and> rn_tx t2 = rn_tx t1 \<and>
      ms_queues t2 = ms_queues t1 \<and> (\<exists>more. rn_stream t2 = rn_stream t1 @ more)"
  proof (cases d)
    case CmAuthorize
    then have "cm_turn e (RxReady True) t = (True, run_begin (t1\<lparr>rn_running := True\<rparr>))"
      by (simp add: cm_turn_def arm)
    then show ?thesis using stream [of "t1\<lparr>rn_running := True\<rparr>"] by simp
  qed (simp_all add: cm_turn_def arm)
  then show ?thesis using t1 by auto
qed

lemma queue_drained:
  "ms_queues t (rn_tx t) = q \<Longrightarrow>
   \<exists>out. rn_stream (run (\<lambda>t ev. snd (cm_turn e ev t)) t (replicate (length q) (RxReady True))) = rn_stream t @ out \<and>
     subseq q out"
proof (induction q arbitrary: t)
  case (Cons d ds)
  obtain t' more where t': "cm_turn e (RxReady True) t = (True, t')" "rn_tx t' = rn_tx t"
    "ms_queues t' (rn_tx t) = ds" "rn_stream t' = rn_stream t @ d # more"
    using rx_turn [OF Cons.prems] by blast
  then obtain out where "rn_stream (run (\<lambda>t ev. snd (cm_turn e ev t)) t' (replicate (length ds) (RxReady True)))
      = rn_stream t' @ out" "subseq ds out"
    using Cons.IH [of t'] by auto
  then show ?case using t' by (auto intro!: subseq_Cons2 list_emb_append2)
qed simp

text \<open>A file request of a peer is answered: to create a directory, remove a directory or remove a
  file, the connection hands it to the connection manager as a command, the manager carries it
  out and queues exactly one answer, done or the error of the call; when the task has sent what
  its queue held then, the answer is on its way, and the connection passes it on to the peer.\<close>

theorem file_request_answered:
  assumes "request_cmd a = Some cmd" and "me_encode me (due_answer me a) = Some bytes"
    and "c_authorized s" and "\<not> c_port_forward s" and "c_file_transfer s \<noteq> None" and "c_delayed_read_dir s = None"
  shows "ToCm (CmFS cmd) \<in> set (drop (length (w_out s)) (w_out (snd (on_message e (MsgFileAction (Some a)) s)))) \<and>
    (\<exists>t'. cm_turn me (StreamData (FromConnection (CmFS cmd))) t = (True, t') \<and>
       ms_queues t' (rn_tx t) = ms_queues t (rn_tx t) @ [CmRawMessage bytes] \<and>
       CmRawMessage bytes \<in> set (drop (length (rn_stream t)) (rn_stream
         (run (\<lambda>t ev. snd (cm_turn me ev t)) t' (replicate (length (ms_queues t' (rn_tx t))) (RxReady True)))))) \<and>
    on_cm_event e (CmRawMessage bytes) s = (True, emit (ToPeerRaw bytes) s)"
proof (intro conjI)
  show "ToCm (CmFS cmd) \<in> set (drop (length (w_out s)) (w_out (snd (on_message e (MsgFileAction (Some a)) s))))"
    using assms(1,3-6)
    by (cases a) (auto simp: on_message_def on_authorized_message_def on_file_action_def Let_def emit_def)
  show "on_cm_event e (CmRawMessage bytes) s = (True, emit (ToPeerRaw bytes) s)"
    by (simp add: on_cm_event_def)
  obtain t' where t': "cm_turn me (StreamData (FromConnection (CmFS cmd))) t = (True, t')" "rn_tx t' = rn_tx t"
    "ms_queues t' (rn_tx t) = ms_queues t (rn_tx t) @ [CmRawMessage bytes]" "rn_stream t' = rn_stream t"
    using request_turn [OF assms(1,2)] by blast
  define q where "q = ms_queues t' (rn_tx t)"
  obtain out where out: "rn_stream (run (\<lambda>t ev. snd (cm_turn me ev t)) t' (replicate (length q) (RxReady True)))
      = rn_stream t @ out" "subseq q out"
    using queue_drained [of t' q me] t' by (auto simp: q_def)
  have "subseq [CmRawMessage bytes] q" using t'(3) by (simp add: q_def subseq_singleton_left)
  then have "subseq [CmRawMessage bytes] out" using out(2) by (rule subseq_order.order_trans)
  then have "CmRawMessage bytes \<in> set out" by (simp only: subseq_singleton_left)
  then show "\<exists>t'. cm_turn me (StreamData (FromConnection (CmFS cmd))) t = (True, t') \<and>
       ms_queues t' (rn_tx t) = ms_queues t (rn_tx t) @ [CmRawMessage bytes] \<and>
       CmRawMessage bytes \<in> set (drop (length (rn_stream t)) (rn_stream
         (run (\<lambda>t ev. snd (cm_turn me ev t)) t' (replicate (length (ms_queues t' (rn_tx t))) (RxReady True)))))"
    using t' out by (intro exI [of _ t']) (simp add: q_def)
qed

section \<open>A concrete process\<close>

definition demo_cm_env :: cm_env where
  "demo_cm_env =
     \<lparr>me_home = ''/home'', me_read_dir = (\<lambda>_ _. Inr (Inl ''denied'')), me_remove_file = (\<lambda>_. Inr (Inr ())),
      me_create_dir = (\<lambda>_. Inr (Inl ''exists'')), me_remove_dir = (\<lambda>_. Inr (Inr ())),
      me_remove_all_empty_dir = (\<lambda>_. Inr (Inr ())), me_zstd = demo_zstd, me_encode = (\<lambda>_. Some [1])\<rparr>"

definition demo_cm_state :: cm_state where
  "demo_cm_state =
     \<lparr>ms_clients = [], ms_click_time = 0, ms_context = \<lparr>cx_enabled = True, cx_calls = []\<rparr>,
      ms_registry = \<lparr>cr_channels = [], cr_counter = 0\<rparr>, ms_queues = (\<lambda>_. []),
      ms_fs = \<lparr>fs_files = (\<lambda>_. None), fs_denied = (\<lambda>_. False)\<rparr>, ms_ui = []\<rparr>"

definition demo_login :: cm_login where
  "demo_login =
     \<lparr>cl_id = 5, cl_is_file_transfer = False, cl_port_forward = [], cl_peer_id = ''77'', cl_name = ''me'',
      cl_authorized = True, cl_keyboard = True, cl_clipboard = True, cl_audio = True, cl_file = True,
      cl_file_transfer_enabled = True, cl_restart = True, cl_recording = True, cl_block_input = True,
      cl_from_switch = False\<rparr>"

definition demo_task :: cm_task where
  "demo_task = snd (cm_turn demo_cm_env (StreamData (FromConnection (CmLogin demo_login)))
     (task_begin 0 demo_cm_state))"

lemma demo_task_fields:
  "rn_conn_id demo_task = 5" "rn_is_authorized demo_task" "rn_file_transfer_enabled demo_task"
  "cx_enabled (ms_context demo_task)" "hm_get (ms_clients demo_task) 5 \<noteq> None"
  by (simp_all add: demo_task_def cm_turn_def cm_arm_def on_cm_input_def on_cm_data_def cm_add_connection_def
      task_begin_def cm_task.defs cm_state.defs demo_cm_state_def demo_login_def run_begin_def Let_def
      cm_is_authorized_def cm_ui_def get_rx_cliprdr_server_def push_channel_def)

theorem no_ghost_clients_witness:
  "\<exists>p. cm_reachable demo_cm_env demo_cm_state p \<and> connected (ms_clients (cp_state p)) 5 \<and>
     (\<exists>tx t. hm_get (cp_tasks p) tx = Some t \<and> rn_conn_id t = 5)"
proof -
  define p0 where "p0 = \<lparr>cp_state = demo_cm_state, cp_tasks = []\<rparr>"
  define p1 where "p1 = p0\<lparr>cp_state := cm_state.truncate (task_begin 0 (cp_state p0)),
      cp_tasks := hm_insert 0 (task_begin 0 (cp_state p0)) (cp_tasks p0)\<rparr>"
  define p2 where "p2 = task_turn demo_cm_env 0 (StreamData (FromConnection (CmLogin demo_login)))
      (task_begin 0 demo_cm_state) p1"
  have "cm_reachable demo_cm_env demo_cm_state p1"
    unfolding p1_def by (rule cm_reachable.accept) (simp_all add: p0_def cm_reachable.init)
  then have reach: "cm_reachable demo_cm_env demo_cm_state p2"
    unfolding p2_def
    by (rule cm_reachable.turn) (simp_all add: p1_def p0_def login_allowed_def demo_login_def task_begin_def
        cm_task.defs cm_state.defs)
  have "with_state (cm_state.truncate t) t = t" for t by (simp add: with_state_def cm_state.defs)
  then have "ms_clients (cp_state p2) = ms_clients demo_task"
    by (simp add: p2_def task_turn_def split_def Let_def p1_def p0_def demo_task_def)
  moreover have "connected (ms_clients demo_task) 5"
    by (simp add: connected_def demo_task_def cm_turn_def cm_arm_def on_cm_input_def on_cm_data_def
        cm_add_connection_def demo_login_def Let_def cm_ui_def)
  ultimately have c: "connected (ms_clients (cp_state p2)) 5" by simp
  then obtain c where "hm_get (ms_clients (cp_state p2)) 5 = Some c" "\<not> cc_disconnected c"
    by (auto simp: connected_def)
  then have "\<exists>tx t. hm_get (cp_tasks p2) tx = Some t \<and> rn_conn_id t = 5"
    using no_ghost_clients [OF reach, of 5 c] by (simp add: demo_cm_state_def)
  then show ?thesis using reach c by blast
qed


definition demo_file_conn :: connection where
  "demo_file_conn = demo_conn\<lparr>c_authorized := True, c_file_transfer := Some ([], False)\<rparr>"

theorem file_request_answered_witness:
  "\<exists>t'. cm_turn demo_cm_env (StreamData (FromConnection (CmFS (FsCreateDir 3 ''/a'')))) demo_task = (True, t') \<and>
     ms_queues t' (rn_tx demo_task) = ms_queues demo_task (rn_tx demo_task) @ [CmRawMessage [1]]"
proof -
  have "c_delayed_read_dir demo_conn = None" by (simp add: demo_defs)
  then show ?thesis
    using file_request_answered [of "FaCreate 3 ''/a''" "FsCreateDir 3 ''/a''" demo_cm_env "[1]" demo_file_conn
        demo_env demo_task]
    by (auto simp: demo_cm_env_def demo_file_conn_def)
qed

end
