(* ===== verification/Job_Progress.thy ===== *)
theory Job_Progress
  imports Transfer_Job
begin

text \<open>
  That sending ends (\<open>handle_read_jobs\<close> in \<open>libs/hbb_common/src/fs.rs\<close>): a timer calls it again and
  again, and each call does one step of every job. The work a job has left is a number that every
  step makes smaller, whatever fails on the way, until the job is finished and leaves the list.
\<close>

text \<open>The work left: for every file after the current one its bytes and three steps, for the current
  one what has not been read of it.\<close>

definition file_work :: "file_system \<Rightarrow> string \<Rightarrow> nat" where
  "file_work fs path = (case fs_files fs path of Some f \<Rightarrow> length (ff_content f) | None \<Rightarrow> 0) + 2"

definition current_work :: "file_system \<Rightarrow> transfer_job \<Rightarrow> string \<Rightarrow> nat" where
  "current_work fs j name =
     (case tj_file j of
        None \<Rightarrow> file_work fs (job_join j name)
      | Some (path, pos) \<Rightarrow>
          (case fs_files fs path of Some f \<Rightarrow> length (ff_content f) - pos | None \<Rightarrow> 0) + 1)"

definition job_work :: "file_system \<Rightarrow> transfer_job \<Rightarrow> nat" where
  "job_work fs j =
     (let n = as_usize (tj_file_num j); files = tj_files j in
      if n < length files
      then current_work fs j (fe_name (files ! n)) +
           sum_list (map (\<lambda>f. file_work fs (job_join j (fe_name f))) (drop (Suc n) files))
      else 0)"

text \<open>A job that only waits for the timer.\<close>

definition unattended :: "transfer_job \<Rightarrow> bool" where
  "unattended j \<longleftrightarrow> \<not> tj_enable_overwrite_detection j \<and> \<not> tj_is_last_job j \<and> length (tj_files j) < 2 ^ 31"

lemma as_usize_Suc:
  assumes "as_usize n < k" and "k < 2 ^ 31"
  shows "as_usize (n + 1) = Suc (as_usize n)"
proof -
  define m where "m = as_usize n"
  have m: "m < 2 ^ 31" using assms by (simp add: m_def)
  have "ucast (scast n :: u64) = n"
    by (rule bit_word_eqI) (simp add: bit_ucast_iff bit_signed_iff)
  moreover have "(scast n :: u64) = of_nat m" by (simp add: m_def as_usize_def)
  ultimately have "n = ucast (of_nat m :: u64)" by simp
  moreover have "take_bit 64 m = m" using m by (simp add: take_bit_nat_eq_self_iff)
  ultimately have "n = of_nat m" by (simp add: unsigned_of_nat)
  then have "n + 1 = of_nat (Suc m)" by (simp add: add.commute)
  moreover have "as_usize (of_nat (Suc m)) = Suc m"
    using assms by (intro as_usize_of_nat) (simp add: m_def)
  ultimately show ?thesis by (simp only: m_def)
qed

lemma work_next_file:
  assumes "unattended j" and "as_usize (tj_file_num j) < length (tj_files j)"
    and "tj_files k = tj_files j" and "tj_path k = tj_path j" and "tj_file_num k = tj_file_num j + 1"
    and "tj_file k = None" and "0 < current_work fs j (fe_name (tj_files j ! as_usize (tj_file_num j)))"
  shows "job_work fs k < job_work fs j"
proof -
  let ?n = "as_usize (tj_file_num j)"
  have n: "as_usize (tj_file_num k) = Suc ?n"
    using assms(1,2,5) as_usize_Suc [of "tj_file_num j"] by (simp add: unattended_def)
  have join: "job_join k = job_join j" using assms(4) by (simp add: job_join_def fun_eq_iff)
  have "job_work fs k = sum_list (map (\<lambda>f. file_work fs (job_join j (fe_name f))) (drop (Suc ?n) (tj_files j)))"
  proof (cases "Suc ?n < length (tj_files j)")
    case True
    then have "drop (Suc ?n) (tj_files j) = tj_files j ! Suc ?n # drop (Suc (Suc ?n)) (tj_files j)"
      by (simp add: Cons_nth_drop_Suc)
    then show ?thesis
      using True n assms(3,6) by (simp add: job_work_def current_work_def join Let_def)
  next
    case False
    then show ?thesis using n assms(3) by (simp add: job_work_def)
  qed
  then show ?thesis using assms(2,7) by (simp add: job_work_def Let_def)
qed

lemma job_read_step:
  assumes "unattended j" and "job_read z failing fs j = (r, j', out)"
  shows "unattended j' \<and> tj_id j' = tj_id j \<and>
    (r = Inr None \<and> tj_file_num j' = tj_file_num j \<or> job_work fs j' < job_work fs j)"
proof (cases "as_usize (tj_file_num j) < length (tj_files j)")
  case False
  then show ?thesis using assms by (auto simp: job_read_def unattended_def Let_def)
next
  case True
  define name where "name = fe_name (tj_files j ! as_usize (tj_file_num j))"
  have pos: "0 < current_work fs j name" by (simp add: current_work_def file_work_def split: option.split)
  note next_ = work_next_file [OF assms(1) True, folded name_def, OF _ _ _ _ pos]
  show ?thesis
  proof (cases "open_file j fs name")
    case (Inl err)
    then have j': "j' = j\<lparr>tj_file_num := tj_file_num j + 1, tj_file_confirmed := False, tj_file_is_waiting := False\<rparr>"
      using assms(2) True by (simp add: job_read_def name_def Let_def)
    have "tj_file j = None" using Inl by (simp add: open_file_def split: option.splits)
    then show ?thesis using next_ [of j'] assms(1) by (simp add: j' unattended_def)
  next
    case (Inr k)
    have k: "unattended k" "tj_id k = tj_id j" "tj_files k = tj_files j" "tj_path k = tj_path j"
      "tj_file_num k = tj_file_num j" "tj_file k \<noteq> None"
      using Inr assms(1) by (auto simp: open_file_def unattended_def Let_def split: option.splits if_splits)
    have rb: "read_block z failing k fs name = (r, j')"
      using assms(1,2) True Inr k by (simp add: job_read_def name_def Let_def unattended_def split: prod.splits)
    obtain path p where fl: "tj_file k = Some (path, p)" using k(6) by auto
    show ?thesis
    proof (cases "j' = next_file k")
      case True
      then have "tj_files j' = tj_files j" "tj_path j' = tj_path j" "tj_file_num j' = tj_file_num j + 1"
        "tj_file j' = None"
        using k by (simp_all add: next_file_def)
      then show ?thesis using next_ [of j'] True k by (simp add: next_file_def unattended_def)
    next
      case False
      define n where "n = length (take BUF_SIZE (drop p (ff_content (the (fs_files fs path)))))"
      obtain f where f: "fs_files fs path = Some f" and n: "0 < n" "n \<le> length (ff_content f) - p"
        and fields: "tj_file j' = Some (path, p + n)" "tj_files j' = tj_files j" "tj_path j' = tj_path j"
          "tj_file_num j' = tj_file_num j" "tj_id j' = tj_id j" "unattended j'"
        using rb fl False k
        by (auto simp: read_block_def Let_def n_def unattended_def split: if_splits)
      have "open_file j fs name = Inr k" by (rule Inr)
      then have "current_work fs k name < current_work fs j name \<or> k = j"
        using fl f by (auto simp: open_file_def current_work_def file_work_def Let_def split: option.splits if_splits)
      moreover have "current_work fs j' name < current_work fs k name"
        using f n by (simp add: current_work_def fields(1) fl)
      ultimately have "current_work fs j' name < current_work fs j name" by auto
      moreover have "job_join j' = job_join j" using fields(3) by (simp add: job_join_def fun_eq_iff)
      ultimately have "job_work fs j' < job_work fs j"
        using fields(2,4) \<open>as_usize (tj_file_num j) < length (tj_files j)\<close> by (simp add: job_work_def Let_def name_def)
      then show ?thesis using fields(5,6) by simp
    qed
  qed
qed

lemma job_step:
  assumes "unattended j" and "handle_read_job z failing fs j = (j', out, False)"
  shows "unattended j' \<and> tj_id j' = tj_id j \<and> job_work fs j' < job_work fs j"
proof -
  obtain r k o' where k: "job_read z failing fs j = (r, k, o')" by (metis prod.exhaust)
  note st = job_read_step [OF assms(1) k]
  have "job_completed k" using st by (simp add: job_completed_def unattended_def)
  then have "k = j'" "r \<noteq> Inr None"
    using assms k by (auto simp: handle_read_job_def unattended_def split: sum.splits option.splits)
  then show ?thesis using st by auto
qed

text \<open>The timer, with what fails in each round.\<close>

fun read_rounds :: "zstd \<Rightarrow> (nat \<Rightarrow> i32 \<Rightarrow> bool) \<Rightarrow> file_system \<Rightarrow> nat \<Rightarrow> transfer_job list \<Rightarrow> transfer_job list" where
  "read_rounds z failing fs 0 jobs = jobs"
| "read_rounds z failing fs (Suc n) jobs =
     fst (handle_read_jobs z (failing n) fs (read_rounds z failing fs n jobs))"

lemma in_fold_remove: "x \<in> set (fold remove_job is jobs) \<longleftrightarrow> x \<in> set jobs \<and> tj_id x \<notin> set is"
  by (induction "is" arbitrary: jobs) (auto simp: remove_job_def)

lemma round_job:
  assumes "x \<in> set (fst (handle_read_jobs z failing fs jobs))"
  shows "\<exists>j \<in> set jobs. \<exists>out. handle_read_job z (failing (tj_id j)) fs j = (x, out, False)"
proof -
  let ?rs = "map (\<lambda>j. handle_read_job z (failing (tj_id j)) fs j) jobs"
  have "x \<in> fst ` set ?rs" and fin: "tj_id x \<notin> (\<lambda>(j, _, _). tj_id j) ` {r \<in> set ?rs. snd (snd r)}"
    using assms by (simp_all add: handle_read_jobs_def Let_def in_fold_remove split_def image_image)
  then obtain j where j: "j \<in> set jobs" "x = fst (handle_read_job z (failing (tj_id j)) fs j)" by auto
  obtain out b where r: "handle_read_job z (failing (tj_id j)) fs j = (x, out, b)"
    using j(2) by (metis prod.collapse)
  have "\<not> b"
  proof
    assume b
    then have "(x, out, b) \<in> {r \<in> set ?rs. snd (snd r)}" using j(1) r by force
    from imageI [OF this, of "\<lambda>(j, _, _). tj_id j"] show False using fin by simp
  qed
  then show ?thesis using j(1) r by (intro bexI [of _ j] exI [of _ out]) simp_all
qed



end
