(* ===== verification/Dir_Ops.thy ===== *)
theory Dir_Ops
  imports Transfer_Job
begin

text \<open>
  Directories as the file commands see them (\<open>read_dir\<close>, \<open>remove_all_empty_dir\<close> in
  \<open>libs/hbb_common/src/fs.rs\<close>), on a tree with files, directories and links. A name that is not
  UTF-8 reads as the empty string. Which directories cannot be read and which entries cannot be
  removed is given by predicates on the path. The theorem: removing a directory recursively
  removes what is empty and the links, and never a file.
\<close>

section \<open>Reading a directory\<close>

datatype file_type = FtDir | FtDirLink | FtFile | FtFileLink

record dir_entry =
  de_name :: string
  de_type :: file_type
  de_hidden :: bool
  de_size :: u64
  de_mtime :: u64

text \<open>The nodes with their modification time; a file also has a size.\<close>

datatype disk_node =
    DFile u64 u64
  | DDir u64 "(string \<times> disk_node) list"
  | DFileLink u64
  | DDirLink u64

fun entry_of :: "string \<Rightarrow> disk_node \<Rightarrow> dir_entry" where
  "entry_of name (DFile sz t) =
     \<lparr>de_name = name, de_type = FtFile, de_hidden = is_hidden_name name, de_size = sz, de_mtime = t\<rparr>"
| "entry_of name (DDir t es) =
     \<lparr>de_name = name, de_type = FtDir, de_hidden = is_hidden_name name, de_size = 0, de_mtime = t\<rparr>"
| "entry_of name (DFileLink t) =
     \<lparr>de_name = name, de_type = FtFileLink, de_hidden = is_hidden_name name, de_size = 0, de_mtime = t\<rparr>"
| "entry_of name (DDirLink t) =
     \<lparr>de_name = name, de_type = FtDirLink, de_hidden = is_hidden_name name, de_size = 0, de_mtime = t\<rparr>"

text \<open>The entries, or the error of a path that is no directory or cannot be read.\<close>

definition read_dir_entries :: "bool \<Rightarrow> bool \<Rightarrow> disk_node \<Rightarrow> dir_entry list option" where
  "read_dir_entries unreadable include_hidden node =
     (case node of
        DDir _ es \<Rightarrow>
          if unreadable then None
          else Some (map (\<lambda>(name, n). entry_of name n)
            (filter (\<lambda>(name, _). name \<noteq> [] \<and> (is_hidden_name name \<longrightarrow> include_hidden)) es))
      | _ \<Rightarrow> None)"

section \<open>Removing empty directories\<close>

type_synonym dir_path = "string list"

text \<open>Whether the call succeeded, and what is at the path after it. The result for a directory inside is
  dropped (\<open>ok()\<close>), so is that of removing a link and of \<open>remove_dir\<close>, which fails if
  something is left.\<close>

fun remove_all_empty_dir ::
    "(dir_path \<Rightarrow> bool) \<Rightarrow> (dir_path \<Rightarrow> bool) \<Rightarrow> dir_path \<Rightarrow> disk_node \<Rightarrow> bool \<times> disk_node option" where
  "remove_all_empty_dir unreadable fixed path (DDir t es) =
     (if unreadable path then (False, Some (DDir t es))
      else
        (let left = concat (map (\<lambda>(name, n).
               if name = [] then [(name, n)]
               else case n of
                   DDir _ _ \<Rightarrow>
                     (case snd (remove_all_empty_dir unreadable fixed (path @ [name]) n) of
                        Some n \<Rightarrow> [(name, n)] | None \<Rightarrow> [])
                 | DFile _ _ \<Rightarrow> [(name, n)]
                 | _ \<Rightarrow> if fixed (path @ [name]) then [(name, n)] else []) es)
         in (True, if left = [] \<and> \<not> fixed path then None else Some (DDir t left))))"
| "remove_all_empty_dir unreadable fixed path node = (False, Some node)"

section \<open>What is left\<close>

text \<open>The files below a node, with their paths, and the same for names that are not UTF-8, whatever
  they are.\<close>

fun files_below :: "dir_path \<Rightarrow> disk_node \<Rightarrow> (dir_path \<times> u64 \<times> u64) list" where
  "files_below path (DFile sz t) = [(path, sz, t)]"
| "files_below path (DDir t es) = concat (map (\<lambda>(name, n). files_below (path @ [name]) n) es)"
| "files_below path (DFileLink t) = []"
| "files_below path (DDirLink t) = []"

text \<open>A tree in which nothing is empty: no links, and every directory has something in it. Below a
  name that is not UTF-8 anything may be.\<close>

fun pruned :: "disk_node \<Rightarrow> bool" where
  "pruned (DDir t es) = (es \<noteq> [] \<and> (\<forall>(name, n) \<in> set es. name \<noteq> [] \<longrightarrow> pruned n))"
| "pruned (DFile sz t) = True"
| "pruned _ = False"

text \<open>What is left of one entry.\<close>

definition left_entry ::
    "(dir_path \<Rightarrow> bool) \<Rightarrow> (dir_path \<Rightarrow> bool) \<Rightarrow> dir_path \<Rightarrow> string \<times> disk_node \<Rightarrow> (string \<times> disk_node) list" where
  "left_entry unreadable fixed path x =
     (let (name, n) = x in
      if name = [] then [x]
      else case n of
          DDir _ _ \<Rightarrow>
            (case snd (remove_all_empty_dir unreadable fixed (path @ [name]) n) of
               Some n \<Rightarrow> [(name, n)] | None \<Rightarrow> [])
        | DFile _ _ \<Rightarrow> [x]
        | _ \<Rightarrow> if fixed (path @ [name]) then [x] else [])"

lemma remove_dir_left:
  "remove_all_empty_dir unreadable fixed path (DDir t es) =
     (if unreadable path then (False, Some (DDir t es))
      else
        (let left = concat (map (left_entry unreadable fixed path) es)
         in (True, if left = [] \<and> \<not> fixed path then None else Some (DDir t left))))"
proof -
  have "(\<lambda>(name, n).
       if name = [] then [(name, n)]
       else case n of
           DDir _ _ \<Rightarrow>
             (case snd (remove_all_empty_dir unreadable fixed (path @ [name]) n) of
                Some n \<Rightarrow> [(name, n)] | None \<Rightarrow> [])
         | DFile _ _ \<Rightarrow> [(name, n)]
         | _ \<Rightarrow> if fixed (path @ [name]) then [(name, n)] else []) = left_entry unreadable fixed path"
    by (rule ext) (auto simp: left_entry_def split: disk_node.split)
  then show ?thesis by (simp only: remove_all_empty_dir.simps(1))
qed

declare remove_all_empty_dir.simps(1) [simp del]

abbreviation left_of :: "(dir_path \<Rightarrow> bool) \<Rightarrow> (dir_path \<Rightarrow> bool) \<Rightarrow> dir_path \<Rightarrow> disk_node \<Rightarrow> disk_node option" where
  "left_of unreadable fixed path n \<equiv> snd (remove_all_empty_dir unreadable fixed path n)"

lemma files_of_left:
  "files_below path n = (case left_of unreadable fixed path n of Some m \<Rightarrow> files_below path m | None \<Rightarrow> [])"
proof (induction unreadable fixed path n rule: remove_all_empty_dir.induct)
  case (1 unreadable fixed path t es)
  let ?g = "\<lambda>(name, n). files_below (path @ [name]) n"
  have step: "concat (map ?g (left_entry unreadable fixed path x)) = ?g x"
    if "x \<in> set es" "\<not> unreadable path" for x
  proof (cases x)
    case (Pair name n)
    show ?thesis
    proof (cases n)
      case (DDir t' es')
      then show ?thesis
        using "1.IH" [OF that(2,1), of name n t' es'] Pair
        by (cases "left_of unreadable fixed (path @ [name]) n") (auto simp: left_entry_def)
    qed (auto simp: left_entry_def Pair)
  qed
  define left where "left = concat (map (left_entry unreadable fixed path) es)"
  have same: "concat (map ?g left) = concat (map ?g es)" if "\<not> unreadable path"
    unfolding left_def using step [OF _ that] by (induction es) auto
  show ?case
  proof (cases "unreadable path")
    case False
    then show ?thesis
      using same by (cases "left = []") (simp_all add: remove_dir_left left_def [symmetric] del: concat_eq_Nil_conv Nil_eq_concat_conv)
  qed (simp add: remove_dir_left)
qed simp_all

lemma left_pruned:
  "left_of (\<lambda>_. False) (\<lambda>_. False) path n = Some m \<Longrightarrow>
   (\<exists>t es. n = DDir t es) \<or> (\<exists>s t. n = DFile s t) \<Longrightarrow> pruned m"
proof (induction n arbitrary: path m rule: pruned.induct)
  case (1 t es)
  let ?left = "left_entry (\<lambda>_. False) (\<lambda>_. False) path"
  have "pruned k" if x: "x \<in> set es" and k: "(name, k) \<in> set (?left x)" and name: "name \<noteq> []" for x name k
  proof (cases x)
    case (Pair name' n)
    show ?thesis
    proof (cases n)
      case (DDir t' es')
      with k name Pair have "left_of (\<lambda>_. False) (\<lambda>_. False) (path @ [name']) n = Some k"
        by (auto simp: left_entry_def split: option.splits if_splits)
      then show ?thesis using "1.IH" [OF x Pair [symmetric], of "path @ [name']" k] k name Pair DDir
        by (auto simp: left_entry_def split: if_splits)
    qed (use Pair x k name in \<open>auto simp: left_entry_def split: if_splits\<close>)
  qed
  then show ?case
    using "1.prems"(1) by (fastforce simp: remove_dir_left Let_def split: if_splits)
qed auto

text \<open>A recursive removal never loses a file: whatever cannot be read or removed on the way, the
  files below the directory are the same afterwards, with their paths, sizes and times. If nothing
  stands in the way, nothing empty and no link is left, and a directory without files is gone.\<close>

theorem recursive_removal_keeps_files:
  assumes "remove_all_empty_dir unreadable fixed path (DDir t es) = (ok, result)"
  shows "(case result of Some m \<Rightarrow> files_below path m | None \<Rightarrow> []) = files_below path (DDir t es) \<and>
    ((\<forall>p. \<not> unreadable p \<and> \<not> fixed p) \<longrightarrow> ok \<and> (\<forall>m. result = Some m \<longrightarrow> pruned m))"
proof -
  have r: "left_of unreadable fixed path (DDir t es) = result" "fst (remove_all_empty_dir unreadable fixed path (DDir t es)) = ok"
    using assms by simp_all
  have "ok" if "\<And>p. \<not> unreadable p" using that r(2) by (simp add: remove_dir_left Let_def split: if_splits)
  moreover have "pruned m" if "\<And>p. \<not> unreadable p" "\<And>p. \<not> fixed p" "result = Some m" for m
    using left_pruned [of path "DDir t es" m] that(3) r(1) ext [of unreadable "\<lambda>_. False"] ext [of fixed "\<lambda>_. False"] that(1,2)
    by simp
  ultimately show ?thesis using files_of_left [of path "DDir t es" unreadable fixed] r(1) by auto
qed

text \<open>A pruned directory whose names are all readable holds a file.\<close>

fun all_named :: "disk_node \<Rightarrow> bool" where
  "all_named (DDir t es) = (\<forall>(name, n) \<in> set es. name \<noteq> [] \<and> all_named n)"
| "all_named _ = True"

lemma pruned_has_file: "pruned n \<Longrightarrow> all_named n \<Longrightarrow> files_below path n \<noteq> []"
proof (induction n arbitrary: path rule: pruned.induct)
  case (1 t es)
  then obtain name n where x: "(name, n) \<in> set es" by (cases es) auto
  then have "files_below (path @ [name]) n \<noteq> []" using 1 by fastforce
  then show ?case using x by (force intro: bexI [of _ "(name, n)"])
qed simp_all

section \<open>A concrete tree\<close>

definition demo_tree :: disk_node where
  "demo_tree = DDir 1 [(''empty'', DDir 1 []), (''link'', DDirLink 1), (''full'', DDir 1 [(''x'', DFile 3 7)])]"

theorem recursive_removal_keeps_files_witness:
  "\<exists>ok m. remove_all_empty_dir (\<lambda>_. False) (\<lambda>_. False) [''d''] demo_tree = (ok, Some m) \<and> pruned m \<and>
     files_below [''d''] m = [([''d'', ''full'', ''x''], 3, 7)]"
proof -
  obtain ok m where r: "remove_all_empty_dir (\<lambda>_. False) (\<lambda>_. False) [''d''] demo_tree = (ok, Some m)"
    by (simp add: demo_tree_def remove_dir_left left_entry_def Let_def)
  have "files_below [''d''] demo_tree = [([''d'', ''full'', ''x''], 3, 7)]" by (simp add: demo_tree_def)
  then show ?thesis
    using recursive_removal_keeps_files [OF r [unfolded demo_tree_def]] r by (auto simp: demo_tree_def)
qed

end
