(* ===== verification/Session_State.thy ===== *)
theory Session_State
  imports Client_Login Clipboard_File
begin

text \<open>
  A session of the controlling side (\<open>src/ui_session_interface.rs\<close>): what the user interface can
  ask of it, what it makes of the peer's answer, and the rounds of reconnecting. The login
  configuration (\<open>client\<close>) is a field; what its functions show and send goes to the list \<open>ss_out\<close>,
  in the order it happens. \<open>ss_queue\<close> is the channel to the loop of the session.
\<close>

section \<open>What goes in and out\<close>

text \<open>\<open>Data\<close> of \<open>client.rs\<close>: what the interface and the loop itself put on the channel.\<close>

datatype ui_data =
    UdClose
  | UdLogin string string string bool
  | UdMessage message
  | UdSendFiles i32 string string i32 bool bool   \<comment> \<open>id, path, to, file number, hidden, remote\<close>
  | UdRemoveDirAll i32 string bool bool           \<comment> \<open>id, path, remote, hidden\<close>
  | UdConfirmDeleteFiles i32 i32
  | UdSetNoConfirm i32
  | UdRemoveDir i32 string
  | UdRemoveFile i32 string i32 bool
  | UdCreateDir i32 string bool
  | UdCancelJob i32
  | UdRemovePortForward i32
  | UdAddPortForward "i32 \<times> string \<times> i32"
  | UdNewRDP
  | UdSetConfirmOverrideFile i32 i32 bool bool bool  \<comment> \<open>id, file number, override, remember, upload\<close>
  | UdAddJob i32 string string i32 bool bool
  | UdResumeJob i32 bool
  | UdRecordScreen bool nat i32 i32 string
  | UdElevateDirect
  | UdElevateWithLogon string string
  | UdNewVoiceCall
  | UdCloseVoiceCall

record quality_status =
  qs_speed :: "u64 option"                 \<comment> \<open>bytes per second; shown in kB\<close>
  qs_fps :: "(nat, i32) hmap"
  qs_delay :: "i32 option"
  qs_target_bitrate :: "i32 option"
  qs_codec_format :: "codec_format option"
  qs_chroma :: "string option"

definition quality_default :: quality_status where
  "quality_default =
     \<lparr>qs_speed = None, qs_fps = [], qs_delay = None, qs_target_bitrate = None,
      qs_codec_format = None, qs_chroma = None\<rparr>"

text \<open>The calls of \<open>InvokeUiSession\<close>.\<close>

datatype session_ui =
    SuMsgBox string string string string bool     \<comment> \<open>type, title, text, link, retry\<close>
  | SuCancelMsgBox string
  | SuCursorData bytes
  | SuCursorId string
  | SuCursorPosition i32 i32
  | SuSetDisplay i32 i32 i32 i32 bool
  | SuSwitchDisplay switch_display
  | SuSetPeerInfo peer_info
  | SuSetDisplays "display_info list"
  | SuPlatformAdditions string
  | SuOnConnected conn_type
  | SuUpdatePrivacyMode
  | SuSetPermission string bool
  | SuCloseSuccess
  | SuQualityStatus quality_status
  | SuConnectionType bool bool
  | SuFingerprint bytes                         \<comment> \<open>the key it is made of\<close>
  | SuJobError i32 string i32
  | SuJobDone i32 i32
  | SuJobProgress i32 i32 "u64 \<times> nat" u64       \<comment> \<open>id, file, bytes in so many ms, finished\<close>
  | SuClearAllJobs
  | SuUpdateTransferList
  | SuLoadLastJob i32 string
  | SuNewMessage string
  | SuUpdateFolderFiles i32 "file_entry list" string bool bool
  | SuConfirmDeleteFiles i32 i32 string
  | SuOverrideFileConfirm i32 i32 string bool bool
  | SuBlockInputState bool
  | SuAdaptSize
  | SuSwitchBack string
  | SuPortableServiceRunning bool
  | SuVoiceCallStarted
  | SuVoiceCallClosed string
  | SuVoiceCallWaiting
  | SuMultipleWindowsSession "(u32 \<times> string) list"
  | SuCurrentDisplay i32

datatype media_data =
    MediaVideoQueue nat
  | MediaVideoFrame video_frame
  | MediaAudioFrame bytes
  | MediaAudioFormat bytes
  | MediaReset nat
  | MediaRecordScreen bool nat i32 i32 string

datatype session_effect =
    SePeer message
  | SeUi session_ui
  | SeMedia media_data
  | SeSyncAb string bytes
  | SeOsPassword string          \<comment> \<open>the thread of \<open>input_os_password\<close>\<close>
  | SeSetClipboard bytes
  | SeSendLater message          \<comment> \<open>to the channel, if the clipboard is wanted by then\<close>
  | SeSoundInput string
  | SeRecordMicrophone           \<comment> \<open>subscribing to the microphone and the thread that sends it\<close>
  | SeStopMicrophone
  | SeSpawnLoop u32              \<comment> \<open>a thread for the round\<close>

datatype connection_state = Connecting | Connected | Disconnected

text \<open>\<open>ChangeDisplayRecord\<close>; the time is in milliseconds.\<close>

record change_display_record =
  cd_time :: int
  cd_display :: i32
  cd_width :: i32
  cd_height :: i32

record ui_session =
  ss_password :: string
  ss_lc :: client
  ss_sender :: bool              \<comment> \<open>whether there is a channel\<close>
  ss_queue :: "ui_data list"
  ss_thread :: bool
  ss_server_keyboard_enabled :: bool
  ss_server_file_transfer_enabled :: bool
  ss_server_clipboard_enabled :: bool
  ss_last_change_display :: change_display_record
  ss_round :: u32
  ss_round_state :: connection_state
  ss_context :: context_send     \<comment> \<open>the process's \<open>CONTEXT_SEND\<close>\<close>
  ss_registry :: clip_registry
  ss_clipboard_running :: bool   \<comment> \<open>\<open>TEXT_CLIPBOARD_STATE\<close>\<close>
  ss_out :: "session_effect list"

text \<open>What a session reads from outside.\<close>

record session_env =
  re_client :: client_env
  re_time :: nat                              \<comment> \<open>milliseconds\<close>
  re_created :: bool                          \<comment> \<open>\<open>create_cliprdr_context\<close> succeeds\<close>
  re_platform :: string                       \<comment> \<open>\<open>whoami::platform\<close>\<close>
  re_nodes :: "string \<Rightarrow> fs_node option"
  re_remove_file :: "string \<Rightarrow> string option"   \<comment> \<open>the error, if any\<close>
  re_create_dir :: "string \<Rightarrow> string option"
  re_zstd :: zstd
  re_read_failing :: "i32 \<Rightarrow> bool"
  re_meta_json :: "transfer_job \<Rightarrow> string"     \<comment> \<open>\<open>serde_json\<close> of \<open>gen_meta\<close>\<close>
  re_sound_input :: "string option"
  re_clipboard_msg :: "message option"
  re_cur_peer_id :: string                    \<comment> \<open>of the front end\<close>
  re_sessions_running :: bool
  re_swap_chr :: "string \<Rightarrow> u32 \<Rightarrow> u32"         \<comment> \<open>the key tables of rdev, by platform\<close>
  re_modifiers :: "bool \<times> bool \<times> bool \<times> bool"  \<comment> \<open>\<open>MODIFIERS_STATE\<close>: alt, ctrl, shift, command\<close>
  re_errno :: int

section \<open>Sending and showing\<close>

definition session_emit :: "session_effect \<Rightarrow> 'a ui_session_scheme \<Rightarrow> 'a ui_session_scheme" where
  "session_emit x s = s\<lparr>ss_out := ss_out s @ [x]\<rparr>"

abbreviation to_ui :: "session_ui \<Rightarrow> 'a ui_session_scheme \<Rightarrow> 'a ui_session_scheme" where
  "to_ui u \<equiv> session_emit (SeUi u)"

abbreviation to_host :: "message \<Rightarrow> 'a ui_session_scheme \<Rightarrow> 'a ui_session_scheme" where
  "to_host m \<equiv> session_emit (SePeer m)"

definition session_send :: "ui_data \<Rightarrow> 'a ui_session_scheme \<Rightarrow> 'a ui_session_scheme" where
  "session_send d s = (if ss_sender s then s\<lparr>ss_queue := ss_queue s @ [d]\<rparr> else s)"

abbreviation send_misc :: "misc \<Rightarrow> 'a ui_session_scheme \<Rightarrow> 'a ui_session_scheme" where
  "send_misc m \<equiv> session_send (UdMessage (MsgMisc (Some m)))"

definition retry_for_relay :: "client \<Rightarrow> bool" where
  "retry_for_relay c = (lc_direct c = Some True \<and> \<not> lc_received c)"

definition session_msgbox :: "string \<Rightarrow> string \<Rightarrow> string \<Rightarrow> string \<Rightarrow> 'a ui_session_scheme \<Rightarrow> 'a ui_session_scheme" where
  "session_msgbox ty title txt link s =
     to_ui (SuMsgBox ty title txt link (check_if_retry ty title txt (retry_for_relay (ss_lc s)))) s"

definition on_error :: "string \<Rightarrow> 'a ui_session_scheme \<Rightarrow> 'a ui_session_scheme" where
  "on_error err = session_msgbox ''error'' ''Error'' err []"

text \<open>What a function of the login configuration shows and sends, as the session does it.\<close>

fun lc_effect :: "bool \<Rightarrow> client_effect \<Rightarrow> session_effect" where
  "lc_effect r (ClMsgBox ty title txt link) = SeUi (SuMsgBox ty title txt link (check_if_retry ty title txt r))"
| "lc_effect r (ClSend m) = SePeer m"
| "lc_effect r (ClSyncAb i password) = SeSyncAb i password"

definition run_lc :: "(client \<Rightarrow> 'r \<times> client) \<Rightarrow> 'a ui_session_scheme \<Rightarrow> 'r \<times> 'a ui_session_scheme" where
  "run_lc f s =
     (let (r, c) = f ((ss_lc s)\<lparr>cl_out := []\<rparr>)
      in (r, s\<lparr>ss_lc := c\<lparr>cl_out := []\<rparr>,
               ss_out := ss_out s @ map (lc_effect (retry_for_relay c)) (cl_out c)\<rparr>))"

definition with_lc :: "(client \<Rightarrow> client) \<Rightarrow> 'a ui_session_scheme \<Rightarrow> 'a ui_session_scheme" where
  "with_lc f s = snd (run_lc (\<lambda>c. ((), f c)) s)"

definition lc_message :: "(client \<Rightarrow> message \<times> client) \<Rightarrow> 'a ui_session_scheme \<Rightarrow> 'a ui_session_scheme" where
  "lc_message f s = (let (m, s) = run_lc f s in session_send (UdMessage m) s)"

section \<open>What kind of session, and its options\<close>

definition is_file_transfer :: "'a ui_session_scheme \<Rightarrow> bool" where
  "is_file_transfer s = (lc_conn_type (ss_lc s) = FILE_TRANSFER)"

definition is_port_forward :: "'a ui_session_scheme \<Rightarrow> bool" where
  "is_port_forward s = (lc_conn_type (ss_lc s) = PORT_FORWARD \<or> lc_conn_type (ss_lc s) = RDP)"

definition is_rdp :: "'a ui_session_scheme \<Rightarrow> bool" where
  "is_rdp s = (lc_conn_type (ss_lc s) = RDP)"

definition peer_platform :: "'a ui_session_scheme \<Rightarrow> string" where
  "peer_platform s = pis_platform (pc_info (lc_config (ss_lc s)))"

definition PLATFORM_WINDOWS :: string where "PLATFORM_WINDOWS = ''Windows''"

definition get_platform :: "session_env \<Rightarrow> bool \<Rightarrow> 'a ui_session_scheme \<Rightarrow> string" where
  "get_platform e is_remote s = (if is_remote then peer_platform s else re_platform e)"

definition get_path_sep :: "session_env \<Rightarrow> bool \<Rightarrow> 'a ui_session_scheme \<Rightarrow> string" where
  "get_path_sep e is_remote s =
     (if get_platform e is_remote s = PLATFORM_WINDOWS then [CHR 0x5C] else ''/'')"

definition is_support_multi_ui_session_num :: "i64 \<Rightarrow> bool" where
  "is_support_multi_ui_session_num ver = (sint (get_version_number ''1.2.4'') \<le> sint ver)"

definition fallback_keyboard_mode :: "'a ui_session_scheme \<Rightarrow> string" where
  "fallback_keyboard_mode s =
     (let version = lc_version (ss_lc s) in
      case get_supported_keyboard_modes version (peer_platform s) of
        mode # _ \<Rightarrow> show_keyboard_mode mode
      | [] \<Rightarrow> if sint (get_version_number ''1.2.0'') \<le> sint version
               then show_keyboard_mode KmMap else show_keyboard_mode KmLegacy)"

definition get_keyboard_mode :: "'a ui_session_scheme \<Rightarrow> string" where
  "get_keyboard_mode s =
     (case parse_keyboard_mode (pc_keyboard_mode (lc_config (ss_lc s))) of
        Some mode \<Rightarrow>
          if is_keyboard_mode_supported mode (lc_version (ss_lc s)) (peer_platform s)
          then show_keyboard_mode mode else fallback_keyboard_mode s
      | None \<Rightarrow> fallback_keyboard_mode s)"

definition is_text_clipboard_required :: "'a ui_session_scheme \<Rightarrow> bool" where
  "is_text_clipboard_required s =
     (ss_server_clipboard_enabled s \<and> ss_server_keyboard_enabled s \<and>
      \<not> pc_disable_clipboard (lc_config (ss_lc s)))"

definition session_toggle_option :: "string \<Rightarrow> 'a ui_session_scheme \<Rightarrow> 'a ui_session_scheme" where
  "session_toggle_option name s =
     (let (m, s) = run_lc (toggle_option name) s
      in case m of Some msg \<Rightarrow> session_send (UdMessage msg) s | None \<Rightarrow> s)"

definition session_toggle_privacy_mode :: "string \<Rightarrow> bool \<Rightarrow> 'a ui_session_scheme \<Rightarrow> 'a ui_session_scheme" where
  "session_toggle_privacy_mode impl_key on = send_misc (MiscTogglePrivacyMode impl_key on)"

definition refresh_video :: "i32 \<Rightarrow> 'a ui_session_scheme \<Rightarrow> 'a ui_session_scheme" where
  "refresh_video display s =
     (if is_support_multi_ui_session_num (lc_version (ss_lc s))
      then session_send (UdMessage (refresh_display (as_usize display))) s
      else session_send (UdMessage refresh) s)"

definition toggle_virtual_display :: "i32 \<Rightarrow> bool \<Rightarrow> 'a ui_session_scheme \<Rightarrow> 'a ui_session_scheme" where
  "toggle_virtual_display index on = send_misc (MiscToggleVirtualDisplay index on)"

definition record_screen :: "bool \<Rightarrow> i32 \<Rightarrow> i32 \<Rightarrow> i32 \<Rightarrow> 'a ui_session_scheme \<Rightarrow> 'a ui_session_scheme" where
  "record_screen on display w h s =
     session_send (UdRecordScreen on (as_usize display) w h (lc_id (ss_lc s))) s"

definition record_status :: "bool \<Rightarrow> 'a ui_session_scheme \<Rightarrow> 'a ui_session_scheme" where
  "record_status status = send_misc (MiscClientRecordStatus status)"

definition session_custom_image_quality :: "i32 \<Rightarrow> 'a ui_session_scheme \<Rightarrow> 'a ui_session_scheme" where
  "session_custom_image_quality q = lc_message (save_custom_image_quality q)"

definition session_image_quality :: "string \<Rightarrow> 'a ui_session_scheme \<Rightarrow> 'a ui_session_scheme" where
  "session_image_quality value s =
     (let (m, s) = run_lc (save_image_quality value) s;
          s = (case m of Some msg \<Rightarrow> session_send (UdMessage msg) s | None \<Rightarrow> s)
      in if value \<noteq> ''custom'' then lc_message (set_custom_fps 30 False) s else s)"

definition session_custom_fps :: "i32 \<Rightarrow> 'a ui_session_scheme \<Rightarrow> 'a ui_session_scheme" where
  "session_custom_fps fps = lc_message (set_custom_fps fps True)"

definition alternative_codecs :: "session_env \<Rightarrow> 'a ui_session_scheme \<Rightarrow> bool \<times> bool \<times> bool \<times> bool" where
  "alternative_codecs e s =
     (let ce = re_client e; c = ss_lc s;
          d = supported_decodings (ce_codec ce) PreferAuto I420 (ce_hw ce) (env_vram_option (ce_codec ce))
                (ce_vram ce (lc_adapter_luid c)) (lc_mark_unsupported c);
          enc = lc_supported_encoding c
      in (0 < ability_vp8 d \<and> se_vp8 enc, 0 < ability_av1 d \<and> se_av1 enc,
          0 < ability_h264 d \<and> se_h264 enc, 0 < ability_h265 d \<and> se_h265 enc))"

definition change_prefer_codec :: "session_env \<Rightarrow> 'a ui_session_scheme \<Rightarrow> 'a ui_session_scheme" where
  "change_prefer_codec e = lc_message (update_supported_decodings (re_client e))"

definition session_restart_remote_device :: "'a ui_session_scheme \<Rightarrow> 'a ui_session_scheme" where
  "session_restart_remote_device s =
     session_send (UdMessage restart_remote_device)
       (s\<lparr>ss_lc := (ss_lc s)\<lparr>lc_restarting_remote_device := True\<rparr>\<rparr>)"

definition remove_port_forward :: "i32 \<Rightarrow> 'a ui_session_scheme \<Rightarrow> 'a ui_session_scheme" where
  "remove_port_forward port s =
     session_send (UdRemovePortForward port)
       (with_lc (edit_config (\<lambda>cfg. cfg\<lparr>pc_port_forwards := filter (\<lambda>x. fst x \<noteq> port) (pc_port_forwards cfg)\<rparr>)) s)"

definition add_port_forward :: "i32 \<Rightarrow> string \<Rightarrow> i32 \<Rightarrow> 'a ui_session_scheme \<Rightarrow> 'a ui_session_scheme" where
  "add_port_forward port remote_host remote_port s =
     (let (cfg, s) = run_lc load_config s in
      if \<exists>x \<in> set (pc_port_forwards cfg). fst x = port then s
      else
        (let pf = (port, remote_host, remote_port)
         in session_send (UdAddPortForward pf)
              (with_lc (save_config (cfg\<lparr>pc_port_forwards := pc_port_forwards cfg @ [pf]\<rparr>)) s)))"

definition session_get_option :: "session_env \<Rightarrow> string \<Rightarrow> 'a ui_session_scheme \<Rightarrow> string" where
  "session_get_option e k s =
     (if k = ''remote_dir'' then get_remote_dir (re_client e) (ss_lc s) else client_get_option (ss_lc s) k)"

definition session_set_option :: "session_env \<Rightarrow> string \<Rightarrow> string \<Rightarrow> 'a ui_session_scheme \<Rightarrow> 'a ui_session_scheme" where
  "session_set_option e k v s =
     (let v = (if k = ''remote_dir'' then get_all_remote_dir (re_client e) v (ss_lc s) else v)
      in with_lc (client_set_option k v) s)"

section \<open>Input\<close>

fun swap_modifier :: "control_key \<Rightarrow> control_key" where
  "swap_modifier CkControl = CkMeta"
| "swap_modifier CkMeta = CkControl"
| "swap_modifier CkRControl = CkMeta"
| "swap_modifier CkRWin = CkControl"
| "swap_modifier k = k"

definition is_whitespace :: "char \<Rightarrow> bool" where
  "is_whitespace c = ((of_char c :: nat) \<in> {9..13} \<union> {32, 133, 160})"

text \<open>A key code is swapped by the tables of the peer's platform.\<close>

definition swap_modifier_key :: "session_env \<Rightarrow> key_event \<Rightarrow> 'a ui_session_scheme \<Rightarrow> key_event" where
  "swap_modifier_key e msg s =
     (if get_toggle_option (ss_lc s) ''allow_swap_key'' then
        (let msg = (case ke_union msg of
                      Some (KeyControl ck) \<Rightarrow> msg\<lparr>ke_union := Some (KeyControl (swap_modifier ck))\<rparr>
                    | _ \<Rightarrow> msg);
             msg = msg\<lparr>ke_modifiers := map swap_modifier (ke_modifiers msg)\<rparr>;
             peer = filter (\<lambda>c. \<not> is_whitespace c) (to_lowercase (peer_platform s))
         in case ke_union msg of
              Some (KeyChr code) \<Rightarrow>
                if code \<noteq> 0 then msg\<lparr>ke_union := Some (KeyChr (re_swap_chr e peer code))\<rparr> else msg
            | _ \<Rightarrow> msg)
      else msg)"

definition send_key_event :: "session_env \<Rightarrow> key_event \<Rightarrow> 'a ui_session_scheme \<Rightarrow> 'a ui_session_scheme" where
  "send_key_event e evt s = session_send (UdMessage (MsgKeyEvent (swap_modifier_key e evt s))) s"

definition key_event_default :: key_event where
  "key_event_default =
     \<lparr>ke_down = False, ke_press = False, ke_union = None, ke_modifiers = [], ke_mode = KmLegacy\<rparr>"

definition input_string :: "string \<Rightarrow> 'a ui_session_scheme \<Rightarrow> 'a ui_session_scheme" where
  "input_string value =
     session_send (UdMessage (MsgKeyEvent (key_event_default\<lparr>ke_union := Some (KeySeq value)\<rparr>)))"

text \<open>\<open>_input_os_password\<close>: what its thread puts on the channel once the screen is awake.\<close>

definition os_password_events :: "string \<Rightarrow> key_event list" where
  "os_password_events p =
     (if p = [] then []
      else [key_event_default\<lparr>ke_press := True, ke_union := Some (KeySeq p)\<rparr>,
            key_event_default\<lparr>ke_press := True, ke_union := Some (KeyControl CkReturn)\<rparr>])"

definition MOUSE_TYPE_DOWN :: i32 where "MOUSE_TYPE_DOWN = 1"
definition MOUSE_TYPE_UP :: i32 where "MOUSE_TYPE_UP = 2"
definition MOUSE_TYPE_WHEEL :: i32 where "MOUSE_TYPE_WHEEL = 3"
definition MOUSE_BUTTON_LEFT :: i32 where "MOUSE_BUTTON_LEFT = 1"
definition MOUSE_BUTTON_RIGHT :: i32 where "MOUSE_BUTTON_RIGHT = 2"

definition get_scroll_xy :: "i32 \<times> i32 \<Rightarrow> 'a ui_session_scheme \<Rightarrow> i32 \<times> i32" where
  "get_scroll_xy xy s =
     (if pc_reverse_mouse_wheel (lc_config (ss_lc s)) = ''Y'' then (- fst xy, - snd xy) else xy)"

text \<open>The bm with the two buttons exchanged, when exactly one of them is named.\<close>

definition swap_buttons :: "i32 \<Rightarrow> i32" where
  "swap_buttons bm =
     (let left = push_bit 3 MOUSE_BUTTON_LEFT; right = push_bit 3 MOUSE_BUTTON_RIGHT;
          is_left = (0 < sint (bm AND left)); is_right = (0 < sint (bm AND right))
      in if is_left \<noteq> is_right then
           (if is_left then (bm AND NOT left) OR right else (bm AND NOT right) OR left)
         else bm)"

text \<open>\<open>send_mouse\<close> of \<open>client.rs\<close>.\<close>

definition mouse_message ::
    "i32 \<Rightarrow> i32 \<Rightarrow> i32 \<Rightarrow> bool \<Rightarrow> bool \<Rightarrow> bool \<Rightarrow> bool \<Rightarrow> 'a ui_session_scheme \<Rightarrow> message" where
  "mouse_message bm x y alt ctrl shift command s =
     (let modifiers = (if alt then [CkAlt] else []) @ (if shift then [CkShift] else []) @
                      (if ctrl then [CkControl] else []) @ (if command then [CkMeta] else [])
      in MsgMouseEvent \<lparr>me_mask = bm, me_x = x, me_y = y,
           me_modifiers = (if get_toggle_option (ss_lc s) ''allow_swap_key''
                           then map swap_modifier modifiers else modifiers)\<rparr>)"

definition session_send_mouse ::
    "session_env \<Rightarrow> i32 \<Rightarrow> i32 \<Rightarrow> i32 \<Rightarrow> bool \<Rightarrow> bool \<Rightarrow> bool \<Rightarrow> bool \<Rightarrow> 'a ui_session_scheme \<Rightarrow> 'a ui_session_scheme" where
  "session_send_mouse e bm x y alt ctrl shift command s =
     (let (x, y) = (if bm = MOUSE_TYPE_WHEEL then get_scroll_xy (x, y) s else (x, y));
          (m_alt, m_ctrl, m_shift, m_command) = re_modifiers e;
          bm = (if get_toggle_option (ss_lc s) ''swap-left-right-mouse'' then swap_buttons bm else bm)
      in session_send (UdMessage (mouse_message bm x y (m_alt \<or> alt) (m_ctrl \<or> ctrl)
            (m_shift \<or> shift) (m_command \<or> command) s)) s)"

section \<open>Requests of the user\<close>

definition send_chat :: "string \<Rightarrow> 'a ui_session_scheme \<Rightarrow> 'a ui_session_scheme" where
  "send_chat txt = send_misc (MiscChatMessage txt)"

definition session_capture_displays ::
    "i32 list \<Rightarrow> i32 list \<Rightarrow> i32 list \<Rightarrow> 'a ui_session_scheme \<Rightarrow> 'a ui_session_scheme" where
  "session_capture_displays add sub sets = send_misc (MiscCaptureDisplays add sub sets)"

definition session_switch_display :: "i32 \<Rightarrow> 'a ui_session_scheme \<Rightarrow> 'a ui_session_scheme" where
  "session_switch_display display s =
     (let (w, h) = (case get_custom_resolution display (ss_lc s) of Some wh \<Rightarrow> wh | None \<Rightarrow> (0, 0))
      in send_misc (MiscSwitchDisplay \<lparr>sw_display = display, sw_x = 0, sw_y = 0, sw_width = w, sw_height = h,
           sw_cursor_embedded = False, sw_original_resolution = (0, 0)\<rparr>) s)"

definition session_login :: "string \<Rightarrow> string \<Rightarrow> string \<Rightarrow> bool \<Rightarrow> 'a ui_session_scheme \<Rightarrow> 'a ui_session_scheme" where
  "session_login os_username os_password password remember =
     session_send (UdLogin os_username os_password password remember)"

definition send2fa :: "string \<Rightarrow> 'a ui_session_scheme \<Rightarrow> 'a ui_session_scheme" where
  "send2fa code = session_send (UdMessage (MsgAuth2fa code))"

definition session_close :: "'a ui_session_scheme \<Rightarrow> 'a ui_session_scheme" where
  "session_close = session_send UdClose"

definition load_last_jobs :: "'a ui_session_scheme \<Rightarrow> 'a ui_session_scheme" where
  "load_last_jobs s =
     (let s = to_ui SuClearAllJobs s;
          (cfg, s) = run_lc load_config s;
          jobs = filter (\<lambda>j. j \<noteq> []) (ts_read_jobs (pc_transfer cfg) @ ts_write_jobs (pc_transfer cfg))
      in if ts_write_jobs (pc_transfer cfg) = [] \<and> ts_read_jobs (pc_transfer cfg) = [] then s
         else to_ui SuUpdateTransferList
                (fold (\<lambda>(n, j). to_ui (SuLoadLastJob (of_nat n) j)) (enumerate 1 jobs) s))"

text \<open>The host's answer to the request to switch sides comes over IPC and is an argument.\<close>

definition session_switch_sides :: "bytes option \<Rightarrow> 'a ui_session_scheme \<Rightarrow> 'a ui_session_scheme" where
  "session_switch_sides uuid s =
     (case uuid of Some u \<Rightarrow> send_misc (MiscSwitchSidesRequest u) s | None \<Rightarrow> s)"

definition send_message_query :: "nat \<Rightarrow> 'a ui_session_scheme \<Rightarrow> 'a ui_session_scheme" where
  "send_message_query display = send_misc (MiscMessageQuery (of_nat display))"

section \<open>Resolutions\<close>

definition CHANGE_RESOLUTION_VALID_TIMEOUT_SECS :: int where "CHANGE_RESOLUTION_VALID_TIMEOUT_SECS = 15"

definition change_display_default :: "session_env \<Rightarrow> change_display_record" where
  "change_display_default e =
     \<lparr>cd_time = int (re_time e) - (CHANGE_RESOLUTION_VALID_TIMEOUT_SECS + 1) * 1000, cd_display = 0,
      cd_width = 0, cd_height = 0\<rparr>"

definition is_the_same_record :: "session_env \<Rightarrow> change_display_record \<Rightarrow> i32 \<Rightarrow> i32 \<Rightarrow> i32 \<Rightarrow> bool" where
  "is_the_same_record e r display w h \<longleftrightarrow>
     (int (re_time e) - cd_time r) div 1000 < CHANGE_RESOLUTION_VALID_TIMEOUT_SECS \<and>
     cd_display r = display \<and> cd_width r = w \<and> cd_height r = h"

definition session_custom_resolution :: "session_env \<Rightarrow> switch_display \<Rightarrow> 'a ui_session_scheme \<Rightarrow> 'a ui_session_scheme" where
  "session_custom_resolution e d s =
     (if (sw_width d, sw_height d) = sw_original_resolution d then
        with_lc (set_custom_resolution (sw_display d) None) s
      else if cd_display (ss_last_change_display s) = sw_display d then
        with_lc (set_custom_resolution (sw_display d)
          (if is_the_same_record e (ss_last_change_display s) (sw_display d) (sw_width d) (sw_height d)
           then Some (sw_width d, sw_height d) else None)) s
      else s)"

definition handle_peer_switch_display :: "session_env \<Rightarrow> switch_display \<Rightarrow> 'a ui_session_scheme \<Rightarrow> 'a ui_session_scheme" where
  "handle_peer_switch_display e d s = session_custom_resolution e d (to_ui (SuSwitchDisplay d) s)"

definition do_change_resolution :: "i32 \<Rightarrow> i32 \<Rightarrow> i32 \<Rightarrow> 'a ui_session_scheme \<Rightarrow> 'a ui_session_scheme" where
  "do_change_resolution display w h s =
     (if is_support_multi_ui_session_num (lc_version (ss_lc s))
      then send_misc (MiscChangeDisplayResolution display w h) s
      else send_misc (MiscChangeResolution w h) s)"

definition session_change_resolution :: "session_env \<Rightarrow> i32 \<Rightarrow> i32 \<Rightarrow> i32 \<Rightarrow> 'a ui_session_scheme \<Rightarrow> 'a ui_session_scheme" where
  "session_change_resolution e display w h s =
     do_change_resolution display w h
       (s\<lparr>ss_last_change_display := \<lparr>cd_time = int (re_time e), cd_display = display, cd_width = w, cd_height = h\<rparr>\<rparr>)"

definition try_change_init_resolution :: "session_env \<Rightarrow> i32 \<Rightarrow> 'a ui_session_scheme \<Rightarrow> 'a ui_session_scheme" where
  "try_change_init_resolution e display s =
     (case get_custom_resolution display (ss_lc s) of
        Some (w, h) \<Rightarrow> session_change_resolution e display w h s | None \<Rightarrow> s)"

section \<open>The answer of the peer\<close>

definition parse_u32 :: "string \<Rightarrow> int option" where
  "parse_u32 = parse_int 0 (2 ^ 32 - 1)"

definition send_selected_session_id :: "string \<Rightarrow> 'a ui_session_scheme \<Rightarrow> 'a ui_session_scheme" where
  "send_selected_session_id sid s =
     (case parse_u32 sid of
        None \<Rightarrow> s
      | Some v \<Rightarrow>
          (let sid = word_of_int v;
               s = send_misc (MiscSelectedSid sid) (s\<lparr>ss_lc := (ss_lc s)\<lparr>lc_selected_windows_session_id := Some sid\<rparr>\<rparr>)
           in case lc_peer_info (ss_lc s) of
                None \<Rightarrow> s
              | Some pinfo \<Rightarrow>
                  if snd (pi_windows_sessions pinfo) = sid then
                    (if is_file_transfer s then
                       (if pi_username pinfo = []
                        then on_error ''No active console user logged on, please connect and logon first.'' s
                        else s)
                     else session_msgbox ''success'' ''Successful'' ''Connected, waiting for image...'' [] s)
                  else s))"

text \<open>The end of \<open>handle_peer_info\<close>, for a session that goes on.\<close>

definition peer_info_done :: "session_env \<Rightarrow> peer_info \<Rightarrow> 'a ui_session_scheme \<Rightarrow> 'a ui_session_scheme" where
  "peer_info_done e pinfo s =
     (let s = to_ui SuUpdatePrivacyMode s;
          s = with_lc (handle_peer_info (re_client e) pinfo) s;
          s = to_ui (SuSetPeerInfo pinfo) s;
          s = (if is_file_transfer s then to_ui SuCloseSuccess s
               else if \<not> is_port_forward s
               then session_msgbox ''success'' ''Successful'' ''Connected, waiting for image...'' [] s
               else s);
          s = to_ui (SuOnConnected (lc_conn_type (ss_lc s))) s;
          (sessions, current) = pi_windows_sessions pinfo
      in if sessions \<noteq> [] then
           (if lc_selected_windows_session_id (ss_lc s) = Some current
            then send_selected_session_id (show_nat (unat current)) s
            else to_ui (SuMultipleWindowsSession sessions) s)
         else s)"

definition session_peer_info :: "session_env \<Rightarrow> peer_info \<Rightarrow> 'a ui_session_scheme \<Rightarrow> 'a ui_session_scheme" where
  "session_peer_info e pinfo s =
     (let s = s\<lparr>ss_lc := (ss_lc s)\<lparr>lc_peer_info := Some pinfo\<rparr>\<rparr>;
          pinfo = (if as_usize (pi_current_display pinfo) \<ge> length (pi_displays pinfo)
                   then pinfo\<lparr>pi_current_display := 0\<rparr> else pinfo);
          s = (if sint (get_version_number (pi_version pinfo)) < sint (get_version_number ''1.1.10'')
               then to_ui (SuSetPermission ''restart'' False) s else s)
      in if is_file_transfer s then
           (if pi_username pinfo = [] \<and> fst (pi_windows_sessions pinfo) = []
            then on_error ''No active console user logged on, please connect and logon first.'' s
            else peer_info_done e pinfo s)
         else if \<not> is_port_forward s then
           (if pi_displays pinfo = [] then
              session_msgbox ''error'' ''Remote Error'' ''No Displays'' []
                (to_ui SuUpdatePrivacyMode (with_lc (handle_peer_info (re_client e) pinfo) s))
            else
              (let s = try_change_init_resolution e (pi_current_display pinfo) s;
                   p = should_auto_login (ss_lc s);
                   s = (if p \<noteq> [] then session_emit (SeOsPassword p) s else s);
                   cur = pi_displays pinfo ! as_usize (pi_current_display pinfo);
                   s = to_ui (SuSetDisplay (di_x cur) (di_y cur) (di_width cur) (di_height cur)
                         (di_cursor_embedded cur)) s
               in peer_info_done e pinfo s))
         else peer_info_done e pinfo s)"

definition session_test_delay :: "test_delay \<Rightarrow> 'a ui_session_scheme \<Rightarrow> 'a ui_session_scheme" where
  "session_test_delay t s =
     (if \<not> td_from_client t then
        to_host (MsgTestDelay t)
          (to_ui (SuQualityStatus (quality_default\<lparr>qs_delay := Some (td_last_delay t),
             qs_target_bitrate := Some (td_target_bitrate t)\<rparr>)) s)
      else s)"

definition on_establish_connection_error :: "session_env \<Rightarrow> string \<Rightarrow> 'a ui_session_scheme \<Rightarrow> 'a ui_session_scheme" where
  "on_establish_connection_error e err s =
     (let c = ss_lc s in
      if lc_direct c = Some True \<and> (re_errno e = 104 \<or> sublist ''104'' err) then
        session_msgbox (if \<not> lc_received c then ''relay-hint2'' else ''relay-hint'') ''Connection Error'' err [] s
      else session_msgbox ''error'' ''Connection Error'' err [] s)"

section \<open>Rounds\<close>

definition new_round :: "'a ui_session_scheme \<Rightarrow> 'a ui_session_scheme" where
  "new_round s = s\<lparr>ss_round := ss_round s + 1, ss_round_state := Connecting\<rparr>"

definition set_connected :: "'a ui_session_scheme \<Rightarrow> 'a ui_session_scheme" where
  "set_connected s = s\<lparr>ss_round_state := Connected\<rparr>"

definition is_round_gt :: "u32 \<Rightarrow> 'a ui_session_scheme \<Rightarrow> bool" where
  "is_round_gt rnd s = (if rnd = - 1 \<and> ss_round s = 0 then True else rnd < ss_round s)"

definition set_disconnected :: "u32 \<Rightarrow> 'a ui_session_scheme \<Rightarrow> bool \<times> 'a ui_session_scheme" where
  "set_disconnected rnd s =
     (if is_round_gt rnd s then (False, s) else (True, s\<lparr>ss_round_state := Disconnected\<rparr>))"

definition reconnect :: "bool \<Rightarrow> 'a ui_session_scheme \<Rightarrow> 'a ui_session_scheme" where
  "reconnect force_relay s =
     (if ss_thread s \<and> ss_round_state s = Connecting then s
      else
        (let s = (if ss_thread s \<and> ss_round_state s = Connected then session_send UdClose s else s);
             s = new_round s;
             c = ss_lc s;
             s = s\<lparr>ss_lc := c\<lparr>lc_force_relay := (force_relay \<or> lc_force_relay c), lc_peer_info := None\<rparr>,
                   ss_thread := True\<rparr>
         in session_emit (SeSpawnLoop (ss_round s)) s))"

end
