(* ===== verification/Remote_State.thy ===== *)
theory Remote_State
  imports Session_State
begin

text \<open>
  The loop of a session (\<open>Remote\<close> in \<open>src/client/io_loop.rs\<close>), its state and the small operations:
  the jobs and their progress, recursive removals, the microphone of a voice call, the clipboard
  context, and what is saved when the loop ends. The state extends the session by the fields of
  \<open>Remote\<close> and the locals of \<open>io_loop\<close>. Channels to the threads for video and sound are effects.
\<close>

section \<open>State\<close>

text \<open>\<open>RemoveJob\<close>; the time is in milliseconds.\<close>

record removal =
  rj_files :: "file_entry list"
  rj_path :: string
  rj_sep :: string
  rj_is_remote :: bool
  rj_no_confirm :: bool
  rj_last_update :: nat

definition new_removal :: "session_env \<Rightarrow> file_entry list \<Rightarrow> string \<Rightarrow> string \<Rightarrow> bool \<Rightarrow> removal" where
  "new_removal e files path sep is_remote =
     \<lparr>rj_files = files, rj_path = path, rj_sep = sep, rj_is_remote = is_remote,
      rj_no_confirm = False, rj_last_update = re_time e\<rparr>"

record fps_ctl =
  fc_last_queue_size :: nat
  fc_refresh_times :: nat
  fc_last_refresh :: nat
  fc_last_auto_fps :: "int option"
  fc_idle_counter :: nat

definition fps_ctl_default :: "session_env \<Rightarrow> fps_ctl" where
  "fps_ctl_default e =
     \<lparr>fc_last_queue_size = 0, fc_refresh_times = 0, fc_last_refresh = re_time e,
      fc_last_auto_fps = None, fc_idle_counter = 0\<rparr>"

record remote = ui_session +
  rm_stop_voice :: bool                \<comment> \<open>\<open>stop_voice_call_sender\<close>: the microphone is on\<close>
  rm_voice_ts :: "i64 option"
  rm_read_jobs :: "transfer_job list"
  rm_write_jobs :: "transfer_job list"
  rm_removals :: "(i32, removal) hmap"
  rm_fast_timer :: bool                \<comment> \<open>every millisecond, or every 30 seconds\<close>
  rm_last_jobs :: "nat \<times> (i32, u64) hmap"
  rm_is_connected :: bool
  rm_first_frame :: bool
  rm_client_conn_id :: i32
  rm_data_count :: u64
  rm_frame_count :: "(nat, nat) hmap"
  rm_video_format :: codec_format
  rm_elevation_requested :: bool
  rm_fps_control :: "(nat, fps_ctl) hmap"
  rm_decode_fps :: "(nat, nat) hmap"
  rm_chroma :: "chroma option"
  rm_video_queues :: "(nat, video_frame list) hmap"
  rm_fs :: file_system
  rm_clip :: "nat option"              \<comment> \<open>the channel of the file clipboard\<close>
  rm_last_recv :: nat
  rm_received :: bool
  rm_fps_instant :: nat
  rm_direct :: bool

text \<open>\<open>Remote::new\<close>, on a session, the local files and the maps shared with the video threads.\<close>

definition remote_new :: "session_env \<Rightarrow> file_system \<Rightarrow> ui_session \<Rightarrow> remote" where
  "remote_new e fs s =
     ui_session.extend s
       (remote.fields False None [] [] [] False (re_time e, []) False False 0 0 [] UnknownFormat
          False [] [] None [] fs None (re_time e) False 0 False)"

section \<open>Small operations\<close>

definition self_send :: "ui_data \<Rightarrow> remote \<Rightarrow> remote" where
  "self_send d r = r\<lparr>ss_queue := ss_queue r @ [d]\<rparr>"

text \<open>\<open>as i32\<close> of a number of milliseconds.\<close>

definition ms_i32 :: "nat \<Rightarrow> int" where
  "ms_i32 n = sint (of_nat n :: i32)"

section \<open>Removing a directory file by file\<close>

text \<open>\<open>handle_job_status\<close>: the answer for one file. A removal that needs no confirmation goes on to
  its next file, and tells the user at most once a second.\<close>

definition job_status_ui :: "i32 \<Rightarrow> i32 \<Rightarrow> string option \<Rightarrow> remote \<Rightarrow> remote" where
  "job_status_ui i file_num err =
     to_ui (case err of Some x \<Rightarrow> SuJobError i x file_num | None \<Rightarrow> SuJobDone i file_num)"

definition removal_next :: "session_env \<Rightarrow> i32 \<Rightarrow> i32 \<Rightarrow> removal \<Rightarrow> remote \<Rightarrow> bool \<times> remote" where
  "removal_next e i file_num job r =
     (let n = as_usize (file_num + 1) in
      if n < length (rj_files job) then
        (let path = rj_path job @ rj_sep job @ fe_name (rj_files job ! n);
             r = self_send (UdRemoveFile i path (of_nat n) (rj_is_remote job)) r
         in if 1000 \<le> ms_i32 (re_time e - rj_last_update job)
            then (True, r\<lparr>rm_removals := hm_insert i (job\<lparr>rj_last_update := re_time e\<rparr>) (rm_removals r)\<rparr>)
            else (False, r))
      else (True, r\<lparr>rm_removals := hm_remove i (rm_removals r)\<rparr>))"

definition handle_job_status :: "session_env \<Rightarrow> i32 \<Rightarrow> i32 \<Rightarrow> string option \<Rightarrow> remote \<Rightarrow> remote" where
  "handle_job_status e i file_num err r =
     (let (tell, r) = (case hm_get (rm_removals r) i of
                         Some job \<Rightarrow> if rj_no_confirm job then removal_next e i file_num job r else (True, r)
                       | None \<Rightarrow> (True, r))
      in if tell then job_status_ui i file_num err r else r)"

section \<open>Voice calls\<close>

definition stop_voice_call :: "remote \<Rightarrow> remote" where
  "stop_voice_call r =
     (if rm_stop_voice r then session_emit SeStopMicrophone (r\<lparr>rm_stop_voice := False\<rparr>) else r)"

text \<open>\<open>start_voice_call\<close>: the recorder, if the session may have one.\<close>

definition start_voice_call :: "session_env \<Rightarrow> remote \<Rightarrow> bool \<times> remote" where
  "start_voice_call e r =
     (if is_file_transfer r \<or> is_port_forward r then (False, r)
      else
        (let r = (case re_sound_input e of Some d \<Rightarrow> session_emit (SeSoundInput d) r | None \<Rightarrow> r)
         in (True, session_emit SeRecordMicrophone r)))"

text \<open>Its result replaces the old sender, whose thread ends when it is dropped.\<close>

definition replace_voice_call :: "session_env \<Rightarrow> remote \<Rightarrow> remote" where
  "replace_voice_call e r =
     (let (on, r) = start_voice_call e r
      in (stop_voice_call r)\<lparr>rm_stop_voice := on\<rparr>)"

section \<open>Progress\<close>

definition update_job_status :: "int \<Rightarrow> transfer_job \<Rightarrow> remote \<Rightarrow> remote" where
  "update_job_status elapsed job r =
     (if elapsed \<le> 0 then r
      else
        (let sent = tj_transferred job;
             last_sent = (case hm_get (snd (rm_last_jobs r)) (tj_id job) of Some v \<Rightarrow> v | None \<Rightarrow> 0);
             r = r\<lparr>rm_last_jobs := (fst (rm_last_jobs r), hm_insert (tj_id job) sent (snd (rm_last_jobs r)))\<rparr>
         in to_ui (SuJobProgress (tj_id job) (tj_file_num job - 1) (sent - last_sent, nat elapsed)
              (tj_finished_size job)) r))"

definition update_jobs_status :: "session_env \<Rightarrow> remote \<Rightarrow> remote" where
  "update_jobs_status e r =
     (let elapsed = ms_i32 (re_time e - fst (rm_last_jobs r)) in
      if 1000 \<le> elapsed then
        (let r = fold (update_job_status elapsed) (rm_read_jobs r) r;
             r = fold (update_job_status elapsed) (rm_write_jobs r) r
         in r\<lparr>rm_last_jobs := (re_time e, snd (rm_last_jobs r))\<rparr>)
      else r)"

text \<open>\<open>sync_jobs_status_to_local\<close>: the jobs left are written to the file of the peer.\<close>

definition sync_jobs_status_to_local :: "session_env \<Rightarrow> remote \<Rightarrow> remote" where
  "sync_jobs_status_to_local e r =
     (let (cfg, r) = run_lc load_config r;
          metas = \<lparr>ts_write_jobs = map (re_meta_json e) (rm_write_jobs r),
                   ts_read_jobs = map (re_meta_json e) (rm_read_jobs r)\<rparr>
      in if pc_transfer cfg \<noteq> metas then with_lc (save_config (cfg\<lparr>pc_transfer := metas\<rparr>)) r else r)"

section \<open>The clipboard\<close>

definition client_context_enable :: "session_env \<Rightarrow> bool \<Rightarrow> remote \<Rightarrow> remote" where
  "client_context_enable e b r = r\<lparr>ss_context := context_enable (re_created e) b (ss_context r)\<rparr>"

definition client_context :: "context_call \<Rightarrow> remote \<Rightarrow> remote" where
  "client_context call r = r\<lparr>ss_context := context_proc call (ss_context r)\<rparr>"

definition client_make_sure_enabled :: "session_env \<Rightarrow> remote \<Rightarrow> remote" where
  "client_make_sure_enabled e r = r\<lparr>ss_context := snd (make_sure_enabled (re_created e) (ss_context r))\<rparr>"

definition check_clipboard_file_context :: "session_env \<Rightarrow> remote \<Rightarrow> remote" where
  "check_clipboard_file_context e r =
     client_context_enable e
       (ss_server_file_transfer_enabled r \<and> pc_enable_file_transfer (lc_config (ss_lc r))) r"

text \<open>\<open>handle_local_clipboard_msg\<close>: what the system's clipboard has for the host.\<close>

definition handle_local_clipboard_msg :: "session_env \<Rightarrow> clipboard_file \<Rightarrow> remote \<Rightarrow> remote" where
  "handle_local_clipboard_msg e clip r =
     (case clip of
        NotifyCallback ty title txt \<Rightarrow> session_msgbox ty title txt [] r
      | _ \<Rightarrow>
          (let cfg = lc_config (ss_lc r);
               stop = (is_stopping_allowed clip \<and>
                       (pc_view_only cfg \<or> \<not> rm_is_connected r \<or>
                        \<not> (ss_server_file_transfer_enabled r \<and> pc_enable_file_transfer cfg)))
           in if stop then client_context SetIsStopped r
              else to_host (clip_2_msg clip) (client_make_sure_enabled e r)))"

text \<open>\<open>handle_cliprdr_msg\<close>: what the host's clipboard has for this system. A list of files counts
  only for the session in front.\<close>

definition handle_cliprdr_msg :: "session_env \<Rightarrow> cliprdr_union option \<Rightarrow> remote \<Rightarrow> remote" where
  "handle_cliprdr_msg e u r =
     (let other = (case u of
                     Some (CuFormatList _) \<Rightarrow>
                       rm_client_conn_id r \<noteq>
                         (case get_client_conn_id (re_cur_peer_id e) (ss_registry r) of Some i \<Rightarrow> i | None \<Rightarrow> 0)
                   | _ \<Rightarrow> False)
      in if other then r
         else case msg_2_clip u of
             None \<Rightarrow> r
           | Some clip \<Rightarrow>
               if is_stopping_allowed_from_peer clip \<and> \<not> pc_enable_file_transfer (lc_config (ss_lc r)) then r
               else client_context (ServerClipFile (rm_client_conn_id r) clip) (client_make_sure_enabled e r))"

definition try_start_clipboard :: "remote \<Rightarrow> remote" where
  "try_start_clipboard r = r\<lparr>ss_clipboard_running := True\<rparr>"

definition try_stop_clipboard :: "session_env \<Rightarrow> remote \<Rightarrow> remote" where
  "try_stop_clipboard e r = (if re_sessions_running e then r else r\<lparr>ss_clipboard_running := False\<rparr>)"

end
