(* ===== verification/Remote_Ui.thy ===== *)
theory Remote_Ui
  imports Remote_State
begin

text \<open>
  What the loop of a session does with the requests of the user (\<open>handle_msg_from_ui\<close> in
  \<open>src/client/io_loop.rs\<close>): the files sent, received and removed, and the rest.
\<close>

section \<open>Transfers\<close>

definition client_od :: "remote \<Rightarrow> bool" where
  "client_od r = can_enable_overwrite_detection (lc_version (ss_lc r))"

text \<open>Reading a directory to send it; what is done with the job is an argument.\<close>

definition ui_read_job ::
    "session_env \<Rightarrow> i32 \<Rightarrow> string \<Rightarrow> string \<Rightarrow> i32 \<Rightarrow> bool \<Rightarrow> bool \<Rightarrow>
     (transfer_job \<Rightarrow> remote \<Rightarrow> remote) \<Rightarrow> remote \<Rightarrow> remote" where
  "ui_read_job e i path dest file_num include_hidden is_remote go r =
     (case new_read (re_nodes e) i dest path file_num include_hidden is_remote (client_od r) of
        Inl err \<Rightarrow> handle_job_status e i (- 1) (Some err) r
      | Inr job \<Rightarrow> go job (to_ui (SuUpdateFolderFiles (tj_id job) (tj_files job) path (\<not> is_remote) True) r))"

definition ui_send_files :: "session_env \<Rightarrow> i32 \<Rightarrow> string \<Rightarrow> string \<Rightarrow> i32 \<Rightarrow> bool \<Rightarrow> bool \<Rightarrow> remote \<Rightarrow> remote" where
  "ui_send_files e i path dest file_num include_hidden is_remote r =
     (if is_remote then
        to_host (new_send i path file_num include_hidden)
          (r\<lparr>rm_write_jobs := rm_write_jobs r @ [new_write i path dest file_num include_hidden is_remote [] (client_od r)]\<rparr>)
      else
        ui_read_job e i path dest file_num include_hidden is_remote
          (\<lambda>job r. to_host (new_receive i dest file_num (tj_files job) (tj_total_size job))
             (r\<lparr>rm_read_jobs := rm_read_jobs r @ [job], rm_fast_timer := True\<rparr>)) r)"

definition ui_add_job :: "session_env \<Rightarrow> i32 \<Rightarrow> string \<Rightarrow> string \<Rightarrow> i32 \<Rightarrow> bool \<Rightarrow> bool \<Rightarrow> remote \<Rightarrow> remote" where
  "ui_add_job e i path dest file_num include_hidden is_remote r =
     (if is_remote then
        r\<lparr>rm_write_jobs := rm_write_jobs r @
            [(new_write i path dest file_num include_hidden is_remote [] (client_od r))\<lparr>tj_is_last_job := True\<rparr>]\<rparr>
      else
        ui_read_job e i path dest file_num include_hidden is_remote
          (\<lambda>job r. r\<lparr>rm_read_jobs := rm_read_jobs r @ [job\<lparr>tj_is_last_job := True\<rparr>], rm_fast_timer := True\<rparr>) r)"

definition ui_resume_job :: "i32 \<Rightarrow> bool \<Rightarrow> remote \<Rightarrow> remote" where
  "ui_resume_job i is_remote r =
     (if is_remote then
        (case get_job i (rm_write_jobs r) of
           Some job \<Rightarrow>
             to_host (new_send i (tj_remote job) (tj_file_num job) (tj_show_hidden job))
               (r\<lparr>rm_write_jobs := update_job i (\<lambda>j. j\<lparr>tj_is_last_job := False\<rparr>) (rm_write_jobs r)\<rparr>)
         | None \<Rightarrow> r)
      else
        (case get_job i (rm_read_jobs r) of
           Some job \<Rightarrow>
             to_host (new_receive i (tj_path job) (tj_file_num job) (tj_files job) (tj_total_size job))
               (r\<lparr>rm_read_jobs := update_job i (\<lambda>j. j\<lparr>tj_is_last_job := False\<rparr>) (rm_read_jobs r)\<rparr>)
         | None \<Rightarrow> r))"

text \<open>The answer of the user to a file that exists already.\<close>

definition override_union :: "bool \<Rightarrow> (bool + u32) option" where
  "override_union need_override = Some (if need_override then Inr 0 else Inl True)"

definition override_job :: "i32 \<Rightarrow> bool \<Rightarrow> bool \<Rightarrow> transfer_job \<Rightarrow> transfer_job" where
  "override_job file_num need_override remember job =
     job_confirm file_num (override_union need_override)
       (if remember then set_overwrite_strategy (Some need_override) job else job)"

definition ui_confirm_override :: "i32 \<Rightarrow> i32 \<Rightarrow> bool \<Rightarrow> bool \<Rightarrow> bool \<Rightarrow> remote \<Rightarrow> remote" where
  "ui_confirm_override i file_num need_override remember is_upload r =
     (if is_upload then
        r\<lparr>rm_read_jobs := update_job i (override_job file_num need_override remember) (rm_read_jobs r)\<rparr>
      else if get_job i (rm_write_jobs r) \<noteq> None then
        to_host (new_send_confirm i file_num (override_union need_override))
          (r\<lparr>rm_write_jobs := update_job i (override_job file_num need_override remember) (rm_write_jobs r)\<rparr>)
      else r)"

definition ui_cancel_job :: "i32 \<Rightarrow> remote \<Rightarrow> remote" where
  "ui_cancel_job i r =
     (let r = to_host (MsgFileAction (Some (FaCancel i))) r;
          r = (case get_job i (rm_write_jobs r) of
                 Some job \<Rightarrow> r\<lparr>rm_fs := remove_download_file job (rm_fs r),
                               rm_write_jobs := remove_job i (rm_write_jobs r)\<rparr>
               | None \<Rightarrow> r)
      in r\<lparr>rm_read_jobs := remove_job i (rm_read_jobs r), rm_removals := hm_remove i (rm_removals r)\<rparr>)"

section \<open>Directories and files\<close>

definition ui_remove_dir_all :: "session_env \<Rightarrow> i32 \<Rightarrow> string \<Rightarrow> bool \<Rightarrow> bool \<Rightarrow> remote \<Rightarrow> remote" where
  "ui_remove_dir_all e i path is_remote include_hidden r =
     (let sep = get_path_sep e is_remote r in
      if is_remote then
        (to_host (MsgFileAction (Some (FaAllFiles i path include_hidden))) r)
          \<lparr>rm_removals := hm_insert i (new_removal e [] path sep is_remote) (rm_removals r)\<rparr>
      else
        (case get_recursive_files (re_nodes e) path include_hidden of
           Inr entries \<Rightarrow>
             (to_ui (SuUpdateFolderFiles i entries path (\<not> is_remote) False) r)
               \<lparr>rm_removals := hm_insert i (new_removal e entries path sep is_remote) (rm_removals r)\<rparr>
         | Inl err \<Rightarrow> handle_job_status e i (- 1) (Some err) r))"

definition ui_set_no_confirm :: "i32 \<Rightarrow> remote \<Rightarrow> remote" where
  "ui_set_no_confirm i r =
     (case hm_get (rm_removals r) i of
        Some job \<Rightarrow> r\<lparr>rm_removals := hm_insert i (job\<lparr>rj_no_confirm := True\<rparr>) (rm_removals r)\<rparr>
      | None \<Rightarrow> r)"

definition ui_confirm_delete :: "i32 \<Rightarrow> i32 \<Rightarrow> remote \<Rightarrow> remote" where
  "ui_confirm_delete i file_num r =
     (case hm_get (rm_removals r) i of
        Some job \<Rightarrow>
          if as_usize file_num < length (rj_files job)
          then to_ui (SuConfirmDeleteFiles i file_num (fe_name (rj_files job ! as_usize file_num))) r else r
      | None \<Rightarrow> r)"

definition ui_remove_file :: "session_env \<Rightarrow> i32 \<Rightarrow> string \<Rightarrow> i32 \<Rightarrow> bool \<Rightarrow> remote \<Rightarrow> remote" where
  "ui_remove_file e i path file_num is_remote r =
     (if is_remote then to_host (MsgFileAction (Some (FaRemoveFile i path file_num))) r
      else handle_job_status e i file_num (re_remove_file e path) r)"

definition ui_create_dir :: "session_env \<Rightarrow> i32 \<Rightarrow> string \<Rightarrow> bool \<Rightarrow> remote \<Rightarrow> remote" where
  "ui_create_dir e i path is_remote r =
     (if is_remote then to_host (MsgFileAction (Some (FaCreate i path))) r
      else handle_job_status e i (- 1) (re_create_dir e path) r)"

section \<open>Everything the interface sends\<close>

definition new_voice_call_request :: "session_env \<Rightarrow> bool \<Rightarrow> message" where
  "new_voice_call_request e is_connect = MsgVoiceCallRequest is_connect (of_nat (re_time e))"

definition handle_msg_from_ui :: "session_env \<Rightarrow> ui_data \<Rightarrow> remote \<Rightarrow> bool \<times> remote" where
  "handle_msg_from_ui e d r =
     (case d of
        UdClose \<Rightarrow> (False, to_host (MsgMisc (Some (MiscCloseReason []))) r)
      | UdLogin os_username os_password password remember \<Rightarrow>
          (True, with_lc (handle_login_from_ui (re_client e) os_username os_password password remember) r)
      | UdMessage msg \<Rightarrow> (True, to_host msg r)
      | UdSendFiles i path dest file_num hidden is_remote \<Rightarrow>
          (True, ui_send_files e i path dest file_num hidden is_remote r)
      | UdAddJob i path dest file_num hidden is_remote \<Rightarrow>
          (True, ui_add_job e i path dest file_num hidden is_remote r)
      | UdResumeJob i is_remote \<Rightarrow> (True, ui_resume_job i is_remote r)
      | UdSetNoConfirm i \<Rightarrow> (True, ui_set_no_confirm i r)
      | UdConfirmDeleteFiles i file_num \<Rightarrow> (True, ui_confirm_delete i file_num r)
      | UdSetConfirmOverrideFile i file_num need_override remember is_upload \<Rightarrow>
          (True, ui_confirm_override i file_num need_override remember is_upload r)
      | UdRemoveDirAll i path is_remote hidden \<Rightarrow> (True, ui_remove_dir_all e i path is_remote hidden r)
      | UdCancelJob i \<Rightarrow> (True, ui_cancel_job i r)
      | UdRemoveDir i path \<Rightarrow> (True, to_host (MsgFileAction (Some (FaRemoveDir i path True))) r)
      | UdRemoveFile i path file_num is_remote \<Rightarrow> (True, ui_remove_file e i path file_num is_remote r)
      | UdCreateDir i path is_remote \<Rightarrow> (True, ui_create_dir e i path is_remote r)
      | UdRecordScreen on display w h i \<Rightarrow> (True, session_emit (SeMedia (MediaRecordScreen on display w h i)) r)
      | UdElevateDirect \<Rightarrow>
          (True, (to_host (MsgMisc (Some (MiscElevationRequest None))) r)\<lparr>rm_elevation_requested := True\<rparr>)
      | UdElevateWithLogon username password \<Rightarrow>
          (True, (to_host (MsgMisc (Some (MiscElevationRequest (Some (username, password))))) r)
             \<lparr>rm_elevation_requested := True\<rparr>)
      | UdNewVoiceCall \<Rightarrow>
          (True, to_ui SuVoiceCallWaiting
             (to_host (new_voice_call_request e True) (r\<lparr>rm_voice_ts := Some (of_nat (re_time e))\<rparr>)))
      | UdCloseVoiceCall \<Rightarrow>
          (True, to_host (new_voice_call_request e False)
             (to_ui (SuVoiceCallClosed ''Closed manually by the peer'') (stop_voice_call r)))
      | _ \<Rightarrow> (True, r))"

end
