(* ===== verification/Remote_Peer.thy ===== *)
theory Remote_Peer
  imports Remote_Ui
begin

text \<open>
  What the loop of a session does with the messages of the host (\<open>handle_msg_from_peer\<close> in
  \<open>src/client/io_loop.rs\<close>): video, the login, the clipboard, files, permissions and notices. The
  flag is false when the handler ends the session.
\<close>

section \<open>Video\<close>

definition VIDEO_QUEUE_SIZE :: nat where "VIDEO_QUEUE_SIZE = 120"

fun codec_format_of :: "video_union option \<Rightarrow> codec_format" where
  "codec_format_of (Some (EncodedFrames CodecVP8 _)) = VP8"
| "codec_format_of (Some (EncodedFrames CodecVP9 _)) = VP9"
| "codec_format_of (Some (EncodedFrames CodecAV1 _)) = AV1"
| "codec_format_of (Some (EncodedFrames CodecH264 _)) = H264"
| "codec_format_of (Some (EncodedFrames CodecH265 _)) = H265"
| "codec_format_of _ = UnknownFormat"

definition contains_key_frame :: "video_frame \<Rightarrow> bool" where
  "contains_key_frame vf =
     (case vf_union vf of Some (EncodedFrames _ frames) \<Rightarrow> \<exists>f \<in> set frames. fst f | _ \<Rightarrow> False)"

text \<open>\<open>ArrayQueue::force_push\<close>: a full queue loses its oldest frame.\<close>

definition force_push :: "video_frame \<Rightarrow> video_frame list \<Rightarrow> video_frame list" where
  "force_push vf q = (if length q < VIDEO_QUEUE_SIZE then q else tl q) @ [vf]"

definition send_opts_after_login :: "remote \<Rightarrow> remote" where
  "send_opts_after_login r =
     (case get_option_message_after_login (ss_lc r) of Some opts \<Rightarrow> to_host (option_msg opts) r | None \<Rightarrow> r)"

definition send_toggle_privacy_mode_msg :: "remote \<Rightarrow> remote" where
  "send_toggle_privacy_mode_msg r =
     (let c = ss_lc r in
      if sint (get_version_number ''1.2.4'') \<le> sint (lc_version c) \<and> get_toggle_option c ''privacy-mode''
      then to_host (MsgMisc (Some (MiscTogglePrivacyMode (client_get_option c ''privacy-mode-impl-key'') True))) r
      else r)"

definition on_first_frame :: "remote \<Rightarrow> remote" where
  "on_first_frame r =
     (if rm_first_frame r then r
      else send_toggle_privacy_mode_msg (send_opts_after_login
             (to_ui SuAdaptSize (to_ui SuCloseSuccess (r\<lparr>rm_first_frame := True\<rparr>)))))"

definition peer_video_frame :: "video_frame \<Rightarrow> remote \<Rightarrow> remote" where
  "peer_video_frame vf r =
     (let r = on_first_frame r;
          fmt = codec_format_of (vf_union vf);
          r = (if rm_video_format r \<noteq> fmt
               then to_ui (SuQualityStatus (quality_default\<lparr>qs_codec_format := Some fmt\<rparr>)) (r\<lparr>rm_video_format := fmt\<rparr>)
               else r);
          display = as_usize (vf_display vf);
          q = (case hm_get (rm_video_queues r) display of Some q \<Rightarrow> q | None \<Rightarrow> [])
      in if contains_key_frame vf
         then session_emit (SeMedia (MediaVideoFrame vf))
                (r\<lparr>rm_video_queues := hm_insert display [] (rm_video_queues r)\<rparr>)
         else session_emit (SeMedia (MediaVideoQueue display))
                (r\<lparr>rm_video_queues := hm_insert display (force_push vf q) (rm_video_queues r)\<rparr>))"

section \<open>The login\<close>

text \<open>The answer that lets the session in. The text on the clipboard goes to the host a moment later.\<close>

definition peer_logged_in :: "session_env \<Rightarrow> peer_info \<Rightarrow> remote \<Rightarrow> remote" where
  "peer_logged_in e pinfo r =
     (let r = check_clipboard_file_context e (session_peer_info e pinfo r);
          r = (if is_file_transfer r \<or> is_port_forward r then r
               else
                 (let r = try_start_clipboard r
                  in case re_clipboard_msg e of Some msg \<Rightarrow> session_emit (SeSendLater msg) r | None \<Rightarrow> r));
          r = (if is_file_transfer r then load_last_jobs r else r)
      in r\<lparr>rm_is_connected := True\<rparr>)"

definition peer_login_response :: "session_env \<Rightarrow> login_response \<Rightarrow> remote \<Rightarrow> bool \<times> remote" where
  "peer_login_response e lr r =
     (case lr of
        LoginError err \<Rightarrow> run_lc (handle_login_error err) r
      | LoginPeerInfo pinfo \<Rightarrow> (True, peer_logged_in e pinfo r))"

section \<open>Files\<close>

definition set_files :: "file_entry list \<Rightarrow> transfer_job \<Rightarrow> transfer_job" where
  "set_files files job = job\<lparr>tj_files := files\<rparr>"

definition peer_dir :: "i32 \<Rightarrow> string \<Rightarrow> file_entry list \<Rightarrow> remote \<Rightarrow> remote" where
  "peer_dir i path files r =
     (let entries = (if peer_platform r = PLATFORM_WINDOWS then transform_windows_path files else files);
          r = to_ui (SuUpdateFolderFiles i entries path False False) r
      in if get_job i (rm_write_jobs r) \<noteq> None then
           r\<lparr>rm_write_jobs := update_job i (set_files entries) (rm_write_jobs r)\<rparr>
         else case hm_get (rm_removals r) i of
             Some job \<Rightarrow> r\<lparr>rm_removals := hm_insert i (job\<lparr>rj_files := entries\<rparr>) (rm_removals r)\<rparr>
           | None \<Rightarrow> r)"

text \<open>The digest of a file the host has already, for an upload.\<close>

definition peer_digest_upload :: "i32 \<Rightarrow> i32 \<Rightarrow> bool \<Rightarrow> remote \<Rightarrow> remote" where
  "peer_digest_upload i file_num identical r =
     (case get_job i (rm_read_jobs r) of
        None \<Rightarrow> r
      | Some job \<Rightarrow>
          if as_usize file_num < length (tj_files job) then
            (case tj_default_overwrite_strategy job of
               Some overwrite \<Rightarrow>
                 to_host (new_send_confirm i file_num (override_union overwrite))
                   (r\<lparr>rm_read_jobs := update_job i (job_confirm file_num (override_union overwrite)) (rm_read_jobs r)\<rparr>)
             | None \<Rightarrow>
                 to_ui (SuOverrideFileConfirm i file_num
                   (job_join job (fe_name (tj_files job ! as_usize file_num))) True identical) r)
          else r)"

text \<open>A confirmation the loop gives by itself, for a download.\<close>

definition confirm_download :: "i32 \<Rightarrow> i32 \<Rightarrow> (bool + u32) option \<Rightarrow> remote \<Rightarrow> remote" where
  "confirm_download i file_num u r =
     to_host (new_send_confirm i file_num u)
       (r\<lparr>rm_write_jobs := update_job i (job_confirm file_num u) (rm_write_jobs r)\<rparr>)"

definition peer_digest_download :: "i32 \<Rightarrow> i32 \<Rightarrow> u64 \<Rightarrow> u64 \<Rightarrow> remote \<Rightarrow> remote" where
  "peer_digest_download i file_num last_modified file_size r =
     (case get_job i (rm_write_jobs r) of
        None \<Rightarrow> r
      | Some job \<Rightarrow>
          if as_usize file_num < length (tj_files job) then
            (let path = job_join job (fe_name (tj_files job ! as_usize file_num)) in
             case is_write_need_confirmation (rm_fs r) path i file_num last_modified file_size of
               NeedConfirm i2 n2 _ _ identical \<Rightarrow>
                 (case tj_default_overwrite_strategy job of
                    Some overwrite \<Rightarrow> confirm_download i2 n2 (override_union overwrite) r
                  | None \<Rightarrow> to_ui (SuOverrideFileConfirm i2 n2 path False identical) r)
             | NoSuchFile \<Rightarrow> confirm_download i file_num (Some (Inr 0)) r)
          else r)"

definition peer_block :: "session_env \<Rightarrow> file_block \<Rightarrow> remote \<Rightarrow> remote" where
  "peer_block e block r =
     (case get_job (fb_id block) (rm_write_jobs r) of
        None \<Rightarrow> r
      | Some job \<Rightarrow>
          (let (_, job, fs) = job_write (re_zstd e) block (job, rm_fs r)
           in update_jobs_status e
                (r\<lparr>rm_write_jobs := update_job (fb_id block) (\<lambda>_. job) (rm_write_jobs r), rm_fs := fs\<rparr>)))"

definition peer_done :: "session_env \<Rightarrow> i32 \<Rightarrow> i32 \<Rightarrow> remote \<Rightarrow> remote" where
  "peer_done e i file_num r =
     (case get_job i (rm_write_jobs r) of
        Some job \<Rightarrow>
          handle_job_status e i file_num (job_error job)
            (r\<lparr>rm_fs := modify_time job (rm_fs r), rm_write_jobs := remove_job i (rm_write_jobs r)\<rparr>)
      | None \<Rightarrow> handle_job_status e i file_num None r)"

definition peer_error :: "session_env \<Rightarrow> i32 \<Rightarrow> string \<Rightarrow> i32 \<Rightarrow> remote \<Rightarrow> remote" where
  "peer_error e i err file_num r =
     handle_job_status e i file_num (Some err) (r\<lparr>rm_write_jobs := remove_job i (rm_write_jobs r)\<rparr>)"

definition peer_file_response :: "session_env \<Rightarrow> file_response option \<Rightarrow> remote \<Rightarrow> remote" where
  "peer_file_response e fr r =
     (case fr of
        Some (FrDir i path files) \<Rightarrow> peer_dir i path files r
      | Some (FrDigest i file_num last_modified file_size is_upload identical) \<Rightarrow>
          if is_upload then peer_digest_upload i file_num identical r
          else peer_digest_download i file_num last_modified file_size r
      | Some (FrBlock i file_num data compressed _) \<Rightarrow>
          peer_block e \<lparr>fb_id = i, fb_file_num = file_num, fb_data = data, fb_compressed = compressed\<rparr> r
      | Some (FrDone i file_num) \<Rightarrow> peer_done e i file_num r
      | Some (FrError i err file_num) \<Rightarrow> peer_error e i err file_num r
      | None \<Rightarrow> r)"

section \<open>Notices about input and privacy\<close>

definition handle_back_msg_block_input :: "block_input_state \<Rightarrow> string \<Rightarrow> remote \<Rightarrow> remote" where
  "handle_back_msg_block_input state details r =
     (case state of
        BlkOnSucceeded \<Rightarrow> to_ui (SuBlockInputState True) r
      | BlkOnFailed \<Rightarrow>
          to_ui (SuBlockInputState False)
            (session_msgbox ''custom-error'' ''Block user input'' (if details = [] then ''Failed'' else details) [] r)
      | BlkOffSucceeded \<Rightarrow> to_ui (SuBlockInputState False) r
      | BlkOffFailed \<Rightarrow>
          session_msgbox ''custom-error'' ''Unblock user input'' (if details = [] then ''Failed'' else details) [] r)"

definition update_privacy_mode :: "string \<Rightarrow> bool \<Rightarrow> remote \<Rightarrow> remote" where
  "update_privacy_mode impl_key on r =
     to_ui SuUpdatePrivacyMode
       (with_lc (edit_config (\<lambda>cfg. let cfg = cfg\<lparr>pc_privacy_mode := on\<rparr> in
          if on then cfg\<lparr>pc_options := hm_insert ''privacy-mode-impl-key''
                       (if impl_key = [] then ''privacy_mode_impl_mag'' else impl_key) (pc_options cfg)\<rparr>
          else cfg)) r)"

definition privacy_box :: "string \<Rightarrow> string \<Rightarrow> remote \<Rightarrow> remote" where
  "privacy_box ty txt = session_msgbox ty ''Privacy mode'' txt []"

definition handle_back_msg_privacy_mode :: "privacy_mode_state \<Rightarrow> string \<Rightarrow> string \<Rightarrow> remote \<Rightarrow> bool \<times> remote" where
  "handle_back_msg_privacy_mode state details impl_key r =
     (case state of
        PrvOnByOther \<Rightarrow>
          (False, session_msgbox ''error'' ''Connecting...'' ''Someone turns on privacy mode, exit'' [] r)
      | PrvNotSupported \<Rightarrow> (True, update_privacy_mode impl_key False (privacy_box ''custom-error'' ''Unsupported'' r))
      | PrvOnSucceeded \<Rightarrow>
          (True, update_privacy_mode impl_key True (privacy_box ''custom-nocancel'' ''Enter privacy mode'' r))
      | PrvOnFailedDenied \<Rightarrow> (True, update_privacy_mode impl_key False (privacy_box ''custom-error'' ''Peer denied'' r))
      | PrvOnFailedPlugin \<Rightarrow>
          (True, update_privacy_mode impl_key False (privacy_box ''custom-error'' ''Please install plugins'' r))
      | PrvOnFailed \<Rightarrow>
          (True, update_privacy_mode impl_key False
             (privacy_box ''custom-error'' (if details = [] then ''Failed'' else details) r))
      | PrvOffSucceeded \<Rightarrow>
          (True, update_privacy_mode impl_key False (privacy_box ''custom-nocancel'' ''Exit privacy mode'' r))
      | PrvOffByPeer \<Rightarrow> (True, update_privacy_mode impl_key False (privacy_box ''custom-error'' ''Peer exit'' r))
      | PrvOffFailed \<Rightarrow>
          (True, privacy_box ''custom-error'' (if details = [] then ''Failed to turn off'' else details) r)
      | PrvOffUnknown \<Rightarrow> (True, update_privacy_mode impl_key False (privacy_box ''custom-error'' ''Turned off'' r)))"

definition handle_back_notification :: "back_notification \<Rightarrow> remote \<Rightarrow> bool \<times> remote" where
  "handle_back_notification n r =
     (case n of
        BackBlockInput state details \<Rightarrow> (True, handle_back_msg_block_input state details r)
      | BackPrivacyMode state details impl_key \<Rightarrow> handle_back_msg_privacy_mode state details impl_key r)"

section \<open>Miscellaneous messages\<close>

definition peer_permission :: "permission \<Rightarrow> bool \<Rightarrow> remote \<Rightarrow> remote" where
  "peer_permission p enabled r =
     (case p of
        PermKeyboard \<Rightarrow> to_ui (SuSetPermission ''keyboard'' enabled) (r\<lparr>ss_server_keyboard_enabled := enabled\<rparr>)
      | PermClipboard \<Rightarrow> to_ui (SuSetPermission ''clipboard'' enabled) (r\<lparr>ss_server_clipboard_enabled := enabled\<rparr>)
      | PermAudio \<Rightarrow> to_ui (SuSetPermission ''audio'' enabled) r
      | PermFile \<Rightarrow>
          (let r = r\<lparr>ss_server_file_transfer_enabled := enabled\<rparr>
           in if \<not> enabled \<and> is_file_transfer r then r else to_ui (SuSetPermission ''file'' enabled) r)
      | PermRestart \<Rightarrow> to_ui (SuSetPermission ''restart'' enabled) r
      | PermRecording \<Rightarrow> to_ui (SuSetPermission ''recording'' enabled) r
      | PermBlockInput \<Rightarrow> to_ui (SuSetPermission ''block_input'' enabled) r)"

definition peer_switch_display :: "session_env \<Rightarrow> switch_display \<Rightarrow> remote \<Rightarrow> remote" where
  "peer_switch_display e d r =
     (let r = handle_peer_switch_display e d r;
          r = session_emit (SeMedia (MediaReset (as_usize (sw_display d)))) r
      in if 0 < sint (sw_width d) \<and> 0 < sint (sw_height d)
         then to_ui (SuSetDisplay (sw_x d) (sw_y d) (sw_width d) (sw_height d) (sw_cursor_embedded d)) r
         else r)"

definition cancel_elevation_boxes :: "string \<Rightarrow> remote \<Rightarrow> remote" where
  "cancel_elevation_boxes tag r =
     to_ui (SuCancelMsgBox ''elevation-error'') (to_ui (SuCancelMsgBox ''wait-uac'') (to_ui (SuCancelMsgBox tag) r))"

definition peer_misc :: "session_env \<Rightarrow> misc option \<Rightarrow> remote \<Rightarrow> bool \<times> remote" where
  "peer_misc e m r =
     (case m of
        Some (MiscAudioFormat f) \<Rightarrow> (True, session_emit (SeMedia (MediaAudioFormat f)) r)
      | Some (MiscChatMessage txt) \<Rightarrow> (True, to_ui (SuNewMessage txt) r)
      | Some (MiscPermissionInfo p enabled) \<Rightarrow> (True, peer_permission p enabled r)
      | Some (MiscSwitchDisplay d) \<Rightarrow> (True, peer_switch_display e d r)
      | Some (MiscCloseReason c) \<Rightarrow> (False, session_msgbox ''error'' ''Connection Error'' c [] r)
      | Some (MiscBackNotification n) \<Rightarrow> handle_back_notification n r
      | Some (MiscUac uac) \<Rightarrow>
          (True, if uac \<and> ss_server_keyboard_enabled r
                 then session_msgbox ''on-uac'' ''Prompt'' ''Please wait for confirmation of UAC...'' [] r
                 else cancel_elevation_boxes ''on-uac'' r)
      | Some (MiscForegroundWindowElevated elevated) \<Rightarrow>
          (True, if elevated \<and> ss_server_keyboard_enabled r
                 then session_msgbox ''on-foreground-elevated'' ''Prompt'' ''elevated_foreground_window_tip'' [] r
                 else cancel_elevation_boxes ''on-foreground-elevated'' r)
      | Some (MiscElevationResponse err) \<Rightarrow>
          (True, if err = [] then session_msgbox ''wait-uac'' [] [] [] r
                 else session_msgbox ''elevation-error'' ''Elevation Error'' err [] (to_ui (SuCancelMsgBox ''wait-uac'') r))
      | Some (MiscPortableServiceRunning b) \<Rightarrow>
          (True, let r = to_ui (SuPortableServiceRunning b) r in
                 if rm_elevation_requested r \<and> b
                 then session_msgbox ''custom-nocancel-success'' ''Successful'' ''Elevate successfully'' [] r else r)
      | Some MiscSwitchBack \<Rightarrow> (True, to_ui (SuSwitchBack (lc_id (ss_lc r))) r)
      | Some (MiscSupportedEncoding se) \<Rightarrow> (True, r\<lparr>ss_lc := (ss_lc r)\<lparr>lc_supported_encoding := se\<rparr>\<rparr>)
      | Some (MiscFollowCurrentDisplay i) \<Rightarrow> (True, to_ui (SuCurrentDisplay i) r)
      | _ \<Rightarrow> (True, r))"

section \<open>Voice calls\<close>

definition peer_voice_request :: "bool \<Rightarrow> remote \<Rightarrow> remote" where
  "peer_voice_request is_connect r =
     (if \<not> is_connect \<and> rm_stop_voice r then to_ui (SuVoiceCallClosed []) (stop_voice_call r) else r)"

definition peer_voice_response :: "session_env \<Rightarrow> bool \<Rightarrow> i64 \<Rightarrow> remote \<Rightarrow> remote" where
  "peer_voice_response e accepted ts r =
     (let asked = rm_voice_ts r; r = r\<lparr>rm_voice_ts := None\<rparr> in
      case asked of
        None \<Rightarrow> r
      | Some t \<Rightarrow>
          if ts \<noteq> t then r
          else if accepted then replace_voice_call e (to_ui SuVoiceCallStarted r)
          else to_ui (SuVoiceCallClosed []) r)"

section \<open>Every message\<close>

definition HELPER_URL :: "(string, string) hmap" where
  "HELPER_URL =
     [(''rustdesk docs home'', ''https://rustdesk.com/docs/en/''),
      (''rustdesk docs x11-required'', ''https://rustdesk.com/docs/en/manual/linux/#x11-required''),
      (''rustdesk x11 headless'', LINK_HEADLESS_LINUX_SUPPORT)]"

definition peer_message_box :: "string \<Rightarrow> string \<Rightarrow> string \<Rightarrow> string \<Rightarrow> remote \<Rightarrow> remote" where
  "peer_message_box ty title txt link =
     session_msgbox ty title txt (case hm_get HELPER_URL link of Some v \<Rightarrow> v | None \<Rightarrow> [])"

definition handle_msg_from_peer :: "session_env \<Rightarrow> message \<Rightarrow> remote \<Rightarrow> bool \<times> remote" where
  "handle_msg_from_peer e msg r =
     (case msg of
        MsgVideoFrame vf \<Rightarrow> (True, peer_video_frame vf r)
      | MsgHash salt challenge \<Rightarrow>
          (True, with_lc (handle_hash (re_client e) (ss_password r) \<lparr>hs_salt = salt, hs_challenge = challenge\<rparr>) r)
      | MsgLoginResponse lr \<Rightarrow> peer_login_response e lr r
      | MsgCursorData cd \<Rightarrow> (True, to_ui (SuCursorData cd) r)
      | MsgCursorId i \<Rightarrow> (True, to_ui (SuCursorId (show_nat (unat i))) r)
      | MsgCursorPosition x y \<Rightarrow> (True, to_ui (SuCursorPosition x y) r)
      | MsgClipboard cb \<Rightarrow>
          (True, if \<not> pc_disable_clipboard (lc_config (ss_lc r)) then session_emit (SeSetClipboard cb) r else r)
      | MsgCliprdr u \<Rightarrow> (True, handle_cliprdr_msg e u r)
      | MsgFileResponse fr \<Rightarrow> (True, peer_file_response e fr r)
      | MsgMisc m \<Rightarrow> peer_misc e m r
      | MsgTestDelay t \<Rightarrow> (True, session_test_delay t r)
      | MsgAudioFrame frame \<Rightarrow>
          (True, if \<not> pc_disable_audio (lc_config (ss_lc r))
                 then session_emit (SeMedia (MediaAudioFrame frame)) r else r)
      | MsgFileAction (Some (FaSendConfirm i file_num u)) \<Rightarrow>
          (True, r\<lparr>rm_read_jobs := update_job i (job_confirm file_num u) (rm_read_jobs r)\<rparr>)
      | MsgMessageBox ty title txt link \<Rightarrow> (True, peer_message_box ty title txt link r)
      | MsgVoiceCallRequest is_connect _ \<Rightarrow> (True, peer_voice_request is_connect r)
      | MsgVoiceCallResponse accepted ts \<Rightarrow> (True, peer_voice_response e accepted ts r)
      | MsgPeerInfo pinfo \<Rightarrow>
          (True, to_ui (SuPlatformAdditions (pi_platform_additions pinfo)) (to_ui (SuSetDisplays (pi_displays pinfo)) r))
      | _ \<Rightarrow> (True, r))"

end
