(* ===== verification/Remote_Loop.thy ===== *)
theory Remote_Loop
  imports Remote_Peer
begin

text \<open>
  The life of a session: \<open>io_loop\<close> of \<open>src/ui_session_interface.rs\<close> and of \<open>src/client/io_loop.rs\<close>.
  How it begins, one definition per arm of its \<open>select!\<close>, how it ends, and the control of the
  frame rate it does every second. An event carries what the arm received; an arm that breaks the
  loop answers false.
\<close>

section \<open>The frame rate\<close>

definition wanted_fps :: "remote \<Rightarrow> nat" where
  "wanted_fps r =
     (let fps = (case lc_custom_fps (ss_lc r) of Some v \<Rightarrow> unat v | None \<Rightarrow> 30)
      in if fps < 5 \<or> fps > 120 then 30 else fps)"

definition limited_fps :: "bool \<Rightarrow> nat \<Rightarrow> nat \<Rightarrow> nat" where
  "limited_fps direct custom_fps decode_fps =
     min custom_fps (if direct then decode_fps * 9 div 10 else decode_fps * 4 div 5)"

text \<open>Whether a new frame rate is asked for, and the idle counter.\<close>

definition fps_decision :: "nat \<Rightarrow> nat \<Rightarrow> fps_ctl \<Rightarrow> bool \<times> nat" where
  "fps_decision len limited ctl =
     (let should_decrease =
            (1 < len \<and> (case fc_last_auto_fps ctl of Some v \<Rightarrow> v | None \<Rightarrow> 0) > int limited);
          idle = (if len \<le> 1 then fc_idle_counter ctl + 1 else 0);
          should_increase = (case fc_last_auto_fps ctl of
                               Some v \<Rightarrow> v + 3 \<le> int limited \<and> 3 < idle | None \<Rightarrow> False)
      in (fc_last_auto_fps ctl = None \<or> should_decrease \<or> should_increase, idle))"

definition custom_fps_message :: "int \<Rightarrow> message" where
  "custom_fps_message fps = option_msg (option_default\<lparr>om_custom_fps := fps\<rparr>)"

text \<open>One display of \<open>fps_control\<close>: asking for a rate, and for a fresh picture when the queue is more
  than half full. Its controller is written back at the end.\<close>

definition fps_ask :: "nat \<Rightarrow> nat \<Rightarrow> fps_ctl \<times> remote \<Rightarrow> fps_ctl \<times> remote" where
  "fps_ask len limited x =
     (let (ctl, r) = x;
          (change, idle) = fps_decision len limited ctl;
          ctl = ctl\<lparr>fc_idle_counter := idle\<rparr>;
          auto_fps = max 1 (int limited)
      in if change
         then (ctl\<lparr>fc_last_queue_size := len, fc_last_auto_fps := Some auto_fps\<rparr>,
               self_send (UdMessage (custom_fps_message auto_fps)) r)
         else (ctl, r))"

definition fps_refresh :: "session_env \<Rightarrow> nat \<Rightarrow> nat \<Rightarrow> fps_ctl \<times> remote \<Rightarrow> fps_ctl \<times> remote" where
  "fps_refresh e display len x =
     (let (ctl, r) = x in
      if fc_refresh_times ctl < 10 \<and> VIDEO_QUEUE_SIZE div 2 < len \<and>
         (fc_refresh_times ctl = 0 \<or> 30 < (re_time e - fc_last_refresh ctl) div 1000)
      then (ctl\<lparr>fc_refresh_times := fc_refresh_times ctl + 1, fc_last_refresh := re_time e\<rparr>,
            refresh_video (of_nat display) (r\<lparr>rm_video_queues := hm_insert display [] (rm_video_queues r)\<rparr>))
      else x)"

definition fps_display :: "session_env \<Rightarrow> bool \<Rightarrow> nat \<Rightarrow> nat \<times> nat \<Rightarrow> remote \<Rightarrow> remote" where
  "fps_display e direct custom_fps x r =
     (let (display, decode_fps) = x in
      case hm_get (rm_video_queues r) display of
        None \<Rightarrow> r
      | Some queue \<Rightarrow>
          (let ctl = (case hm_get (rm_fps_control r) display of Some c \<Rightarrow> c | None \<Rightarrow> fps_ctl_default e);
               len = length queue;
               (ctl, r) = fps_refresh e display len (fps_ask len (limited_fps direct custom_fps decode_fps) (ctl, r))
           in r\<lparr>rm_fps_control := hm_insert display ctl (rm_fps_control r)\<rparr>))"

definition fps_control :: "session_env \<Rightarrow> bool \<Rightarrow> remote \<Rightarrow> remote" where
  "fps_control e direct r = fold (fps_display e direct (wanted_fps r)) (rm_decode_fps r) r"

text \<open>The statistics of a second: speed, frames per display, and the colour format. The numbers are
  taken per second of the time that really passed.\<close>

definition status_tick :: "session_env \<Rightarrow> remote \<Rightarrow> remote" where
  "status_tick e r =
     (let r = fps_control e (rm_direct r) r;
          elapsed = re_time e - rm_fps_instant r
      in if elapsed < 1000 then r
         else
           (let speed = (rm_data_count r * 1000) div of_nat elapsed;
                fps = map (\<lambda>(k, v). (k, of_nat (v * 1000 div elapsed))) (rm_frame_count r);
                chroma = (case rm_chroma r of Some I444 \<Rightarrow> ''4:4:4'' | Some I420 \<Rightarrow> ''4:2:0'' | None \<Rightarrow> ''-'');
                r = r\<lparr>rm_fps_instant := re_time e, rm_data_count := 0,
                      rm_frame_count := map (\<lambda>(k, _). (k, 0)) (rm_frame_count r)\<rparr>
            in to_ui (SuQualityStatus (quality_default\<lparr>qs_speed := Some speed, qs_fps := fps,
                 qs_chroma := Some chroma\<rparr>)) r))"

section \<open>Beginning and end\<close>

text \<open>What \<open>Client::start\<close> answers: an error, or whether the connection is direct and secured, and the
  key of the host.\<close>

type_synonym start_result = "string + bool \<times> bool \<times> bytes option"

text \<open>The session's \<open>io_loop\<close>: a new channel, and a fresh \<open>Remote\<close>.\<close>

definition session_open :: "session_env \<Rightarrow> ui_session \<Rightarrow> ui_session" where
  "session_open e s =
     (let s = (if \<not> is_file_transfer s \<and> \<not> is_port_forward s
               then s\<lparr>ss_context := context_enable (re_created e) True (ss_context s)\<rparr> else s)
      in s\<lparr>ss_sender := True, ss_queue := []\<rparr>)"

definition session_begin :: "session_env \<Rightarrow> file_system \<Rightarrow> ui_session \<Rightarrow> remote" where
  "session_begin e fs s = remote_new e fs (session_open e s)"

definition loop_begin :: "session_env \<Rightarrow> start_result \<Rightarrow> remote \<Rightarrow> bool \<times> remote" where
  "loop_begin e res r =
     (let r = r\<lparr>rm_last_recv := re_time e, rm_received := False\<rparr> in
      case res of
        Inl err \<Rightarrow> (False, on_establish_connection_error e err r)
      | Inr (direct, secured, pk) \<Rightarrow>
          (let r = to_ui (SuConnectionType secured direct) (set_connected r);
               r = r\<lparr>ss_lc := (ss_lc r)\<lparr>lc_direct := Some direct\<rparr>, rm_direct := direct\<rparr>;
               r = (if is_file_transfer r then r
                    else to_ui (SuFingerprint (case pk of Some k \<Rightarrow> k | None \<Rightarrow> [])) r);
               r = (if is_file_transfer r \<or> is_port_forward r \<or> is_rdp r then r
                    else
                      (let ((conn_id, ch), reg) = get_rx_cliprdr_client (lc_id (ss_lc r)) (ss_registry r)
                       in r\<lparr>rm_client_conn_id := conn_id, rm_clip := Some ch, ss_registry := reg\<rparr>))
           in (True, r\<lparr>rm_fps_instant := re_time e\<rparr>)))"

text \<open>After the loop. Only the newest round cleans up what sessions share.\<close>

definition loop_end :: "session_env \<Rightarrow> u32 \<Rightarrow> remote \<Rightarrow> remote" where
  "loop_end e rnd r =
     (let r = stop_voice_call r;
          (ok, r) = set_disconnected rnd r;
          r = (if ok then client_context (EmptyClipboard (rm_client_conn_id r)) (try_stop_clipboard e r) else r)
      in sync_jobs_status_to_local e r)"

section \<open>The arms\<close>

datatype remote_event =
    PeerError string
  | PeerData nat "message option"      \<comment> \<open>how many bytes, and the message if they are one\<close>
  | PeerGone
  | UiReady
  | ClipboardReady
  | TimerTick "(nat \<times> string) option"  \<comment> \<open>sending for the job of that number failed\<close>
  | StatusTick

definition arm_peer_data :: "session_env \<Rightarrow> nat \<Rightarrow> message option \<Rightarrow> remote \<Rightarrow> bool \<times> remote" where
  "arm_peer_data e n msg r =
     (let r = r\<lparr>rm_last_recv := re_time e\<rparr>;
          r = (if \<not> rm_received r then r\<lparr>rm_received := True, ss_lc := (ss_lc r)\<lparr>lc_received := True\<rparr>\<rparr> else r);
          r = r\<lparr>rm_data_count := rm_data_count r + of_nat n\<rparr>
      in case msg of Some m \<Rightarrow> handle_msg_from_peer e m r | None \<Rightarrow> (True, r))"

definition arm_peer_gone :: "remote \<Rightarrow> bool \<times> remote" where
  "arm_peer_gone r =
     (False,
      if lc_restarting_remote_device (ss_lc r)
      then session_msgbox ''restarting'' ''Restarting remote device'' ''remote_restarting_tip'' [] r
      else session_msgbox ''error'' ''Connection Error'' ''Reset by the peer'' [] r)"

definition arm_ui :: "session_env \<Rightarrow> remote \<Rightarrow> bool \<times> remote" where
  "arm_ui e r =
     (case ss_queue r of
        [] \<Rightarrow> (True, r) | d # ds \<Rightarrow> handle_msg_from_ui e d (r\<lparr>ss_queue := ds\<rparr>))"

definition arm_clipboard :: "session_env \<Rightarrow> remote \<Rightarrow> remote" where
  "arm_clipboard e r =
     (case rm_clip r of
        None \<Rightarrow> r
      | Some i \<Rightarrow>
          (let chs = cr_channels (ss_registry r) in
           if i < length chs then
             (case ch_queue (chs ! i) of
                [] \<Rightarrow> r
              | clip # rest \<Rightarrow>
                  handle_local_clipboard_msg e clip
                    (r\<lparr>ss_registry := (ss_registry r)\<lparr>cr_channels := chs[i := (chs ! i)\<lparr>ch_queue := rest\<rparr>]\<rparr>\<rparr>))
           else r))"

text \<open>The jobs that are sent, every one one step further. When a message cannot be sent, the jobs
  before it have made their step, and the loop ends.\<close>

definition send_jobs :: "session_env \<Rightarrow> remote \<Rightarrow> remote" where
  "send_jobs e r =
     (let (jobs, out) = handle_read_jobs (re_zstd e) (re_read_failing e) (rm_fs r) (rm_read_jobs r)
      in fold to_host out (r\<lparr>rm_read_jobs := jobs\<rparr>))"

definition send_jobs_until :: "session_env \<Rightarrow> nat \<Rightarrow> remote \<Rightarrow> remote" where
  "send_jobs_until e k r =
     (let step = (\<lambda>j. handle_read_job (re_zstd e) (re_read_failing e (tj_id j)) (rm_fs r) j);
          jobs = rm_read_jobs r;
          out = concat (map (\<lambda>j. fst (snd (step j))) (take k jobs))
      in fold to_host out
           (r\<lparr>rm_read_jobs := map (\<lambda>j. fst (step j)) (take (Suc k) jobs) @ drop (Suc k) jobs\<rparr>))"

definition arm_timer :: "session_env \<Rightarrow> (nat \<times> string) option \<Rightarrow> remote \<Rightarrow> bool \<times> remote" where
  "arm_timer e failed r =
     (if 30000 \<le> re_time e - rm_last_recv r then
        (False, session_msgbox ''error'' ''Connection Error'' ''Timeout'' [] r)
      else if rm_read_jobs r \<noteq> [] then
        (case failed of
           Some (k, err) \<Rightarrow> (False, session_msgbox ''error'' ''Connection Error'' err [] (send_jobs_until e k r))
         | None \<Rightarrow> (True, update_jobs_status e (send_jobs e r)))
      else (True, r\<lparr>rm_fast_timer := False\<rparr>))"

definition remote_step :: "session_env \<Rightarrow> remote_event \<Rightarrow> remote \<Rightarrow> bool \<times> remote" where
  "remote_step e ev r =
     (case ev of
        PeerError err \<Rightarrow> (False, on_establish_connection_error e err r)
      | PeerData n msg \<Rightarrow> arm_peer_data e n msg r
      | PeerGone \<Rightarrow> arm_peer_gone r
      | UiReady \<Rightarrow> arm_ui e r
      | ClipboardReady \<Rightarrow> (True, arm_clipboard e r)
      | TimerTick failed \<Rightarrow> arm_timer e failed r
      | StatusTick \<Rightarrow> (True, status_tick e r))"

end
