(* ===== verification/Remote_Video.thy ===== *)
theory Remote_Video
  imports Remote_Loop
begin

text \<open>
  The video thread of a session (\<open>VideoHandler\<close> and \<open>start_video_audio_threads\<close> in
  \<open>src/client.rs\<close>): what it takes from the channel for video, the decoder per display with its count
  of failures, the measured frame rate, and the codecs that turn out not to work. The codec libraries
  are an argument: whether a decoder can be made, what it answers to a frame and how long it takes.
\<close>

section \<open>State\<close>

record video_handler =
  vh_format :: codec_format
  vh_valid :: bool              \<comment> \<open>of the decoder\<close>
  vh_record :: bool
  vh_fail_counter :: nat

record video_ctl =
  vc_handler :: video_handler
  vc_count :: nat
  vc_duration :: nat            \<comment> \<open>nanoseconds\<close>
  vc_skip_beginning :: nat

record video_thread =
  vt_ctls :: "(nat, video_ctl) hmap"
  vt_last_chroma :: "chroma option"

definition video_thread_new :: video_thread where
  "video_thread_new = \<lparr>vt_ctls = [], vt_last_chroma = None\<rparr>"

text \<open>The answer of the decoder: an error, or whether there is a picture, and its colour format.\<close>

datatype decode_result = DecodeError | Decoded bool "chroma option"

record video_env =
  ve_valid :: "codec_format \<Rightarrow> bool"
  ve_decode :: "codec_format \<Rightarrow> video_union \<Rightarrow> decode_result"
  ve_took :: nat                \<comment> \<open>nanoseconds, the callback included\<close>

section \<open>The decoder of a display\<close>

definition video_handler_new :: "video_env \<Rightarrow> codec_format \<Rightarrow> video_handler" where
  "video_handler_new ve format =
     \<lparr>vh_format = format, vh_valid = ve_valid ve format, vh_record = False, vh_fail_counter = 0\<rparr>"

definition video_handler_reset :: "video_env \<Rightarrow> codec_format option \<Rightarrow> video_handler \<Rightarrow> video_handler" where
  "video_handler_reset ve format h =
     (let f = (case format of Some f \<Rightarrow> f | None \<Rightarrow> vh_format h)
      in h\<lparr>vh_format := f, vh_valid := ve_valid ve f, vh_fail_counter := 0\<rparr>)"

definition handle_frame :: "video_env \<Rightarrow> video_frame \<Rightarrow> video_handler \<Rightarrow> decode_result \<times> video_handler" where
  "handle_frame ve vf h =
     (let format = codec_format_of (vf_union vf);
          h = (if format \<noteq> vh_format h then video_handler_reset ve (Some format) h else h)
      in case vf_union vf of
           Some frame \<Rightarrow>
             (let res = ve_decode ve (vh_format h) frame;
                  good = (case res of Decoded b _ \<Rightarrow> b | DecodeError \<Rightarrow> False)
              in (res, h\<lparr>vh_fail_counter :=
                    (if good then 0
                     else if vh_fail_counter h < usize_max then vh_fail_counter h + 1 else vh_fail_counter h)\<rparr>))
         | None \<Rightarrow> (Decoded False None, h))"

definition video_record_screen :: "bool \<Rightarrow> video_handler \<Rightarrow> video_handler" where
  "video_record_screen on h = h\<lparr>vh_record := on\<rparr>"

section \<open>One item of the channel\<close>

definition MAX_DECODE_FAIL_COUNTER :: nat where "MAX_DECODE_FAIL_COUNTER = 10"

text \<open>Codecs that do not work are noted in the configuration, and the host is told when there is a new
  one.\<close>

definition mark_unsupported :: "video_handler \<Rightarrow> bool \<times> client \<Rightarrow> bool \<times> client" where
  "mark_unsupported h x =
     (let (upd, c) = x in
      if (\<not> vh_valid h \<or> vh_fail_counter h \<ge> MAX_DECODE_FAIL_COUNTER) \<and> vh_format h \<notin> set (lc_mark_unsupported c)
      then (True, c\<lparr>lc_mark_unsupported := lc_mark_unsupported c @ [vh_format h]\<rparr>) else x)"

definition check_decoders :: "session_env \<Rightarrow> video_thread \<Rightarrow> remote \<Rightarrow> remote" where
  "check_decoders e vt r =
     (let (upd, c) = fold (\<lambda>(_, ctl). mark_unsupported (vc_handler ctl)) (vt_ctls vt) (False, ss_lc r);
          r = r\<lparr>ss_lc := c\<rparr>
      in if upd then lc_message (update_supported_decodings (re_client e)) r else r)"

text \<open>Every ten pictures the rate is written down. The division is by whole milliseconds; the answer None
  is its panic when the pictures took less than one.\<close>

definition measure_fps :: "video_env \<Rightarrow> nat \<Rightarrow> video_ctl \<Rightarrow> remote \<Rightarrow> (video_ctl \<times> remote) option" where
  "measure_fps ve display ctl r =
     (let ctl = ctl\<lparr>vc_duration := vc_duration ctl + ve_took ve, vc_count := vc_count ctl + 1\<rparr>;
          ms = vc_duration ctl div 1000000;
          clear = (\<lambda>ctl. if 150 < vc_count ctl then ctl\<lparr>vc_count := 0, vc_duration := 0\<rparr> else ctl)
      in if vc_count ctl mod 10 \<noteq> 0 then Some (clear ctl, r)
         else if ms = 0 then None
         else Some (clear ctl,
                r\<lparr>rm_decode_fps := hm_insert display (vc_count ctl * 1000 div ms) (rm_decode_fps r)\<rparr>))"

text \<open>The callback for a picture counts it.\<close>

definition video_callback :: "nat \<Rightarrow> remote \<Rightarrow> remote" where
  "video_callback display r =
     r\<lparr>rm_frame_count := hm_insert display
          ((case hm_get (rm_frame_count r) display of Some n \<Rightarrow> n | None \<Rightarrow> 0) + 1) (rm_frame_count r)\<rparr>"

definition video_step_frame ::
    "session_env \<Rightarrow> video_env \<Rightarrow> video_frame \<Rightarrow> video_thread \<times> remote \<Rightarrow> (video_thread \<times> remote) option" where
  "video_step_frame e ve vf x =
     (let (vt, r) = x;
          display = as_usize (vf_display vf);
          format = codec_format_of (vf_union vf);
          ctl = (case hm_get (vt_ctls vt) display of
                   Some ctl \<Rightarrow> ctl
                 | None \<Rightarrow> \<lparr>vc_handler = video_handler_new ve format, vc_count = 0, vc_duration = 0,
                            vc_skip_beginning = 0\<rparr>);
          (res, h) = handle_frame ve vf (vc_handler ctl);
          ctl = ctl\<lparr>vc_handler := h\<rparr>;
          put = (\<lambda>ctl vt. vt\<lparr>vt_ctls := hm_insert display ctl (vt_ctls vt)\<rparr>);
          vt = put ctl vt
      in case res of
           Decoded True chr \<Rightarrow>
             (let r = video_callback display r;
                  (vt, r) = (if chr \<noteq> None \<and> vt_last_chroma vt \<noteq> chr
                             then (vt\<lparr>vt_last_chroma := chr\<rparr>, r\<lparr>rm_chroma := chr\<rparr>) else (vt, r))
              in if vc_skip_beginning ctl < 5
                 then Some (put (ctl\<lparr>vc_skip_beginning := vc_skip_beginning ctl + 1\<rparr>) vt, r)
                 else case measure_fps ve display ctl r of
                     None \<Rightarrow> None
                   | Some (ctl, r) \<Rightarrow> Some (put ctl vt, check_decoders e (put ctl vt) r))
         | Decoded False _ \<Rightarrow> Some (vt, check_decoders e vt r)
         | DecodeError \<Rightarrow> Some (vt, check_decoders e vt (refresh_video (vf_display vf) r)))"

definition video_step ::
    "session_env \<Rightarrow> video_env \<Rightarrow> media_data \<Rightarrow> video_thread \<times> remote \<Rightarrow> (video_thread \<times> remote) option" where
  "video_step e ve d x =
     (let (vt, r) = x in
      case d of
        MediaVideoFrame vf \<Rightarrow> video_step_frame e ve vf x
      | MediaVideoQueue display \<Rightarrow>
          (case hm_get (rm_video_queues r) display of
             Some (vf # vfs) \<Rightarrow>
               video_step_frame e ve vf (vt, r\<lparr>rm_video_queues := hm_insert display vfs (rm_video_queues r)\<rparr>)
           | _ \<Rightarrow> Some x)
      | MediaReset display \<Rightarrow>
          Some (vt\<lparr>vt_ctls := (case hm_get (vt_ctls vt) display of
                  Some ctl \<Rightarrow> hm_insert display (ctl\<lparr>vc_handler := video_handler_reset ve None (vc_handler ctl)\<rparr>) (vt_ctls vt)
                | None \<Rightarrow> vt_ctls vt)\<rparr>, r)
      | MediaRecordScreen on display w h i \<Rightarrow>
          (let record = (\<lambda>ctl. ctl\<lparr>vc_handler := video_record_screen on (vc_handler ctl)\<rparr>) in
           case hm_get (vt_ctls vt) display of
             Some ctl \<Rightarrow> Some (vt\<lparr>vt_ctls := hm_insert display (record ctl) (vt_ctls vt)\<rparr>, r)
           | None \<Rightarrow>
               (case vt_ctls vt of
                  [(k, ctl)] \<Rightarrow> Some (vt\<lparr>vt_ctls := [(k, record ctl)]\<rparr>, r)
                | _ \<Rightarrow> Some x))
      | _ \<Rightarrow> Some x)"

end
