(* ===== verification/Remote_Frame.thy ===== *)
theory Remote_Frame
  imports Remote_Video
begin

text \<open>
  What the operations of the session loop leave alone. \<open>steady\<close> relates two states of a session: the
  pending voice call and the decisions to overwrite files are not touched, whatever was put out since
  is not the microphone, and the requests about these things on the channel are the same; with the flag,
  the control of the frame rate is not touched either. Every operation is steady but the
  ones that are about these things; each operation has one rule, in \<open>steady_rules\<close>.
\<close>

named_theorems steady_rules \<open>operations that keep a session steady\<close>

section \<open>The relation\<close>

text \<open>The decisions kept in the jobs: by direction, the job and whether its files are overwritten.\<close>

definition jobs_of :: "bool \<Rightarrow> remote \<Rightarrow> transfer_job list" where
  "jobs_of upload r = (if upload then rm_read_jobs r else rm_write_jobs r)"

definition decided :: "transfer_job list \<Rightarrow> (i32 \<times> bool) set" where
  "decided jobs = {(i, b). \<exists>j \<in> set jobs. tj_id j = i \<and> tj_default_overwrite_strategy j = Some b}"

definition grows :: "session_effect list \<Rightarrow> session_effect list \<Rightarrow> bool" where
  "grows xs ys \<longleftrightarrow> (\<exists>zs. ys = xs @ zs \<and> SeRecordMicrophone \<notin> set zs)"

text \<open>The requests that are about the things \<open>steady\<close> speaks of.\<close>

definition touching :: "ui_data \<Rightarrow> bool" where
  "touching d =
     (case d of UdSetConfirmOverrideFile _ _ _ _ _ \<Rightarrow> True | UdNewVoiceCall \<Rightarrow> True | _ \<Rightarrow> False)"

definition steady :: "bool \<Rightarrow> remote \<Rightarrow> remote \<Rightarrow> bool" where
  "steady k r t \<longleftrightarrow>
     rm_voice_ts t = rm_voice_ts r \<and> (k \<longrightarrow> rm_fps_control t = rm_fps_control r) \<and>
     decided (rm_read_jobs t) \<subseteq> decided (rm_read_jobs r) \<and>
     decided (rm_write_jobs t) \<subseteq> decided (rm_write_jobs r) \<and> grows (ss_out r) (ss_out t) \<and>
     filter touching (ss_queue t) = filter touching (ss_queue r)"

lemma grows_refl [simp]: "grows xs xs"
  by (simp add: grows_def)

lemma grows_trans: "grows xs ys \<Longrightarrow> grows ys zs \<Longrightarrow> grows xs zs"
  by (auto simp: grows_def)

lemma grows_app [simp]: "grows xs ys \<Longrightarrow> SeRecordMicrophone \<notin> set zs \<Longrightarrow> grows xs (ys @ zs)"
  by (auto simp: grows_def)

lemma steady_refl [simp]: "steady k r r"
  by (simp add: steady_def)

lemma steady_weaken: "steady k r t \<Longrightarrow> steady False r t"
  by (simp add: steady_def)

lemma steady_trans: "steady k r s \<Longrightarrow> steady k s t \<Longrightarrow> steady k r t"
  by (auto simp: steady_def intro: grows_trans)

section \<open>The session's operations\<close>

lemma steady_fields [simp]:
  "steady k r (t\<lparr>ss_password := a1\<rparr>) = steady k r t" "steady k r (t\<lparr>ss_lc := a2\<rparr>) = steady k r t"
  "steady k r (t\<lparr>ss_sender := a3\<rparr>) = steady k r t"
  "steady k r (t\<lparr>ss_thread := a5\<rparr>) = steady k r t" "steady k r (t\<lparr>ss_server_keyboard_enabled := b1\<rparr>) = steady k r t"
  "steady k r (t\<lparr>ss_server_file_transfer_enabled := b2\<rparr>) = steady k r t"
  "steady k r (t\<lparr>ss_server_clipboard_enabled := b3\<rparr>) = steady k r t"
  "steady k r (t\<lparr>ss_last_change_display := b4\<rparr>) = steady k r t" "steady k r (t\<lparr>ss_round := b5\<rparr>) = steady k r t"
  "steady k r (t\<lparr>ss_round_state := b6\<rparr>) = steady k r t" "steady k r (t\<lparr>ss_context := b7\<rparr>) = steady k r t"
  "steady k r (t\<lparr>ss_registry := b8\<rparr>) = steady k r t" "steady k r (t\<lparr>ss_clipboard_running := b9\<rparr>) = steady k r t"
  "steady k r (t\<lparr>rm_stop_voice := c1\<rparr>) = steady k r t" "steady k r (t\<lparr>rm_removals := c2\<rparr>) = steady k r t"
  "steady k r (t\<lparr>rm_fast_timer := c3\<rparr>) = steady k r t" "steady k r (t\<lparr>rm_last_jobs := c4\<rparr>) = steady k r t"
  "steady k r (t\<lparr>rm_is_connected := c5\<rparr>) = steady k r t" "steady k r (t\<lparr>rm_first_frame := c6\<rparr>) = steady k r t"
  "steady k r (t\<lparr>rm_client_conn_id := c7\<rparr>) = steady k r t" "steady k r (t\<lparr>rm_data_count := c8\<rparr>) = steady k r t"
  "steady k r (t\<lparr>rm_frame_count := c9\<rparr>) = steady k r t" "steady k r (t\<lparr>rm_video_format := d1\<rparr>) = steady k r t"
  "steady k r (t\<lparr>rm_elevation_requested := d2\<rparr>) = steady k r t" "steady k r (t\<lparr>rm_decode_fps := d3\<rparr>) = steady k r t"
  "steady k r (t\<lparr>rm_chroma := d4\<rparr>) = steady k r t" "steady k r (t\<lparr>rm_video_queues := d5\<rparr>) = steady k r t"
  "steady k r (t\<lparr>rm_fs := d6\<rparr>) = steady k r t" "steady k r (t\<lparr>rm_clip := d7\<rparr>) = steady k r t"
  "steady k r (t\<lparr>rm_last_recv := d8\<rparr>) = steady k r t" "steady k r (t\<lparr>rm_received := d9\<rparr>) = steady k r t"
  "steady k r (t\<lparr>rm_fps_instant := e1\<rparr>) = steady k r t" "steady k r (t\<lparr>rm_direct := e2\<rparr>) = steady k r t"
  by (simp_all add: steady_def)

lemma steady_emit [steady_rules]: "steady k r t \<Longrightarrow> x \<noteq> SeRecordMicrophone \<Longrightarrow> steady k r (session_emit x t)"
  by (simp add: steady_def session_emit_def)

lemma steady_run_lc [steady_rules]: "steady k r t \<Longrightarrow> steady k r (snd (run_lc f t))"
proof -
  have "SeRecordMicrophone \<notin> set (map (lc_effect b) xs)" for b xs
    by (auto elim: lc_effect.elims [OF sym])
  then show "steady k r t \<Longrightarrow> ?thesis" by (simp add: steady_def run_lc_def split_def Let_def)
qed

lemma steady_with_lc [steady_rules]: "steady k r t \<Longrightarrow> steady k r (with_lc f t)"
  by (simp add: with_lc_def steady_rules)

lemma steady_queue:
  "steady k r t \<Longrightarrow> filter touching q = filter touching (ss_queue t) \<Longrightarrow> steady k r (t\<lparr>ss_queue := q\<rparr>)"
  by (simp add: steady_def)

lemma steady_send [steady_rules]: "steady k r t \<Longrightarrow> \<not> touching d \<Longrightarrow> steady k r (session_send d t)"
  by (auto simp: session_send_def intro!: steady_queue)

lemma touching_simps [simp]:
  "\<not> touching (UdMessage m)" "\<not> touching (UdRemoveFile i p n b)" "\<not> touching UdClose"
  "touching UdNewVoiceCall" "touching (UdSetConfirmOverrideFile i n b1 b2 b3)"
  by (simp_all add: touching_def)

lemma steady_fold:
  "(\<And>x t. x \<in> set xs \<Longrightarrow> steady k r t \<Longrightarrow> steady k r (f x t)) \<Longrightarrow> steady k r t \<Longrightarrow> steady k r (fold f xs t)"
  by (induction xs arbitrary: t) auto

lemma steady_session [steady_rules]:
  assumes "steady k r t"
  shows "steady k r (session_msgbox a b c d t)" "steady k r (on_error b t)" "steady k r (refresh_video n t)"
    "steady k r (on_establish_connection_error e b t)" "steady k r (session_test_delay td t)"
    "steady k r (set_connected t)" "steady k r (snd (set_disconnected rnd t))"
  using assms
  by (simp_all add: session_msgbox_def on_error_def refresh_video_def on_establish_connection_error_def
      session_test_delay_def set_connected_def set_disconnected_def steady_rules Let_def)

lemma steady_resolution [steady_rules]:
  assumes "steady k r t"
  shows "steady k r (handle_peer_switch_display e d t)" "steady k r (try_change_init_resolution e n t)"
  using assms
  by (simp_all add: handle_peer_switch_display_def session_custom_resolution_def try_change_init_resolution_def
      session_change_resolution_def do_change_resolution_def steady_rules Let_def split: option.split)

lemma steady_peer_info [steady_rules]:
  assumes "steady k r t"
  shows "steady k r (session_peer_info e pinfo t)"
proof -
  have sid: "steady k r (send_selected_session_id sid u)" if "steady k r u" for sid u
    using that by (simp add: send_selected_session_id_def steady_rules Let_def split: option.split)
  have pid: "steady k r (peer_info_done e p u)" if "steady k r u" for p u
    using that by (simp add: peer_info_done_def steady_rules sid Let_def split_def)
  show ?thesis using assms by (simp add: session_peer_info_def steady_rules pid Let_def)
qed

lemma steady_load_last_jobs [steady_rules]: "steady k r t \<Longrightarrow> steady k r (load_last_jobs t)"
  by (auto simp: load_last_jobs_def Let_def split_def intro!: steady_rules steady_fold)

section \<open>The loop's small operations\<close>

lemma steady_small [steady_rules]:
  assumes "steady k r t"
  shows "\<not> touching d \<Longrightarrow> steady k r (self_send d t)" "steady k r (job_status_ui i n err t)" "steady k r (stop_voice_call t)"
    "steady k r (client_context call t)" "steady k r (client_context_enable e b t)"
    "steady k r (client_make_sure_enabled e t)" "steady k r (check_clipboard_file_context e t)"
    "steady k r (try_start_clipboard t)" "steady k r (try_stop_clipboard e t)"
  using assms
  by (auto simp: self_send_def job_status_ui_def stop_voice_call_def client_context_def client_context_enable_def
      client_make_sure_enabled_def check_clipboard_file_context_def try_start_clipboard_def try_stop_clipboard_def
      intro!: steady_rules steady_queue)

lemma steady_job_status [steady_rules]:
  assumes "steady k r t"
  shows "steady k r (handle_job_status e i n err t)"
proof -
  have "steady k r (snd (removal_next e i n job t))" for job
    using assms by (simp add: removal_next_def steady_rules Let_def)
  then show ?thesis using assms by (simp add: handle_job_status_def split_def Let_def steady_rules split: option.split)
qed

lemma steady_progress [steady_rules]:
  assumes "steady k r t"
  shows "steady k r (update_jobs_status e t)"
proof -
  have "steady k r (update_job_status n j u)" if "steady k r u" for n j u
    using that by (simp add: update_job_status_def steady_rules Let_def split: option.split)
  then show ?thesis using assms by (simp add: update_jobs_status_def Let_def steady_fold)
qed

lemma steady_sync [steady_rules]: "steady k r t \<Longrightarrow> steady k r (sync_jobs_status_to_local e t)"
  by (simp add: sync_jobs_status_to_local_def Let_def split_def steady_rules)

lemma steady_clipboard [steady_rules]:
  assumes "steady k r t"
  shows "steady k r (handle_local_clipboard_msg e clip t)" "steady k r (handle_cliprdr_msg e u t)"
  using assms
  by (simp_all add: handle_local_clipboard_msg_def handle_cliprdr_msg_def steady_rules Let_def
      split: clipboard_file.split option.split)

section \<open>Jobs\<close>

text \<open>A job that keeps its number and its decision.\<close>

definition same_decision :: "transfer_job \<Rightarrow> transfer_job \<Rightarrow> bool" where
  "same_decision j k \<longleftrightarrow>
     tj_id k = tj_id j \<and> tj_default_overwrite_strategy k = tj_default_overwrite_strategy j"

lemma same_decision_simps [simp]:
  "same_decision j j" "same_decision j (k\<lparr>tj_is_last_job := b\<rparr>) = same_decision j k"
  "same_decision j (k\<lparr>tj_files := files\<rparr>) = same_decision j k"
  "same_decision j (k\<lparr>tj_file := f\<rparr>) = same_decision j k"
  "same_decision j (k\<lparr>tj_file_num := n\<rparr>) = same_decision j k"
  "same_decision j (k\<lparr>tj_finished_size := s\<rparr>) = same_decision j k"
  "same_decision j (k\<lparr>tj_transferred := s\<rparr>) = same_decision j k"
  "same_decision j (k\<lparr>tj_file_skipped := b\<rparr>) = same_decision j k"
  "same_decision j (k\<lparr>tj_file_confirmed := b\<rparr>) = same_decision j k"
  "same_decision j (k\<lparr>tj_file_is_waiting := b\<rparr>) = same_decision j k"
  by (simp_all add: same_decision_def)

lemma same_decision_confirm [simp]: "same_decision j (job_confirm n u k) = same_decision j k"
  by (simp add: job_confirm_def set_file_skipped_def set_file_confirmed_def set_file_is_waiting_def
      split: option.split sum.split bool.split)

lemma job_write_decision: "same_decision j (fst (snd (job_write z block (j, fs))))"
  by (auto simp: job_write_def Let_def split: prod.splits bool.splits option.splits if_splits)

lemma job_read_decision: "same_decision j (fst (snd (job_read z failing fs j)))"
  by (auto simp: job_read_def next_file_def open_file_def read_block_def set_file_confirmed_def
      set_file_is_waiting_def Let_def split: prod.splits option.splits if_splits sum.splits)

lemma read_job_decision: "same_decision j (fst (handle_read_job z failing fs j))"
  using job_read_decision [of j z failing fs]
  by (auto simp: handle_read_job_def split: prod.split sum.split option.split)

lemma decided_remove [simp]: "decided (remove_job i js) \<subseteq> decided js"
  by (auto simp: decided_def remove_job_def)

lemma decided_removes: "decided (fold remove_job is js) \<subseteq> decided js"
proof (induction "is" arbitrary: js)
  case (Cons i "is")
  show ?case using subset_trans [OF Cons.IH decided_remove] by simp
qed simp

lemma decided_map: "(\<And>j. same_decision j (f j)) \<Longrightarrow> decided (map f js) = decided js"
  by (auto simp: decided_def same_decision_def)

lemma decided_Cons: "decided (j # js) = decided [j] \<union> decided js"
  by (auto simp: decided_def)

lemma decided_append [simp]: "decided (js @ ks) = decided js \<union> decided ks"
  by (auto simp: decided_def)

lemma decided_update:
  assumes "\<And>j. get_job i js = Some j \<Longrightarrow> same_decision j (f j)"
  shows "decided (update_job i f js) = decided js"
  using assms
proof (induction js)
  case (Cons j js)
  show ?case
  proof (cases "tj_id j = i")
    case True
    then have "same_decision j (f j)" using Cons.prems by (simp add: get_job_def)
    then have "decided [f j] = decided [j]" by (auto simp: decided_def same_decision_def)
    then show ?thesis
      using True by (simp add: decided_Cons [of "f j" js] decided_Cons [of j js])
  next
    case False
    then have "decided (update_job i f js) = decided js" using Cons by (simp add: get_job_def)
    then show ?thesis
      using False by (simp add: decided_Cons [of j "update_job i f js"] decided_Cons [of j js])
  qed
qed simp

lemma decided_put:
  "get_job i js = Some j \<Longrightarrow> same_decision j k \<Longrightarrow> decided (update_job i (\<lambda>_. k) js) = decided js"
  by (rule decided_update) simp

lemma get_job_id: "get_job i js = Some j \<Longrightarrow> tj_id j = i \<and> j \<in> set js"
  by (auto simp: get_job_def find_Some_iff)

lemma decided_new [simp]:
  "decided [new_write i remote path n hidden is_remote files od] = {}"
  "decided [(new_write i remote path n hidden is_remote files od)\<lparr>tj_is_last_job := b\<rparr>] = {}"
  by (simp_all add: decided_def new_write_def new_job_def)

lemma decided_new_read:
  "new_read nodes i remote path n hidden is_remote od = Inr j \<Longrightarrow> decided [j] = {}"
  "new_read nodes i remote path n hidden is_remote od = Inr j \<Longrightarrow> decided [j\<lparr>tj_is_last_job := b\<rparr>] = {}"
  by (auto simp: decided_def new_read_def new_job_def split: sum.splits)

lemma emit_fields [simp]:
  "rm_read_jobs (session_emit x t) = rm_read_jobs t" "rm_write_jobs (session_emit x t) = rm_write_jobs t"
  "rm_removals (session_emit x t) = rm_removals t" "rm_fs (session_emit x t) = rm_fs t"
  "rm_voice_ts (session_emit x t) = rm_voice_ts t" "ss_queue (session_emit x t) = ss_queue t"
  by (simp_all add: session_emit_def)

lemma steady_jobs [steady_rules]:
  "steady k r t \<Longrightarrow> decided js \<subseteq> decided (rm_write_jobs t) \<Longrightarrow> steady k r (t\<lparr>rm_write_jobs := js\<rparr>)"
  "steady k r t \<Longrightarrow> decided js \<subseteq> decided (rm_read_jobs t) \<Longrightarrow> steady k r (t\<lparr>rm_read_jobs := js\<rparr>)"
  by (auto simp: steady_def)

section \<open>Requests of the user\<close>

lemma steady_send_files [steady_rules]:
  assumes "steady k r t"
  shows "steady k r (ui_send_files e i path dest n hidden is_remote t)"
    "steady k r (ui_add_job e i path dest n hidden is_remote t)"
  using assms
  by (auto simp: ui_send_files_def ui_add_job_def ui_read_job_def decided_new_read
      intro!: steady_rules split: sum.split)

lemma steady_ui [steady_rules]:
  assumes "steady k r t"
  shows "steady k r (ui_resume_job i is_remote t)" "steady k r (ui_cancel_job i t)"
    "steady k r (ui_remove_dir_all e i path is_remote hidden t)" "steady k r (ui_set_no_confirm i t)"
    "steady k r (ui_confirm_delete i n t)" "steady k r (ui_remove_file e i path n is_remote t)"
    "steady k r (ui_create_dir e i path is_remote t)"
  using assms
  by (auto simp: ui_resume_job_def ui_cancel_job_def ui_remove_dir_all_def ui_set_no_confirm_def
      ui_confirm_delete_def ui_remove_file_def ui_create_dir_def Let_def decided_update
      intro!: steady_rules dest: subsetD [OF decided_remove] split: option.split sum.split)

lemma steady_msg_from_ui:
  assumes "steady k r t" and "\<not> touching d"
  shows "steady k r (snd (handle_msg_from_ui e d t))"
  using assms
  by (cases d) (simp_all add: handle_msg_from_ui_def touching_def steady_rules)

section \<open>Messages of the host\<close>

lemma steady_video [steady_rules]:
  assumes "steady k r t"
  shows "steady k r (peer_video_frame vf t)"
proof -
  have "steady k r (on_first_frame t)"
    using assms
    by (auto simp: on_first_frame_def send_toggle_privacy_mode_msg_def send_opts_after_login_def Let_def
        intro!: steady_rules split: option.split)
  then show ?thesis by (auto simp: peer_video_frame_def Let_def intro!: steady_rules)
qed

lemma steady_login [steady_rules]:
  assumes "steady k r t"
  shows "steady k r (snd (peer_login_response e lr t))"
  using assms
  by (auto simp: peer_login_response_def peer_logged_in_def Let_def intro!: steady_rules
      split: login_response.split option.split)

lemma steady_files [steady_rules]:
  assumes "steady k r t"
  shows "steady k r (peer_file_response e fr t)"
proof -
  have dir: "steady k r (peer_dir i path files t)" for i path files
    using assms by (auto simp: peer_dir_def set_files_def Let_def decided_update intro!: steady_rules split: option.split)
  have up: "steady k r (peer_digest_upload i n identical t)" for i n identical
    using assms by (auto simp: peer_digest_upload_def decided_update intro!: steady_rules split: option.split)
  have down: "steady k r (peer_digest_download i n lm fs t)" for i n lm fs
    using assms
    by (auto simp: peer_digest_download_def confirm_download_def Let_def decided_update
        intro!: steady_rules split: option.split digest_check_result.split)
  have block: "steady k r (peer_block e b t)" for b
  proof -
    have d: "same_decision j k"
      if "job_write (re_zstd e) b (j, rm_fs t) = (x, k, y)" for j k x y
      using job_write_decision [of j "re_zstd e" b "rm_fs t"] that by simp
    show ?thesis
      using assms by (auto simp: peer_block_def Let_def decided_put d intro!: steady_rules split: option.split prod.split)
  qed
  have "steady k r (peer_done e i n t)" "steady k r (peer_error e i x n t)" for i n x
    using assms by (auto simp: peer_done_def peer_error_def intro!: steady_rules
        dest: subsetD [OF decided_remove] split: option.split)
  then show ?thesis
    using assms dir up down block by (simp add: peer_file_response_def split: option.split file_response.split)
qed

lemma steady_notification [steady_rules]:
  assumes "steady k r t"
  shows "steady k r (snd (handle_back_notification n t))"
proof -
  have "steady k r (handle_back_msg_block_input s d t)" for s d
    using assms by (auto simp: handle_back_msg_block_input_def intro!: steady_rules split: block_input_state.split)
  moreover have "steady k r (update_privacy_mode key on u)" if "steady k r u" for key on u
    using that by (auto simp: update_privacy_mode_def intro!: steady_rules)
  then have "steady k r (snd (handle_back_msg_privacy_mode s d key t))" for s d key
    using assms
    by (auto simp: handle_back_msg_privacy_mode_def privacy_box_def steady_rules
        split: privacy_mode_state.split)
  ultimately show ?thesis by (simp add: handle_back_notification_def split: back_notification.split)
qed

lemma steady_misc [steady_rules]:
  assumes "steady k r t"
  shows "steady k r (snd (peer_misc e m t))"
  using assms
  by (auto simp: peer_misc_def peer_permission_def peer_switch_display_def cancel_elevation_boxes_def Let_def
      intro!: steady_rules split: option.split misc.split permission.split)

lemma steady_msg_from_peer:
  assumes "steady k r t" and "\<And>accepted ts. m \<noteq> MsgVoiceCallResponse accepted ts"
  shows "steady k r (snd (handle_msg_from_peer e m t))"
  using assms
  by (auto simp: handle_msg_from_peer_def peer_voice_request_def peer_message_box_def decided_update
      intro!: steady_rules split: message.split option.split file_action.split)

section \<open>The arms\<close>

lemma steady_sending [steady_rules]:
  assumes "steady k r t"
  shows "steady k r (send_jobs e t)" "steady k r (send_jobs_until e n t)"
proof -
  have sent: "decided (fst (handle_read_jobs z fl fs js)) \<subseteq> decided js" for z fl fs js
  proof -
    have "decided (map (fst \<circ> (\<lambda>j. handle_read_job z (fl (tj_id j)) fs j)) js) = decided js"
      by (rule decided_map) (simp add: read_job_decision)
    then show ?thesis by (simp add: handle_read_jobs_def Let_def subset_trans [OF decided_removes])
  qed
  then show "steady k r (send_jobs e t)"
    using assms
    by (auto simp: send_jobs_def Let_def split_def intro!: steady_rules steady_fold dest: subsetD [OF sent])
  define step where "step = (\<lambda>j. fst (handle_read_job (re_zstd e) (re_read_failing e (tj_id j)) (rm_fs t) j))"
  have "decided (map step (take (Suc n) js) @ drop (Suc n) js) = decided js" for js
  proof -
    have "decided (map step (take (Suc n) js)) = decided (take (Suc n) js)"
      by (rule decided_map) (simp add: step_def read_job_decision)
    then show ?thesis by (metis append_take_drop_id decided_append)
  qed
  then show "steady k r (send_jobs_until e n t)"
    using assms
    by (auto simp: send_jobs_until_def Let_def step_def [symmetric] intro!: steady_rules steady_fold)
qed

lemma steady_fps:
  assumes "steady False r t"
  shows "steady False r (status_tick e t)"
proof -
  have [simp]: "steady False r (u\<lparr>rm_fps_control := c\<rparr>) = steady False r u" for u c
    by (simp add: steady_def)
  have ask: "steady False r (snd (fps_ask len limited (ctl, u)))" if "steady False r u" for len limited ctl u
    using that by (auto simp: fps_ask_def Let_def split_def intro!: steady_rules)
  have refr: "steady False r (snd (fps_refresh e d len x))" if "steady False r (snd x)" for d len x
    using that by (auto simp: fps_refresh_def Let_def split_def intro!: steady_rules)
  have "steady False r (fps_display e direct fps x u)" if "steady False r u" for direct fps x u
    using refr [OF ask [OF that]] that by (simp add: fps_display_def Let_def split_def split: option.split)
  then have "steady False r (fps_control e direct u)" if "steady False r u" for direct u
    using that by (auto simp: fps_control_def intro!: steady_fold)
  then show ?thesis using assms by (auto simp: status_tick_def Let_def intro!: steady_rules)
qed

text \<open>The events that may do more.\<close>

definition quiet_event :: "remote_event \<Rightarrow> remote \<Rightarrow> bool" where
  "quiet_event ev r =
     (case ev of
        PeerData n m \<Rightarrow> (case m of Some (MsgVoiceCallResponse accepted ts) \<Rightarrow> False | _ \<Rightarrow> True)
      | UiReady \<Rightarrow> (case ss_queue r of d # ds \<Rightarrow> \<not> touching d | [] \<Rightarrow> True)
      | _ \<Rightarrow> True)"

lemma steady_step:
  assumes "quiet_event ev r"
  shows "steady (ev \<noteq> StatusTick) r (snd (remote_step e ev r))"
proof (cases ev)
  case (PeerData n m)
  then have "m = Some msg \<Longrightarrow> msg \<noteq> MsgVoiceCallResponse accepted ts" for msg accepted ts
    using assms by (auto simp: quiet_event_def)
  then show ?thesis
    using PeerData
    by (auto simp: remote_step_def arm_peer_data_def Let_def intro!: steady_msg_from_peer split: option.split)
next
  case UiReady
  have "steady k r (r\<lparr>ss_queue := ds\<rparr>)" if "ss_queue r = d # ds" "\<not> touching d" for k d ds
    using that by (auto intro!: steady_queue)
  then show ?thesis
    using assms UiReady
    by (auto simp: remote_step_def arm_ui_def quiet_event_def intro!: steady_msg_from_ui split: list.split)
next
  case ClipboardReady
  then show ?thesis
    by (auto simp: remote_step_def arm_clipboard_def Let_def intro!: steady_rules split: option.split list.split)
next
  case (TimerTick failed)
  then show ?thesis
    by (auto simp: remote_step_def arm_timer_def intro!: steady_rules split: option.split)
qed (simp_all add: remote_step_def arm_peer_gone_def steady_rules steady_fps)

text \<open>The video thread is steady as well.\<close>

lemma steady_check_decoders [steady_rules]: "steady k r t \<Longrightarrow> steady k r (check_decoders e vt t)"
  by (auto simp: check_decoders_def lc_message_def Let_def split_def intro!: steady_rules)

lemma steady_video_frame:
  assumes "steady k r t" and "video_step_frame e ve vf (vt, t) = Some (vt', t')"
  shows "steady k r t'"
  using assms
  by (auto simp: video_step_frame_def video_callback_def measure_fps_def Let_def intro!: steady_rules
      split: prod.splits decode_result.splits bool.splits if_splits option.splits)

lemma steady_video_step:
  assumes "video_step e ve d (vt, r) = Some (vt', t)"
  shows "steady k r t"
  using assms
  by (auto simp: video_step_def Let_def split: media_data.splits option.splits list.splits
      elim!: steady_video_frame [rotated])

end
