(* ===== verification/Remote_Demo.thy ===== *)
theory Remote_Demo
  imports Remote_Loop
begin

text \<open>
  A concrete session for the witnesses: the client of \<open>Client_Login\<close> on a computer without files,
  whose session has just been connected, directly and with the stream secured.
\<close>

definition demo_session_env :: session_env where
  "demo_session_env =
     \<lparr>re_client = demo_client_env, re_time = 5000, re_created = True, re_platform = ''Linux'',
      re_nodes = (\<lambda>_. None), re_remove_file = (\<lambda>_. None), re_create_dir = (\<lambda>_. None), re_zstd = demo_zstd,
      re_read_failing = (\<lambda>_. False), re_meta_json = (\<lambda>_. []), re_sound_input = None,
      re_clipboard_msg = None, re_cur_peer_id = ''123456789'', re_sessions_running = False,
      re_swap_chr = (\<lambda>_ c. c), re_modifiers = (False, False, False, False), re_errno = 0\<rparr>"

definition demo_session :: ui_session where
  "demo_session =
     \<lparr>ss_password = [], ss_lc = demo_client, ss_sender = False, ss_queue = [], ss_thread = True,
      ss_server_keyboard_enabled = True, ss_server_file_transfer_enabled = True,
      ss_server_clipboard_enabled = True, ss_last_change_display = change_display_default demo_session_env,
      ss_round = 1, ss_round_state = Connecting, ss_context = \<lparr>cx_enabled = False, cx_calls = []\<rparr>,
      ss_registry = \<lparr>cr_channels = [], cr_counter = 0\<rparr>, ss_clipboard_running = False, ss_out = []\<rparr>"

definition demo_local_fs :: file_system where
  "demo_local_fs = \<lparr>fs_files = (\<lambda>_. None), fs_denied = (\<lambda>_. False)\<rparr>"

definition demo_remote :: remote where
  "demo_remote =
     snd (loop_begin demo_session_env (Inr (True, True, None))
       (session_begin demo_session_env demo_local_fs demo_session))"

lemmas demo_session_defs = demo_session_env_def demo_session_def demo_client_def demo_client_env_def

text \<open>Everything the session did so far is to tell the user about the connection.\<close>

lemma demo_remote_fields:
  "ss_out demo_remote = [SeUi (SuConnectionType True True), SeUi (SuFingerprint [])]"
  "rm_voice_ts demo_remote = None" "rm_read_jobs demo_remote = []" "rm_write_jobs demo_remote = []"
  "ss_queue demo_remote = []" "rm_fs demo_remote = demo_local_fs" "ss_sender demo_remote"
  "rm_removals demo_remote = []" "lc_restarting_remote_device (ss_lc demo_remote) = False"
  "lc_conn_type (ss_lc demo_remote) = DEFAULT_CONN" "rm_fps_control demo_remote = []"
  "lc_mark_unsupported (ss_lc demo_remote) = []" "rm_decode_fps demo_remote = []" "lc_custom_fps (ss_lc demo_remote) = None"
  by (simp_all add: demo_remote_def loop_begin_def session_begin_def session_open_def remote_new_def demo_session_defs
      set_connected_def session_emit_def is_file_transfer_def is_port_forward_def is_rdp_def
      get_rx_cliprdr_client_def get_conn_id_def ui_session.extend_def remote.fields_def Let_def)

lemma demo_remote_begun:
  "loop_begin demo_session_env (Inr (True, True, None))
     (session_begin demo_session_env demo_local_fs demo_session) = (True, demo_remote)"
  by (simp add: demo_remote_def loop_begin_def prod_eq_iff Let_def)

end
