(* ===== verification/Remote_Safety.thy ===== *)
theory Remote_Safety
  imports Remote_Frame Remote_Demo
begin

text \<open>
  What a session of the controlling side never does on its own: it does not end without a word, it
  does not switch the microphone on unless the user asked for a call, and it does not answer for the
  user when a file is in the way. The statements are about whole runs of the loop, whatever the host,
  the clock and the user do.
\<close>

section \<open>Runs\<close>

text \<open>The user puts a request on the channel, the loop handles an event, or the video thread, in any
  state of its own, takes an item; a run ends with its loop.\<close>

datatype session_turn =
    UserTurn ui_data
  | LoopTurn session_env remote_event
  | VideoTurn session_env video_env video_thread media_data

fun session_run :: "session_turn list \<Rightarrow> remote \<Rightarrow> remote" where
  "session_run [] r = r"
| "session_run (UserTurn d # ts) r = session_run ts (session_send d r)"
| "session_run (LoopTurn e ev # ts) r =
     (let (go, r) = remote_step e ev r in if go then session_run ts r else r)"
| "session_run (VideoTurn e ve vt d # ts) r =
     session_run ts (case video_step e ve d (vt, r) of Some (_, t) \<Rightarrow> t | None \<Rightarrow> r)"

lemma session_run_inv:
  assumes "Q r" and "\<And>d r. UserTurn d \<in> set ts \<Longrightarrow> Q r \<Longrightarrow> Q (session_send d r)"
    and "\<And>e ev r. LoopTurn e ev \<in> set ts \<Longrightarrow> Q r \<Longrightarrow> Q (snd (remote_step e ev r))"
    and "\<And>r t. steady True r t \<Longrightarrow> Q r \<Longrightarrow> Q t"
  shows "Q (session_run ts r)"
  using assms
proof (induction ts r rule: session_run.induct)
  case (3 e ev ts r)
  obtain go t where t: "remote_step e ev r = (go, t)" by fastforce
  then have "Q t" using "3.prems"(1) "3.prems"(3) [of e ev r] by simp
  then show ?case using "3.IH" [OF t [symmetric] refl] "3.prems" t by (cases go) simp_all
next
  case (4 e ve vt d ts r)
  have "Q (case video_step e ve d (vt, r) of Some (_, t) \<Rightarrow> t | None \<Rightarrow> r)"
    using "4.prems"(1,4) steady_video_step [of e ve d vt r _ _ True] by (auto split: option.split)
  then show ?case using "4.IH" "4.prems"(2-4) by simp
qed simp_all

section \<open>The steps that are not quiet\<close>

definition grows_by :: "remote \<Rightarrow> remote \<Rightarrow> session_effect list \<Rightarrow> bool" where
  "grows_by r t new \<longleftrightarrow> ss_out t = ss_out r @ new"

definition kept_jobs :: "remote \<Rightarrow> remote \<Rightarrow> bool" where
  "kept_jobs r t \<longleftrightarrow> rm_read_jobs t = rm_read_jobs r \<and> rm_write_jobs t = rm_write_jobs r"

lemma voice_step:
  fixes e n a ts r
  defines "t \<equiv> snd (remote_step e (PeerData n (Some (MsgVoiceCallResponse a ts))) r)"
  shows "fst (remote_step e (PeerData n (Some (MsgVoiceCallResponse a ts))) r)"
    and "rm_voice_ts t = None" and "kept_jobs r t" and "ss_queue t = ss_queue r"
    and "\<exists>new. grows_by r t new \<and> count_list new SeRecordMicrophone \<le> 1 \<and>
      (SeRecordMicrophone \<in> set new \<longrightarrow> a \<and> rm_voice_ts r = Some ts)"
  by (auto simp: t_def remote_step_def arm_peer_data_def handle_msg_from_peer_def peer_voice_response_def
      replace_voice_call_def start_voice_call_def stop_voice_call_def session_emit_def grows_by_def kept_jobs_def
      Let_def split: option.split)

lemma new_call_step:
  fixes e r ds
  assumes "ss_queue r = UdNewVoiceCall # ds"
  defines "t \<equiv> snd (remote_step e UiReady r)"
  shows "fst (remote_step e UiReady r)" and "rm_voice_ts t = Some (of_nat (re_time e))" and "kept_jobs r t"
    and "ss_queue t = ds"
    and "grows_by r t [SePeer (MsgVoiceCallRequest True (of_nat (re_time e))), SeUi SuVoiceCallWaiting]"
  using assms
  by (auto simp: remote_step_def arm_ui_def handle_msg_from_ui_def new_voice_call_request_def session_emit_def
      grows_by_def kept_jobs_def)

lemma decided_override:
  "decided (update_job i (override_job n b remember) js) \<subseteq> decided js \<union> (if remember then {(i, b)} else {})"
proof (induction js)
  case (Cons j js)
  show ?case
  proof (cases "tj_id j = i")
    case True
    define k where "k = (if remember then set_overwrite_strategy (Some b) j else j)"
    have "same_decision k (override_job n b remember j)"
      by (simp add: k_def override_job_def)
    then have "decided [override_job n b remember j] = decided [k]" by (auto simp: decided_def same_decision_def)
    moreover have "decided [k] \<subseteq> decided [j] \<union> (if remember then {(i, b)} else {})"
      using True by (auto simp: k_def decided_def set_overwrite_strategy_def)
    ultimately show ?thesis
      using True by (auto simp: decided_Cons [of j js] decided_Cons [of "override_job n b remember j" js])
  next
    case False
    then show ?thesis
      using Cons by (auto simp: decided_Cons [of j js]
        decided_Cons [of j "update_job i (override_job n b remember) js"])
  qed
qed simp

lemma override_step:
  fixes e r ds
  assumes "ss_queue r = UdSetConfirmOverrideFile i n b remember up # ds"
  defines "t \<equiv> snd (remote_step e UiReady r)"
  shows "fst (remote_step e UiReady r)" and "rm_voice_ts t = rm_voice_ts r"
    and "ss_queue t = ds"
    and "decided (jobs_of u t) \<subseteq> decided (jobs_of u r) \<union> (if remember \<and> u = up then {(i, b)} else {})"
    and "\<exists>new. grows_by r t new \<and> SeRecordMicrophone \<notin> set new"
proof -
  have jobs: "jobs_of u t = jobs_of u r \<or> u = up \<and> jobs_of u t = update_job i (override_job n b remember) (jobs_of u r)"
    using assms
    by (simp add: remote_step_def arm_ui_def handle_msg_from_ui_def ui_confirm_override_def jobs_of_def)
  show "decided (jobs_of u t) \<subseteq> decided (jobs_of u r) \<union> (if remember \<and> u = up then {(i, b)} else {})"
    using jobs decided_override [of i n b remember "jobs_of u r"] by (elim disjE conjE) simp_all
qed (use assms in \<open>auto simp: remote_step_def arm_ui_def handle_msg_from_ui_def ui_confirm_override_def
      session_emit_def grows_by_def\<close>)

text \<open>Every step is one of these, or steady.\<close>

lemma step_kinds:
  obtains (steady) "steady False r (snd (remote_step e ev r))" "ev \<noteq> UiReady \<or> \<not> touching (hd (ss_queue r)) \<or> ss_queue r = []"
  | (voice) n a ts where "ev = PeerData n (Some (MsgVoiceCallResponse a ts))"
  | (call) ds where "ev = UiReady" "ss_queue r = UdNewVoiceCall # ds"
  | (override) i n b remember up ds where "ev = UiReady"
      "ss_queue r = UdSetConfirmOverrideFile i n b remember up # ds"
proof (cases "quiet_event ev r")
  case True
  have "steady False r (snd (remote_step e ev r))"
    using steady_step [OF True, of e] by (auto simp: steady_def)
  then show thesis
    using that(1) True by (cases "ev = UiReady") (auto simp: quiet_event_def split: list.splits)
next
  case False
  then show thesis
    using that(2-4)
    by (auto simp: quiet_event_def touching_def
        split: remote_event.splits option.splits message.splits list.splits ui_data.splits)
qed

section \<open>The end of the loop\<close>

lemma step_grows: "\<exists>new. grows_by r (snd (remote_step e ev r)) new"
proof (rule step_kinds [of r e ev])
  assume "steady False r (snd (remote_step e ev r))"
  then show ?thesis by (auto simp: steady_def grows_def grows_by_def)
qed (use voice_step(5) new_call_step(5) override_step(5) in blast)+

text \<open>A box of that type is the last thing shown since.\<close>

definition last_box :: "remote \<Rightarrow> remote \<Rightarrow> string \<Rightarrow> bool" where
  "last_box r t ty \<longleftrightarrow>
     (\<exists>new title txt link. grows_by r t
        (new @ [SeUi (SuMsgBox ty title txt link (check_if_retry ty title txt (retry_for_relay (ss_lc t))))]))"

lemma last_box_msgbox: "steady False r u \<Longrightarrow> last_box r (session_msgbox ty title txt link u) ty"
  by (auto simp: last_box_def session_msgbox_def session_emit_def steady_def grows_def grows_by_def)

definition end_types :: "string set" where
  "end_types = {''error'', ''relay-hint'', ''relay-hint2'', ''restarting'', ''info-nocancel''}"

lemma login_error_box:
  assumes "run_lc (handle_login_error err) r = (False, t)"
  shows "\<exists>ty \<in> end_types. last_box r t ty"
proof -
  have again: "hm_get LOGIN_ERROR_MAP err = Some b \<Longrightarrow> \<not> eb_try_again b \<Longrightarrow> eb_msgtype b = ''info-nocancel''" for b
    by (auto simp: LOGIN_ERROR_MAP_def error_box_def split: if_splits)
  have "last_box r t ''error'' \<or> last_box r t ''info-nocancel''"
    using assms again
    by (auto simp: run_lc_def handle_login_error_def split_def Let_def last_box_def grows_by_def msgbox_def
        client_emit_def retry_for_relay_def split: if_splits option.splits)
  then show ?thesis by (auto simp: end_types_def)
qed

lemma establish_error_box: "steady False r u \<Longrightarrow> \<exists>ty \<in> end_types. last_box r (on_establish_connection_error e err u) ty"
  by (auto simp: on_establish_connection_error_def end_types_def Let_def last_box_msgbox)

lemma peer_end_box:
  assumes "steady False r u" and "handle_msg_from_peer e m u = (False, t)"
  shows "\<exists>ty \<in> end_types. last_box r t ty"
proof -
  have add: "last_box r t ty" if "last_box u t ty" for ty
    using assms(1) that by (auto simp: last_box_def grows_by_def steady_def grows_def)
  have box: "\<exists>ty \<in> end_types. last_box r (session_msgbox ''error'' title body link u) ty" for title body link
    using last_box_msgbox [OF assms(1)] by (auto simp: end_types_def)
  have misc: "\<exists>ty \<in> end_types. last_box r t ty" if "peer_misc e mi u = (False, t)" for mi
    using that box
    by (auto simp: peer_misc_def handle_back_notification_def handle_back_msg_privacy_mode_def
        split: option.splits misc.splits back_notification.splits privacy_mode_state.splits)
  have login: "\<exists>ty \<in> end_types. last_box r t ty" if "peer_login_response e lr u = (False, t)" for lr
    using that login_error_box [of _ u t] add by (auto simp: peer_login_response_def split: login_response.splits)
  show ?thesis
    using assms(2) misc login
    by (auto simp: handle_msg_from_peer_def split: message.splits option.splits file_action.splits)
qed

text \<open>
  C25: A session does not end without a word. When a step ends the loop, either the user asked to
  close and the host is told, or the last thing the session did was to show the user a box that says
  why, and that says with its last argument whether connecting again may help.
\<close>

theorem loop_end_told:
  assumes "remote_step e ev r = (False, t)"
  shows "(\<exists>ds. ev = UiReady \<and> ss_queue r = UdClose # ds \<and> ss_out t = ss_out r @ [SePeer (MsgMisc (Some (MiscCloseReason [])))])
    \<or> (\<exists>new ty title txt link. ss_out t = ss_out r @ new @
         [SeUi (SuMsgBox ty title txt link (check_if_retry ty title txt (retry_for_relay (ss_lc t))))] \<and>
         ty \<in> {''error'', ''relay-hint'', ''relay-hint2'', ''restarting'', ''info-nocancel''})"
    (is "?close \<or> ?box")
proof -
  have msg: "\<exists>ty \<in> end_types. last_box r (session_msgbox ty' title body link u) ty"
    if "steady False r u" "ty' \<in> end_types" for ty' title body link u
    using last_box_msgbox [OF that(1)] that(2) by blast
  have types: "''error'' \<in> end_types" "''restarting'' \<in> end_types" by (simp_all add: end_types_def)
  have "?close \<or> (\<exists>ty \<in> end_types. last_box r t ty)"
  proof (cases ev)
    case (PeerError err)
    then show ?thesis using assms establish_error_box [of r r] by (auto simp: remote_step_def)
  next
    case (PeerData n m)
    define u where "u = (let r = r\<lparr>rm_last_recv := re_time e\<rparr>;
          r = (if \<not> rm_received r then r\<lparr>rm_received := True, ss_lc := (ss_lc r)\<lparr>lc_received := True\<rparr>\<rparr> else r)
      in r\<lparr>rm_data_count := rm_data_count r + of_nat n\<rparr>)"
    have "steady False r u" by (simp add: u_def Let_def)
    moreover have "remote_step e ev r = (case m of Some msg \<Rightarrow> handle_msg_from_peer e msg u | None \<Rightarrow> (True, u))"
      by (cases m) (simp_all add: PeerData remote_step_def arm_peer_data_def u_def Let_def)
    ultimately show ?thesis using assms peer_end_box [of r u e _ t] by (cases m) simp_all
  next
    case PeerGone
    then have "t = session_msgbox ''restarting'' ''Restarting remote device'' ''remote_restarting_tip'' [] r \<or>
        t = session_msgbox ''error'' ''Connection Error'' ''Reset by the peer'' [] r"
      using assms by (simp add: remote_step_def arm_peer_gone_def split: if_splits)
    then show ?thesis using msg [OF steady_refl] types by blast
  next
    case UiReady
    then obtain d ds where q: "ss_queue r = d # ds" and h: "handle_msg_from_ui e d (r\<lparr>ss_queue := ds\<rparr>) = (False, t)"
      using assms by (cases "ss_queue r") (simp_all add: remote_step_def arm_ui_def)
    then have "d = UdClose" by (cases d) (simp_all add: handle_msg_from_ui_def)
    then have ?close using q h UiReady by (auto simp: handle_msg_from_ui_def session_emit_def)
    then show ?thesis ..
  next
    case (TimerTick failed)
    then obtain body u where "t = session_msgbox ''error'' ''Connection Error'' body [] u" "steady False r u"
      using assms steady_sending(2) [OF steady_refl, of False r e]
      by (auto simp: remote_step_def arm_timer_def split: if_splits option.splits)
    then show ?thesis using msg types by blast
  qed (use assms in \<open>simp_all add: remote_step_def\<close>)
  then show ?thesis
  proof
    assume "\<exists>ty \<in> end_types. last_box r t ty"
    then obtain ty new title body link where "ty \<in> end_types" "ss_out t = ss_out r @ new @
        [SeUi (SuMsgBox ty title body link (check_if_retry ty title body (retry_for_relay (ss_lc t))))]"
      unfolding last_box_def grows_by_def by blast
    then have ?box unfolding end_types_def by (intro exI conjI)
    then show ?thesis ..
  qed blast
qed


theorem loop_end_told_witness:
  "\<exists>new ty title text link b. ss_out (snd (remote_step demo_session_env PeerGone demo_remote)) =
     ss_out demo_remote @ new @ [SeUi (SuMsgBox ty title text link b)]"
proof -
  have "remote_step demo_session_env PeerGone demo_remote =
      (False, snd (remote_step demo_session_env PeerGone demo_remote))"
    by (simp add: remote_step_def arm_peer_gone_def)
  from loop_end_told [OF this] show ?thesis by blast
qed

section \<open>The microphone\<close>

text \<open>How often the microphone was switched on and still may be: once for a request without an answer,
  and for every request on the channel.\<close>

definition calls_due :: "remote \<Rightarrow> nat" where
  "calls_due r =
     count_list (ss_out r) SeRecordMicrophone + (case rm_voice_ts r of None \<Rightarrow> 0 | Some _ \<Rightarrow> 1) +
     count_list (ss_queue r) UdNewVoiceCall"

definition call_known :: "remote \<Rightarrow> bool" where
  "call_known r \<longleftrightarrow> (\<forall>ts. rm_voice_ts r = Some ts \<longrightarrow> SePeer (MsgVoiceCallRequest True ts) \<in> set (ss_out r))"

lemma count_list_touching: "count_list xs UdNewVoiceCall = count_list (filter touching xs) UdNewVoiceCall"
  by (induction xs) (auto simp: touching_def)

lemma calls_due_steady: "steady False r t \<Longrightarrow> calls_due t = calls_due r"
proof -
  assume s: "steady False r t"
  then obtain new where "ss_out t = ss_out r @ new" "count_list new SeRecordMicrophone = 0"
    by (auto simp: steady_def grows_def count_list_0_iff)
  moreover have "count_list (ss_queue t) UdNewVoiceCall = count_list (ss_queue r) UdNewVoiceCall"
    using s by (simp only: count_list_touching [of "ss_queue _"] steady_def)
  ultimately show ?thesis using s by (simp add: calls_due_def steady_def)
qed

lemma call_known_steady: "steady False r t \<Longrightarrow> call_known r \<Longrightarrow> call_known t"
  by (auto simp: call_known_def steady_def grows_def)

lemma calls_due_step: "calls_due (snd (remote_step e ev r)) \<le> calls_due r"
proof (rule step_kinds [of r e ev])
  assume "steady False r (snd (remote_step e ev r))"
  then show ?thesis by (simp add: calls_due_steady)
next
  fix n a ts
  assume ev: "ev = PeerData n (Some (MsgVoiceCallResponse a ts))"
  obtain new where "grows_by r (snd (remote_step e ev r)) new" "count_list new SeRecordMicrophone \<le> 1"
      "SeRecordMicrophone \<in> set new \<longrightarrow> rm_voice_ts r = Some ts"
    using voice_step(5) [of r e n a ts] ev by blast
  then show ?thesis
    using voice_step(2,4) [of e n a ts r] ev
    by (cases "SeRecordMicrophone \<in> set new") (auto simp: calls_due_def grows_by_def split: option.split)
next
  fix ds
  assume "ev = UiReady" "ss_queue r = UdNewVoiceCall # ds"
  then show ?thesis
    using new_call_step(2,4,5) [of r ds e] by (simp add: calls_due_def grows_by_def split: option.split)
next
  fix i n b remember up ds
  assume "ev = UiReady" "ss_queue r = UdSetConfirmOverrideFile i n b remember up # ds"
  then show ?thesis
    using override_step(2,3,5) [of r i n b remember up ds e] by (auto simp: calls_due_def grows_by_def)
qed

lemma call_known_step: "call_known r \<Longrightarrow> call_known (snd (remote_step e ev r))"
proof (rule step_kinds [of r e ev])
  assume "call_known r" "steady False r (snd (remote_step e ev r))"
  then show ?thesis by (simp add: call_known_steady)
next
  fix n a ts
  assume "ev = PeerData n (Some (MsgVoiceCallResponse a ts))"
  then show ?thesis using voice_step(2) [of e n a ts r] by (simp add: call_known_def)
next
  fix ds
  assume "ev = UiReady" "ss_queue r = UdNewVoiceCall # ds"
  then show ?thesis using new_call_step(2,5) [of r ds e] by (simp add: call_known_def grows_by_def)
next
  fix i n b remember up ds
  assume "call_known r" "ev = UiReady" "ss_queue r = UdSetConfirmOverrideFile i n b remember up # ds"
  then show ?thesis
    using override_step(2,5) [of r i n b remember up ds e] by (auto simp: call_known_def grows_by_def)
qed

lemma calls_due_run:
  "calls_due (session_run turns r) \<le> calls_due r + count_list turns (UserTurn UdNewVoiceCall)"
proof (induction turns r rule: session_run.induct)
  case (2 d ts r)
  have "calls_due (session_send d r) \<le> calls_due r + (if d = UdNewVoiceCall then 1 else 0)"
    by (simp add: calls_due_def session_send_def)
  then show ?case using "2.IH" by (auto split: if_splits)
next
  case (3 e ev ts r)
  obtain go t where t: "remote_step e ev r = (go, t)" by fastforce
  then have "calls_due t \<le> calls_due r" using calls_due_step [of e ev r] by simp
  then show ?case using "3.IH" [OF t [symmetric] refl] t by (cases go) simp_all
next
  case (4 e ve vt d ts r)
  have "calls_due (case video_step e ve d (vt, r) of Some (_, t) \<Rightarrow> t | None \<Rightarrow> r) = calls_due r"
    using calls_due_steady steady_video_step by (auto split: option.split)
  then show ?case using "4.IH" by simp
qed simp

lemma session_begin_fields:
  "rm_voice_ts (session_begin e fs s) = None" "rm_read_jobs (session_begin e fs s) = []"
  "rm_write_jobs (session_begin e fs s) = []" "ss_queue (session_begin e fs s) = []"
  "ss_out (session_begin e fs s) = ss_out s" "rm_fps_control (session_begin e fs s) = []"
  by (simp_all add: session_begin_def session_open_def remote_new_def ui_session.extend_def remote.fields_def Let_def)

lemma loop_begin_steady: "steady True r (snd (loop_begin e res r))"
  by (auto simp: loop_begin_def Let_def split_def intro!: steady_rules split: sum.split)

lemma loop_begin_calls:
  assumes "loop_begin e res (session_begin e fs s) = (go, r)"
  shows "calls_due r = count_list (ss_out s) SeRecordMicrophone" and "call_known r"
proof -
  have s: "steady True (session_begin e fs s) r"
    using loop_begin_steady [of "session_begin e fs s" e res] assms by simp
  then obtain new where "ss_out r = ss_out s @ new" "count_list new SeRecordMicrophone = 0"
    by (auto simp: steady_def grows_def session_begin_fields count_list_0_iff)
  moreover have "rm_voice_ts r = None" "count_list (ss_queue r) UdNewVoiceCall = 0"
    using s by (simp_all add: steady_def session_begin_fields count_list_touching [of "ss_queue r"])
  ultimately show "calls_due r = count_list (ss_out s) SeRecordMicrophone" "call_known r"
    by (simp_all add: calls_due_def call_known_def)
qed

text \<open>
  C4: The microphone is on only when the user asked for it. However the host behaves, a session
  switches the microphone on at most as often as the user asked for a voice call, and only on an
  accepting answer that names the time stamp of the request that was sent.
\<close>

theorem microphone_on_request:
  assumes "loop_begin e0 res (session_begin e0 fs s) = (True, r0)" and "SeRecordMicrophone \<notin> set (ss_out s)"
    and "r = session_run turns r0"
  shows "count_list (ss_out r) SeRecordMicrophone \<le> count_list turns (UserTurn UdNewVoiceCall) \<and>
    (\<forall>e ev new. ss_out (snd (remote_step e ev r)) = ss_out r @ new \<and> SeRecordMicrophone \<in> set new \<longrightarrow>
       (\<exists>n ts. ev = PeerData n (Some (MsgVoiceCallResponse True ts)) \<and>
          SePeer (MsgVoiceCallRequest True ts) \<in> set (ss_out r)))"
proof (intro conjI allI impI)
  have "calls_due r0 = 0" using loop_begin_calls [OF assms(1)] assms(2) by (simp add: count_list_0_iff)
  then show "count_list (ss_out r) SeRecordMicrophone \<le> count_list turns (UserTurn UdNewVoiceCall)"
    using calls_due_run [of turns r0] assms(3) by (simp add: calls_due_def)
next
  fix e ev new
  assume new: "ss_out (snd (remote_step e ev r)) = ss_out r @ new \<and> SeRecordMicrophone \<in> set new"
  have known: "call_known r"
    unfolding assms(3)
  proof (rule session_run_inv)
    show "call_known (session_send d u)" if "call_known u" for d u
      using that by (simp add: call_known_def session_send_def)
  qed (use loop_begin_calls(2) [OF assms(1)] call_known_step call_known_steady steady_weaken in blast)+
  show "\<exists>n ts. ev = PeerData n (Some (MsgVoiceCallResponse True ts)) \<and>
      SePeer (MsgVoiceCallRequest True ts) \<in> set (ss_out r)"
  proof (rule step_kinds [of r e ev])
    fix n a ts
    assume ev: "ev = PeerData n (Some (MsgVoiceCallResponse a ts))"
    then have "a \<and> rm_voice_ts r = Some ts" using voice_step(5) [of r e n a ts] new by (auto simp: grows_by_def)
    then show ?thesis using ev known by (auto simp: call_known_def)
  next
    fix ds
    assume "ev = UiReady" "ss_queue r = UdNewVoiceCall # ds"
    then show ?thesis using new_call_step(5) [of r ds e] new by (auto simp: grows_by_def)
  next
    fix i n b remember up ds
    assume "ev = UiReady" "ss_queue r = UdSetConfirmOverrideFile i n b remember up # ds"
    then show ?thesis using override_step(5) [of r i n b remember up ds e] new by (auto simp: grows_by_def)
  qed (use new in \<open>auto simp: steady_def grows_def\<close>)
qed

text \<open>A call that the user asks for and the host accepts.\<close>

definition demo_call :: "session_turn list" where
  "demo_call =
     [UserTurn UdNewVoiceCall, LoopTurn demo_session_env UiReady,
      LoopTurn demo_session_env (PeerData 9 (Some (MsgVoiceCallResponse True 5000)))]"

theorem microphone_on_request_witness:
  "SeRecordMicrophone \<in> set (ss_out (session_run demo_call demo_remote)) \<and>
   count_list (ss_out (session_run demo_call demo_remote)) SeRecordMicrophone \<le> 1"
proof
  show "SeRecordMicrophone \<in> set (ss_out (session_run demo_call demo_remote))"
    using demo_remote_fields
    by (simp add: demo_call_def session_send_def remote_step_def arm_ui_def handle_msg_from_ui_def
        new_voice_call_request_def arm_peer_data_def handle_msg_from_peer_def peer_voice_response_def
        replace_voice_call_def start_voice_call_def stop_voice_call_def session_emit_def Let_def
        is_file_transfer_def is_port_forward_def demo_session_env_def)
  have "SeRecordMicrophone \<notin> set (ss_out demo_session)" by (simp add: demo_session_def)
  moreover have "count_list demo_call (UserTurn UdNewVoiceCall) = 1" by (simp add: demo_call_def)
  ultimately show "count_list (ss_out (session_run demo_call demo_remote)) SeRecordMicrophone \<le> 1"
    using microphone_on_request [OF demo_remote_begun _ refl, of demo_call] by simp
qed

section \<open>Files that are in the way\<close>

text \<open>A decision that stands in a job, or is on its way there, is one of the user's.\<close>

definition decisions_of :: "session_turn list \<Rightarrow> remote \<Rightarrow> bool" where
  "decisions_of turns r \<longleftrightarrow>
     (\<forall>up i b. (i, b) \<in> decided (jobs_of up r) \<longrightarrow>
        (\<exists>k. UserTurn (UdSetConfirmOverrideFile i k b True up) \<in> set turns)) \<and>
     (\<forall>d \<in> set (ss_queue r). touching d \<longrightarrow> UserTurn d \<in> set turns)"

lemma touching_queue: "filter touching xs = filter touching ys \<Longrightarrow> d \<in> set xs \<Longrightarrow> touching d \<Longrightarrow> d \<in> set ys"
  by (metis mem_Collect_eq set_filter)

lemma decisions_mono:
  assumes "decisions_of turns r"
    and "\<And>up i b. (i, b) \<in> decided (jobs_of up t) \<Longrightarrow>
      (i, b) \<in> decided (jobs_of up r) \<or> (\<exists>k. UserTurn (UdSetConfirmOverrideFile i k b True up) \<in> set turns)"
    and "\<And>d. d \<in> set (ss_queue t) \<Longrightarrow> touching d \<Longrightarrow> d \<in> set (ss_queue r)"
  shows "decisions_of turns t"
  using assms unfolding decisions_of_def by metis

lemma decisions_steady:
  assumes "steady False r t" and "decisions_of turns r"
  shows "decisions_of turns t"
proof (rule decisions_mono [OF assms(2)])
  fix up i b
  assume "(i, b) \<in> decided (jobs_of up t)"
  then show "(i, b) \<in> decided (jobs_of up r) \<or> (\<exists>k. UserTurn (UdSetConfirmOverrideFile i k b True up) \<in> set turns)"
    using assms(1) by (auto simp: steady_def jobs_of_def)
next
  fix x
  assume "x \<in> set (ss_queue t)" "touching x"
  then show "x \<in> set (ss_queue r)"
    by (rule touching_queue [rotated]) (use assms(1) in \<open>simp add: steady_def\<close>)
qed

lemma decisions_step: "decisions_of turns r \<Longrightarrow> decisions_of turns (snd (remote_step e ev r))"
proof (rule step_kinds [of r e ev])
  assume "decisions_of turns r" "steady False r (snd (remote_step e ev r))"
  then show ?thesis by (simp add: decisions_steady)
next
  fix n a ts
  assume "decisions_of turns r" "ev = PeerData n (Some (MsgVoiceCallResponse a ts))"
  then show ?thesis
    using voice_step(3,4) [where r = r and e = e and n = n and a = a and ts = ts]
    by (simp add: decisions_of_def kept_jobs_def jobs_of_def)
next
  fix ds
  assume "decisions_of turns r" "ev = UiReady" "ss_queue r = UdNewVoiceCall # ds"
  then show ?thesis
    using new_call_step(3,4) [where r = r and e = e and ds = ds] by (simp add: decisions_of_def kept_jobs_def jobs_of_def)
next
  fix i n b remember up ds
  assume d: "decisions_of turns r" and q: "ev = UiReady" "ss_queue r = UdSetConfirmOverrideFile i n b remember up # ds"
  then have u: "UserTurn (UdSetConfirmOverrideFile i n b remember up) \<in> set turns" by (simp add: decisions_of_def)
  show ?thesis
  proof (rule decisions_mono [OF d])
    fix v j c
    assume "(j, c) \<in> decided (jobs_of v (snd (remote_step e ev r)))"
    then have "(j, c) \<in> decided (jobs_of v r) \<or> remember \<and> v = up \<and> j = i \<and> c = b"
      using override_step(4) [OF q(2), where u = v and e = e] q(1)
      by (cases "remember \<and> v = up") (auto dest: subsetD)
    then show "(j, c) \<in> decided (jobs_of v r) \<or> (\<exists>k. UserTurn (UdSetConfirmOverrideFile j k c True v) \<in> set turns)"
      using u by auto
  qed (use override_step(3) [OF q(2)] q in auto)
qed

lemma decisions_run:
  assumes "loop_begin e0 res (session_begin e0 fs s) = (True, r0)"
  shows "decisions_of turns (session_run turns r0)"
proof (rule session_run_inv)
  have "steady True (session_begin e0 fs s) r0"
    using loop_begin_steady [of "session_begin e0 fs s" e0 res] assms by simp
  then have "decided (jobs_of up r0) = {}" "filter touching (ss_queue r0) = []" for up
    by (auto simp: steady_def session_begin_fields jobs_of_def decided_def)
  then show "decisions_of turns r0" by (simp add: decisions_of_def filter_empty_conv)
next
  fix d r
  assume "UserTurn d \<in> set turns" "decisions_of turns r"
  then show "decisions_of turns (session_send d r)" by (auto simp: decisions_of_def session_send_def jobs_of_def)
qed (use decisions_step decisions_steady steady_weaken in blast)+

text \<open>
  C11: The question of the host whether a file that is in the way is to be overwritten or skipped is
  answered only on the user's word. When the host
  says which file comes next, in either direction, the session answers by itself only if there is no
  such file yet, or if the user has given an answer for this job and asked to remember it, and then
  it gives that answer. In every other case it asks the user or, without such a job, does nothing.
\<close>

theorem digest_answer:
  assumes "loop_begin e0 res (session_begin e0 fs s) = (True, r0)" and "r = session_run turns r0"
    and "ss_out (snd (remote_step e (PeerData n (Some (MsgFileResponse (Some (FrDigest i k lm sz up same))))) r))
      = ss_out r @ new"
  shows "new = [] \<or>
    (\<exists>name ident. new = [SeUi (SuOverrideFileConfirm i k name up ident)]) \<or>
    (\<exists>b k'. UserTurn (UdSetConfirmOverrideFile i k' b True up) \<in> set turns \<and>
       new = [SePeer (new_send_confirm i k (override_union b))]) \<or>
    (\<not> up \<and> new = [SePeer (new_send_confirm i k (override_union True))] \<and>
     (\<exists>j \<in> set (rm_write_jobs r). tj_id j = i \<and> fs_files (rm_fs r) (target j (as_usize k)) = None))"
proof -
  have d: "decisions_of turns r" using decisions_run [OF assms(1)] assms(2) by simp
  have word: "\<exists>k'. UserTurn (UdSetConfirmOverrideFile i k' b True u) \<in> set turns"
    if "get_job i (jobs_of u r) = Some j" "tj_default_overwrite_strategy j = Some b" for u j b
    using d get_job_id [OF that(1)] that(2) unfolding decisions_of_def decided_def by blast
  note step = remote_step_def arm_peer_data_def handle_msg_from_peer_def peer_file_response_def session_emit_def Let_def
  show ?thesis
  proof (cases up)
    case True
    then consider "new = []" | name where "new = [SeUi (SuOverrideFileConfirm i k name up same)]"
      | j b where "get_job i (jobs_of True r) = Some j" "tj_default_overwrite_strategy j = Some b"
          "new = [SePeer (new_send_confirm i k (override_union b))]"
      using assms(3) by (auto simp: step peer_digest_upload_def jobs_of_def split: if_splits option.splits)
    then show ?thesis
    proof cases
      case 3
      then show ?thesis using word [OF 3(1,2)] True by auto
    qed simp_all
  next
    case False
    then consider "new = []" | name ident where "new = [SeUi (SuOverrideFileConfirm i k name up ident)]"
      | j b where "get_job i (jobs_of False r) = Some j" "tj_default_overwrite_strategy j = Some b"
          "new = [SePeer (new_send_confirm i k (override_union b))]"
      | j where "get_job i (rm_write_jobs r) = Some j" "fs_files (rm_fs r) (target j (as_usize k)) = None"
          "new = [SePeer (new_send_confirm i k (Some (Inr 0)))]"
      using assms(3)
      by (auto simp: step peer_digest_download_def is_write_need_confirmation_def confirm_download_def jobs_of_def
          target_def split: if_splits option.splits)
    then show ?thesis
    proof cases
      case 3
      then show ?thesis using word [OF 3(1,2)] False by auto
    next
      case 4
      then show ?thesis using get_job_id [OF 4(1)] False by (auto simp: override_union_def)
    qed simp_all
  qed
qed

text \<open>A download the user starts; the host lists one file, which is not there yet.\<close>

definition demo_download :: "session_turn list" where
  "demo_download =
     [UserTurn (UdSendFiles 1 ''/r'' ''/d'' 0 False True), LoopTurn demo_session_env UiReady,
      LoopTurn demo_session_env (PeerData 9 (Some (MsgFileResponse (Some (FrDir 1 ''/r''
        [\<lparr>fe_name = ''x'', fe_size = 3, fe_modified_time = 7\<rparr>])))))]"

lemma demo_download_state:
  "rm_read_jobs (session_run demo_download demo_remote) = []"
  "\<exists>j. rm_write_jobs (session_run demo_download demo_remote) = [j] \<and> tj_id j = 1 \<and> tj_path j = ''/d'' \<and>
     tj_files j = [\<lparr>fe_name = ''x'', fe_size = 3, fe_modified_time = 7\<rparr>] \<and> tj_default_overwrite_strategy j = None"
  "rm_fs (session_run demo_download demo_remote) = demo_local_fs"
  using demo_remote_fields
  by (auto simp: demo_download_def session_send_def remote_step_def arm_ui_def handle_msg_from_ui_def
      ui_send_files_def arm_peer_data_def handle_msg_from_peer_def peer_file_response_def peer_dir_def
      set_files_def session_emit_def Let_def get_job_def new_write_def new_job_def transform_windows_path_def)

theorem digest_answer_witness:
  "ss_out (snd (remote_step demo_session_env (PeerData 9 (Some (MsgFileResponse (Some (FrDigest 1 0 7 3 False False)))))
      (session_run demo_download demo_remote)))
    = ss_out (session_run demo_download demo_remote) @ [SePeer (new_send_confirm 1 0 (override_union True))] \<and>
   (\<exists>j \<in> set (rm_write_jobs (session_run demo_download demo_remote)). fs_files demo_local_fs (target j 0) = None)"
proof
  let ?r = "session_run demo_download demo_remote"
  show step: "ss_out (snd (remote_step demo_session_env
      (PeerData 9 (Some (MsgFileResponse (Some (FrDigest 1 0 7 3 False False))))) ?r))
    = ss_out ?r @ [SePeer (new_send_confirm 1 0 (override_union True))]"
    using demo_download_state
    by (auto simp: remote_step_def arm_peer_data_def handle_msg_from_peer_def peer_file_response_def
        peer_digest_download_def is_write_need_confirmation_def confirm_download_def session_emit_def Let_def
        get_job_def demo_local_fs_def override_union_def as_usize_def)
  have "UserTurn (UdSetConfirmOverrideFile 1 k b True False) \<notin> set demo_download" for k b
    by (simp add: demo_download_def)
  then show "\<exists>j \<in> set (rm_write_jobs ?r). fs_files demo_local_fs (target j 0) = None"
    using digest_answer [OF demo_remote_begun refl step] demo_download_state(3) by (auto simp: as_usize_def)
qed

end
