(* ===== verification/Remote_Fps.thy ===== *)
theory Remote_Fps
  imports Remote_Safety
begin

text \<open>
  The control of the frame rate (\<open>fps_control\<close> in \<open>src/client/io_loop.rs\<close>): what a session asks of the
  host on its own stays in bounds, in every run.
\<close>

section \<open>One display\<close>

definition fps_ctl_ok :: "fps_ctl \<Rightarrow> bool" where
  "fps_ctl_ok c \<longleftrightarrow>
     fc_refresh_times c \<le> 10 \<and> (\<forall>v. fc_last_auto_fps c = Some v \<longrightarrow> 1 \<le> v \<and> v \<le> 120)"

definition fps_ok :: "remote \<Rightarrow> bool" where
  "fps_ok r \<longleftrightarrow> (\<forall>d c. hm_get (rm_fps_control r) d = Some c \<longrightarrow> fps_ctl_ok c)"

text \<open>What a display may put on the channel: a frame rate it can take, or the request for a fresh
  picture.\<close>

definition fps_request :: "nat \<Rightarrow> nat \<Rightarrow> ui_data \<Rightarrow> bool" where
  "fps_request wanted decode_fps d \<longleftrightarrow>
     (\<exists>v. d = UdMessage (custom_fps_message v) \<and> 1 \<le> v \<and> v \<le> int wanted \<and>
        v \<le> max 1 (int (decode_fps * 9 div 10))) \<or>
     d = UdMessage refresh \<or> (\<exists>n. d = UdMessage (refresh_display n))"

lemma wanted_fps_range: "5 \<le> wanted_fps r" "wanted_fps r \<le> 120"
  by (auto simp: wanted_fps_def Let_def)

lemma limited_fps_le: "limited_fps direct wanted k \<le> wanted" "limited_fps direct wanted k \<le> k * 9 div 10"
  by (auto simp: limited_fps_def)

lemma fps_ask_step:
  assumes "fps_ctl_ok ctl" and "5 \<le> wanted" and "wanted \<le> 120"
    and "fps_ask len (limited_fps direct wanted k) (ctl, r) = (ctl', t)"
  shows "fps_ctl_ok ctl' \<and> rm_fps_control t = rm_fps_control r \<and>
    (\<exists>new. ss_queue t = ss_queue r @ new \<and> length new \<le> 1 \<and> list_all (fps_request wanted k) new)"
proof -
  define v where "v = max 1 (int (limited_fps direct wanted k))"
  have v: "1 \<le> v" "v \<le> int wanted" "v \<le> max 1 (int (k * 9 div 10))"
    using limited_fps_le [of direct wanted k] assms(2) by (auto simp: v_def)
  then have "fps_request wanted k (UdMessage (custom_fps_message v))" unfolding fps_request_def by blast
  then show ?thesis
    using assms(1,3,4) v
    by (auto simp: fps_ask_def fps_ctl_ok_def self_send_def v_def [symmetric] Let_def split: prod.splits if_splits)
qed

lemma fps_refresh_step:
  assumes "fps_ctl_ok ctl" and "fps_refresh e d len (ctl, r) = (ctl', t)"
  shows "fps_ctl_ok ctl' \<and> rm_fps_control t = rm_fps_control r \<and>
    (\<exists>new. ss_queue t = ss_queue r @ new \<and> length new \<le> 1 \<and> list_all (fps_request wanted k) new)"
  using assms
  by (auto simp: fps_refresh_def fps_ctl_ok_def fps_request_def refresh_video_def session_send_def split: if_splits)

lemma fps_display_step:
  assumes "fps_ok r" and "5 \<le> wanted" and "wanted \<le> 120"
  shows "fps_ok (fps_display e direct wanted (d, k) r) \<and>
    (\<exists>new. ss_queue (fps_display e direct wanted (d, k) r) = ss_queue r @ new \<and>
      length new \<le> 2 \<and> list_all (fps_request wanted k) new)"
proof (cases "hm_get (rm_video_queues r) d")
  case (Some q)
  define ctl where "ctl = (case hm_get (rm_fps_control r) d of Some c \<Rightarrow> c | None \<Rightarrow> fps_ctl_default e)"
  have "fps_ctl_ok ctl"
    using assms(1) by (auto simp: ctl_def fps_ok_def fps_ctl_ok_def fps_ctl_default_def split: option.split)
  moreover obtain c1 r1 where a: "fps_ask (length q) (limited_fps direct wanted k) (ctl, r) = (c1, r1)" by fastforce
  ultimately obtain new1 where 1: "fps_ctl_ok c1" "rm_fps_control r1 = rm_fps_control r"
      "ss_queue r1 = ss_queue r @ new1" "length new1 \<le> 1" "list_all (fps_request wanted k) new1"
    using fps_ask_step assms(2,3) by blast
  obtain c2 r2 where b: "fps_refresh e d (length q) (c1, r1) = (c2, r2)" by fastforce
  then obtain new2 where 2: "fps_ctl_ok c2" "rm_fps_control r2 = rm_fps_control r"
      "ss_queue r2 = ss_queue r @ new1 @ new2" "length new2 \<le> 1" "list_all (fps_request wanted k) new2"
    using fps_refresh_step [OF 1(1) b, of wanted k] 1(2,3) by auto
  have "fps_display e direct wanted (d, k) r = r2\<lparr>rm_fps_control := hm_insert d c2 (rm_fps_control r)\<rparr>"
    using a b 2(2) by (simp add: fps_display_def Some ctl_def Let_def)
  then show ?thesis using assms(1) 1 2 by (auto simp: fps_ok_def split: if_splits)
qed (use assms(1) in \<open>simp add: fps_display_def\<close>)

section \<open>Every step\<close>

lemma fps_fold:
  assumes "fps_ok r" and "5 \<le> wanted" and "wanted \<le> 120"
  shows "fps_ok (fold (fps_display e direct wanted) xs r) \<and>
    (\<exists>new. ss_queue (fold (fps_display e direct wanted) xs r) = ss_queue r @ new \<and>
      length new \<le> 2 * length xs \<and> (\<forall>x \<in> set new. \<exists>(d, k) \<in> set xs. fps_request wanted k x))"
  using assms(1)
proof (induction xs arbitrary: r)
  case (Cons x xs)
  obtain d k where x: "x = (d, k)" by (cases x)
  define u where "u = fps_display e direct wanted (d, k) r"
  obtain new where new: "ss_queue u = ss_queue r @ new" "length new \<le> 2" "list_all (fps_request wanted k) new"
    using fps_display_step [OF Cons.prems assms(2,3), of e direct d k] by (auto simp: u_def)
  have "fps_ok u" using fps_display_step [OF Cons.prems assms(2,3)] by (simp add: u_def)
  then obtain more where ok: "fps_ok (fold (fps_display e direct wanted) xs u)"
    and more: "ss_queue (fold (fps_display e direct wanted) xs u) = ss_queue u @ more" "length more \<le> 2 * length xs"
      "\<forall>x \<in> set more. \<exists>(d, k) \<in> set xs. fps_request wanted k x"
    using Cons.IH by blast
  have "fold (fps_display e direct wanted) (x # xs) r = fold (fps_display e direct wanted) xs u"
    by (simp add: x u_def)
  then show ?case
    using ok new more by (auto simp: x list_all_iff intro!: exI [of _ "new @ more"])
qed simp

lemma status_tick_fields:
  "rm_fps_control (status_tick e r) = rm_fps_control (fps_control e (rm_direct r) r)"
  "ss_queue (status_tick e r) = ss_queue (fps_control e (rm_direct r) r)"
  by (simp_all add: status_tick_def session_emit_def Let_def)

lemma fps_kept:
  assumes "ev \<noteq> StatusTick"
  shows "rm_fps_control (snd (remote_step e ev r)) = rm_fps_control r"
proof (cases "quiet_event ev r")
  case True
  then show ?thesis using steady_step [OF True, of e] assms by (simp add: steady_def)
next
  case False
  have "\<not> touching d \<or> d = UdNewVoiceCall \<or> (\<exists>i n b remember up. d = UdSetConfirmOverrideFile i n b remember up)" for d
    by (cases d) (simp_all add: touching_def)
  then consider n a ts where "ev = PeerData n (Some (MsgVoiceCallResponse a ts))"
    | ds where "ev = UiReady" "ss_queue r = UdNewVoiceCall # ds"
    | i n b remember up ds where "ev = UiReady" "ss_queue r = UdSetConfirmOverrideFile i n b remember up # ds"
    using False
    by (simp add: quiet_event_def split: remote_event.splits option.splits message.splits list.splits) metis
  then show ?thesis
    by cases
      (simp_all add: remote_step_def arm_peer_data_def handle_msg_from_peer_def peer_voice_response_def
        replace_voice_call_def start_voice_call_def stop_voice_call_def session_emit_def arm_ui_def
        handle_msg_from_ui_def ui_confirm_override_def new_voice_call_request_def Let_def split: option.split)
qed

lemma fps_ok_step: "fps_ok r \<Longrightarrow> fps_ok (snd (remote_step e ev r))"
proof (cases "ev = StatusTick")
  case True
  assume "fps_ok r"
  then show ?thesis
    using True fps_fold [OF _ wanted_fps_range] by (simp add: remote_step_def fps_ok_def status_tick_fields fps_control_def)
qed (simp add: fps_ok_def fps_kept)

text \<open>
  What a session asks of the host on its own is bounded. In every run the frame rate chosen for a
  display lies between 1 and 120 and a fresh picture is asked for at most ten times per display. A tick
  of the clock puts at most two requests per display on the channel, and every frame rate in them is
  at most what the user allows and at most nine tenths of what the display's decoder has reached.
\<close>

theorem frame_rate_bounded:
  assumes "loop_begin e0 res (session_begin e0 fs s) = (True, r0)" and "r = session_run turns r0"
  shows "(\<forall>d c. hm_get (rm_fps_control r) d = Some c \<longrightarrow>
      fc_refresh_times c \<le> 10 \<and> (\<forall>v. fc_last_auto_fps c = Some v \<longrightarrow> 1 \<le> v \<and> v \<le> 120)) \<and>
    (\<forall>e. \<exists>new. ss_queue (snd (remote_step e StatusTick r)) = ss_queue r @ new \<and>
      length new \<le> 2 * length (rm_decode_fps r) \<and>
      (\<forall>x \<in> set new. \<exists>(d, k) \<in> set (rm_decode_fps r). fps_request (wanted_fps r) k x))"
proof -
  have "steady True (session_begin e0 fs s) r0"
    using loop_begin_steady [of "session_begin e0 fs s" e0 res] assms(1) by simp
  then have "fps_ok r0" by (simp add: steady_def session_begin_fields fps_ok_def)
  then have "fps_ok r"
    unfolding assms(2)
  proof (rule session_run_inv)
    show "fps_ok (session_send d u)" if "fps_ok u" for d u
      using that by (simp add: fps_ok_def session_send_def)
  next
    show "fps_ok t" if "steady True u t" "fps_ok u" for u t
      using that by (simp add: fps_ok_def steady_def)
  qed (rule fps_ok_step)
  then show ?thesis
    using fps_fold [OF _ wanted_fps_range, of r]
    by (simp add: fps_ok_def fps_ctl_ok_def remote_step_def status_tick_fields fps_control_def)
qed

text \<open>A key frame arrives, and the video thread has just decoded its tenth picture, in 0.3 seconds.\<close>

definition demo_frame :: video_frame where
  "demo_frame = \<lparr>vf_union = Some (EncodedFrames CodecVP9 [(True, [1])]), vf_display = 0\<rparr>"

definition demo_video :: "session_turn list" where
  "demo_video =
     [LoopTurn demo_session_env (PeerData 9 (Some (MsgVideoFrame demo_frame))),
      VideoTurn demo_session_env
        \<lparr>ve_valid = (\<lambda>_. True), ve_decode = (\<lambda>_ _. Decoded True (Some I420)), ve_took = 30000000\<rparr>
        \<lparr>vt_ctls = [(0, \<lparr>vc_handler = \<lparr>vh_format = VP9, vh_valid = True, vh_record = False, vh_fail_counter = 0\<rparr>,
             vc_count = 9, vc_duration = 270000000, vc_skip_beginning = 5\<rparr>)], vt_last_chroma = Some I420\<rparr>
        (MediaVideoFrame demo_frame)]"

lemma first_frame_fields [simp]:
  "rm_decode_fps (on_first_frame r) = rm_decode_fps r" "ss_lc (on_first_frame r) = ss_lc r"
  by (simp_all add: on_first_frame_def send_opts_after_login_def send_toggle_privacy_mode_msg_def session_emit_def
      Let_def split: option.split)

lemma demo_video_state:
  "rm_decode_fps (session_run demo_video demo_remote) = [(0, 33)]"
  "wanted_fps (session_run demo_video demo_remote) = 30"
proof -
  have [simp]: "as_usize 0 = 0" by (simp add: as_usize_def)
  obtain go r where r: "remote_step demo_session_env (PeerData 9 (Some (MsgVideoFrame demo_frame))) demo_remote = (go, r)"
    by fastforce
  then have "go" "rm_decode_fps r = []" "lc_custom_fps (ss_lc r) = None"
    using demo_remote_fields
    by (auto simp: remote_step_def arm_peer_data_def handle_msg_from_peer_def peer_video_frame_def session_emit_def Let_def
        split: if_splits)
  moreover have "codec_format_of (vf_union demo_frame) = VP9" "vf_display demo_frame = 0"
    "vf_union demo_frame = Some (EncodedFrames CodecVP9 [(True, [1])])"
    by (simp_all add: demo_frame_def)
  ultimately show "rm_decode_fps (session_run demo_video demo_remote) = [(0, 33)]"
    "wanted_fps (session_run demo_video demo_remote) = 30"
    by (simp_all add: demo_video_def r video_step_def video_step_frame_def handle_frame_def
        check_decoders_def mark_unsupported_def MAX_DECODE_FAIL_COUNTER_def measure_fps_def video_callback_def
        wanted_fps_def Let_def)
qed

theorem frame_rate_bounded_witness:
  "\<exists>new. ss_queue (snd (remote_step demo_session_env StatusTick (session_run demo_video demo_remote))) =
     ss_queue (session_run demo_video demo_remote) @ new \<and> length new \<le> 2 \<and> (\<forall>x \<in> set new. fps_request 30 33 x)"
  using frame_rate_bounded [OF demo_remote_begun refl, of demo_video] demo_video_state by fastforce

end
