(* ===== verification/Remote_Codec.thy ===== *)
theory Remote_Codec
  imports Remote_Video Remote_Demo
begin

text \<open>
  A codec that does not work is dropped: the video thread of the client counts the failures, marks the
  codec, and the list of codecs it then sends makes the host choose another one.
\<close>

section \<open>The host does not choose what a client cannot decode\<close>

lemma marked_ability:
  assumes "f \<in> set unsupported" and "f \<noteq> UnknownFormat"
  shows "\<not> can_decode f (supported_decodings env pref chroma hw vram_on vram unsupported)"
proof -
  define g :: "supported_decoding \<Rightarrow> codec_format \<Rightarrow> supported_decoding"
    where "g = (\<lambda>d u. case u of VP8 \<Rightarrow> d\<lparr>ability_vp8 := 0\<rparr> | VP9 \<Rightarrow> d\<lparr>ability_vp9 := 0\<rparr>
    | AV1 \<Rightarrow> d\<lparr>ability_av1 := 0\<rparr> | H264 \<Rightarrow> d\<lparr>ability_h264 := 0\<rparr> | H265 \<Rightarrow> d\<lparr>ability_h265 := 0\<rparr>
    | UnknownFormat \<Rightarrow> d)"
  have keep: "\<not> can_decode f d \<Longrightarrow> \<not> can_decode f (foldl g d us)" for d us
  proof (induction us arbitrary: d)
    case (Cons u us)
    have "\<not> can_decode f (g d u)" using Cons.prems by (cases f; cases u) (simp_all add: g_def)
    then show ?case using Cons.IH by simp
  qed simp
  have "\<not> can_decode f (foldl g d unsupported)" for d
    using assms(1)
  proof (induction unsupported arbitrary: d)
    case (Cons u us)
    have "\<not> can_decode f (g d f)" using assms(2) by (cases f) (simp_all add: g_def)
    then show ?case using Cons keep by auto
  qed simp
  then show ?thesis unfolding supported_decodings_def Let_def g_def [symmetric] .
qed

lemma host_avoids:
  assumes "\<not> can_decode f dec" and "f \<noteq> VP9"
  shows "encode_codec_format (encoder_update env (Update i dec) st) \<noteq> f"
proof -
  define ds where "ds = update_decodings (Update i dec) (peer_decodings st)"
  have "hm_get ds i = Some dec" by (simp add: ds_def update_decodings_def)
  then have mem: "(i, dec) \<in> set ds" by (rule map_of_SomeD)
  then have "\<not> list_all (\<lambda>(_, s). can_decode f s) ds" using assms(1) by (auto simp: list_all_iff)
  then have no: "f = VP8 \<Longrightarrow> \<not> all_decode ability_vp8 ds" "f = AV1 \<Longrightarrow> \<not> all_decode ability_av1 ds"
    "f = H264 \<Longrightarrow> \<not> all_decode ability_h264 ds" "f = H265 \<Longrightarrow> \<not> all_decode ability_h265 ds"
    using all_decode_can by blast+
  define prefs where "prefs = usable_preferences (usable_encodings env ds) ds"
  show ?thesis
  proof (cases "prefs = []")
    case True
    then have "encode_codec_format (encoder_update env (Update i dec) st)
        = (if all_decode ability_vp8 ds \<and> env_total_memory env \<le> 4 * 1024 * 1024 * 1024 then VP8 else VP9)"
      unfolding prefs_def ds_def by (rule encoder_update_auto)
    then show ?thesis using no(1) assms(2) by (cases f) auto
  next
    case False
    then have "encode_codec_format (encoder_update env (Update i dec) st) = format_of (most_frequent prefs)"
      unfolding prefs_def ds_def by (rule encoder_update_follows)
    moreover have "pref_usable (usable_encodings env ds) (most_frequent prefs)"
      using most_frequent_spec [OF False] usable_preferences_mem prefs_def by blast
    ultimately show ?thesis
      using no assms(2) by (cases "most_frequent prefs") (auto simp: usable_encodings_def Let_def)
  qed
qed

section \<open>The video thread marks a codec that fails\<close>

definition marks :: "remote \<Rightarrow> codec_format set" where
  "marks r = set (lc_mark_unsupported (ss_lc r))"

text \<open>A message on the channel that tells the host not to use a codec.\<close>

definition told :: "codec_format \<Rightarrow> ui_data list \<Rightarrow> bool" where
  "told f q \<longleftrightarrow> (\<exists>dec. UdMessage (option_msg (option_default\<lparr>om_supported_decoding := Some dec\<rparr>)) \<in> set q \<and>
     \<not> can_decode f dec)"

lemma mark_one:
  assumes "mark_unsupported h (b, c) = (upd, c')"
  shows "set (lc_mark_unsupported c) \<subseteq> set (lc_mark_unsupported c')"
    and "MAX_DECODE_FAIL_COUNTER \<le> vh_fail_counter h \<Longrightarrow> vh_format h \<in> set (lc_mark_unsupported c')"
    and "b \<Longrightarrow> upd" and "\<not> upd \<Longrightarrow> c' = c"
  using assms by (auto simp: mark_unsupported_def split: if_splits)

definition mark_all :: "(nat \<times> video_ctl) list \<Rightarrow> bool \<times> client \<Rightarrow> bool \<times> client" where
  "mark_all ctls = fold (\<lambda>(_, ctl). mark_unsupported (vc_handler ctl)) ctls"

lemma mark_fold:
  assumes "mark_all ctls (b, c) = (upd, c')"
  shows "set (lc_mark_unsupported c) \<subseteq> set (lc_mark_unsupported c') \<and>
    (\<forall>(d, ctl) \<in> set ctls. MAX_DECODE_FAIL_COUNTER \<le> vh_fail_counter (vc_handler ctl) \<longrightarrow>
      vh_format (vc_handler ctl) \<in> set (lc_mark_unsupported c')) \<and>
    (\<not> upd \<longrightarrow> c' = c \<and> \<not> b)"
  using assms
proof (induction ctls arbitrary: b c)
  case (Cons x ctls)
  obtain d ctl where x: "x = (d, ctl)" by (cases x)
  obtain b1 c1 where m: "mark_unsupported (vc_handler ctl) (b, c) = (b1, c1)" by fastforce
  then have "mark_all ctls (b1, c1) = (upd, c')" using Cons.prems by (simp add: mark_all_def x)
  then show ?case using Cons.IH [of b1 c1] mark_one [OF m] by (auto simp: x)
qed (simp add: mark_all_def)

lemma decoder_preference_marks:
  "lc_mark_unsupported (snd (decoder_preference c)) = lc_mark_unsupported c"
  by (simp add: decoder_preference_def load_config_def Let_def split_def)

lemma client_decodings_marks:
  "lc_mark_unsupported (snd (client_decodings e c)) = lc_mark_unsupported c"
  "f \<in> set (lc_mark_unsupported c) \<Longrightarrow> f \<noteq> UnknownFormat \<Longrightarrow> \<not> can_decode f (fst (client_decodings e c))"
  using decoder_preference_marks [of c] by (simp_all add: client_decodings_def Let_def split_def marked_ability)

lemma told_decodings:
  assumes "f \<in> marks r" and "f \<noteq> UnknownFormat" and "ss_sender r"
  shows "told f (ss_queue (lc_message (update_supported_decodings e) r))"
proof -
  define c where "c = (ss_lc r)\<lparr>cl_out := []\<rparr>"
  have "\<not> can_decode f (fst (client_decodings e c))"
    using assms by (intro client_decodings_marks) (simp_all add: marks_def c_def)
  then show ?thesis
    using assms(3)
    by (auto simp: told_def lc_message_def run_lc_def update_supported_decodings_def session_send_def Let_def
        split_def c_def)
qed

lemma decodings_message_fields:
  "marks (lc_message (update_supported_decodings e) r) = marks r"
  "ss_sender (lc_message (update_supported_decodings e) r) = ss_sender r"
  "set (ss_queue r) \<subseteq> set (ss_queue (lc_message (update_supported_decodings e) r))"
  using client_decodings_marks(1) [of e "(ss_lc r)\<lparr>cl_out := []\<rparr>"]
  by (auto simp: lc_message_def run_lc_def update_supported_decodings_def session_send_def Let_def split_def marks_def)

lemma check_decoders_step:
  assumes "ss_sender r" and "f \<noteq> UnknownFormat"
  shows "ss_sender (check_decoders e vt r)" and "marks r \<subseteq> marks (check_decoders e vt r)"
    and "set (ss_queue r) \<subseteq> set (ss_queue (check_decoders e vt r))"
    and "(d, ctl) \<in> set (vt_ctls vt) \<Longrightarrow> MAX_DECODE_FAIL_COUNTER \<le> vh_fail_counter (vc_handler ctl) \<Longrightarrow>
      vh_format (vc_handler ctl) \<in> marks (check_decoders e vt r)"
    and "f \<in> marks (check_decoders e vt r) \<Longrightarrow> f \<notin> marks r \<Longrightarrow> told f (ss_queue (check_decoders e vt r))"
proof -
  obtain upd c where m: "mark_all (vt_ctls vt) (False, ss_lc r) = (upd, c)" by fastforce
  define u where "u = r\<lparr>ss_lc := c\<rparr>"
  have eq: "check_decoders e vt r = (if upd then lc_message (update_supported_decodings (re_client e)) u else u)"
    using m by (simp add: check_decoders_def mark_all_def u_def)
  note mm = mark_fold [OF m]
  have marks: "marks (check_decoders e vt r) = marks u" by (simp add: eq decodings_message_fields)
  show "ss_sender (check_decoders e vt r)" using assms by (simp add: eq decodings_message_fields u_def)
  show "marks r \<subseteq> marks (check_decoders e vt r)" using mm marks by (simp add: marks_def u_def)
  show "set (ss_queue r) \<subseteq> set (ss_queue (check_decoders e vt r))"
    using decodings_message_fields(3) [of u] by (auto simp: eq u_def)
  show "vh_format (vc_handler ctl) \<in> marks (check_decoders e vt r)"
    if "(d, ctl) \<in> set (vt_ctls vt)" "MAX_DECODE_FAIL_COUNTER \<le> vh_fail_counter (vc_handler ctl)"
    using mm marks that by (auto simp: marks_def u_def)
  show "told f (ss_queue (check_decoders e vt r))" if "f \<in> marks (check_decoders e vt r)" "f \<notin> marks r"
  proof -
    have "upd" using mm that marks by (auto simp: marks_def u_def)
    then show ?thesis using told_decodings [of f u] that(1) marks assms by (simp add: eq u_def)
  qed
qed

section \<open>Frames that fail\<close>

definition failing_frame :: "codec_format \<Rightarrow> nat \<Rightarrow> session_env \<times> video_env \<times> video_frame \<Rightarrow> bool" where
  "failing_frame f d x \<longleftrightarrow>
     (case x of (_, ve, vf) \<Rightarrow>
        as_usize (vf_display vf) = d \<and> codec_format_of (vf_union vf) = f \<and>
        (\<forall>u c. vf_union vf = Some u \<longrightarrow> ve_decode ve f u \<noteq> Decoded True c))"

fun video_frames :: "(session_env \<times> video_env \<times> video_frame) list \<Rightarrow> video_thread \<times> remote \<Rightarrow> (video_thread \<times> remote) option" where
  "video_frames [] x = Some x"
| "video_frames ((e, ve, vf) # fs) x =
     (case video_step_frame e ve vf x of Some y \<Rightarrow> video_frames fs y | None \<Rightarrow> None)"

definition failures :: "codec_format \<Rightarrow> nat \<Rightarrow> video_thread \<Rightarrow> nat" where
  "failures f d vt =
     (case hm_get (vt_ctls vt) d of
        Some ctl \<Rightarrow> if vh_format (vc_handler ctl) = f then vh_fail_counter (vc_handler ctl) else 0
      | None \<Rightarrow> 0)"

lemma handle_frame_fails:
  assumes "failing_frame f d (e, ve, vf)" and "f \<noteq> UnknownFormat" and "handle_frame ve vf h = (res, h')"
  shows "(\<nexists>c. res = Decoded True c) \<and> vh_format h' = f \<and>
    min 10 (Suc (if vh_format h = f then vh_fail_counter h else 0)) \<le> vh_fail_counter h'"
proof -
  obtain u where u: "vf_union vf = Some u"
    using assms(1,2) by (cases "vf_union vf") (auto simp: failing_frame_def)
  then have "\<nexists>c. ve_decode ve f u = Decoded True c" using assms(1) by (auto simp: failing_frame_def)
  then show ?thesis
    using assms u
    by (cases "ve_decode ve f u") (auto simp: failing_frame_def handle_frame_def video_handler_reset_def usize_max_def Let_def)
qed

lemma failing_step:
  assumes "failing_frame f d (e, ve, vf)" and "f \<noteq> UnknownFormat" and "ss_sender r"
  obtains vt' r' where "video_step_frame e ve vf (vt, r) = Some (vt', r')" "ss_sender r'"
    "min 10 (Suc (failures f d vt)) \<le> failures f d vt'" "marks r \<subseteq> marks r'"
    "set (ss_queue r) \<subseteq> set (ss_queue r')" "10 \<le> failures f d vt' \<Longrightarrow> f \<in> marks r'"
    "f \<in> marks r' \<Longrightarrow> f \<notin> marks r \<Longrightarrow> told f (ss_queue r')"
proof -
  define ctl where "ctl = (case hm_get (vt_ctls vt) d of Some ctl \<Rightarrow> ctl
    | None \<Rightarrow> \<lparr>vc_handler = video_handler_new ve f, vc_count = 0, vc_duration = 0, vc_skip_beginning = 0\<rparr>)"
  obtain res h where hf: "handle_frame ve vf (vc_handler ctl) = (res, h)" by fastforce
  note h = handle_frame_fails [OF assms(1,2) hf]
  define vt' where "vt' = vt\<lparr>vt_ctls := hm_insert d (ctl\<lparr>vc_handler := h\<rparr>) (vt_ctls vt)\<rparr>"
  define u where "u = (case res of DecodeError \<Rightarrow> refresh_video (vf_display vf) r | Decoded _ _ \<Rightarrow> r)"
  have u: "ss_sender u" "marks u = marks r" "set (ss_queue r) \<subseteq> set (ss_queue u)"
    using assms(3) by (auto simp: u_def refresh_video_def session_send_def marks_def split: decode_result.split)
  have fails: "failures f d vt' = vh_fail_counter h" using h by (simp add: failures_def vt'_def)
  have get: "hm_get (vt_ctls vt') d = Some (ctl\<lparr>vc_handler := h\<rparr>)" by (simp add: vt'_def)
  note c = check_decoders_step [OF u(1) assms(2), where e = e and vt = vt']
  have "video_step_frame e ve vf (vt, r) = Some (vt', check_decoders e vt' u)"
  proof -
    have ids: "as_usize (vf_display vf) = d" "codec_format_of (vf_union vf) = f"
      using assms(1) by (simp_all add: failing_frame_def)
    consider "res = DecodeError" | c where "res = Decoded False c"
      using h by (cases res) auto
    then show ?thesis
      by cases (use hf in \<open>simp_all add: video_step_frame_def ids ctl_def [symmetric] vt'_def u_def Let_def\<close>)
  qed
  then show thesis
  proof (rule that)
    have "failures f d vt = (if vh_format (vc_handler ctl) = f then vh_fail_counter (vc_handler ctl) else 0)"
      by (simp add: failures_def ctl_def video_handler_new_def split: option.split)
    then show "min 10 (Suc (failures f d vt)) \<le> failures f d vt'" using h fails by simp
    show "f \<in> marks (check_decoders e vt' u)" if "10 \<le> failures f d vt'"
      using c(4) [OF map_of_SomeD [OF get]] that fails h by (simp add: MAX_DECODE_FAIL_COUNTER_def)
  qed (use c u in \<open>auto\<close>)
qed

lemma failing_frames:
  assumes "list_all (failing_frame f d) fs" and "f \<noteq> UnknownFormat" and "ss_sender r"
  shows "\<exists>vt' r'. video_frames fs (vt, r) = Some (vt', r') \<and> ss_sender r' \<and>
    min 10 (length fs + failures f d vt) \<le> failures f d vt' \<and> marks r \<subseteq> marks r' \<and>
    set (ss_queue r) \<subseteq> set (ss_queue r') \<and> (fs \<noteq> [] \<and> 10 \<le> failures f d vt' \<longrightarrow> f \<in> marks r') \<and>
    (f \<in> marks r' \<and> f \<notin> marks r \<longrightarrow> told f (ss_queue r'))"
  using assms(1,3)
proof (induction fs arbitrary: vt r)
  case (Cons x fs)
  obtain e ve vf where x: "x = (e, ve, vf)" by (cases x)
  have "failing_frame f d (e, ve, vf)" using Cons.prems(1) x by simp
  from failing_step [OF this assms(2) Cons.prems(2), of vt] obtain vt1 r1
    where 1: "video_step_frame e ve vf (vt, r) = Some (vt1, r1)" "ss_sender r1"
      "min 10 (Suc (failures f d vt)) \<le> failures f d vt1" "marks r \<subseteq> marks r1"
      "set (ss_queue r) \<subseteq> set (ss_queue r1)" "10 \<le> failures f d vt1 \<Longrightarrow> f \<in> marks r1"
      "f \<in> marks r1 \<Longrightarrow> f \<notin> marks r \<Longrightarrow> told f (ss_queue r1)"
    by metis
  obtain vt2 r2 where 2: "video_frames fs (vt1, r1) = Some (vt2, r2)" "ss_sender r2"
      "min 10 (length fs + failures f d vt1) \<le> failures f d vt2" "marks r1 \<subseteq> marks r2"
      "set (ss_queue r1) \<subseteq> set (ss_queue r2)" "fs \<noteq> [] \<and> 10 \<le> failures f d vt2 \<longrightarrow> f \<in> marks r2"
      "f \<in> marks r2 \<and> f \<notin> marks r1 \<longrightarrow> told f (ss_queue r2)"
    using Cons.IH [of r1 vt1] Cons.prems(1) 1(2) by auto
  have "told f (ss_queue r2)" if "told f (ss_queue r1)" using that 2(5) by (auto simp: told_def)
  then show ?case
    using 1 2 by (cases "fs = []") (auto simp: x)
qed simp


text \<open>Ten frames of AV1 that the decoder refuses.\<close>

definition demo_bad_frames :: "(session_env \<times> video_env \<times> video_frame) list" where
  "demo_bad_frames = replicate 10 (demo_session_env,
     \<lparr>ve_valid = (\<lambda>_. True), ve_decode = (\<lambda>_ _. DecodeError), ve_took = 1\<rparr>,
     \<lparr>vf_union = Some (EncodedFrames CodecAV1 [(True, [1])]), vf_display = 0\<rparr>)"


end
