(* ===== verification/Remote_Removal.thy ===== *)
theory Remote_Removal
  imports Remote_Safety
begin

text \<open>
  Removing the files of a directory of the host when the user has confirmed all of them at once
  (\<open>handle_job_status\<close> in \<open>src/client/io_loop.rs\<close>): the loop goes through the list by itself.
\<close>

definition removal_path :: "removal \<Rightarrow> nat \<Rightarrow> string" where
  "removal_path job k = rj_path job @ rj_sep job @ fe_name (rj_files job ! k)"

text \<open>The session is about to ask for file \<open>k\<close>, and has nothing else to do.\<close>

definition removing :: "i32 \<Rightarrow> removal \<Rightarrow> nat \<Rightarrow> remote \<Rightarrow> bool" where
  "removing i job k r \<longleftrightarrow>
     ss_queue r = [UdRemoveFile i (removal_path job k) (of_nat k) True] \<and>
     (\<exists>t. hm_get (rm_removals r) i = Some (job\<lparr>rj_last_update := t\<rparr>))"

text \<open>The host's answer for a file.\<close>

definition removal_answer :: "i32 \<Rightarrow> nat \<Rightarrow> string option \<Rightarrow> message" where
  "removal_answer i k err =
     MsgFileResponse (Some (case err of None \<Rightarrow> FrDone i (of_nat k) | Some x \<Rightarrow> FrError i x (of_nat k)))"

fun removal_turns :: "i32 \<Rightarrow> nat \<Rightarrow> (session_env \<times> session_env \<times> string option) list \<Rightarrow> session_turn list" where
  "removal_turns i k [] = []"
| "removal_turns i k ((e1, e2, err) # as) =
     LoopTurn e1 UiReady # LoopTurn e2 (PeerData 1 (Some (removal_answer i k err))) # removal_turns i (Suc k) as"

fun removal_request :: "session_effect \<Rightarrow> (i32 \<times> string \<times> i32) option" where
  "removal_request (SePeer (MsgFileAction (Some (FaRemoveFile i p k)))) = Some (i, p, k)"
| "removal_request _ = None"

definition asked_removals :: "session_effect list \<Rightarrow> (i32 \<times> string \<times> i32) list" where
  "asked_removals xs = List.map_filter removal_request xs"

lemma asked_removals_simps [simp]:
  "asked_removals [] = []" "asked_removals (xs @ ys) = asked_removals xs @ asked_removals ys"
  "asked_removals (x # xs) = (case removal_request x of Some y \<Rightarrow> [y] | None \<Rightarrow> []) @ asked_removals xs"
  by (simp_all add: asked_removals_def List.map_filter_def split: option.split)

lemma ask_step:
  assumes "removing i job k r" and "rj_is_remote job"
  shows "\<exists>t. remote_step e UiReady r = (True, t) \<and> ss_queue t = [] \<and> rm_removals t = rm_removals r \<and>
    ss_out t = ss_out r @ [SePeer (MsgFileAction (Some (FaRemoveFile i (removal_path job k) (of_nat k))))]"
  using assms
  by (simp add: removing_def remote_step_def arm_ui_def handle_msg_from_ui_def ui_remove_file_def session_emit_def)

lemma answer_step:
  fixes k :: nat
  assumes "ss_queue r = []" and "hm_get (rm_removals r) i = Some (job\<lparr>rj_last_update := t\<rparr>)"
    and "rj_no_confirm job" and "rj_is_remote job" and "Suc k < 2 ^ 31"
  shows "\<exists>u new. remote_step e (PeerData 1 (Some (removal_answer i k err))) r = (True, u) \<and>
    ss_out u = ss_out r @ new \<and> asked_removals new = [] \<and>
    (if Suc k < length (rj_files job) then removing i job (Suc k) u
     else hm_get (rm_removals u) i = None \<and> ss_queue u = [] \<and>
       (\<exists>x. new = [SeUi x] \<and> (x = SuJobDone i (of_nat k) \<or> (\<exists>y. x = SuJobError i y (of_nat k)))))"
proof -
  have n: "as_usize (of_nat k + 1) = Suc k"
    using as_usize_of_nat [OF assms(5)] by (simp add: add.commute)
  have status: "\<exists>u new. handle_job_status e i (of_nat k) err' v = u \<and>
    ss_out u = ss_out v @ new \<and> asked_removals new = [] \<and>
    (if Suc k < length (rj_files job) then removing i job (Suc k) u
     else hm_get (rm_removals u) i = None \<and> ss_queue u = [] \<and>
       (\<exists>x. new = [SeUi x] \<and> (x = SuJobDone i (of_nat k) \<or> (\<exists>y. x = SuJobError i y (of_nat k)))))"
    if "ss_queue v = []" "hm_get (rm_removals v) i = Some (job\<lparr>rj_last_update := t\<rparr>)" for v err'
    using that assms(3,4) n
    by (auto simp: handle_job_status_def removal_next_def removing_def removal_path_def job_status_ui_def
        session_emit_def self_send_def Let_def add.commute split: option.split)
  define v where "v = (let r = r\<lparr>rm_last_recv := re_time e\<rparr>;
        r = (if \<not> rm_received r then r\<lparr>rm_received := True, ss_lc := (ss_lc r)\<lparr>lc_received := True\<rparr>\<rparr> else r)
    in r\<lparr>rm_data_count := rm_data_count r + 1\<rparr>)"
  have v: "ss_queue v = []" "rm_removals v = rm_removals r" "ss_out v = ss_out r"
    using assms(1) by (simp_all add: v_def Let_def)
  have step: "remote_step e (PeerData 1 (Some m)) r = handle_msg_from_peer e m v" for m
    by (simp add: remote_step_def arm_peer_data_def v_def Let_def)
  obtain w err' where "snd (remote_step e (PeerData 1 (Some (removal_answer i k err))) r) = handle_job_status e i (of_nat k) err' w"
      "ss_queue w = []" "rm_removals w = rm_removals r" "ss_out w = ss_out r"
    unfolding step removal_answer_def
    by (cases err; cases "get_job i (rm_write_jobs v)")
      (use v in \<open>simp_all add: handle_msg_from_peer_def peer_file_response_def peer_done_def peer_error_def\<close>)
  moreover have "fst (remote_step e (PeerData 1 (Some (removal_answer i k err))) r)"
    unfolding step removal_answer_def by (cases err) (simp_all add: handle_msg_from_peer_def)
  ultimately show ?thesis
    using status [of w err'] assms(2) by (cases "remote_step e (PeerData 1 (Some (removal_answer i k err))) r") simp
qed

text \<open>From file \<open>k\<close> on.\<close>

lemma removal_from:
  assumes "removing i job k r" and "rj_is_remote job" and "rj_no_confirm job" and "length (rj_files job) < 2 ^ 31"
    and "k < length (rj_files job)" and "length as = length (rj_files job) - k"
  shows "\<exists>new x. ss_out (session_run (removal_turns i k as) r) = ss_out r @ new @ [SeUi x] \<and>
    asked_removals new = map (\<lambda>n. (i, removal_path job n, of_nat n)) [k..<length (rj_files job)] \<and>
    ss_queue (session_run (removal_turns i k as) r) = [] \<and>
    hm_get (rm_removals (session_run (removal_turns i k as) r)) i = None \<and>
    (x = SuJobDone i (of_nat (length (rj_files job) - 1)) \<or>
     (\<exists>y. x = SuJobError i y (of_nat (length (rj_files job) - 1))))"
  using assms(1,5,6)
proof (induction as arbitrary: k r)
  case (Cons a as)
  obtain e1 e2 err where a: "a = (e1, e2, err)" by (cases a)
  obtain r1 where 1: "remote_step e1 UiReady r = (True, r1)" "ss_queue r1 = []" "rm_removals r1 = rm_removals r"
      "ss_out r1 = ss_out r @ [SePeer (MsgFileAction (Some (FaRemoveFile i (removal_path job k) (of_nat k))))]"
    using ask_step [OF Cons.prems(1) assms(2)] by blast
  obtain t where "hm_get (rm_removals r1) i = Some (job\<lparr>rj_last_update := t\<rparr>)"
    using Cons.prems(1) 1(3) by (auto simp: removing_def)
  moreover have "Suc k < 2 ^ 31" using Cons.prems(2) assms(4) by simp
  ultimately obtain r2 new where 2: "remote_step e2 (PeerData 1 (Some (removal_answer i k err))) r1 = (True, r2)"
      "ss_out r2 = ss_out r1 @ new" "asked_removals new = []"
      "if Suc k < length (rj_files job) then removing i job (Suc k) r2
       else hm_get (rm_removals r2) i = None \<and> ss_queue r2 = [] \<and>
         (\<exists>x. new = [SeUi x] \<and> (x = SuJobDone i (of_nat k) \<or> (\<exists>y. x = SuJobError i y (of_nat k))))"
    using answer_step [OF 1(2) _ assms(3,2), where t = t and k = k and e = e2 and err = err] by blast
  have run: "session_run (removal_turns i k (a # as)) r = session_run (removal_turns i (Suc k) as) r2"
    using 1(1) 2(1) by (simp add: a)
  have upt: "[k..<length (rj_files job)] = k # [Suc k..<length (rj_files job)]"
    using Cons.prems(2) by (rule upt_conv_Cons)
  show ?case
  proof (cases "Suc k < length (rj_files job)")
    case True
    then have "removing i job (Suc k) r2" "length as = length (rj_files job) - Suc k"
      using 2(4) Cons.prems(3) by simp_all
    from Cons.IH [OF this(1) True this(2)] obtain new' x where
      "ss_out (session_run (removal_turns i (Suc k) as) r2) = ss_out r2 @ new' @ [SeUi x]"
      "asked_removals new' = map (\<lambda>n. (i, removal_path job n, of_nat n)) [Suc k..<length (rj_files job)]"
      "ss_queue (session_run (removal_turns i (Suc k) as) r2) = []"
      "hm_get (rm_removals (session_run (removal_turns i (Suc k) as) r2)) i = None"
      "x = SuJobDone i (of_nat (length (rj_files job) - 1)) \<or>
       (\<exists>y. x = SuJobError i y (of_nat (length (rj_files job) - 1)))"
      by blast
    then show ?thesis
      unfolding run upt
      by (intro exI [of _ "SePeer (MsgFileAction (Some (FaRemoveFile i (removal_path job k) (of_nat k)))) # new @ new'"]
          exI [of _ x]) (simp add: 1(4) 2(2,3))
  next
    case False
    then have "length (rj_files job) = Suc k" using Cons.prems(2) by simp
    moreover from this have "as = []" using Cons.prems(3) by simp
    moreover obtain x where "new = [SeUi x]" "x = SuJobDone i (of_nat k) \<or> (\<exists>y. x = SuJobError i y (of_nat k))"
      using False 2(4) by auto
    moreover have "length (rj_files job) - 1 = k" using \<open>length (rj_files job) = Suc k\<close> by simp
    ultimately show ?thesis
      unfolding run upt
      by (intro exI [of _ "[SePeer (MsgFileAction (Some (FaRemoveFile i (removal_path job k) (of_nat k))))]"]
          exI [of _ x]) (use False 2(4) in \<open>simp add: 1(4) 2(2)\<close>)
  qed
qed simp

text \<open>
  C31: A confirmed removal of a directory goes through. When the user has confirmed the removal of all
  files of a directory of the host, the session asks the host for every file once, in the order of the
  list, whatever the answers and however the time passes, then forgets the job, and tells the user
  about the last file.
\<close>

theorem removal_goes_through:
  assumes "ss_queue r = [UdRemoveFile i (removal_path job 0) 0 True]" and "hm_get (rm_removals r) i = Some job"
    and "rj_is_remote job" and "rj_no_confirm job" and "rj_files job \<noteq> []" and "length (rj_files job) < 2 ^ 31"
    and "length replies = length (rj_files job)"
  shows "\<exists>new x. ss_out (session_run (removal_turns i 0 replies) r) = ss_out r @ new @ [SeUi x] \<and>
    asked_removals new = map (\<lambda>n. (i, removal_path job n, of_nat n)) [0..<length (rj_files job)] \<and>
    ss_queue (session_run (removal_turns i 0 replies) r) = [] \<and>
    hm_get (rm_removals (session_run (removal_turns i 0 replies) r)) i = None \<and>
    (x = SuJobDone i (of_nat (length (rj_files job) - 1)) \<or>
     (\<exists>y. x = SuJobError i y (of_nat (length (rj_files job) - 1))))"
proof -
  have "removing i job 0 r"
    using assms(1,2) by (auto simp: removing_def intro!: exI [of _ "rj_last_update job"])
  then show ?thesis using assms(5,7) by (intro removal_from) (use assms(3,4,6) in simp_all)
qed

text \<open>Two files; the host removes the first and refuses the second.\<close>

definition demo_removal :: removal where
  "demo_removal =
     \<lparr>rj_files = [\<lparr>fe_name = ''x'', fe_size = 3, fe_modified_time = 7\<rparr>, \<lparr>fe_name = ''y'', fe_size = 4, fe_modified_time = 8\<rparr>],
      rj_path = ''/d'', rj_sep = ''/'', rj_is_remote = True, rj_no_confirm = True, rj_last_update = 0\<rparr>"

definition demo_removing :: remote where
  "demo_removing = demo_remote\<lparr>ss_queue := [UdRemoveFile 4 ''/d/x'' 0 True], rm_removals := [(4, demo_removal)]\<rparr>"

theorem removal_goes_through_witness:
  "\<exists>new x. ss_out (session_run (removal_turns 4 0
        [(demo_session_env, demo_session_env, None), (demo_session_env, demo_session_env, Some ''busy'')]) demo_removing)
      = ss_out demo_remote @ new @ [SeUi x] \<and>
    asked_removals new = [(4, ''/d/x'', 0), (4, ''/d/y'', 1)]"
proof -
  let ?as = "[(demo_session_env, demo_session_env, None), (demo_session_env, demo_session_env, Some ''busy'')]"
  have "ss_queue demo_removing = [UdRemoveFile 4 (removal_path demo_removal 0) 0 True]"
    "hm_get (rm_removals demo_removing) 4 = Some demo_removal"
    by (simp_all add: demo_removing_def removal_path_def demo_removal_def)
  from removal_goes_through [OF this, of ?as] obtain new x where
    "ss_out (session_run (removal_turns 4 0 ?as) demo_removing) = ss_out demo_removing @ new @ [SeUi x]"
    "asked_removals new = map (\<lambda>n. (4, removal_path demo_removal n, of_nat n)) [0..<length (rj_files demo_removal)]"
    unfolding demo_removal_def by force
  moreover have "length (rj_files demo_removal) = 2" by (simp add: demo_removal_def)
  ultimately have "\<exists>new x. ss_out (session_run (removal_turns 4 0 ?as) demo_removing) = ss_out demo_removing @ new @ [SeUi x] \<and>
    asked_removals new = map (\<lambda>n. (4, removal_path demo_removal n, of_nat n)) [0..<2]"
    by auto
  moreover have "[0..<2] = [0, 1 :: nat]" by (simp add: upt_rec)
  ultimately show ?thesis
    by (simp add: demo_removing_def removal_path_def demo_removal_def)
qed

end
