(* ===== verification/Session_Rounds.thy ===== *)
theory Session_Rounds
  imports Remote_Loop Remote_Demo
begin

text \<open>
  The rounds of a session (\<open>ConnectionRoundState\<close> and \<open>reconnect\<close> in
  \<open>src/ui_session_interface.rs\<close>): every connection attempt is a thread of its own, and several may be
  alive at once while they end. A system of the session and its threads, each with its channel, moves
  by single steps; what the session believes about its connection is the truth about the newest one.
\<close>

section \<open>The session and its threads\<close>

datatype loop_phase = Spawned | Opening | Running

record session_rounds =
  sr_session :: ui_session
  sr_loops :: "(u32, loop_phase) hmap"        \<comment> \<open>the threads that are alive, by round\<close>
  sr_owner :: u32                             \<comment> \<open>whose channel the session sends to\<close>
  sr_channels :: "(u32, ui_data list) hmap"   \<comment> \<open>the channels of the others\<close>

definition loop_channel :: "u32 \<Rightarrow> session_rounds \<Rightarrow> ui_data list" where
  "loop_channel rnd sr =
     (if sr_owner sr = rnd then ss_queue (sr_session sr)
      else case hm_get (sr_channels sr) rnd of Some q \<Rightarrow> q | None \<Rightarrow> [])"

text \<open>A session that nobody has started: the defaults of \<open>ConnectionRoundState\<close>, no thread.\<close>

definition rounds_init :: "ui_session \<Rightarrow> session_rounds" where
  "rounds_init s =
     \<lparr>sr_session = s\<lparr>ss_sender := False, ss_queue := [], ss_thread := False, ss_round := 0, ss_round_state := Connecting\<rparr>,
      sr_loops = [], sr_owner = 0, sr_channels = []\<rparr>"

definition rounds_reconnect :: "bool \<Rightarrow> session_rounds \<Rightarrow> session_rounds" where
  "rounds_reconnect force_relay sr =
     (let s = sr_session sr; s' = reconnect force_relay s
      in sr\<lparr>sr_session := s',
            sr_loops := (if ss_round s' = ss_round s then sr_loops sr
                         else hm_insert (ss_round s') Spawned (sr_loops sr))\<rparr>)"

text \<open>\<open>session_start_\<close> of the Flutter front end starts the first thread without \<open>reconnect\<close>.\<close>

definition flutter_start :: "session_rounds \<Rightarrow> session_rounds" where
  "flutter_start sr =
     (let s = new_round (sr_session sr)
      in sr\<lparr>sr_session := s, sr_loops := hm_insert (ss_round s) Spawned (sr_loops sr)\<rparr>)"

text \<open>The thread of a round begins: the session gets its channel.\<close>

definition rounds_begin :: "session_env \<Rightarrow> u32 \<Rightarrow> session_rounds \<Rightarrow> session_rounds" where
  "rounds_begin e rnd sr =
     sr\<lparr>sr_channels := hm_insert (sr_owner sr) (ss_queue (sr_session sr)) (sr_channels sr),
        sr_session := session_open e (sr_session sr), sr_owner := rnd,
        sr_loops := hm_insert rnd Opening (sr_loops sr)\<rparr>"

definition rounds_connect :: "u32 \<Rightarrow> session_rounds \<Rightarrow> session_rounds" where
  "rounds_connect rnd sr =
     sr\<lparr>sr_session := set_connected (sr_session sr), sr_loops := hm_insert rnd Running (sr_loops sr)\<rparr>"

definition rounds_end :: "u32 \<Rightarrow> session_rounds \<Rightarrow> session_rounds" where
  "rounds_end rnd sr =
     sr\<lparr>sr_session := snd (set_disconnected rnd (sr_session sr)), sr_loops := hm_remove rnd (sr_loops sr)\<rparr>"

text \<open>A thread takes the first request from its channel.\<close>

definition rounds_take :: "u32 \<Rightarrow> session_rounds \<Rightarrow> session_rounds" where
  "rounds_take rnd sr =
     (if sr_owner sr = rnd then sr\<lparr>sr_session := (sr_session sr)\<lparr>ss_queue := tl (ss_queue (sr_session sr))\<rparr>\<rparr>
      else sr\<lparr>sr_channels := hm_insert rnd (tl (loop_channel rnd sr)) (sr_channels sr)\<rparr>)"

text \<open>The steps. The counter of the rounds does not overflow: it counts the clicks of a user.\<close>

inductive rounds_step :: "session_rounds \<Rightarrow> session_rounds \<Rightarrow> bool" where
  rs_reconnect: "ss_round (sr_session sr) < ss_round (sr_session sr) + 1 \<Longrightarrow> rounds_step sr (rounds_reconnect b sr)"
| rs_send: "rounds_step sr (sr\<lparr>sr_session := session_send d (sr_session sr)\<rparr>)"
| rs_begin: "hm_get (sr_loops sr) rnd = Some Spawned \<Longrightarrow> rounds_step sr (rounds_begin e rnd sr)"
| rs_connect: "hm_get (sr_loops sr) rnd = Some Opening \<Longrightarrow> rounds_step sr (rounds_connect rnd sr)"
| rs_fail: "hm_get (sr_loops sr) rnd = Some Opening \<Longrightarrow> rounds_step sr (rounds_end rnd sr)"
| rs_take: "hm_get (sr_loops sr) rnd = Some Running \<Longrightarrow> loop_channel rnd sr = d # ds \<Longrightarrow> d \<noteq> UdClose \<Longrightarrow>
    rounds_step sr (rounds_take rnd sr)"
| rs_end: "hm_get (sr_loops sr) rnd = Some Running \<Longrightarrow> rounds_step sr (rounds_end rnd sr)"

inductive_cases rounds_stepE: "rounds_step sr sr'"

inductive rounds_reach :: "session_rounds \<Rightarrow> session_rounds \<Rightarrow> bool" where
  rr_refl: "rounds_reach sr sr"
| rr_step: "rounds_reach sr sr' \<Longrightarrow> rounds_step sr' sr'' \<Longrightarrow> rounds_reach sr sr''"

section \<open>The invariant\<close>

text \<open>What the session believes is the truth about the thread of the newest round.\<close>

fun state_of :: "loop_phase option \<Rightarrow> connection_state" where
  "state_of (Some Running) = Connected"
| "state_of (Some _) = Connecting"
| "state_of None = Disconnected"

definition rounds_ok :: "session_rounds \<Rightarrow> bool" where
  "rounds_ok sr \<longleftrightarrow>
     (let s = sr_session sr; n = ss_round s in
      sr_owner sr \<le> n \<and>
      (if n = 0 then sr_loops sr = [] \<and> ss_round_state s = Connecting \<and> \<not> ss_thread s
       else ss_round_state s = state_of (hm_get (sr_loops sr) n) \<and> ss_thread s) \<and>
      (\<forall>rnd ph. hm_get (sr_loops sr) rnd = Some ph \<and> rnd \<noteq> n \<longrightarrow>
         rnd < n \<and> ph = Running \<and> UdClose \<in> set (loop_channel rnd sr)) \<and>
      (\<forall>ph. hm_get (sr_loops sr) n = Some ph \<longrightarrow>
         (if ph = Spawned then sr_owner sr < n else sr_owner sr = n \<and> ss_sender s)))"

lemma rounds_ok_init: "rounds_ok (rounds_init s)"
  by (simp add: rounds_ok_def rounds_init_def)

lemma reconnect_cases:
  assumes "rounds_ok sr" and "ss_round (sr_session sr) < ss_round (sr_session sr) + 1"
  obtains (busy) "rounds_reconnect b sr = sr" "ss_round_state (sr_session sr) = Connecting"
  | (fresh) s' where "rounds_reconnect b sr =
        sr\<lparr>sr_session := s', sr_loops := hm_insert (ss_round (sr_session sr) + 1) Spawned (sr_loops sr)\<rparr>"
      "ss_round s' = ss_round (sr_session sr) + 1" "ss_round_state s' = Connecting" "ss_thread s'"
      "ss_sender s' = ss_sender (sr_session sr)"
      "ss_round_state (sr_session sr) \<noteq> Connecting \<or> ss_round (sr_session sr) = 0"
      "ss_queue s' = ss_queue (sr_session sr) @
        (if ss_round (sr_session sr) \<noteq> 0 \<and> ss_round_state (sr_session sr) = Connected \<and> ss_sender (sr_session sr)
         then [UdClose] else [])"
proof -
  have thread: "ss_thread (sr_session sr) \<longleftrightarrow> ss_round (sr_session sr) \<noteq> 0"
    using assms(1) by (auto simp: rounds_ok_def Let_def split: if_splits)
  show thesis
  proof (cases "ss_thread (sr_session sr) \<and> ss_round_state (sr_session sr) = Connecting")
    case True
    then show thesis using busy by (simp add: rounds_reconnect_def reconnect_def)
  next
    case False
    show thesis
      by (rule fresh [of "reconnect b (sr_session sr)"])
        (use False thread in \<open>auto simp: rounds_reconnect_def reconnect_def new_round_def session_send_def
          session_emit_def Let_def\<close>)
  qed
qed

lemma word_le_Suc: "n < n + 1 \<Longrightarrow> rnd \<le> n \<Longrightarrow> rnd < n + 1" for n rnd :: u32
  by simp

lemma word_less_Suc: "n < n + 1 \<Longrightarrow> rnd < n + 1 \<Longrightarrow> rnd \<le> n" for n rnd :: u32
  by (metis inc_le linorder_not_le)

lemma rounds_okD:
  assumes "rounds_ok sr"
  shows "hm_get (sr_loops sr) rnd = Some ph \<Longrightarrow> rnd \<noteq> ss_round (sr_session sr) \<Longrightarrow>
      rnd < ss_round (sr_session sr) \<and> ph = Running \<and> UdClose \<in> set (loop_channel rnd sr)"
    and "ss_round (sr_session sr) \<noteq> 0 \<Longrightarrow>
      ss_round_state (sr_session sr) = state_of (hm_get (sr_loops sr) (ss_round (sr_session sr))) \<and> ss_thread (sr_session sr)"
    and "ss_round (sr_session sr) = 0 \<Longrightarrow> sr_loops sr = [] \<and> ss_round_state (sr_session sr) = Connecting \<and> \<not> ss_thread (sr_session sr)"
    and "hm_get (sr_loops sr) (ss_round (sr_session sr)) = Some ph \<Longrightarrow>
      (if ph = Spawned then sr_owner sr < ss_round (sr_session sr)
       else sr_owner sr = ss_round (sr_session sr) \<and> ss_sender (sr_session sr))"
    and "sr_owner sr \<le> ss_round (sr_session sr)"
    and "hm_get (sr_loops sr) rnd = Some ph \<Longrightarrow> ss_round (sr_session sr) \<noteq> 0"
  using assms by (simp_all add: rounds_ok_def Let_def) (auto split: if_splits)

lemma rounds_okI:
  assumes "ss_round (sr_session sr) \<noteq> 0" and "ss_thread (sr_session sr)" and "sr_owner sr \<le> ss_round (sr_session sr)"
    and "ss_round_state (sr_session sr) = state_of (hm_get (sr_loops sr) (ss_round (sr_session sr)))"
    and "\<And>rnd ph. hm_get (sr_loops sr) rnd = Some ph \<Longrightarrow> rnd \<noteq> ss_round (sr_session sr) \<Longrightarrow>
      rnd < ss_round (sr_session sr) \<and> ph = Running \<and> UdClose \<in> set (loop_channel rnd sr)"
    and "\<And>ph. hm_get (sr_loops sr) (ss_round (sr_session sr)) = Some ph \<Longrightarrow>
      (if ph = Spawned then sr_owner sr < ss_round (sr_session sr)
       else sr_owner sr = ss_round (sr_session sr) \<and> ss_sender (sr_session sr))"
  shows "rounds_ok sr"
  unfolding rounds_ok_def Let_def using assms by auto

lemma rounds_ok_reconnect:
  assumes "rounds_ok sr" and "ss_round (sr_session sr) < ss_round (sr_session sr) + 1"
  shows "rounds_ok (rounds_reconnect b sr)"
proof (cases rule: reconnect_cases [OF assms, of b])
  case (2 s')
  define n where "n = ss_round (sr_session sr)"
  note d = rounds_okD [OF assms(1), folded n_def]
  have n: "n < n + 1" using assms(2) by (simp add: n_def)
  have eq: "rounds_reconnect b sr = sr\<lparr>sr_session := s', sr_loops := hm_insert (n + 1) Spawned (sr_loops sr)\<rparr>"
    "ss_round s' = n + 1" using 2(1,2) by (simp_all add: n_def)
  show ?thesis
  proof (rule rounds_okI)
    fix rnd ph
    assume "hm_get (sr_loops (rounds_reconnect b sr)) rnd = Some ph" "rnd \<noteq> ss_round (sr_session (rounds_reconnect b sr))"
    then have l: "hm_get (sr_loops sr) rnd = Some ph" by (simp add: eq split: if_splits)
    have "rnd < n + 1 \<and> ph = Running \<and> UdClose \<in> set (loop_channel rnd (rounds_reconnect b sr))"
    proof (cases "rnd = n")
      case True
      have "ss_round_state (sr_session sr) = state_of (Some ph)" using d(2,6) l True by simp
      then have "ph = Running" using 2(6) d(6) [OF l] by (cases ph) (auto simp: n_def)
      then have "sr_owner sr = n" "ss_sender (sr_session sr)" "ss_round_state (sr_session sr) = Connected"
        using d(2,4,6) l True by auto
      then show ?thesis
        using \<open>ph = Running\<close> d(6) [OF l] 2(7) True n by (simp add: loop_channel_def eq n_def)
    next
      case False
      then show ?thesis using d(1) [OF l] 2(7) n by (auto simp: loop_channel_def eq)
    qed
    then show "rnd < ss_round (sr_session (rounds_reconnect b sr)) \<and> ph = Running \<and>
        UdClose \<in> set (loop_channel rnd (rounds_reconnect b sr))"
      by (simp add: eq)
  next
    have "sr_owner sr < n + 1" using d(5) n by simp
    then show "if ph = Spawned then sr_owner (rounds_reconnect b sr) < ss_round (sr_session (rounds_reconnect b sr))
       else sr_owner (rounds_reconnect b sr) = ss_round (sr_session (rounds_reconnect b sr)) \<and>
         ss_sender (sr_session (rounds_reconnect b sr))"
      if "hm_get (sr_loops (rounds_reconnect b sr)) (ss_round (sr_session (rounds_reconnect b sr))) = Some ph" for ph
      using that by (simp add: eq split: if_splits)
    show "sr_owner (rounds_reconnect b sr) \<le> ss_round (sr_session (rounds_reconnect b sr))"
      using d(5) n by (simp add: eq)
  qed (use 2(3,4) n in \<open>auto simp: eq\<close>)
qed (use assms(1) in simp)

lemma rounds_ok_begin:
  assumes "rounds_ok sr" and "hm_get (sr_loops sr) rnd = Some Spawned"
  shows "rounds_ok (rounds_begin e rnd sr)"
proof -
  define n where "n = ss_round (sr_session sr)"
  note d = rounds_okD [OF assms(1), folded n_def]
  have rnd: "rnd = n" using d(1) [OF assms(2)] by auto
  have s: "ss_round (session_open e s) = ss_round s" "ss_thread (session_open e s) = ss_thread s"
    "ss_round_state (session_open e s) = ss_round_state s" "ss_sender (session_open e s)" for s
    by (simp_all add: session_open_def Let_def)
  show ?thesis
  proof (rule rounds_okI)
    fix r ph
    assume "hm_get (sr_loops (rounds_begin e rnd sr)) r = Some ph" "r \<noteq> ss_round (sr_session (rounds_begin e rnd sr))"
    then have "hm_get (sr_loops sr) r = Some ph" "r \<noteq> n"
      by (simp_all add: rounds_begin_def s rnd n_def split: if_splits)
    then show "r < ss_round (sr_session (rounds_begin e rnd sr)) \<and> ph = Running \<and>
        UdClose \<in> set (loop_channel r (rounds_begin e rnd sr))"
      using d(1) [of r ph] by (auto simp: rounds_begin_def s loop_channel_def rnd n_def split: if_splits)
  qed (use d(2) [OF d(6) [OF assms(2)]] d(6) [OF assms(2)] assms(2) in
      \<open>auto simp: rounds_begin_def s rnd n_def [symmetric] split: if_splits\<close>)
qed

lemma rounds_ok_connect:
  assumes "rounds_ok sr" and "hm_get (sr_loops sr) rnd = Some Opening"
  shows "rounds_ok (rounds_connect rnd sr)"
proof -
  define n where "n = ss_round (sr_session sr)"
  note d = rounds_okD [OF assms(1), folded n_def]
  have rnd: "rnd = n" using d(1) [OF assms(2)] by auto
  show ?thesis
  proof (rule rounds_okI)
    fix r ph
    assume "hm_get (sr_loops (rounds_connect rnd sr)) r = Some ph" "r \<noteq> ss_round (sr_session (rounds_connect rnd sr))"
    then have "hm_get (sr_loops sr) r = Some ph" "r \<noteq> n"
      by (simp_all add: rounds_connect_def set_connected_def rnd n_def split: if_splits)
    then show "r < ss_round (sr_session (rounds_connect rnd sr)) \<and> ph = Running \<and>
        UdClose \<in> set (loop_channel r (rounds_connect rnd sr))"
      using d(1) [of r ph] by (auto simp: rounds_connect_def set_connected_def loop_channel_def n_def split: if_splits)
  qed (use d(2) [OF d(6) [OF assms(2)]] d(4) [of Opening] d(6) [OF assms(2)] assms(2) in
      \<open>auto simp: rounds_connect_def set_connected_def rnd n_def [symmetric]\<close>)
qed

lemma rounds_ok_end:
  assumes "rounds_ok sr" and "hm_get (sr_loops sr) rnd = Some ph"
  shows "rounds_ok (rounds_end rnd sr)"
proof -
  define n where "n = ss_round (sr_session sr)"
  note d = rounds_okD [OF assms(1), folded n_def]
  have le: "rnd \<le> n" using d(1) [OF assms(2)] by fastforce
  have s: "ss_round (snd (set_disconnected rnd (sr_session sr))) = n"
    "ss_thread (snd (set_disconnected rnd (sr_session sr))) = ss_thread (sr_session sr)"
    "ss_sender (snd (set_disconnected rnd (sr_session sr))) = ss_sender (sr_session sr)"
    "ss_queue (snd (set_disconnected rnd (sr_session sr))) = ss_queue (sr_session sr)"
    "ss_round_state (snd (set_disconnected rnd (sr_session sr))) =
      (if rnd = n then Disconnected else ss_round_state (sr_session sr))"
    using le d(6) [OF assms(2)] by (auto simp: set_disconnected_def is_round_gt_def n_def)
  show ?thesis
  proof (rule rounds_okI)
    fix r q
    assume "hm_get (sr_loops (rounds_end rnd sr)) r = Some q" "r \<noteq> ss_round (sr_session (rounds_end rnd sr))"
    then have "hm_get (sr_loops sr) r = Some q" "r \<noteq> n" by (simp_all add: rounds_end_def s split: if_splits)
    then show "r < ss_round (sr_session (rounds_end rnd sr)) \<and> q = Running \<and>
        UdClose \<in> set (loop_channel r (rounds_end rnd sr))"
      using d(1) [of r q] by (auto simp: rounds_end_def loop_channel_def s)
  next
    fix q
    assume "hm_get (sr_loops (rounds_end rnd sr)) (ss_round (sr_session (rounds_end rnd sr))) = Some q"
    then have "hm_get (sr_loops sr) n = Some q" by (simp add: rounds_end_def s split: if_splits)
    then show "if q = Spawned then sr_owner (rounds_end rnd sr) < ss_round (sr_session (rounds_end rnd sr))
       else sr_owner (rounds_end rnd sr) = ss_round (sr_session (rounds_end rnd sr)) \<and>
         ss_sender (sr_session (rounds_end rnd sr))"
      using d(4) by (simp add: rounds_end_def s)
  qed (use d(2,5) d(6) [OF assms(2)] in \<open>auto simp: rounds_end_def s\<close>)
qed

lemma rounds_ok_take:
  assumes "rounds_ok sr" and "hm_get (sr_loops sr) rnd = Some Running" and "loop_channel rnd sr = x # xs" and "x \<noteq> UdClose"
  shows "rounds_ok (rounds_take rnd sr)"
proof -
  define n where "n = ss_round (sr_session sr)"
  note d = rounds_okD [OF assms(1), folded n_def]
  have same: "sr_loops (rounds_take rnd sr) = sr_loops sr" "sr_owner (rounds_take rnd sr) = sr_owner sr"
    "ss_round (sr_session (rounds_take rnd sr)) = n" "ss_thread (sr_session (rounds_take rnd sr)) = ss_thread (sr_session sr)"
    "ss_round_state (sr_session (rounds_take rnd sr)) = ss_round_state (sr_session sr)"
    "ss_sender (sr_session (rounds_take rnd sr)) = ss_sender (sr_session sr)"
    by (simp_all add: rounds_take_def n_def)
  have ch: "loop_channel r (rounds_take rnd sr) = (if r = rnd then xs else loop_channel r sr)" for r
    using assms(3) by (auto simp: rounds_take_def loop_channel_def)
  show ?thesis
  proof (rule rounds_okI)
    fix r ph
    assume "hm_get (sr_loops (rounds_take rnd sr)) r = Some ph" "r \<noteq> ss_round (sr_session (rounds_take rnd sr))"
    then show "r < ss_round (sr_session (rounds_take rnd sr)) \<and> ph = Running \<and>
        UdClose \<in> set (loop_channel r (rounds_take rnd sr))"
      using d(1) [of r ph] assms(3,4) by (auto simp: same ch)
  qed (use d(2,4,5) d(6) [OF assms(2)] in \<open>simp_all add: same\<close>)
qed

lemma rounds_ok_send:
  assumes "rounds_ok sr"
  shows "rounds_ok (sr\<lparr>sr_session := session_send d (sr_session sr)\<rparr>)"
proof (cases "ss_round (sr_session sr) = 0")
  case True
  then show ?thesis using assms by (auto simp: rounds_ok_def session_send_def Let_def)
next
  case False
  note d = rounds_okD [OF assms]
  have same: "ss_round (session_send d s) = ss_round s" "ss_thread (session_send d s) = ss_thread s"
    "ss_round_state (session_send d s) = ss_round_state s" "ss_sender (session_send d s) = ss_sender s"
    "set (ss_queue s) \<subseteq> set (ss_queue (session_send d s))" for s :: ui_session
    by (auto simp: session_send_def)
  have "set (loop_channel r sr) \<subseteq> set (loop_channel r (sr\<lparr>sr_session := session_send d (sr_session sr)\<rparr>))" for r
    using same(5) by (auto simp: loop_channel_def)
  then show ?thesis
    using d(1,2,4,5) False by (intro rounds_okI) (auto simp: same)
qed

lemma rounds_ok_step: "rounds_step sr sr' \<Longrightarrow> rounds_ok sr \<Longrightarrow> rounds_ok sr'"
  by (erule rounds_stepE)
    (simp_all add: rounds_ok_reconnect rounds_ok_send rounds_ok_begin rounds_ok_connect rounds_ok_end rounds_ok_take)

lemma rounds_ok_reach: "rounds_reach sr sr' \<Longrightarrow> rounds_ok sr \<Longrightarrow> rounds_ok sr'"
  by (induction rule: rounds_reach.induct) (auto intro: rounds_ok_step)

section \<open>What the rounds guarantee\<close>



text \<open>A session that the Flutter front end starts keeps no handle of its first thread, so its first
  reconnect passes by both guards: an open connection is not told to close and runs on beside the new one,
  whose channel takes over all that the user asks for afterwards, the request to close included; and while
  the first thread is still connecting, a second one is started all the same.\<close>

theorem flutter_first_reconnect:
  "(let sr = rounds_connect 1 (rounds_begin e 1 (flutter_start (rounds_init s)));
        sr' = rounds_begin e' 2 (rounds_reconnect b sr)
    in hm_get (sr_loops sr') 1 = Some Running \<and> hm_get (sr_loops sr') 2 = Some Opening \<and>
       UdClose \<notin> set (loop_channel 1 sr') \<and>
       loop_channel 1 (sr'\<lparr>sr_session := session_send UdClose (sr_session sr')\<rparr>) = loop_channel 1 sr')
   \<and> (let sr = rounds_reconnect b (rounds_begin e 1 (flutter_start (rounds_init s)))
      in hm_get (sr_loops sr) 1 = Some Opening \<and> hm_get (sr_loops sr) 2 = Some Spawned)"
  by (simp add: Let_def rounds_connect_def rounds_begin_def flutter_start_def rounds_init_def rounds_reconnect_def
      reconnect_def new_round_def session_open_def set_connected_def session_send_def session_emit_def loop_channel_def)

end
