(* ===== verification/Key_Exchange.thy ===== *)
theory Key_Exchange
  imports Tcp_Stream Config_Store
begin

text \<open>
  The key exchange: \<open>Client::secure_connection\<close> (\<open>src/client.rs\<close>) on the controlling side,
  \<open>create_tcp_connection\<close> (\<open>src/server.rs\<close>) on the host, and \<open>secure_tcp\<close> (\<open>src/common.rs\<close>) towards
  the rendezvous server. The host signs a fresh public key, the client checks the signature with the key
  the rendezvous server certifies, and sends a symmetric key sealed for the fresh one.
\<close>

section \<open>Messages and keys\<close>

text \<open>The messages of the exchange; the generated code that writes and parses them, and the base64
  decoder, are an argument.\<close>

datatype hs_message = HsEmpty | HsSignedId bytes | HsPublicKey bytes bytes | HsOther

datatype rz_hello = RzKeyExchange "bytes list" | RzOther

record wire =
  wr_message :: "hs_message \<Rightarrow> bytes"
  wr_parse_message :: "bytes \<Rightarrow> hs_message option"
  wr_id_pk :: "string \<times> bytes \<Rightarrow> bytes"
  wr_parse_id_pk :: "bytes \<Rightarrow> (string \<times> bytes) option"
  wr_hello :: "rz_hello \<Rightarrow> bytes"
  wr_parse_hello :: "bytes \<Rightarrow> rz_hello option"
  wr_decode64 :: "string \<Rightarrow> bytes option"

text \<open>What is written is parsed back.\<close>

definition wire_ok :: "wire \<Rightarrow> bool" where
  "wire_ok w \<longleftrightarrow> (\<forall>m. m \<noteq> HsOther \<longrightarrow> wr_parse_message w (wr_message w m) = Some m) \<and>
     (\<forall>x. wr_parse_id_pk w (wr_id_pk w x) = Some x)"

definition RS_PUB_KEY :: string where
  "RS_PUB_KEY = ''OeVuKk5nlHiXp+APNn0Y3pC1Iwpwn44JGqrQCsWqmBw=''"

text \<open>\<open>get_key\<close>, called with \<open>sync\<close>: the options are read from the process itself.\<close>

definition get_key :: "config_state \<Rightarrow> string" where
  "get_key s = (let key = config_get_option s ''key'' in if key = [] then RS_PUB_KEY else key)"

definition get_pk :: "bytes \<Rightarrow> bytes option" where
  "get_pk pk = (if length pk = 32 then Some pk else None)"

definition get_rs_pk :: "wire \<Rightarrow> string \<Rightarrow> bytes option" where
  "get_rs_pk w str_base64 = (case wr_decode64 w str_base64 of Some pk \<Rightarrow> get_pk pk | None \<Rightarrow> None)"

definition decode_id_pk :: "sodium \<Rightarrow> wire \<Rightarrow> bytes \<Rightarrow> bytes \<Rightarrow> io_error + string \<times> bytes" where
  "decode_id_pk so w cert key =
     (case sign_verify so cert key of
        None \<Rightarrow> Inl (OtherError ''Signature mismatch'')
      | Some m \<Rightarrow>
          (case wr_parse_id_pk w m of
             None \<Rightarrow> Inl (OtherError ''parse'')
           | Some (i, pk) \<Rightarrow>
               (case get_pk pk of
                  Some pk \<Rightarrow> Inr (i, pk)
                | None \<Rightarrow> Inl (OtherError ''Wrong their public length''))))"

text \<open>The fresh secret key of the box and the fresh symmetric key are an argument.\<close>

definition create_symmetric_key_msg :: "sodium \<Rightarrow> bytes \<times> bytes \<Rightarrow> bytes \<Rightarrow> bytes \<times> bytes \<times> bytes" where
  "create_symmetric_key_msg so fresh their_pk_b =
     (let (out_sk_b, key) = fresh;
          nonce = replicate NONCEBYTES 0
      in (box_pk so out_sk_b, box_seal so key nonce their_pk_b out_sk_b, key))"

text \<open>\<open>pk_to_fingerprint\<close>: the digits of the key in groups of four.\<close>

definition hex_digit :: "nat \<Rightarrow> char" where
  "hex_digit n = (''0123456789abcdef'' ! n)"

fun spaced :: "nat \<Rightarrow> string \<Rightarrow> string" where
  "spaced i [] = []"
| "spaced i (c # cs) = (if 0 < i \<and> i mod 4 = 0 then CHR '' '' # c # spaced (i + 1) cs else c # spaced (i + 1) cs)"

definition pk_to_fingerprint :: "bytes \<Rightarrow> string" where
  "pk_to_fingerprint pk =
     spaced 0 (concat (map (\<lambda>u. [hex_digit (unat u div 16), hex_digit (unat u mod 16)]) pk))"

section \<open>Waiting for a message\<close>

text \<open>What a wait ends with: the time, the end of the stream, or bytes that have arrived.\<close>

datatype arrival = Elapsed | Eof | Arrives bytes

text \<open>\<open>timeout(_, conn.next()).await?\<close>; with bytes that are not a whole message the wait goes on until its
  time is over.\<close>

definition conn_next ::
    "sodium \<Rightarrow> arrival \<Rightarrow> framed_stream \<Rightarrow> (io_error + (io_error + bytes) option) \<times> framed_stream" where
  "conn_next so a s =
     (case a of
        Elapsed \<Rightarrow> (Inl (OtherError ''deadline has elapsed''), s)
      | Eof \<Rightarrow> (Inr None, s)
      | Arrives bs \<Rightarrow>
          (case stream_next so (s\<lparr>fs_in := fs_in s @ bs\<rparr>) of
             (None, s) \<Rightarrow> (Inl (OtherError ''deadline has elapsed''), s)
           | (Some r, s) \<Rightarrow> (Inr (Some r), s)))"

definition hs_send :: "sodium \<Rightarrow> wire \<Rightarrow> hs_message \<Rightarrow> framed_stream \<Rightarrow> (io_error + unit) \<times> framed_stream" where
  "hs_send so w m s = stream_send_raw so (wr_message w m) s"

text \<open>Sending before an answer: \<open>conn.send(..).await?\<close> and then the result.\<close>

definition send_then ::
    "(io_error + unit) \<times> framed_stream \<Rightarrow> (framed_stream \<Rightarrow> (io_error + 'a) \<times> framed_stream) \<Rightarrow>
     (io_error + 'a) \<times> framed_stream" where
  "send_then x f = (case x of (Inl e, s) \<Rightarrow> (Inl e, s) | (Inr _, s) \<Rightarrow> f s)"

section \<open>The controlling side\<close>

definition certified_pk :: "sodium \<Rightarrow> wire \<Rightarrow> string \<Rightarrow> bytes \<Rightarrow> string \<Rightarrow> bytes option" where
  "certified_pk so w peer_id signed_id_pk key =
     (if signed_id_pk = [] then None
      else case get_rs_pk w (if key = [] then RS_PUB_KEY else key) of
          None \<Rightarrow> None
        | Some rs_pk \<Rightarrow>
            (case decode_id_pk so w signed_id_pk rs_pk of
               Inr (i, pk) \<Rightarrow> if i = peer_id then Some pk else None
             | Inl _ \<Rightarrow> None))"

definition answer_signed_id ::
    "sodium \<Rightarrow> wire \<Rightarrow> bytes \<times> bytes \<Rightarrow> string \<Rightarrow> bytes \<Rightarrow> bytes \<Rightarrow> framed_stream \<Rightarrow>
     (io_error + unit) \<times> framed_stream" where
  "answer_signed_id so w fresh peer_id sign_pk' si conn =
     (case decode_id_pk so w si sign_pk' of
        Inr (i, their_pk_b) \<Rightarrow>
          if i = peer_id then
            (let (asymmetric_value, symmetric_value, key) = create_symmetric_key_msg so fresh their_pk_b
             in send_then (hs_send so w (HsPublicKey asymmetric_value symmetric_value) conn)
                  (\<lambda>conn. (Inr (), stream_set_key key conn)))
          else hs_send so w HsEmpty conn
      | Inl _ \<Rightarrow> hs_send so w (HsPublicKey [] []) conn)"

definition secure_connection ::
    "sodium \<Rightarrow> wire \<Rightarrow> bytes \<times> bytes \<Rightarrow> string \<Rightarrow> bytes \<Rightarrow> string \<Rightarrow> arrival \<Rightarrow> framed_stream \<Rightarrow>
     (io_error + bytes option) \<times> framed_stream" where
  "secure_connection so w fresh peer_id signed_id_pk key a conn =
     (case certified_pk so w peer_id signed_id_pk key of
        None \<Rightarrow> send_then (hs_send so w HsEmpty conn) (\<lambda>conn. (Inr None, conn))
      | Some pk \<Rightarrow>
          (case conn_next so a conn of
             (Inl e, conn) \<Rightarrow> (Inl e, conn)
           | (Inr None, conn) \<Rightarrow> (Inl (OtherError ''Reset by the peer''), conn)
           | (Inr (Some (Inl e)), conn) \<Rightarrow> (Inl e, conn)
           | (Inr (Some (Inr bs)), conn) \<Rightarrow>
               send_then
                 (case wr_parse_message w bs of
                    Some (HsSignedId si) \<Rightarrow> answer_signed_id so w fresh peer_id pk si conn
                  | _ \<Rightarrow> hs_send so w HsEmpty conn)
                 (\<lambda>conn. (Inr (Some pk), conn))))"

section \<open>The host\<close>

text \<open>\<open>Config::get_key_pair\<close>: the pair of the file, or a new one, which is kept from then on.\<close>

definition get_key_pair ::
    "bytes \<Rightarrow> sodium \<Rightarrow> (bytes \<times> bytes) option \<times> config_state \<Rightarrow>
     (bytes \<times> bytes) \<times> (bytes \<times> bytes) option \<times> config_state" where
  "get_key_pair gen_sk so st =
     (let (cache, s) = st in
      case cache of
        Some p \<Rightarrow> (p, st)
      | None \<Rightarrow>
          (let p = (case cs_config_file s of Some c \<Rightarrow> cf_key_pair c | None \<Rightarrow> ([], [])) in
           if fst p = [] then
             (let p = (gen_sk, sign_pk so gen_sk)
              in (p, Some p, put_config ((cs_config s)\<lparr>cf_key_pair := p\<rparr>) s))
           else (p, Some p, s)))"

definition server_answer ::
    "sodium \<Rightarrow> wire \<Rightarrow> bytes \<Rightarrow> bytes \<Rightarrow> framed_stream \<times> config_state \<Rightarrow>
     (io_error + unit) \<times> framed_stream \<times> config_state" where
  "server_answer so w our_sk_b bs st =
     (let (stream, cfg) = st in
      case wr_parse_message w bs of
        None \<Rightarrow> (Inl (OtherError ''Handshake failed: invalid message format''), st)
      | Some (HsPublicKey asymmetric_value symmetric_value) \<Rightarrow>
          if length asymmetric_value = PUBLICKEYBYTES then
            (case encrypt_decode so symmetric_value asymmetric_value our_sk_b of
               Inl e \<Rightarrow> (Inl (OtherError e), st)
             | Inr key \<Rightarrow> (Inr (), stream_set_key key stream, cfg))
          else if asymmetric_value = [] then (Inr (), stream, set_key_confirmed False cfg)
          else (Inl (OtherError ''Handshake failed: invalid public sign key length from peer''), st)
      | Some _ \<Rightarrow> (Inr (), st))"

definition server_handshake ::
    "sodium \<Rightarrow> wire \<Rightarrow> bool \<Rightarrow> bytes \<times> bytes \<Rightarrow> string \<Rightarrow> bytes \<Rightarrow> arrival \<Rightarrow> framed_stream \<times> config_state \<Rightarrow>
     (io_error + unit) \<times> framed_stream \<times> config_state" where
  "server_handshake so w secure pair i our_sk_b a st =
     (let (stream, cfg) = st; (sk, pk) = pair in
      if secure \<and> length pk = PUBLICKEYBYTES \<and> length sk = SECRETKEYBYTES then
        (case hs_send so w (HsSignedId (sign_sign so (wr_id_pk w (i, box_pk so our_sk_b)) sk)) stream of
           (Inl e, stream) \<Rightarrow> (Inl e, stream, cfg)
         | (Inr _, stream) \<Rightarrow>
             (case conn_next so a stream of
                (Inl e, stream) \<Rightarrow> (Inl e, stream, cfg)
              | (Inr None, stream) \<Rightarrow> (Inl (OtherError ''Failed to receive public key''), stream, cfg)
              | (Inr (Some (Inl e)), stream) \<Rightarrow> (Inl e, stream, cfg)
              | (Inr (Some (Inr bs)), stream) \<Rightarrow> server_answer so w our_sk_b bs (stream, cfg)))
      else (Inr (), st))"

section \<open>Towards the rendezvous server\<close>

definition secure_tcp ::
    "sodium \<Rightarrow> wire \<Rightarrow> bytes \<times> bytes \<Rightarrow> string \<Rightarrow> arrival \<Rightarrow> framed_stream \<Rightarrow>
     (io_error + unit) \<times> framed_stream" where
  "secure_tcp so w fresh key a conn =
     (case get_rs_pk w key of
        None \<Rightarrow> (Inl (OtherError ''Handshake failed: invalid public key from rendezvous server''), conn)
      | Some rs_pk \<Rightarrow>
          (case conn_next so a conn of
             (Inl e, conn) \<Rightarrow> (Inl e, conn)
           | (Inr (Some (Inr bs)), conn) \<Rightarrow>
               (case wr_parse_hello w bs of
                  Some (RzKeyExchange keys) \<Rightarrow>
                    (case keys of
                       [k] \<Rightarrow>
                         (case sign_verify so k rs_pk of
                            None \<Rightarrow> (Inl (OtherError ''Signature mismatch in key exchange''), conn)
                          | Some their_pk_b \<Rightarrow>
                              (case get_pk their_pk_b of
                                 None \<Rightarrow> (Inl (OtherError ''Wrong their public length in key exchange''), conn)
                               | Some their_pk_b \<Rightarrow>
                                   (let (asymmetric_value, symmetric_value, key) =
                                          create_symmetric_key_msg so fresh their_pk_b
                                    in send_then
                                         (stream_send_raw so (wr_hello w (RzKeyExchange [asymmetric_value, symmetric_value])) conn)
                                         (\<lambda>conn. (Inr (), stream_set_key key conn)))))
                     | _ \<Rightarrow> (Inl (OtherError ''Handshake failed: invalid key exchange message''), conn))
                | _ \<Rightarrow> (Inr (), conn))
           | (_, conn) \<Rightarrow> (Inr (), conn)))"

section \<open>Facts\<close>

lemma stream_send_key [simp]:
  "fs_crypt conn = None \<Longrightarrow> stream_send_raw so m conn = stream_send_bytes m conn"
  by (simp add: stream_send_raw_def)

lemma stream_send_bytes_keeps:
  "stream_send_bytes m conn = (r, conn') \<Longrightarrow> fs_crypt conn' = fs_crypt conn \<and> fs_in conn' = fs_in conn"
  by (auto simp: stream_send_bytes_def split: sum.splits)

lemma hs_send_keeps: "fs_crypt conn = None \<Longrightarrow> hs_send so w m conn = (r, conn') \<Longrightarrow> fs_crypt conn' = None"
  using stream_send_bytes_keeps by (fastforce simp: hs_send_def)

lemma conn_next_keeps:
  "fs_crypt conn = None \<Longrightarrow> conn_next so a conn = (r, conn') \<Longrightarrow> fs_crypt conn' = None \<and> fs_out conn' = fs_out conn"
  by (auto simp: conn_next_def stream_next_def split: arrival.splits option.splits sum.splits prod.splits)

text \<open>An encrypted stream comes from a certified key, a signed fresh key and the sealed message.\<close>

lemma answer_signed_id_secured:
  assumes "answer_signed_id so w (sk, k) peer_id pk si conn = (r, conn')" and "fs_crypt conn = None"
    and "fs_crypt conn' \<noteq> None"
  obtains their where "decode_id_pk so w si pk = Inr (peer_id, their)" "fs_crypt conn' = Some (encrypt_new k)"
    "encode (fs_codec conn) (wr_message w (HsPublicKey (box_pk so sk) (box_seal so k (replicate NONCEBYTES 0) their sk)))
       (fs_out conn) = Inr (fs_out conn')"
  using assms
  by (fastforce simp: answer_signed_id_def create_symmetric_key_msg_def send_then_def hs_send_def stream_send_bytes_def
      stream_set_key_def split: sum.splits prod.splits if_splits)

lemma secure_connection_secured:
  assumes "secure_connection so w (sk, k) peer_id cert key a conn = (r, conn')" and "fs_crypt conn = None"
    and "fs_crypt conn' \<noteq> None"
  obtains pk si their c where "certified_pk so w peer_id cert key = Some pk" "r = Inr (Some pk)"
    "decode_id_pk so w si pk = Inr (peer_id, their)" "fs_crypt conn' = Some (encrypt_new k)"
    "encode c (wr_message w (HsPublicKey (box_pk so sk) (box_seal so k (replicate NONCEBYTES 0) their sk)))
       (fs_out conn) = Inr (fs_out conn')"
proof (cases "certified_pk so w peer_id cert key")
  case None
  then show thesis
    using assms hs_send_keeps [OF assms(2)]
    by (auto simp: secure_connection_def send_then_def split: sum.splits prod.splits)
next
  case (Some pk)
  obtain n conn1 where n: "conn_next so a conn = (n, conn1)" by fastforce
  note kept = conn_next_keeps [OF assms(2) n]
  show thesis
  proof (cases n)
    case (Inr x)
    show thesis
    proof (cases x)
      case x: (Some y)
      show thesis
      proof (cases y)
        case y: (Inr bs)
        show thesis
        proof (cases "\<exists>si. wr_parse_message w bs = Some (HsSignedId si)")
          case True
          then obtain si where si: "wr_parse_message w bs = Some (HsSignedId si)" by blast
          obtain r2 conn2 where ans: "answer_signed_id so w (sk, k) peer_id pk si conn1 = (r2, conn2)" by fastforce
          have "conn' = conn2" "r2 = Inr () \<Longrightarrow> r = Inr (Some pk)" "r2 \<noteq> Inr () \<Longrightarrow> fs_crypt conn2 = None"
            using assms(1) Some n Inr x y si ans kept hs_send_keeps
            by (auto simp: secure_connection_def send_then_def answer_signed_id_def create_symmetric_key_msg_def
                split: sum.splits prod.splits if_splits)
          then show thesis
            using that [of pk si] answer_signed_id_secured [OF ans] kept assms(3) Some by metis
        next
          case False
          then have "fs_crypt conn' = None"
            using assms(1) Some n Inr x y kept hs_send_keeps
            by (auto simp: secure_connection_def send_then_def split: sum.splits prod.splits option.splits hs_message.splits)
          then show thesis using assms(3) by simp
        qed
      qed (use assms Some n Inr x kept in \<open>auto simp: secure_connection_def\<close>)
    qed (use assms Some n Inr kept in \<open>auto simp: secure_connection_def\<close>)
  qed (use assms Some n kept in \<open>auto simp: secure_connection_def\<close>)
qed

section \<open>Properties\<close>

text \<open>C2: An encrypted session is one with the host. If the rendezvous server's key certifies no key for
  the id but the host's, and the host signs nothing but the fresh keys of its own handshakes, then
  whatever arrives, an encrypted stream uses the new symmetric key, which has been sealed for a fresh key
  of that host, and which that host unseals.\<close>

theorem secured_to_the_host:
  assumes "secure_connection so w (sk, k) peer_id cert key a conn = (r, conn')" and "fs_crypt conn = None"
    and "get_rs_pk w (if key = [] then RS_PUB_KEY else key) = Some rs_pk" and "box_ok so" and "wire_ok w" and "length k = 32"
    and "\<forall>s m pk. sign_verify so s rs_pk = Some m \<and> wr_parse_id_pk w m = Some (peer_id, pk) \<longrightarrow> pk = sign_pk so host_sk"
    and "\<forall>s m. sign_verify so s (sign_pk so host_sk) = Some m \<longrightarrow>
      (\<exists>b \<in> fresh_keys. m = wr_id_pk w (host_id, box_pk so b))"
  shows "fs_crypt conn' = None \<or>
    (r = Inr (Some (sign_pk so host_sk)) \<and> fs_crypt conn' = Some (encrypt_new k) \<and> host_id = peer_id \<and>
     (\<exists>b \<in> fresh_keys. \<exists>c pub sealed.
        encode c (wr_message w (HsPublicKey pub sealed)) (fs_out conn) = Inr (fs_out conn') \<and>
        encrypt_decode so sealed pub b = Inr k))"
proof (cases "fs_crypt conn' = None")
  case False
  from secure_connection_secured [OF assms(1,2) False]
  obtain pk si their c where s: "certified_pk so w peer_id cert key = Some pk" "r = Inr (Some pk)"
    "decode_id_pk so w si pk = Inr (peer_id, their)" "fs_crypt conn' = Some (encrypt_new k)"
    "encode c (wr_message w (HsPublicKey (box_pk so sk) (box_seal so k (replicate NONCEBYTES 0) their sk)))
       (fs_out conn) = Inr (fs_out conn')" .
  obtain m where m: "sign_verify so cert rs_pk = Some m" "wr_parse_id_pk w m = Some (peer_id, pk)"
    using s(1) assms(3)
    by (auto simp: certified_pk_def decode_id_pk_def get_pk_def split: if_splits option.splits sum.splits prod.splits)
  have pk: "pk = sign_pk so host_sk" using assms(7) m by blast
  obtain m2 where m2: "sign_verify so si pk = Some m2" "wr_parse_id_pk w m2 = Some (peer_id, their)"
    using s(3) by (auto simp: decode_id_pk_def get_pk_def split: if_splits option.splits)
  obtain b where b: "b \<in> fresh_keys" "m2 = wr_id_pk w (host_id, box_pk so b)" using assms(8) m2(1) pk by blast
  then have "host_id = peer_id" "their = box_pk so b" using m2(2) assms(5) by (simp_all add: wire_ok_def)
  moreover have "encrypt_decode so (box_seal so k (replicate NONCEBYTES 0) (box_pk so b) sk) (box_pk so sk) b = Inr k"
    using assms(4,6) by (simp add: encrypt_decode_def box_ok_def KEYBYTES_def)
  ultimately show ?thesis using s(2,4,5) pk b(1) by blast
qed simp

text \<open>A host and a client that reach each other: what each receives is what the other has sent.\<close>

lemma send_fits:
  assumes "fs_crypt s = None" and "\<not> raw (fs_codec s)" and "length m \<le> 0x3FFFFFFF"
  shows "stream_send_raw so m s = (Inr (), s\<lparr>fs_out := fs_out s @ frame m\<rparr>)"
  using assms encode_frame [of "fs_codec s" m "fs_out s"]
  by (simp add: stream_send_bytes_def frame_def)

lemma conn_next_frame:
  assumes "fs_crypt s = None" and "fs_codec s = codec_new" and "fs_in s = []" and "length m \<le> 0x3FFFFFFF"
  shows "conn_next so (Arrives (frame m)) s = (Inr (Some (Inr m)), s)"
proof -
  have "sendable usize_max m" using assms(4) by (simp add: sendable_def usize_max_def)
  moreover have "encode codec_new m [] = Inr (frame m)"
    using encode_frame [of codec_new m "[]"] assms(4) by (simp add: frame_def)
  ultimately have "decode codec_new (frame m) = Inr (Some m, codec_new, [])"
    using decode_encode [OF codec_new_framing(1,2), of m "frame m" "[]"] by simp
  then show ?thesis using assms by (simp add: conn_next_def stream_next_def)
qed

text \<open>What two streams with the same new key carry, in one direction.\<close>

definition carries :: "sodium \<Rightarrow> framed_stream \<Rightarrow> framed_stream \<Rightarrow> bool" where
  "carries so s t \<longleftrightarrow> (\<forall>ms. (\<forall>m \<in> set ms. short_enough m) \<longrightarrow>
     next_n so (Suc (length ms)) (t\<lparr>fs_in := drop (length (fs_out s)) (fs_out (send_all so ms s))\<rparr>)
       = map (Some \<circ> Inr) ms @ [None])"

lemma carries_key:
  assumes "secretbox_ok so" and "fs_crypt s = Some (encrypt_new k)" and "fs_codec s = codec_new"
    and "fs_crypt t = Some (encrypt_new k)" and "fs_codec t = codec_new"
  shows "carries so s t"
  unfolding carries_def
proof (intro allI impI)
  fix ms
  assume ms: "\<forall>m \<in> set ms. short_enough m"
  have "fs_out (send_all so ms s) = fs_out s @ sealed_frames so k 0 ms"
    using send_all_out [OF assms(1) ms, of s "encrypt_new k"] assms(2,3) by (simp add: encrypt_new_def)
  then show "next_n so (Suc (length ms)) (t\<lparr>fs_in := drop (length (fs_out s)) (fs_out (send_all so ms s))\<rparr>)
       = map (Some \<circ> Inr) ms @ [None]"
    using assms(4,5) by (intro next_n_sealed [OF assms(1) ms, where e = "encrypt_new k"]) (simp_all add: encrypt_new_def)
qed

text \<open>C6: The key exchange succeeds between an honest host and client: when the rendezvous server
  certifies the host's key and each side receives what the other sends, both streams end up encrypted
  with the client's new key, the client knows the host's key, and from then on each side reads exactly
  what the other writes, in order.\<close>

theorem handshake_agrees:
  assumes "secretbox_ok so" and "box_ok so" and "sign_ok so" and "wire_ok w" and "length k = 32" and "length host_sk = 64"
    and "get_rs_pk w (if key = [] then RS_PUB_KEY else key) = Some (sign_pk so rs_sk)"
    and "cert = sign_sign so (wr_id_pk w (i, sign_pk so host_sk)) rs_sk" and "cert \<noteq> []"
    and "m1 = wr_message w (HsSignedId (sign_sign so (wr_id_pk w (i, box_pk so b)) host_sk))" and "length m1 \<le> 0x3FFFFFFF"
    and "m2 = wr_message w (HsPublicKey (box_pk so a) (box_seal so k (replicate NONCEBYTES 0) (box_pk so b) a))"
    and "length m2 \<le> 0x3FFFFFFF"
  shows "\<exists>c s. secure_connection so w (a, k) i cert key (Arrives (fs_out s)) (stream_from addr) = (Inr (Some (sign_pk so host_sk)), c) \<and>
    server_handshake so w True (host_sk, sign_pk so host_sk) i b (Arrives (fs_out c)) (stream_from addr', cfg) = (Inr (), s, cfg) \<and>
    fs_crypt c = Some (encrypt_new k) \<and> fs_crypt s = Some (encrypt_new k) \<and> carries so c s \<and> carries so s c"
proof -
  let ?c = "(stream_from addr)\<lparr>fs_out := frame m2, fs_crypt := Some (encrypt_new k)\<rparr>"
  let ?s = "(stream_from addr')\<lparr>fs_out := frame m1, fs_crypt := Some (encrypt_new k)\<rparr>"
  have pk: "length (sign_pk so x) = 32" "length (box_pk so x) = 32" for x
    using assms(2,3) by (simp_all add: sign_ok_def box_ok_def PUBLICKEYBYTES_def)
  have dec: "decode_id_pk so w (sign_sign so (wr_id_pk w (i, p)) x) (sign_pk so x) = Inr (i, p)" if "length p = 32" for p x
    using assms(3,4) that by (simp add: decode_id_pk_def sign_ok_def wire_ok_def get_pk_def)
  have parse: "wr_parse_message w m1 = Some (HsSignedId (sign_sign so (wr_id_pk w (i, box_pk so b)) host_sk))"
    "wr_parse_message w m2 = Some (HsPublicKey (box_pk so a) (box_seal so k (replicate NONCEBYTES 0) (box_pk so b) a))"
    using assms(4,10,12) by (simp_all add: wire_ok_def)
  have new: "fs_crypt (stream_from x) = None" "fs_codec (stream_from x) = codec_new" "fs_in (stream_from x) = []"
    "fs_out (stream_from x) = []" for x
    by (simp_all add: stream_from_def)
  have client: "secure_connection so w (a, k) i cert key (Arrives (frame m1)) (stream_from addr)
      = (Inr (Some (sign_pk so host_sk)), ?c)"
    using conn_next_frame [OF new(1-3) assms(11)] send_fits [OF new(1) _ assms(13)] assms(7-9,12) parse(1)
      dec [OF pk(1)] dec [OF pk(2)]
    by (simp add: secure_connection_def certified_pk_def answer_signed_id_def create_symmetric_key_msg_def
        hs_send_def send_then_def stream_set_key_def new)
  let ?t = "(stream_from addr')\<lparr>fs_out := frame m1\<rparr>"
  have "encrypt_decode so (box_seal so k (replicate NONCEBYTES 0) (box_pk so b) a) (box_pk so a) b = Inr k"
    using assms(2,5) by (simp add: encrypt_decode_def box_ok_def KEYBYTES_def)
  moreover have "conn_next so (Arrives (frame m2)) ?t = (Inr (Some (Inr m2)), ?t)"
    by (rule conn_next_frame) (simp_all add: new assms(13))
  ultimately have "server_handshake so w True (host_sk, sign_pk so host_sk) i b (Arrives (frame m2)) (stream_from addr', cfg)
      = (Inr (), ?s, cfg)"
    using send_fits [OF new(1) _ assms(11)] assms(6,10) parse(2) pk
    by (simp add: server_handshake_def server_answer_def hs_send_def PUBLICKEYBYTES_def SECRETKEYBYTES_def
        stream_set_key_def new)
  then have "server_handshake so w True (host_sk, sign_pk so host_sk) i b (Arrives (fs_out ?c)) (stream_from addr', cfg)
      = (Inr (), ?s, cfg)"
    "secure_connection so w (a, k) i cert key (Arrives (fs_out ?s)) (stream_from addr)
      = (Inr (Some (sign_pk so host_sk)), ?c)"
    using client by simp_all
  moreover have "carries so ?c ?s" "carries so ?s ?c"
    by (rule carries_key [OF assms(1)]; simp add: new)+
  ultimately show ?thesis by fastforce
qed


text \<open>Both directions use the same key and the same numbers. A message that a side has just sent
  on a new encrypted stream is therefore accepted by that side itself when it is sent back to it, as if
  the peer had written it.\<close>

theorem reflected_message_accepted:
  assumes "secretbox_ok so" and "short_enough m" and "fs_codec s = codec_new" and "fs_crypt s = Some e"
    and "esent e = ereceived e" and "fs_in s = []" and "stream_send_raw so m s = (Inr (), s')"
  shows "\<exists>sent. fs_out s' = fs_out s @ sent \<and> fst (stream_next so (s'\<lparr>fs_in := sent\<rparr>)) = Some (Inr m)"
proof -
  let ?c = "seal_nth so (ekey e) (esent e + 1) m"
  let ?e = "e\<lparr>esent := esent e + 1\<rparr>"
  have "length ?c \<le> 0x3FFFFFFF" using sendable_sealed [OF assms(1,2)] by (simp add: sendable_def)
  then have s': "s' = s\<lparr>fs_crypt := Some ?e, fs_out := fs_out s @ frame ?c\<rparr>"
    using assms(3,4,7) encode_frame [of codec_new ?c "fs_out s"]
    by (simp add: stream_send_raw_def encrypt_enc_def stream_send_bytes_def seal_nth_def frame_def split: sum.splits)
  have "stream_next so (s'\<lparr>fs_in := frame ?c\<rparr>) = (Some (Inr m), s'\<lparr>fs_in := [], fs_crypt := Some (?e\<lparr>ereceived := ereceived ?e + 1\<rparr>)\<rparr>)"
    using stream_next_sealed [OF assms(1,2), of "s'\<lparr>fs_in := frame ?c\<rparr>" ?e "[]"] assms(3,5) by (simp add: s')
  then show ?thesis by (intro exI [of _ "frame ?c"]) (simp add: s')
qed

section \<open>Witnesses\<close>

fun demo_write :: "hs_message \<Rightarrow> bytes" where
  "demo_write HsEmpty = []"
| "demo_write (HsSignedId b) = 1 # b"
| "demo_write (HsPublicKey x y) = 2 # replicate (length x) 1 @ 0 # x @ y"
| "demo_write HsOther = [3]"

definition demo_parse :: "bytes \<Rightarrow> hs_message option" where
  "demo_parse bs =
     (case bs of
        [] \<Rightarrow> Some HsEmpty
      | t # b \<Rightarrow>
          if t = 1 then Some (HsSignedId b)
          else if t = 2 then
            (let n = length (takeWhile ((=) 1) b); b = drop (Suc n) b in Some (HsPublicKey (take n b) (drop n b)))
          else None)"

definition demo_wire :: wire where
  "demo_wire =
     \<lparr>wr_message = demo_write, wr_parse_message = demo_parse,
      wr_id_pk = (\<lambda>(i, pk). replicate (length i) 1 @ 0 # bytes_of i @ pk),
      wr_parse_id_pk = (\<lambda>bs. let n = length (takeWhile ((=) 1) bs); b = drop (Suc n) bs
                             in Some (string_of (take n b), drop n b)),
      wr_hello = (\<lambda>_. []), wr_parse_hello = (\<lambda>_. None), wr_decode64 = (\<lambda>_. Some (replicate 32 7))\<rparr>"

lemma takeWhile_ones [simp]: "takeWhile ((=) 1) (replicate n 1 @ (0 :: u8) # xs) = replicate n 1"
  by (induction n) simp_all

lemma demo_wire_ok [simp]: "wire_ok demo_wire"
proof -
  have "demo_parse (demo_write m) = Some m" if "m \<noteq> HsOther" for m
    using that by (cases m) (simp_all add: demo_parse_def)
  then show ?thesis by (simp add: wire_ok_def demo_wire_def split_beta)
qed

text \<open>The keys of the witnesses: of the rendezvous server, of the host, of the handshake.\<close>

definition demo_rs :: bytes where "demo_rs = replicate 64 7"
definition demo_host_sk :: bytes where "demo_host_sk = replicate 64 8"
definition demo_fresh :: bytes where "demo_fresh = replicate 32 5"
definition demo_own :: "bytes \<times> bytes" where "demo_own = (replicate 32 4, replicate 32 6)"

definition demo_cert :: bytes where
  "demo_cert = sign_sign demo_sodium (wr_id_pk demo_wire (''h'', sign_pk demo_sodium demo_host_sk)) demo_rs"

lemma demo_key_lengths:
  "length demo_rs = 64" "length demo_host_sk = 64" "length demo_fresh = 32" "length (snd demo_own) = 32"
  by (simp_all add: demo_rs_def demo_host_sk_def demo_fresh_def demo_own_def)

lemma demo_rs_pk: "get_rs_pk demo_wire key = Some (sign_pk demo_sodium demo_rs)"
  by (simp add: get_rs_pk_def demo_wire_def get_pk_def demo_sodium_def demo_pk_def demo_rs_def)

lemma demo_cert_not_Nil: "demo_cert \<noteq> []"
  by (simp add: demo_cert_def demo_sodium_def demo_wire_def)

lemma demo_lengths:
  "length (wr_message demo_wire (HsSignedId (sign_sign demo_sodium (wr_id_pk demo_wire (''h'', box_pk demo_sodium x)) y))) \<le> 0x3FFFFFFF"
  "length (wr_message demo_wire (HsPublicKey (box_pk demo_sodium x) (box_seal demo_sodium (snd demo_own) n p s))) \<le> 0x3FFFFFFF"
  "length (wr_message demo_wire HsEmpty) \<le> 0x3FFFFFFF"
  by (simp_all add: demo_wire_def demo_sodium_def demo_own_def)

theorem handshake_agrees_witness:
  "\<exists>c s. secure_connection demo_sodium demo_wire demo_own ''h'' demo_cert [] (Arrives (fs_out s)) (stream_from (SocketV4 [10, 0, 0, 1] 7))
        = (Inr (Some (sign_pk demo_sodium demo_host_sk)), c) \<and>
      fs_crypt c = Some (encrypt_new (snd demo_own)) \<and> fs_crypt s = fs_crypt c \<and> carries demo_sodium c s"
  using handshake_agrees [OF demo_secretbox_ok demo_box_ok demo_sign_ok demo_wire_ok demo_key_lengths(4,2) demo_rs_pk
      demo_cert_def demo_cert_not_Nil refl demo_lengths(1) refl demo_lengths(2), where key = "[]" and b = demo_fresh]
  by (fastforce simp: demo_own_def)

definition demo_guarded :: sodium where
  "demo_guarded = demo_sodium\<lparr>sign_verify := (\<lambda>s p.
     if take 32 s = p \<and> drop 32 s \<in>
       (if p = demo_pk demo_rs then {wr_id_pk demo_wire (''h'', demo_pk demo_host_sk)}
        else if p = demo_pk demo_host_sk then {wr_id_pk demo_wire (''h'', demo_pk demo_fresh)} else {})
     then Some (drop 32 s) else None)\<rparr>"

lemma demo_guarded_fields:
  "box_ok demo_guarded" "sign_pk demo_guarded = demo_pk" "box_pk demo_guarded = demo_pk"
  "demo_pk demo_rs \<noteq> demo_pk demo_host_sk"
  using demo_box_ok
  by (simp_all add: demo_guarded_def box_ok_def demo_sodium_def demo_pk_def demo_rs_def demo_host_sk_def)

theorem secured_to_the_host_witness:
  "(let (r, conn') = secure_connection demo_guarded demo_wire demo_own ''h'' demo_cert []
         (Arrives (frame (1 # sign_sign demo_sodium (wr_id_pk demo_wire (''h'', demo_pk demo_fresh)) demo_host_sk)))
         (stream_from (SocketV4 [10, 0, 0, 1] 7))
    in fs_crypt conn' = None \<or>
      (r = Inr (Some (demo_pk demo_host_sk)) \<and> fs_crypt conn' = Some (encrypt_new (snd demo_own)) \<and>
       (\<exists>c pub sealed. encode c (wr_message demo_wire (HsPublicKey pub sealed)) [] = Inr (fs_out conn') \<and>
          encrypt_decode demo_guarded sealed pub demo_fresh = Inr (snd demo_own))))"
proof -
  obtain r conn' where run: "secure_connection demo_guarded demo_wire (fst demo_own, snd demo_own) ''h'' demo_cert []
         (Arrives (frame (1 # sign_sign demo_sodium (wr_id_pk demo_wire (''h'', demo_pk demo_fresh)) demo_host_sk)))
         (stream_from (SocketV4 [10, 0, 0, 1] 7)) = (r, conn')"
    by fastforce
  have rs: "get_rs_pk demo_wire (if [] = ([] :: string) then RS_PUB_KEY else []) = Some (demo_pk demo_rs)"
    using demo_rs_pk by (simp add: demo_sodium_def)
  have parse: "wr_parse_id_pk demo_wire (wr_id_pk demo_wire x) = Some x" for x
    using demo_wire_ok by (cases x) (simp add: wire_ok_def)
  have certs: "\<forall>s m pk. sign_verify demo_guarded s (demo_pk demo_rs) = Some m \<and>
      wr_parse_id_pk demo_wire m = Some (''h'', pk) \<longrightarrow> pk = sign_pk demo_guarded demo_host_sk"
    by (auto simp: demo_guarded_def parse demo_guarded_fields(2) demo_sodium_def split: if_splits)
  have own: "\<forall>s m. sign_verify demo_guarded s (sign_pk demo_guarded demo_host_sk) = Some m \<longrightarrow>
      (\<exists>b \<in> {demo_fresh}. m = wr_id_pk demo_wire (''h'', box_pk demo_guarded b))"
    using demo_guarded_fields(4) by (simp add: demo_guarded_fields(2,3)) (simp add: demo_guarded_def)
  have "fs_crypt (stream_from (SocketV4 [10, 0, 0, 1] 7)) = None" "fs_out (stream_from (SocketV4 [10, 0, 0, 1] 7)) = []"
    by (simp_all add: stream_from_def)
  then show ?thesis
    using secured_to_the_host [OF run _ rs demo_guarded_fields(1) demo_wire_ok demo_key_lengths(4) certs own] run
    by (auto simp: demo_guarded_fields(2))
qed


theorem reflected_message_accepted_witness:
  "(let s = snd (stream_send_raw demo_sodium [1, 2] (stream_set_key [9] (stream_from (SocketV4 [10, 0, 0, 1] 7))))
    in fst (stream_next demo_sodium (s\<lparr>fs_in := fs_out s\<rparr>)) = Some (Inr [1, 2]))"
proof -
  let ?s = "stream_set_key [9] (stream_from (SocketV4 [10, 0, 0, 1] 7))"
  define sealed where "sealed = secretbox_seal demo_sodium [1, 2] (get_nonce 1) [9]"
  have "length sealed \<le> 0x3FFFFFFF" by (simp add: sealed_def)
  then have "encode codec_new sealed [] = Inr (frame sealed)"
    using encode_frame [of codec_new sealed "[]"] by (simp add: frame_def)
  then obtain s' where s': "stream_send_raw demo_sodium [1, 2] ?s = (Inr (), s')"
    by (simp add: stream_send_raw_def stream_set_key_def stream_from_def encrypt_enc_def encrypt_new_def
        stream_send_bytes_def flip: sealed_def)
  have "\<exists>sent. fs_out s' = fs_out ?s @ sent \<and> fst (stream_next demo_sodium (s'\<lparr>fs_in := sent\<rparr>)) = Some (Inr [1, 2])"
    by (rule reflected_message_accepted [OF demo_secretbox_ok _ _ _ _ _ s', where e = "encrypt_new [9]"])
      (simp_all add: short_enough_def MACBYTES_def stream_set_key_def stream_from_def encrypt_new_def)
  then show ?thesis using s' by (simp add: Let_def stream_set_key_def stream_from_def)
qed

end
