(* ===== verification/Net_Address.thy ===== *)
theory Net_Address
  imports Config_Store
begin

text \<open>
  Addresses as text: the tests of \<open>libs/hbb_common/src/lib.rs\<close>, the ports of
  \<open>libs/hbb_common/src/socket_client.rs\<close>, and the choice of servers in \<open>src/common.rs\<close>. The regular
  expressions are written as the tests they amount to on ASCII text.
\<close>

section \<open>What looks like an address\<close>

definition is_octet :: "string \<Rightarrow> bool" where
  "is_octet s \<longleftrightarrow> s \<noteq> [] \<and> length s \<le> 3 \<and> list_all is_digit s \<and> digits_value s \<le> 255"

definition is_port :: "string \<Rightarrow> bool" where
  "is_port s \<longleftrightarrow> s \<noteq> [] \<and> list_all is_digit s"

definition is_quad :: "string \<Rightarrow> bool" where
  "is_quad s \<longleftrightarrow> (let ps = split_on CHR ''.'' s in length ps = 4 \<and> list_all is_octet ps)"

definition is_ipv4_str :: "string \<Rightarrow> bool" where
  "is_ipv4_str s \<longleftrightarrow>
     (case split_on CHR '':'' s of
        [h] \<Rightarrow> is_quad h
      | [h, p] \<Rightarrow> is_quad h \<and> is_port p
      | _ \<Rightarrow> False)"

definition is_lower :: "char \<Rightarrow> bool" where
  "is_lower c \<longleftrightarrow> (97 \<le> (of_char c :: nat) \<and> (of_char c :: nat) \<le> 122)"

definition is_upper :: "char \<Rightarrow> bool" where
  "is_upper c \<longleftrightarrow> (65 \<le> (of_char c :: nat) \<and> (of_char c :: nat) \<le> 90)"

definition is_hex :: "char \<Rightarrow> bool" where
  "is_hex c \<longleftrightarrow> is_digit c \<or> c \<in> set ''abcdefABCDEF''"

text \<open>Groups of one to four hexadecimal digits with one or two colons between them.\<close>

fun single_gaps :: "string list \<Rightarrow> bool" where
  "single_gaps (p # q # ps) \<longleftrightarrow> (p \<noteq> [] \<or> q \<noteq> []) \<and> single_gaps (q # ps)"
| "single_gaps _ \<longleftrightarrow> True"

definition is_hextets :: "string \<Rightarrow> bool" where
  "is_hextets s \<longleftrightarrow>
     (let ps = split_on CHR '':'' s
      in 2 \<le> length ps \<and> hd ps \<noteq> [] \<and> last ps \<noteq> [] \<and> single_gaps ps \<and>
         list_all (\<lambda>p. length p \<le> 4 \<and> list_all is_hex p) ps)"

definition is_bracketed :: "string \<Rightarrow> bool" where
  "is_bracketed s \<longleftrightarrow>
     s \<noteq> [] \<and> hd s = CHR ''['' \<and>
     (case split_on CHR '']'' (tl s) of
        [h, p] \<Rightarrow> is_hextets h \<and> p \<noteq> [] \<and> hd p = CHR '':'' \<and> is_port (tl p)
      | _ \<Rightarrow> False)"

definition is_ipv6_str :: "string \<Rightarrow> bool" where
  "is_ipv6_str s \<longleftrightarrow> is_hextets s \<or> is_bracketed s"

definition is_ip_str :: "string \<Rightarrow> bool" where
  "is_ip_str s \<longleftrightarrow> is_ipv4_str s \<or> is_ipv6_str s"

definition is_alpha :: "char \<Rightarrow> bool" where
  "is_alpha c \<longleftrightarrow> is_lower c \<or> is_upper c"

definition is_label :: "string \<Rightarrow> bool" where
  "is_label s \<longleftrightarrow> s \<noteq> [] \<and> length s \<le> 63 \<and>
     list_all (\<lambda>c. is_alpha c \<or> is_digit c \<or> c = CHR ''-'') s \<and> hd s \<noteq> CHR ''-'' \<and> last s \<noteq> CHR ''-''"

definition is_top_label :: "string \<Rightarrow> bool" where
  "is_top_label s \<longleftrightarrow> 2 \<le> length s \<and> length s \<le> 63 \<and>
     list_all (\<lambda>c. is_alpha c \<or> c = CHR ''-'') s \<and> hd s \<noteq> CHR ''-'' \<and> last s \<noteq> CHR ''-''"

definition is_domain_port_str :: "string \<Rightarrow> bool" where
  "is_domain_port_str s \<longleftrightarrow>
     (case split_on CHR '':'' s of
        [h, p] \<Rightarrow>
          (let ps = split_on CHR ''.'' h
           in 2 \<le> length ps \<and> list_all is_label (butlast ps) \<and> is_top_label (last ps) \<and>
              is_port p \<and> length p \<le> 5)
      | _ \<Rightarrow> False)"

section \<open>Ports\<close>

definition check_port :: "string \<Rightarrow> int \<Rightarrow> string" where
  "check_port host port =
     (if is_ipv6_str host then
        (if hd host = CHR ''['' then host else CHR ''['' # host @ '']:'' @ show_int port)
      else if CHR '':'' \<notin> set host then host @ '':'' @ show_int port
      else host)"

text \<open>The sum of a port and an offset wraps in 32 bits.\<close>

definition shifted_port :: "string \<Rightarrow> int \<Rightarrow> string option" where
  "shifted_port s offset =
     (let port = (case parse_i32 s of Some v \<Rightarrow> v | None \<Rightarrow> 0)
      in if 0 < port then Some (show_int (sint (word_of_int (port + offset) :: i32))) else None)"

definition increase_port :: "string \<Rightarrow> int \<Rightarrow> string" where
  "increase_port host offset =
     (if is_ipv6_str host then
        (if hd host = CHR ''['' then
           (case split_on CHR '']'' host of
              [h, p] \<Rightarrow> (case shifted_port (tl p) offset of Some q \<Rightarrow> h @ '']:'' @ q | None \<Rightarrow> host)
            | _ \<Rightarrow> host)
         else host)
      else if CHR '':'' \<in> set host then
        (case split_on CHR '':'' host of
           [h, p] \<Rightarrow> (case shifted_port p offset of Some q \<Rightarrow> h @ '':'' @ q | None \<Rightarrow> host)
         | _ \<Rightarrow> host)
      else host)"

text \<open>\<open>str::replace\<close>: every occurrence, from the left, without overlap.\<close>

function str_replace :: "string \<Rightarrow> string \<Rightarrow> string \<Rightarrow> string" where
  "str_replace pat new s =
     (if pat = [] \<or> s = [] then s
      else if take (length pat) s = pat then new @ str_replace pat new (drop (length pat) s)
      else hd s # str_replace pat new (tl s))"
  by pat_completeness auto
termination by (relation "measure (\<lambda>(_, _, s). length s)") auto

declare str_replace.simps [simp del]

definition ipv4_to_ipv6 :: "string \<Rightarrow> bool \<Rightarrow> string" where
  "ipv4_to_ipv6 addr ipv4 =
     (if \<not> ipv4 \<and> is_ipv4_str addr then
        (let ip = hd (split_on CHR '':'' addr) in str_replace ip (ip @ ''.nip.io'') addr)
      else addr)"

section \<open>Servers\<close>

text \<open>\<open>get_rendezvous_server\<close>: what the main process answers (the server and the list of all) is an
  argument.\<close>

definition pick_rendezvous_server :: "string \<times> string list \<Rightarrow> string \<times> string list \<times> bool" where
  "pick_rendezvous_server x =
     (let (a, b) = x;
          b = map (\<lambda>x. check_port x (int RENDEZVOUS_PORT)) b
      in if a \<in> set b then (a, filter (\<lambda>x. x \<noteq> a) b, True)
         else if b = [] then (a, [], False)
         else (last b, butlast b, False))"

definition custom_rendezvous_server :: "string \<Rightarrow> config_state \<Rightarrow> string" where
  "custom_rendezvous_server custom s =
     (if custom \<noteq> [] then custom else if cs_prod_server s \<noteq> [] then cs_prod_server s else [])"

definition common_api_server :: "string \<Rightarrow> string \<Rightarrow> string \<Rightarrow> config_state \<Rightarrow> string" where
  "common_api_server build api custom s =
     (if api \<noteq> [] then api
      else if build \<noteq> [] then build
      else
        (let s0 = custom_rendezvous_server custom s in
         if s0 \<noteq> [] then
           (let s = increase_port s0 (- 2) in
            if s = s0 then ''http://'' @ s @ '':'' @ show_int (int RENDEZVOUS_PORT - 2) else ''http://'' @ s)
         else ''https://admin.rustdesk.com''))"

definition common_audit_server :: "string \<Rightarrow> string \<Rightarrow> string \<Rightarrow> string \<Rightarrow> config_state \<Rightarrow> string" where
  "common_audit_server build api custom typ s =
     (let url = common_api_server build api custom s
      in if url = [] \<or> sublist ''rustdesk.com'' url then [] else url @ ''/api/audit/'' @ typ)"

section \<open>Facts\<close>

lemma split_on_pair: "split_on c s = [h, p] \<Longrightarrow> s = h @ c # p"
proof (induction s arbitrary: h)
  case (Cons x s)
  show ?case
  proof (cases "x = c")
    case True
    then have "h = []" "split_on c s = [p]" using Cons.prems by simp_all
    moreover have "s = t" if "split_on c s = [t]" for s t
      using that by (induction s arbitrary: t) (simp_all split: list.splits if_splits)
    ultimately show ?thesis using True by simp
  next
    case False
    then obtain h' where "split_on c s = [h', p]" "h = x # h'"
      using Cons.prems by (cases "split_on c s") simp_all
    then show ?thesis using Cons.IH by simp
  qed
qed simp

lemma split_on_chars: "c \<in> set s \<Longrightarrow> c = x \<or> (\<exists>p \<in> set (split_on x s). c \<in> set p)"
  by (induction s) (auto split: list.splits)

lemma is_hextets_chars: "is_hextets s \<Longrightarrow> list_all (\<lambda>c. is_hex c \<or> c = CHR '':'') s \<and> CHR '':'' \<in> set s"
proof (intro conjI)
  assume h: "is_hextets s"
  show "list_all (\<lambda>c. is_hex c \<or> c = CHR '':'') s"
    unfolding list_all_iff
  proof
    fix c
    assume "c \<in> set s"
    from split_on_chars [OF this, of "CHR '':''"] show "is_hex c \<or> c = CHR '':''"
      using h by (auto simp: is_hextets_def Let_def list_all_iff)
  qed
  show "CHR '':'' \<in> set s"
  proof (rule ccontr)
    assume "CHR '':'' \<notin> set s"
    then show False using h by (simp add: is_hextets_def)
  qed
qed

text \<open>A port is added once: with a port, an address stays what it is. An IPv6 address gets brackets.\<close>

lemma show_int_port: "0 \<le> port \<Longrightarrow> is_port (show_int port)"
  by (simp add: is_port_def show_int_def)

lemma length_show_nat: "10 \<le> n \<Longrightarrow> length (show_nat n) = Suc (length (show_nat (n div 10)))"
  by (subst show_nat.simps) simp

lemma length_show_port: "10000 \<le> n \<Longrightarrow> 5 \<le> length (show_nat n)"
proof -
  assume n: "10000 \<le> n"
  have "length (show_nat n) = 4 + length (show_nat (n div 10 div 10 div 10 div 10))"
    using n by (simp add: length_show_nat)
  then show ?thesis by (cases "show_nat (n div 10 div 10 div 10 div 10)") simp_all
qed

text \<open>An address that has got a port of five digits is not changed by adding one again.\<close>

lemma check_port_again:
  assumes "10000 \<le> port"
  shows "check_port (check_port host port) port' = check_port host port"
proof (cases "is_ipv6_str host")
  case True
  show ?thesis
  proof (cases "hd host = CHR ''[''")
    case False
    then have h: "is_hextets host" using True by (auto simp: is_ipv6_str_def is_bracketed_def)
    have "CHR '']'' \<notin> set host" using is_hextets_chars [OF h] by (auto simp: list_all_iff is_hex_def is_digit_def)
    moreover have "CHR '']'' \<notin> set ('':'' @ show_int port)"
      using no_digit_in_show [of "CHR '']''"] assms by (auto simp: show_int_def is_digit_def)
    ultimately have "split_on CHR '']'' (host @ '']:'' @ show_int port) = [host, '':'' @ show_int port]"
      using split_on_sep [of "CHR '']''" host "'':'' @ show_int port"] by simp
    then have "is_bracketed (CHR ''['' # host @ '']:'' @ show_int port)"
      using h show_int_port [of port] assms by (simp add: is_bracketed_def)
    then show ?thesis using True False by (simp add: check_port_def is_ipv6_str_def)
  qed (use True in \<open>simp add: check_port_def\<close>)
next
  case False
  show ?thesis
  proof (cases "CHR '':'' \<in> set host")
    case inner: False
    let ?s = "host @ CHR '':'' # show_int port"
    have split: "split_on CHR '':'' ?s = [host, show_int port]"
      using split_on_sep [OF inner, of "show_int port"] no_digit_in_show [of "CHR '':''"] assms by (simp add: show_int_def)
    have "\<not> is_hextets ?s"
      using split length_show_port [of "nat port"] nat_mono [OF assms] by (auto simp: is_hextets_def Let_def show_int_def)
    moreover have "\<not> is_bracketed ?s"
    proof
      assume b: "is_bracketed ?s"
      then obtain h p where hp: "split_on CHR '']'' (tl ?s) = [h, p]" "is_hextets h" "p \<noteq> []" "hd p = CHR '':''" "is_port (tl p)"
        by (auto simp: is_bracketed_def split: list.splits)
      note join = split_on_pair [OF hp(1)]
      have "CHR '':'' \<in> set h" using is_hextets_chars [OF hp(2)] by simp
      then obtain x y where h: "h = x @ CHR '':'' # y" by (meson split_list)
      have "host \<noteq> []" using b by (auto simp: is_bracketed_def)
      then have "tl host @ CHR '':'' # show_int port = x @ CHR '':'' # (y @ CHR '']'' # p)"
        using join h by simp
      moreover have "CHR '':'' \<notin> set (tl host)" using inner by (meson list.set_sel(2) \<open>host \<noteq> []\<close>)
      moreover have "CHR '':'' \<notin> set (show_int port)"
        using no_digit_in_show [of "CHR '':''"] assms by (simp add: show_int_def)
      ultimately have "CHR '':'' \<notin> set (y @ CHR '']'' # p)"
        by (auto simp: append_eq_append_conv2 Cons_eq_append_conv append_eq_Cons_conv)
      then show False using hp(3,4) by (cases p) simp_all
    qed
    ultimately show ?thesis using False inner by (simp add: check_port_def is_ipv6_str_def)
  qed (use False in \<open>simp add: check_port_def\<close>)
qed

text \<open>The name of a host that reads as hexadecimal, with a port of at most four digits, is taken for an
  IPv6 address.\<close>

lemma short_hex_host_misread: "check_port ''cafe:8080'' port = ''[cafe:8080]:'' @ show_int port"
proof -
  have "split_on CHR '':'' ''cafe:8080'' = [''cafe'', ''8080'']" by simp
  then have "is_hextets ''cafe:8080''" by (simp add: is_hextets_def is_hex_def is_digit_def)
  then show ?thesis by (simp add: check_port_def is_ipv6_str_def)
qed

end
