(* ===== verification/Rendezvous.thy ===== *)
theory Rendezvous
  imports Net_Address Tcp_Stream
begin

text \<open>
  The host's side of the rendezvous server (\<open>src/rendezvous_mediator.rs\<close>): one \<open>RendezvousMediator\<close> per
  server, each a loop over the packets of the server and a timer of one second. They share the
  configuration and the static that says which server's mismatch of keys is being solved. The state of a
  loop (its local variables included) is a record; what the system provides at an event is an environment.
\<close>

section \<open>Messages\<close>

datatype rz_in =
    RzRegisterPeerResponse bool                   \<comment> \<open>\<open>request_pk\<close>\<close>
  | RzRegisterPkResponse i32 i32                  \<comment> \<open>result, \<open>keep_alive\<close>\<close>
  | RzPunchHole bytes string i32                  \<comment> \<open>socket address, relay server, NAT type\<close>
  | RzRequestRelay bytes string string bool       \<comment> \<open>socket address, relay server, uuid, secure\<close>
  | RzFetchLocalAddr bytes string
  | RzConfigureUpdate i32 "string list"
  | RzOtherMessage

datatype rz_out =
    RoRegisterPk string bytes bytes               \<comment> \<open>id, uuid, public key\<close>
  | RoRegisterPeer string i32
  | RoRelayResponse bytes string string "string option" string
  | RoLocalAddr string bytes bytes string string
  | RoPunchHoleSent bytes string string i32 string
  | RoHeartbeat

definition PK_OK :: i32 where "PK_OK = 0"
definition UUID_MISMATCH :: i32 where "UUID_MISMATCH = 2"
definition SYMMETRIC :: i32 where "SYMMETRIC = 2"

datatype rz_effect =
    RzSend string rz_out                          \<comment> \<open>to the server of this name\<close>
  | RzTouch socket_addr socket_addr               \<comment> \<open>a short connection from the local to the peer's address\<close>
  | RzAccept socket_addr bool                     \<comment> \<open>\<open>accept_connection\<close>: peer, secure\<close>
  | RzRelay string string socket_addr bool bool   \<comment> \<open>\<open>create_relay_connection\<close>\<close>
  | RzDirect socket_addr bool                     \<comment> \<open>\<open>create_tcp_connection\<close>: peer, secure\<close>

section \<open>State\<close>

record rz_world =
  rw_cfg :: config_state
  rw_solving :: string                            \<comment> \<open>\<open>SOLVING_PK_MISMATCH\<close>\<close>
  rw_exit :: bool                                 \<comment> \<open>\<open>SHOULD_EXIT\<close>\<close>
  rw_restarted :: bool                            \<comment> \<open>\<open>MANUAL_RESTARTED\<close>\<close>
  rw_out :: "rz_effect list"

record mediator =
  md_host :: string
  md_host_prefix :: string
  md_keep_alive :: i32
  md_addr_v4 :: bool                              \<comment> \<open>\<open>is_ipv4\<close> of the server's address\<close>
  md_reg_timeout :: int
  md_fails :: int
  md_last_resp :: "nat option"                    \<comment> \<open>times in microseconds\<close>
  md_last_sent :: "nat option"
  md_last_dns :: nat
  md_old_latency :: int
  md_ema_latency :: int
  md_last_recv :: nat

text \<open>What an event finds: the time, random numbers, the machine's keys, what the network answers.\<close>

record rz_env =
  rv_now :: nat
  rv_mac :: "bytes option"
  rv_random :: nat
  rv_key_pair :: "bytes \<times> bytes"
  rv_uuid :: bytes
  rv_new_uuid :: string
  rv_version :: string
  rv_build_server :: string
  rv_clock :: u32                                 \<comment> \<open>of \<open>AddrMangle::encode\<close>\<close>
  rv_rebind :: "io_error + bool option"
  rv_send :: "io_error option"
  rv_connect :: "io_error + socket_addr"          \<comment> \<open>a connection to the server, its local address\<close>

type_synonym 'a rz_result = "(io_error + 'a) \<times> mediator \<times> rz_world"

definition DEFAULT_KEEP_ALIVE :: i32 where "DEFAULT_KEEP_ALIVE = 60000"
definition REG_INTERVAL :: int where "REG_INTERVAL = 15000"
definition MIN_REG_TIMEOUT :: int where "MIN_REG_TIMEOUT = 3000"
definition MAX_REG_TIMEOUT :: int where "MAX_REG_TIMEOUT = 30000"
definition MAX_FAILS1 :: int where "MAX_FAILS1 = 2"
definition MAX_FAILS2 :: int where "MAX_FAILS2 = 4"
definition DNS_INTERVAL :: int where "DNS_INTERVAL = 60000"

text \<open>\<open>elapsed().as_micros() as i64\<close> and \<open>elapsed().as_millis() as i64\<close>.\<close>

definition elapsed_us :: "rz_env \<Rightarrow> nat \<Rightarrow> int" where
  "elapsed_us e t = sint (of_nat (rv_now e - t) :: i64)"

definition elapsed_ms :: "rz_env \<Rightarrow> nat \<Rightarrow> int" where
  "elapsed_ms e t = sint (of_nat ((rv_now e - t) div 1000) :: i64)"

definition get_host_prefix :: "string \<Rightarrow> string" where
  "get_host_prefix host =
     (case split_on CHR ''.'' host of x # _ \<Rightarrow> if parse_i32 x \<noteq> None then host else x | [] \<Rightarrow> host)"

definition restart :: "rz_world \<Rightarrow> rz_world" where
  "restart w = w\<lparr>rw_exit := True, rw_restarted := True\<rparr>"

definition rz_emit :: "rz_effect \<Rightarrow> rz_world \<Rightarrow> rz_world" where
  "rz_emit x w = w\<lparr>rw_out := rw_out w @ [x]\<rparr>"

definition with_cfg :: "(config_state \<Rightarrow> config_state) \<Rightarrow> rz_world \<Rightarrow> rz_world" where
  "with_cfg f w = w\<lparr>rw_cfg := f (rw_cfg w)\<rparr>"

definition rz_send :: "rz_env \<Rightarrow> string \<Rightarrow> rz_out \<Rightarrow> rz_world \<Rightarrow> (io_error + unit) \<times> rz_world" where
  "rz_send e host m w = (case rv_send e of Some err \<Rightarrow> (Inl err, w) | None \<Rightarrow> (Inr (), rz_emit (RzSend host m) w))"

definition own_id :: "rz_env \<Rightarrow> rz_world \<Rightarrow> string \<times> rz_world" where
  "own_id e w = (let (i, cfg) = get_id (rv_mac e) (rw_cfg w) in (i, w\<lparr>rw_cfg := cfg\<rparr>))"

section \<open>Registering\<close>

definition register_pk :: "rz_env \<Rightarrow> string \<Rightarrow> rz_world \<Rightarrow> (io_error + unit) \<times> rz_world" where
  "register_pk e host w =
     (let pk = snd (rv_key_pair e);
          uuid = rv_uuid e;
          (i, w) = own_id e w
      in rz_send e host (RoRegisterPk i uuid pk) w)"

definition handle_uuid_mismatch :: "rz_env \<Rightarrow> string \<Rightarrow> rz_world \<Rightarrow> (io_error + unit) \<times> rz_world" where
  "handle_uuid_mismatch e host w =
     (if rw_solving w = [] \<or> rw_solving w = host then
        (let w = with_cfg (set_key_confirmed False) w;
             w = with_cfg (update_id (rv_random e) (rv_mac e)) w
         in register_pk e host (w\<lparr>rw_solving := host\<rparr>))
      else (Inr (), w))"

definition register_peer :: "rz_env \<Rightarrow> mediator \<Rightarrow> rz_world \<Rightarrow> (io_error + unit) \<times> rz_world" where
  "register_peer e md w =
     (if \<not> (rw_solving w = [] \<or> rw_solving w = md_host md) then (Inr (), w)
      else if \<not> cf_key_confirmed (cs_config (rw_cfg w)) \<or> \<not> get_host_key_confirmed (md_host_prefix md) (rw_cfg w)
      then register_pk e (md_host md) w
      else
        (let (i, w) = own_id e w
         in rz_send e (md_host md) (RoRegisterPeer i (get_serial (rw_cfg w))) w))"

section \<open>Bringing peers in\<close>

definition get_relay_server :: "string \<Rightarrow> mediator \<Rightarrow> rz_world \<Rightarrow> string" where
  "get_relay_server provided md w =
     (let r = config_get_option (rw_cfg w) ''relay-server'';
          r = (if r = [] then provided else r)
      in if r = [] then increase_port (md_host md) 1 else r)"

text \<open>A connection to the server and a message on it.\<close>

definition rz_connect_send ::
    "rz_env \<Rightarrow> mediator \<Rightarrow> (socket_addr \<Rightarrow> rz_world \<Rightarrow> rz_out \<times> rz_world) \<Rightarrow> rz_effect \<Rightarrow> rz_world \<Rightarrow>
     (io_error + unit) \<times> rz_world" where
  "rz_connect_send e md f x w =
     (case rv_connect e of
        Inl err \<Rightarrow> (Inl err, w)
      | Inr loc \<Rightarrow>
          (let (m, w) = f loc w in
           case rz_send e (md_host md) m w of
             (Inl err, w) \<Rightarrow> (Inl err, w)
           | (Inr _, w) \<Rightarrow> (Inr (), rz_emit x w)))"

definition create_relay ::
    "rz_env \<Rightarrow> mediator \<Rightarrow> bytes \<Rightarrow> string \<Rightarrow> string \<Rightarrow> bool \<Rightarrow> bool \<Rightarrow> rz_world \<Rightarrow> (io_error + unit) \<times> rz_world" where
  "create_relay e md addr relay_server uuid secure initiate =
     rz_connect_send e md
       (\<lambda>_ w. if initiate
              then (let (i, w) = own_id e w
                    in (RoRelayResponse addr uuid relay_server (Some i) (rv_version e), w))
              else (RoRelayResponse addr [] [] None (rv_version e), w))
       (RzRelay relay_server uuid (mangle_decode addr) secure (md_addr_v4 md))"

text \<open>The local address goes through text without brackets, in which an IPv6 address is not read back.\<close>

definition handle_intranet_direct :: "rz_env \<Rightarrow> mediator \<Rightarrow> bytes \<Rightarrow> string \<Rightarrow> rz_world \<Rightarrow> (io_error + unit) \<times> rz_world" where
  "handle_intranet_direct e md addr relay_server w =
     (let peer_addr = mangle_decode addr in
      case rv_connect e of
        Inr (SocketV6 _ _ _ _) \<Rightarrow> (Inl (OtherError ''invalid socket address syntax''), w)
      | _ \<Rightarrow>
          rz_connect_send e md
            (\<lambda>loc w. let (i, w) = own_id e w
                     in (RoLocalAddr i (mangle_encode (rv_clock e) peer_addr) (mangle_encode (rv_clock e) loc) relay_server
                           (rv_version e), w))
            (RzAccept peer_addr True) w)"

definition handle_intranet :: "rz_env \<Rightarrow> mediator \<Rightarrow> bytes \<Rightarrow> string \<Rightarrow> rz_world \<Rightarrow> (io_error + unit) \<times> rz_world" where
  "handle_intranet e md addr provided w =
     (let relay_server = get_relay_server provided md w;
          try = md_addr_v4 md \<and> hm_get (cs_hard (rw_cfg w)) ''disable-tcp-listen'' \<noteq> Some ''Y'' \<and> \<not> is_proxy (rw_cfg w);
          (res, w) = (if try then handle_intranet_direct e md addr relay_server w
                      else (Inl (OtherError []), w))
      in if try \<and> res = Inr () then (Inr (), w)
         else create_relay e md addr relay_server (rv_new_uuid e) True True w)"

definition known_nat_type :: "i32 \<Rightarrow> i32" where
  "known_nat_type n = (if n \<in> {0, 1, 2} then n else 0)"

definition handle_punch_hole :: "rz_env \<Rightarrow> mediator \<Rightarrow> bytes \<Rightarrow> string \<Rightarrow> i32 \<Rightarrow> rz_world \<Rightarrow> (io_error + unit) \<times> rz_world" where
  "handle_punch_hole e md addr provided nat_type w =
     (let relay_server = get_relay_server provided md w;
          own = c2_nat_type (cs_config2 (rw_cfg w))
      in if nat_type = SYMMETRIC \<or> own = SYMMETRIC \<or> hm_get (cs_hard (rw_cfg w)) ''disable-tcp-listen'' = Some ''Y''
         then create_relay e md addr relay_server (rv_new_uuid e) True True w
         else
           (let peer_addr = mangle_decode addr in
            rz_connect_send e md
              (\<lambda>loc w. let w = rz_emit (RzTouch peer_addr loc) w;
                          (i, w) = own_id e w
                       in (RoPunchHoleSent addr i relay_server (known_nat_type own) (rv_version e), w))
              (RzAccept peer_addr True) w))"

section \<open>Answers of the server\<close>

fun str_join :: "string \<Rightarrow> string list \<Rightarrow> string" where
  "str_join sep [] = []"
| "str_join sep [x] = x"
| "str_join sep (x # y # xs) = x @ sep @ str_join sep (y # xs)"

text \<open>The tasks that bring a peer in run beside the loop, which does not see their errors.\<close>

definition handle_resp ::
    "rz_env \<Rightarrow> (mediator \<times> rz_world \<Rightarrow> mediator \<times> rz_world) \<Rightarrow> rz_in \<Rightarrow> mediator \<times> rz_world \<Rightarrow> unit rz_result" where
  "handle_resp e upd msg x =
     (let (md, w) = x in
      case msg of
        RzRegisterPeerResponse request_pk \<Rightarrow>
          (let (md, w) = upd x in
           if request_pk then (let (res, w) = register_pk e (md_host md) w in (res, md, w))
           else (Inr (), md, w))
      | RzRegisterPkResponse result keep_alive \<Rightarrow>
          (let (md, w) = upd x;
               (res, w) =
                 (if result = PK_OK then
                    (let w = with_cfg (set_key_confirmed True) w;
                         w = with_cfg (set_host_key_confirmed (md_host_prefix md) True) w
                     in (Inr (), w\<lparr>rw_solving := []\<rparr>))
                  else if result = UUID_MISMATCH then handle_uuid_mismatch e (md_host md) w
                  else (Inr (), w))
           in case res of
                Inl err \<Rightarrow> (Inl err, md, w)
              | Inr _ \<Rightarrow> (Inr (), if 0 < sint keep_alive then md\<lparr>md_keep_alive := keep_alive * 1000\<rparr> else md, w))
      | RzPunchHole addr relay nat_type \<Rightarrow> (Inr (), md, snd (handle_punch_hole e md addr relay nat_type w))
      | RzRequestRelay addr relay uuid secure \<Rightarrow> (Inr (), md, snd (create_relay e md addr relay uuid secure False w))
      | RzFetchLocalAddr addr relay \<Rightarrow> (Inr (), md, snd (handle_intranet e md addr relay w))
      | RzConfigureUpdate serial servers \<Rightarrow>
          (let v0 = get_rendezvous_servers (rw_cfg w);
               w = with_cfg (config_set_option ''rendezvous-servers'' (str_join '','' servers)) w;
               w = with_cfg (set_serial serial) w
           in (Inr (), md, if v0 \<noteq> get_rendezvous_servers (rw_cfg w) then restart w else w))
      | RzOtherMessage \<Rightarrow> (Inr (), md, w))"

section \<open>The loop over UDP\<close>

text \<open>The closure \<open>update_latency\<close> of \<open>start_udp\<close>: the answer is noted, the round trip smoothed, and
  written to the configuration when it has changed enough.\<close>

definition update_latency_udp :: "rz_env \<Rightarrow> mediator \<times> rz_world \<Rightarrow> mediator \<times> rz_world" where
  "update_latency_udp e x =
     (let (md, w) = x;
          latency = (case md_last_sent md of Some t \<Rightarrow> elapsed_us e t | None \<Rightarrow> 0);
          md = md\<lparr>md_last_resp := Some (rv_now e), md_fails := 0, md_reg_timeout := MIN_REG_TIMEOUT,
                  md_last_sent := None\<rparr>
      in if latency < 0 \<or> 1000000 < latency then (md, w)
         else
           (let ema = (if md_ema_latency md = 0 then latency else latency div 30 + md_ema_latency md * 29 div 30);
                latency = (if md_ema_latency md = 0 then latency else ema);
                md = md\<lparr>md_ema_latency := ema\<rparr>;
                n = max 3000 (latency div 5)
            in if n < \<bar>latency - md_old_latency md\<bar> \<or> md_old_latency md \<le> 0
               then (md\<lparr>md_old_latency := latency\<rparr>, with_cfg (update_latency (md_host md) (of_int latency)) w)
               else (md, w)))"

text \<open>\<open>using_public_server\<close>.\<close>

definition on_public_server :: "rz_env \<Rightarrow> rz_world \<Rightarrow> bool" where
  "on_public_server e w \<longleftrightarrow> rv_build_server e = [] \<and>
     custom_rendezvous_server (config_get_option (rw_cfg w) ''custom-rendezvous-server'') (rw_cfg w) = []"

text \<open>A registration has not been answered in time.\<close>

definition note_fail :: "rz_env \<Rightarrow> mediator \<times> rz_world \<Rightarrow> unit rz_result" where
  "note_fail e x =
     (let (md, w) = x;
          md = md\<lparr>md_fails := md_fails md + 1\<rparr>
      in if MAX_FAILS2 \<le> md_fails md then
           (let w = with_cfg (update_latency (md_host md) (- 1)) w;
                md = md\<lparr>md_old_latency := 0\<rparr>
            in if DNS_INTERVAL < elapsed_ms e (md_last_dns md) then
                 (case rv_rebind e of
                    Inl err \<Rightarrow> (Inl err, md, w)
                  | Inr addr \<Rightarrow>
                      (Inr (), md\<lparr>md_addr_v4 := (case addr of Some v4 \<Rightarrow> v4 | None \<Rightarrow> md_addr_v4 md),
                                  md_last_dns := rv_now e\<rparr>, w))
               else (Inr (), md, w))
         else if MAX_FAILS1 \<le> md_fails md then
           (Inr (), md\<lparr>md_old_latency := 0\<rparr>, with_cfg (update_latency (md_host md) 0) w)
         else (Inr (), md, w))"

definition reg_due :: "rz_env \<Rightarrow> mediator \<Rightarrow> bool \<times> bool" where
  "reg_due e md =
     (let expired = (case md_last_resp md of Some t \<Rightarrow> REG_INTERVAL \<le> elapsed_ms e t | None \<Rightarrow> True);
          late = (case md_last_sent md of Some t \<Rightarrow> md_reg_timeout md \<le> elapsed_ms e t | None \<Rightarrow> False)
      in (late, late \<or> md_last_sent md = None \<and> expired))"

text \<open>The timer; the answer says whether the loop goes on.\<close>

definition udp_tick :: "rz_env \<Rightarrow> mediator \<times> rz_world \<Rightarrow> bool rz_result" where
  "udp_tick e x =
     (let (md, w) = x in
      if rw_exit w then (Inr False, md, w)
      else
        (let (late, due) = reg_due e md;
             md = (if on_public_server e w \<and> late \<and> md_reg_timeout md < MAX_REG_TIMEOUT
                   then md\<lparr>md_reg_timeout := md_reg_timeout md + MIN_REG_TIMEOUT\<rparr> else md)
         in if \<not> due then (Inr True, md, w)
            else
              (case (if late then note_fail e (md, w) else (Inr (), md, w)) of
                 (Inl err, md, w) \<Rightarrow> (Inl err, md, w)
               | (Inr _, md, w) \<Rightarrow>
                   (case register_peer e md w of
                      (Inl err, w) \<Rightarrow> (Inl err, md, w)
                    | (Inr _, w) \<Rightarrow> (Inr True, md\<lparr>md_last_sent := Some (rv_now e)\<rparr>, w)))))"

datatype udp_event = UdpPacket "rz_in option" | UdpError string | UdpNone | UdpTick

definition udp_step :: "rz_env \<Rightarrow> udp_event \<Rightarrow> mediator \<times> rz_world \<Rightarrow> bool rz_result" where
  "udp_step e ev x =
     (case ev of
        UdpPacket (Some msg) \<Rightarrow>
          (case handle_resp e (update_latency_udp e) msg x of
             (Inl err, y) \<Rightarrow> (Inl err, y) | (Inr _, y) \<Rightarrow> (Inr True, y))
      | UdpPacket None \<Rightarrow> (Inr True, x)
      | UdpError err \<Rightarrow> (Inl (OtherError (''Failed to receive next '' @ err)), x)
      | UdpNone \<Rightarrow> (Inl (OtherError ''Socket receive none. Maybe socks5 server is down.''), x)
      | UdpTick \<Rightarrow> udp_tick e x)"

definition start_udp :: "rz_env \<Rightarrow> string \<Rightarrow> bool \<Rightarrow> mediator" where
  "start_udp e host v4 =
     (let host = check_port host (int RENDEZVOUS_PORT)
      in \<lparr>md_host = host, md_host_prefix = get_host_prefix host, md_keep_alive = DEFAULT_KEEP_ALIVE, md_addr_v4 = v4,
          md_reg_timeout = MIN_REG_TIMEOUT, md_fails = 0, md_last_resp = None, md_last_sent = None,
          md_last_dns = rv_now e, md_old_latency = 0, md_ema_latency = 0, md_last_recv = rv_now e\<rparr>)"

section \<open>The loop over TCP\<close>

definition start_tcp :: "rz_env \<Rightarrow> string \<Rightarrow> bool \<Rightarrow> rz_world \<Rightarrow> mediator \<times> rz_world" where
  "start_tcp e host v4 w =
     (let md = start_udp e host v4
      in (md, with_cfg (set_host_key_confirmed (md_host md) False) w))"

definition update_latency_tcp :: "rz_env \<Rightarrow> mediator \<times> rz_world \<Rightarrow> mediator \<times> rz_world" where
  "update_latency_tcp e x =
     (let (md, w) = x;
          latency = (case md_last_sent md of Some t \<Rightarrow> elapsed_us e t | None \<Rightarrow> 0)
      in (md, with_cfg (update_latency (md_host md) (of_int latency)) w))"

text \<open>The multiplication of the keep-alive time wraps in 64 bits.\<close>

definition tcp_tick :: "rz_env \<Rightarrow> mediator \<times> rz_world \<Rightarrow> bool rz_result" where
  "tcp_tick e x =
     (let (md, w) = x in
      if rw_exit w then (Inr False, md, w)
      else if (of_nat ((rv_now e - md_last_recv md) div 1000) :: u64) > scast (md_keep_alive md) * 3 div 2
      then (Inl (OtherError ''Rendezvous connection is timeout''), md, w)
      else if (\<not> cf_key_confirmed (cs_config (rw_cfg w)) \<or> \<not> get_host_key_confirmed (md_host md) (rw_cfg w)) \<and>
        REG_INTERVAL \<le> (case md_last_sent md of Some t \<Rightarrow> elapsed_ms e t | None \<Rightarrow> REG_INTERVAL)
      then (case register_pk e (md_host md) w of
              (Inl err, w) \<Rightarrow> (Inl err, md, w)
            | (Inr _, w) \<Rightarrow> (Inr True, md\<lparr>md_last_sent := Some (rv_now e)\<rparr>, w))
      else (Inr True, md, w))"

datatype tcp_event = TcpBytes "rz_in option" | TcpHeartbeat | TcpGone | TcpTick

definition tcp_step :: "rz_env \<Rightarrow> tcp_event \<Rightarrow> mediator \<times> rz_world \<Rightarrow> bool rz_result" where
  "tcp_step e ev x =
     (let (md, w) = x;
          y = (md\<lparr>md_last_recv := rv_now e\<rparr>, w)
      in case ev of
           TcpBytes (Some msg) \<Rightarrow>
             (case handle_resp e (update_latency_tcp e) msg y of
                (Inl err, z) \<Rightarrow> (Inl err, z) | (Inr _, z) \<Rightarrow> (Inr True, z))
         | TcpBytes None \<Rightarrow> (Inl (OtherError ''parse''), y)
         | TcpHeartbeat \<Rightarrow>
             (case rz_send e (md_host md) RoHeartbeat w of
                (Inl err, w) \<Rightarrow> (Inl err, fst y, w) | (Inr _, w) \<Rightarrow> (Inr True, fst y, w))
         | TcpGone \<Rightarrow> (Inl (OtherError ''Rendezvous connection is reset by the peer''), y)
         | TcpTick \<Rightarrow> tcp_tick e x)"

section \<open>Direct access\<close>

definition get_direct_port :: "rz_world \<Rightarrow> int" where
  "get_direct_port w =
     (let port = (case parse_i32 (config_get_option (rw_cfg w) ''direct-access-port'') of Some v \<Rightarrow> v | None \<Rightarrow> 0)
      in if port \<le> 0 then int RENDEZVOUS_PORT + 2 else port)"

text \<open>The listener is the port it listens on; \<open>waiting\<close> is the port on which listening has failed.\<close>

record direct_server =
  ds_listener :: "int option"
  ds_waiting :: "int option"

text \<open>One turn of the loop, with what listening and accepting bring.\<close>

definition direct_step ::
    "bool \<Rightarrow> socket_addr option \<Rightarrow> direct_server \<times> rz_world \<Rightarrow> direct_server \<times> rz_world" where
  "direct_step can_listen peer x =
     (let (d, w) = x;
          disabled = (config_get_option (rw_cfg w) ''direct-server'' = [] \<or>
                      config_get_option (rw_cfg w) ''stop-service'' \<noteq> [])
      in case ds_waiting d of
           Some port \<Rightarrow> if port = get_direct_port w then x else (d\<lparr>ds_waiting := None\<rparr>, w)
         | None \<Rightarrow>
             (if \<not> disabled \<and> ds_listener d = None \<and> \<not> can_listen
              then (d\<lparr>ds_waiting := Some (get_direct_port w)\<rparr>, w)
              else
                (let d = (if \<not> disabled \<and> ds_listener d = None then d\<lparr>ds_listener := Some (get_direct_port w)\<rparr> else d)
                 in case ds_listener d of
                      None \<Rightarrow> (d, w)
                    | Some port \<Rightarrow>
                        if disabled \<or> port \<noteq> get_direct_port w then (d\<lparr>ds_listener := None\<rparr>, w)
                        else (d, case peer of Some addr \<Rightarrow> rz_emit (RzDirect addr False) w | None \<Rightarrow> w))))"

section \<open>Who is online\<close>

text \<open>The answer has a bit per id, from the high end of each byte. The answer None is the panic of an
  index out of range.\<close>

definition online_bit :: "bytes \<Rightarrow> nat \<Rightarrow> bool option" where
  "online_bit states i = (if i div 8 < length states then Some (bit (states ! (i div 8)) (7 - i mod 8)) else None)"

fun split_online :: "bytes \<Rightarrow> nat \<Rightarrow> string list \<Rightarrow> (string list \<times> string list) option" where
  "split_online states i [] = Some ([], [])"
| "split_online states i (x # xs) =
     (case online_bit states i of
        None \<Rightarrow> None
      | Some on \<Rightarrow>
          (case split_online states (Suc i) xs of
             None \<Rightarrow> None
           | Some (onlines, offlines) \<Rightarrow>
               Some (if on then (x # onlines, offlines) else (onlines, x # offlines))))"

text \<open>\<open>create_online_stream\<close>: the port below that of the rendezvous server.\<close>

definition online_server :: "string \<Rightarrow> string + string" where
  "online_server rendezvous_server =
     (case split_on CHR '':'' rendezvous_server of
        [h, p] \<Rightarrow>
          (case parse_int 0 (2 ^ 16 - 1) p of
             None \<Rightarrow> Inl ''parse''
           | Some port \<Rightarrow>
               if port = 0 then Inl (''Invalid server address: '' @ rendezvous_server)
               else Inr (h @ '':'' @ show_int (port - 1)))
      | _ \<Rightarrow> Inl (''Invalid server address: '' @ rendezvous_server))"

end
