(* ===== verification/Rendezvous_Registration.thy ===== *)
theory Rendezvous_Registration
  imports Rendezvous
begin

text \<open>
  What the mediator guarantees: that the host stays registered, that only one server at a time can make
  it change its id, that a registration comes to an end, and what a list of online states means.
\<close>

section \<open>Staying registered\<close>

text \<open>The turns of one loop; between them the shared state may change in any way.\<close>

fun udp_run :: "(rz_env \<times> rz_world \<times> udp_event) list \<Rightarrow> mediator \<Rightarrow> mediator option" where
  "udp_run [] md = Some md"
| "udp_run ((e, w, ev) # ts) md =
     (case udp_step e ev (md, w) of (Inr True, md, _) \<Rightarrow> udp_run ts md | _ \<Rightarrow> None)"

definition timeouts_ok :: "mediator \<Rightarrow> bool" where
  "timeouts_ok md \<longleftrightarrow> MIN_REG_TIMEOUT \<le> md_reg_timeout md \<and> md_reg_timeout md \<le> MAX_REG_TIMEOUT \<and>
     MIN_REG_TIMEOUT dvd md_reg_timeout md \<and> 0 \<le> md_fails md"

text \<open>The fields of the registration are changed by the answers of the server and by the timer alone.\<close>

lemma update_latency_udp_fields:
  assumes "update_latency_udp e (md, w) = (md', w')"
  shows "md_host md' = md_host md" "md_host_prefix md' = md_host_prefix md" "md_reg_timeout md' = MIN_REG_TIMEOUT" "md_fails md' = 0"
    "md_last_sent md' = None" "md_last_resp md' = Some (rv_now e)"
  using assms by (auto simp: update_latency_udp_def Let_def split: if_splits)

lemma handle_resp_fields:
  assumes "handle_resp e (update_latency_udp e) msg (md, w) = (res, md', w')"
  shows "md_host md' = md_host md \<and> md_host_prefix md' = md_host_prefix md \<and>
    (md_reg_timeout md' = md_reg_timeout md \<and> md_fails md' = md_fails md \<or>
     md_reg_timeout md' = MIN_REG_TIMEOUT \<and> md_fails md' = 0)"
proof -
  obtain md1 w1 where u: "update_latency_udp e (md, w) = (md1, w1)" by fastforce
  note f = update_latency_udp_fields [OF u]
  show ?thesis
    using assms f by (cases msg) (auto simp: handle_resp_def u Let_def split: if_splits prod.splits sum.splits)
qed

lemma note_fail_fields:
  assumes "note_fail e (md, w) = (res, md', w')"
  shows "md_host md' = md_host md" "md_host_prefix md' = md_host_prefix md" "md_reg_timeout md' = md_reg_timeout md"
    "md_fails md' = md_fails md + 1" "md_last_resp md' = md_last_resp md"
    "rw_solving w' = rw_solving w" "rw_out w' = rw_out w"
  using assms by (auto simp: note_fail_def Let_def with_cfg_def split: if_splits sum.splits)

lemma backoff: "timeouts_ok md \<Longrightarrow> md_reg_timeout md < MAX_REG_TIMEOUT \<Longrightarrow> md_reg_timeout md + MIN_REG_TIMEOUT \<le> MAX_REG_TIMEOUT"
  by (auto simp: timeouts_ok_def MIN_REG_TIMEOUT_def MAX_REG_TIMEOUT_def elim!: dvdE)

definition backed_off :: "rz_env \<Rightarrow> mediator \<Rightarrow> rz_world \<Rightarrow> mediator" where
  "backed_off e md w =
     (if on_public_server e w \<and> fst (reg_due e md) \<and> md_reg_timeout md < MAX_REG_TIMEOUT
      then md\<lparr>md_reg_timeout := md_reg_timeout md + MIN_REG_TIMEOUT\<rparr> else md)"

lemma backed_off_fields [simp]:
  "md_host (backed_off e md w) = md_host md" "md_host_prefix (backed_off e md w) = md_host_prefix md"
  "md_last_sent (backed_off e md w) = md_last_sent md" "md_last_resp (backed_off e md w) = md_last_resp md"
  "md_fails (backed_off e md w) = md_fails md"
  by (simp_all add: backed_off_def)

lemma timeouts_ok_backed_off: "timeouts_ok md \<Longrightarrow> timeouts_ok (backed_off e md w)"
  using backoff [of md] by (auto simp: backed_off_def timeouts_ok_def MIN_REG_TIMEOUT_def)

lemma udp_tick_cases:
  assumes "udp_tick e (md, w) = (Inr True, md', w')"
  obtains (quiet) "\<not> snd (reg_due e md)" "md' = backed_off e md w" "w' = w"
  | (send) md1 w1 where "snd (reg_due e md)"
      "(md1, w1) = (backed_off e md w, w) \<or> note_fail e (backed_off e md w, w) = (Inr (), md1, w1)"
      "register_peer e md1 w1 = (Inr (), w')" "md' = md1\<lparr>md_last_sent := Some (rv_now e)\<rparr>"
proof -
  obtain late due where rd: "reg_due e md = (late, due)" by fastforce
  define b where "b = backed_off e md w"
  have exit: "\<not> rw_exit w" using assms by (auto simp: udp_tick_def)
  show thesis
  proof (cases due)
    case False
    then have "md' = b" "w' = w" using assms exit rd by (auto simp: udp_tick_def b_def backed_off_def)
    then show thesis using quiet False rd by (simp add: b_def)
  next
    case True
    obtain r md1 w1 where n: "(if late then note_fail e (b, w) else (Inr (), b, w)) = (r, md1, w1)" by (metis prod.exhaust)
    have "udp_tick e (md, w) = (case (r, md1, w1) of
        (Inl err, md, w) \<Rightarrow> (Inl err, md, w)
      | (Inr _, md, w) \<Rightarrow> (case register_peer e md w of
            (Inl err, w) \<Rightarrow> (Inl err, md, w)
          | (Inr _, w) \<Rightarrow> (Inr True, md\<lparr>md_last_sent := Some (rv_now e)\<rparr>, w)))"
      using exit rd True unfolding n [symmetric] by (simp add: udp_tick_def b_def backed_off_def)
    then have "r = Inr ()" "register_peer e md1 w1 = (Inr (), w')" "md' = md1\<lparr>md_last_sent := Some (rv_now e)\<rparr>"
      using assms by (auto split: sum.splits prod.splits)
    then show thesis using send [of md1 w1] n True rd by (auto simp: b_def split: if_splits)
  qed
qed

lemma udp_step_timeouts:
  assumes "udp_step e ev (md, w) = (Inr True, md', w')" and "timeouts_ok md"
  shows "timeouts_ok md' \<and> md_host md' = md_host md"
proof (cases ev)
  case (UdpPacket p)
  show ?thesis
  proof (cases p)
    case (Some msg)
    obtain res md1 w1 where h: "handle_resp e (update_latency_udp e) msg (md, w) = (res, md1, w1)" by (metis prod.exhaust)
    then have "md' = md1" using assms(1) UdpPacket Some by (auto simp: udp_step_def split: sum.splits)
    then show ?thesis
      using handle_resp_fields [OF h] assms(2) by (auto simp: timeouts_ok_def MIN_REG_TIMEOUT_def MAX_REG_TIMEOUT_def)
  qed (use assms UdpPacket in \<open>simp add: udp_step_def\<close>)
next
  case UdpTick
  note ok = timeouts_ok_backed_off [OF assms(2)]
  have "udp_tick e (md, w) = (Inr True, md', w')" using assms(1) UdpTick by (simp add: udp_step_def)
  then show ?thesis
  proof (cases rule: udp_tick_cases)
    case (send md1 w1)
    then show ?thesis using ok [of e w] note_fail_fields [of e "backed_off e md w" w _ md1 w1] by (auto simp: timeouts_ok_def)
  qed (use ok in auto)
qed (use assms in \<open>simp_all add: udp_step_def\<close>)

lemma udp_run_timeouts:
  "udp_run ts md = Some md' \<Longrightarrow> timeouts_ok md \<Longrightarrow> timeouts_ok md' \<and> md_host md' = md_host md"
proof (induction ts arbitrary: md)
  case (Cons t ts)
  obtain e w ev where t: "t = (e, w, ev)" by (cases t) auto
  obtain r md1 w1 where s: "udp_step e ev (md, w) = (r, md1, w1)" by (metis prod.exhaust)
  then have "r = Inr True" "udp_run ts md1 = Some md'" using Cons.prems(1) t by (auto split: sum.splits bool.splits)
  then show ?case using Cons.IH [of md1] udp_step_timeouts [of e ev md w md1 w1] Cons.prems(2) s by simp
qed simp

lemma start_udp_timeouts: "timeouts_ok (start_udp e host v4)"
  by (simp add: start_udp_def Let_def timeouts_ok_def MIN_REG_TIMEOUT_def MAX_REG_TIMEOUT_def)

lemma register_peer_sends:
  assumes "register_peer e md w = (Inr (), w')" and "rw_solving w = [] \<or> rw_solving w = md_host md"
  shows "\<exists>m. rw_out w' = rw_out w @ [RzSend (md_host md) m] \<and>
    ((\<exists>i. m = RoRegisterPk i (rv_uuid e) (snd (rv_key_pair e))) \<or> (\<exists>i n. m = RoRegisterPeer i n))"
  using assms
  by (auto simp: register_peer_def register_pk_def rz_send_def own_id_def rz_emit_def Let_def split: option.splits prod.splits if_splits)


section \<open>One server at a time\<close>

lemma own_id_known: "cf_id (cs_config (rw_cfg w)) \<noteq> [] \<Longrightarrow> own_id e w = (cf_id (cs_config (rw_cfg w)), w)"
  by (simp add: own_id_def get_id_def Let_def)

definition known :: "rz_world \<Rightarrow> string \<Rightarrow> string \<Rightarrow> bool" where
  "known w i h \<longleftrightarrow> cf_id (cs_config (rw_cfg w)) = i \<and> rw_solving w = h"

text \<open>The operations that leave the id and the server that is being solved as they are.\<close>

named_theorems known_rules

lemma known_cfg [known_rules]:
  "known w i h \<Longrightarrow> known (with_cfg (update_latency x l) w) i h"
  "known w i h \<Longrightarrow> known (with_cfg (set_key_confirmed b) w) i h"
  "known w i h \<Longrightarrow> known (with_cfg (set_host_key_confirmed x b) w) i h"
  "known w i h \<Longrightarrow> known (with_cfg (config_set_option x y) w) i h"
  "known w i h \<Longrightarrow> known (with_cfg (set_serial n) w) i h"
  "known w i h \<Longrightarrow> known (restart w) i h"
  "known w i h \<Longrightarrow> known (rz_emit eff w) i h"
  by (auto simp: known_def with_cfg_def restart_def rz_emit_def update_latency_def set_key_confirmed_def put_config_def
      put_config2_def set_host_key_confirmed_def config_set_option_def set_serial_def Let_def split: prod.splits)

lemma known_send [known_rules]: "known w i h \<Longrightarrow> rz_send e x m w = (r, w') \<Longrightarrow> known w' i h"
  by (auto simp: rz_send_def known_def rz_emit_def split: option.splits)

lemma known_register [known_rules]:
  "known w i h \<Longrightarrow> i \<noteq> [] \<Longrightarrow> register_pk e x w = (r, w') \<Longrightarrow> known w' i h"
  "known w i h \<Longrightarrow> i \<noteq> [] \<Longrightarrow> register_peer e md w = (r, w') \<Longrightarrow> known w' i h"
  using known_send own_id_known
  by (fastforce simp: register_pk_def register_peer_def known_def Let_def split: if_splits)+

lemma known_connect_send [known_rules]:
  assumes "known w i h" and "\<And>loc m w'. f loc w = (m, w') \<Longrightarrow> known w' i h"
  shows "known (snd (rz_connect_send e md f x w)) i h"
  using assms known_send known_cfg(7)
  by (fastforce simp: rz_connect_send_def split: sum.splits prod.splits)

lemma known_relay [known_rules]: "known w i h \<Longrightarrow> i \<noteq> [] \<Longrightarrow> known (snd (create_relay e md addr relay uuid secure initiate w)) i h"
  unfolding create_relay_def
  by (rule known_connect_send) (auto simp: own_id_known known_def split: if_splits)

lemma known_punch [known_rules]: "known w i h \<Longrightarrow> i \<noteq> [] \<Longrightarrow> known (snd (handle_punch_hole e md addr relay n w)) i h"
proof (cases "n = SYMMETRIC \<or> c2_nat_type (cs_config2 (rw_cfg w)) = SYMMETRIC \<or>
    hm_get (cs_hard (rw_cfg w)) ''disable-tcp-listen'' = Some ''Y''")
  case False
  assume k: "known w i h" "i \<noteq> []"
  show ?thesis
    unfolding handle_punch_hole_def Let_def if_not_P [OF False]
    by (rule known_connect_send [OF k(1)]) (use k in \<open>clarsimp simp: own_id_known known_def rz_emit_def\<close>)
qed (simp add: handle_punch_hole_def known_relay)

lemma known_intranet [known_rules]:
  assumes "known w i h" and "i \<noteq> []"
  shows "known (snd (handle_intranet e md addr relay w)) i h"
proof -
  have "known (snd (handle_intranet_direct e md addr r w)) i h" for r
    using assms
    by (auto simp: handle_intranet_direct_def Let_def split: sum.splits socket_addr.splits
        intro!: known_connect_send) (auto simp: own_id_known known_def)
  then show ?thesis
    using assms by (auto simp: handle_intranet_def Let_def split_beta intro!: known_relay)
qed

lemma known_latency [known_rules]:
  "known w i h \<Longrightarrow> update_latency_udp e (md, w) = (md', w') \<Longrightarrow> known w' i h"
  "known w i h \<Longrightarrow> update_latency_tcp e (md, w) = (md', w') \<Longrightarrow> known w' i h"
  using known_cfg(1) by (auto simp: update_latency_udp_def update_latency_tcp_def Let_def split: if_splits)

lemma known_resp:
  assumes "known w i h" and "i \<noteq> []" and "h \<noteq> []" and "h \<noteq> md_host md"
    and "known (snd (upd (md, w))) i h" and "md_host (fst (upd (md, w))) = md_host md"
    and "\<And>k. msg \<noteq> RzRegisterPkResponse PK_OK k"
  shows "known (snd (snd (handle_resp e upd msg (md, w)))) i h"
proof -
  obtain md1 w1 where u: "upd (md, w) = (md1, w1)" by fastforce
  have k1: "known w1 i h" "md_host md1 = md_host md" using assms(5,6) u by simp_all
  show ?thesis
  proof (cases msg)
    case (RzRegisterPeerResponse b)
    then show ?thesis
      using k1 known_register(1) [of w1 i h e "md_host md1"] assms(2)
      by (simp add: handle_resp_def u split_beta) (metis prod.collapse)
  next
    case (RzRegisterPkResponse r k)
    then show ?thesis
      using k1 assms(3,4,7) by (auto simp: handle_resp_def u handle_uuid_mismatch_def known_def)
  next
    case (RzConfigureUpdate n servers)
    then show ?thesis using assms(1) known_cfg(4,5,6) by (simp add: handle_resp_def Let_def)
  qed (use assms(1,2) known_punch known_relay known_intranet in \<open>auto simp: handle_resp_def\<close>)
qed

text \<open>What happens in the loops of all servers, over UDP and over TCP, each with its own state.\<close>

datatype rz_turn = UdpTurn rz_env udp_event mediator | TcpTurn rz_env tcp_event mediator

fun turn_host :: "rz_turn \<Rightarrow> string" where
  "turn_host (UdpTurn _ _ md) = md_host md"
| "turn_host (TcpTurn _ _ md) = md_host md"

fun rz_turn_step :: "rz_turn \<Rightarrow> rz_world \<Rightarrow> rz_world" where
  "rz_turn_step (UdpTurn e ev md) w = snd (snd (udp_step e ev (md, w)))"
| "rz_turn_step (TcpTurn e ev md) w = snd (snd (tcp_step e ev (md, w)))"

fun confirms :: "rz_turn \<Rightarrow> bool" where
  "confirms (UdpTurn _ (UdpPacket (Some (RzRegisterPkResponse r _))) _) \<longleftrightarrow> r = PK_OK"
| "confirms (TcpTurn _ (TcpBytes (Some (RzRegisterPkResponse r _))) _) \<longleftrightarrow> r = PK_OK"
| "confirms _ \<longleftrightarrow> False"

lemma known_note_fail: "known w i h \<Longrightarrow> note_fail e (md, w) = (r, md', w') \<Longrightarrow> known w' i h"
  using known_cfg(1) by (auto simp: note_fail_def Let_def split: if_splits sum.splits)

lemma known_tick:
  assumes "known w i h" and "i \<noteq> []"
  shows "known (snd (snd (udp_tick e (md, w)))) i h" and "known (snd (snd (tcp_tick e (md, w)))) i h"
proof -
  obtain late due where rd: "reg_due e md = (late, due)" by fastforce
  obtain r md1 w1 where n: "(if late then note_fail e (backed_off e md w, w) else (Inr (), backed_off e md w, w)) = (r, md1, w1)"
    by (metis prod.exhaust)
  have k1: "known w1 i h" using n assms(1) known_note_fail by (auto split: if_splits)
  have "udp_tick e (md, w) = (if rw_exit w then (Inr False, md, w) else if \<not> due then (Inr True, backed_off e md w, w)
      else (case (r, md1, w1) of
        (Inl err, md, w) \<Rightarrow> (Inl err, md, w)
      | (Inr _, md, w) \<Rightarrow> (case register_peer e md w of
            (Inl err, w) \<Rightarrow> (Inl err, md, w)
          | (Inr _, w) \<Rightarrow> (Inr True, md\<lparr>md_last_sent := Some (rv_now e)\<rparr>, w))))"
    unfolding n [symmetric] by (simp add: udp_tick_def rd backed_off_def)
  then show "known (snd (snd (udp_tick e (md, w)))) i h"
    using assms k1 known_register(2) by (auto split: sum.splits prod.splits)
  show "known (snd (snd (tcp_tick e (md, w)))) i h"
    using assms known_register(1) by (auto simp: tcp_tick_def Let_def split: sum.splits prod.splits)
qed

lemma known_turn:
  assumes "known w i h" and "i \<noteq> []" and "h \<noteq> []" and "turn_host t \<noteq> h" and "\<not> confirms t"
  shows "known (rz_turn_step t w) i h"
proof (cases t)
  case (UdpTurn e ev md)
  have msg: "known (snd (snd (handle_resp e (update_latency_udp e) m (md, w)))) i h" if "ev = UdpPacket (Some m)" for m
  proof (rule known_resp [OF assms(1-3)])
    obtain md1 w1 where u: "update_latency_udp e (md, w) = (md1, w1)" by fastforce
    show "known (snd (update_latency_udp e (md, w))) i h" using known_latency(1) [OF assms(1) u] u by simp
    show "md_host (fst (update_latency_udp e (md, w))) = md_host md" using update_latency_udp_fields(1) [OF u] u by simp
  qed (use assms(4,5) UdpTurn that in auto)
  show ?thesis
  proof (cases ev)
    case (UdpPacket p)
    show ?thesis
    proof (cases p)
      case (Some m)
      have "snd (udp_step e ev (md, w)) = snd (handle_resp e (update_latency_udp e) m (md, w))"
        by (simp add: udp_step_def UdpPacket Some split: sum.splits prod.splits)
      then show ?thesis using msg UdpPacket Some UdpTurn by simp
    qed (use assms(1) UdpTurn UdpPacket in \<open>simp add: udp_step_def\<close>)
  qed (use assms(1,2) UdpTurn known_tick(1) in \<open>simp_all add: udp_step_def\<close>)
next
  case (TcpTurn e ev md)
  have msg: "known (snd (snd (handle_resp e (update_latency_tcp e) m (md\<lparr>md_last_recv := n\<rparr>, w)))) i h"
    if "ev = TcpBytes (Some m)" for m n
  proof (rule known_resp [OF assms(1-3)])
    obtain md1 w1 where u: "update_latency_tcp e (md\<lparr>md_last_recv := n\<rparr>, w) = (md1, w1)" by fastforce
    show "known (snd (update_latency_tcp e (md\<lparr>md_last_recv := n\<rparr>, w))) i h" using known_latency(2) [OF assms(1) u] u by simp
    show "md_host (fst (update_latency_tcp e (md\<lparr>md_last_recv := n\<rparr>, w))) = md_host (md\<lparr>md_last_recv := n\<rparr>)"
      by (simp add: update_latency_tcp_def Let_def)
  qed (use assms(4,5) TcpTurn that in auto)
  show ?thesis
  proof (cases ev)
    case (TcpBytes p)
    show ?thesis
    proof (cases p)
      case (Some m)
      have "snd (tcp_step e ev (md, w)) = snd (handle_resp e (update_latency_tcp e) m (md\<lparr>md_last_recv := rv_now e\<rparr>, w))"
        by (simp add: tcp_step_def TcpBytes Some split: sum.splits prod.splits)
      then show ?thesis using msg TcpBytes Some TcpTurn by simp
    qed (use assms(1) TcpTurn TcpBytes in \<open>simp add: tcp_step_def\<close>)
  next
    case TcpHeartbeat
    then show ?thesis
      using assms(1) TcpTurn known_send by (auto simp: tcp_step_def Let_def split: sum.splits prod.splits)
  qed (use assms(1,2) TcpTurn known_tick(2) in \<open>simp_all add: tcp_step_def\<close>)
qed

text \<open>C16: Only one server at a time can make a host change its id. While the mismatch of keys with one
  server is being solved, nothing that the loops of the other servers do, over UDP or TCP, changes the id
  or takes the matter over, until some server confirms a key.\<close>

theorem one_server_at_a_time:
  assumes "rw_solving w = h" and "h \<noteq> []" and "cf_id (cs_config (rw_cfg w)) = i" and "i \<noteq> []"
    and "\<forall>t \<in> set ts. turn_host t \<noteq> h \<and> \<not> confirms t"
  shows "rw_solving (fold rz_turn_step ts w) = h \<and> cf_id (cs_config (rw_cfg (fold rz_turn_step ts w))) = i"
proof -
  have "known w i h" using assms(1,3) by (simp add: known_def)
  then have "known (fold rz_turn_step ts w) i h"
    using assms(5)
  proof (induction ts arbitrary: w)
    case (Cons t ts)
    then show ?case using known_turn [OF Cons.prems(1) assms(4,2)] by simp
  qed simp
  then show ?thesis by (simp add: known_def)
qed

section \<open>A registration comes to an end\<close>

lemma with_cfg_fields [simp]: "rw_solving (with_cfg f w) = rw_solving w" "rw_out (with_cfg f w) = rw_out w"
  by (simp_all add: with_cfg_def)

lemma id_after [simp]:
  "cf_id (cs_config (rw_cfg (with_cfg (set_key_confirmed b) w))) = cf_id (cs_config (rw_cfg w))"
  "cf_id (cs_config (rw_cfg (with_cfg (set_host_key_confirmed h b) w))) = cf_id (cs_config (rw_cfg w))"
  "cf_id (cs_config (rw_cfg (with_cfg (update_latency h l) w))) = cf_id (cs_config (rw_cfg w))"
  by (auto simp: with_cfg_def set_key_confirmed_def put_config_def set_host_key_confirmed_def update_latency_def
      put_config2_def Let_def split: prod.splits)

lemma update_id_new:
  "cf_id (cs_config c) \<noteq> [] \<Longrightarrow> cf_id (cs_config (update_id n mac c)) = show_nat (1000000000 + n mod 1000000000)"
  by (simp add: update_id_def get_id_def set_id_def put_config_def Let_def)

lemma confirmed_after:
  "cf_key_confirmed (cs_config (set_host_key_confirmed h True (set_key_confirmed True c)))"
  "get_host_key_confirmed h (set_host_key_confirmed h True c)"
  by (auto simp: set_host_key_confirmed_def set_key_confirmed_def put_config_def get_host_key_confirmed_def Let_def)

lemma id_confirmed:
  "cf_id (cs_config (set_host_key_confirmed h True (set_key_confirmed True c))) = cf_id (cs_config c)"
  by (simp add: set_host_key_confirmed_def set_key_confirmed_def put_config_def Let_def)

lemma latency_same:
  assumes "update_latency_udp e (md, w) = (md', w')"
  shows "rw_solving w' = rw_solving w" "rw_out w' = rw_out w" "cf_id (cs_config (rw_cfg w')) = cf_id (cs_config (rw_cfg w))"
  using assms by (auto simp: update_latency_udp_def Let_def split: if_splits)

definition registered :: "mediator \<Rightarrow> string \<Rightarrow> rz_world \<Rightarrow> bool" where
  "registered md i w \<longleftrightarrow> cf_id (cs_config (rw_cfg w)) = i \<and> cf_key_confirmed (cs_config (rw_cfg w)) \<and>
     get_host_key_confirmed (md_host_prefix md) (rw_cfg w) \<and> rw_solving w = []"

lemma answer_ok:
  assumes "udp_step e (UdpPacket (Some (RzRegisterPkResponse PK_OK k))) (md, w) = (r, md', w')"
  shows "r = Inr True \<and> registered md' (cf_id (cs_config (rw_cfg w))) w' \<and> md_host_prefix md' = md_host_prefix md"
proof -
  obtain md1 w1 where u: "update_latency_udp e (md, w) = (md1, w1)" by fastforce
  note s = latency_same [OF u] and f = update_latency_udp_fields [OF u]
  show ?thesis
    using assms s(3) f(2) confirmed_after id_confirmed
    by (auto simp: udp_step_def handle_resp_def u registered_def with_cfg_def Let_def)
qed

lemma answer_mismatch:
  assumes "udp_step e (UdpPacket (Some (RzRegisterPkResponse UUID_MISMATCH k))) (md, w) = (r, md', w')"
    and "rw_solving w = [] \<or> rw_solving w = md_host md" and "cf_id (cs_config (rw_cfg w)) \<noteq> []" and "rv_send e = None"
  defines "i \<equiv> show_nat (1000000000 + rv_random e mod 1000000000)"
  shows "r = Inr True \<and> cf_id (cs_config (rw_cfg w')) = i \<and> rw_solving w' = md_host md' \<and> md_host md' = md_host md \<and>
    rw_out w' = rw_out w @ [RzSend (md_host md) (RoRegisterPk i (rv_uuid e) (snd (rv_key_pair e)))]"
proof -
  obtain md1 w1 where u: "update_latency_udp e (md, w) = (md1, w1)" by fastforce
  note s = latency_same [OF u] and f = update_latency_udp_fields [OF u]
  have new: "cf_id (cs_config (update_id (rv_random e) (rv_mac e) (set_key_confirmed False (rw_cfg w1)))) = i"
    using update_id_new [of "set_key_confirmed False (rw_cfg w1)"] id_after(1) [of False w1] s(3) assms(3)
    by (simp add: with_cfg_def i_def)
  define w2 where "w2 = with_cfg (update_id (rv_random e) (rv_mac e)) (with_cfg (set_key_confirmed False) w1)\<lparr>rw_solving := md_host md\<rparr>"
  have w2: "cf_id (cs_config (rw_cfg w2)) = i" "rw_solving w2 = md_host md" "rw_out w2 = rw_out w"
    using new s(2) by (simp_all add: w2_def with_cfg_def)
  have "i \<noteq> []" by (simp add: i_def)
  then have "handle_uuid_mismatch e (md_host md1) w1
      = (Inr (), rz_emit (RzSend (md_host md) (RoRegisterPk i (rv_uuid e) (snd (rv_key_pair e)))) w2)"
    using assms(2,4) s(1) f(1) w2(1) own_id_known [of w2 e]
    by (auto simp: handle_uuid_mismatch_def register_pk_def rz_send_def Let_def simp flip: w2_def)
  moreover have "UUID_MISMATCH \<noteq> PK_OK" by (simp add: UUID_MISMATCH_def PK_OK_def)
  ultimately show ?thesis
    using assms(1) w2 f(1) by (auto simp: udp_step_def handle_resp_def u rz_emit_def)
qed

text \<open>C19: A new host gets registered. When the id of an unregistered host is free at the server, the first
  answer leaves the host registered with that id; when it is taken and the new random id is free, the host
  asks for the new id at once, and the second answer leaves it registered with that.\<close>

theorem registration_completes:
  assumes "cf_id (cs_config (rw_cfg w)) = i" and "i \<noteq> []" and "rw_solving w = [] \<or> rw_solving w = md_host md"
    and "answer = (\<lambda>i. RzRegisterPkResponse (if taken i then UUID_MISMATCH else PK_OK) keep)"
    and "udp_step e (UdpPacket (Some (answer i))) (md, w) = (r, md1, w1)" and "rv_send e = None"
    and "j = show_nat (1000000000 + rv_random e mod 1000000000)"
    and "udp_step e' (UdpPacket (Some (answer j))) (md1, w1) = (r', md2, w2)"
  shows "r = Inr True \<and> (if \<not> taken i then registered md1 i w1
    else rw_out w1 = rw_out w @ [RzSend (md_host md) (RoRegisterPk j (rv_uuid e) (snd (rv_key_pair e)))] \<and>
      (\<not> taken j \<longrightarrow> r' = Inr True \<and> registered md2 j w2))"
proof (cases "taken i")
  case True
  then have mm: "udp_step e (UdpPacket (Some (RzRegisterPkResponse UUID_MISMATCH keep))) (md, w) = (r, md1, w1)"
    using assms(4,5) by simp
  have first: "r = Inr True" "cf_id (cs_config (rw_cfg w1)) = j"
    "rw_out w1 = rw_out w @ [RzSend (md_host md) (RoRegisterPk j (rv_uuid e) (snd (rv_key_pair e)))]"
    using answer_mismatch [OF mm assms(3) _ assms(6)] assms(1,2,7) by simp_all
  have "r' = Inr True \<and> registered md2 j w2" if "\<not> taken j"
    using answer_ok [of e' keep md1 w1 r' md2 w2] assms(4,8) that first(2) by simp
  then show ?thesis using True first(1,3) by simp
next
  case False
  then show ?thesis using answer_ok [of e keep md w r md1 w1] assms(1,4,5) by simp
qed

section \<open>Over TCP\<close>

lemma host_confirmed_after:
  "get_host_key_confirmed h (rw_cfg (with_cfg (set_host_key_confirmed h' True) w)) \<longleftrightarrow> h = h' \<or> get_host_key_confirmed h (rw_cfg w)"
  by (auto simp: with_cfg_def set_host_key_confirmed_def get_host_key_confirmed_def put_config_def)

definition unconfirmed :: "string \<Rightarrow> rz_world \<Rightarrow> bool" where
  "unconfirmed h w \<longleftrightarrow> \<not> get_host_key_confirmed h (rw_cfg w)"

lemma unconfirmed_cfg:
  "unconfirmed h w \<Longrightarrow> unconfirmed h (with_cfg (update_latency x l) w)"
  "unconfirmed h w \<Longrightarrow> unconfirmed h (with_cfg (set_key_confirmed b) w)"
  "unconfirmed h w \<Longrightarrow> unconfirmed h (with_cfg (config_set_option x y) w)"
  "unconfirmed h w \<Longrightarrow> unconfirmed h (with_cfg (set_serial n) w)"
  "unconfirmed h w \<Longrightarrow> unconfirmed h (with_cfg (update_id rnd mac) w)"
  "unconfirmed h w \<Longrightarrow> unconfirmed h (restart w)"
  "unconfirmed h w \<Longrightarrow> unconfirmed h (rz_emit eff w)"
  "unconfirmed h w \<Longrightarrow> own_id e w = (i, w') \<Longrightarrow> unconfirmed h w'"
  "unconfirmed h w \<Longrightarrow> rz_send e x m w = (r, w') \<Longrightarrow> unconfirmed h w'"
  by (auto simp: unconfirmed_def with_cfg_def restart_def rz_emit_def update_latency_def set_key_confirmed_def put_config_def
      put_config2_def config_set_option_def set_serial_def update_id_def set_id_def get_id_def own_id_def rz_send_def
      get_host_key_confirmed_def Let_def split: prod.splits option.splits if_splits)

lemma unconfirmed_register:
  "unconfirmed h w \<Longrightarrow> unconfirmed h (snd (register_pk e x w))"
  by (auto simp: register_pk_def Let_def split_beta intro: unconfirmed_cfg(8,9) prod.collapse [symmetric])

lemma unconfirmed_connect_send:
  assumes "unconfirmed h w" and "\<And>loc. unconfirmed h (snd (f loc w))"
  shows "unconfirmed h (snd (rz_connect_send e md f x w))"
proof (cases "rv_connect e")
  case (Inr loc)
  obtain m w1 where f: "f loc w = (m, w1)" by fastforce
  obtain r w2 where s: "rz_send e (md_host md) m w1 = (r, w2)" by fastforce
  have "unconfirmed h w1" using assms(2) [of loc] f by simp
  then have w2: "unconfirmed h w2" using s by (rule unconfirmed_cfg(9))
  show ?thesis using unconfirmed_cfg(7) [OF w2] w2 by (simp add: rz_connect_send_def Inr f s split: sum.splits)
qed (simp add: rz_connect_send_def assms(1))

lemma unconfirmed_solving [simp]: "unconfirmed h (w\<lparr>rw_solving := x\<rparr>) = unconfirmed h w"
  by (simp add: unconfirmed_def)

lemma unconfirmed_own_id: "unconfirmed h w \<Longrightarrow> unconfirmed h (snd (own_id e w))"
  by (auto intro: unconfirmed_cfg(8) prod.collapse [symmetric])

lemma unconfirmed_relay: "unconfirmed h w \<Longrightarrow> unconfirmed h (snd (create_relay e md addr relay uuid secure initiate w))"
  unfolding create_relay_def
  by (rule unconfirmed_connect_send) (auto simp: split_beta unconfirmed_own_id)

lemma unconfirmed_punch: "unconfirmed h w \<Longrightarrow> unconfirmed h (snd (handle_punch_hole e md addr relay n w))"
proof (cases "n = SYMMETRIC \<or> c2_nat_type (cs_config2 (rw_cfg w)) = SYMMETRIC \<or>
    hm_get (cs_hard (rw_cfg w)) ''disable-tcp-listen'' = Some ''Y''")
  case False
  assume w: "unconfirmed h w"
  show ?thesis
    unfolding handle_punch_hole_def Let_def if_not_P [OF False]
    by (rule unconfirmed_connect_send [OF w]) (simp add: split_beta unconfirmed_own_id unconfirmed_cfg(7) w)
qed (simp add: handle_punch_hole_def unconfirmed_relay)

lemma unconfirmed_intranet: "unconfirmed h w \<Longrightarrow> unconfirmed h (snd (handle_intranet e md addr relay w))"
proof -
  assume w: "unconfirmed h w"
  have "unconfirmed h (snd (handle_intranet_direct e md addr r w))" for r
    using w by (auto simp: handle_intranet_direct_def Let_def split_beta split: sum.splits socket_addr.splits
        intro!: unconfirmed_connect_send unconfirmed_own_id)
  then show ?thesis
    using w by (auto simp: handle_intranet_def Let_def split_beta intro!: unconfirmed_relay)
qed

lemma tcp_step_unconfirmed:
  assumes "unconfirmed (md_host md) w" and "md_host_prefix md \<noteq> md_host md" and "tcp_step e ev (md, w) = (r, md', w')"
  shows "unconfirmed (md_host md) w' \<and> md_host md' = md_host md \<and> md_host_prefix md' = md_host_prefix md"
proof -
  define w1 where "w1 = with_cfg (update_latency (md_host md)
     (of_int (case md_last_sent md of Some t \<Rightarrow> elapsed_us e t | None \<Rightarrow> 0))) w"
  have u: "update_latency_tcp e (md\<lparr>md_last_recv := n\<rparr>, w) = (md\<lparr>md_last_recv := n\<rparr>, w1)" for n
    by (simp add: update_latency_tcp_def w1_def)
  have w1: "unconfirmed (md_host md) w1" unfolding w1_def by (rule unconfirmed_cfg(1) [OF assms(1)])
  have resp: "unconfirmed (md_host md) (snd (snd (handle_resp e (update_latency_tcp e) m (md\<lparr>md_last_recv := n\<rparr>, w)))) \<and>
      md_host (fst (snd (handle_resp e (update_latency_tcp e) m (md\<lparr>md_last_recv := n\<rparr>, w)))) = md_host md \<and>
      md_host_prefix (fst (snd (handle_resp e (update_latency_tcp e) m (md\<lparr>md_last_recv := n\<rparr>, w)))) = md_host_prefix md" for m n
  proof (cases m)
    case (RzRegisterPeerResponse b)
    then show ?thesis using w1 unconfirmed_register by (auto simp: handle_resp_def u split_beta)
  next
    case (RzRegisterPkResponse k ka)
    have "unconfirmed (md_host md) (with_cfg (set_host_key_confirmed (md_host_prefix md) True) (with_cfg (set_key_confirmed True) w1))"
      using assms(2) unconfirmed_cfg(2) [OF w1] by (simp add: unconfirmed_def host_confirmed_after)
    moreover have "unconfirmed (md_host md) (snd (handle_uuid_mismatch e (md_host md) w1))"
      unfolding handle_uuid_mismatch_def Let_def
      by (auto intro!: unconfirmed_register unconfirmed_cfg(2,5) w1)
    ultimately show ?thesis using RzRegisterPkResponse w1
      by (auto simp: handle_resp_def u Let_def unconfirmed_def split_beta split: sum.splits)
  next
    case (RzConfigureUpdate n servers)
    then show ?thesis using unconfirmed_cfg(3,4,6) assms(1) by (simp add: handle_resp_def Let_def)
  qed (use assms(1) unconfirmed_punch unconfirmed_relay unconfirmed_intranet in \<open>auto simp: handle_resp_def\<close>)
  show ?thesis
  proof (cases ev)
    case (TcpBytes p)
    then show ?thesis
      using assms(1,3) resp by (cases p) (auto simp: tcp_step_def Let_def prod_eq_iff split: sum.splits prod.splits)
  next
    case TcpHeartbeat
    then show ?thesis
      using assms(1,3) unconfirmed_cfg(9) by (auto simp: tcp_step_def Let_def split: sum.splits prod.splits)
  next
    case TcpTick
    then show ?thesis
      using assms(1,3) unconfirmed_register [OF assms(1), of e "md_host md"]
      by (auto simp: tcp_step_def tcp_tick_def Let_def split: sum.splits prod.splits if_splits)
  qed (use assms(1,3) in \<open>auto simp: tcp_step_def Let_def\<close>)
qed

fun tcp_run :: "(rz_env \<times> tcp_event) list \<Rightarrow> mediator \<times> rz_world \<Rightarrow> (mediator \<times> rz_world) option" where
  "tcp_run [] x = Some x"
| "tcp_run ((e, ev) # ts) x = (case tcp_step e ev x of (Inr True, y) \<Rightarrow> tcp_run ts y | _ \<Rightarrow> None)"

text \<open>Over TCP a server that is named by its domain is never taken as confirmed, however often it
  confirms the key: its answers are noted under the first part of its name, the loop looks under the whole.
  So the public key is sent again on every tick that comes at least 15 seconds after the last.\<close>

theorem tcp_registers_again:
  assumes "start_tcp e0 host v4 w0 = (md0, w1)" and "get_host_prefix (md_host md0) \<noteq> md_host md0"
    and "tcp_run ts (md0, w1) = Some (md, w)" and "tcp_step e TcpTick (md, w) = (Inr True, md', w')"
    and "case md_last_sent md of Some t \<Rightarrow> 15000 \<le> elapsed_ms e t | None \<Rightarrow> True"
  shows "\<exists>i. rw_out w' = rw_out w @ [RzSend (md_host md) (RoRegisterPk i (rv_uuid e) (snd (rv_key_pair e)))]"
proof -
  have "unconfirmed (md_host md0) w1" "md_host_prefix md0 \<noteq> md_host md0"
    using assms(1,2)
    by (auto simp: start_tcp_def start_udp_def Let_def unconfirmed_def with_cfg_def set_host_key_confirmed_def
        get_host_key_confirmed_def put_config_def split: if_splits)
  then have inv: "unconfirmed (md_host md) w"
    using assms(3)
  proof (induction ts arbitrary: md0 w1)
    case (Cons t ts)
    obtain e ev where t: "t = (e, ev)" by (cases t)
    obtain r md1 w2 where s: "tcp_step e ev (md0, w1) = (r, md1, w2)" by (metis prod.exhaust)
    then have "tcp_run ts (md1, w2) = Some (md, w)" using Cons.prems(3) t by (auto split: sum.splits bool.splits)
    then show ?case using Cons.IH [of md1 w2] tcp_step_unconfirmed [OF Cons.prems(1,2) s] Cons.prems(2) by auto
  qed simp
  have "REG_INTERVAL \<le> (case md_last_sent md of Some t \<Rightarrow> elapsed_ms e t | None \<Rightarrow> REG_INTERVAL)"
    using assms(5) by (simp add: REG_INTERVAL_def split: option.splits)
  then show ?thesis
    using assms(4) inv
    by (auto simp: tcp_step_def tcp_tick_def unconfirmed_def register_pk_def rz_send_def rz_emit_def own_id_def Let_def
        split: if_splits sum.splits prod.splits option.splits)
qed

section \<open>Who is online\<close>

definition picked :: "(nat \<Rightarrow> bool) \<Rightarrow> nat \<Rightarrow> 'a list \<Rightarrow> 'a list" where
  "picked P k xs = map (\<lambda>i. xs ! (i - k)) (filter P [k..<k + length xs])"

lemma picked_simps:
  "picked P k [] = []"
  "picked P k (x # xs) = (if P k then x # picked P (Suc k) xs else picked P (Suc k) xs)"
proof -
  have "map (\<lambda>i. (x # xs) ! (i - k)) (filter P [Suc k..<Suc (k + length xs)])
      = map (\<lambda>i. xs ! (i - Suc k)) (filter P [Suc k..<Suc (k + length xs)])"
    by (rule map_cong) (auto simp: nth_Cons')
  moreover have "[k..<k + length (x # xs)] = k # [Suc k..<Suc (k + length xs)]"
    by (simp add: upt_conv_Cons del: upt_Suc)
  ultimately show "picked P k (x # xs) = (if P k then x # picked P (Suc k) xs else picked P (Suc k) xs)"
    by (simp add: picked_def del: upt_Suc)
qed (simp add: picked_def)

lemma split_online_picked:
  "split_online states k ids =
    (if ids = [] \<or> k + length ids \<le> 8 * length states
     then Some (picked (\<lambda>i. bit (states ! (i div 8)) (7 - i mod 8)) k ids,
                picked (\<lambda>i. \<not> bit (states ! (i div 8)) (7 - i mod 8)) k ids)
     else None)"
proof (induction ids arbitrary: k)
  case (Cons x xs)
  have "k div 8 < length states \<longleftrightarrow> k < 8 * length states" by (simp add: div_less_iff_less_mult mult.commute)
  then show ?case using Cons.IH [of "Suc k"] by (auto simp: online_bit_def picked_simps)
qed (simp add: picked_simps)

text \<open>C34: The list of online states is read as the protocol means it. If the answer has a bit for every id,
  the ids with a set bit, from the high end of each byte, are online and the others offline, both in the
  order asked; an answer that is too short ends in a panic.\<close>

theorem online_states_exact:
  "split_online states 0 ids =
    (if length ids \<le> 8 * length states
     then (let on = (\<lambda>i. bit (states ! (i div 8)) (7 - i mod 8))
           in Some (map ((!) ids) (filter on [0..<length ids]), map ((!) ids) (filter (\<lambda>i. \<not> on i) [0..<length ids])))
     else None)"
  using split_online_picked [of states 0 ids] by (auto simp: picked_def)

section \<open>Witnesses\<close>

definition demo_rz_env :: rz_env where
  "demo_rz_env =
     \<lparr>rv_now = 5000000, rv_mac = None, rv_random = 7, rv_key_pair = ([1], [2]), rv_uuid = [3], rv_new_uuid = ''u'',
      rv_version = ''1'', rv_build_server = [], rv_clock = 0, rv_rebind = Inr None, rv_send = None,
      rv_connect = Inr (SocketV4 [10, 0, 0, 1] 9)\<rparr>"

definition demo_rz_world :: rz_world where
  "demo_rz_world =
     \<lparr>rw_cfg = demo_config_state\<lparr>cs_config := config_default\<lparr>cf_id := ''i''\<rparr>\<rparr>, rw_solving = [], rw_exit = False,
      rw_restarted = False, rw_out = []\<rparr>"

definition demo_mediator :: mediator where
  "demo_mediator = start_udp demo_rz_env ''h.net'' True"

lemma demo_mediator_fields:
  "md_host demo_mediator = check_port ''h.net'' (int RENDEZVOUS_PORT)" "md_last_sent demo_mediator = None"
  "md_last_resp demo_mediator = None" "md_keep_alive demo_mediator = 60000" "md_last_recv demo_mediator = 5000000"
  by (simp_all add: demo_mediator_def start_udp_def Let_def DEFAULT_KEEP_ALIVE_def demo_rz_env_def)

lemma demo_mediator_host: "md_host demo_mediator = ''h.net:'' @ show_int 21116"
  unfolding demo_mediator_fields
  by (simp add: check_port_def is_ipv6_str_def is_hextets_def is_bracketed_def RENDEZVOUS_PORT_def)

lemma demo_rz_fields:
  "rw_solving demo_rz_world = []" "\<not> rw_exit demo_rz_world" "rv_send demo_rz_env = None"
  "cf_id (cs_config (rw_cfg demo_rz_world)) = ''i''" "\<not> cf_key_confirmed (cs_config (rw_cfg demo_rz_world))"
  "rw_out demo_rz_world = []"
  by (simp_all add: demo_rz_world_def demo_rz_env_def config_default_def)


theorem one_server_at_a_time_witness:
  "(let w = fold rz_turn_step
       [UdpTurn demo_rz_env (UdpPacket (Some (RzRegisterPkResponse UUID_MISMATCH 0))) demo_mediator,
        TcpTurn demo_rz_env TcpTick demo_mediator] (demo_rz_world\<lparr>rw_solving := ''other''\<rparr>)
    in rw_solving w = ''other'' \<and> cf_id (cs_config (rw_cfg w)) = ''i'')"
proof -
  have "md_host demo_mediator \<noteq> ''other''" by (simp add: demo_mediator_host)
  then show ?thesis
    unfolding Let_def
    by (intro one_server_at_a_time) (simp_all add: demo_rz_fields UUID_MISMATCH_def PK_OK_def)
qed

theorem registration_completes_witness:
  "\<exists>md1 w1 md2 w2. udp_step demo_rz_env (UdpPacket (Some (RzRegisterPkResponse UUID_MISMATCH 0))) (demo_mediator, demo_rz_world)
      = (Inr True, md1, w1) \<and>
    udp_step demo_rz_env (UdpPacket (Some (RzRegisterPkResponse PK_OK 0))) (md1, w1) = (Inr True, md2, w2) \<and>
    registered md2 (show_nat 1000000007) w2"
proof -
  let ?answer = "\<lambda>i. RzRegisterPkResponse (if i = ''i'' then UUID_MISMATCH else PK_OK) 0"
  have new: "show_nat 1000000007 \<noteq> ''i''"
  proof
    assume "show_nat 1000000007 = ''i''"
    then have "list_all is_digit ''i''" using show_nat_digits [of 1000000007] by (simp only:)
    then show False by (simp add: is_digit_def)
  qed
  have j: "show_nat 1000000007 = show_nat (1000000000 + rv_random demo_rz_env mod 1000000000)" by (simp add: demo_rz_env_def)
  obtain r md1 w1 where s1: "udp_step demo_rz_env (UdpPacket (Some (?answer ''i''))) (demo_mediator, demo_rz_world) = (r, md1, w1)"
    by (metis prod.exhaust)
  obtain r' md2 w2 where s2: "udp_step demo_rz_env (UdpPacket (Some (?answer (show_nat 1000000007)))) (md1, w1) = (r', md2, w2)"
    by (metis prod.exhaust)
  from registration_completes [where taken = "\<lambda>i. i = ''i''", OF demo_rz_fields(4) _ _ refl s1 demo_rz_fields(3) j s2]
  show ?thesis using s1 s2 new demo_rz_fields(1) by auto
qed

theorem tcp_registers_again_witness:
  "\<exists>md w md' w' i. start_tcp demo_rz_env ''h.net'' True demo_rz_world = (md, w) \<and>
     tcp_step demo_rz_env TcpTick (md, w) = (Inr True, md', w') \<and>
     rw_out w' = rw_out w @ [RzSend (md_host md) (RoRegisterPk i [3] [2])]"
proof -
  obtain w where w: "start_tcp demo_rz_env ''h.net'' True demo_rz_world = (demo_mediator, w)"
    by (simp add: start_tcp_def demo_mediator_def Let_def)
  have "get_host_prefix (md_host demo_mediator) = ''h''"
    by (simp add: demo_mediator_host get_host_prefix_def parse_i32_def parse_int_def is_digit_def split: list.splits)
  then have prefix: "get_host_prefix (md_host demo_mediator) \<noteq> md_host demo_mediator" by (simp add: demo_mediator_host)
  obtain r md' w' where s: "tcp_step demo_rz_env TcpTick (demo_mediator, w) = (r, md', w')" by (metis prod.exhaust)
  have "\<not> rw_exit w" "\<not> cf_key_confirmed (cs_config (rw_cfg w))"
    using w demo_rz_fields by (auto simp: start_tcp_def with_cfg_def set_host_key_confirmed_def put_config_def Let_def split: if_splits)
  then have "r = Inr True"
    using s by (auto simp: tcp_step_def tcp_tick_def demo_mediator_fields REG_INTERVAL_def register_pk_def rz_send_def
        demo_rz_fields demo_rz_env_def Let_def split: prod.splits)
  then show ?thesis
    using tcp_registers_again [OF w prefix, of "[]" demo_mediator w demo_rz_env md' w'] s w
    by (auto simp: demo_mediator_fields demo_rz_env_def)
qed

end
