(* ===== verification/Client_Connect.thy ===== *)
theory Client_Connect
  imports Key_Exchange Net_Address Client_Login
begin

text \<open>
  How the controlling side reaches its peer (\<open>Client::start\<close>, \<open>connect\<close>, \<open>request_relay\<close>,
  \<open>create_relay\<close> in \<open>src/client.rs\<close>): by address, or by id over the rendezvous server, directly or over a
  relay. The network is a script: what the next connections and the next requests bring.
\<close>

section \<open>The network\<close>

datatype dial_target = ToName string | ToAddr socket_addr

datatype dial_effect =
    DlConnect dial_target "socket_addr option" u64     \<comment> \<open>target, local address, timeout\<close>
  | DlSecureTcp string                                 \<comment> \<open>\<open>secure_tcp\<close>, whose error is ignored\<close>
  | DlRefresh                                          \<comment> \<open>\<open>refresh_rendezvous_server\<close>\<close>
  | DlPunchHole string string i32 string conn_type     \<comment> \<open>id, token, NAT type, key, kind\<close>
  | DlRequestRelay string string string string bool    \<comment> \<open>id, token, uuid, relay, secure\<close>
  | DlJoinRelay string string string conn_type         \<comment> \<open>key, id, uuid, kind\<close>

datatype nat_or_local = PhNat i32 | PhLocal bool | PhNone

record punch_response =
  ph_socket_addr :: bytes
  ph_pk :: bytes
  ph_failure :: i32
  ph_relay_server :: string
  ph_union :: nat_or_local
  ph_other_failure :: string

datatype id_or_pk = RrId string | RrPk bytes | RrNone

record relay_response =
  rr_uuid :: string
  rr_relay_server :: string
  rr_union :: id_or_pk
  rr_refuse_reason :: string

datatype rz_answer = AnPunchHole punch_response | AnRelay relay_response | AnOther

text \<open>The script and what has happened so far. A request that cannot be sent is an error.\<close>

record dial =
  dl_client :: client
  dl_connects :: "(io_error + socket_addr) list"
  dl_answers :: "(io_error + rz_answer option) list"
  dl_out :: "dial_effect list"

record dial_env =
  de_sodium :: sodium
  de_wire :: wire
  de_fresh :: "bytes \<times> bytes"
  de_arrival :: arrival
  de_incoming_only :: bool
  de_rendezvous :: "string \<times> string list"    \<comment> \<open>what the main process answers\<close>
  de_nat_type :: i32
  de_nat_type_later :: i32
  de_punch_ms :: u64
  de_uuid :: "nat \<Rightarrow> string"
  de_join :: "io_error option"

type_synonym 'a dialled = "(io_error + 'a) \<times> dial"

definition CONNECT_TIMEOUT :: u64 where "CONNECT_TIMEOUT = 18000"
definition RELAY_PORT :: int where "RELAY_PORT = 21117"

definition dial_emit :: "dial_effect \<Rightarrow> dial \<Rightarrow> dial" where
  "dial_emit x d = d\<lparr>dl_out := dl_out d @ [x]\<rparr>"

definition dial_lc :: "(client \<Rightarrow> client) \<Rightarrow> dial \<Rightarrow> dial" where
  "dial_lc f d = d\<lparr>dl_client := f (dl_client d)\<rparr>"

definition connect_tcp :: "dial_target \<Rightarrow> socket_addr option \<Rightarrow> u64 \<Rightarrow> dial \<Rightarrow> socket_addr dialled" where
  "connect_tcp dest loc ms d =
     (let d' = dial_emit (DlConnect dest loc ms) (d\<lparr>dl_connects := tl (dl_connects d)\<rparr>)
      in case dl_connects d of x # _ \<Rightarrow> (x, d') | [] \<Rightarrow> (Inl (OtherError ''Failed to connect''), d'))"

definition ask_server :: "dial_effect \<Rightarrow> dial \<Rightarrow> (rz_answer option) dialled" where
  "ask_server x d =
     (let d' = dial_emit x (d\<lparr>dl_answers := tl (dl_answers d)\<rparr>)
      in case dl_answers d of a # _ \<Rightarrow> (a, d') | [] \<Rightarrow> (Inr None, d'))"

fun err_text :: "io_error \<Rightarrow> string" where
  "err_text (InvalidData s) = s"
| "err_text (InvalidInput s) = s"
| "err_text (OtherError s) = s"

definition update_direct :: "bool option \<Rightarrow> dial \<Rightarrow> dial" where
  "update_direct b = dial_lc (\<lambda>c. c\<lparr>lc_direct := b\<rparr>)"

section \<open>Over a relay\<close>

definition dial_relay :: "dial_env \<Rightarrow> string \<Rightarrow> string \<Rightarrow> string \<Rightarrow> string \<Rightarrow> conn_type \<Rightarrow> bool \<Rightarrow> dial \<Rightarrow> framed_stream dialled" where
  "dial_relay e peer uuid relay_server key ty ipv4 d =
     (case connect_tcp (ToName (ipv4_to_ipv6 (check_port relay_server RELAY_PORT) ipv4)) None CONNECT_TIMEOUT d of
        (Inl _, d) \<Rightarrow> (Inl (OtherError ''Failed to connect to relay server''), d)
      | (Inr loc, d) \<Rightarrow>
          (let d = dial_emit (DlJoinRelay key peer uuid ty) d
           in case de_join e of Some err \<Rightarrow> (Inl err, d) | None \<Rightarrow> (Inr (stream_from loc), d)))"

fun is_v4 :: "socket_addr \<Rightarrow> bool" where
  "is_v4 (SocketV4 _ _) = True"
| "is_v4 (SocketV6 _ _ _ _) = False"

text \<open>\<open>request_relay\<close>: up to three attempts, each with a connection and a uuid of its own.\<close>

fun request_relay_loop ::
    "nat \<Rightarrow> dial_env \<Rightarrow> string \<Rightarrow> string \<Rightarrow> string \<Rightarrow> bool \<Rightarrow> string \<Rightarrow> string \<Rightarrow> dial \<Rightarrow> (string \<times> bool) dialled" where
  "request_relay_loop 0 e peer relay_server rendezvous_server secure key token d = (Inl (OtherError ''Timeout''), d)"
| "request_relay_loop (Suc n) e peer relay_server rendezvous_server secure key token d =
     (case connect_tcp (ToName rendezvous_server) None CONNECT_TIMEOUT d of
        (Inl _, d) \<Rightarrow> (Inl (OtherError ''Failed to connect to rendezvous server''), d)
      | (Inr loc, d) \<Rightarrow>
          (let d = (if key \<noteq> [] \<and> token \<noteq> [] then dial_emit (DlSecureTcp key) d else d);
               uuid = de_uuid e n
           in case ask_server (DlRequestRelay peer token uuid relay_server secure) d of
                (Inl err, d) \<Rightarrow> (Inl err, d)
              | (Inr (Some (AnRelay rs)), d) \<Rightarrow>
                  if rr_refuse_reason rs \<noteq> [] then (Inl (OtherError (rr_refuse_reason rs)), d)
                  else (Inr (uuid, is_v4 loc), d)
              | (Inr _, d) \<Rightarrow> request_relay_loop n e peer relay_server rendezvous_server secure key token d))"

definition request_relay ::
    "dial_env \<Rightarrow> string \<Rightarrow> string \<Rightarrow> string \<Rightarrow> bool \<Rightarrow> string \<Rightarrow> string \<Rightarrow> conn_type \<Rightarrow> dial \<Rightarrow> framed_stream dialled" where
  "request_relay e peer relay_server rendezvous_server secure key token ty d =
     (case request_relay_loop 3 e peer relay_server rendezvous_server secure key token d of
        (Inl err, d) \<Rightarrow> (Inl err, d)
      | (Inr (uuid, ipv4), d) \<Rightarrow> dial_relay e peer uuid relay_server key ty ipv4 d)"

section \<open>To the punched hole\<close>

definition UNKNOWN_NAT :: i32 where "UNKNOWN_NAT = 0"
definition ASYMMETRIC_NAT :: i32 where "ASYMMETRIC_NAT = 1"
definition SYMMETRIC_NAT :: i32 where "SYMMETRIC_NAT = 2"

text \<open>How long the direct connection may take, in milliseconds of 64 bits.\<close>

definition direct_timeout :: "dial_env \<Rightarrow> bool \<Rightarrow> i32 \<Rightarrow> i32 \<Rightarrow> string \<Rightarrow> i32 \<Rightarrow> u64" where
  "direct_timeout e is_local peer_nat_type my_nat_type relay_server direct_failures =
     (if is_local \<or> peer_nat_type = SYMMETRIC_NAT then 1000
      else
        (let t =
           (if relay_server = [] then CONNECT_TIMEOUT
            else
              (let t =
                 (if peer_nat_type = ASYMMETRIC_NAT then
                    (let mine = (if my_nat_type = UNKNOWN_NAT then de_nat_type_later e else my_nat_type) in
                     if mine = ASYMMETRIC_NAT
                     then (if 0 < sint direct_failures then de_punch_ms e * 6 else CONNECT_TIMEOUT)
                     else if mine = SYMMETRIC_NAT then 1000 else 0)
                  else 0)
               in if t = 0 then de_punch_ms e * (if 0 < sint direct_failures then 3 else 6) else t))
         in if t < 1000 then 1000 else t))"

fun is_ok :: "'e + 'a \<Rightarrow> bool" where
  "is_ok (Inl _) = False"
| "is_ok (Inr _) = True"

definition secure_dialled ::
    "dial_env \<Rightarrow> string \<Rightarrow> bytes \<Rightarrow> string \<Rightarrow> bool \<Rightarrow> framed_stream \<Rightarrow> dial \<Rightarrow>
     (framed_stream \<times> bool \<times> bytes option) dialled" where
  "secure_dialled e peer cert key direct conn d =
     (case secure_connection (de_sodium e) (de_wire e) (de_fresh e) peer cert key (de_arrival e) conn of
        (Inl err, _) \<Rightarrow> (Inl err, d)
      | (Inr pk, conn) \<Rightarrow> (Inr (conn, direct, pk), d))"

definition connect ::
    "dial_env \<Rightarrow> socket_addr \<Rightarrow> socket_addr \<Rightarrow> string \<Rightarrow> bytes \<Rightarrow> string \<Rightarrow> string \<Rightarrow> i32 \<Rightarrow> i32 \<Rightarrow> bool \<Rightarrow>
     string \<Rightarrow> string \<Rightarrow> conn_type \<Rightarrow> dial \<Rightarrow> (framed_stream \<times> bool \<times> bytes option) dialled" where
  "connect e local_addr peer peer_id cert relay_server rendezvous_server peer_nat_type my_nat_type is_local key token ty d =
     (let direct_failures = pc_direct_failures (lc_config (dl_client d));
          ms = direct_timeout e is_local peer_nat_type my_nat_type relay_server direct_failures;
          (conn, d) = connect_tcp (ToAddr peer) (Some local_addr) ms d;
          conn = (case conn of Inl err \<Rightarrow> Inl err | Inr loc \<Rightarrow> Inr (stream_from loc));
          direct = is_ok conn;
          d = update_direct (Some direct) d;
          (conn, direct, d) =
            (if lc_force_relay (dl_client d) \<or> \<not> direct then
               (if relay_server \<noteq> [] then
                  (let (conn, d) = request_relay e peer_id relay_server rendezvous_server (cert \<noteq> []) key token ty d;
                       d = update_direct (Some False) d
                   in (case conn of
                         Inl err \<Rightarrow> Inl (OtherError (''Failed to connect via relay server: '' @ err_text err))
                       | Inr c \<Rightarrow> Inr c, False, d))
                else (Inl (OtherError ''Failed to make direct connection to remote desktop''), direct, d))
             else (conn, direct, d))
      in case conn of
           Inl err \<Rightarrow> (Inl err, d)
         | Inr conn \<Rightarrow>
             (let d = (if relay_server \<noteq> [] \<and> (direct_failures = 0) \<noteq> direct
                       then dial_lc (set_direct_failure (if direct then 0 else 1)) d else d)
              in secure_dialled e peer_id cert key direct conn d))"

section \<open>Over the rendezvous server\<close>

definition punch_failure :: "punch_response \<Rightarrow> string" where
  "punch_failure ph =
     (if ph_other_failure ph \<noteq> [] then ph_other_failure ph
      else if ph_failure ph = 0 then ''ID does not exist''
      else if ph_failure ph = 2 then ''Remote desktop is offline''
      else if ph_failure ph = 3 then ''Key mismatch''
      else if ph_failure ph = 4 then ''Key overuse''
      else ''other punch hole failure'')"

text \<open>What the three attempts end with: a relayed stream, a punched hole, or nothing.\<close>

datatype punched = PnStream "framed_stream \<times> bool \<times> bytes option" | PnHole punch_response | PnNothing

fun punch_loop ::
    "nat \<Rightarrow> dial_env \<Rightarrow> socket_addr \<Rightarrow> string \<Rightarrow> string \<Rightarrow> string \<Rightarrow> conn_type \<Rightarrow> dial \<Rightarrow> punched dialled" where
  "punch_loop 0 e my_addr peer key token ty d = (Inr PnNothing, d)"
| "punch_loop (Suc n) e my_addr peer key token ty d =
     (let nat_type = (if lc_force_relay (dl_client d) then SYMMETRIC_NAT
                      else if de_nat_type e \<in> {0, 1, 2} then de_nat_type e else UNKNOWN_NAT)
      in case ask_server (DlPunchHole peer token nat_type key ty) d of
           (Inl err, d) \<Rightarrow> (Inl err, d)
         | (Inr (Some (AnPunchHole ph)), d) \<Rightarrow>
             if ph_socket_addr ph = [] then (Inl (OtherError (punch_failure ph)), d) else (Inr (PnHole ph), d)
         | (Inr (Some (AnRelay rr)), d) \<Rightarrow>
             (case dial_relay e peer (rr_uuid rr) (rr_relay_server rr) key ty (is_v4 my_addr) d of
                (Inl err, d) \<Rightarrow> (Inl err, d)
              | (Inr conn, d) \<Rightarrow>
                  (case secure_dialled e peer (case rr_union rr of RrPk pk \<Rightarrow> pk | _ \<Rightarrow> []) key False conn d of
                     (Inl err, d) \<Rightarrow> (Inl err, d)
                   | (Inr x, d) \<Rightarrow> (Inr (PnStream x), d)))
         | (Inr _, d) \<Rightarrow> punch_loop n e my_addr peer key token ty d)"

fun port_of :: "socket_addr \<Rightarrow> u16" where
  "port_of (SocketV4 _ p) = p"
| "port_of (SocketV6 _ p _ _) = p"

text \<open>The other servers, in turn, until one is reached.\<close>

fun try_servers :: "string list \<Rightarrow> string \<Rightarrow> dial \<Rightarrow> (io_error + socket_addr) \<times> string \<times> dial" where
  "try_servers [] rz d = (Inl (OtherError ''Failed to connect''), rz, d)"
| "try_servers (s # ss) rz d =
     (let server = check_port s (int RENDEZVOUS_PORT);
          (r, d) = connect_tcp (ToName server) None CONNECT_TIMEOUT d
      in case r of
           Inr loc \<Rightarrow> (Inr loc, server, d)
         | Inl err \<Rightarrow> if ss = [] then (Inl err, rz, d) else try_servers ss rz d)"

definition choose_server :: "dial_env \<Rightarrow> string \<Rightarrow> string \<times> string list \<times> bool" where
  "choose_server e other_server =
     (if other_server = [] then pick_rendezvous_server (de_rendezvous e)
      else if other_server = PUBLIC_SERVER then
        (check_port (hd RENDEZVOUS_SERVERS) (int RENDEZVOUS_PORT), tl RENDEZVOUS_SERVERS, True)
      else (check_port other_server (int RENDEZVOUS_PORT), [], True))"

definition start_by_id ::
    "dial_env \<Rightarrow> string \<Rightarrow> string \<Rightarrow> string \<Rightarrow> conn_type \<Rightarrow> dial \<Rightarrow> (framed_stream \<times> bool \<times> bytes option) dialled" where
  "start_by_id e peer key token ty d =
     (let (peer, other_server, key, token) =
            (case lc_other_server (dl_client d) of
               Some (a, b, c) \<Rightarrow> (a, b, c, []) | None \<Rightarrow> (peer, [], key, token));
          (rz, servers, contained) = choose_server e other_server;
          (socket, d) = connect_tcp (ToName rz) None CONNECT_TIMEOUT d;
          (socket, rz, d) =
            (case socket of
               Inl err \<Rightarrow>
                 if servers \<noteq> [] then (let (r, rz, d) = try_servers servers rz d in (r, rz, dial_emit DlRefresh d))
                 else (Inl err, rz, if contained then d else dial_emit DlRefresh d)
             | Inr loc \<Rightarrow> (Inr loc, rz, if contained then d else dial_emit DlRefresh d))
      in case socket of
           Inl err \<Rightarrow> (Inl err, d)
         | Inr my_addr \<Rightarrow>
             (let d = (if key \<noteq> [] \<and> token \<noteq> [] then dial_emit (DlSecureTcp key) d else d) in
              case punch_loop 3 e my_addr peer key token ty d of
                (Inl err, d) \<Rightarrow> (Inl err, d)
              | (Inr (PnStream x), d) \<Rightarrow> (Inr x, d)
              | (Inr PnNothing, d) \<Rightarrow> (Inl (OtherError ''Failed to connect via rendezvous server''), d)
              | (Inr (PnHole ph), d) \<Rightarrow>
                  (let peer_addr = mangle_decode (ph_socket_addr ph) in
                   if port_of peer_addr = 0 then (Inl (OtherError ''Failed to connect via rendezvous server''), d)
                   else connect e my_addr peer_addr peer (ph_pk ph) (ph_relay_server ph) rz
                          (case ph_union ph of PhNat n \<Rightarrow> if n \<in> {0, 1, 2} then n else UNKNOWN_NAT | _ \<Rightarrow> UNKNOWN_NAT)
                          (de_nat_type e) (case ph_union ph of PhLocal b \<Rightarrow> b | _ \<Rightarrow> False) key token ty d)))"

definition client_dial ::
    "dial_env \<Rightarrow> string \<Rightarrow> string \<Rightarrow> string \<Rightarrow> conn_type \<Rightarrow> dial \<Rightarrow> (framed_stream \<times> bool \<times> bytes option) dialled" where
  "client_dial e peer key token ty d =
     (if de_incoming_only e then (Inl (OtherError ''Incoming only mode''), d)
      else if is_ip_str peer then
        (case connect_tcp (ToName (check_port peer (RELAY_PORT + 1))) None CONNECT_TIMEOUT d of
           (Inl err, d) \<Rightarrow> (Inl err, d) | (Inr loc, d) \<Rightarrow> (Inr (stream_from loc, True, None), d))
      else if is_domain_port_str peer then
        (case connect_tcp (ToName peer) None CONNECT_TIMEOUT d of
           (Inl err, d) \<Rightarrow> (Inl err, d) | (Inr loc, d) \<Rightarrow> (Inr (stream_from loc, True, None), d))
      else start_by_id e peer key token ty d)"

definition client_start ::
    "dial_env \<Rightarrow> string \<Rightarrow> string \<Rightarrow> string \<Rightarrow> conn_type \<Rightarrow> dial \<Rightarrow> (framed_stream \<times> bool \<times> bytes option) dialled" where
  "client_start e peer key token ty d =
     (let d = update_direct None d;
          d = dial_lc (\<lambda>c. c\<lparr>lc_received := False\<rparr>) d
      in case client_dial e peer key token ty d of
           (Inl err, d) \<Rightarrow>
             (Inl (if prefix ''Failed'' (err_text err) then OtherError (err_text err @ '': Please try later'') else err), d)
         | (Inr x, d) \<Rightarrow> (Inr x, d))"

section \<open>What an attempt costs\<close>

fun is_punch :: "dial_effect \<Rightarrow> bool" where
  "is_punch (DlPunchHole _ _ _ _ _) = True" | "is_punch _ = False"

fun is_relay_request :: "dial_effect \<Rightarrow> bool" where
  "is_relay_request (DlRequestRelay _ _ _ _ _) = True" | "is_relay_request _ = False"

fun is_join :: "dial_effect \<Rightarrow> bool" where
  "is_join (DlJoinRelay _ _ _ _) = True" | "is_join _ = False"

fun is_direct_dial :: "dial_effect \<Rightarrow> bool" where
  "is_direct_dial (DlConnect (ToAddr _) _ _) = True" | "is_direct_dial _ = False"

definition count_of :: "(dial_effect \<Rightarrow> bool) \<Rightarrow> dial \<Rightarrow> nat" where
  "count_of P d = length (filter P (dl_out d))"

abbreviation "punches \<equiv> count_of is_punch"
abbreviation "relay_requests \<equiv> count_of is_relay_request"
abbreviation "joins \<equiv> count_of is_join"
abbreviation "direct_dials \<equiv> count_of is_direct_dial"

text \<open>At most so many of each, and the forced relay as it was.\<close>

definition spends :: "nat \<Rightarrow> nat \<Rightarrow> nat \<Rightarrow> nat \<Rightarrow> dial \<Rightarrow> dial \<Rightarrow> bool" where
  "spends p r j t d d' \<longleftrightarrow>
     punches d' \<le> punches d + p \<and> relay_requests d' \<le> relay_requests d + r \<and> joins d' \<le> joins d + j \<and>
     direct_dials d' \<le> direct_dials d + t \<and> lc_force_relay (dl_client d') = lc_force_relay (dl_client d)"

lemma spends_refl [simp]: "spends p r j t d d"
  by (simp add: spends_def)

lemma spends_trans:
  "spends p r j t d d' \<Longrightarrow> spends p' r' j' t' d' d'' \<Longrightarrow> spends (p + p') (r + r') (j + j') (t + t') d d''"
  by (auto simp: spends_def)

lemma spends_mono:
  "spends p r j t d d' \<Longrightarrow> p \<le> p' \<Longrightarrow> r \<le> r' \<Longrightarrow> j \<le> j' \<Longrightarrow> t \<le> t' \<Longrightarrow> spends p' r' j' t' d d'"
  by (auto simp: spends_def)

lemma count_of_emit [simp]: "count_of P (dial_emit x d) = count_of P d + (if P x then 1 else 0)"
  by (simp add: count_of_def dial_emit_def)

lemma count_of_kept [simp]:
  "count_of P (dial_lc f d) = count_of P d" "count_of P (update_direct b d) = count_of P d"
  "count_of P (d\<lparr>dl_connects := cs\<rparr>) = count_of P d" "count_of P (d\<lparr>dl_answers := as\<rparr>) = count_of P d"
  by (simp_all add: count_of_def dial_lc_def update_direct_def)

lemma dial_client_kept [simp]:
  "dl_client (dial_emit x d) = dl_client d" "dl_client (dial_lc f d) = f (dl_client d)"
  "lc_force_relay (dl_client (update_direct b d)) = lc_force_relay (dl_client d)"
  by (simp_all add: dial_emit_def dial_lc_def update_direct_def)

lemma set_direct_failure_kept [simp]: "lc_force_relay (set_direct_failure n c) = lc_force_relay c"
  by (simp add: set_direct_failure_def edit_config_def load_config_def save_config_def split: prod.splits)

lemma connect_tcp_spends:
  "connect_tcp dest loc ms d = (r, d') \<Longrightarrow>
     spends 0 0 0 (case dest of ToName _ \<Rightarrow> 0 | ToAddr _ \<Rightarrow> 1) d d' \<and> joins d' = joins d"
  by (auto simp: connect_tcp_def spends_def Let_def split: list.splits dial_target.splits)

lemma ask_server_spends:
  "ask_server x d = (r, d') \<Longrightarrow>
     punches d' = punches d + (if is_punch x then 1 else 0) \<and>
     relay_requests d' = relay_requests d + (if is_relay_request x then 1 else 0) \<and>
     joins d' = joins d + (if is_join x then 1 else 0) \<and>
     direct_dials d' = direct_dials d + (if is_direct_dial x then 1 else 0) \<and> dl_client d' = dl_client d"
  by (auto simp: ask_server_def Let_def split: list.splits)

lemma dial_relay_spends:
  assumes "dial_relay e peer uuid rs key ty v4 d = (r, d')"
  shows "spends 0 0 1 0 d d' \<and> (\<forall>c. r = Inr c \<longrightarrow> joins d' = joins d + 1)"
  using assms
  by (auto simp: dial_relay_def spends_def Let_def dest!: connect_tcp_spends split: prod.splits sum.splits option.splits)

lemma request_relay_loop_spends:
  "request_relay_loop n e peer rs rz sec key token d = (r, d') \<Longrightarrow> spends 0 n 0 0 d d' \<and> joins d' = joins d"
proof (induction n arbitrary: d r d')
  case (Suc n)
  obtain c d1 where c: "connect_tcp (ToName rz) None CONNECT_TIMEOUT d = (c, d1)" by fastforce
  note c' = connect_tcp_spends [OF c]
  show ?case
  proof (cases c)
    case (Inl x)
    then show ?thesis using Suc.prems c c' by (auto simp: spends_def)
  next
    case (Inr loc)
    define d2 where "d2 = (if key \<noteq> [] \<and> token \<noteq> [] then dial_emit (DlSecureTcp key) d1 else d1)"
    obtain a d3 where a: "ask_server (DlRequestRelay peer token (de_uuid e n) rs sec) d2 = (a, d3)" by fastforce
    note a' = ask_server_spends [OF a]
    have w: "spends 0 1 0 0 d d3" "joins d3 = joins d" using c' a' by (auto simp: spends_def d2_def)
    have "(\<exists>d4. request_relay_loop n e peer rs rz sec key token d3 = (r, d')) \<or> d' = d3"
      using Suc.prems c Inr a
      by (auto simp: d2_def [symmetric] Let_def split: sum.splits option.splits rz_answer.splits if_splits)
    then show ?thesis
    proof
      assume "\<exists>d4. request_relay_loop n e peer rs rz sec key token d3 = (r, d')"
      then show ?thesis using Suc.IH [of d3 r d'] spends_trans [OF w(1)] w(2) by fastforce
    next
      assume "d' = d3"
      then show ?thesis using w spends_mono [OF w(1)] by simp
    qed
  qed
qed simp

lemma request_relay_spends:
  assumes "request_relay e peer rs rz sec key token ty d = (r, d')"
  shows "spends 0 3 1 0 d d' \<and> (\<forall>c. r = Inr c \<longrightarrow> joins d' = joins d + 1)"
proof -
  obtain x d1 where x: "request_relay_loop 3 e peer rs rz sec key token d = (x, d1)" by fastforce
  note x' = request_relay_loop_spends [OF x]
  show ?thesis
  proof (cases x)
    case (Inl a)
    then show ?thesis using assms x x' spends_mono [of 0 3 0 0 d d1] by (auto simp: request_relay_def)
  next
    case (Inr a)
    then show ?thesis
      using assms x x' dial_relay_spends [of e peer "fst a" rs key ty "snd a" d1 r d'] spends_trans [of 0 3 0 0 d d1 0 0 1 0 d']
      by (auto simp: request_relay_def split: prod.splits)
  qed
qed

lemma secure_dialled_keeps:
  "secure_dialled e peer cert key direct c d = (r, d') \<Longrightarrow>
     d' = d \<and> (\<forall>c' di pk. r = Inr (c', di, pk) \<longrightarrow> di = direct)"
  by (auto simp: secure_dialled_def split: prod.splits sum.splits)

text \<open>What a stream that is returned tells: direct, or over the one relay that was joined.\<close>

definition flag_true :: "dial \<Rightarrow> (io_error + framed_stream \<times> bool \<times> bytes option) \<Rightarrow> dial \<Rightarrow> bool" where
  "flag_true d r d' \<longleftrightarrow>
     (case r of Inl _ \<Rightarrow> True
      | Inr (conn, direct, pk) \<Rightarrow>
          joins d' = joins d + (if direct then 0 else 1) \<and> (lc_force_relay (dl_client d) \<longrightarrow> \<not> direct))"

lemma flag_true_Inl [simp]: "flag_true d (Inl e) d'"
  by (simp add: flag_true_def)

lemma flag_true_before: "flag_true d1 r d' \<Longrightarrow> spends p q j t d d1 \<Longrightarrow> joins d1 = joins d \<Longrightarrow> flag_true d r d'"
  by (auto simp: flag_true_def spends_def split: sum.splits)

lemma connect_spends:
  assumes run: "connect e la peer pid cert rs rz pn mn loc key token ty d = (r, d')"
  shows "spends 0 3 1 1 d d' \<and> flag_true d r d'"
proof -
  obtain c d0 where c: "connect_tcp (ToAddr peer) (Some la)
      (direct_timeout e loc pn mn rs (pc_direct_failures (lc_config (dl_client d)))) d = (c, d0)" by fastforce
  define d1 where "d1 = update_direct (Some (is_ok c)) d0"
  have w1: "spends 0 0 0 1 d d1" "joins d1 = joins d" and f: "lc_force_relay (dl_client d1) = lc_force_relay (dl_client d0)"
    using connect_tcp_spends [OF c] by (auto simp: spends_def d1_def)
  have ok: "is_ok (case c of Inl err \<Rightarrow> Inl err | Inr l \<Rightarrow> Inr (stream_from l)) = is_ok c"
    by (cases c) auto
  note run' = run [unfolded connect_def Let_def c prod.case ok d1_def [symmetric]]
  show ?thesis
  proof (cases "lc_force_relay (dl_client d1) \<or> \<not> is_ok c")
    case relay: True
    show ?thesis
    proof (cases "rs = []")
      case True
      then have "(\<exists>s. r = Inl s) \<and> d' = d1" using run' relay by auto
      then show ?thesis using spends_mono [OF w1(1)] by auto
    next
      case rs: False
      obtain x d2 where x: "request_relay e pid rs rz (cert \<noteq> []) key token ty d1 = (x, d2)" by fastforce
      note x' = request_relay_spends [OF x]
      have w2: "spends 0 3 1 1 d (update_direct (Some False) d2)"
        using spends_trans [OF w1(1), of 0 3 1 0 "update_direct (Some False) d2"] x' by (simp add: spends_def)
      show ?thesis
      proof (cases x)
        case (Inl err)
        then have "(\<exists>s. r = Inl s) \<and> d' = update_direct (Some False) d2"
          using run' relay rs x by auto
        then show ?thesis using w2 by auto
      next
        case (Inr conn)
        then obtain d3 where d3: "secure_dialled e pid cert key False conn d3 = (r, d')"
          "d3 = update_direct (Some False) d2 \<or> d3 = dial_lc (set_direct_failure 1) (update_direct (Some False) d2)"
          using run' relay rs x by (auto split: if_splits)
        note k = secure_dialled_keeps [OF d3(1)]
        have "joins d2 = joins d + 1" using x' Inr w1(2) by simp
        then show ?thesis using k d3(2) w2 by (auto simp: flag_true_def spends_def split: sum.splits)
      qed
    qed
  next
    case direct: False
    then obtain l where "c = Inr l" by (cases c) auto
    then obtain d3 where d3: "secure_dialled e pid cert key True (stream_from l) d3 = (r, d')"
      "d3 = d1 \<or> d3 = dial_lc (set_direct_failure 0) d1"
      using run' direct by (auto split: if_splits)
    note k = secure_dialled_keeps [OF d3(1)]
    show ?thesis using k d3(2) w1 direct f by (auto simp: flag_true_def spends_def split: sum.splits)
  qed
qed

lemma punch_loop_spends:
  "punch_loop n e la peer key token ty d = (r, d') \<Longrightarrow>
     spends n 0 1 0 d d' \<and> (\<forall>x. r = Inr (PnStream x) \<longrightarrow> flag_true d (Inr x) d') \<and>
     (\<forall>ph. r = Inr (PnHole ph) \<longrightarrow> joins d' = joins d)"
proof (induction n arbitrary: d r d')
  case (Suc n)
  obtain a d1 where a: "ask_server (DlPunchHole peer token
      (if lc_force_relay (dl_client d) then SYMMETRIC_NAT
       else if de_nat_type e \<in> {0, 1, 2} then de_nat_type e else UNKNOWN_NAT) key ty) d = (a, d1)" by fastforce
  have w: "spends 1 0 0 0 d d1" "joins d1 = joins d" using ask_server_spends [OF a] by (auto simp: spends_def)
  note run = Suc.prems [unfolded punch_loop.simps Let_def a prod.case]
  have step: ?case if "punch_loop n e la peer key token ty d1 = (r, d')"
    using Suc.IH [OF that] spends_trans [OF w(1), of n 0 1 0 d'] flag_true_before [OF _ w] w(2) by simp
  have none: ?case if "d' = d1" "\<forall>x. r \<noteq> Inr (PnStream x)"
    using that w spends_mono [OF w(1), of "Suc n" 0 1 0] by simp
  consider (ph) ph where "a = Inr (Some (AnPunchHole ph))" | (rr) rr where "a = Inr (Some (AnRelay rr))"
    | (err) err where "a = Inl err" | (again) "a = Inr (Some AnOther) \<or> a = Inr None"
    by (metis sum.exhaust option.exhaust rz_answer.exhaust)
  then show ?case
  proof cases
    case ph
    then show ?thesis using run none by (auto split: if_splits)
  next
    case rr
    obtain x d2 where x: "dial_relay e peer (rr_uuid rr) (rr_relay_server rr) key ty (is_v4 la) d1 = (x, d2)" by fastforce
    note x' = dial_relay_spends [OF x]
    have w2: "spends (Suc n) 0 1 0 d d2" "\<And>c. x = Inr c \<Longrightarrow> joins d2 = joins d + 1"
      using spends_trans [OF w(1), of 0 0 1 0 d2] x' w(2) by (auto intro: spends_mono)
    show ?thesis
    proof (cases x)
      case (Inl err)
      then show ?thesis using run rr x w2 by auto
    next
      case (Inr c)
      obtain y d3 where y: "secure_dialled e peer (case rr_union rr of RrPk pk \<Rightarrow> pk | _ \<Rightarrow> []) key False c d2 = (y, d3)"
        by fastforce
      show ?thesis
        using run rr x Inr y w2 secure_dialled_keeps [OF y] by (auto simp: flag_true_def split: sum.splits)
    qed
  next
    case err
    then show ?thesis using run none by auto
  next
    case again
    then have "punch_loop n e la peer key token ty d1 = (r, d')" using run by auto
    then show ?thesis by (rule step)
  qed
qed simp

lemma try_servers_spends:
  "try_servers ss rz d = (r, rz', d') \<Longrightarrow> spends 0 0 0 0 d d' \<and> joins d' = joins d"
proof (induction ss arbitrary: d rz)
  case (Cons s ss)
  obtain c d1 where c: "connect_tcp (ToName (check_port s (int RENDEZVOUS_PORT))) None CONNECT_TIMEOUT d = (c, d1)"
    by fastforce
  then show ?case
    using Cons connect_tcp_spends [OF c] spends_trans [of 0 0 0 0 d d1 0 0 0 0 d']
    by (auto simp: Let_def split: sum.splits if_splits)
qed simp

section \<open>Whom an encrypted stream is for\<close>

definition dialled_id :: "client \<Rightarrow> string \<Rightarrow> string" where
  "dialled_id c peer = (case lc_other_server c of Some (a, _, _) \<Rightarrow> a | None \<Rightarrow> peer)"

definition dialled_key :: "client \<Rightarrow> string \<Rightarrow> string" where
  "dialled_key c key = (case lc_other_server c of Some (_, _, k) \<Rightarrow> k | None \<Rightarrow> key)"

definition secured_for ::
    "dial_env \<Rightarrow> string \<Rightarrow> string \<Rightarrow> io_error + framed_stream \<times> bool \<times> bytes option \<Rightarrow> bool" where
  "secured_for e i key r \<longleftrightarrow>
     (\<forall>conn direct pk. r = Inr (conn, direct, pk) \<and> fs_crypt conn \<noteq> None \<longrightarrow>
        fs_crypt conn = Some (encrypt_new (snd (de_fresh e))) \<and> pk \<noteq> None \<and>
        (\<exists>cert. certified_pk (de_sodium e) (de_wire e) i cert key = pk))"

lemma secured_for_Inl [simp]: "secured_for e i key (Inl err)"
  by (simp add: secured_for_def)

lemma stream_from_clear [simp]: "fs_crypt (stream_from a) = None"
  by (simp add: stream_from_def)

lemma secure_dialled_secures:
  assumes "secure_dialled e i cert key direct c d = (r, d')" and "fs_crypt c = None"
  shows "secured_for e i key r"
proof -
  obtain x c' where x: "secure_connection (de_sodium e) (de_wire e) (fst (de_fresh e), snd (de_fresh e)) i cert key (de_arrival e) c = (x, c')"
    by fastforce
  have r: "r = (case x of Inl err \<Rightarrow> Inl err | Inr pk \<Rightarrow> Inr (c', direct, pk))"
    using assms(1) x by (auto simp: secure_dialled_def split: sum.splits)
  show ?thesis
  proof (cases "fs_crypt c' = None")
    case False
    from secure_connection_secured [OF x assms(2) False] obtain pk where
      "certified_pk (de_sodium e) (de_wire e) i cert key = Some pk" "x = Inr (Some pk)"
      "fs_crypt c' = Some (encrypt_new (snd (de_fresh e)))" by metis
    then show ?thesis using r by (auto simp: secured_for_def)
  qed (use r in \<open>auto simp: secured_for_def split: sum.splits\<close>)
qed

lemma dial_relay_clear: "dial_relay e peer uuid rs key ty v4 d = (Inr c, d') \<Longrightarrow> fs_crypt c = None"
  by (auto simp: dial_relay_def Let_def split: prod.splits sum.splits option.splits)

lemma request_relay_clear: "request_relay e peer rs rz sec key token ty d = (Inr c, d') \<Longrightarrow> fs_crypt c = None"
  by (auto simp: request_relay_def dest: dial_relay_clear split: prod.splits sum.splits)

lemma connect_secures:
  assumes run: "connect e la peer pid cert rs rz pn mn loc key token ty d = (r, d')"
  shows "secured_for e pid key r"
proof -
  obtain c d0 where c: "connect_tcp (ToAddr peer) (Some la)
      (direct_timeout e loc pn mn rs (pc_direct_failures (lc_config (dl_client d)))) d = (c, d0)" by fastforce
  define x where "x = (case c of Inl err \<Rightarrow> Inl err | Inr l \<Rightarrow> Inr (stream_from l))"
  define d1 where "d1 = update_direct (Some (is_ok x)) d0"
  obtain y d2 where y: "request_relay e pid rs rz (cert \<noteq> []) key token ty d1 = (y, d2)" by fastforce
  have clear: "fs_crypt s = None" if "x = Inr s \<or> y = Inr s" for s
    using that request_relay_clear y by (auto simp: x_def split: sum.splits)
  have "(\<exists>err. r = Inl err) \<or> (\<exists>s direct d3. (x = Inr s \<or> y = Inr s) \<and> secure_dialled e pid cert key direct s d3 = (r, d'))"
    using run unfolding connect_def Let_def c prod.case x_def [symmetric] d1_def [symmetric] y
    by (cases x; cases y; cases "lc_force_relay (dl_client d1)"; cases "rs = []") auto
  then show ?thesis using clear secure_dialled_secures by fastforce
qed

lemma punch_loop_secures:
  "punch_loop n e la peer key token ty d = (Inr (PnStream x), d') \<Longrightarrow> secured_for e peer key (Inr x)"
proof (induction n arbitrary: d)
  case (Suc n)
  obtain a d1 where a: "ask_server (DlPunchHole peer token
      (if lc_force_relay (dl_client d) then SYMMETRIC_NAT
       else if de_nat_type e \<in> {0, 1, 2} then de_nat_type e else UNKNOWN_NAT) key ty) d = (a, d1)" by fastforce
  note run = Suc.prems [unfolded punch_loop.simps Let_def a prod.case]
  consider (rr) rr where "a = Inr (Some (AnRelay rr))" | (again) "punch_loop n e la peer key token ty d1 = (Inr (PnStream x), d')"
    using run by (auto split: sum.splits option.splits rz_answer.splits if_splits)
  then show ?case
  proof cases
    case rr
    obtain c d2 where c: "dial_relay e peer (rr_uuid rr) (rr_relay_server rr) key ty (is_v4 la) d1 = (Inr c, d2)"
      and s: "secure_dialled e peer (case rr_union rr of RrPk pk \<Rightarrow> pk | _ \<Rightarrow> []) key False c d2 = (Inr x, d')"
      using run rr by (auto split: prod.splits sum.splits)
    show ?thesis by (rule secure_dialled_secures [OF s dial_relay_clear [OF c]])
  qed (rule Suc.IH)
qed simp

section \<open>The whole attempt\<close>

text \<open>The ways an attempt by id can go, once the server has been reached.\<close>

lemma start_by_id_cases:
  assumes run: "start_by_id e peer key token ty d = (r, d')"
  obtains (hole) la token' d2 ph d3 rz pn mn loc where "spends 0 0 0 0 d d2" "joins d2 = joins d"
      "punch_loop 3 e la (dialled_id (dl_client d) peer) (dialled_key (dl_client d) key) token' ty d2 = (Inr (PnHole ph), d3)"
      "connect e la (mangle_decode (ph_socket_addr ph)) (dialled_id (dl_client d) peer) (ph_pk ph) (ph_relay_server ph) rz
         pn mn loc (dialled_key (dl_client d) key) token' ty d3 = (r, d')"
  | (stream) la token' d2 x where "spends 0 0 0 0 d d2" "joins d2 = joins d"
      "punch_loop 3 e la (dialled_id (dl_client d) peer) (dialled_key (dl_client d) key) token' ty d2 = (Inr (PnStream x), d')"
      "r = Inr x"
  | (fails) la token' d2 p err where "spends 0 0 0 0 d d2"
      "punch_loop 3 e la (dialled_id (dl_client d) peer) (dialled_key (dl_client d) key) token' ty d2 = (p, d')"
      "r = Inl err"
  | (unreached) err where "spends 0 0 0 0 d d'" "r = Inl err"
proof -
  define id' where "id' = dialled_id (dl_client d) peer"
  define key' where "key' = dialled_key (dl_client d) key"
  define other where "other = (case lc_other_server (dl_client d) of Some (a, b, c) \<Rightarrow> b | None \<Rightarrow> [])"
  define token' where "token' = (case lc_other_server (dl_client d) of Some (a, b, c) \<Rightarrow> [] | None \<Rightarrow> token)"
  have who: "(case lc_other_server (dl_client d) of Some (a, b, c) \<Rightarrow> (a, b, c, []) | None \<Rightarrow> (peer, [], key, token)) =
    (id', other, key', token')"
    by (simp add: id'_def other_def key'_def token'_def dialled_id_def dialled_key_def split: option.splits prod.splits)
  obtain rz servers contained where ch: "choose_server e other = (rz, servers, contained)" by (metis prod_cases3)
  obtain c0 d0 where c0: "connect_tcp (ToName rz) None CONNECT_TIMEOUT d = (c0, d0)" by fastforce
  define reached where "reached =
    (case c0 of
       Inl err \<Rightarrow>
         if servers \<noteq> [] then (let (r, rz, d) = try_servers servers rz d0 in (r, rz, dial_emit DlRefresh d))
         else (Inl err, rz, if contained then d0 else dial_emit DlRefresh d0)
     | Inr loc \<Rightarrow> (Inr loc, rz, if contained then d0 else dial_emit DlRefresh d0))"
  obtain c1 rz1 d1 where c1: "reached = (c1, rz1, d1)" by (metis prod_cases3)
  have w1: "spends 0 0 0 0 d d1 \<and> joins d1 = joins d"
  proof -
    obtain c2 rz2 d2 where t: "try_servers servers rz d0 = (c2, rz2, d2)" by (metis prod_cases3)
    show ?thesis
      using c1 connect_tcp_spends [OF c0] t try_servers_spends [OF t] unfolding reached_def
      by (auto simp: spends_def split: sum.splits if_splits)
  qed
  note run' = run [unfolded start_by_id_def Let_def who prod.case ch c0, folded reached_def [unfolded Let_def], unfolded c1 prod.case]
  show thesis
  proof (cases c1)
    case (Inl err)
    then show thesis using run' w1 unreached by auto
  next
    case (Inr la)
    define d2 where "d2 = (if key' \<noteq> [] \<and> token' \<noteq> [] then dial_emit (DlSecureTcp key') d1 else d1)"
    have w2: "spends 0 0 0 0 d d2" "joins d2 = joins d" using w1 by (auto simp: d2_def spends_def)
    obtain p d3 where p: "punch_loop 3 e la id' key' token' ty d2 = (p, d3)" by fastforce
    note run'' = run' [unfolded Inr sum.case, folded d2_def, unfolded p prod.case]
    note p' = p [unfolded id'_def key'_def]
    consider (hole) ph where "p = Inr (PnHole ph)" "port_of (mangle_decode (ph_socket_addr ph)) \<noteq> 0"
      | (stream) x where "p = Inr (PnStream x)" "r = Inr x" "d' = d3"
      | (fails) err where "r = Inl err" "d' = d3"
      using run'' by (auto split: sum.splits punched.splits if_splits)
    then show thesis
    proof cases
      case h: hole
      then have "connect e la (mangle_decode (ph_socket_addr ph)) id' (ph_pk ph) (ph_relay_server ph) rz1
          (case ph_union ph of PhNat n \<Rightarrow> if n \<in> {0, 1, 2} then n else UNKNOWN_NAT | _ \<Rightarrow> UNKNOWN_NAT)
          (de_nat_type e) (case ph_union ph of PhLocal b \<Rightarrow> b | _ \<Rightarrow> False) key' token' ty d3 = (r, d')"
        using run'' by simp
      then show thesis using hole [OF w2] p' h(1) by (simp add: id'_def key'_def)
    next
      case s: stream
      then show thesis using stream [OF w2] p' by simp
    next
      case f: fails
      then show thesis using fails [OF w2(1)] p' by simp
    qed
  qed
qed

lemma start_by_id_spends:
  assumes run: "start_by_id e peer key token ty d = (r, d')"
  shows "spends 3 3 1 1 d d' \<and> flag_true d r d'"
  using run
proof (cases rule: start_by_id_cases)
  case (hole la token' d2 ph d3 rz pn mn loc)
  note p = punch_loop_spends [OF hole(3)] and c = connect_spends [OF hole(4)]
  have "spends 3 0 0 0 d d3" "joins d3 = joins d" using p hole(1,2) by (auto simp: spends_def)
  then show ?thesis
    using c spends_trans [of 3 0 0 0 d d3 0 3 1 1 d'] flag_true_before [of d3 r d' 3 0 0 0 d] by simp
next
  case (stream la token' d2 x)
  note p = punch_loop_spends [OF stream(3)]
  have "spends 3 0 1 0 d d'" using p stream(1) by (auto simp: spends_def)
  then show ?thesis using p stream flag_true_before [OF _ stream(1,2)] by (auto intro: spends_mono)
next
  case (fails la token' d2 p err)
  have "spends 3 0 1 0 d d'" using punch_loop_spends [OF fails(2)] fails(1) by (auto simp: spends_def)
  then show ?thesis using fails(3) by (auto intro: spends_mono)
next
  case (unreached err)
  then show ?thesis by (auto intro: spends_mono)
qed

lemma start_by_id_secures:
  assumes run: "start_by_id e peer key token ty d = (r, d')"
  shows "secured_for e (dialled_id (dl_client d) peer) (dialled_key (dl_client d) key) r"
  using run
proof (cases rule: start_by_id_cases)
  case (hole la token' d2 ph d3 rz pn mn loc)
  then show ?thesis using connect_secures by blast
next
  case (stream la token' d2 x)
  then show ?thesis using punch_loop_secures by blast
qed auto

lemma client_dial_spends:
  assumes run: "client_dial e peer key token ty d = (r, d')"
  shows "spends 3 3 1 1 d d' \<and>
    (r = Inr (conn, direct, pk) \<longrightarrow>
       joins d' = joins d + (if direct then 0 else 1) \<and>
       (lc_force_relay (dl_client d) \<and> \<not> is_ip_str peer \<and> \<not> is_domain_port_str peer \<longrightarrow> \<not> direct))"
proof -
  have name: "spends 3 3 1 1 d d1 \<and> joins d1 = joins d" if "connect_tcp (ToName n) None CONNECT_TIMEOUT d = (c, d1)" for n c d1
    using connect_tcp_spends [OF that] spends_mono [of 0 0 0 0 d d1 3 3 1 1] by simp
  show ?thesis
  proof (cases "de_incoming_only e")
    case True
    then show ?thesis using run by (auto simp: client_dial_def)
  next
    case False
    note run' = run [unfolded client_dial_def if_not_P [OF False]]
    show ?thesis
    proof (cases "is_ip_str peer \<or> is_domain_port_str peer")
      case address: True
      then obtain n c where "connect_tcp (ToName n) None CONNECT_TIMEOUT d = (c, d')"
        "r = (case c of Inl err \<Rightarrow> Inl err | Inr loc \<Rightarrow> Inr (stream_from loc, True, None))"
        using run' by (fastforce split: if_splits prod.splits sum.splits)
      then show ?thesis using name address by (auto split: sum.splits)
    next
      case False
      then have "start_by_id e peer key token ty d = (r, d')" using run' by simp
      from start_by_id_spends [OF this] show ?thesis by (auto simp: flag_true_def)
    qed
  qed
qed

lemma client_start_spends:
  assumes "client_start e peer key token ty d = (r, d')"
  shows "spends 3 3 1 1 d d' \<and>
    (r = Inr (conn, direct, pk) \<longrightarrow>
       joins d' = joins d + (if direct then 0 else 1) \<and>
       (lc_force_relay (dl_client d) \<and> \<not> is_ip_str peer \<and> \<not> is_domain_port_str peer \<longrightarrow> \<not> direct))"
proof -
  define d0 where "d0 = dial_lc (\<lambda>c. c\<lparr>lc_received := False\<rparr>) (update_direct None d)"
  have w: "spends 0 0 0 0 d d0" "joins d0 = joins d" "lc_force_relay (dl_client d0) = lc_force_relay (dl_client d)"
    by (simp_all add: d0_def spends_def)
  obtain r1 where r1: "client_dial e peer key token ty d0 = (r1, d')" "r = Inr (conn, direct, pk) \<longrightarrow> r1 = r"
    using assms unfolding client_start_def Let_def d0_def [symmetric]
    by (cases "client_dial e peer key token ty d0") (auto split: sum.splits)
  from client_dial_spends [OF r1(1), of conn direct pk] show ?thesis
    using spends_trans [OF w(1), of 3 3 1 1 d'] w(2,3) r1(2) by auto
qed

lemma client_start_secures:
  assumes "client_start e peer key token ty d = (Inr (conn, direct, pk), d')" and "fs_crypt conn \<noteq> None"
  shows "\<not> is_ip_str peer" "\<not> is_domain_port_str peer"
    "secured_for e (dialled_id (dl_client d) peer) (dialled_key (dl_client d) key) (Inr (conn, direct, pk))"
proof -
  define d0 where "d0 = dial_lc (\<lambda>c. c\<lparr>lc_received := False\<rparr>) (update_direct None d)"
  have same: "dialled_id (dl_client d0) peer = dialled_id (dl_client d) peer"
    "dialled_key (dl_client d0) key = dialled_key (dl_client d) key"
    by (simp_all add: d0_def dialled_id_def dialled_key_def update_direct_def)
  have run: "client_dial e peer key token ty d0 = (Inr (conn, direct, pk), d')"
    using assms(1) unfolding client_start_def Let_def d0_def [symmetric]
    by (cases "client_dial e peer key token ty d0") (auto split: sum.splits)
  show a: "\<not> is_ip_str peer"
    using run assms(2) by (auto simp: client_dial_def split: if_splits prod.splits sum.splits)
  show "\<not> is_domain_port_str peer"
    using run assms(2) a by (auto simp: client_dial_def split: if_splits prod.splits sum.splits)
  then have "start_by_id e peer key token ty d0 = (Inr (conn, direct, pk), d')"
    using run a by (simp add: client_dial_def split: if_splits)
  from start_by_id_secures [OF this]
  show "secured_for e (dialled_id (dl_client d) peer) (dialled_key (dl_client d) key) (Inr (conn, direct, pk))"
    by (simp add: same)
qed

section \<open>Properties\<close>

text \<open>C28: Dialling ends after a bounded number of tries, whatever the network brings: at most three
  requests for a hole, one connection to the peer's address, three requests for a relay and one relay
  joined.\<close>

theorem dialling_is_bounded:
  "let (r, d') = client_start e peer key token ty d in
     punches d' \<le> punches d + 3 \<and> relay_requests d' \<le> relay_requests d + 3 \<and>
     joins d' \<le> joins d + 1 \<and> direct_dials d' \<le> direct_dials d + 1"
  using client_start_spends [of e peer key token ty d] by (auto simp: Let_def spends_def)

text \<open>The flag the user is shown is true. A stream is called direct exactly when no relay was joined for
  it, and with the relay forced the stream to an id is never a direct one.\<close>

theorem direct_flag_is_true:
  assumes "client_start e peer key token ty d = (Inr (conn, direct, pk), d')"
  shows "joins d' = joins d + (if direct then 0 else 1) \<and>
    (lc_force_relay (dl_client d) \<and> \<not> is_ip_str peer \<and> \<not> is_domain_port_str peer \<longrightarrow> \<not> direct)"
  using client_start_spends [OF assms] by blast

text \<open>C5: An encrypted stream is for the id that was asked for. Dialling returns one only for an id, never
  for an address, with the new symmetric key in use, and with a public key that the rendezvous server's key
  certifies for that id; the id and the key are those of the other server, when one is named.\<close>

theorem encrypted_for_the_id:
  assumes "client_start e peer key token ty d = (Inr (conn, direct, pk), d')" and "fs_crypt conn \<noteq> None"
  shows "\<not> is_ip_str peer \<and> \<not> is_domain_port_str peer \<and>
    fs_crypt conn = Some (encrypt_new (snd (de_fresh e))) \<and> pk \<noteq> None \<and>
    (\<exists>cert. certified_pk (de_sodium e) (de_wire e) (dialled_id (dl_client d) peer) cert (dialled_key (dl_client d) key) = pk)"
  using client_start_secures [OF assms] assms(2) by (auto simp: secured_for_def)

section \<open>Witnesses\<close>

definition demo_dial_env :: "arrival \<Rightarrow> dial_env" where
  "demo_dial_env a =
     \<lparr>de_sodium = demo_sodium, de_wire = demo_wire, de_fresh = demo_own, de_arrival = a, de_incoming_only = False,
      de_rendezvous = (''s'', [''s'']), de_nat_type = 1, de_nat_type_later = 1, de_punch_ms = 40,
      de_uuid = (\<lambda>_. ''u''), de_join = None\<rparr>"

definition demo_addr :: socket_addr where "demo_addr = SocketV4 [10, 0, 0, 1] 7"

definition demo_dial :: "client \<Rightarrow> bytes \<Rightarrow> dial" where
  "demo_dial c cert =
     \<lparr>dl_client = c, dl_connects = [Inr demo_addr, Inr demo_addr],
      dl_answers = [Inr (Some (AnRelay \<lparr>rr_uuid = ''u'', rr_relay_server = ''r'', rr_union = RrPk cert, rr_refuse_reason = []\<rparr>))],
      dl_out = []\<rparr>"

lemma demo_address [simp]: "is_ip_str ''h'' = False" "is_domain_port_str ''h'' = False"
  by code_simp+

text \<open>An attempt by id that is answered with a relay.\<close>

lemma demo_by_relay:
  assumes "lc_other_server c = None"
    and "secure_connection demo_sodium demo_wire demo_own ''h'' cert [] a (stream_from demo_addr) = (Inr pk, conn)"
  shows "\<exists>d'. client_start (demo_dial_env a) ''h'' [] [] DEFAULT_CONN (demo_dial c cert) = (Inr (conn, False, pk), d')"
  using assms
  by (simp add: client_start_def client_dial_def start_by_id_def demo_dial_env_def demo_dial_def Let_def choose_server_def
      pick_rendezvous_server_def connect_tcp_def dial_emit_def eval_nat_numeral ask_server_def dial_relay_def secure_dialled_def
      update_direct_def dial_lc_def)

definition demo_hello :: arrival where
  "demo_hello = Arrives (frame (1 # sign_sign demo_sodium (wr_id_pk demo_wire (''h'', demo_pk demo_fresh)) demo_host_sk))"

lemma demo_signed:
  "length x = 32 \<Longrightarrow> decode_id_pk demo_sodium demo_wire (sign_sign demo_sodium (wr_id_pk demo_wire (i, x)) sk)
     (sign_pk demo_sodium sk) = Inr (i, x)"
  using demo_wire_ok demo_sign_ok
  by (simp add: decode_id_pk_def wire_ok_def sign_ok_def get_pk_def PUBLICKEYBYTES_def)

lemma demo_secured:
  "\<exists>conn. secure_connection demo_sodium demo_wire demo_own ''h'' demo_cert [] demo_hello (stream_from demo_addr) =
     (Inr (Some (demo_pk demo_host_sk)), conn) \<and> fs_crypt conn \<noteq> None"
proof -
  have pk: "sign_pk demo_sodium = demo_pk" "length (demo_pk k) = 32" for k
    by (simp_all add: demo_sodium_def demo_pk_def)
  have cert: "certified_pk demo_sodium demo_wire ''h'' demo_cert [] = Some (demo_pk demo_host_sk)"
    using demo_rs_pk demo_cert_not_Nil demo_signed [of "demo_pk demo_host_sk" "''h''" demo_rs]
    by (simp add: certified_pk_def demo_cert_def pk)
  let ?m = "1 # sign_sign demo_sodium (wr_id_pk demo_wire (''h'', demo_pk demo_fresh)) demo_host_sk"
  have m: "?m = wr_message demo_wire (HsSignedId (sign_sign demo_sodium (wr_id_pk demo_wire (''h'', box_pk demo_sodium demo_fresh)) demo_host_sk))"
    by (simp add: demo_wire_def demo_sodium_def)
  have next': "conn_next demo_sodium demo_hello (stream_from demo_addr) = (Inr (Some (Inr ?m)), stream_from demo_addr)"
    using conn_next_frame [of "stream_from demo_addr" ?m demo_sodium] demo_lengths(1)
    by (simp add: m demo_hello_def stream_from_def)
  have parse: "wr_parse_message demo_wire ?m = Some (HsSignedId (tl ?m))" by (simp add: demo_wire_def demo_parse_def)
  have signed: "decode_id_pk demo_sodium demo_wire (tl ?m) (demo_pk demo_host_sk) = Inr (''h'', demo_pk demo_fresh)"
    using demo_signed [of "demo_pk demo_fresh" "''h''" demo_host_sk] by (simp add: pk)
  have "\<exists>c. hs_send demo_sodium demo_wire (HsPublicKey p (box_seal demo_sodium (snd demo_own) n q s)) (stream_from demo_addr) = (Inr (), c)"
    if "p = box_pk demo_sodium x" for p n q s x
    using send_fits [of "stream_from demo_addr"] demo_lengths(2) [of x n q s] that
    by (simp add: hs_send_def stream_from_def codec_new_def)
  then obtain c where "hs_send demo_sodium demo_wire (HsPublicKey (box_pk demo_sodium (fst demo_own))
      (box_seal demo_sodium (snd demo_own) (replicate NONCEBYTES 0) (demo_pk demo_fresh) (fst demo_own))) (stream_from demo_addr) = (Inr (), c)"
    by blast
  then show ?thesis
    using cert next' parse signed
    by (simp add: secure_connection_def answer_signed_id_def send_then_def create_symmetric_key_msg_def split_beta
        stream_set_key_def)
qed

theorem direct_flag_is_true_witness:
  "\<exists>conn d'. client_start (demo_dial_env demo_hello) ''h'' [] [] DEFAULT_CONN
       (demo_dial (demo_client\<lparr>lc_force_relay := True\<rparr>) demo_cert) = (Inr (conn, False, Some (demo_pk demo_host_sk)), d') \<and>
     joins d' = 1"
proof -
  obtain conn where "secure_connection demo_sodium demo_wire demo_own ''h'' demo_cert [] demo_hello (stream_from demo_addr) =
      (Inr (Some (demo_pk demo_host_sk)), conn)"
    using demo_secured by blast
  from demo_by_relay [OF _ this, of "demo_client\<lparr>lc_force_relay := True\<rparr>"]
  obtain d' where d: "client_start (demo_dial_env demo_hello) ''h'' [] [] DEFAULT_CONN
       (demo_dial (demo_client\<lparr>lc_force_relay := True\<rparr>) demo_cert) = (Inr (conn, False, Some (demo_pk demo_host_sk)), d')"
    by (auto simp: demo_client_def)
  from direct_flag_is_true [OF d] d show ?thesis by (auto simp: demo_dial_def count_of_def)
qed

theorem encrypted_for_the_id_witness:
  "\<exists>conn d' pk. client_start (demo_dial_env demo_hello) ''h'' [] [] DEFAULT_CONN (demo_dial demo_client demo_cert) =
       (Inr (conn, False, Some pk), d') \<and> fs_crypt conn = Some (encrypt_new (snd demo_own)) \<and>
     (\<exists>cert. certified_pk demo_sodium demo_wire ''h'' cert [] = Some pk)"
proof -
  obtain conn where c: "secure_connection demo_sodium demo_wire demo_own ''h'' demo_cert [] demo_hello (stream_from demo_addr) =
      (Inr (Some (demo_pk demo_host_sk)), conn)" "fs_crypt conn \<noteq> None"
    using demo_secured by blast
  obtain d' where d: "client_start (demo_dial_env demo_hello) ''h'' [] [] DEFAULT_CONN (demo_dial demo_client demo_cert) =
      (Inr (conn, False, Some (demo_pk demo_host_sk)), d')"
    using demo_by_relay [OF _ c(1), of demo_client] by (auto simp: demo_client_def)
  from encrypted_for_the_id [OF d c(2)] d show ?thesis
    by (auto simp: demo_dial_env_def demo_dial_def demo_client_def dialled_id_def dialled_key_def)
qed

end
