(* ===== verification/Custom_Server.thy ===== *)
theory Custom_Server
  imports Net_Address Codec_Negotiation
begin

text \<open>
  The server settings in the name of the executable (\<open>src/custom_server.rs\<close>). Base64, JSON and the
  check of a signature are an argument.
\<close>

section \<open>Text\<close>

definition ends_with_ci :: "string \<Rightarrow> string \<Rightarrow> bool" where
  "ends_with_ci s pat \<longleftrightarrow> suffix pat (map lower_char s)"

text \<open>\<open>str::find\<close>: where the pattern begins first.\<close>

fun find_sub :: "string \<Rightarrow> string \<Rightarrow> nat option" where
  "find_sub pat [] = (if pat = [] then Some 0 else None)"
| "find_sub pat (x # xs) = (if prefix pat (x # xs) then Some 0 else map_option Suc (find_sub pat xs))"

text \<open>\<open>str::split\<close> on a string.\<close>

function split_str :: "string \<Rightarrow> string \<Rightarrow> string list" where
  "split_str pat s =
     (case (if pat = [] then None else find_sub pat s) of
        None \<Rightarrow> [s]
      | Some i \<Rightarrow> if s = [] then [s] else take i s # split_str pat (drop (i + length pat) s))"
  by pat_completeness auto
termination by (relation "measure (\<lambda>(_, s). length s)") (auto split: if_splits)

declare split_str.simps [simp del]

definition is_space :: "char \<Rightarrow> bool" where
  "is_space c \<longleftrightarrow> c = CHR '' '' \<or> (9 \<le> (of_char c :: nat) \<and> (of_char c :: nat) \<le> 13)"

definition str_trim :: "string \<Rightarrow> string" where
  "str_trim s = rev (dropWhile is_space (rev (dropWhile is_space s)))"

section \<open>The settings\<close>

record custom_server =
  cu_key :: string
  cu_host :: string
  cu_api :: string
  cu_relay :: string

record custom_env =
  cu_sodium :: sodium
  cu_decode :: "string \<Rightarrow> bytes option"
  cu_json :: "bytes \<Rightarrow> custom_server option"

definition CUSTOM_PK :: bytes where
  "CUSTOM_PK =
     [88, 168, 68, 104, 60, 5, 163, 198, 165, 38, 12, 85, 114, 203, 96, 163, 70, 48, 0, 131, 57,
      12, 46, 129, 83, 17, 84, 193, 119, 197, 130, 103]"

definition get_custom_server_from_config_string :: "custom_env \<Rightarrow> string \<Rightarrow> string + custom_server" where
  "get_custom_server_from_config_string e s =
     (let tmp = rev s in
      case cu_decode e tmp of
        None \<Rightarrow> Inl ''decode''
      | Some data \<Rightarrow>
          (case cu_json e data of
             Some lic \<Rightarrow> Inr lic
           | None \<Rightarrow>
               (case sign_verify (cu_sodium e) data CUSTOM_PK of
                  None \<Rightarrow> Inl ''sign:verify failed''
                | Some data \<Rightarrow> (case cu_json e data of Some lic \<Rightarrow> Inr lic | None \<Rightarrow> Inl ''json''))))"

text \<open>One part of a name with \<open>host=\<close>: a later part of the same kind replaces an earlier one.\<close>

definition custom_part :: "string \<Rightarrow> custom_server \<Rightarrow> custom_server" where
  "custom_part el c =
     (let c = (if prefix ''host='' el then c\<lparr>cu_host := drop 5 el\<rparr> else c);
          c = (if prefix ''key='' el then c\<lparr>cu_key := drop 4 el\<rparr> else c);
          c = (if prefix ''api='' el then c\<lparr>cu_api := drop 4 el\<rparr> else c)
      in if prefix ''relay='' el then c\<lparr>cu_relay := drop 4 el\<rparr> else c)"

fun first_ok :: "('a \<Rightarrow> string + 'b) \<Rightarrow> 'a list \<Rightarrow> string + 'b" where
  "first_ok f [] = Inl ''Failed to parse''"
| "first_ok f (x # xs) = (case f x of Inr y \<Rightarrow> Inr y | Inl _ \<Rightarrow> first_ok f xs)"

definition custom_piece :: "custom_env \<Rightarrow> string \<Rightarrow> string + custom_server" where
  "custom_piece e s =
     (case get_custom_server_from_config_string e (str_trim s) of
        Inr lic \<Rightarrow> Inr lic
      | Inl err \<Rightarrow>
          if CHR ''('' \<in> set s
          then first_ok (\<lambda>s. get_custom_server_from_config_string e (str_trim s)) (split_on CHR ''('' s)
          else Inl err)"

definition get_custom_server_from_string :: "custom_env \<Rightarrow> string \<Rightarrow> string + custom_server" where
  "get_custom_server_from_string e s =
     (let s = (if ends_with_ci s ''.exe.exe'' then take (length s - 8) s
               else if ends_with_ci s ''.exe'' then take (length s - 4) s else s)
      in case find_sub ''host='' s of
           Some i \<Rightarrow>
             Inr (fold custom_part (split_on CHR '','' (drop i s)) \<lparr>cu_key = [], cu_host = [], cu_api = [], cu_relay = []\<rparr>)
         | None \<Rightarrow>
             (let s = str_replace ''-licensed---'' ''--'' s;
                  s = str_replace ''-licensed--'' ''--'' s;
                  s = str_replace ''-licensed-'' ''--'' s
              in first_ok (custom_piece e) (split_str ''--'' s)))"

section \<open>What comes back\<close>

lemma find_sub_prefix [simp]: "find_sub pat (pat @ s) = Some 0"
proof (cases "pat @ s")
  case (Cons a list)
  then have "prefix pat (a # list)" by (metis prefixI)
  then show ?thesis by (simp add: Cons)
qed simp

text \<open>A server written into the name of the executable comes back, with its key and its API server,
  also when the system has added a copy number behind the last comma; of a relay server, though, two
  characters of the word \<open>relay=\<close> come back with it.\<close>

theorem custom_server_parts:
  assumes "list_all (\<lambda>s. CHR '','' \<notin> set s) [host, key, api, relay, rest]"
    and "list_all (\<lambda>x. \<not> prefix x rest) [''host='', ''key='', ''api='', ''relay='']"
    and "\<not> ends_with_ci (''host='' @ host @ '',key='' @ key @ '',api='' @ api @ '',relay='' @ relay @ '','' @ rest) ''.exe''"
  shows "get_custom_server_from_string e
      (''rustdesk-host='' @ host @ '',key='' @ key @ '',api='' @ api @ '',relay='' @ relay @ '','' @ rest @ ''.exe'')
    = Inr \<lparr>cu_key = key, cu_host = host, cu_api = api, cu_relay = ''y='' @ relay\<rparr>"
proof -
  define body where "body = ''host='' @ host @ '',key='' @ key @ '',api='' @ api @ '',relay='' @ relay @ '','' @ rest"
  let ?s = "''rustdesk-'' @ body @ ''.exe''"
  have two: "\<not> ends_with_ci ?s ''.exe.exe''"
  proof
    assume "ends_with_ci ?s ''.exe.exe''"
    then have "suffix (''.exe'' @ ''.exe'') (map lower_char (''rustdesk-'' @ body) @ ''.exe'')"
      by (simp add: ends_with_ci_def lower_char_def)
    then have "suffix ''.exe'' (map lower_char ''rustdesk-'' @ map lower_char body)"
      by (auto simp: suffix_def simp flip: append_assoc)
    moreover have "suffix (map lower_char body) (map lower_char ''rustdesk-'' @ map lower_char body)"
      by (rule suffixI [OF refl])
    moreover have "length ''.exe'' \<le> length (map lower_char body)" by (simp add: body_def)
    ultimately have "suffix ''.exe'' (map lower_char body)" by (rule suffix_length_suffix)
    then show False using assms(3) by (simp add: ends_with_ci_def body_def)
  qed
  have one: "ends_with_ci ?s ''.exe''" by (simp add: ends_with_ci_def suffix_def lower_char_def)
  have cut: "take (length ?s - 4) ?s = ''rustdesk-'' @ body" by simp
  have found: "find_sub ''host='' (''rustdesk-'' @ body) = Some 9" by (simp add: body_def)
  have parts: "split_on CHR '','' body = [''host='' @ host, ''key='' @ key, ''api='' @ api, ''relay='' @ relay, rest]"
    using assms(1) split_on_sep [of "CHR '',''" "''host='' @ host"] split_on_sep [of "CHR '',''" "''key='' @ key"]
      split_on_sep [of "CHR '',''" "''api='' @ api"] split_on_sep [of "CHR '',''" "''relay='' @ relay"]
    by (simp add: body_def)
  have "get_custom_server_from_string e ?s
      = Inr (fold custom_part (split_on CHR '','' (drop 9 (''rustdesk-'' @ body))) \<lparr>cu_key = [], cu_host = [], cu_api = [], cu_relay = []\<rparr>)"
    unfolding get_custom_server_from_string_def Let_def using two one cut found by (simp only: if_True if_False option.case)
  moreover have "drop 9 (''rustdesk-'' @ body) = body" by simp
  moreover have "custom_part rest c = c" for c
    using assms(2) by (auto simp: custom_part_def)
  then have "fold custom_part (split_on CHR '','' body) \<lparr>cu_key = [], cu_host = [], cu_api = [], cu_relay = []\<rparr>
      = \<lparr>cu_key = key, cu_host = host, cu_api = api, cu_relay = ''y='' @ relay\<rparr>"
    unfolding parts by (simp add: custom_part_def)
  ultimately show ?thesis unfolding body_def by (simp only: append.simps append_assoc)
qed

theorem custom_server_parts_witness:
  "get_custom_server_from_string \<lparr>cu_sodium = demo_sodium, cu_decode = (\<lambda>_. None), cu_json = (\<lambda>_. None)\<rparr>
      ''rustdesk-host=a.net,key=k,api=,relay=r.net,(1).exe''
    = Inr \<lparr>cu_key = ''k'', cu_host = ''a.net'', cu_api = [], cu_relay = ''y=r.net''\<rparr>"
proof -
  have "\<not> ends_with_ci (''host='' @ ''a.net'' @ '',key='' @ ''k'' @ '',api='' @ [] @ '',relay='' @ ''r.net'' @ '','' @ ''(1)'') ''.exe''"
    by (simp add: ends_with_ci_def lower_char_def suffix_def Cons_eq_append_conv)
  then show ?thesis
    using custom_server_parts [of "''a.net''" "''k''" "[]" "''r.net''" "''(1)''"] by simp
qed

end
