(* ===== verification/Input_Service.thy ===== *)
theory Input_Service
  imports Conn_Message
begin

text \<open>
  The input a peer causes on the host (\<open>src/server/input_service.rs\<close>, Linux build): keys in the legacy, map
  and translate modes, the mouse, the keys that are held and their release, and the lock keys. The keyboard
  of the system is behind \<open>enigo\<close> and \<open>rdev\<close>: what they are told is a list of effects, what they answer an
  unknown function of all that has been told.
\<close>

section \<open>Keys and effects\<close>

datatype enigo_key =
    EkAlt | EkRightAlt | EkControl | EkRightControl | EkShift | EkRightShift | EkMeta | EkRWin
  | EkCapsLock | EkNumLock | EkNamed string | EkLayout nat | EkRaw u16

datatype rdev_input = RdRaw u32 | RdShiftLeft | RdShiftRight

datatype mouse_button = MbLeft | MbRight | MbMiddle | MbBack | MbForward

datatype input_effect =
    IeKeyDown enigo_key bool                \<comment> \<open>and whether it succeeded\<close>
  | IeKeyUp enigo_key
  | IeKeyClick enigo_key
  | IeSequence "nat list"
  | IeSimulate bool rdev_input              \<comment> \<open>\<open>rdev::simulate\<close>, pressed or released\<close>
  | IeMouseMove i32 i32
  | IeMouseDown mouse_button
  | IeMouseUp mouse_button
  | IeScrollX i32
  | IeScrollY i32
  | IeLockScreen                            \<comment> \<open>the thread that locks the screen\<close>
  | IeBlock bool
  | IeBlockError bool string

text \<open>\<open>KeysDown\<close>: a key as it is recorded.\<close>

datatype record_key = RkRdev u32 | RkEnigo nat

record peer_input =
  pi_conn :: i32
  pi_time :: i64
  pi_x :: i32
  pi_y :: i32

record input_state =
  is_keys_down :: "(record_key, nat) hmap"
  is_exiting :: bool
  is_peer_cursor :: peer_input
  is_out :: "input_effect list"

record input_env =
  ie_now :: nat                             \<comment> \<open>milliseconds\<close>
  ie_time :: i64                            \<comment> \<open>\<open>get_time\<close>\<close>
  ie_key_state :: "input_effect list \<Rightarrow> enigo_key \<Rightarrow> bool"
  ie_key_down :: "input_effect list \<Rightarrow> enigo_key \<Rightarrow> bool"
  ie_x11 :: bool
  ie_keycode :: "u32 \<Rightarrow> u32"                \<comment> \<open>the cast to rdev's key codes\<close>
  ie_rdev :: "u32 \<Rightarrow> string"                \<comment> \<open>\<open>keycode_to_rdev_key\<close>, the name of the key\<close>
  ie_upper :: "nat \<Rightarrow> nat list"             \<comment> \<open>\<open>to_uppercase\<close> of a character\<close>
  ie_block :: "bool \<times> string"

definition KEY_CHAR_START :: nat where "KEY_CHAR_START = 9999"

fun ck_value :: "control_key \<Rightarrow> nat" where
  "ck_value CkAlt = 1"
| "ck_value CkControl = 4"
| "ck_value CkMeta = 23"
| "ck_value CkReturn = 27"
| "ck_value CkShift = 29"
| "ck_value CkRWin = 64"
| "ck_value CkNumpadEnter = 72"
| "ck_value CkRShift = 73"
| "ck_value CkRControl = 74"
| "ck_value CkRAlt = 75"
| "ck_value (CkOther n) = n"

definition KEY_MAP :: "(nat \<times> enigo_key) list" where
  "KEY_MAP =
     [(1, EkAlt), (2, EkNamed ''Backspace''), (3, EkCapsLock), (4, EkControl), (5, EkNamed ''Delete''),
      (6, EkNamed ''DownArrow''), (7, EkNamed ''End''), (8, EkNamed ''Escape''), (9, EkNamed ''F1''),
      (10, EkNamed ''F10''), (11, EkNamed ''F11''), (12, EkNamed ''F12''), (13, EkNamed ''F2''),
      (14, EkNamed ''F3''), (15, EkNamed ''F4''), (16, EkNamed ''F5''), (17, EkNamed ''F6''),
      (18, EkNamed ''F7''), (19, EkNamed ''F8''), (20, EkNamed ''F9''), (21, EkNamed ''Home''),
      (22, EkNamed ''LeftArrow''), (23, EkMeta), (24, EkNamed ''Option''), (25, EkNamed ''PageDown''),
      (26, EkNamed ''PageUp''), (27, EkNamed ''Return''), (28, EkNamed ''RightArrow''), (29, EkShift),
      (30, EkNamed ''Space''), (31, EkNamed ''Tab''), (32, EkNamed ''UpArrow''), (33, EkNamed ''Numpad0''),
      (34, EkNamed ''Numpad1''), (35, EkNamed ''Numpad2''), (36, EkNamed ''Numpad3''), (37, EkNamed ''Numpad4''),
      (38, EkNamed ''Numpad5''), (39, EkNamed ''Numpad6''), (40, EkNamed ''Numpad7''), (41, EkNamed ''Numpad8''),
      (42, EkNamed ''Numpad9''), (43, EkNamed ''Cancel''), (44, EkNamed ''Clear''), (45, EkAlt),
      (46, EkNamed ''Pause''), (47, EkNamed ''Kana''), (48, EkNamed ''Hangul''), (49, EkNamed ''Junja''),
      (50, EkNamed ''Final''), (51, EkNamed ''Hanja''), (52, EkNamed ''Kanji''), (53, EkNamed ''Convert''),
      (54, EkNamed ''Select''), (55, EkNamed ''Print''), (56, EkNamed ''Execute''), (57, EkNamed ''Snapshot''),
      (58, EkNamed ''Insert''), (59, EkNamed ''Help''), (60, EkNamed ''Sleep''), (61, EkNamed ''Separator''),
      (62, EkNamed ''Scroll''), (63, EkNumLock), (64, EkRWin), (65, EkNamed ''Apps''), (66, EkNamed ''Multiply''),
      (67, EkNamed ''Add''), (68, EkNamed ''Subtract''), (69, EkNamed ''Decimal''), (70, EkNamed ''Divide''),
      (71, EkNamed ''Equals''), (72, EkNamed ''NumpadEnter''), (75, EkRightAlt), (74, EkRightControl),
      (73, EkRightShift)]"

definition control_key_value_to_key :: "nat \<Rightarrow> enigo_key option" where
  "control_key_value_to_key n = map_of KEY_MAP n"

text \<open>A scalar value of Unicode.\<close>

definition is_char :: "u32 \<Rightarrow> bool" where
  "is_char c \<longleftrightarrow> unat c < 0xD800 \<or> (0xE000 \<le> unat c \<and> unat c < 0x110000)"

definition char_value_to_key :: "u32 \<Rightarrow> enigo_key" where
  "char_value_to_key c = EkLayout (if is_char c then unat c else 0)"

section \<open>The keyboard\<close>

definition in_emit :: "input_effect \<Rightarrow> input_state \<Rightarrow> input_state" where
  "in_emit x s = s\<lparr>is_out := is_out s @ [x]\<rparr>"

definition en_key_down :: "input_env \<Rightarrow> enigo_key \<Rightarrow> input_state \<Rightarrow> bool \<times> input_state" where
  "en_key_down e k s = (let ok = ie_key_down e (is_out s) k in (ok, in_emit (IeKeyDown k ok) s))"

definition get_key_state :: "input_env \<Rightarrow> enigo_key \<Rightarrow> input_state \<Rightarrow> bool" where
  "get_key_state e k s = ie_key_state e (is_out s) k"

fun other_side :: "enigo_key \<Rightarrow> enigo_key option" where
  "other_side EkShift = Some EkRightShift"
| "other_side EkControl = Some EkRightControl"
| "other_side EkAlt = Some EkRightAlt"
| "other_side EkMeta = Some EkRWin"
| "other_side EkRightShift = Some EkShift"
| "other_side EkRightControl = Some EkControl"
| "other_side EkRightAlt = Some EkAlt"
| "other_side EkRWin = Some EkMeta"
| "other_side _ = None"

definition get_modifier_state :: "input_env \<Rightarrow> enigo_key \<Rightarrow> input_state \<Rightarrow> bool" where
  "get_modifier_state e k s =
     (get_key_state e k s \<or> (case other_side k of Some k' \<Rightarrow> get_key_state e k' s | None \<Rightarrow> False))"

definition record_pressed_key :: "input_env \<Rightarrow> record_key \<Rightarrow> bool \<Rightarrow> input_state \<Rightarrow> input_state" where
  "record_pressed_key e r down s =
     s\<lparr>is_keys_down := (if down then hm_insert r (ie_now e) (is_keys_down s) else hm_remove r (is_keys_down s))\<rparr>"

section \<open>Keys that stay down\<close>

text \<open>Both tests are the same in the source, so a character is never found.\<close>

definition record_key_is_control_key :: "nat \<Rightarrow> bool" where
  "record_key_is_control_key r \<longleftrightarrow> r < KEY_CHAR_START"

definition record_key_is_chr :: "nat \<Rightarrow> bool" where
  "record_key_is_chr r \<longleftrightarrow> r < KEY_CHAR_START"

definition record_key_to_key :: "nat \<Rightarrow> enigo_key option" where
  "record_key_to_key r =
     (if record_key_is_control_key r then control_key_value_to_key r
      else if record_key_is_chr r then Some (char_value_to_key (of_nat (r - KEY_CHAR_START)))
      else None)"

definition release_record_key :: "record_key \<Rightarrow> input_state \<Rightarrow> input_state" where
  "release_record_key r s =
     (case r of
        RkRdev k \<Rightarrow> in_emit (IeSimulate False (RdRaw k)) s
      | RkEnigo n \<Rightarrow> (case record_key_to_key n of Some k \<Rightarrow> in_emit (IeKeyUp k) s | None \<Rightarrow> s))"

definition fix_key_down_timeout :: "input_env \<Rightarrow> bool \<Rightarrow> input_state \<Rightarrow> input_state" where
  "fix_key_down_timeout e force s =
     fold (\<lambda>(r, t) s. if force \<or> 360000 \<le> ie_now e - t
                      then release_record_key r (record_pressed_key e r False s) else s)
       (is_keys_down s) s"

definition fix_key_down_timeout_at_exit :: "input_env \<Rightarrow> input_state \<Rightarrow> input_state" where
  "fix_key_down_timeout_at_exit e s =
     (if is_exiting s then s else fix_key_down_timeout e True (s\<lparr>is_exiting := True\<rparr>))"

definition release_device_modifiers :: "input_env \<Rightarrow> input_state \<Rightarrow> input_state" where
  "release_device_modifiers e s =
     fold (\<lambda>k s. if get_modifier_state e k s then in_emit (IeKeyUp k) s else s)
       [EkShift, EkControl, EkAlt, EkMeta, EkRightShift, EkRightControl, EkRightAlt, EkRWin] s"

section \<open>Modifiers\<close>

definition has_modifier :: "control_key list \<Rightarrow> control_key \<Rightarrow> bool" where
  "has_modifier ms ck \<longleftrightarrow> ck_value ck \<in> set (map ck_value ms)"

definition fix_modifier :: "input_env \<Rightarrow> control_key list \<Rightarrow> control_key \<Rightarrow> enigo_key \<Rightarrow> input_state \<Rightarrow> input_state" where
  "fix_modifier e ms key0 key1 s =
     (if get_modifier_state e key1 s \<and> \<not> has_modifier ms key0 then in_emit (IeKeyUp key1) s else s)"

text \<open>The key of the event itself, by its value, is left alone.\<close>

definition fix_modifiers :: "input_env \<Rightarrow> control_key list \<Rightarrow> int \<Rightarrow> input_state \<Rightarrow> input_state" where
  "fix_modifiers e ms ck s =
     fold (\<lambda>(own, key0, key1) s. if ck \<noteq> int (ck_value own) then fix_modifier e ms key0 key1 s else s)
       [(CkShift, CkShift, EkShift), (CkRShift, CkShift, EkRightShift),
        (CkAlt, CkAlt, EkAlt), (CkRAlt, CkAlt, EkRightAlt),
        (CkControl, CkControl, EkControl), (CkRControl, CkControl, EkRightControl),
        (CkMeta, CkMeta, EkMeta), (CkRWin, CkMeta, EkRWin)] s"

definition get_control_key_value :: "key_event \<Rightarrow> int" where
  "get_control_key_value evt = (case ke_union evt of Some (KeyControl ck) \<Rightarrow> int (ck_value ck) | _ \<Rightarrow> - 1)"

definition release_unpressed_modifiers :: "input_env \<Rightarrow> key_event \<Rightarrow> input_state \<Rightarrow> input_state" where
  "release_unpressed_modifiers e evt = fix_modifiers e (ke_modifiers evt) (get_control_key_value evt)"

text \<open>The number of the control key is looked up as a key code.\<close>

definition is_altgr_pressed :: "input_state \<Rightarrow> bool" where
  "is_altgr_pressed s \<longleftrightarrow> hm_get (is_keys_down s) (RkRdev 75) \<noteq> None"

fun press_modifiers :: "input_env \<Rightarrow> control_key list \<Rightarrow> input_state \<Rightarrow> enigo_key list \<times> input_state" where
  "press_modifiers e [] s = ([], s)"
| "press_modifiers e (ck # cks) s =
     (case control_key_value_to_key (ck_value ck) of
        None \<Rightarrow> press_modifiers e cks s
      | Some key \<Rightarrow>
          if get_modifier_state e key s then press_modifiers e cks s
          else if key = EkAlt \<and> is_altgr_pressed s then press_modifiers e cks s
          else
            (let s = snd (en_key_down e key s);
                 (ks, s) = press_modifiers e cks s
             in (key # ks, s)))"

definition sync_modifiers :: "input_env \<Rightarrow> key_event \<Rightarrow> input_state \<Rightarrow> enigo_key list \<times> input_state" where
  "sync_modifiers e evt s =
     (if ke_down evt then press_modifiers e (ke_modifiers evt) (release_unpressed_modifiers e evt s) else ([], s))"

definition release_keys :: "enigo_key list \<Rightarrow> input_state \<Rightarrow> input_state" where
  "release_keys ks s = fold (\<lambda>k. in_emit (IeKeyUp k)) ks s"

section \<open>Lock keys\<close>

definition is_legacy_mode :: "key_event \<Rightarrow> bool" where
  "is_legacy_mode evt \<longleftrightarrow> ke_mode evt = KmLegacy \<or> ke_mode evt = KmUnknown"

text \<open>\<open>LockModesHandler\<close>: which lock keys were clicked, to be clicked again when it is dropped.\<close>

definition lock_modes_new :: "input_env \<Rightarrow> key_event \<Rightarrow> bool \<Rightarrow> input_state \<Rightarrow> (bool \<times> bool) \<times> input_state" where
  "lock_modes_new e evt is_numpad_key s =
     (let caps = (has_modifier (ke_modifiers evt) (CkOther 3) \<noteq> get_key_state e EkCapsLock s);
          s = (if caps then in_emit (IeKeyClick EkCapsLock) s else s);
          num = (is_numpad_key \<and> has_modifier (ke_modifiers evt) (CkOther 63) \<noteq> get_key_state e EkNumLock s);
          s = (if num then in_emit (IeKeyClick EkNumLock) s else s)
      in ((caps, num), s))"

definition lock_modes_drop :: "bool \<times> bool \<Rightarrow> input_state \<Rightarrow> input_state" where
  "lock_modes_drop h s =
     (let s = (if fst h then in_emit (IeKeyClick EkCapsLock) s else s)
      in if snd h then in_emit (IeKeyClick EkNumLock) s else s)"

definition skip_led_sync_control_key :: "control_key \<Rightarrow> bool" where
  "skip_led_sync_control_key ck \<longleftrightarrow>
     ck_value ck \<in> set (map ck_value [CkControl, CkRControl, CkMeta, CkShift, CkRShift, CkAlt, CkRAlt, CkOther 31, CkReturn])"

definition is_numpad_control_key :: "control_key \<Rightarrow> bool" where
  "is_numpad_control_key ck \<longleftrightarrow> (33 \<le> ck_value ck \<and> ck_value ck \<le> 42) \<or> ck_value ck = 72"

definition skip_led_sync_rdev_key :: "string \<Rightarrow> bool" where
  "skip_led_sync_rdev_key k \<longleftrightarrow>
     k \<in> set [''ControlLeft'', ''ControlRight'', ''MetaLeft'', ''MetaRight'', ''ShiftLeft'', ''ShiftRight'',
            ''Alt'', ''AltGr'', ''Tab'', ''Return'']"

definition is_numpad_rdev_key :: "string \<Rightarrow> bool" where
  "is_numpad_rdev_key k \<longleftrightarrow>
     k \<in> set [''Kp0'', ''Kp1'', ''Kp2'', ''Kp3'', ''Kp4'', ''Kp5'', ''Kp6'', ''Kp7'', ''Kp8'', ''Kp9'',
            ''KpMinus'', ''KpMultiply'', ''KpDivide'', ''KpPlus'', ''KpDecimal'']"

text \<open>Whether an event gets a handler of the lock keys, and whether its key is on the number pad.\<close>

definition lock_handler_for :: "input_env \<Rightarrow> key_event \<Rightarrow> bool option" where
  "lock_handler_for e evt =
     (case ke_union evt of
        Some (KeyUnicode _) \<Rightarrow> Some False
      | Some (KeySeq _) \<Rightarrow> Some False
      | Some (KeyControl ck) \<Rightarrow> if skip_led_sync_control_key ck then None else Some (is_numpad_control_key ck)
      | Some (KeyChr code) \<Rightarrow>
          if is_legacy_mode evt then Some False
          else if skip_led_sync_rdev_key (ie_rdev e code) then None
          else Some (is_numpad_rdev_key (ie_rdev e code))
      | _ \<Rightarrow> None)"

section \<open>Key events\<close>

definition simulate_position :: "input_env \<Rightarrow> u32 \<Rightarrow> bool \<Rightarrow> input_state \<Rightarrow> input_state" where
  "simulate_position e code down s =
     in_emit (IeSimulate down (RdRaw (ie_keycode e code))) (record_pressed_key e (RkRdev (ie_keycode e code)) down s)"

definition map_keyboard_mode :: "input_env \<Rightarrow> key_event \<Rightarrow> input_state \<Rightarrow> input_state" where
  "map_keyboard_mode e evt s =
     (if \<not> ie_x11 e then
        (if ke_down evt then snd (en_key_down e (EkRaw (ucast (key_chr evt))) s)
         else in_emit (IeKeyUp (EkRaw (ucast (key_chr evt)))) s)
      else simulate_position e (key_chr evt) (ke_down evt) s)"

definition process_control_key :: "input_env \<Rightarrow> control_key \<Rightarrow> bool \<Rightarrow> input_state \<Rightarrow> input_state" where
  "process_control_key e ck down s =
     (case control_key_value_to_key (ck_value ck) of
        None \<Rightarrow> s
      | Some k \<Rightarrow> if down then snd (en_key_down e k s) else in_emit (IeKeyUp k) s)"

definition need_to_uppercase :: "input_env \<Rightarrow> input_state \<Rightarrow> bool" where
  "need_to_uppercase e s \<longleftrightarrow> get_modifier_state e EkShift s \<or> get_modifier_state e EkCapsLock s"

definition process_chr :: "input_env \<Rightarrow> u32 \<Rightarrow> bool \<Rightarrow> input_state \<Rightarrow> input_state" where
  "process_chr e c down s =
     (let key = char_value_to_key c in
      if down then
        (let (ok, s) = en_key_down e key s in
         if ok then s
         else if is_char c
         then in_emit (IeSequence (if need_to_uppercase e s then ie_upper e (unat c) else [unat c])) s
         else s)
      else in_emit (IeKeyUp key) s)"

definition process_unicode :: "u32 \<Rightarrow> input_state \<Rightarrow> input_state" where
  "process_unicode c s = (if is_char c then in_emit (IeSequence [unat c]) s else s)"

definition process_seq :: "string \<Rightarrow> input_state \<Rightarrow> input_state" where
  "process_seq sequence s = in_emit (IeSequence (map of_char sequence)) s"

definition is_function_key :: "control_key \<Rightarrow> input_state \<Rightarrow> bool \<times> input_state" where
  "is_function_key ck s =
     (if ck_value ck = 100 then (True, s)
      else if ck_value ck = 101 then (True, in_emit IeLockScreen s)
      else (False, s))"

text \<open>After a function key the modifiers that were pressed for it are not released.\<close>

definition legacy_keyboard_mode :: "input_env \<Rightarrow> key_event \<Rightarrow> input_state \<Rightarrow> input_state" where
  "legacy_keyboard_mode e evt s =
     (let (to_release, s) = sync_modifiers e evt s;
          down = ke_down evt
      in case ke_union evt of
           Some (KeyControl ck) \<Rightarrow>
             (let (fun_key, s) = is_function_key ck s in
              if fun_key then s
              else release_keys to_release
                     (process_control_key e ck down (record_pressed_key e (RkEnigo (ck_value ck)) down s)))
         | Some (KeyChr c) \<Rightarrow>
             release_keys to_release
               (process_chr e c down (record_pressed_key e (RkEnigo (unat c + KEY_CHAR_START)) down s))
         | Some (KeyUnicode c) \<Rightarrow> release_keys to_release (process_unicode c s)
         | Some (KeySeq sequence) \<Rightarrow> release_keys to_release (process_seq sequence s)
         | _ \<Rightarrow> release_keys to_release s)"

definition translate_keyboard_mode :: "input_env \<Rightarrow> key_event \<Rightarrow> input_state \<Rightarrow> input_state" where
  "translate_keyboard_mode e evt s =
     (case ke_union evt of
        Some (KeySeq sequence) \<Rightarrow>
          (let s = (if get_modifier_state e EkShift s then in_emit (IeSimulate False RdShiftLeft) s else s);
               s = (if get_modifier_state e EkRightShift s then in_emit (IeSimulate False RdShiftRight) s else s)
           in fold (\<lambda>c. in_emit (IeKeyClick (EkLayout (of_char c)))) sequence s)
      | Some (KeyChr c) \<Rightarrow> simulate_position e c (ke_down evt) s
      | _ \<Rightarrow> s)"

definition handle_key :: "input_env \<Rightarrow> key_event \<Rightarrow> input_state \<Rightarrow> input_state" where
  "handle_key e evt s =
     (if is_exiting s then s
      else
        (let (h, s) = (case lock_handler_for e evt of
                         Some numpad \<Rightarrow> lock_modes_new e evt numpad s | None \<Rightarrow> ((False, False), s));
             s = (case ke_mode evt of
                    KmMap \<Rightarrow> map_keyboard_mode e evt s
                  | KmTranslate \<Rightarrow> translate_keyboard_mode e evt s
                  | _ \<Rightarrow> legacy_keyboard_mode e evt s)
         in lock_modes_drop h s))"

text \<open>\<open>lock_screen\<close> on Linux, in its own thread.\<close>

definition lock_screen :: "input_env \<Rightarrow> input_state \<Rightarrow> input_state" where
  "lock_screen e s =
     (let evt = \<lparr>ke_down = True, ke_press = False, ke_union = Some (KeyChr 108), ke_modifiers = [CkMeta], ke_mode = KmLegacy\<rparr>
      in handle_key e (evt\<lparr>ke_down := False\<rparr>) (handle_key e evt s))"

section \<open>The mouse\<close>

definition MOUSE_TYPE_MOVE :: i32 where "MOUSE_TYPE_MOVE = 0"
definition MOUSE_TYPE_TRACKPAD :: i32 where "MOUSE_TYPE_TRACKPAD = 4"
definition MOUSE_BUTTON_WHEEL :: i32 where "MOUSE_BUTTON_WHEEL = 4"
definition MOUSE_BUTTON_BACK :: i32 where "MOUSE_BUTTON_BACK = 8"
definition MOUSE_BUTTON_FORWARD :: i32 where "MOUSE_BUTTON_FORWARD = 16"

definition mouse_button_of :: "i32 \<Rightarrow> mouse_button option" where
  "mouse_button_of b =
     (if b = 1 then Some MbLeft else if b = 2 then Some MbRight else if b = MOUSE_BUTTON_WHEEL then Some MbMiddle
      else if b = MOUSE_BUTTON_BACK then Some MbBack else if b = MOUSE_BUTTON_FORWARD then Some MbForward else None)"

text \<open>The modifiers of a click; the lock keys among them are left alone.\<close>

fun click_modifiers :: "input_env \<Rightarrow> control_key list \<Rightarrow> input_state \<Rightarrow> enigo_key list \<times> input_state" where
  "click_modifiers e [] s = ([], s)"
| "click_modifiers e (ck # cks) s =
     (case control_key_value_to_key (ck_value ck) of
        None \<Rightarrow> click_modifiers e cks s
      | Some key \<Rightarrow>
          if key \<noteq> EkCapsLock \<and> key \<noteq> EkNumLock \<and> \<not> get_modifier_state e key s then
            (let s = snd (en_key_down e key s);
                 (ks, s) = click_modifiers e cks s
             in (key # ks, s))
          else click_modifiers e cks s)"

definition handle_mouse :: "input_env \<Rightarrow> mouse_event \<Rightarrow> i32 \<Rightarrow> input_state \<Rightarrow> input_state" where
  "handle_mouse e evt conn s =
     (if is_exiting s then s
      else
        (let buttons = signed_drop_bit 3 (me_mask evt);
             evt_type = me_mask evt AND 7;
             (to_release, s) =
               (if evt_type = 1 then click_modifiers e (me_modifiers evt) (fix_modifiers e (me_modifiers evt) 0 s)
                else ([], s));
             s = (if evt_type = MOUSE_TYPE_MOVE then
                    (in_emit (IeMouseMove (me_x evt) (me_y evt)) s)
                      \<lparr>is_peer_cursor := \<lparr>pi_conn = conn, pi_time = ie_time e, pi_x = me_x evt, pi_y = me_y evt\<rparr>\<rparr>
                  else if evt_type = 1 then
                    (case mouse_button_of buttons of Some b \<Rightarrow> in_emit (IeMouseDown b) s | None \<Rightarrow> s)
                  else if evt_type = 2 then
                    (case mouse_button_of buttons of Some b \<Rightarrow> in_emit (IeMouseUp b) s | None \<Rightarrow> s)
                  else if evt_type = 3 \<or> evt_type = MOUSE_TYPE_TRACKPAD then
                    (let x = - me_x evt; y = - me_y evt;
                         s = (if y \<noteq> 0 then in_emit (IeScrollY y) s else s)
                     in if x \<noteq> 0 then in_emit (IeScrollX x) s else s)
                  else s)
         in release_keys to_release s))"

definition update_latest_input_cursor_time :: "input_env \<Rightarrow> i32 \<Rightarrow> input_state \<Rightarrow> input_state" where
  "update_latest_input_cursor_time e conn s =
     s\<lparr>is_peer_cursor := (is_peer_cursor s)\<lparr>pi_conn := conn, pi_time := ie_time e\<rparr>\<rparr>"

section \<open>The input thread of a connection\<close>

datatype message_input =
    MiMouse mouse_event i32
  | MiKey key_event bool
  | MiPointer bytes i32
  | MiBlockOn
  | MiBlockOff
  | MiTimeout
  | MiDisconnected

text \<open>One turn of \<open>Connection::handle_input\<close>; its answer is whether the thread goes on and whether input is
  blocked. A pointer event does nothing on this system.\<close>

definition handle_input :: "input_env \<Rightarrow> message_input \<Rightarrow> bool \<times> input_state \<Rightarrow> bool \<times> bool \<times> input_state" where
  "handle_input e m x =
     (let (blocked, s) = x in
      case m of
        MiMouse msg i \<Rightarrow> (True, blocked, handle_mouse e msg i s)
      | MiKey msg press \<Rightarrow>
          (let twice = (press \<and> ke_mode msg = KmLegacy);
               msg = (if twice then msg\<lparr>ke_down := True\<rparr> else msg);
               s = handle_key e msg s;
               s = (if twice then handle_key e (msg\<lparr>ke_down := False\<rparr>) s else s)
           in (True, blocked, s))
      | MiPointer msg i \<Rightarrow> (True, blocked, s)
      | MiBlockOn \<Rightarrow>
          (let (ok, msg) = ie_block e; s = in_emit (IeBlock True) s
           in if ok then (True, True, s) else (True, blocked, in_emit (IeBlockError True msg) s))
      | MiBlockOff \<Rightarrow>
          (let (ok, msg) = ie_block e; s = in_emit (IeBlock False) s
           in if ok then (True, False, s) else (True, blocked, in_emit (IeBlockError False msg) s))
      | MiTimeout \<Rightarrow> (True, blocked, if blocked then in_emit (IeBlock True) s else s)
      | MiDisconnected \<Rightarrow> (False, blocked, if blocked then in_emit (IeBlock True) s else s))"

end
