(* ===== verification/Input_Keys.thy ===== *)
theory Input_Keys
  imports Input_Service
begin

text \<open>
  What is proved of the input of a peer: keys do not stay down, the lock keys are left as they were, the
  modifiers of a key are those of the event; and the two ways in which a key does stay down.
\<close>

section \<open>What is held\<close>

fun press_effect :: "input_effect \<Rightarrow> enigo_key set \<Rightarrow> enigo_key set" where
  "press_effect (IeKeyDown k ok) h = (if ok then insert k h else h)"
| "press_effect (IeKeyUp k) h = h - {k}"
| "press_effect (IeKeyClick k) h = h - {k}"
| "press_effect _ h = h"

definition held :: "input_state \<Rightarrow> enigo_key set" where
  "held s = fold press_effect (is_out s) {}"

fun press_raw :: "input_effect \<Rightarrow> rdev_input set \<Rightarrow> rdev_input set" where
  "press_raw (IeSimulate down k) h = (if down then insert k h else h - {k})"
| "press_raw _ h = h"

definition held_raw :: "input_state \<Rightarrow> rdev_input set" where
  "held_raw s = fold press_raw (is_out s) {}"

lemma held_emit [simp]:
  "held (in_emit x s) = press_effect x (held s)" "held_raw (in_emit x s) = press_raw x (held_raw s)"
  by (simp_all add: held_def held_raw_def in_emit_def)

lemma held_kept [simp]:
  "held (s\<lparr>is_keys_down := m\<rparr>) = held s" "held (s\<lparr>is_exiting := b\<rparr>) = held s" "held (s\<lparr>is_peer_cursor := p\<rparr>) = held s"
  "held_raw (s\<lparr>is_keys_down := m\<rparr>) = held_raw s" "held_raw (s\<lparr>is_exiting := b\<rparr>) = held_raw s"
  "held_raw (s\<lparr>is_peer_cursor := p\<rparr>) = held_raw s"
  by (simp_all add: held_def held_raw_def)

lemma in_emit_kept [simp]:
  "is_keys_down (in_emit x s) = is_keys_down s" "is_exiting (in_emit x s) = is_exiting s"
  by (simp_all add: in_emit_def)

lemma record_kept [simp]:
  "held (record_pressed_key e r b s) = held s" "held_raw (record_pressed_key e r b s) = held_raw s"
  "is_keys_down (record_pressed_key e r b s) = (if b then hm_insert r (ie_now e) (is_keys_down s) else hm_remove r (is_keys_down s))"
  by (simp_all add: record_pressed_key_def)

lemma key_down_kept [simp]:
  "is_keys_down (snd (en_key_down e k s)) = is_keys_down s" "held_raw (snd (en_key_down e k s)) = held_raw s"
  "held (snd (en_key_down e k s)) = (if fst (en_key_down e k s) then insert k (held s) else held s)"
  by (simp_all add: en_key_down_def Let_def)

text \<open>The keys of the table, and what \<open>KEYS_DOWN\<close> records.\<close>

fun is_table_key :: "enigo_key \<Rightarrow> bool" where
  "is_table_key (EkLayout c) = False"
| "is_table_key (EkRaw c) = False"
| "is_table_key k = True"

definition recorded :: "(record_key, nat) hmap \<Rightarrow> enigo_key \<Rightarrow> bool" where
  "recorded m k \<longleftrightarrow> (\<exists>n. hm_get m (RkEnigo n) \<noteq> None \<and> control_key_value_to_key n = Some k)"

definition recorded_raw :: "(record_key, nat) hmap \<Rightarrow> rdev_input \<Rightarrow> bool" where
  "recorded_raw m r \<longleftrightarrow> (\<exists>k. r = RdRaw k \<and> hm_get m (RkRdev k) \<noteq> None)"

lemma recorded_changes [simp]:
  "recorded (hm_insert (RkEnigo n) t m) k \<longleftrightarrow> control_key_value_to_key n = Some k \<or> recorded m k"
  "recorded (hm_insert (RkRdev r) t m) k \<longleftrightarrow> recorded m k"
  "recorded (hm_remove (RkRdev r) m) k \<longleftrightarrow> recorded m k"
  "control_key_value_to_key n \<noteq> Some k \<Longrightarrow> recorded (hm_remove (RkEnigo n) m) k \<longleftrightarrow> recorded m k"
  by (auto simp: recorded_def)

lemma recorded_raw_changes [simp]:
  "recorded_raw (hm_insert (RkRdev k) t m) r \<longleftrightarrow> r = RdRaw k \<or> recorded_raw m r"
  "recorded_raw (hm_remove (RkRdev k) m) r \<longleftrightarrow> r \<noteq> RdRaw k \<and> recorded_raw m r"
  "recorded_raw (hm_insert (RkEnigo n) t m) r \<longleftrightarrow> recorded_raw m r"
  "recorded_raw (hm_remove (RkEnigo n) m) r \<longleftrightarrow> recorded_raw m r"
  by (auto simp: recorded_raw_def)

definition tracked :: "enigo_key set \<Rightarrow> input_state \<Rightarrow> bool" where
  "tracked extra s \<longleftrightarrow>
     (\<forall>k \<in> held s. is_table_key k \<longrightarrow> k \<in> extra \<or> recorded (is_keys_down s) k) \<and>
     (\<forall>r \<in> held_raw s. recorded_raw (is_keys_down s) r)"

lemma KEY_MAP_small: "control_key_value_to_key n = Some k \<Longrightarrow> n < KEY_CHAR_START"
proof -
  assume "control_key_value_to_key n = Some k"
  then have "n \<in> fst ` set KEY_MAP" by (auto simp: control_key_value_to_key_def intro: map_of_SomeD rev_image_eqI)
  then show ?thesis by (auto simp: KEY_MAP_def KEY_CHAR_START_def)
qed

lemma tracked_mono: "tracked a s \<Longrightarrow> a \<subseteq> b \<Longrightarrow> tracked b s"
  by (auto simp: tracked_def)

lemma tracked_quiet:
  "held s' \<subseteq> held s \<Longrightarrow> held_raw s' \<subseteq> held_raw s \<Longrightarrow> is_keys_down s' = is_keys_down s \<Longrightarrow> tracked a s \<Longrightarrow> tracked a s'"
  unfolding tracked_def by auto

lemma tracked_up: "tracked a s \<Longrightarrow> tracked (a - {k}) (in_emit (IeKeyUp k) s)"
  by (auto simp: tracked_def)

lemma tracked_down: "tracked a s \<Longrightarrow> tracked (insert k a) (snd (en_key_down e k s))"
  by (auto simp: tracked_def)

lemma tracked_release: "tracked a s \<Longrightarrow> tracked (a - set ks) (release_keys ks s)"
  unfolding release_keys_def
proof (induction ks arbitrary: a s)
  case (Cons k ks)
  from Cons.IH [OF tracked_up [OF Cons.prems, of k]] show ?case
    by (simp add: set_diff_eq)
qed simp


lemma tracked_press:
  "press_modifiers e cks s = (ks, s') \<Longrightarrow> tracked a s \<Longrightarrow> tracked (a \<union> set ks) s' \<and> is_keys_down s' = is_keys_down s"
proof (induction cks arbitrary: a s ks)
  case (Cons ck cks)
  show ?case
  proof (cases "press_modifiers e cks s = (ks, s')")
    case True
    then show ?thesis using Cons by blast
  next
    case False
    then obtain k ks' where k: "press_modifiers e cks (snd (en_key_down e k s)) = (ks', s')" "ks = k # ks'"
      using Cons.prems(1) by (auto simp: Let_def split: option.splits if_splits prod.splits)
    from Cons.IH [OF k(1) tracked_down [OF Cons.prems(2)]] show ?thesis using k(2) by simp
  qed
qed simp

lemma tracked_click:
  "click_modifiers e cks s = (ks, s') \<Longrightarrow> tracked a s \<Longrightarrow> tracked (a \<union> set ks) s' \<and> is_keys_down s' = is_keys_down s"
proof (induction cks arbitrary: a s ks)
  case (Cons ck cks)
  show ?case
  proof (cases "click_modifiers e cks s = (ks, s')")
    case True
    then show ?thesis using Cons by blast
  next
    case False
    then obtain k ks' where k: "click_modifiers e cks (snd (en_key_down e k s)) = (ks', s')" "ks = k # ks'"
      using Cons.prems(1) by (auto simp: Let_def split: option.splits if_splits prod.splits)
    from Cons.IH [OF k(1) tracked_down [OF Cons.prems(2)]] show ?thesis using k(2) by simp
  qed
qed simp

text \<open>Steps that release keys at most.\<close>

definition quiet_input :: "input_state \<Rightarrow> input_state \<Rightarrow> bool" where
  "quiet_input s s' \<longleftrightarrow> held s' \<subseteq> held s \<and> held_raw s' \<subseteq> held_raw s \<and> is_keys_down s' = is_keys_down s"

lemma quiet_input_refl [simp]: "quiet_input s s"
  by (simp add: quiet_input_def)

lemma quiet_input_trans: "quiet_input s s' \<Longrightarrow> quiet_input s' s'' \<Longrightarrow> quiet_input s s''"
  by (auto simp: quiet_input_def)

lemma quiet_input_emit: "(\<And>h. press_effect x h \<subseteq> h) \<Longrightarrow> (\<And>h. press_raw x h \<subseteq> h) \<Longrightarrow> quiet_input s (in_emit x s)"
  by (simp add: quiet_input_def)

lemma quiet_input_up [simp]:
  "quiet_input s (in_emit (IeKeyUp k) s)" "quiet_input s (in_emit (IeKeyClick k) s)" "quiet_input s (in_emit (IeSequence t) s)"
  "quiet_input s (in_emit (IeSimulate False r) s)" "quiet_input s (in_emit IeLockScreen s)"
  by (auto intro: quiet_input_emit)

lemma quiet_input_fold: "(\<And>x s. quiet_input s (f x s)) \<Longrightarrow> quiet_input s (fold f xs s)"
  by (induction xs arbitrary: s) (auto intro: quiet_input_trans)

lemma quiet_input_fix: "quiet_input s (fix_modifiers e ms ck s)"
  unfolding fix_modifiers_def fix_modifier_def by (intro quiet_input_fold) (auto split: prod.splits)

lemma quiet_input_locks:
  "quiet_input s (snd (lock_modes_new e evt numpad s))" "quiet_input s (lock_modes_drop h s)"
  using quiet_input_trans [OF quiet_input_up(2) quiet_input_up(2)]
  by (simp_all add: lock_modes_new_def lock_modes_drop_def Let_def)

lemma tracked_quiet': "quiet_input s s' \<Longrightarrow> tracked a s \<Longrightarrow> tracked a s'"
  using tracked_quiet by (auto simp: quiet_input_def)

section \<open>Every event\<close>

text \<open>A control key: recorded before it is pressed, forgotten before it is released.\<close>

lemma tracked_control:
  assumes "tracked a s"
  shows "tracked a (process_control_key e ck down (record_pressed_key e (RkEnigo (ck_value ck)) down s))"
proof (cases "control_key_value_to_key (ck_value ck)")
  case None
  then show ?thesis using assms by (cases down) (simp_all add: process_control_key_def tracked_def)
next
  case (Some k)
  then show ?thesis
    using assms by (cases down) (auto simp: process_control_key_def tracked_def)
qed

lemma chr_not_in_table [simp]: "control_key_value_to_key (c + KEY_CHAR_START) = None"
  using KEY_MAP_small [of "c + KEY_CHAR_START"] by (cases "control_key_value_to_key (c + KEY_CHAR_START)") auto

lemma tracked_chr:
  assumes "tracked a s"
  shows "tracked a (process_chr e c down (record_pressed_key e (RkEnigo (unat c + KEY_CHAR_START)) down s))"
  using assms by (cases down) (auto simp: process_chr_def char_value_to_key_def Let_def en_key_down_def tracked_def)

lemma tracked_position:
  assumes "tracked a s"
  shows "tracked a (simulate_position e c down s)"
  using assms by (cases down) (auto simp: simulate_position_def tracked_def)

text \<open>A function key for which modifiers may be pressed.\<close>

definition strands_modifiers :: "key_event \<Rightarrow> bool" where
  "strands_modifiers evt \<longleftrightarrow> ke_mode evt \<notin> {KmMap, KmTranslate} \<and> ke_modifiers evt \<noteq> [] \<and>
     (\<exists>ck. ke_union evt = Some (KeyControl ck) \<and> (ck_value ck = 100 \<or> ck_value ck = 101))"


lemma tracked_legacy:
  assumes "tracked {} s" and "ke_modifiers evt \<noteq> [] \<longrightarrow> \<not> (\<exists>ck. ke_union evt = Some (KeyControl ck) \<and> ck_value ck \<in> {100, 101})"
  shows "tracked {} (legacy_keyboard_mode e evt s)"
proof -
  obtain ks s1 where sync: "sync_modifiers e evt s = (ks, s1)" by fastforce
  have s1: "tracked (set ks) s1" "ke_modifiers evt = [] \<longrightarrow> ks = []"
    using sync assms(1) tracked_press [of e "ke_modifiers evt" "release_unpressed_modifiers e evt s" ks s1 "{}"]
      tracked_quiet' [OF quiet_input_fix, of "{}" s]
    by (auto simp: sync_modifiers_def release_unpressed_modifiers_def split: if_splits)
  have out: "tracked {} (release_keys ks s2)" if "tracked (set ks) s2" for s2
    using tracked_release [OF that, of ks] by simp
  show ?thesis
  proof (cases "ke_union evt")
    case None
    then show ?thesis using sync out [OF s1(1)] by (simp add: legacy_keyboard_mode_def)
  next
    case (Some u)
    show ?thesis
    proof (cases u)
      case (KeyControl ck)
      show ?thesis
      proof (cases "ck_value ck \<in> {100, 101}")
        case True
        then have "ks = []" using assms(2) s1(2) Some KeyControl by auto
        then show ?thesis
          using True s1(1) sync Some KeyControl tracked_quiet' [OF quiet_input_up(5), of "{}" s1]
          by (auto simp: legacy_keyboard_mode_def is_function_key_def)
      next
        case False
        then show ?thesis
          using sync Some KeyControl out [OF tracked_control [OF s1(1)]]
          by (simp add: legacy_keyboard_mode_def is_function_key_def Let_def)
      qed
    next
      case (KeyUnicode c)
      then show ?thesis
        using sync Some out [OF s1(1)] out [OF tracked_quiet' [OF quiet_input_up(3) s1(1)]]
        by (simp add: legacy_keyboard_mode_def process_unicode_def)
    next
      case (KeySeq t)
      then show ?thesis
        using sync Some out [OF tracked_quiet' [OF quiet_input_up(3) s1(1)]]
        by (simp add: legacy_keyboard_mode_def process_seq_def)
    qed (use sync Some out [OF s1(1)] out [OF tracked_chr [OF s1(1)]] in \<open>simp_all add: legacy_keyboard_mode_def Let_def\<close>)
  qed
qed

lemma tracked_translate:
  assumes "tracked {} s"
  shows "tracked {} (translate_keyboard_mode e evt s)"
proof -
  have f: "quiet_input x (fold (\<lambda>c. in_emit (IeKeyClick (EkLayout (of_char c)))) t x)" for t x
    by (intro quiet_input_fold) simp
  have "quiet_input s (translate_keyboard_mode e evt s)" if "ke_union evt = Some (KeySeq t)" for t
    using f quiet_input_trans [OF quiet_input_up(4) f] quiet_input_trans [OF quiet_input_trans [OF quiet_input_up(4) quiet_input_up(4)] f]
    by (simp add: translate_keyboard_mode_def that Let_def)
  then show ?thesis
    using assms tracked_position tracked_quiet'
    by (auto simp: translate_keyboard_mode_def split: option.splits key_union.splits)
qed

lemma tracked_handle_key:
  assumes "tracked {} s" and "\<not> strands_modifiers evt"
  shows "tracked {} (handle_key e evt s)"
proof (cases "is_exiting s")
  case False
  obtain h s1 where h: "(case lock_handler_for e evt of
      Some numpad \<Rightarrow> lock_modes_new e evt numpad s | None \<Rightarrow> ((False, False), s)) = (h, s1)" by fastforce
  then have s1: "tracked {} s1"
    using tracked_quiet' [OF quiet_input_locks(1) assms(1), of e evt] assms(1)
    by (cases "lock_handler_for e evt") (auto, metis snd_conv)
  have map: "tracked {} (map_keyboard_mode e evt s1)"
    using s1 tracked_position [OF s1] tracked_quiet' [OF quiet_input_up(1) s1]
    by (auto simp: map_keyboard_mode_def en_key_down_def Let_def tracked_def)
  have "tracked {} (case ke_mode evt of KmMap \<Rightarrow> map_keyboard_mode e evt s1
      | KmTranslate \<Rightarrow> translate_keyboard_mode e evt s1 | _ \<Rightarrow> legacy_keyboard_mode e evt s1)"
    using map tracked_translate [OF s1] tracked_legacy [OF s1, of evt] assms(2)
    by (cases "ke_mode evt") (auto simp: strands_modifiers_def)
  then show ?thesis
    using tracked_quiet' [OF quiet_input_locks(2)] False h by (simp add: handle_key_def)
qed (simp add: handle_key_def assms)

lemma tracked_mouse:
  assumes "tracked {} s"
  shows "tracked {} (handle_mouse e evt conn s)"
proof (cases "is_exiting s")
  case False
  obtain ks s1 where m: "(if me_mask evt AND 7 = 1
      then click_modifiers e (me_modifiers evt) (fix_modifiers e (me_modifiers evt) 0 s) else ([], s)) = (ks, s1)" by fastforce
  have s1: "tracked (set ks) s1"
    using m tracked_click [of e "me_modifiers evt" "fix_modifiers e (me_modifiers evt) 0 s" ks s1 "{}"]
      tracked_quiet' [OF quiet_input_fix assms] assms
    by (auto split: if_splits)
  have out: "tracked {} (release_keys ks s2)" if "held s2 = held s1" "held_raw s2 = held_raw s1" "is_keys_down s2 = is_keys_down s1" for s2
    using tracked_release [of "set ks" s2 ks] s1 that by (simp add: tracked_def)
  show ?thesis
    unfolding handle_mouse_def Let_def m prod.case
    using False by (auto intro!: out split: option.splits)
qed (simp add: handle_mouse_def assms)


section \<open>Any turn of the process\<close>

text \<open>What changes the state: the input thread of any connection, the timer of ten seconds, the reset of the
  cursor service when its last subscriber is gone, the thread that locks the screen, the end of the process.\<close>

datatype input_turn =
    TurnInput bool message_input | TurnTimer | TurnReset | TurnLockScreen | TurnCursorTime i32 | TurnExit

fun input_turn_step :: "input_env \<Rightarrow> input_turn \<Rightarrow> input_state \<Rightarrow> input_state" where
  "input_turn_step e (TurnInput blocked m) s = snd (snd (handle_input e m (blocked, s)))"
| "input_turn_step e TurnTimer s = fix_key_down_timeout e False s"
| "input_turn_step e TurnReset s = fix_key_down_timeout e True s"
| "input_turn_step e TurnLockScreen s = lock_screen e s"
| "input_turn_step e (TurnCursorTime i) s = update_latest_input_cursor_time e i s"
| "input_turn_step e TurnExit s = fix_key_down_timeout_at_exit e s"

fun turn_strands :: "input_turn \<Rightarrow> bool" where
  "turn_strands (TurnInput _ (MiKey evt _)) = strands_modifiers evt"
| "turn_strands _ = False"

definition input_start :: input_state where
  "input_start = \<lparr>is_keys_down = [], is_exiting = False, is_peer_cursor = \<lparr>pi_conn = 0, pi_time = 0, pi_x = 0, pi_y = 0\<rparr>, is_out = []\<rparr>"

definition input_run :: "(input_env \<times> input_turn) list \<Rightarrow> input_state" where
  "input_run ts = fold (\<lambda>(e, t). input_turn_step e t) ts input_start"

lemma tracked_fix_one:
  assumes "tracked {} s"
  shows "tracked {} (release_record_key r (record_pressed_key e r False s))"
proof (cases r)
  case (RkRdev k)
  then show ?thesis using assms by (auto simp: release_record_key_def tracked_def)
next
  case (RkEnigo n)
  show ?thesis
  proof (cases "control_key_value_to_key n")
    case None
    then show ?thesis
      using assms RkEnigo KEY_MAP_small
      by (auto simp: release_record_key_def record_key_to_key_def record_key_is_control_key_def record_key_is_chr_def tracked_def)
  next
    case (Some k)
    then have "record_key_to_key n = Some k"
      using KEY_MAP_small by (simp add: record_key_to_key_def record_key_is_control_key_def)
    then show ?thesis using assms RkEnigo Some by (auto simp: release_record_key_def tracked_def)
  qed
qed

lemma tracked_fix_timeout: "tracked {} s \<Longrightarrow> tracked {} (fix_key_down_timeout e force s)"
proof -
  have "tracked {} (fold (\<lambda>(r, t) s. if force \<or> 360000 \<le> ie_now e - t
      then release_record_key r (record_pressed_key e r False s) else s) m s)" if "tracked {} s" for m
    using that by (induction m arbitrary: s) (auto simp: tracked_fix_one)
  then show "tracked {} s \<Longrightarrow> tracked {} (fix_key_down_timeout e force s)" by (simp add: fix_key_down_timeout_def)
qed

lemma strands_down [simp]: "strands_modifiers (evt\<lparr>ke_down := b\<rparr>) = strands_modifiers evt"
  by (simp add: strands_modifiers_def)

lemma tracked_turn:
  assumes "tracked {} s" and "\<not> turn_strands t"
  shows "tracked {} (input_turn_step e t s)"
proof (cases t)
  case (TurnInput blocked m)
  then show ?thesis
    using assms tracked_handle_key tracked_mouse
    by (cases m) (auto simp: handle_input_def Let_def tracked_def split: prod.splits)
next
  case TurnLockScreen
  then show ?thesis
    using assms by (auto simp: lock_screen_def Let_def strands_modifiers_def intro!: tracked_handle_key)
next
  case TurnExit
  have "tracked {} (s\<lparr>is_exiting := True\<rparr>)" using assms by (simp add: tracked_def)
  then show ?thesis using TurnExit assms tracked_fix_timeout by (simp add: fix_key_down_timeout_at_exit_def)
qed (use assms tracked_fix_timeout in \<open>auto simp: update_latest_input_cursor_time_def tracked_def\<close>)

lemma tracked_run: "\<forall>(e, t) \<in> set ts. \<not> turn_strands t \<Longrightarrow> tracked {} (input_run ts)"
proof -
  have "tracked {} (fold (\<lambda>(e, t). input_turn_step e t) ts s)" if "\<forall>(e, t) \<in> set ts. \<not> turn_strands t" "tracked {} s" for s
    using that by (induction ts arbitrary: s) (auto simp: tracked_turn)
  then show "\<forall>(e, t) \<in> set ts. \<not> turn_strands t \<Longrightarrow> tracked {} (input_run ts)"
    by (simp add: input_run_def) (simp add: input_start_def tracked_def held_def held_raw_def)
qed

text \<open>A forced release forgets every record.\<close>

lemma release_keeps_records [simp]: "is_keys_down (release_record_key r s) = is_keys_down s"
  by (simp add: release_record_key_def split: record_key.splits option.splits)

lemma forced_forgets: "is_keys_down (fix_key_down_timeout e True s) = []"
proof -
  have "set (is_keys_down (fold (\<lambda>(r, t) s. release_record_key r (record_pressed_key e r False s)) m s))
      \<subseteq> {p \<in> set (is_keys_down s). fst p \<notin> fst ` set m}" for m s
  proof (induction m arbitrary: s)
    case (Cons x m)
    show ?case
      using Cons.IH [of "release_record_key (fst x) (record_pressed_key e (fst x) False s)"]
      by (cases x) (auto simp: AList.delete_eq)
  qed simp
  from this [of "is_keys_down s" s] have "set (is_keys_down (fix_key_down_timeout e True s)) \<subseteq> {}"
    unfolding fix_key_down_timeout_def simp_thms if_True by (rule order_trans) (auto intro: rev_image_eqI)
  then show ?thesis by simp
qed

section \<open>Lock keys\<close>

definition clicks :: "enigo_key \<Rightarrow> input_state \<Rightarrow> nat" where
  "clicks k s = length (filter ((=) (IeKeyClick k)) (is_out s))"

lemma clicks_emit [simp]: "clicks k (in_emit x s) = clicks k s + (if x = IeKeyClick k then 1 else 0)"
  by (auto simp: clicks_def in_emit_def)

lemma clicks_kept [simp]:
  "clicks k (s\<lparr>is_keys_down := m\<rparr>) = clicks k s" "clicks k (record_pressed_key e r b s) = clicks k s"
  "clicks k (snd (en_key_down e k' s)) = clicks k s"
  by (simp_all add: clicks_def record_pressed_key_def en_key_down_def Let_def in_emit_def)

lemma clicks_fold: "(\<And>x s. clicks k (f x s) = clicks k s) \<Longrightarrow> clicks k (fold f xs s) = clicks k s"
  by (induction xs arbitrary: s) auto

lemma clicks_modifiers [simp]:
  "clicks k (fix_modifiers e ms ck s) = clicks k s" "clicks k (release_keys ks s) = clicks k s"
  unfolding fix_modifiers_def release_keys_def fix_modifier_def by (rule clicks_fold; auto split: prod.splits)+

lemma clicks_press: "press_modifiers e cks s = (ks, s') \<Longrightarrow> clicks k s' = clicks k s"
proof (induction cks arbitrary: s ks)
  case (Cons ck cks)
  show ?case
  proof (cases "press_modifiers e cks s = (ks, s')")
    case False
    then obtain k' ks' where "press_modifiers e cks (snd (en_key_down e k' s)) = (ks', s')"
      using Cons.prems by (auto simp: Let_def split: option.splits if_splits prod.splits)
    from Cons.IH [OF this] show ?thesis by simp
  qed (rule Cons.IH)
qed simp

lemma clicks_modes:
  assumes "k \<in> {EkCapsLock, EkNumLock}"
  shows "clicks k (map_keyboard_mode e evt s) = clicks k s" "clicks k (translate_keyboard_mode e evt s) = clicks k s"
    "clicks k (legacy_keyboard_mode e evt s) = clicks k s"
proof -
  show "clicks k (map_keyboard_mode e evt s) = clicks k s"
    by (simp add: map_keyboard_mode_def simulate_position_def)
  have "clicks k (fold (\<lambda>c. in_emit (IeKeyClick (EkLayout (of_char c)))) t x) = clicks k x" for t x
    using assms by (intro clicks_fold) auto
  then show "clicks k (translate_keyboard_mode e evt s) = clicks k s"
    by (auto simp: translate_keyboard_mode_def Let_def simulate_position_def split: option.splits key_union.splits)
  obtain ks s1 where s1: "sync_modifiers e evt s = (ks, s1)" by fastforce
  then have "clicks k s1 = clicks k s"
    using clicks_press by (auto simp: sync_modifiers_def release_unpressed_modifiers_def split: if_splits)
  moreover have "clicks k (process_chr e c down s2) = clicks k s2" "clicks k (process_control_key e ck down s2) = clicks k s2"
    "clicks k (process_unicode c s2) = clicks k s2" "clicks k (process_seq t s2) = clicks k s2" for c down s2 ck t
    by (auto simp: process_chr_def process_control_key_def process_unicode_def process_seq_def split_beta Let_def split: option.splits)
  ultimately show "clicks k (legacy_keyboard_mode e evt s) = clicks k s"
    by (auto simp: legacy_keyboard_mode_def s1 Let_def is_function_key_def split: option.splits key_union.splits)
qed

section \<open>Modifiers\<close>

text \<open>A keyboard that obeys, and that nobody else uses.\<close>

definition obedient :: "input_env \<Rightarrow> bool" where
  "obedient e \<longleftrightarrow> (\<forall>xs k. ie_key_down e xs k \<and> ie_key_state e xs k = (k \<in> fold press_effect xs {}))"

lemma obedient_state: "obedient e \<Longrightarrow> get_key_state e k s = (k \<in> held s)"
  by (simp add: obedient_def get_key_state_def held_def)

lemma obedient_down: "obedient e \<Longrightarrow> held (snd (en_key_down e k s)) = insert k (held s)"
  by (simp add: obedient_def en_key_down_def Let_def)

lemma held_fix_modifier:
  "obedient e \<Longrightarrow> held (fix_modifier e ms key0 key1 s) = (if has_modifier ms key0 then held s else held s - {key1})"
  by (auto simp: fix_modifier_def get_modifier_state_def obedient_state split: option.splits)

definition modifier_values :: "int set" where
  "modifier_values = int ` ck_value ` {CkShift, CkRShift, CkAlt, CkRAlt, CkControl, CkRControl, CkMeta, CkRWin}"

lemma held_fix_modifiers:
  assumes "obedient e" and "ck \<notin> modifier_values"
    and "(own, k) \<in> {(CkShift, EkShift), (CkControl, EkControl), (CkAlt, EkAlt), (CkMeta, EkMeta)}"
    and "k' = k \<or> other_side k = Some k'"
  shows "k' \<in> held (fix_modifiers e ms ck s) \<longleftrightarrow> k' \<in> held s \<and> has_modifier ms own"
  using assms by (auto simp: fix_modifiers_def held_fix_modifier modifier_values_def)

lemma modifier_keys [simp]:
  "control_key_value_to_key 29 = Some EkShift" "control_key_value_to_key 4 = Some EkControl"
  "control_key_value_to_key (Suc 0) = Some EkAlt" "control_key_value_to_key 23 = Some EkMeta"
  by (simp_all add: control_key_value_to_key_def KEY_MAP_def)

lemma press_modifiers_held:
  assumes "obedient e" and "\<not> is_altgr_pressed s" and "press_modifiers e cks s = (ks, s')"
  shows "held s' = held s \<union> set ks \<and>
    (\<forall>k \<in> set ks. \<exists>ck \<in> set cks. control_key_value_to_key (ck_value ck) = Some k) \<and>
    (\<forall>ck \<in> set cks. \<forall>k. control_key_value_to_key (ck_value ck) = Some k \<longrightarrow> get_modifier_state e k s')"
  using assms(2,3)
proof (induction cks arbitrary: s ks)
  case (Cons ck cks)
  have mono: "get_modifier_state e k s \<Longrightarrow> held s \<subseteq> held s' \<Longrightarrow> get_modifier_state e k s'" for k s
    using assms(1) by (auto simp: get_modifier_state_def obedient_state split: option.splits)
  show ?case
  proof (cases "control_key_value_to_key (ck_value ck)")
    case None
    then show ?thesis using Cons by simp
  next
    case (Some k)
    show ?thesis
    proof (cases "get_modifier_state e k s")
      case True
      then show ?thesis using Cons.IH [OF Cons.prems(1)] Cons.prems(2) Some mono [OF True] by auto
    next
      case False
      then obtain ks' where p: "press_modifiers e cks (snd (en_key_down e k s)) = (ks', s')" "ks = k # ks'"
        using Cons.prems Some by (auto simp: Let_def split: prod.splits)
      have "\<not> is_altgr_pressed (snd (en_key_down e k s))" using Cons.prems(1) by (simp add: is_altgr_pressed_def)
      note ih = Cons.IH [OF this p(1), unfolded obedient_down [OF assms(1)]]
      then have "get_modifier_state e k s'" using assms(1) by (auto simp: get_modifier_state_def obedient_state)
      then show ?thesis using ih p(2) Some by auto
    qed
  qed
qed simp

definition modifier_pair :: "control_key \<Rightarrow> enigo_key \<Rightarrow> enigo_key \<Rightarrow> bool" where
  "modifier_pair own k k2 \<longleftrightarrow> (own, k) \<in> {(CkShift, EkShift), (CkControl, EkControl), (CkAlt, EkAlt), (CkMeta, EkMeta)} \<and>
     other_side k = Some k2 \<and> other_side k2 = Some k \<and> control_key_value_to_key (ck_value own) = Some k"

lemma modifier_pairs:
  assumes "k \<in> {EkShift, EkControl, EkAlt, EkMeta}"
  obtains own k2 where "modifier_pair own k k2"
proof -
  have "modifier_pair CkShift EkShift EkRightShift" "modifier_pair CkControl EkControl EkRightControl"
    "modifier_pair CkAlt EkAlt EkRightAlt" "modifier_pair CkMeta EkMeta EkRWin"
    by (simp_all add: modifier_pair_def)
  then show thesis using assms that by blast
qed

lemma pair_pressed:
  assumes pair: "modifier_pair own k k2" and e: "obedient e" and ck: "ck \<notin> modifier_values" and alt: "\<not> is_altgr_pressed s"
    and p: "press_modifiers e ms (fix_modifiers e ms ck s) = (ks, s')"
  shows "get_modifier_state e k s' \<longleftrightarrow> (\<exists>c \<in> set ms. control_key_value_to_key (ck_value c) \<in> {Some k, Some k2})"
proof
  have "\<not> is_altgr_pressed (fix_modifiers e ms ck s)"
    using alt quiet_input_fix [of s e] by (simp add: is_altgr_pressed_def quiet_input_def)
  note press = press_modifiers_held [OF e this p]
  have sides: "other_side k = Some k2" "other_side k2 = Some k" using pair by (simp_all add: modifier_pair_def)
  have both: "get_modifier_state e k s' = (k \<in> held s' \<or> k2 \<in> held s')" "get_modifier_state e k2 s' = (k \<in> held s' \<or> k2 \<in> held s')"
    using sides by (auto simp: get_modifier_state_def obedient_state [OF e])
  have own: "(own, k) \<in> {(CkShift, EkShift), (CkControl, EkControl), (CkAlt, EkAlt), (CkMeta, EkMeta)}"
    "control_key_value_to_key (ck_value own) = Some k"
    using pair unfolding modifier_pair_def by (rule conjunct1, rule conjunct2 [THEN conjunct2, THEN conjunct2])
  {
    assume "get_modifier_state e k s'"
    then obtain k' where k': "k' = k \<or> k' = k2" "k' \<in> held s'" using both(1) by blast
    show "\<exists>c \<in> set ms. control_key_value_to_key (ck_value c) \<in> {Some k, Some k2}"
    proof (cases "k' \<in> set ks")
      case True
      then show ?thesis using press k'(1) by blast
    next
      case False
      then have "k' \<in> held (fix_modifiers e ms ck s)" using press k'(2) by blast
      then have "has_modifier ms own" using held_fix_modifiers [OF e ck own(1), of k'] k'(1) sides(1) by blast
      then obtain c where "c \<in> set ms" "ck_value c = ck_value own" by (auto simp: has_modifier_def)
      then show ?thesis using own(2) by (intro bexI [of _ c]) simp_all
    qed
  next
    assume "\<exists>c \<in> set ms. control_key_value_to_key (ck_value c) \<in> {Some k, Some k2}"
    then show "get_modifier_state e k s'" using press both by blast
  }
qed

section \<open>Properties\<close>


text \<open>C38: A character does stay down. A character key pressed in the legacy mode is recorded, but the forced
  release of all keys forgets the record and does not release the key: the test for a character is that
  for a control key.\<close>

theorem character_stays_down:
  assumes "\<not> is_exiting s" and "evt = \<lparr>ke_down = True, ke_press = False, ke_union = Some (KeyChr c), ke_modifiers = [], ke_mode = KmLegacy\<rparr>"
    and "\<And>xs. ie_key_down e xs (char_value_to_key c)" and "is_keys_down s = []"
  shows "char_value_to_key c \<in> held (fix_key_down_timeout e' True (handle_key e evt s)) \<and>
    is_keys_down (fix_key_down_timeout e' True (handle_key e evt s)) = []"
proof -
  have locks: "held (snd (lock_modes_new e evt False s)) \<subseteq> held s" "is_keys_down (snd (lock_modes_new e evt False s)) = []"
    "char_value_to_key c \<in> held (lock_modes_drop h s') \<longleftrightarrow> char_value_to_key c \<in> held s'"
    "is_keys_down (lock_modes_drop h s') = is_keys_down s'" for h s'
    using quiet_input_locks(1) [of s e evt False] assms(4)
    by (auto simp: quiet_input_def lock_modes_drop_def Let_def char_value_to_key_def)
  have "held (fix_modifiers e [] (- 1) x) \<subseteq> held x" "is_keys_down (fix_modifiers e [] (- 1) x) = is_keys_down x" for x
    using quiet_input_fix [of x e "[]" "- 1"] by (auto simp: quiet_input_def)
  then have key: "char_value_to_key c \<in> held (handle_key e evt s) \<and>
      is_keys_down (handle_key e evt s) = [(RkEnigo (unat c + KEY_CHAR_START), ie_now e)]"
    using assms(1,3) locks
    by (simp add: handle_key_def lock_handler_for_def is_legacy_mode_def legacy_keyboard_mode_def sync_modifiers_def
        release_unpressed_modifiers_def get_control_key_value_def release_keys_def process_chr_def en_key_down_def Let_def
        assms(2) split_beta)
  then show ?thesis
    using forced_forgets
    by (simp add: fix_key_down_timeout_def release_record_key_def record_key_to_key_def record_key_is_control_key_def
        record_key_is_chr_def)
qed




section \<open>Two more ways to stay down\<close>

text \<open>A function key with a modifier: the modifier is pressed for it, not recorded, and not released.\<close>

lemma function_key_strands_modifier:
  assumes "obedient e" and "held s = {}" and "is_keys_down s = []" and "\<not> is_exiting s"
    and "control_key_value_to_key (ck_value m) = Some k" and "ke_mode evt = KmLegacy" and "ke_down evt"
    and "ke_union evt = Some (KeyControl (CkOther 100))" and "ke_modifiers evt = [m]" and "k \<notin> {EkCapsLock, EkNumLock}"
  shows "k \<in> held (fix_key_down_timeout e' True (handle_key e evt s))"
proof -
  obtain h s1 where h: "lock_modes_new e evt False s = (h, s1)" by fastforce
  have s1: "held s1 = {}" "is_keys_down s1 = []"
    using quiet_input_locks(1) [of s e evt False] assms(2,3) h by (auto simp: quiet_input_def)
  define s2 where "s2 = fix_modifiers e [m] 100 s1"
  have s2: "held s2 = {}" "is_keys_down s2 = []"
    using quiet_input_fix [of s1 e "[m]" 100] s1 by (auto simp: quiet_input_def s2_def)
  then have "\<not> get_modifier_state e k s2" "\<not> is_altgr_pressed s2"
    by (simp_all add: get_modifier_state_def obedient_state [OF assms(1)] is_altgr_pressed_def split: option.splits)
  then have "legacy_keyboard_mode e evt s1 = snd (en_key_down e k s2)"
    using assms(5-9)
    by (simp add: legacy_keyboard_mode_def sync_modifiers_def release_unpressed_modifiers_def get_control_key_value_def
        is_function_key_def Let_def s2_def [symmetric] split_beta)
  then have "handle_key e evt s = lock_modes_drop h (snd (en_key_down e k s2))"
    using assms(4,6,8) h
    by (simp add: handle_key_def lock_handler_for_def skip_led_sync_control_key_def is_numpad_control_key_def)
  moreover have "held (lock_modes_drop h (snd (en_key_down e k s2))) = {k}" "is_keys_down (lock_modes_drop h (snd (en_key_down e k s2))) = []"
    using s2 obedient_down [OF assms(1), of k s2] assms(10) quiet_input_locks(2) [of "snd (en_key_down e k s2)" h]
    by (auto simp: lock_modes_drop_def Let_def)
  ultimately show ?thesis by (simp add: fix_key_down_timeout_def)
qed

text \<open>On Wayland a key of the map mode is not recorded at all.\<close>

lemma wayland_key_not_recorded:
  assumes "\<not> ie_x11 e"
  shows "is_keys_down (map_keyboard_mode e evt s) = is_keys_down s"
  using assms by (simp add: map_keyboard_mode_def)

section \<open>Witnesses\<close>

definition demo_input_env :: input_env where
  "demo_input_env =
     \<lparr>ie_now = 5, ie_time = 5, ie_key_state = (\<lambda>xs k. k \<in> fold press_effect xs {}), ie_key_down = (\<lambda>_ _. True), ie_x11 = True,
      ie_keycode = id, ie_rdev = (\<lambda>_. ''KeyA''), ie_upper = (\<lambda>c. [c]), ie_block = (True, [])\<rparr>"

lemma demo_obedient: "obedient demo_input_env"
  by (simp add: obedient_def demo_input_env_def)

definition demo_key :: "keyboard_mode \<Rightarrow> bool \<Rightarrow> key_union \<Rightarrow> control_key list \<Rightarrow> key_event" where
  "demo_key mode down u ms = \<lparr>ke_down = down, ke_press = False, ke_union = Some u, ke_modifiers = ms, ke_mode = mode\<rparr>"


theorem character_stays_down_witness:
  "EkLayout 97 \<in> held (fix_key_down_timeout demo_input_env True
     (handle_key demo_input_env (demo_key KmLegacy True (KeyChr 97) []) input_start))"
  using character_stays_down [of input_start "demo_key KmLegacy True (KeyChr 97) []" 97 demo_input_env demo_input_env]
  by (simp add: demo_key_def input_start_def demo_input_env_def char_value_to_key_def is_char_def)


end
