(* ===== verification/Input_Cursor.thy ===== *)
theory Input_Cursor
  imports Input_Service
begin

text \<open>
  The cursor, its position and the display in focus, as the host tells them
  (\<open>src/server/input_service.rs\<close>): \<open>MouseCursorSub\<close>, \<open>run_cursor\<close>, \<open>run_pos\<close>, \<open>run_window_focus\<close>.
\<close>

section \<open>The shape of the cursor\<close>

record cursor_data =
  cd_id :: u64
  cd_hot :: "i32 \<times> i32"
  cd_size :: "i32 \<times> i32"
  cd_colors :: bytes

datatype cursor_message = CmData cursor_data | CmId u64 | CmEmpty

text \<open>A subscriber: what has been sent on, and the messages kept under the id of a cursor.\<close>

record cursor_sub =
  su_out :: "cursor_message list"
  su_cached :: "(u64, cursor_message) hmap"

definition cursor_sub_send :: "cursor_message \<Rightarrow> cursor_sub \<Rightarrow> cursor_sub" where
  "cursor_sub_send msg s =
     (case msg of
        CmData cd \<Rightarrow>
          (case hm_get (su_cached s) (cd_id cd) of
             Some m \<Rightarrow> s\<lparr>su_out := su_out s @ [m]\<rparr>
           | None \<Rightarrow> s\<lparr>su_out := su_out s @ [msg], su_cached := hm_insert (cd_id cd) (CmId (cd_id cd)) (su_cached s)\<rparr>)
      | _ \<Rightarrow> s\<lparr>su_out := su_out s @ [msg]\<rparr>)"

record state_cursor =
  sc_hcursor :: u64
  sc_cursor_data :: cursor_message
  sc_cached :: "(u64, cursor_message) hmap"

definition state_cursor_new :: state_cursor where
  "state_cursor_new = \<lparr>sc_hcursor = 0, sc_cursor_data = CmEmpty, sc_cached = []\<rparr>"

text \<open>One round, with what the system answers: the handle of the cursor, its data, and the compression.
  The result is the state, and what goes to all subscribers; None is an error of the system, after which
  the service starts again.\<close>

definition run_cursor ::
    "u64 option option \<Rightarrow> (u64 \<Rightarrow> cursor_data option) \<Rightarrow> (bytes \<Rightarrow> bytes) \<Rightarrow> state_cursor \<Rightarrow>
     (state_cursor \<times> cursor_message list) option" where
  "run_cursor cur get_data compress' st =
     (case cur of
        None \<Rightarrow> None
      | Some None \<Rightarrow> Some (st, [])
      | Some (Some h) \<Rightarrow>
          if h = sc_hcursor st then Some (st, [])
          else
            (case hm_get (sc_cached st) h of
               Some msg \<Rightarrow> Some (st\<lparr>sc_hcursor := h, sc_cursor_data := msg\<rparr>, [msg])
             | None \<Rightarrow>
                 (case get_data h of
                    None \<Rightarrow> None
                  | Some d \<Rightarrow>
                      (let msg = CmData (d\<lparr>cd_colors := compress' (cd_colors d)\<rparr>)
                       in Some (st\<lparr>sc_hcursor := h, sc_cursor_data := msg, sc_cached := hm_insert h msg (sc_cached st)\<rparr>,
                                [msg])))))"

section \<open>Its position\<close>

definition INVALID_CURSOR_POS :: i32 where "INVALID_CURSOR_POS = - (2 ^ 31)"
definition INVALID_DISPLAY_IDX :: i32 where "INVALID_DISPLAY_IDX = - 1"

type_synonym cursor_pos = "i32 \<times> i32"

definition pos_is_moved :: "cursor_pos \<Rightarrow> cursor_pos \<Rightarrow> bool" where
  "pos_is_moved st p \<longleftrightarrow> fst st \<noteq> INVALID_CURSOR_POS \<and> (fst st \<noteq> fst p \<or> snd st \<noteq> snd p)"

definition update_last_cursor_pos :: "nat \<Rightarrow> cursor_pos \<Rightarrow> nat \<times> cursor_pos \<Rightarrow> nat \<times> cursor_pos" where
  "update_last_cursor_pos now p l = (if snd l \<noteq> p then (now, p) else l)"

text \<open>One round: the position, to all but one connection, and the position new subscribers are told.\<close>

definition run_pos ::
    "i64 \<Rightarrow> cursor_pos \<Rightarrow> peer_input \<Rightarrow> cursor_pos \<Rightarrow> cursor_pos \<times> (cursor_pos \<times> i32) option \<times> cursor_pos option" where
  "run_pos now p peer st =
     (if fst p = INVALID_CURSOR_POS \<or> snd p = INVALID_CURSOR_POS then (st, None, None)
      else
        (p,
         (if pos_is_moved st p then Some (p, if sint (now - pi_time peer) < 300 then pi_conn peer else 0) else None),
         Some p))"

section \<open>The display in focus\<close>

definition focus_is_changed :: "i32 \<Rightarrow> i32 \<Rightarrow> bool" where
  "focus_is_changed st idx \<longleftrightarrow> st \<noteq> INVALID_DISPLAY_IDX \<and> st \<noteq> idx"

definition run_window_focus :: "nat option \<Rightarrow> i32 \<Rightarrow> i32 \<times> i32 option" where
  "run_window_focus focused st =
     (case focused of
        None \<Rightarrow> (st, None)
      | Some i \<Rightarrow> (of_nat i, if focus_is_changed st (of_nat i) then Some (of_nat i) else None))"

section \<open>What a subscriber sees\<close>

text \<open>The peer keeps the cursors it has been sent, and shows the one a message names.\<close>

fun peer_cursor :: "cursor_message \<Rightarrow> (u64 \<rightharpoonup> cursor_data) \<times> cursor_data option \<Rightarrow> (u64 \<rightharpoonup> cursor_data) \<times> cursor_data option" where
  "peer_cursor (CmData d) (m, x) = (m(cd_id d \<mapsto> d), Some d)"
| "peer_cursor (CmId i) (m, x) = (m, m i)"
| "peer_cursor CmEmpty y = y"

definition peer_shows :: "cursor_message list \<Rightarrow> (u64 \<rightharpoonup> cursor_data) \<times> cursor_data option" where
  "peer_shows xs = fold peer_cursor xs (Map.empty, None)"

lemma peer_shows_snoc [simp]: "peer_shows (xs @ [x]) = peer_cursor x (peer_shows xs)"
  by (simp add: peer_shows_def)

text \<open>The service and one subscriber, which is told the present cursor when it comes.\<close>

fun cursor_rounds ::
    "(u64 option option \<times> bool) list \<Rightarrow> (u64 \<Rightarrow> cursor_data option) \<Rightarrow> (bytes \<Rightarrow> bytes) \<Rightarrow>
     state_cursor \<times> cursor_sub option \<Rightarrow> (state_cursor \<times> cursor_sub option) option" where
  "cursor_rounds [] get_data compress' x = Some x"
| "cursor_rounds ((cur, arrives) # rs) get_data compress' (st, su) =
     (case run_cursor cur get_data compress' st of
        None \<Rightarrow> None
      | Some (st, msgs) \<Rightarrow>
          (let su = map_option (fold cursor_sub_send msgs) su;
               su = (if su = None \<and> arrives
                     then Some (cursor_sub_send (sc_cursor_data st) \<lparr>su_out = [], su_cached = []\<rparr>) else su)
           in cursor_rounds rs get_data compress' (st, su)))"

text \<open>What a message stands for when the data of a cursor is known from its id.\<close>

definition shown_data :: "(u64 \<Rightarrow> cursor_data option) \<Rightarrow> (bytes \<Rightarrow> bytes) \<Rightarrow> u64 \<Rightarrow> cursor_data option" where
  "shown_data get_data compress' i = map_option (\<lambda>d. d\<lparr>cd_colors := compress' (cd_colors d)\<rparr>) (get_data i)"

definition cursor_inv ::
    "(u64 \<Rightarrow> cursor_data option) \<Rightarrow> (bytes \<Rightarrow> bytes) \<Rightarrow> state_cursor \<Rightarrow> bool" where
  "cursor_inv get_data compress' st \<longleftrightarrow>
     (sc_cursor_data st = CmEmpty \<and> sc_hcursor st = 0 \<or>
      (\<exists>d. sc_cursor_data st = CmData d \<and> shown_data get_data compress' (sc_hcursor st) = Some d)) \<and>
     (\<forall>h m. hm_get (sc_cached st) h = Some m \<longrightarrow> (\<exists>d. m = CmData d \<and> shown_data get_data compress' h = Some d))"

definition sub_inv ::
    "(u64 \<Rightarrow> cursor_data option) \<Rightarrow> (bytes \<Rightarrow> bytes) \<Rightarrow> state_cursor \<Rightarrow> cursor_sub \<Rightarrow> bool" where
  "sub_inv get_data compress' st su \<longleftrightarrow>
     (\<forall>i m. hm_get (su_cached su) i = Some m \<longrightarrow> m = CmId i \<and> fst (peer_shows (su_out su)) i = shown_data get_data compress' i) \<and>
     (\<forall>d. sc_cursor_data st = CmData d \<longrightarrow> snd (peer_shows (su_out su)) = Some d)"

definition own_ids :: "(u64 \<Rightarrow> cursor_data option) \<Rightarrow> bool" where
  "own_ids get_data \<longleftrightarrow> (\<forall>h d. get_data h = Some d \<longrightarrow> cd_id d = h)"

lemma shown_data_id: "own_ids get_data \<Longrightarrow> shown_data get_data c h = Some d \<Longrightarrow> cd_id d = h"
  by (auto simp: own_ids_def shown_data_def)

lemma sub_send_inv:
  assumes "own_ids get_data" and "sub_inv get_data c st su" and "shown_data get_data c h = Some d"
  shows "sub_inv get_data c (st'\<lparr>sc_cursor_data := CmData d\<rparr>) (cursor_sub_send (CmData d) su)"
proof -
  obtain m x where p: "peer_shows (su_out su) = (m, x)" by fastforce
  have h: "cd_id d = h" by (rule shown_data_id [OF assms(1,3)])
  have inv: "\<And>i x. hm_get (su_cached su) i = Some x \<Longrightarrow> x = CmId i \<and> m i = shown_data get_data c i"
    using assms(2) p by (auto simp: sub_inv_def)
  show ?thesis
  proof (cases "hm_get (su_cached su) h")
    case (Some x2)
    have x2: "x2 = CmId h" "m h = Some d" using inv [OF Some] assms(3) by auto
    have "cursor_sub_send (CmData d) su = su\<lparr>su_out := su_out su @ [CmId h]\<rparr>"
      using Some h x2(1) by (simp add: cursor_sub_send_def)
    then show ?thesis using inv p x2(2) by (simp add: sub_inv_def)
  next
    case None
    then show ?thesis using inv p h assms(3) by (auto simp: sub_inv_def cursor_sub_send_def)
  qed
qed

lemma run_cursor_inv:
  assumes inv: "cursor_inv get_data c st" and run: "run_cursor cur get_data c st = Some (st', msgs)"
  shows "cursor_inv get_data c st' \<and>
    (msgs = [] \<and> st' = st \<or> (\<exists>d h. msgs = [CmData d] \<and> sc_cursor_data st' = CmData d \<and> shown_data get_data c h = Some d))"
proof (cases "msgs = [] \<and> st' = st")
  case True
  then show ?thesis using inv by simp
next
  case False
  then obtain h where h: "cur = Some (Some h)" "h \<noteq> sc_hcursor st"
    using run by (auto simp: run_cursor_def split: option.splits if_splits)
  show ?thesis
  proof (cases "hm_get (sc_cached st) h")
    case (Some msg)
    then obtain d where d: "msg = CmData d" "shown_data get_data c h = Some d" using inv by (auto simp: cursor_inv_def)
    have "st' = st\<lparr>sc_hcursor := h, sc_cursor_data := CmData d\<rparr>" "msgs = [CmData d]"
      using run h Some d(1) by (simp_all add: run_cursor_def)
    then show ?thesis using inv d(2) by (auto simp: cursor_inv_def)
  next
    case None
    then obtain d where d: "shown_data get_data c h = Some d" "st' = st\<lparr>sc_hcursor := h, sc_cursor_data := CmData d,
        sc_cached := hm_insert h (CmData d) (sc_cached st)\<rparr>" "msgs = [CmData d]"
      using run h by (auto simp: run_cursor_def shown_data_def Let_def split: option.splits)
    then show ?thesis using inv by (auto simp: cursor_inv_def)
  qed
qed

lemma cursor_rounds_inv:
  assumes "own_ids get_data"
  shows "cursor_rounds rs get_data c (st, su) = Some (st', su') \<Longrightarrow> cursor_inv get_data c st \<Longrightarrow>
    (\<forall>s. su = Some s \<longrightarrow> sub_inv get_data c st s) \<Longrightarrow>
    cursor_inv get_data c st' \<and> (\<forall>s. su' = Some s \<longrightarrow> sub_inv get_data c st' s)"
proof (induction rs arbitrary: st su)
  case (Cons r rs)
  obtain cur arrives where r: "r = (cur, arrives)" by fastforce
  obtain st1 msgs where s1: "run_cursor cur get_data c st = Some (st1, msgs)"
    using Cons.prems(1) r by (auto split: option.splits)
  note inv = run_cursor_inv [OF Cons.prems(2) s1]
  have old: "sub_inv get_data c st1 (fold cursor_sub_send msgs s)" if "su = Some s" for s
  proof (cases "msgs = []")
    case True
    then show ?thesis using inv Cons.prems(3) that by auto
  next
    case False
    then obtain d h where d: "msgs = [CmData d]" "sc_cursor_data st1 = CmData d" "shown_data get_data c h = Some d"
      using inv by auto
    have "sub_inv get_data c (st1\<lparr>sc_cursor_data := CmData d\<rparr>) (cursor_sub_send (CmData d) s)"
      using sub_send_inv [OF assms _ d(3)] Cons.prems(3) that by blast
    then show ?thesis using d by (simp add: sub_inv_def)
  qed
  have new: "sub_inv get_data c st1 (cursor_sub_send (sc_cursor_data st1) \<lparr>su_out = [], su_cached = []\<rparr>)"
  proof (cases "sc_cursor_data st1 = CmEmpty")
    case False
    then obtain d where d: "sc_cursor_data st1 = CmData d" "shown_data get_data c (sc_hcursor st1) = Some d"
      using inv by (auto simp: cursor_inv_def)
    have "sub_inv get_data c (st1\<lparr>sc_cursor_data := CmEmpty\<rparr>) \<lparr>su_out = [], su_cached = []\<rparr>" by (simp add: sub_inv_def)
    from sub_send_inv [OF assms this d(2), of st1] show ?thesis using d(1) by (simp add: sub_inv_def)
  qed (simp add: sub_inv_def cursor_sub_send_def)
  define su1 where "su1 = (let su = map_option (fold cursor_sub_send msgs) su in
    if su = None \<and> arrives then Some (cursor_sub_send (sc_cursor_data st1) \<lparr>su_out = [], su_cached = []\<rparr>) else su)"
  have "cursor_rounds rs get_data c (st1, su1) = Some (st', su')"
    using Cons.prems(1) r s1 by (simp add: su1_def Let_def)
  moreover have "\<forall>s. su1 = Some s \<longrightarrow> sub_inv get_data c st1 s"
    using old new by (auto simp: su1_def Let_def split: if_splits)
  ultimately show ?case using Cons.IH inv by blast
qed simp

section \<open>Properties\<close>

text \<open>C24: A peer shows the cursor of the host. However the cursor changes and whenever the peer comes, after
  each round the last message it got stands for the cursor of the host, although the data of a cursor is
  sent only once and afterwards only its id, when the system gives each cursor an id of its own.\<close>

theorem cursor_is_shown:
  assumes "own_ids get_data"
    and "cursor_rounds rs get_data c (state_cursor_new, None) = Some (st, Some su)" and "sc_hcursor st \<noteq> 0"
  shows "snd (peer_shows (su_out su)) = shown_data get_data c (sc_hcursor st)"
proof -
  have "cursor_inv get_data c state_cursor_new" by (simp add: cursor_inv_def state_cursor_new_def)
  from cursor_rounds_inv [OF assms(1,2) this] assms(3)
  show ?thesis by (auto simp: cursor_inv_def sub_inv_def)
qed

text \<open>The peer that has moved the mouse within the last 300 milliseconds is not told of it.\<close>

lemma mover_not_told:
  assumes "run_pos now p peer st = (st', Some (q, excluded), new)" and "sint (now - pi_time peer) < 300"
  shows "excluded = pi_conn peer"
  using assms by (auto simp: run_pos_def split: if_splits)

definition demo_cursors :: "u64 \<Rightarrow> cursor_data option" where
  "demo_cursors h = Some \<lparr>cd_id = h, cd_hot = (0, 0), cd_size = (1, 1), cd_colors = [1]\<rparr>"

theorem cursor_is_shown_witness:
  "\<exists>st su. cursor_rounds [(Some (Some 3), False), (Some (Some 4), True), (Some (Some 3), False), (Some (Some 4), False)]
       demo_cursors id (state_cursor_new, None) = Some (st, Some su) \<and>
     snd (peer_shows (su_out su)) = demo_cursors 4 \<and> last (su_out su) = CmId 4"
proof -
  let ?rs = "[(Some (Some 3), False), (Some (Some 4), True), (Some (Some 3), False), (Some (Some 4), False)]"
  obtain st su where r: "cursor_rounds ?rs demo_cursors id (state_cursor_new, None) = Some (st, Some su)"
    "sc_hcursor st = 4" "last (su_out su) = CmId 4"
    by (simp add: run_cursor_def state_cursor_new_def demo_cursors_def cursor_sub_send_def Let_def)
  have "own_ids demo_cursors" by (simp add: own_ids_def demo_cursors_def)
  from cursor_is_shown [OF this r(1)] r show ?thesis by (auto simp: shown_data_def demo_cursors_def)
qed

end
