(* ===== verification/Keyboard.thy ===== *)
theory Keyboard
  imports Input_Keys
begin

text \<open>
  The keyboard of the controlling side (\<open>src/keyboard.rs\<close>, Linux build): the events of the local keyboard, as
  \<open>rdev\<close> reports them, become key events for the host, in the legacy, map or translate mode; the keys
  that are down are kept, to be released at the host when the window loses the keyboard. Keys go by their
  names in \<open>rdev\<close>; texts are of one byte per character.
\<close>

section \<open>State\<close>

datatype kb_kind = KbPress string | KbRelease string | KbOther

record kb_unicode =
  ku_name :: "string option"
  ku_dead :: bool

record kb_event =
  kv_kind :: kb_kind
  kv_unicode :: "kb_unicode option"
  kv_position :: u32
  kv_platform :: u32

record kb_state =
  kb_to_release :: "(string, kb_event) hmap"
  kb_modifiers :: "(string, bool) hmap"
  kb_sent :: "key_event list"

text \<open>The peer's platform, the state of a local key, the tables of \<open>rdev\<close> from its key codes.\<close>

record kb_env =
  kc_peer :: string
  kc_key_state :: "enigo_key \<Rightarrow> bool"
  kc_to_windows :: "u32 \<Rightarrow> u32 option"
  kc_to_macos :: "u32 \<Rightarrow> u32 option"
  kc_to_macos_iso :: "u32 \<Rightarrow> u32 option"
  kc_to_android :: "u32 \<Rightarrow> u32 option"
  kc_cast :: "u32 \<Rightarrow> u32"
  kc_iso_layout :: bool

definition kb_new :: kb_state where
  "kb_new =
     \<lparr>kb_to_release = [],
      kb_modifiers = map (\<lambda>k. (k, False))
        [''ShiftLeft'', ''ShiftRight'', ''ControlLeft'', ''ControlRight'', ''Alt'', ''AltGr'', ''MetaLeft'', ''MetaRight''],
      kb_sent = []\<rparr>"

definition kb_key :: "kb_event \<Rightarrow> string option" where
  "kb_key ev = (case kv_kind ev of KbPress k \<Rightarrow> Some k | KbRelease k \<Rightarrow> Some k | KbOther \<Rightarrow> None)"

definition kb_send :: "key_event \<Rightarrow> kb_state \<Rightarrow> kb_state" where
  "kb_send evt s = s\<lparr>kb_sent := kb_sent s @ [evt]\<rparr>"

definition key_event_new :: key_event where
  "key_event_new = \<lparr>ke_down = False, ke_press = False, ke_union = None, ke_modifiers = [], ke_mode = KmLegacy\<rparr>"

section \<open>Modifiers and lock keys\<close>

definition is_long_press :: "kb_event \<Rightarrow> kb_state \<Rightarrow> bool" where
  "is_long_press ev s = (case kv_kind ev of KbPress k \<Rightarrow> hm_get (kb_modifiers s) k = Some True | _ \<Rightarrow> False)"

definition update_modifiers_state :: "kb_event \<Rightarrow> kb_state \<Rightarrow> kb_state" where
  "update_modifiers_state ev s =
     (case kv_kind ev of
        KbPress k \<Rightarrow> if hm_get (kb_modifiers s) k \<noteq> None then s\<lparr>kb_modifiers := hm_insert k True (kb_modifiers s)\<rparr> else s
      | KbRelease k \<Rightarrow> if hm_get (kb_modifiers s) k \<noteq> None then s\<lparr>kb_modifiers := hm_insert k False (kb_modifiers s)\<rparr> else s
      | KbOther \<Rightarrow> s)"

definition mod_down :: "kb_state \<Rightarrow> string \<Rightarrow> bool" where
  "mod_down s k = (hm_get (kb_modifiers s) k = Some True)"

definition get_modifiers_state :: "kb_state \<Rightarrow> bool \<Rightarrow> bool \<Rightarrow> bool \<Rightarrow> bool \<Rightarrow> bool \<times> bool \<times> bool \<times> bool" where
  "get_modifiers_state s alt ctrl shift command =
     (let ctrl = (mod_down s ''ControlLeft'' \<or> mod_down s ''ControlRight'' \<or> ctrl);
          shift = (mod_down s ''ShiftLeft'' \<or> mod_down s ''ShiftRight'' \<or> shift);
          command = (mod_down s ''MetaLeft'' \<or> mod_down s ''MetaRight'' \<or> command);
          alt = (mod_down s ''Alt'' \<or> mod_down s ''AltGr'' \<or> alt)
      in (alt, ctrl, shift, command))"

definition is_control_key :: "key_event \<Rightarrow> control_key \<Rightarrow> bool" where
  "is_control_key evt key = (case ke_union evt of Some (KeyControl ck) \<Rightarrow> ck_value ck = ck_value key | _ \<Rightarrow> False)"

definition push_modifier :: "control_key \<Rightarrow> key_event \<Rightarrow> key_event" where
  "push_modifier ck evt = evt\<lparr>ke_modifiers := ke_modifiers evt @ [ck]\<rparr>"

definition legacy_modifiers :: "key_event \<Rightarrow> bool \<Rightarrow> bool \<Rightarrow> bool \<Rightarrow> bool \<Rightarrow> key_event" where
  "legacy_modifiers evt alt ctrl shift command =
     (let evt = (if alt \<and> \<not> is_control_key evt CkAlt \<and> \<not> is_control_key evt CkRAlt then push_modifier CkAlt evt else evt);
          evt = (if shift \<and> \<not> is_control_key evt CkShift \<and> \<not> is_control_key evt CkRShift then push_modifier CkShift evt else evt);
          evt = (if ctrl \<and> \<not> is_control_key evt CkControl \<and> \<not> is_control_key evt CkRControl then push_modifier CkControl evt else evt)
      in if command \<and> \<not> is_control_key evt CkMeta \<and> \<not> is_control_key evt CkRWin then push_modifier CkMeta evt else evt)"

definition is_numpad_key :: "kb_event \<Rightarrow> bool" where
  "is_numpad_key ev = (case kb_key ev of Some k \<Rightarrow> is_numpad_rdev_key k | None \<Rightarrow> False)"

definition is_letter_rdev_key :: "string \<Rightarrow> bool" where
  "is_letter_rdev_key k \<longleftrightarrow> k \<in> set (map (\<lambda>c. ''Key'' @ [c]) ''ABCDEFGHIJKLMNOPQRSTUVWXYZ'')"

definition is_letter_key :: "kb_event \<Rightarrow> bool" where
  "is_letter_key ev = (case kb_key ev of Some k \<Rightarrow> is_letter_rdev_key k | None \<Rightarrow> False)"

definition parse_add_lock_modes_modifiers :: "i32 \<Rightarrow> bool \<Rightarrow> bool \<Rightarrow> key_event \<Rightarrow> key_event" where
  "parse_add_lock_modes_modifiers lock_modes numpad letter evt =
     (let evt = (if letter \<and> bit lock_modes 1 then push_modifier (CkOther 3) evt else evt)
      in if numpad \<and> bit lock_modes 2 then push_modifier (CkOther 63) evt else evt)"

definition add_lock_modes_modifiers :: "kb_env \<Rightarrow> bool \<Rightarrow> bool \<Rightarrow> key_event \<Rightarrow> key_event" where
  "add_lock_modes_modifiers e numpad letter evt =
     (let evt = (if letter \<and> kc_key_state e EkCapsLock then push_modifier (CkOther 3) evt else evt)
      in if numpad \<and> kc_key_state e EkNumLock then push_modifier (CkOther 63) evt else evt)"

definition convert_numpad_keys :: "kb_env \<Rightarrow> string \<Rightarrow> string" where
  "convert_numpad_keys e key =
     (if kc_key_state e EkNumLock then key
      else
        (case map_of
           [(''Kp0'', ''Insert''), (''KpDecimal'', ''Delete''), (''Kp1'', ''End''), (''Kp2'', ''DownArrow''),
            (''Kp3'', ''PageDown''), (''Kp4'', ''LeftArrow''), (''Kp5'', ''Clear''), (''Kp6'', ''RightArrow''),
            (''Kp7'', ''Home''), (''Kp8'', ''UpArrow''), (''Kp9'', ''PageUp'')] key of
           Some k \<Rightarrow> k | None \<Rightarrow> key))"

section \<open>Legacy mode\<close>

text \<open>The control keys by their numbers, and the characters of the keys.\<close>

definition LEGACY_KEYS :: "(string \<times> nat) list" where
  "LEGACY_KEYS =
     [(''Alt'', 1), (''AltGr'', 75), (''Backspace'', 2), (''ControlRight'', 74), (''DownArrow'', 6),
      (''Escape'', 8), (''F1'', 9), (''F10'', 10), (''F11'', 11), (''F12'', 12),
      (''F2'', 13), (''F3'', 14), (''F4'', 15), (''F5'', 16), (''F6'', 17),
      (''F7'', 18), (''F8'', 19), (''F9'', 20), (''LeftArrow'', 22), (''MetaLeft'', 23),
      (''MetaRight'', 64), (''Return'', 27), (''RightArrow'', 28), (''ShiftLeft'', 29), (''ShiftRight'', 73),
      (''Space'', 30), (''Tab'', 31), (''UpArrow'', 32), (''Apps'', 65), (''Cancel'', 43),
      (''Clear'', 44), (''Kana'', 47), (''Hangul'', 48), (''Junja'', 49), (''Final'', 50),
      (''Hanja'', 51), (''Hanji'', 51), (''Lang2'', 53), (''Print'', 55), (''Select'', 54),
      (''Execute'', 56), (''PrintScreen'', 57), (''Help'', 59), (''Sleep'', 60), (''Separator'', 61),
      (''KpReturn'', 72), (''Kp0'', 33), (''Kp1'', 34), (''Kp2'', 35), (''Kp3'', 36),
      (''Kp4'', 37), (''Kp5'', 38), (''Kp6'', 39), (''Kp7'', 40), (''Kp8'', 41),
      (''Kp9'', 42), (''KpDivide'', 70), (''KpMultiply'', 66), (''KpDecimal'', 69), (''KpMinus'', 68),
      (''KpPlus'', 67), (''Home'', 21), (''End'', 7), (''Insert'', 58), (''PageUp'', 26),
      (''PageDown'', 25), (''Pause'', 46), (''ControlLeft'', 4), (''Delete'', 5)]"

definition LEGACY_CHARS :: "(string \<times> char) list" where
  "LEGACY_CHARS =
     [(''Num1'', CHR ''1''), (''Num2'', CHR ''2''), (''Num3'', CHR ''3''), (''Num4'', CHR ''4''), (''Num5'', CHR ''5''),
      (''Num6'', CHR ''6''), (''Num7'', CHR ''7''), (''Num8'', CHR ''8''), (''Num9'', CHR ''9''), (''Num0'', CHR ''0''),
      (''KeyA'', CHR ''a''), (''KeyB'', CHR ''b''), (''KeyC'', CHR ''c''), (''KeyD'', CHR ''d''), (''KeyE'', CHR ''e''),
      (''KeyF'', CHR ''f''), (''KeyG'', CHR ''g''), (''KeyH'', CHR ''h''), (''KeyI'', CHR ''i''), (''KeyJ'', CHR ''j''),
      (''KeyK'', CHR ''k''), (''KeyL'', CHR ''l''), (''KeyM'', CHR ''m''), (''KeyN'', CHR ''n''), (''KeyO'', CHR ''o''),
      (''KeyP'', CHR ''p''), (''KeyQ'', CHR ''q''), (''KeyR'', CHR ''r''), (''KeyS'', CHR ''s''), (''KeyT'', CHR ''t''),
      (''KeyU'', CHR ''u''), (''KeyV'', CHR ''v''), (''KeyW'', CHR ''w''), (''KeyX'', CHR ''x''), (''KeyY'', CHR ''y''),
      (''KeyZ'', CHR ''z''), (''Comma'', CHR '',''), (''Dot'', CHR ''.''), (''SemiColon'', CHR '';''), (''Quote'', CHR 0x27),
      (''LeftBracket'', CHR ''[''), (''RightBracket'', CHR '']''), (''Slash'', CHR ''/''), (''BackSlash'', CHR 0x5C), (''Minus'', CHR ''-''),
      (''Equal'', CHR ''=''), (''BackQuote'', CHR 0x60)]"

definition event_lock_screen :: key_event where
  "event_lock_screen = key_event_new\<lparr>ke_union := Some (KeyControl (CkOther 101)), ke_down := True\<rparr>"

definition event_ctrl_alt_del :: "kb_env \<Rightarrow> key_event" where
  "event_ctrl_alt_del e =
     (if kc_peer e = ''Windows'' then key_event_new\<lparr>ke_union := Some (KeyControl (CkOther 100)), ke_down := True\<rparr>
      else (legacy_modifiers (key_event_new\<lparr>ke_union := Some (KeyControl (CkOther 5))\<rparr>) True True False False)\<lparr>ke_press := True\<rparr>)"

definition utf8_len :: "string \<Rightarrow> nat" where
  "utf8_len s = sum_list (map (\<lambda>c. if (of_char c :: nat) < 128 then 1 else 2) s)"

text \<open>The character of an event; 0 when there is none.\<close>

definition legacy_char :: "kb_event \<Rightarrow> string \<Rightarrow> char" where
  "legacy_char ev key =
     (let chr = (case Option.bind (kv_unicode ev) ku_name of
                   Some s \<Rightarrow> if utf8_len s \<le> 2 \<and> s \<noteq> [] then hd s else CHR 0x00
                 | None \<Rightarrow> CHR 0x00);
          chr = (if chr = CHR 0xB7 then CHR 0x60 else chr)
      in if chr = CHR 0x00 then (case map_of LEGACY_CHARS key of Some c \<Rightarrow> c | None \<Rightarrow> CHR 0x00) else chr)"

definition kb_legacy_mode :: "kb_env \<Rightarrow> kb_event \<Rightarrow> key_event \<Rightarrow> kb_state \<Rightarrow> key_event list \<times> kb_state" where
  "kb_legacy_mode e ev evt s =
     (case kv_kind ev of
        KbOther \<Rightarrow> ([], s)
      | kind \<Rightarrow>
          (let (key, down) = (case kind of KbPress k \<Rightarrow> (k, True) | KbRelease k \<Rightarrow> (k, False) | KbOther \<Rightarrow> ([], False));
               is_win = (kc_peer e = ''Windows'');
               key = (if is_win then convert_numpad_keys e key else key);
               alt = kc_key_state e EkAlt;
               ctrl = (kc_key_state e EkControl \<or> kc_key_state e EkRightControl);
               shift = (kc_key_state e EkShift \<or> kc_key_state e EkRightShift);
               command = kc_key_state e EkMeta;
               chr = legacy_char ev key;
               finish = (\<lambda>evt.
                 let (alt, ctrl, shift, command) = get_modifiers_state s alt ctrl shift command;
                     evt = legacy_modifiers evt alt ctrl shift command
                 in ([if down then evt\<lparr>ke_down := True\<rparr> else evt], s))
           in if key = ''Delete'' \<and> is_win \<and> ctrl \<and> alt then ([], kb_send (event_ctrl_alt_del e) s)
              else if key \<in> set [''CapsLock'', ''NumLock'', ''ScrollLock''] then ([], s)
              else
                (case map_of LEGACY_KEYS key of
                   Some k \<Rightarrow> finish (evt\<lparr>ke_union := Some (KeyControl (CkOther k))\<rparr>)
                 | None \<Rightarrow>
                     if chr = CHR 0x00 then ([], s)
                     else if chr = CHR ''l'' \<and> is_win \<and> command then ([], kb_send event_lock_screen s)
                     else finish (evt\<lparr>ke_union := Some (KeyChr (of_char chr))\<rparr>))))"

section \<open>Map and translate mode\<close>

text \<open>The key code at the peer, whose platform is given in lower case and without spaces.\<close>

definition peer_code :: "kb_env \<Rightarrow> string \<Rightarrow> u32 \<Rightarrow> u32 option" where
  "peer_code e peer pc =
     (if peer = ''windows'' then kc_to_windows e pc
      else if peer = ''macos'' then (if kc_iso_layout e then kc_to_macos_iso e pc else kc_to_macos e pc)
      else if peer = ''android'' then kc_to_android e pc
      else Some (kc_cast e pc))"

definition kb_map_mode :: "kb_env \<Rightarrow> string \<Rightarrow> kb_event \<Rightarrow> key_event \<Rightarrow> key_event option" where
  "kb_map_mode e peer ev evt =
     (case kv_kind ev of
        KbOther \<Rightarrow> None
      | kind \<Rightarrow>
          (case peer_code e peer (kv_position ev) of
             None \<Rightarrow> None
           | Some c \<Rightarrow> Some (evt\<lparr>ke_down := (case kind of KbPress _ \<Rightarrow> True | _ \<Rightarrow> False), ke_union := Some (KeyChr c)\<rparr>)))"

definition try_fill_unicode :: "kb_event \<Rightarrow> key_event \<Rightarrow> key_event list" where
  "try_fill_unicode ev evt =
     (case Option.bind (kv_unicode ev) ku_name of
        Some name \<Rightarrow> if name \<noteq> [] then [evt\<lparr>ke_union := Some (KeySeq name), ke_down := True\<rparr>] else []
      | None \<Rightarrow> [])"

definition is_altgr :: "kb_event \<Rightarrow> bool" where
  "is_altgr ev \<longleftrightarrow> kv_platform ev = 0xFE03"

definition kb_is_press :: "kb_event \<Rightarrow> bool" where
  "kb_is_press ev = (case kv_kind ev of KbPress _ \<Rightarrow> True | _ \<Rightarrow> False)"

definition kb_translate_mode :: "kb_env \<Rightarrow> string \<Rightarrow> kb_event \<Rightarrow> key_event \<Rightarrow> key_event list" where
  "kb_translate_mode e peer ev evt =
     (let mapped = (case kb_map_mode e peer ev evt of Some x \<Rightarrow> [x] | None \<Rightarrow> []) in
      if (case kv_unicode ev of Some u \<Rightarrow> ku_dead u | None \<Rightarrow> False) then []
      else if is_numpad_key ev then mapped
      else if is_altgr ev then []
      else
        (let events = (if kb_is_press ev then try_fill_unicode ev evt else [])
         in if events = [] then mapped else events))"

definition is_blank :: "char \<Rightarrow> bool" where
  "is_blank c \<longleftrightarrow> c = CHR '' '' \<or> (9 \<le> (of_char c :: nat) \<and> (of_char c :: nat) \<le> 13)"

definition event_to_key_events ::
    "kb_env \<Rightarrow> kb_event \<Rightarrow> keyboard_mode \<Rightarrow> i32 option \<Rightarrow> kb_state \<Rightarrow> key_event list \<times> kb_state" where
  "event_to_key_events e ev mode lock_modes s =
     (let s = update_modifiers_state ev s;
          s = (case kv_kind ev of
                 KbPress k \<Rightarrow> s\<lparr>kb_to_release := hm_insert k ev (kb_to_release s)\<rparr>
               | KbRelease k \<Rightarrow> s\<lparr>kb_to_release := hm_remove k (kb_to_release s)\<rparr>
               | KbOther \<Rightarrow> s);
          peer = filter (\<lambda>c. \<not> is_blank c) (map lower_char (kc_peer e));
          evt = key_event_new\<lparr>ke_mode := mode\<rparr>;
          (evts, s) =
            (case mode of
               KmMap \<Rightarrow> ((case kb_map_mode e peer ev evt of Some x \<Rightarrow> [x] | None \<Rightarrow> []), s)
             | KmTranslate \<Rightarrow> (kb_translate_mode e peer ev evt, s)
             | _ \<Rightarrow> kb_legacy_mode e ev evt s);
          numpad = is_numpad_key ev
      in (if mode \<noteq> KmTranslate \<or> numpad then
            map (case lock_modes of
                   Some l \<Rightarrow> parse_add_lock_modes_modifiers l numpad (is_letter_key ev)
                 | None \<Rightarrow> add_lock_modes_modifiers e numpad (is_letter_key ev)) evts
          else evts, s))"

definition get_keyboard_mode_enum :: "string \<Rightarrow> keyboard_mode" where
  "get_keyboard_mode_enum mode =
     (if mode = ''map'' then KmMap else if mode = ''translate'' then KmTranslate
      else if mode = ''legacy'' then KmLegacy else KmMap)"

definition process_event :: "kb_env \<Rightarrow> string \<Rightarrow> i32 option \<Rightarrow> kb_event \<Rightarrow> kb_state \<Rightarrow> kb_state" where
  "process_event e mode lock_modes ev s =
     (if is_long_press ev s then s
      else
        (let (evts, s) = event_to_key_events e ev (get_keyboard_mode_enum mode) lock_modes s
         in fold kb_send evts s))"

text \<open>Alt is pressed and released once more.\<close>

definition release_one :: "kb_env \<Rightarrow> string \<Rightarrow> string \<times> kb_event \<Rightarrow> kb_state \<Rightarrow> kb_state" where
  "release_one e mode x s =
     (let (key, ev) = x;
          up = ev\<lparr>kv_kind := KbRelease key\<rparr>;
          s = process_event e mode None up s
      in if key = ''Alt'' \<or> key = ''AltGr''
         then process_event e mode None up (process_event e mode None (ev\<lparr>kv_kind := KbPress key\<rparr>) s)
         else s)"

definition release_remote_keys :: "kb_env \<Rightarrow> string \<Rightarrow> kb_state \<Rightarrow> kb_state" where
  "release_remote_keys e mode s = fold (release_one e mode) (kb_to_release s) (s\<lparr>kb_to_release := []\<rparr>)"

text \<open>\<open>change_grab_status\<close>: whether the keyboard is grabbed is the answer.\<close>

datatype grab_state = GrabReady | GrabRun | GrabWait | GrabExit

definition change_grab_status :: "kb_env \<Rightarrow> bool \<Rightarrow> grab_state \<Rightarrow> string \<Rightarrow> bool \<times> kb_state \<Rightarrow> bool \<times> kb_state" where
  "change_grab_status e rdev_enabled g mode x =
     (if \<not> rdev_enabled then x
      else case g of
          GrabRun \<Rightarrow> (True, snd x)
        | GrabWait \<Rightarrow> (False, release_remote_keys e mode (snd x))
        | _ \<Rightarrow> x)"

end
