(* ===== verification/Keyboard_Release.thy ===== *)
theory Keyboard_Release
  imports Keyboard
begin

text \<open>
  The keyboard of the controlling side composed with the input of the host: in the map and the translate mode
  no key is left down at the host once the window has lost the keyboard.
\<close>

section \<open>What the host does with an event\<close>

lemma locks_raw [simp]:
  "held_raw (snd (lock_modes_new e evt numpad s)) = held_raw s" "held_raw (lock_modes_drop h s) = held_raw s"
  "is_exiting (snd (lock_modes_new e evt numpad s)) = is_exiting s" "is_exiting (lock_modes_drop h s) = is_exiting s"
  by (simp_all add: lock_modes_new_def lock_modes_drop_def Let_def)

lemma position_raw [simp]:
  "held_raw (simulate_position h c down x) =
     (if down then insert (RdRaw (ie_keycode h c)) (held_raw x) else held_raw x - {RdRaw (ie_keycode h c)})"
  "is_exiting (simulate_position h c down x) = is_exiting x"
  by (simp_all add: simulate_position_def) (simp add: record_pressed_key_def)

lemma clicked_raw [simp]:
  "held_raw (fold (\<lambda>c. in_emit (IeKeyClick (EkLayout (of_char c)))) t x) = held_raw x"
  "is_exiting (fold (\<lambda>c. in_emit (IeKeyClick (EkLayout (of_char c)))) t x) = is_exiting x"
  by (induction t arbitrary: x) simp_all

lemma handle_key_raw:
  assumes "ie_x11 h" and "\<not> is_exiting x" and "ke_mode evt = KmMap \<or> ke_mode evt = KmTranslate" and "ke_union evt = Some (KeyChr c)"
  shows "held_raw (handle_key h evt x) =
    (if ke_down evt then insert (RdRaw (ie_keycode h c)) (held_raw x) else held_raw x - {RdRaw (ie_keycode h c)})"
    and "\<not> is_exiting (handle_key h evt x)"
proof -
  obtain l x1 where l: "(case lock_handler_for h evt of
      Some numpad \<Rightarrow> lock_modes_new h evt numpad x | None \<Rightarrow> ((False, False), x)) = (l, x1)" by fastforce
  then have "x1 = x \<or> (\<exists>n. x1 = snd (lock_modes_new h evt n x))"
    by (cases "lock_handler_for h evt") (auto, metis snd_conv)
  then have x1: "held_raw x1 = held_raw x" "is_exiting x1 = is_exiting x" by auto
  have "handle_key h evt x = lock_modes_drop l (simulate_position h c (ke_down evt) x1)"
    using assms l by (auto simp: handle_key_def map_keyboard_mode_def translate_keyboard_mode_def key_chr_def)
  then show "held_raw (handle_key h evt x) =
      (if ke_down evt then insert (RdRaw (ie_keycode h c)) (held_raw x) else held_raw x - {RdRaw (ie_keycode h c)})"
    "\<not> is_exiting (handle_key h evt x)"
    using x1 assms(2) by simp_all
qed

lemma handle_seq_raw:
  assumes "\<not> is_exiting x" and "ke_mode evt = KmTranslate" and "ke_union evt = Some (KeySeq t)"
  shows "held_raw (handle_key h evt x) \<subseteq> held_raw x" and "\<not> is_exiting (handle_key h evt x)"
proof -
  obtain l x1 where l: "lock_modes_new h evt False x = (l, x1)" by fastforce
  then have x1: "held_raw x1 = held_raw x" "is_exiting x1 = is_exiting x"
    using locks_raw(1,3) [of h evt False x] by simp_all
  have "handle_key h evt x = lock_modes_drop l (translate_keyboard_mode h evt x1)"
    using assms l by (simp add: handle_key_def lock_handler_for_def)
  then show "held_raw (handle_key h evt x) \<subseteq> held_raw x" "\<not> is_exiting (handle_key h evt x)"
    using x1 assms by (auto simp: translate_keyboard_mode_def Let_def split: if_splits)
qed

section \<open>A keyboard\<close>

text \<open>The position of a key, whether it is the AltGr key of its layout and whether it is a dead key do not
  change while it is used.\<close>

definition is_dead :: "kb_event \<Rightarrow> bool" where
  "is_dead ev = (case kv_unicode ev of Some u \<Rightarrow> ku_dead u | None \<Rightarrow> False)"

definition kb_regular :: "(string \<Rightarrow> u32) \<Rightarrow> (string \<Rightarrow> bool) \<Rightarrow> (string \<Rightarrow> bool) \<Rightarrow> kb_event \<Rightarrow> bool" where
  "kb_regular pos ag dd ev \<longleftrightarrow>
     (case kv_kind ev of
        KbPress k \<Rightarrow> kv_position ev = pos k \<and> is_altgr ev = ag k \<and> is_dead ev = dd k
      | KbRelease k \<Rightarrow> kv_position ev = pos k \<and> is_altgr ev = ag k \<and> (is_dead ev \<longrightarrow> dd k)
      | KbOther \<Rightarrow> True)"

definition peer_name :: "kb_env \<Rightarrow> string" where
  "peer_name e = filter (\<lambda>c. \<not> is_blank c) (map lower_char (kc_peer e))"

text \<open>What of a key can be down at the host.\<close>

definition raw_of :: "kb_env \<Rightarrow> input_env \<Rightarrow> keyboard_mode \<Rightarrow> (string \<Rightarrow> u32) \<Rightarrow> (string \<Rightarrow> bool) \<Rightarrow> (string \<Rightarrow> bool) \<Rightarrow> string \<Rightarrow> rdev_input set" where
  "raw_of e h m pos ag dd k =
     (if m = KmMap \<or> \<not> dd k \<and> (is_numpad_rdev_key k \<or> \<not> ag k)
      then (case peer_code e (peer_name e) (pos k) of Some c \<Rightarrow> {RdRaw (ie_keycode h c)} | None \<Rightarrow> {})
      else {})"

definition host_keys :: "input_env \<Rightarrow> key_event list \<Rightarrow> input_state \<Rightarrow> input_state" where
  "host_keys h evts x = fold (handle_key h) evts x"

lemma host_keys_simps [simp]:
  "host_keys h [] x = x" "host_keys h (evt # evts) x = host_keys h evts (handle_key h evt x)"
  "host_keys h (evts @ evts') x = host_keys h evts' (host_keys h evts x)"
  by (simp_all add: host_keys_def)

section \<open>One event\<close>

lemma lock_modifiers_kept [simp]:
  "ke_union (add_lock_modes_modifiers e n l evt) = ke_union evt" "ke_mode (add_lock_modes_modifiers e n l evt) = ke_mode evt"
  "ke_down (add_lock_modes_modifiers e n l evt) = ke_down evt"
  "ke_union (parse_add_lock_modes_modifiers i n l evt) = ke_union evt"
  "ke_mode (parse_add_lock_modes_modifiers i n l evt) = ke_mode evt"
  "ke_down (parse_add_lock_modes_modifiers i n l evt) = ke_down evt"
  by (simp_all add: add_lock_modes_modifiers_def parse_add_lock_modes_modifiers_def push_modifier_def Let_def)

lemma kb_send_kept [simp]:
  "kb_to_release (kb_send evt s) = kb_to_release s" "kb_sent (kb_send evt s) = kb_sent s @ [evt]"
  "kb_to_release (update_modifiers_state ev s) = kb_to_release s" "kb_sent (update_modifiers_state ev s) = kb_sent s"
  by (simp_all add: kb_send_def update_modifiers_state_def split: kb_kind.splits)

text \<open>The events of the map and the translate mode: none, a key, or a text.\<close>

definition mode_events :: "kb_env \<Rightarrow> kb_event \<Rightarrow> keyboard_mode \<Rightarrow> key_event list" where
  "mode_events e ev m =
     (let evt = key_event_new\<lparr>ke_mode := m\<rparr>
      in if m = KmMap then (case kb_map_mode e (peer_name e) ev evt of Some x \<Rightarrow> [x] | None \<Rightarrow> [])
         else kb_translate_mode e (peer_name e) ev evt)"

lemma map_mode_cases:
  "kb_map_mode e peer ev evt = None \<or>
   (\<exists>c. peer_code e peer (kv_position ev) = Some c \<and> kv_kind ev \<noteq> KbOther \<and>
     kb_map_mode e peer ev evt = Some (evt\<lparr>ke_down := kb_is_press ev, ke_union := Some (KeyChr c)\<rparr>))"
  by (auto simp: kb_map_mode_def kb_is_press_def split: kb_kind.splits option.splits)

text \<open>Whether a key is sent as a key.\<close>

definition sent_as_key :: "keyboard_mode \<Rightarrow> kb_event \<Rightarrow> bool" where
  "sent_as_key m ev \<longleftrightarrow> m = KmMap \<or> \<not> is_dead ev \<and> (is_numpad_key ev \<or> \<not> is_altgr ev)"

lemma mode_events_eq:
  "mode_events e ev m =
     (let evt = key_event_new\<lparr>ke_mode := m\<rparr>;
          mapped = (case kb_map_mode e (peer_name e) ev evt of Some x \<Rightarrow> [x] | None \<Rightarrow> [])
      in if \<not> sent_as_key m ev then []
         else if m \<noteq> KmMap \<and> \<not> is_numpad_key ev \<and> kb_is_press ev \<and> try_fill_unicode ev evt \<noteq> []
         then try_fill_unicode ev evt else mapped)"
  by (simp add: mode_events_def kb_translate_mode_def sent_as_key_def is_dead_def Let_def)

lemma mode_events_cases:
  "mode_events e ev m = [] \<or>
   (\<exists>c. mode_events e ev m = [key_event_new\<lparr>ke_mode := m, ke_down := kb_is_press ev, ke_union := Some (KeyChr c)\<rparr>] \<and>
      peer_code e (peer_name e) (kv_position ev) = Some c \<and> sent_as_key m ev) \<or>
   (\<exists>t. mode_events e ev m = [key_event_new\<lparr>ke_mode := m, ke_union := Some (KeySeq t), ke_down := True\<rparr>] \<and>
      m \<noteq> KmMap \<and> kb_is_press ev)"
proof (cases "sent_as_key m ev")
  case True
  then show ?thesis
    using map_mode_cases [of e "peer_name e" ev "key_event_new\<lparr>ke_mode := m\<rparr>"]
    by (auto simp: mode_events_eq Let_def try_fill_unicode_def split: option.splits)
qed (simp add: mode_events_eq)

lemma mode_events_release:
  assumes "kv_kind ev = KbRelease k" and "sent_as_key m ev" and "peer_code e (peer_name e) (kv_position ev) = Some c"
  shows "mode_events e ev m = [key_event_new\<lparr>ke_mode := m, ke_down := False, ke_union := Some (KeyChr c)\<rparr>]"
  using assms by (simp add: mode_events_eq kb_map_mode_def kb_is_press_def Let_def)

text \<open>What an event adds to the keys that are kept, and to what is sent.\<close>

definition kept_keys :: "kb_state \<Rightarrow> string set" where
  "kept_keys s = fst ` set (kb_to_release s)"

lemma event_effect:
  assumes "get_keyboard_mode_enum mode = m" and "m = KmMap \<or> m = KmTranslate" and "\<not> is_long_press ev s"
  shows "kb_sent (process_event e mode None ev s) = kb_sent s @
      map (\<lambda>evt. if m \<noteq> KmTranslate \<or> is_numpad_key ev
                 then add_lock_modes_modifiers e (is_numpad_key ev) (is_letter_key ev) evt else evt) (mode_events e ev m)"
    and "kb_to_release (process_event e mode None ev s) =
      (case kv_kind ev of KbPress k \<Rightarrow> hm_insert k ev (kb_to_release s) | KbRelease k \<Rightarrow> hm_remove k (kb_to_release s)
       | KbOther \<Rightarrow> kb_to_release s)"
proof -
  have f: "kb_sent (fold kb_send evts s') = kb_sent s' @ evts" "kb_to_release (fold kb_send evts s') = kb_to_release s'" for evts s'
    by (induction evts arbitrary: s') simp_all
  show "kb_sent (process_event e mode None ev s) = kb_sent s @
      map (\<lambda>evt. if m \<noteq> KmTranslate \<or> is_numpad_key ev
                 then add_lock_modes_modifiers e (is_numpad_key ev) (is_letter_key ev) evt else evt) (mode_events e ev m)"
    using assms f
    by (auto simp: process_event_def event_to_key_events_def mode_events_def peer_name_def Let_def split: kb_kind.splits)
  show "kb_to_release (process_event e mode None ev s) =
      (case kv_kind ev of KbPress k \<Rightarrow> hm_insert k ev (kb_to_release s) | KbRelease k \<Rightarrow> hm_remove k (kb_to_release s)
       | KbOther \<Rightarrow> kb_to_release s)"
    using assms f
    by (auto simp: process_event_def event_to_key_events_def Let_def split: kb_kind.splits)
qed

section \<open>The invariant\<close>

text \<open>What is down at the host belongs to a key that is kept, or that is still to be released.\<close>

definition kb_tracked ::
    "kb_env \<Rightarrow> input_env \<Rightarrow> keyboard_mode \<Rightarrow> (string \<Rightarrow> u32) \<Rightarrow> (string \<Rightarrow> bool) \<Rightarrow> (string \<Rightarrow> bool) \<Rightarrow>
     input_state \<Rightarrow> string set \<Rightarrow> kb_state \<Rightarrow> bool" where
  "kb_tracked e h m pos ag dd x0 pending s \<longleftrightarrow>
     \<not> is_exiting (host_keys h (kb_sent s) x0) \<and>
     (\<forall>(k, ev) \<in> set (kb_to_release s). kv_kind ev = KbPress k \<and> kb_regular pos ag dd ev) \<and>
     held_raw (host_keys h (kb_sent s) x0) \<subseteq> (\<Union>k \<in> kept_keys s \<union> pending. raw_of e h m pos ag dd k)"

lemma sent_press:
  "kv_kind ev = KbPress k \<Longrightarrow> kb_regular pos ag dd ev \<Longrightarrow> sent_as_key m ev \<Longrightarrow>
   peer_code e (peer_name e) (kv_position ev) = Some c \<Longrightarrow> raw_of e h m pos ag dd k = {RdRaw (ie_keycode h c)}"
  by (auto simp: kb_regular_def sent_as_key_def raw_of_def is_numpad_key_def kb_key_def)

lemma sent_release:
  "kv_kind ev = KbRelease k \<Longrightarrow> kb_regular pos ag dd ev \<Longrightarrow> r \<in> raw_of e h m pos ag dd k \<Longrightarrow>
   sent_as_key m ev \<and> (\<exists>c. peer_code e (peer_name e) (kv_position ev) = Some c \<and> r = RdRaw (ie_keycode h c))"
  by (auto simp: kb_regular_def sent_as_key_def raw_of_def is_numpad_key_def kb_key_def split: if_splits option.splits)

lemma raw_of_single: "r \<in> raw_of e h m pos ag dd k \<Longrightarrow> raw_of e h m pos ag dd k = {r}"
  by (auto simp: raw_of_def split: if_splits option.splits)

lemma key_event_kept [simp]:
  "ke_union (key_event_new\<lparr>ke_mode := a, ke_down := d, ke_union := u\<rparr>) = u"
  by simp

text \<open>The events of one local event, at the host.\<close>

lemma host_events:
  fixes e :: kb_env and ev :: kb_event
  assumes "ie_x11 h" and "\<not> is_exiting x" and "m = KmMap \<or> m = KmTranslate"
    and "\<And>evt. ke_union (f evt) = ke_union evt \<and> ke_mode (f evt) = ke_mode evt \<and> ke_down (f evt) = ke_down evt"
  defines "x' \<equiv> host_keys h (map f (mode_events e ev m)) x"
  shows "\<not> is_exiting x'"
    and "kb_regular pos ag dd ev \<Longrightarrow> kv_kind ev = KbPress k \<Longrightarrow> held_raw x' \<subseteq> held_raw x \<union> raw_of e h m pos ag dd k"
    and "kb_regular pos ag dd ev \<Longrightarrow> kv_kind ev = KbRelease k \<Longrightarrow> held_raw x' \<subseteq> held_raw x - raw_of e h m pos ag dd k"
    and "kv_kind ev = KbOther \<Longrightarrow> held_raw x' \<subseteq> held_raw x"
proof -
  have key: "held_raw (handle_key h (f (key_event_new\<lparr>ke_mode := m, ke_down := d, ke_union := Some (KeyChr c)\<rparr>)) x) =
      (if d then insert (RdRaw (ie_keycode h c)) (held_raw x) else held_raw x - {RdRaw (ie_keycode h c)})"
    "\<not> is_exiting (handle_key h (f (key_event_new\<lparr>ke_mode := m, ke_down := d, ke_union := Some (KeyChr c)\<rparr>)) x)" for d c
    using handle_key_raw [of h x "f (key_event_new\<lparr>ke_mode := m, ke_down := d, ke_union := Some (KeyChr c)\<rparr>)" c] assms(1-4) by auto
  have typed: "held_raw (handle_key h (f (key_event_new\<lparr>ke_mode := m, ke_union := Some (KeySeq t), ke_down := True\<rparr>)) x) \<subseteq> held_raw x"
    "\<not> is_exiting (handle_key h (f (key_event_new\<lparr>ke_mode := m, ke_union := Some (KeySeq t), ke_down := True\<rparr>)) x)"
    if "m \<noteq> KmMap" for t
    using handle_seq_raw [of x "f (key_event_new\<lparr>ke_mode := m, ke_union := Some (KeySeq t), ke_down := True\<rparr>)" t h] assms(2-4) that
    by auto
  note cases = mode_events_cases [of e ev m]
  show "\<not> is_exiting x'" using cases key typed assms(2) by (auto simp: x'_def)
  show "held_raw x' \<subseteq> held_raw x \<union> raw_of e h m pos ag dd k" if "kb_regular pos ag dd ev" "kv_kind ev = KbPress k"
    using cases key typed(2) sent_press [OF that(2,1)]
    by (auto simp: x'_def split: if_splits dest: rev_subsetD [OF _ typed(1)])
  show "held_raw x' \<subseteq> held_raw x" if "kv_kind ev = KbOther"
    using cases key typed(2) that by (auto simp: x'_def kb_is_press_def split: if_splits)
  show "held_raw x' \<subseteq> held_raw x - raw_of e h m pos ag dd k" if ev: "kb_regular pos ag dd ev" "kv_kind ev = KbRelease k"
  proof (cases "raw_of e h m pos ag dd k = {}")
    case True
    then show ?thesis using cases key typed(2) ev by (auto simp: x'_def kb_is_press_def split: if_splits)
  next
    case False
    then obtain r where r: "r \<in> raw_of e h m pos ag dd k" by auto
    obtain c where c: "sent_as_key m ev" "peer_code e (peer_name e) (kv_position ev) = Some c" "r = RdRaw (ie_keycode h c)"
      using sent_release [OF ev(2,1) r] by auto
    show ?thesis
      using mode_events_release [OF ev(2) c(1,2)] key(1) [of c False] raw_of_single [OF r] c(3) by (simp add: x'_def)
  qed
qed

lemma long_press_kept: "is_long_press ev s \<Longrightarrow> process_event e mode l ev s = s"
  by (simp add: process_event_def)

text \<open>Every event keeps the invariant, and a release takes its key off those still to be released.\<close>

lemma tracked_event:
  assumes "kb_tracked e h m pos ag dd x0 pending s" and "kb_regular pos ag dd ev" and "ie_x11 h"
    and "get_keyboard_mode_enum mode = m" and "m = KmMap \<or> m = KmTranslate"
  shows "kb_tracked e h m pos ag dd x0 (pending - {k. kv_kind ev = KbRelease k}) (process_event e mode None ev s)"
proof (cases "is_long_press ev s")
  case True
  then show ?thesis
    using assms(1) by (simp add: long_press_kept) (simp add: is_long_press_def split: kb_kind.splits)
next
  case False
  define f where "f = (\<lambda>evt. if m \<noteq> KmTranslate \<or> is_numpad_key ev
                 then add_lock_modes_modifiers e (is_numpad_key ev) (is_letter_key ev) evt else evt)"
  define x where "x = host_keys h (kb_sent s) x0"
  have f: "ke_union (f evt) = ke_union evt \<and> ke_mode (f evt) = ke_mode evt \<and> ke_down (f evt) = ke_down evt" for evt
    by (simp add: f_def)
  have x: "\<not> is_exiting x" "held_raw x \<subseteq> (\<Union>k \<in> kept_keys s \<union> pending. raw_of e h m pos ag dd k)"
    "\<forall>(k, ev) \<in> set (kb_to_release s). kv_kind ev = KbPress k \<and> kb_regular pos ag dd ev"
    using assms(1) by (auto simp: kb_tracked_def x_def)
  have x': "host_keys h (kb_sent (process_event e mode None ev s)) x0 = host_keys h (map f (mode_events e ev m)) x"
    using event_effect(1) [OF assms(4,5) False] by (simp add: f_def x_def)
  note host = host_events [OF assms(3) x(1) assms(5) f, where e = e and ev = ev]
  note kept = event_effect(2) [OF assms(4,5) False, of e]
  show ?thesis
  proof (cases "kv_kind ev")
    case (KbPress k)
    then have "kept_keys (process_event e mode None ev s) = insert k (kept_keys s)"
      using kept by (simp add: kept_keys_def AList.dom_update)
    then show ?thesis
      using x host(1) host(2) [OF assms(2) KbPress] kept KbPress assms(2)
      by (auto simp: kb_tracked_def x' dest!: hm_in_insertD)
  next
    case (KbRelease k)
    then have "kept_keys (process_event e mode None ev s) = kept_keys s - {k}"
      using kept by (auto simp: kept_keys_def AList.delete_eq)
    then show ?thesis
      using x host(1) host(3) [OF assms(2) KbRelease] kept KbRelease
      by (fastforce simp: kb_tracked_def x' dest!: hm_in_removeD)
  next
    case KbOther
    then have "kept_keys (process_event e mode None ev s) = kept_keys s" using kept by (simp add: kept_keys_def)
    then show ?thesis
      using x host(1) host(4) [OF KbOther] kept KbOther by (auto simp: kb_tracked_def x')
  qed
qed

text \<open>The release of one key; Alt is pressed and released again.\<close>

lemma tracked_release_one:
  assumes "kb_tracked e h m pos ag dd x0 pending s" and "kv_kind ev = KbPress k" and "kb_regular pos ag dd ev" and "ie_x11 h"
    and "get_keyboard_mode_enum mode = m" and "m = KmMap \<or> m = KmTranslate"
  shows "kb_tracked e h m pos ag dd x0 (pending - {k}) (release_one e mode (k, ev) s)"
    and "kept_keys (release_one e mode (k, ev) s) \<subseteq> kept_keys s - {k}"
proof -
  define up where "up = ev\<lparr>kv_kind := KbRelease k\<rparr>"
  define down where "down = ev\<lparr>kv_kind := KbPress k\<rparr>"
  have kinds: "kv_kind up = KbRelease k" "kv_kind down = KbPress k" by (simp_all add: up_def down_def)
  have regular: "kb_regular pos ag dd up" "kb_regular pos ag dd down"
    using assms(2,3) by (simp_all add: up_def down_def kb_regular_def is_altgr_def is_dead_def)
  have up: "kb_tracked e h m pos ag dd x0 (p - {k}) (process_event e mode None up t)" if "kb_tracked e h m pos ag dd x0 p t" for p t
    using tracked_event [OF that regular(1) assms(4-6)] kinds by simp
  have down: "kb_tracked e h m pos ag dd x0 p (process_event e mode None down t)" if "kb_tracked e h m pos ag dd x0 p t" for p t
    using tracked_event [OF that regular(2) assms(4-6)] kinds by simp
  show "kb_tracked e h m pos ag dd x0 (pending - {k}) (release_one e mode (k, ev) s)"
    using up [OF assms(1)] up [OF down [OF up [OF assms(1)]]]
    by (simp add: release_one_def Let_def flip: up_def down_def)
  have gone: "kept_keys (process_event e mode None up t) = kept_keys t - {k}" for t
    using event_effect(2) [OF assms(5,6), of up t e] kinds
    by (auto simp: kept_keys_def AList.delete_eq is_long_press_def)
  have "kept_keys (process_event e mode None down t) \<subseteq> insert k (kept_keys t)" for t
    using event_effect(2) [OF assms(5,6), of down t e] kinds long_press_kept [of down t e mode None]
    by (cases "is_long_press down t") (auto simp: kept_keys_def AList.dom_update)
  then show "kept_keys (release_one e mode (k, ev) s) \<subseteq> kept_keys s - {k}"
    using gone by (auto simp: release_one_def Let_def simp flip: up_def down_def)
qed

lemma tracked_release_all:
  assumes "\<forall>(k, ev) \<in> set xs. kv_kind ev = KbPress k \<and> kb_regular pos ag dd ev" and "ie_x11 h"
    and "get_keyboard_mode_enum mode = m" and "m = KmMap \<or> m = KmTranslate"
    and "kb_tracked e h m pos ag dd x0 (fst ` set xs) s" and "kept_keys s = {}"
  shows "held_raw (host_keys h (kb_sent (fold (release_one e mode) xs s)) x0) = {}"
  using assms(1,5,6)
proof (induction xs arbitrary: s)
  case Nil
  then show ?case by (simp add: kb_tracked_def)
next
  case (Cons x xs)
  obtain k ev where x: "x = (k, ev)" by (cases x)
  have ok: "kv_kind ev = KbPress k" "kb_regular pos ag dd ev" using Cons.prems(1) x by auto
  note one = tracked_release_one [OF Cons.prems(2) ok assms(2-4)]
  have "kb_tracked e h m pos ag dd x0 (fst ` set xs) (release_one e mode x s)"
    using one(1) x by (auto simp: kb_tracked_def subset_iff)
  then show ?case
    using Cons.IH [of "release_one e mode x s"] Cons.prems one(2) x by simp
qed

lemma tracked_events:
  assumes "\<forall>ev \<in> set evs. kb_regular pos ag dd ev" and "ie_x11 h" and "get_keyboard_mode_enum mode = m" and "m = KmMap \<or> m = KmTranslate"
    and "kb_tracked e h m pos ag dd x0 {} s"
  shows "kb_tracked e h m pos ag dd x0 {} (fold (process_event e mode None) evs s)"
  using assms(1,5)
proof (induction evs arbitrary: s)
  case (Cons ev evs)
  then show ?case using tracked_event [OF Cons.prems(2) _ assms(2-4), of ev] by simp
qed simp

section \<open>The property\<close>


definition demo_keyboard :: kb_env where
  "demo_keyboard = \<lparr>kc_peer = ''Linux'', kc_key_state = (\<lambda>_. False), kc_to_windows = Some, kc_to_macos = Some,
     kc_to_macos_iso = Some, kc_to_android = Some, kc_cast = id, kc_iso_layout = False\<rparr>"

definition demo_press :: "string \<Rightarrow> u32 \<Rightarrow> kb_event" where
  "demo_press k c = \<lparr>kv_kind = KbPress k, kv_unicode = None, kv_position = c, kv_platform = 0\<rparr>"


end
