(* ===== verification/Spec2Isabelle.thy ===== *)
theory Spec2Isabelle
  imports Bytes_Codec Tcp_Stream Version Password_Security Server Video_QoS Codec_Negotiation Transfer_Job Conn_Lockout Conn_Life
    Client_Login Cm_Process Job_Progress Dir_Ops
    Remote_Safety Remote_Fps Remote_Codec Remote_Removal Session_Rounds
    Key_Exchange Rendezvous_Registration Client_Connect Custom_Server
    Input_Keys Input_Cursor Keyboard_Release
begin

text \<open>
  A verification library of the remote desktop program RustDesk (\<open>src/\<close> and \<open>libs/\<close>, Rust).

  The program. One process on the controlled machine accepts peers; each peer has a
  \<open>Connection\<close> (\<open>src/server/connection.rs\<close>) that runs a loop over the messages of the peer, the
  events of the connection manager and its timers. A connection subscribes to services
  (\<open>src/server/service.rs\<close>, registry in \<open>src/server.rs\<close>), whose threads send it screen, sound and
  cursor. A second process, the connection manager (\<open>src/ui_cm_interface.rs\<close>), shows the
  connections to the user of the machine and writes the files peers send; the two talk over IPC.
  On the controlling machine the login configuration (\<open>src/client.rs\<close>) answers the host's hash,
  keeps what is remembered of a peer and turns the user's options into messages. Both ends keep
  their settings in \<open>libs/hbb_common/src/config.rs\<close>, and talk over the framed and encrypted stream of
  \<open>bytes_codec.rs\<close> and \<open>tcp.rs\<close>.

  Foundations. \<open>Prelude\<close>: machine integers, hash maps (\<open>hmap\<close>), the locales \<open>keyed_store\<close> and
  \<open>machine\<close>. \<open>Rust_Text\<close>: the string operations of the standard library. \<open>Sodium\<close>: the
  cryptographic library as a parameter, its documented laws as predicates.

  The wire. \<open>Bytes_Codec\<close> (\<open>bytes_codec.rs\<close>): frames, and that any split of the bytes into chunks
  delivers the same frames. \<open>Tcp_Stream\<close> (\<open>tcp.rs\<close>): counters and encryption, delivery in order, and
  that replayed or dropped frames only cut the conversation short. \<open>Messages\<close>
  (\<open>message.proto\<close>): the messages the handlers read or write. \<open>Addr_Mangle\<close>, \<open>Version\<close> (\<open>lib.rs\<close>):
  addresses and version numbers.

  The controlled side. \<open>Conn_State\<close>, \<open>Conn_Ops\<close>, \<open>Conn_Options\<close>, \<open>Conn_Login\<close>, \<open>Conn_Message\<close>,
  \<open>Conn_Loop\<close> are the definitions of \<open>connection.rs\<close>: state, small operations, options, the login,
  the handlers of an authorized peer, the loop. \<open>Conn_Frame\<close> and \<open>Conn_Steps\<close> hold what is proved
  once for every handler: which fields a handler leaves alone, and the locales by which a relation
  that holds of the small steps holds of messages and of the loop. On them rest \<open>Conn_Auth\<close> (who gets
  in, what a peer can cause), \<open>Conn_Lockout\<close> (how often a password can be guessed, over all
  connections) and \<open>Conn_Life\<close> (what a connection leaves behind). \<open>Conn_Demo\<close> is the host of the
  witnesses. \<open>Service\<close>, \<open>Server\<close>, \<open>Video_QoS\<close>, \<open>Codec_Negotiation\<close>, \<open>Privacy_Mode\<close> and
  \<open>Password_Security\<close> are the components a connection calls.

  Files. \<open>Transfer_Job\<close> (\<open>fs.rs\<close>): the two ends of a transfer over a model of the file system, and that
  a transfer copies. \<open>Job_Progress\<close>: that sending ends. \<open>Dir_Ops\<close>: directories and their removal.
  \<open>Clipboard_File\<close> (\<open>clipboard_file.rs\<close>, \<open>libs/clipboard/src\<close>): files on the clipboard.

  The connection manager. \<open>Cm_Interface\<close>: the clients, one task's operations and its loop.
  \<open>Cm_Process\<close>: the process as a step relation over all tasks and the user, its reachable states and
  their invariant, and what reaches the clipboard.

  Settings and the controlling side. \<open>Config_Store\<close>, \<open>Peer_Config\<close> (\<open>config.rs\<close>): options, secrets,
  files, restart. \<open>Login_Config\<close>, \<open>Client_Login\<close> (\<open>client.rs\<close>): the login configuration and the
  login; the theorems of \<open>Client_Login\<close> run the client against the host of \<open>Conn_Login\<close>.

  The session of the controlling side. \<open>Session_State\<close> (\<open>src/ui_session_interface.rs\<close>): the
  \<open>Session\<close> as a record that extends the login configuration, the requests of the user
  (\<open>ui_data\<close>, the enum \<open>Data\<close>), the channel to the loop as a queue, and what the session does
  to the outside as a list of effects (\<open>ss_out\<close>: to the host, to the user, to the system).
  \<open>Remote_State\<close>, \<open>Remote_Ui\<close>, \<open>Remote_Peer\<close>, \<open>Remote_Loop\<close> (\<open>src/client/io_loop.rs\<close>): the
  \<open>Remote\<close> as a record that extends the session, its helpers, \<open>handle_msg_from_ui\<close>,
  \<open>handle_msg_from_peer\<close>, and the loop: each arm of its \<open>select\<close> is a definition and
  \<open>remote_step\<close> takes one event and says whether the loop goes on. \<open>Remote_Video\<close> is the thread
  beside it that decodes (\<open>client.rs\<close>). \<open>Session_Rounds\<close> is the system of a session and the
  threads of all its connection attempts, as a step relation with its reachable states.
  \<open>Remote_Frame\<close> proves once for every handler what a turn leaves alone (\<open>steady\<close>); on it
  rest \<open>Remote_Safety\<close> (how a session ends, the microphone, the overwriting of files),
  \<open>Remote_Fps\<close> (the frame rates asked for), \<open>Remote_Codec\<close> (codecs that fail, composed with
  \<open>Codec_Negotiation\<close>) and \<open>Remote_Removal\<close> (the removal of a directory). \<open>Remote_Demo\<close> is the
  session of the witnesses.

  Finding each other. \<open>Net_Address\<close> (\<open>lib.rs\<close>, \<open>socket_client.rs\<close>, \<open>common.rs\<close>): what counts as an
  address, ports, and which server is used. \<open>Rendezvous\<close> (\<open>src/rendezvous_mediator.rs\<close>): the loop
  of the host towards one rendezvous server, over UDP (\<open>udp_step\<close>) or TCP (\<open>tcp_step\<close>), with its local
  variables as a record and the configuration and the statics as the world all loops share; punched
  holes, relays, the direct server and the query of who is online. \<open>Rendezvous_Registration\<close> proves
  that a host stays registered, that one server at a time may change its id, and that registering
  completes. \<open>Client_Connect\<close> (\<open>src/client.rs\<close>): how the controlling side dials, with the network as
  a script; how much an attempt costs, and whom a stream that comes back is for. \<open>Key_Exchange\<close>
  (\<open>client.rs\<close>, \<open>server.rs\<close>, \<open>common.rs\<close>): both ends of the key exchange, what an encrypted stream
  guarantees against whatever arrives, that honest ends agree, and what the exchange does not
  prevent. \<open>Custom_Server\<close> (\<open>src/custom_server.rs\<close>): the settings in the name of the executable.

  Keyboard and mouse. \<open>Keyboard\<close> (\<open>src/keyboard.rs\<close>): the events of the local keyboard become key events
  for the host (\<open>process_event\<close>), and the keys that are down are kept. \<open>Input_Service\<close>
  (\<open>src/server/input_service.rs\<close>): what key and mouse events make the host tell \<open>enigo\<close> and \<open>rdev\<close>, and
  which keys it records. \<open>Input_Keys\<close> proves that recorded keys are released, that the lock keys are left
  as they were and that the modifiers are those of the event, and shows the ways in which a key does stay
  down; \<open>Keyboard_Release\<close> composes both ends. \<open>Input_Cursor\<close>: the services that tell the cursor.

  Conventions. A handler is a function from the state to the new state; the state of a connection is
  one record, the statics of the process (\<open>world\<close>) extended by the fields of the connection. What a
  handler does to the outside is appended to a list of effects, what it reads from the outside is a
  record \<open>env\<close> that may differ at every event. A \<open>Result\<close> is a sum with the error on the left, an
  \<open>Option\<close> is \<open>option\<close>. Machine integers are words of their width and wrap, as in the release
  profile; a length is a natural number. A hash map is an association list with distinct keys, in
  its order of iteration. Loops over messages and timers are sequences of events; no definition
  needs fuel, and the loops that must end are structural recursions or have a termination theorem.
  The build modelled is the Linux desktop one with the feature \<open>flutter\<close>.

  Concurrency. A handler runs as one step; between two steps the shared statics may change
  arbitrarily (\<open>Conn_Life\<close>, \<open>Cm_Process\<close>). Where a handler takes a lock twice and another thread may
  come in between, this is said where it matters (end of \<open>Conn_Lockout\<close>).

  Not modelled: sockets, proxies, the discovery in the local network and the NAT test; capture, codecs, audio devices and
  what \<open>enigo\<close> and \<open>rdev\<close> do, which are bindings to the operating system; the user interfaces; the web API,
  plugins and updates; of the session, port forwarding and the audio
  thread; the input of other platforms; the parts of \<open>connection.rs\<close> that start processes or belong to other
  platforms (the port-forward loop, Windows sessions and portable service); the code the build
  generates.
\<close>

end
